(* ===== verification/Prelude.thy ===== *)
theory Prelude
  imports Main
begin

text \<open>
  What every component shares: the error values of the program, the result type, the
  state-and-error operations the services and the database are written in, and the lemma
  collections of the library.

  Errors are values (Go returns them). The sentinels the code compares with \<open>errors.Is\<close>
  are constructors of their own, \<open>Wrap\<close> is \<open>fmt.Errorf\<close> with the verb \<open>%w\<close>, \<open>Joined\<close> is \<open>errors.Join\<close>, and every other
  error is \<open>Msg\<close> with a short tag in place of the (Chinese) text of the source.
\<close>

datatype err =
    ErrJobNotFound
  | ErrJobCanceled
  | ErrOfflineResultNotFound
  | ErrAssetNotFound
  | ErrRemoteNotFound
  | ErrCredentialNotFound
  | ErrNoRows
  | CtxCanceled
  | CtxDeadlineExceeded
  | JobTimeout
  | OutOfFuel
  | Constraint string
  | Msg string
  | Wrap string err
  | Joined "err list"

text \<open>\<open>OutOfFuel\<close> is no error of the program: a loop of the model that may not end stops with it, and the
  theorems about such a loop show that it does not occur.\<close>

text \<open>\<open>errors.Is\<close>: the error itself, or one it wraps. \<open>jobTimeoutError\<close> unwraps to its cause,
  which the program always sets to \<open>context.DeadlineExceeded\<close>.\<close>

fun errors_is :: "err \<Rightarrow> err \<Rightarrow> bool" where
  "errors_is (Wrap m e) t = (Wrap m e = t \<or> errors_is e t)"
| "errors_is (Joined es) t = (Joined es = t \<or> list_ex (\<lambda>e. errors_is e t) es)"
| "errors_is JobTimeout t = (t = JobTimeout \<or> t = CtxDeadlineExceeded)"
| "errors_is e t = (e = t)"

text \<open>The text the program stores for an error (\<open>err.Error()\<close>), tags in place of messages.\<close>

fun err_text :: "err \<Rightarrow> string" where
  "err_text ErrJobNotFound = ''job not found''"
| "err_text ErrJobCanceled = ''job canceled''"
| "err_text ErrOfflineResultNotFound = ''offline result not found''"
| "err_text ErrAssetNotFound = ''asset not found''"
| "err_text ErrRemoteNotFound = ''remote file not found''"
| "err_text ErrCredentialNotFound = ''credential not found''"
| "err_text ErrNoRows = ''sql: no rows in result set''"
| "err_text CtxCanceled = ''context canceled''"
| "err_text CtxDeadlineExceeded = ''context deadline exceeded''"
| "err_text JobTimeout = ''job timed out''"
| "err_text OutOfFuel = ''out of fuel''"
| "err_text (Constraint c) = ''constraint failed: '' @ c"
| "err_text (Msg m) = m"
| "err_text (Wrap m e) = m @ '': '' @ err_text e"
| "err_text (Joined es) = tl (concat (map (\<lambda>e. char_of (10::nat) # err_text e) es))"

text \<open>A fallible computation over a state: it returns an error or a value, and the state it
  leaves behind, which an error does not undo.\<close>

type_synonym ('w, 'a) io = "'w \<Rightarrow> (err + 'a) \<times> 'w"

definition io_ret :: "'a \<Rightarrow> ('w, 'a) io" where
  "io_ret x = (\<lambda>w. (Inr x, w))"

definition io_fail :: "err \<Rightarrow> ('w, 'a) io" where
  "io_fail e = (\<lambda>w. (Inl e, w))"

definition io_bind :: "('w, 'a) io \<Rightarrow> ('a \<Rightarrow> ('w, 'b) io) \<Rightarrow> ('w, 'b) io" where
  "io_bind m f = (\<lambda>w. case m w of (Inl e, w1) \<Rightarrow> (Inl e, w1) | (Inr x, w1) \<Rightarrow> f x w1)"

text \<open>The code looks at the error of a call instead of returning it at once.\<close>

definition io_try :: "('w, 'a) io \<Rightarrow> (err + 'a \<Rightarrow> ('w, 'b) io) \<Rightarrow> ('w, 'b) io" where
  "io_try m f = (\<lambda>w. case m w of (r, w1) \<Rightarrow> f r w1)"

definition io_of :: "err + 'a \<Rightarrow> ('w, 'a) io" where
  "io_of r = (\<lambda>w. (r, w))"

definition wrap_err :: "string \<Rightarrow> ('w, 'a) io \<Rightarrow> ('w, 'a) io" where
  "wrap_err m f = (\<lambda>w. case f w of (Inl e, w1) \<Rightarrow> (Inl (Wrap m e), w1) | (Inr x, w1) \<Rightarrow> (Inr x, w1))"

text \<open>A database transaction: an error rolls the state back (\<open>defer tx.Rollback()\<close>).\<close>

definition tx :: "('w, 'a) io \<Rightarrow> ('w, 'a) io" where
  "tx m = (\<lambda>w. case m w of (Inl e, w1) \<Rightarrow> (Inl e, w) | (Inr x, w1) \<Rightarrow> (Inr x, w1))"

named_theorems io_defs \<open>definitions of the state-and-error operations\<close>
named_theorems io_eval \<open>equations that run the state-and-error operations\<close>

lemmas io_all_defs [io_defs] =
  io_ret_def io_fail_def io_bind_def io_try_def io_of_def wrap_err_def tx_def

lemma io_ret_run [simp, io_eval]: "io_ret x w = (Inr x, w)"
  by (simp add: io_ret_def)

lemma io_fail_run [simp, io_eval]: "io_fail e w = (Inl e, w)"
  by (simp add: io_fail_def)

lemma io_of_run [simp, io_eval]: "io_of r w = (r, w)"
  by (simp add: io_of_def)

lemma io_bind_Inr [io_eval]: "m w = (Inr x, w1) \<Longrightarrow> io_bind m f w = f x w1"
  by (simp add: io_bind_def)

lemma io_bind_Inl [io_eval]: "m w = (Inl e, w1) \<Longrightarrow> io_bind m f w = (Inl e, w1)"
  by (simp add: io_bind_def)

lemma io_try_run [io_eval]: "m w = (r, w1) \<Longrightarrow> io_try m f w = f r w1"
  by (simp add: io_try_def)

lemma io_bind_eq_Inr:
  "io_bind m f w = (Inr y, w2) \<longleftrightarrow> (\<exists>x w1. m w = (Inr x, w1) \<and> f x w1 = (Inr y, w2))"
proof -
  obtain r v where r: "m w = (r, v)" by (cases "m w")
  show ?thesis by (cases r) (simp_all add: io_bind_def r)
qed

lemma io_bind_eq_Inl:
  "io_bind m f w = (Inl e, w2) \<longleftrightarrow>
     m w = (Inl e, w2) \<or> (\<exists>x w1. m w = (Inr x, w1) \<and> f x w1 = (Inl e, w2))"
proof -
  obtain r v where r: "m w = (r, v)" by (cases "m w")
  show ?thesis by (cases r) (simp_all add: io_bind_def r)
qed

lemma io_bind_ret [simp, io_eval]: "io_bind (io_ret x) f = f x"
  by (simp add: io_bind_def io_ret_def)

lemma io_bind_fail [simp, io_eval]: "io_bind (io_fail e) f = io_fail e"
  by (simp add: io_bind_def io_fail_def)

lemma io_bind_assoc: "io_bind (io_bind m f) g = io_bind m (\<lambda>x. io_bind (f x) g)"
  by (rule ext) (simp add: io_bind_def split: prod.splits sum.splits)

lemma tx_error: "tx m w = (Inl e, w1) \<Longrightarrow> w1 = w"
  by (auto simp: tx_def split: prod.splits sum.splits)

lemma tx_eq_Inr: "tx m w = (Inr x, w1) \<longleftrightarrow> m w = (Inr x, w1)"
  by (auto simp: tx_def split: prod.splits sum.splits)

lemma tx_eq_Inl: "tx m w = (Inl e, w1) \<longleftrightarrow> w1 = w \<and> (\<exists>w2. m w = (Inl e, w2))"
  by (auto simp: tx_def split: prod.splits sum.splits)

text \<open>A predicate kept by a computation, whatever it returns.\<close>

definition keeps :: "('w \<Rightarrow> bool) \<Rightarrow> ('w, 'a) io \<Rightarrow> bool" where
  "keeps P m \<longleftrightarrow> (\<forall>w. P w \<longrightarrow> P (snd (m w)))"

named_theorems keeps_intros \<open>which computations keep a predicate\<close>

lemma keepsI: "(\<And>w. P w \<Longrightarrow> P (snd (m w))) \<Longrightarrow> keeps P m"
  by (simp add: keeps_def)

lemma keepsD: "keeps P m \<Longrightarrow> P w \<Longrightarrow> m w = (r, w1) \<Longrightarrow> P w1"
  by (metis keeps_def snd_conv)

lemma keeps_ret [keeps_intros]: "keeps P (io_ret x)"
  by (simp add: keeps_def)

lemma keeps_fail [keeps_intros]: "keeps P (io_fail e)"
  by (simp add: keeps_def)

lemma keeps_of [keeps_intros]: "keeps P (io_of r)"
  by (simp add: keeps_def)

lemma keeps_bind [keeps_intros]:
  assumes "keeps P m" and "\<And>x. keeps P (f x)"
  shows "keeps P (io_bind m f)"
proof (rule keepsI)
  fix w
  assume "P w"
  obtain r w1 where r: "m w = (r, w1)" by (cases "m w")
  with assms(1) \<open>P w\<close> have "P w1" by (auto intro: keepsD)
  with r assms(2) show "P (snd (io_bind m f w))"
    by (cases r) (auto simp: io_bind_def keeps_def)
qed

lemma keeps_try [keeps_intros]:
  assumes "keeps P m" and "\<And>r. keeps P (f r)"
  shows "keeps P (io_try m f)"
proof (rule keepsI)
  fix w
  assume "P w"
  obtain r w1 where r: "m w = (r, w1)" by (cases "m w")
  with assms(1) \<open>P w\<close> have "P w1" by (auto intro: keepsD)
  with r assms(2) show "P (snd (io_try m f w))"
    by (auto simp: io_try_def keeps_def)
qed

lemma keeps_wrap [keeps_intros]: "keeps P m \<Longrightarrow> keeps P (wrap_err s m)"
  by (auto simp: keeps_def wrap_err_def split: prod.splits sum.splits)

lemma keeps_tx [keeps_intros]: "keeps P m \<Longrightarrow> keeps P (tx m)"
  by (auto simp: keeps_def tx_def split: prod.splits sum.splits)

lemma keeps_if [keeps_intros]:
  "(b \<Longrightarrow> keeps P m) \<Longrightarrow> (\<not> b \<Longrightarrow> keeps P n) \<Longrightarrow> keeps P (if b then m else n)"
  by simp

text \<open>Generic list facts.\<close>

lemma set_dropWhile_subset: "set (dropWhile P xs) \<subseteq> set xs"
  by (induction xs) auto

lemma list_all_dropWhile: "list_all Q xs \<Longrightarrow> list_all Q (dropWhile P xs)"
  by (induction xs) auto

lemma find_None_not: "find P xs = None \<Longrightarrow> x \<in> set xs \<Longrightarrow> \<not> P x"
  by (auto simp: find_None_iff)

end
