(* ===== verification/Go_Strings.thy ===== *)
theory Go_Strings
  imports Prelude
begin

text \<open>
  The functions of Go's \<open>strings\<close>, \<open>path\<close>, \<open>encoding/hex\<close> and \<open>encoding/base32\<close> the program
  uses. A Go string is a byte sequence, a HOL \<open>string\<close>. Case mapping is the ASCII part of
  \<open>strings.ToLower\<close>, \<open>ToUpper\<close> and \<open>EqualFold\<close> (bytes from 128 on stay as they are); white
  space is Go's \<open>unicode.IsSpace\<close>, in its UTF-8 encoding.
\<close>

abbreviation code_of :: "char \<Rightarrow> nat" where
  "code_of c \<equiv> of_char c"

section \<open>Case mapping\<close>

definition lower_char :: "char \<Rightarrow> char" where
  "lower_char c = (if 65 \<le> code_of c \<and> code_of c \<le> 90 then char_of (code_of c + 32) else c)"

definition upper_char :: "char \<Rightarrow> char" where
  "upper_char c = (if 97 \<le> code_of c \<and> code_of c \<le> 122 then char_of (code_of c - 32) else c)"

definition to_lower :: "string \<Rightarrow> string" where
  "to_lower s = map lower_char s"

definition to_upper :: "string \<Rightarrow> string" where
  "to_upper s = map upper_char s"

definition equal_fold :: "string \<Rightarrow> string \<Rightarrow> bool" where
  "equal_fold a b = (to_lower a = to_lower b)"

lemma code_of_less [simp]: "code_of c < 256"
  by simp

lemma lower_char_idem [simp]: "lower_char (lower_char c) = lower_char c"
  by (auto simp: lower_char_def)

lemma to_lower_idem [simp]: "to_lower (to_lower s) = to_lower s"
  by (simp add: to_lower_def)

lemma length_to_lower [simp]: "length (to_lower s) = length s"
  by (simp add: to_lower_def)

lemma to_lower_append [simp]: "to_lower (a @ b) = to_lower a @ to_lower b"
  by (simp add: to_lower_def)

lemma to_lower_Nil [simp]: "to_lower [] = []"
  by (simp add: to_lower_def)

lemma to_lower_eq_Nil [simp]: "to_lower s = [] \<longleftrightarrow> s = []"
  by (simp add: to_lower_def)

lemma to_lower_Cons [simp]: "to_lower (c # s) = lower_char c # to_lower s"
  by (simp add: to_lower_def)

lemma equal_fold_refl [simp]: "equal_fold s s"
  by (simp add: equal_fold_def)

lemma equal_fold_sym: "equal_fold a b \<longleftrightarrow> equal_fold b a"
  by (auto simp: equal_fold_def)

lemma equal_fold_to_lower [simp]:
  "equal_fold (to_lower a) b = equal_fold a b" "equal_fold a (to_lower b) = equal_fold a b"
  by (simp_all add: equal_fold_def)

section \<open>Prefixes, suffixes, trimming, splitting\<close>

definition has_prefix :: "string \<Rightarrow> string \<Rightarrow> bool" where
  "has_prefix s p = (take (length p) s = p)"

definition has_suffix :: "string \<Rightarrow> string \<Rightarrow> bool" where
  "has_suffix s p = has_prefix (rev s) (rev p)"

definition trim_prefix :: "string \<Rightarrow> string \<Rightarrow> string" where
  "trim_prefix s p = (if has_prefix s p then drop (length p) s else s)"

definition trim_suffix :: "string \<Rightarrow> string \<Rightarrow> string" where
  "trim_suffix s p = (if has_suffix s p then take (length s - length p) s else s)"

definition trim_left :: "string \<Rightarrow> string \<Rightarrow> string" where
  "trim_left s cutset = dropWhile (\<lambda>c. c \<in> set cutset) s"

definition trim_right :: "string \<Rightarrow> string \<Rightarrow> string" where
  "trim_right s cutset = rev (dropWhile (\<lambda>c. c \<in> set cutset) (rev s))"

definition trim_set :: "string \<Rightarrow> string \<Rightarrow> string" where
  "trim_set s cutset = trim_right (trim_left s cutset) cutset"

definition contains_any :: "string \<Rightarrow> string \<Rightarrow> bool" where
  "contains_any s chars = list_ex (\<lambda>c. c \<in> set chars) s"

lemma has_prefix_append [simp]: "has_prefix (p @ s) p"
  by (simp add: has_prefix_def)

lemma has_prefix_Cons [simp]: "has_prefix (x # s) (y # p) \<longleftrightarrow> x = y \<and> has_prefix s p"
  by (simp add: has_prefix_def)

lemma has_prefix_empty [simp]: "has_prefix [] (y # p) = False"
  by (simp add: has_prefix_def)

lemma has_prefix_iff: "has_prefix s p \<longleftrightarrow> (\<exists>t. s = p @ t)"
  by (metis append_eq_conv_conj append_take_drop_id has_prefix_def)

lemma has_prefix_Nil [simp]: "has_prefix s []"
  by (simp add: has_prefix_def)

lemma trim_prefix_append [simp]: "trim_prefix (p @ s) p = s"
  by (simp add: trim_prefix_def)

lemma has_suffix_append [simp]: "has_suffix (s @ p) p"
  by (simp add: has_suffix_def)

lemma has_suffix_iff: "has_suffix s p \<longleftrightarrow> (\<exists>t. s = t @ p)"
  by (metis has_prefix_iff has_suffix_def rev_append rev_rev_ident)

lemma trim_suffix_append [simp]: "trim_suffix (s @ p) p = s"
  by (simp add: trim_suffix_def)

lemma trim_left_id: "(s \<noteq> [] \<Longrightarrow> hd s \<notin> set cs) \<Longrightarrow> trim_left s cs = s"
  by (cases s) (auto simp: trim_left_def)

lemma trim_right_id: "(s \<noteq> [] \<Longrightarrow> last s \<notin> set cs) \<Longrightarrow> trim_right s cs = s"
  by (cases s rule: rev_cases) (auto simp: trim_right_def)

lemma trim_right_snoc [simp]:
  "trim_right (s @ [c]) cs = (if c \<in> set cs then trim_right s cs else s @ [c])"
  by (simp add: trim_right_def)

text \<open>\<open>unicode.IsSpace\<close> at the front of a byte sequence: the number of bytes of the white space
  character it starts with, 0 when it starts with none.\<close>

fun space_len :: "string \<Rightarrow> nat" where
  "space_len [] = 0"
| "space_len (c # cs) =
     (if code_of c \<in> {9, 10, 11, 12, 13, 32} then 1
      else case cs of
        [] \<Rightarrow> 0
      | d # ds \<Rightarrow>
          if code_of c = 0xC2 \<and> code_of d \<in> {0x85, 0xA0} then 2
          else case ds of
            [] \<Rightarrow> 0
          | e # _ \<Rightarrow>
              if code_of c = 0xE1 \<and> code_of d = 0x9A \<and> code_of e = 0x80 then 3
              else if code_of c = 0xE2 \<and> code_of d = 0x80 \<and>
                (0x80 \<le> code_of e \<and> code_of e \<le> 0x8A \<or> code_of e \<in> {0xA8, 0xA9, 0xAF}) then 3
              else if code_of c = 0xE2 \<and> code_of d = 0x81 \<and> code_of e = 0x9F then 3
              else if code_of c = 0xE3 \<and> code_of d = 0x80 \<and> code_of e = 0x80 then 3
              else 0)"

text \<open>The same at the end of a byte sequence, on the reversed sequence.\<close>

definition rspace_len :: "string \<Rightarrow> nat" where
  "rspace_len r =
     (if 0 < space_len (rev (take 1 r)) then 1
      else if space_len (rev (take 2 r)) = 2 then 2
      else if space_len (rev (take 3 r)) = 3 then 3
      else 0)"

function trim_left_space :: "string \<Rightarrow> string" where
  "trim_left_space s = (let n = space_len s in if n = 0 then s else trim_left_space (drop n s))"
  by pat_completeness auto
termination
proof (relation "measure length")
  fix s x
  assume "x = space_len s" and "x \<noteq> 0"
  then have "s \<noteq> []" by (cases s) auto
  with \<open>x \<noteq> 0\<close> show "(drop x s, s) \<in> measure length" by simp
qed simp

function trim_rspace :: "string \<Rightarrow> string" where
  "trim_rspace r = (let n = rspace_len r in if n = 0 \<or> r = [] then r else trim_rspace (drop n r))"
  by pat_completeness auto
termination
  by (relation "measure length") (auto simp: Let_def)

declare trim_left_space.simps [simp del] trim_rspace.simps [simp del]

definition trim_space :: "string \<Rightarrow> string" where
  "trim_space s = rev (trim_rspace (rev (trim_left_space s)))"

text \<open>Visible ASCII text starts and ends with no white space.\<close>

definition graphic :: "char \<Rightarrow> bool" where
  "graphic c = (33 \<le> code_of c \<and> code_of c < 127)"

lemma space_len_graphic: "graphic c \<Longrightarrow> space_len (c # s) = 0"
  by (auto simp: graphic_def split: list.splits)

lemma trim_left_space_graphic: "graphic c \<Longrightarrow> trim_left_space (c # s) = c # s"
  by (subst trim_left_space.simps) (simp add: space_len_graphic del: space_len.simps)

lemma rspace_len_graphic: "graphic c \<Longrightarrow> rspace_len (c # r) = 0"
  by (cases r; cases "tl r")
    (auto simp: rspace_len_def graphic_def numeral_2_eq_2 numeral_3_eq_3 split: list.splits)

lemma trim_rspace_graphic: "graphic c \<Longrightarrow> trim_rspace (c # r) = c # r"
  by (subst trim_rspace.simps) (simp add: rspace_len_graphic)

lemma trim_space_graphic:
  assumes "s \<noteq> [] \<Longrightarrow> graphic (hd s)" and "s \<noteq> [] \<Longrightarrow> graphic (last s)"
  shows "trim_space s = s"
proof (cases s)
  case Nil
  then show ?thesis by (simp add: trim_space_def trim_left_space.simps trim_rspace.simps rspace_len_def)
next
  case (Cons c t)
  with assms have c: "graphic c" and l: "graphic (last s)" by auto
  from Cons have r: "rev s = last s # tl (rev s)"
    by (metis Nil_is_rev_conv hd_Cons_tl hd_rev list.distinct(1))
  have "trim_rspace (rev s) = rev s"
    using trim_rspace_graphic [OF l, of "tl (rev s)"] r by simp
  with Cons c show ?thesis
    by (simp add: trim_space_def trim_left_space_graphic)
qed

text \<open>\<open>strings.Split\<close> with a one-byte separator, and \<open>strings.Cut\<close>.\<close>

fun split_on :: "char \<Rightarrow> string \<Rightarrow> string list" where
  "split_on c [] = [[]]"
| "split_on c (x # xs) =
     (if x = c then [] # split_on c xs
      else case split_on c xs of [] \<Rightarrow> [[x]] | y # ys \<Rightarrow> (x # y) # ys)"

fun join_with :: "string \<Rightarrow> string list \<Rightarrow> string" where
  "join_with sep [] = []"
| "join_with sep [x] = x"
| "join_with sep (x # y # ys) = x @ sep @ join_with sep (y # ys)"

definition cut :: "char \<Rightarrow> string \<Rightarrow> string \<times> string" where
  "cut c s = (takeWhile (\<lambda>x. x \<noteq> c) s, drop 1 (dropWhile (\<lambda>x. x \<noteq> c) s))"

lemma split_on_neq_Nil [simp]: "split_on c s \<noteq> []"
  by (induction s) (auto split: list.splits)

lemma split_on_no_sep: "c \<notin> set s \<Longrightarrow> split_on c s = [s]"
  by (induction s) auto

lemma split_on_append_sep: "c \<notin> set a \<Longrightarrow> split_on c (a @ c # s) = a # split_on c s"
  by (induction a) auto

lemma set_split_on: "t \<in> set (split_on c s) \<Longrightarrow> c \<notin> set t"
  by (induction s arbitrary: t) (auto split: if_splits list.splits)

lemma set_split_on_subset: "t \<in> set (split_on c s) \<Longrightarrow> set t \<subseteq> set s"
proof (induction s arbitrary: t)
  case (Cons x xs)
  then show ?case
    by (cases "split_on c xs") (fastforce split: if_splits)+
qed simp

lemma join_split [simp]: "join_with [c] (split_on c s) = s"
proof (induction s)
  case (Cons x xs)
  then show ?case
    by (cases "split_on c xs"; cases "tl (split_on c xs)") (auto split: list.splits)
qed simp

lemma split_join:
  assumes "xs \<noteq> []" and "\<And>x. x \<in> set xs \<Longrightarrow> c \<notin> set x"
  shows "split_on c (join_with [c] xs) = xs"
  using assms
  by (induction "[c]" xs rule: join_with.induct) (auto simp: split_on_no_sep split_on_append_sep)

lemma join_append:
  "xs \<noteq> [] \<Longrightarrow> ys \<noteq> [] \<Longrightarrow> join_with s (xs @ ys) = join_with s xs @ s @ join_with s ys"
proof (induction s xs rule: join_with.induct)
  case (2 sep x)
  then show ?case by (cases ys) auto
qed auto

lemma cut_append: "c \<notin> set a \<Longrightarrow> cut c (a @ c # b) = (a, b)"
  by (auto simp: cut_def takeWhile_append dropWhile_append)

lemma cut_none:
  assumes "c \<notin> set a"
  shows "cut c a = (a, [])"
proof -
  have "takeWhile (\<lambda>x. x \<noteq> c) a = a"
    using assms by (auto simp: takeWhile_eq_all_conv)
  moreover have "dropWhile (\<lambda>x. x \<noteq> c) a = []"
    using assms by auto
  ultimately show ?thesis unfolding cut_def by (metis drop_Nil)
qed

section \<open>Slash-separated paths\<close>

text \<open>\<open>path.Clean\<close> works on the segments between slashes: empty segments and \<open>.\<close> go, \<open>..\<close>
  takes the segment before it away, at the root it goes, and at the front of a relative path
  it stays. \<open>path/filepath\<close> is the same functions on the systems the program runs on.\<close>

abbreviation slash :: char where "slash \<equiv> CHR ''/''"

fun clean_segs :: "bool \<Rightarrow> string list \<Rightarrow> string list \<Rightarrow> string list" where
  "clean_segs rooted st [] = rev st"
| "clean_segs rooted st (x # xs) =
     (if x = '''' \<or> x = ''.'' then clean_segs rooted st xs
      else if x = ''..'' then
        (case st of
          [] \<Rightarrow> clean_segs rooted (if rooted then [] else [''..'']) xs
        | y # ys \<Rightarrow> clean_segs rooted (if y = ''..'' then ''..'' # st else ys) xs)
      else clean_segs rooted (x # st) xs)"

definition is_abs :: "string \<Rightarrow> bool" where
  "is_abs p = has_prefix p ''/''"

definition path_segs :: "string \<Rightarrow> string list" where
  "path_segs p = clean_segs (is_abs p) [] (split_on slash p)"

definition path_clean :: "string \<Rightarrow> string" where
  "path_clean p =
     (if is_abs p then ''/'' @ join_with ''/'' (path_segs p)
      else if path_segs p = [] then ''.'' else join_with ''/'' (path_segs p))"

definition path_join :: "string list \<Rightarrow> string" where
  "path_join xs =
     (let ys = filter (\<lambda>x. x \<noteq> []) xs
      in if ys = [] then '''' else path_clean (join_with ''/'' ys))"

text \<open>\<open>path.Ext\<close>: from the last dot of the last segment; \<open>path.Base\<close>.\<close>

definition last_seg :: "string \<Rightarrow> string" where
  "last_seg p = last (split_on slash p)"

definition path_ext :: "string \<Rightarrow> string" where
  "path_ext p =
     (let t = takeWhile (\<lambda>c. c \<noteq> CHR ''.'') (rev (last_seg p))
      in if length t = length (last_seg p) then '''' else CHR ''.'' # rev t)"

definition path_base :: "string \<Rightarrow> string" where
  "path_base p =
     (if p = '''' then ''.''
      else let q = trim_right p ''/'' in if q = '''' then ''/'' else last_seg q)"

text \<open>A plain segment: not empty, no dot segment, no parent segment, no slash.\<close>

definition plain_seg :: "string \<Rightarrow> bool" where
  "plain_seg x \<longleftrightarrow> x \<noteq> '''' \<and> x \<noteq> ''.'' \<and> x \<noteq> ''..'' \<and> slash \<notin> set x"

lemma clean_segs_plain:
  "list_all plain_seg xs \<Longrightarrow> clean_segs r st xs = rev st @ xs"
  by (induction xs arbitrary: st) (auto simp: plain_seg_def)

text \<open>Whatever \<open>clean_segs\<close> returns is parent segments followed by plain ones.\<close>

definition up_then_plain :: "string list \<Rightarrow> bool" where
  "up_then_plain xs = list_all plain_seg (dropWhile (\<lambda>x. x = ''..'') xs)"

lemma plain_not_up [simp]: "\<not> plain_seg ''..''"
  by (simp add: plain_seg_def)

lemma up_then_plain_Nil [simp]: "up_then_plain []"
  by (simp add: up_then_plain_def)

lemma up_then_plain_Cons [simp]:
  "up_then_plain (x # xs) = (if x = ''..'' then up_then_plain xs else list_all plain_seg (x # xs))"
  by (simp add: up_then_plain_def)

lemma list_all_plain_up: "list_all plain_seg xs \<Longrightarrow> up_then_plain xs"
  by (cases xs) auto

lemma up_then_plain_snoc: "up_then_plain xs \<Longrightarrow> plain_seg x \<Longrightarrow> up_then_plain (xs @ [x])"
  by (induction xs) (auto split: if_splits)

lemma up_then_plain_butlast: "up_then_plain (xs @ [x]) \<Longrightarrow> up_then_plain xs"
  by (induction xs) (auto split: if_splits)

lemma up_then_plain_up:
  "up_then_plain (xs @ [''..'']) \<Longrightarrow> up_then_plain (xs @ [''..'', ''..''])"
  by (induction xs) (auto split: if_splits)

lemma clean_segs_shape:
  "list_all (\<lambda>x. slash \<notin> set x) xs \<Longrightarrow> up_then_plain (rev st) \<Longrightarrow>
     up_then_plain (clean_segs r st xs)"
proof (induction xs arbitrary: st)
  case Nil
  then show ?case by simp
next
  case (Cons x xs)
  have IH: "up_then_plain (rev st') \<Longrightarrow> up_then_plain (clean_segs r st' xs)" for st'
    using Cons.IH Cons.prems(1) by simp
  consider "x = '''' \<or> x = ''.''" | "x = ''..''" | "plain_seg x"
    using Cons.prems(1) by (auto simp: plain_seg_def)
  then show ?case
  proof cases
    case 1
    then show ?thesis using IH [OF Cons.prems(2)] by auto
  next
    case 2
    show ?thesis
    proof (cases st)
      case Nil
      with 2 IH [of "[]"] IH [of "[''..'']"] show ?thesis by (cases r) simp_all
    next
      case (Cons y ys)
      with Cons.prems(2) have "up_then_plain (rev ys)"
        by (auto dest: up_then_plain_butlast)
      moreover have "y = ''..'' \<Longrightarrow> up_then_plain (rev (''..'' # st))"
        using Cons Cons.prems(2) up_then_plain_up by auto
      ultimately show ?thesis using 2 Cons IH by auto
    qed
  next
    case 3
    then have "up_then_plain (rev (x # st))"
      using Cons.prems(2) by (simp add: up_then_plain_snoc)
    then show ?thesis using 3 IH by (auto simp: plain_seg_def)
  qed
qed

lemma path_segs_shape: "up_then_plain (path_segs p)"
  unfolding path_segs_def by (rule clean_segs_shape) (auto simp: list_all_iff dest: set_split_on)

text \<open>What a cleaned relative path is, and that cleaning leaves a clean path alone.\<close>

lemma join_plain_hd:
  "xs \<noteq> [] \<Longrightarrow> list_all plain_seg xs \<Longrightarrow> join_with ''/'' xs \<noteq> [] \<and> hd (join_with ''/'' xs) \<noteq> slash"
proof (induction "''/''" xs rule: join_with.induct)
  case (2 x)
  then show ?case by (cases x) (auto simp: plain_seg_def)
next
  case (3 x y ys)
  then show ?case by (cases x) (auto simp: plain_seg_def)
qed simp

lemma join_plain_rel: "xs \<noteq> [] \<Longrightarrow> list_all plain_seg xs \<Longrightarrow> \<not> is_abs (join_with ''/'' xs)"
  using join_plain_hd [of xs] by (cases "join_with ''/'' xs") (auto simp: is_abs_def has_prefix_def)

lemma split_join_plain:
  "xs \<noteq> [] \<Longrightarrow> list_all plain_seg xs \<Longrightarrow> split_on slash (join_with ''/'' xs) = xs"
  by (rule split_join) (auto simp: list_all_iff plain_seg_def)

lemma path_segs_join_plain:
  "xs \<noteq> [] \<Longrightarrow> list_all plain_seg xs \<Longrightarrow> path_segs (join_with ''/'' xs) = xs"
  by (simp add: path_segs_def split_join_plain clean_segs_plain)

lemma path_clean_join_plain:
  "xs \<noteq> [] \<Longrightarrow> list_all plain_seg xs \<Longrightarrow> path_clean (join_with ''/'' xs) = join_with ''/'' xs"
  by (simp add: path_clean_def path_segs_join_plain join_plain_rel)

lemma up_then_plain_cases:
  assumes "up_then_plain xs"
  obtains "xs = []" | "xs = [''..'']" | y ys where "xs = ''..'' # y # ys" | "xs \<noteq> []" "list_all plain_seg xs"
proof (cases xs)
  case (Cons x ys)
  with assms that show ?thesis by (cases ys) (auto split: if_splits)
qed (use that in auto)

text \<open>The guard both path builders of the ingest service use.\<close>

definition rel_path_ok :: "string \<Rightarrow> bool" where
  "rel_path_ok p \<longleftrightarrow> \<not> (p = ''.'' \<or> p = ''..'' \<or> has_prefix p ''../'' \<or> is_abs p)"

lemma rel_path_ok_segs:
  assumes "rel_path_ok (path_clean p)"
  shows "path_segs p \<noteq> [] \<and> list_all plain_seg (path_segs p) \<and>
    path_clean p = join_with ''/'' (path_segs p)"
proof -
  have rel: "\<not> is_abs p"
    using assms by (auto simp: rel_path_ok_def path_clean_def is_abs_def)
  show ?thesis
    using path_segs_shape [of p]
  proof (cases rule: up_then_plain_cases)
    case 1
    with assms rel show ?thesis by (simp add: rel_path_ok_def path_clean_def)
  next
    case 2
    with assms rel show ?thesis by (simp add: rel_path_ok_def path_clean_def)
  next
    case (3 y ys)
    with rel have "path_clean p = ''../'' @ join_with ''/'' (y # ys)"
      by (simp add: path_clean_def)
    with assms show ?thesis by (simp add: rel_path_ok_def)
  next
    case 4
    with rel show ?thesis by (simp add: path_clean_def)
  qed
qed

lemma plain_seg_append:
  "plain_seg x \<Longrightarrow> slash \<notin> set y \<Longrightarrow> 2 < length y \<Longrightarrow> plain_seg (x @ y)"
  by (auto simp: plain_seg_def append_eq_Cons_conv)

lemma join_snoc_append:
  "xs \<noteq> [] \<Longrightarrow> join_with s xs @ y = join_with s (butlast xs @ [last xs @ y])"
  by (induction s xs rule: join_with.induct) (auto simp: join_append)

lemma plain_append_suffix:
  assumes "xs \<noteq> []" and "list_all plain_seg xs" and "slash \<notin> set y" and "2 < length y"
  shows "list_all plain_seg (butlast xs @ [last xs @ y])"
  using assms
  by (cases xs rule: rev_cases) (auto intro: plain_seg_append)

text \<open>Joining two clean relative paths puts a slash between them.\<close>

lemma path_join_plain:
  assumes "xs \<noteq> []" and "list_all plain_seg xs" and "ys \<noteq> []" and "list_all plain_seg ys"
  shows "path_join [join_with ''/'' xs, join_with ''/'' ys] = join_with ''/'' (xs @ ys)"
proof -
  have "join_with ''/'' xs \<noteq> []" and "join_with ''/'' ys \<noteq> []"
    using assms join_plain_hd by blast+
  moreover have "join_with ''/'' xs @ slash # join_with ''/'' ys = join_with ''/'' (xs @ ys)"
    using assms by (simp add: join_append)
  ultimately show ?thesis
    using assms path_clean_join_plain [of "xs @ ys"] by (simp add: path_join_def Let_def)
qed

end
