(* ===== verification/Go_Encoding.thy ===== *)
theory Go_Encoding
  imports Go_Strings
begin

text \<open>
  \<open>encoding/hex\<close> and \<open>encoding/base32\<close> (standard alphabet, no padding), with the round trips
  that decoding inverts encoding. Both are positional notations, so they share one pair of
  functions on digits.
\<close>

section \<open>Digits\<close>

definition digits :: "nat \<Rightarrow> nat \<Rightarrow> nat \<Rightarrow> nat list" where
  "digits b n x = map (\<lambda>i. x div b ^ (n - 1 - i) mod b) [0..<n]"

fun undigits :: "nat \<Rightarrow> nat \<Rightarrow> nat list \<Rightarrow> nat" where
  "undigits b a [] = a"
| "undigits b a (d # ds) = undigits b (a * b + d) ds"

lemma digits_Suc: "digits b (Suc n) x = digits b n (x div b) @ [x mod b]"
proof -
  have "x div b ^ (n - i) mod b = x div b div b ^ (n - Suc i) mod b" if "i < n" for i
  proof -
    have "b ^ (n - i) = b * b ^ (n - Suc i)"
      using that by (metis Suc_diff_Suc power_Suc)
    then show ?thesis by (simp add: div_mult2_eq)
  qed
  then show ?thesis by (simp add: digits_def)
qed

lemma digits_0 [simp]: "digits b 0 x = []"
  by (simp add: digits_def)

lemma length_digits [simp]: "length (digits b n x) = n"
  by (simp add: digits_def)

lemma digits_less: "0 < b \<Longrightarrow> d \<in> set (digits b n x) \<Longrightarrow> d < b"
  by (auto simp: digits_def)

lemma undigits_append: "undigits b a (xs @ ys) = undigits b (undigits b a xs) ys"
  by (induction xs arbitrary: a) auto

lemma undigits_acc: "undigits b a ds = a * b ^ length ds + undigits b 0 ds"
proof (induction ds arbitrary: a)
  case (Cons d ds)
  show ?case
    using Cons.IH [of "a * b + d"] Cons.IH [of d] by (simp add: algebra_simps)
qed simp

lemma undigits_digits: "x < b ^ n \<Longrightarrow> undigits b 0 (digits b n x) = x"
proof (induction n arbitrary: x)
  case (Suc n)
  then have "x div b < b ^ n"
    by (metis less_mult_imp_div_less mult.commute power_Suc)
  with Suc.IH show ?case by (simp add: digits_Suc undigits_append)
qed simp

lemma undigits_less: "0 < b \<Longrightarrow> \<forall>d \<in> set ds. d < b \<Longrightarrow> undigits b 0 ds < b ^ length ds"
proof (induction ds rule: rev_induct)
  case (snoc d ds)
  then have "undigits b 0 ds + 1 \<le> b ^ length ds" by simp
  then have "(undigits b 0 ds + 1) * b \<le> b ^ length ds * b" by (rule mult_le_mono1)
  with snoc.prems show ?case by (simp add: undigits_append algebra_simps)
qed simp

lemma digits_undigits:
  "0 < b \<Longrightarrow> \<forall>d \<in> set ds. d < b \<Longrightarrow> digits b (length ds) (undigits b 0 ds) = ds"
  by (induction ds rule: rev_induct) (auto simp: digits_Suc undigits_append)

section \<open>Hexadecimal\<close>

definition hex_val :: "char \<Rightarrow> nat option" where
  "hex_val c =
     (if 48 \<le> code_of c \<and> code_of c \<le> 57 then Some (code_of c - 48)
      else if 97 \<le> code_of c \<and> code_of c \<le> 102 then Some (code_of c - 87)
      else if 65 \<le> code_of c \<and> code_of c \<le> 70 then Some (code_of c - 55)
      else None)"

definition is_hex :: "char \<Rightarrow> bool" where
  "is_hex c = (hex_val c \<noteq> None)"

fun hex_decode :: "string \<Rightarrow> string option" where
  "hex_decode [] = Some []"
| "hex_decode [c] = None"
| "hex_decode (c # d # s) =
     (case (hex_val c, hex_val d) of
       (Some x, Some y) \<Rightarrow> map_option (\<lambda>t. char_of (x * 16 + y) # t) (hex_decode s)
     | _ \<Rightarrow> None)"

definition hex_digit :: "nat \<Rightarrow> char" where
  "hex_digit x = char_of (if x < 10 then x + 48 else x + 87)"

definition hex_encode :: "string \<Rightarrow> string" where
  "hex_encode s = concat (map (\<lambda>c. [hex_digit (code_of c div 16), hex_digit (code_of c mod 16)]) s)"

definition lower_hex :: "char \<Rightarrow> bool" where
  "lower_hex c = (48 \<le> code_of c \<and> code_of c \<le> 57 \<or> 97 \<le> code_of c \<and> code_of c \<le> 102)"

lemma hex_val_less: "hex_val c = Some x \<Longrightarrow> x < 16"
  by (auto simp: hex_val_def split: if_splits)

lemma hex_val_digit [simp]: "x < 16 \<Longrightarrow> hex_val (hex_digit x) = Some x"
  by (auto simp: hex_val_def hex_digit_def)

lemma hex_digit_lower [simp]: "x < 16 \<Longrightarrow> lower_hex (hex_digit x)"
  by (auto simp: lower_hex_def hex_digit_def)

lemma lower_hex_is_hex: "lower_hex c \<Longrightarrow> is_hex c"
  by (auto simp: lower_hex_def is_hex_def hex_val_def)

lemma lower_hex_lower_char: "is_hex c \<Longrightarrow> lower_hex (lower_char c)"
  by (auto simp: lower_hex_def is_hex_def hex_val_def lower_char_def split: if_splits)

lemma lower_char_lower_hex [simp]: "lower_hex c \<Longrightarrow> lower_char c = c"
  by (auto simp: lower_hex_def lower_char_def)

lemma to_lower_lower_hex: "list_all lower_hex s \<Longrightarrow> to_lower s = s"
  by (induction s) auto

lemma is_hex_graphic: "is_hex c \<Longrightarrow> graphic c"
  by (auto simp: is_hex_def hex_val_def graphic_def split: if_splits)

lemma hex_decode_Some_iff: "hex_decode s \<noteq> None \<longleftrightarrow> even (length s) \<and> list_all is_hex s"
  by (induction s rule: hex_decode.induct) (auto simp: is_hex_def split: option.splits)

lemma hex_decode_length: "hex_decode s = Some t \<Longrightarrow> length s = 2 * length t"
  by (induction s arbitrary: t rule: hex_decode.induct) (auto split: option.splits)

lemma length_hex_encode [simp]: "length (hex_encode s) = 2 * length s"
  by (induction s) (auto simp: hex_encode_def)

lemma code_of_div16 [simp]: "code_of c div 16 < 16"
  using code_of_less [of c] by (simp add: less_mult_imp_div_less)

lemma hex_encode_lower: "list_all lower_hex (hex_encode s)"
  by (induction s) (auto simp: hex_encode_def)

lemma hex_decode_encode: "hex_decode (hex_encode s) = Some s"
proof (induction s)
  case (Cons c s)
  have "code_of c div 16 * 16 + code_of c mod 16 = code_of c" by simp
  then have "(char_of (code_of c div 16 * 16 + code_of c mod 16) :: char) = c" by simp
  with Cons show ?case by (simp add: hex_encode_def)
qed (simp add: hex_encode_def)

section \<open>Base 32\<close>

definition b32_val :: "char \<Rightarrow> nat option" where
  "b32_val c =
     (if 65 \<le> code_of c \<and> code_of c \<le> 90 then Some (code_of c - 65)
      else if 50 \<le> code_of c \<and> code_of c \<le> 55 then Some (code_of c - 24)
      else None)"

definition b32_digit :: "nat \<Rightarrow> char" where
  "b32_digit x = char_of (if x < 26 then x + 65 else x + 24)"

text \<open>Eight characters are five bytes; a shorter last group is padded with zeros and gives the
  bytes it fills (the decoder's switch on the group's length).\<close>

fun b32_vals :: "string \<Rightarrow> nat list option" where
  "b32_vals [] = Some []"
| "b32_vals (c # s) =
     (case b32_val c of None \<Rightarrow> None | Some v \<Rightarrow> map_option ((#) v) (b32_vals s))"

definition b32_bytes :: "nat \<Rightarrow> nat" where
  "b32_bytes n = n * 5 div 8"

fun b32_groups :: "nat \<Rightarrow> nat list \<Rightarrow> nat list" where
  "b32_groups 0 vs = []"
| "b32_groups (Suc k) vs =
     (if vs = [] then []
      else let g = take 8 vs
           in take (b32_bytes (length g)) (digits 256 5 (undigits 32 0 (g @ replicate (8 - length g) 0)))
              @ b32_groups k (drop 8 vs))"

definition base32_decode :: "string \<Rightarrow> string option" where
  "base32_decode s =
     (let t = filter (\<lambda>c. c \<notin> {CHR 0x0A, CHR 0x0D}) s
      in map_option (\<lambda>vs. map char_of (b32_groups (length vs) vs)) (b32_vals t))"

fun base32_encode :: "string \<Rightarrow> string" where
  "base32_encode (a # b # c # d # e # s) =
     map b32_digit (digits 32 8 (undigits 256 0 (map of_char [a, b, c, d, e]))) @ base32_encode s"
| "base32_encode s = []"

lemma b32_val_digit [simp]: "x < 32 \<Longrightarrow> b32_val (b32_digit x) = Some x"
  by (auto simp: b32_val_def b32_digit_def)

lemma b32_vals_digits: "\<forall>v \<in> set vs. v < 32 \<Longrightarrow> b32_vals (map b32_digit vs @ s) = map_option ((@) vs) (b32_vals s)"
  by (induction vs; cases "b32_vals s") auto

lemma b32_digit_graphic: "x < 32 \<Longrightarrow> graphic (b32_digit x)"
  by (auto simp: graphic_def b32_digit_def)

lemma b32_groups_Nil [simp]: "b32_groups k [] = []"
  by (cases k) auto

lemma b32_groups_enough:
  "length vs \<le> k \<Longrightarrow> length vs \<le> k' \<Longrightarrow> b32_groups k vs = b32_groups k' vs"
proof (induction k arbitrary: vs k')
  case (Suc k)
  show ?case
  proof (cases "vs = []")
    case True
    then show ?thesis by (cases k') auto
  next
    case False
    with Suc.prems obtain j where j: "k' = Suc j" by (cases k') auto
    with Suc.prems False have "length (drop 8 vs) \<le> k" "length (drop 8 vs) \<le> j"
      by (cases vs; simp)+
    with Suc.IH have "b32_groups k (drop 8 vs) = b32_groups j (drop 8 vs)" by blast
    with False j show ?thesis by (simp add: Let_def)
  qed
qed simp

lemma b32_group_step:
  "length ds = 8 \<Longrightarrow> b32_groups (length (ds @ vs)) (ds @ vs) =
     digits 256 5 (undigits 32 0 ds) @ b32_groups (length vs) vs"
proof -
  assume l: "length ds = 8"
  then have "length (ds @ vs) = Suc (length vs + 7)" and "ds @ vs \<noteq> []"
    and t: "take 8 (ds @ vs) = ds" "drop 8 (ds @ vs) = vs"
    by auto
  then have "b32_groups (length (ds @ vs)) (ds @ vs) =
      take (b32_bytes (length ds)) (digits 256 5 (undigits 32 0 (ds @ replicate (8 - length ds) 0)))
        @ b32_groups (length vs + 7) vs"
    by (simp only: b32_groups.simps Let_def t if_False)
  also have "b32_groups (length vs + 7) vs = b32_groups (length vs) vs"
    by (rule b32_groups_enough) simp_all
  finally show ?thesis using l by (simp add: b32_bytes_def)
qed

lemma map_char_of_code [simp]: "map char_of (map of_char s :: nat list) = (s :: string)"
  by (induction s) auto

lemma b32_five_bytes:
  assumes "length s = 5"
  shows "map char_of (digits 256 5 (undigits 32 0
    (digits 32 8 (undigits 256 0 (map of_char s))))) = (s :: string)"
proof -
  have l: "\<forall>d \<in> set (map code_of s). d < 256" by simp
  have "undigits 256 0 (map code_of s) < 32 ^ 8"
    using undigits_less [of 256 "map code_of s"] assms l by simp
  then have u: "undigits 32 0 (digits 32 8 (undigits 256 0 (map code_of s))) =
      undigits 256 0 (map code_of s)"
    by (rule undigits_digits)
  show ?thesis
    using digits_undigits [of 256 "map code_of s"] l assms by (simp only: u) (metis length_map
      map_char_of_code zero_less_numeral)
qed

lemma b32_vals_encode:
  "length s mod 5 = 0 \<Longrightarrow>
    \<exists>vs. b32_vals (base32_encode s) = Some vs \<and> map char_of (b32_groups (length vs) vs) = s"
proof (induction s rule: base32_encode.induct)
  case (1 a b c d e s)
  then obtain vs where vs: "b32_vals (base32_encode s) = Some vs"
      "map char_of (b32_groups (length vs) vs) = s"
    by auto
  let ?ds = "digits 32 8 (undigits 256 0 (map of_char [a, b, c, d, e]))"
  have "b32_vals (base32_encode (a # b # c # d # e # s)) = Some (?ds @ vs)"
    using b32_vals_digits [of ?ds "base32_encode s"] vs(1) digits_less [of 32 _ 8]
    by (simp del: list.map)
  moreover have "map char_of (b32_groups (length (?ds @ vs)) (?ds @ vs)) = [a, b, c, d, e] @ s"
    using b32_group_step [of ?ds vs] b32_five_bytes [of "[a, b, c, d, e]"] vs(2)
    by (simp del: list.map b32_groups.simps)
  ultimately show ?case by (metis append_Cons append_Nil)
qed auto

lemma base32_encode_graphic: "list_all graphic (base32_encode s)"
proof (induction s rule: base32_encode.induct)
  case (1 a b c d e s)
  then show ?case
    using digits_less [of 32 _ 8] by (auto simp: list_all_iff b32_digit_graphic simp del: list.map)
qed auto

lemma base32_decode_encode:
  assumes "length s mod 5 = 0"
  shows "base32_decode (base32_encode s) = Some s"
proof -
  have "filter (\<lambda>c. c \<notin> {CHR 0x0A, CHR 0x0D}) (base32_encode s) = base32_encode s"
    using base32_encode_graphic [of s] by (auto simp: list_all_iff graphic_def intro!: filter_True)
  with b32_vals_encode [OF assms] show ?thesis
    by (auto simp: base32_decode_def Let_def)
qed

lemma length_base32_encode: "length s mod 5 = 0 \<Longrightarrow> length (base32_encode s) = length s div 5 * 8"
proof (induction s rule: base32_encode.induct)
  case (1 a b c d e s)
  have "length (a # b # c # d # e # s) div 5 = Suc (length s div 5)" by simp
  with 1 show ?case by (simp del: list.map)
qed auto

end
