(* ===== verification/Go_Url.thy ===== *)
theory Go_Url
  imports Go_Encoding
begin

text \<open>
  The part of Go's \<open>net/url\<close> the program relies on: percent coding, \<open>url.Parse\<close> with the fields
  \<open>Scheme\<close>, \<open>Host\<close>, \<open>Path\<close>, \<open>RawQuery\<close> and \<open>Fragment\<close>, \<open>EscapedPath\<close>, \<open>ParseQuery\<close> and
  \<open>QueryEscape\<close>. A bracketed host is an IPv6 literal without a zone.
\<close>

section \<open>Percent coding\<close>

datatype enc_mode = EncPath | EncSegment | EncHost | EncUser | EncQuery | EncFragment

definition is_alnum :: "char \<Rightarrow> bool" where
  "is_alnum c = (48 \<le> code_of c \<and> code_of c \<le> 57 \<or> 65 \<le> code_of c \<and> code_of c \<le> 90 \<or>
     97 \<le> code_of c \<and> code_of c \<le> 122)"

definition should_escape :: "char \<Rightarrow> enc_mode \<Rightarrow> bool" where
  "should_escape c m =
     (if is_alnum c then False
      else if m = EncHost \<and> c \<in> set ''!$&()*+,;=:[]<>'' \<or> m = EncHost \<and> code_of c \<in> {34, 39} then False
      else if c \<in> set ''-_.~'' then False
      else if c \<in> set ''$&+,/:;=?@'' then
        (case m of
          EncPath \<Rightarrow> c = CHR ''?''
        | EncSegment \<Rightarrow> c \<in> set ''/;,?''
        | EncUser \<Rightarrow> c \<in> set ''@/?:''
        | EncQuery \<Rightarrow> True
        | EncFragment \<Rightarrow> False
        | EncHost \<Rightarrow> True)
      else if m = EncFragment \<and> c \<in> set ''!()*'' then False
      else True)"

fun unescape :: "enc_mode \<Rightarrow> string \<Rightarrow> string option" where
  "unescape m [] = Some []"
| "unescape m (c # s) =
     (if c = CHR ''%'' then
        (case s of
          a # b # t \<Rightarrow>
            (case (hex_val a, hex_val b) of
              (Some x, Some y) \<Rightarrow>
                if m = EncHost \<and> x < 8 \<and> \<not> (x = 2 \<and> y = 5) then None
                else map_option ((#) (char_of (x * 16 + y))) (unescape m t)
            | _ \<Rightarrow> None)
        | _ \<Rightarrow> None)
      else if m = EncQuery \<and> c = CHR ''+'' then map_option ((#) (CHR '' '')) (unescape m s)
      else if m = EncHost \<and> code_of c < 128 \<and> should_escape c m then None
      else map_option ((#) c) (unescape m s))"

definition upper_hex_digit :: "nat \<Rightarrow> char" where
  "upper_hex_digit x = char_of (if x < 10 then x + 48 else x + 55)"

definition escape :: "enc_mode \<Rightarrow> string \<Rightarrow> string" where
  "escape m s = concat (map (\<lambda>c.
     if m = EncQuery \<and> c = CHR '' '' then ''+''
     else if should_escape c m then
       [CHR ''%'', upper_hex_digit (code_of c div 16), upper_hex_digit (code_of c mod 16)]
     else [c]) s)"

definition query_escape :: "string \<Rightarrow> string" where
  "query_escape = escape EncQuery"

definition valid_encoded :: "enc_mode \<Rightarrow> string \<Rightarrow> bool" where
  "valid_encoded m s = list_all (\<lambda>c.
     c \<in> set ''!$&()*+,;=:@[]%'' \<or> code_of c = 39 \<or> \<not> should_escape c m) s"

section \<open>Hosts\<close>

fun take_digits :: "string \<Rightarrow> string" where
  "take_digits s = takeWhile (\<lambda>c. 48 \<le> code_of c \<and> code_of c \<le> 57) s"

definition all_digits :: "string \<Rightarrow> bool" where
  "all_digits s = list_all (\<lambda>c. 48 \<le> code_of c \<and> code_of c \<le> 57) s"

definition valid_optional_port :: "string \<Rightarrow> bool" where
  "valid_optional_port p = (p = '''' \<or> hd p = CHR '':'' \<and> all_digits (tl p))"

definition ip4_ok :: "string \<Rightarrow> bool" where
  "ip4_ok s = (let fs = split_on (CHR ''.'') s in
     length fs = 4 \<and> list_all (\<lambda>f. f \<noteq> '''' \<and> all_digits f \<and> length f \<le> 3 \<and>
       (length f = 1 \<or> hd f \<noteq> CHR ''0'') \<and>
       undigits 10 0 (map (\<lambda>c. code_of c - 48) f) \<le> 255) fs)"

text \<open>Colon-separated groups of one to four hexadecimal digits, the last of which may be an
  IPv4 address and counts twice.\<close>

fun ip6_groups :: "bool \<Rightarrow> string list \<Rightarrow> nat option" where
  "ip6_groups v4 [] = Some 0"
| "ip6_groups v4 (g # gs) =
     (if g \<noteq> '''' \<and> length g \<le> 4 \<and> list_all is_hex g then map_option Suc (ip6_groups v4 gs)
      else if v4 \<and> gs = [] \<and> ip4_ok g then Some 2
      else None)"

definition ip6_part :: "bool \<Rightarrow> string \<Rightarrow> nat option" where
  "ip6_part v4 s = (if s = '''' then Some 0 else ip6_groups v4 (split_on (CHR '':'') s))"

fun cut_ellipsis :: "string \<Rightarrow> (string \<times> string) option" where
  "cut_ellipsis (a # b # s) =
     (if a = CHR '':'' \<and> b = CHR '':'' then Some ('''', s)
      else map_option (\<lambda>(x, y). (a # x, y)) (cut_ellipsis (b # s)))"
| "cut_ellipsis s = None"

definition ip6_ok :: "string \<Rightarrow> bool" where
  "ip6_ok s =
     (case cut_ellipsis s of
       None \<Rightarrow> s \<noteq> '''' \<and> ip6_part True s = Some 8
     | Some (l, r) \<Rightarrow>
         (case (ip6_part False l, ip6_part True r) of
           (Some m, Some n) \<Rightarrow> m + n < 8
         | _ \<Rightarrow> False))"

text \<open>\<open>parseHost\<close>: a bracketed literal with an optional port, or a name whose text from the
  first colon on is an optional port.\<close>

definition parse_host :: "string \<Rightarrow> string option" where
  "parse_host h =
     (if h \<noteq> '''' \<and> hd h = CHR ''['' then
        (let (inner, rest) = cut (CHR '']'') (tl h) in
          if CHR '']'' \<in> set h \<and> ip6_ok inner \<and> valid_optional_port rest then Some h else None)
      else if CHR ''['' \<in> set h \<or> CHR '']'' \<in> set h then None
      else if valid_optional_port (dropWhile (\<lambda>c. c \<noteq> CHR '':'') h) then unescape EncHost h
      else None)"

definition valid_userinfo :: "string \<Rightarrow> bool" where
  "valid_userinfo s = list_all (\<lambda>c. is_alnum c \<or> c \<in> set ''-._:~!$&()*+,;=%@'' \<or> code_of c = 39) s"

text \<open>\<open>parseAuthority\<close>: what follows the last \<open>@\<close> is the host; the user information before it must
  be valid.\<close>

definition parse_authority :: "string \<Rightarrow> string option" where
  "parse_authority a =
     (if CHR ''@'' \<notin> set a then parse_host a
      else let host = rev (takeWhile (\<lambda>c. c \<noteq> CHR ''@'') (rev a));
               user = take (length a - length host - 1) a
           in case parse_host host of
                None \<Rightarrow> None
              | Some h \<Rightarrow>
                  if valid_userinfo user \<and> unescape EncUser user \<noteq> None then Some h else None)"

section \<open>Parsing\<close>

record url =
  u_scheme :: string
  u_host :: string
  u_path :: string
  u_raw_path :: string
  u_raw_query :: string
  u_fragment :: string

text \<open>\<open>getScheme\<close>: an error for a colon at the front, no scheme when another character comes first.\<close>

fun scheme_len :: "nat \<Rightarrow> string \<Rightarrow> nat option" where
  "scheme_len i [] = Some 0"
| "scheme_len i (c # s) =
     (if is_alnum c \<and> \<not> (48 \<le> code_of c \<and> code_of c \<le> 57) then scheme_len (Suc i) s
      else if is_alnum c \<or> c \<in> set ''+-.'' then (if i = 0 then Some 0 else scheme_len (Suc i) s)
      else if c = CHR '':'' then (if i = 0 then None else Some i)
      else Some 0)"

definition has_ctl :: "string \<Rightarrow> bool" where
  "has_ctl s = list_ex (\<lambda>c. code_of c < 32 \<or> code_of c = 127) s"

definition split_query :: "string \<Rightarrow> string \<times> string" where
  "split_query rest = cut (CHR ''?'') rest"

text \<open>What comes after the scheme and before the query: the authority, when there are two
  slashes, and the path.\<close>

definition parse_hier :: "string \<Rightarrow> string \<Rightarrow> (string \<times> string) option" where
  "parse_hier scheme rest =
     (if (scheme \<noteq> '''' \<or> \<not> has_prefix rest ''///'') \<and> has_prefix rest ''//'' then
        (let a = takeWhile (\<lambda>c. c \<noteq> slash) (drop 2 rest);
             p = dropWhile (\<lambda>c. c \<noteq> slash) (drop 2 rest)
         in map_option (\<lambda>h. (h, p)) (parse_authority a))
      else Some ('''', rest))"

definition parse_nofrag :: "string \<Rightarrow> url option" where
  "parse_nofrag s =
     (if has_ctl s then None
      else if s = ''*'' then
        Some \<lparr>u_scheme = '''', u_host = '''', u_path = ''*'', u_raw_path = ''*'', u_raw_query = '''', u_fragment = ''''\<rparr>
      else case scheme_len 0 s of
        None \<Rightarrow> None
      | Some n \<Rightarrow>
          let scheme = to_lower (take n s);
              (rest, query) = split_query (if n = 0 then s else drop (Suc n) s)
          in if \<not> has_prefix rest ''/'' \<and> scheme \<noteq> '''' then
               Some \<lparr>u_scheme = scheme, u_host = '''', u_path = '''', u_raw_path = '''', u_raw_query = query, u_fragment = ''''\<rparr>
             else if \<not> has_prefix rest ''/'' \<and> CHR '':'' \<in> set (takeWhile (\<lambda>c. c \<noteq> slash) rest) then None
             else case parse_hier scheme rest of
                    None \<Rightarrow> None
                  | Some (h, p) \<Rightarrow>
                      map_option (\<lambda>path.
                        \<lparr>u_scheme = scheme, u_host = h, u_path = path, u_raw_path = p, u_raw_query = query, u_fragment = ''''\<rparr>)
                        (unescape EncPath p))"

definition url_parse :: "string \<Rightarrow> url option" where
  "url_parse raw =
     (let (s, frag) = cut (CHR ''#'') raw in
      case parse_nofrag s of
        None \<Rightarrow> None
      | Some u \<Rightarrow>
          if frag = '''' then Some u
          else map_option (\<lambda>f. u\<lparr>u_fragment := f\<rparr>) (unescape EncFragment frag))"

definition escaped_path :: "url \<Rightarrow> string" where
  "escaped_path u = (if valid_encoded EncPath (u_raw_path u) then u_raw_path u else escape EncPath (u_path u))"

text \<open>\<open>ParseQuery\<close>: the pairs in order, and whether a pair was malformed; \<open>URL.Query\<close> keeps the
  good pairs and ignores the error.\<close>

definition parse_pair :: "string \<Rightarrow> (string \<times> string) option" where
  "parse_pair kv =
     (case cut (CHR ''='') kv of (k, v) \<Rightarrow>
       (case (unescape EncQuery k, unescape EncQuery v) of
         (Some k', Some v') \<Rightarrow> Some (k', v')
       | _ \<Rightarrow> None))"

fun parse_pairs :: "string list \<Rightarrow> (string \<times> string) list \<times> bool" where
  "parse_pairs [] = ([], True)"
| "parse_pairs (kv # rest) =
     (case parse_pairs rest of (ps, ok) \<Rightarrow>
       if kv = '''' then (ps, ok)
       else if CHR '';'' \<in> set kv then (ps, False)
       else case parse_pair kv of None \<Rightarrow> (ps, False) | Some p \<Rightarrow> (p # ps, ok))"

definition parse_query :: "string \<Rightarrow> (string \<times> string) list \<times> bool" where
  "parse_query q = parse_pairs (split_on (CHR ''&'') q)"

definition query_values :: "(string \<times> string) list \<Rightarrow> string \<Rightarrow> string list" where
  "query_values ps k = map snd (filter (\<lambda>p. fst p = k) ps)"

section \<open>Text that needs no coding\<close>

definition unreserved :: "char \<Rightarrow> bool" where
  "unreserved c = (is_alnum c \<or> c \<in> set ''-_.~'')"

lemma unescape_plain:
  "CHR ''%'' \<notin> set s \<Longrightarrow> (m = EncQuery \<Longrightarrow> CHR ''+'' \<notin> set s) \<Longrightarrow> m \<noteq> EncHost \<Longrightarrow> unescape m s = Some s"
  by (induction s) auto

lemma unescape_append:
  "unescape m a = Some x \<Longrightarrow> unescape m (a @ b) = map_option ((@) x) (unescape m b)"
proof (induction m a arbitrary: x rule: unescape.induct)
  case (1 m)
  then show ?case by (cases "unescape m b") auto
next
  case (2 m c s)
  show ?case
  proof (cases "c = CHR ''%''")
    case True
    with "2.prems" obtain p q t where s: "s = p # q # t" by (auto split: list.splits)
    with True "2.prems" obtain u v where h: "hex_val p = Some u" "hex_val q = Some v"
      by (auto split: option.splits)
    with "2.prems" True s obtain y where y: "unescape m t = Some y" "x = char_of (u * 16 + v) # y"
        and ok: "\<not> (m = EncHost \<and> u < 8 \<and> \<not> (u = 2 \<and> v = 5))"
      by (auto split: if_splits)
    have "unescape m (t @ b) = map_option ((@) y) (unescape m b)"
      using "2.IH"(1) [OF True s refl refl h ok y(1)] .
    with True s h ok y(2) show ?thesis by (cases "unescape m b") auto
  next
    case False
    with 2 show ?thesis by (cases "unescape m b") (auto split: if_splits)
  qed
qed

lemma should_escape_unreserved: "unreserved c \<Longrightarrow> \<not> should_escape c m"
  by (cases "is_alnum c") (simp_all add: should_escape_def unreserved_def)

lemma space_not_unreserved [simp]: "\<not> unreserved (CHR '' '')"
  by (simp add: unreserved_def is_alnum_def)

lemma escape_unreserved: "list_all unreserved s \<Longrightarrow> escape m s = s"
proof (induction s)
  case (Cons c s)
  then have "unreserved c" by simp
  then have "\<not> should_escape c m" "c \<noteq> CHR '' ''"
    using should_escape_unreserved space_not_unreserved by blast+
  with Cons show ?case by (simp add: escape_def)
qed (simp add: escape_def)

lemma is_hex_unreserved: "is_hex c \<Longrightarrow> unreserved c"
  by (auto simp: is_hex_def hex_val_def unreserved_def is_alnum_def split: if_splits)

lemma parse_pair_plain:
  assumes "CHR ''='' \<notin> set k" "CHR ''%'' \<notin> set (k @ v)" "CHR ''+'' \<notin> set (k @ v)"
  shows "parse_pair (k @ CHR ''='' # v) = Some (k, v)"
  using assms by (simp add: parse_pair_def cut_append unescape_plain)

lemma parse_query_single:
  assumes "CHR ''&'' \<notin> set kv" "CHR '';'' \<notin> set kv" "kv \<noteq> ''''" "parse_pair kv = Some p"
  shows "parse_query kv = ([p], True)"
  using assms by (simp add: parse_query_def split_on_no_sep)

lemma scheme_len_letters:
  "list_all (\<lambda>c. is_alnum c \<and> \<not> (48 \<le> code_of c \<and> code_of c \<le> 57)) s \<Longrightarrow> 0 < i + length s \<Longrightarrow>
     scheme_len i (s @ CHR '':'' # t) = Some (i + length s)"
  by (induction s arbitrary: i) (auto simp: is_alnum_def)

text \<open>An opaque URL \<open>scheme:?query\<close>.\<close>

lemma url_parse_opaque:
  assumes "list_all (\<lambda>c. is_alnum c \<and> \<not> (48 \<le> code_of c \<and> code_of c \<le> 57)) sch" "sch \<noteq> ''''"
    and "\<not> has_ctl q" "CHR ''#'' \<notin> set q"
  shows "url_parse (sch @ '':?'' @ q) =
    Some \<lparr>u_scheme = to_lower sch, u_host = '''', u_path = '''', u_raw_path = '''', u_raw_query = q, u_fragment = ''''\<rparr>"
proof -
  have ctl: "\<not> has_ctl (sch @ '':?'' @ q)"
    using assms(1,3) by (auto simp: has_ctl_def list_ex_iff list_all_iff is_alnum_def)
  have nohash: "CHR ''#'' \<notin> set (sch @ '':?'' @ q)"
    using assms(1,4) by (auto simp: list_all_iff is_alnum_def)
  have n: "scheme_len 0 (sch @ '':?'' @ q) = Some (length sch)"
    using scheme_len_letters [of sch 0 "''?'' @ q"] assms(1,2) by simp
  have "sch @ '':?'' @ q \<noteq> ''*''" by (cases sch) auto
  with ctl n have "parse_nofrag (sch @ '':?'' @ q) =
    Some \<lparr>u_scheme = to_lower sch, u_host = '''', u_path = '''', u_raw_path = '''', u_raw_query = q, u_fragment = ''''\<rparr>"
    using assms(2) by (simp add: parse_nofrag_def split_query_def cut_def Let_def)
  with cut_none [OF nohash] show ?thesis by (simp add: url_parse_def)
qed

section \<open>Escaping is undone by unescaping\<close>

lemma hex_val_upper: "x < 16 \<Longrightarrow> hex_val (upper_hex_digit x) = Some x"
  by (cases "x < 10") (simp_all add: hex_val_def upper_hex_digit_def)

lemma code_of_less_256: "code_of c div 16 < 16"
  using code_of_less [of c] by (simp add: div_less_iff_less_mult)

lemma unescape_escape:
  assumes m: "m \<noteq> EncHost"
  shows "unescape m (escape m s) = Some s"
proof (induction s)
  case (Cons c s)
  let ?e = "escape m s"
  have cons: "escape m (c # s) = (if m = EncQuery \<and> c = CHR '' '' then ''+'' else if should_escape c m then
      [CHR ''%'', upper_hex_digit (code_of c div 16), upper_hex_digit (code_of c mod 16)] else [c]) @ ?e"
    by (simp add: escape_def)
  consider "m = EncQuery \<and> c = CHR '' ''" | "\<not> (m = EncQuery \<and> c = CHR '' '')" "should_escape c m"
    | "\<not> (m = EncQuery \<and> c = CHR '' '')" "\<not> should_escape c m" by blast
  then show ?case
  proof cases
    case 1
    then have "escape m (c # s) = CHR ''+'' # ?e" by (simp add: escape_def)
    with 1 Cons show ?thesis by simp
  next
    case 2
    have "char_of (code_of c div 16 * 16 + code_of c mod 16) = c" by simp
    with 2 Cons show ?thesis using m by (auto simp: cons hex_val_upper code_of_less_256)
  next
    case 3
    have "c \<noteq> CHR ''%'' \<and> (m = EncQuery \<longrightarrow> c \<noteq> CHR ''+'')"
    proof (intro conjI impI notI)
      assume "c = CHR ''%''"
      with 3 m show False by (simp add: should_escape_def is_alnum_def)
    next
      assume "m = EncQuery" "c = CHR ''+''"
      with 3 show False by (simp add: should_escape_def is_alnum_def)
    qed
    with 3 Cons show ?thesis using m by (auto simp: cons)
  qed
qed (simp add: escape_def)

text \<open>What is written into a query are unreserved characters, \<open>%\<close> and \<open>+\<close>.\<close>

lemma query_escape_chars: "c \<in> set (escape EncQuery s) \<Longrightarrow> unreserved c \<or> c = CHR ''%'' \<or> c = CHR ''+''"
proof -
  have digit: "unreserved (upper_hex_digit x)" if "x < 16" for x
    using that by (auto simp: upper_hex_digit_def unreserved_def is_alnum_def)
  have "unreserved c" if "\<not> should_escape c EncQuery" for c
    using that by (auto simp: should_escape_def unreserved_def split: if_splits)
  with digit show "c \<in> set (escape EncQuery s) \<Longrightarrow> unreserved c \<or> c = CHR ''%'' \<or> c = CHR ''+''"
    by (auto simp: escape_def code_of_less_256 split: if_splits)
qed

end
