(* ===== verification/Magnet.thy ===== *)
theory Magnet
  imports Go_Url
begin

text \<open>
  \<open>internal/ingest/magnet.go\<close>: the info hash of a magnet link, the key every other component
  identifies a torrent by. \<open>wf_info_hash\<close> is what the rest of the program assumes of it.
\<close>

definition btih_prefix :: string where
  "btih_prefix = ''urn:btih:''"

definition parse_btih :: "string \<Rightarrow> err + string" where
  "parse_btih v =
     (if length v = 40 then
        (case hex_decode v of
          None \<Rightarrow> Inl (Msg ''invalid BTIH'')
        | Some d \<Rightarrow> if length d \<noteq> 20 then Inl (Msg ''invalid BTIH'') else Inr (to_lower v))
      else if length v = 32 then
        (case base32_decode (to_upper v) of
          None \<Rightarrow> Inl (Msg ''invalid BTIH'')
        | Some d \<Rightarrow> if length d \<noteq> 20 then Inl (Msg ''invalid BTIH'') else Inr (hex_encode d))
      else Inl (Msg ''invalid BTIH length''))"

fun parse_topics :: "string list \<Rightarrow> err + string" where
  "parse_topics [] = Inl (Msg ''magnet link lacks urn:btih'')"
| "parse_topics (t # ts) =
     (if \<not> has_prefix (to_lower t) btih_prefix then parse_topics ts
      else parse_btih (trim_space (drop (length btih_prefix) t)))"

definition parse_info_hash :: "string \<Rightarrow> err + string" where
  "parse_info_hash magnet_uri =
     (case url_parse (trim_space magnet_uri) of
       None \<Rightarrow> Inl (Msg ''not a magnet link'')
     | Some u \<Rightarrow>
         if \<not> equal_fold (u_scheme u) ''magnet'' then Inl (Msg ''not a magnet link'')
         else parse_topics (query_values (fst (parse_query (u_raw_query u))) ''xt''))"

definition wf_info_hash :: "string \<Rightarrow> bool" where
  "wf_info_hash h \<longleftrightarrow> length h = 40 \<and> list_all lower_hex h"

lemma wf_info_hash_lower: "wf_info_hash h \<Longrightarrow> to_lower h = h"
  by (simp add: wf_info_hash_def to_lower_lower_hex)

lemma parse_btih_wf: "parse_btih v = Inr h \<Longrightarrow> wf_info_hash h"
proof -
  assume p: "parse_btih v = Inr h"
  have "list_all lower_hex (to_lower v)" if "hex_decode v \<noteq> None"
    using that hex_decode_Some_iff [of v] by (auto simp: list_all_iff to_lower_def lower_hex_lower_char)
  with p show ?thesis
    by (auto simp: parse_btih_def wf_info_hash_def hex_encode_lower split: if_splits option.splits)
qed

lemma parse_topics_wf: "parse_topics ts = Inr h \<Longrightarrow> wf_info_hash h"
  by (induction ts) (auto split: if_splits intro: parse_btih_wf)

text \<open>A magnet link as clients send it: the topic first, other parameters behind it.\<close>

definition magnet_of :: "string \<Rightarrow> string \<Rightarrow> string" where
  "magnet_of v rest = ''magnet:?xt=urn:btih:'' @ v @ rest"

definition magnet_tail :: "string \<Rightarrow> bool" where
  "magnet_tail rest \<longleftrightarrow> (rest = '''' \<or> hd rest = CHR ''&'') \<and> \<not> has_ctl rest \<and> CHR ''#'' \<notin> set rest \<and>
     (rest \<noteq> '''' \<longrightarrow> graphic (last rest))"

definition token_char :: "char \<Rightarrow> bool" where
  "token_char c = (graphic c \<and> unreserved c)"

lemma token_char_not:
  "\<not> token_char (CHR ''#'')" "\<not> token_char (CHR ''&'')" "\<not> token_char (CHR '';'')"
  "\<not> token_char (CHR ''%'')" "\<not> token_char (CHR ''+'')" "\<not> token_char (CHR ''='')"
  by (simp_all add: token_char_def unreserved_def is_alnum_def)

lemma token_char_code: "token_char c \<Longrightarrow> \<not> code_of c < 32 \<and> code_of c \<noteq> 127"
  by (auto simp: token_char_def graphic_def)

lemma list_all_token:
  "list_all token_char v \<Longrightarrow> x \<in> {CHR ''#'', CHR ''&'', CHR '';'', CHR ''%'', CHR ''+'', CHR ''=''} \<Longrightarrow> x \<notin> set v"
  using token_char_not by (auto simp: list_all_iff)

lemma parse_magnet_of:
  assumes v: "list_all token_char v" "v \<noteq> ''''" and rest: "magnet_tail rest"
  shows "parse_info_hash (magnet_of v rest) = parse_btih v"
proof -
  let ?kv = "''xt=urn:btih:'' @ v"
  have g: "list_all graphic v" using v by (auto simp: list_all_iff token_char_def)
  have lv: "graphic (last v)" using g v(2) by (auto simp: list_all_iff)
  have "trim_space (magnet_of v rest) = magnet_of v rest"
  proof (rule trim_space_graphic)
    show "graphic (hd (magnet_of v rest))" by (simp add: magnet_of_def graphic_def)
    show "graphic (last (magnet_of v rest))"
      using rest v(2) lv by (cases "rest = ''''") (auto simp: magnet_of_def magnet_tail_def)
  qed
  moreover have "url_parse (magnet_of v rest) =
      Some \<lparr>u_scheme = to_lower ''magnet'', u_host = '''', u_path = '''', u_raw_path = '''', u_raw_query = ?kv @ rest, u_fragment = ''''\<rparr>"
  proof -
    have "\<not> has_ctl (?kv @ rest)"
      using rest v(1) by (auto simp: has_ctl_def magnet_tail_def list_ex_iff list_all_iff dest: token_char_code)
    moreover have "CHR ''#'' \<notin> set (?kv @ rest)"
      using rest list_all_token [OF v(1)] by (auto simp: magnet_tail_def)
    ultimately show ?thesis
      using url_parse_opaque [of "''magnet''" "?kv @ rest"] by (simp add: magnet_of_def is_alnum_def)
  qed
  moreover have "\<exists>qs. query_values (fst (parse_query (?kv @ rest))) ''xt'' = (btih_prefix @ v) # qs"
  proof -
    have na: "CHR ''&'' \<notin> set ?kv" and ns: "CHR '';'' \<notin> set ?kv"
      using list_all_token [OF v(1)] by auto
    have pp: "parse_pair ?kv = Some (''xt'', btih_prefix @ v)"
      using parse_pair_plain [of "''xt''" "btih_prefix @ v"] list_all_token [OF v(1)]
      by (simp add: btih_prefix_def)
    have split: "\<exists>qs. split_on (CHR ''&'') (?kv @ rest) = ?kv # qs"
    proof (cases rest)
      case Nil
      then show ?thesis using split_on_no_sep [OF na] by simp
    next
      case (Cons c t)
      with rest have "c = CHR ''&''" by (simp add: magnet_tail_def)
      with Cons show ?thesis using split_on_append_sep [OF na, of t] by auto
    qed
    then obtain qs where "split_on (CHR ''&'') (?kv @ rest) = ?kv # qs" by blast
    with pp ns show ?thesis
      by (cases "parse_pairs qs") (simp add: parse_query_def query_values_def)
  qed
  moreover have "trim_space v = v"
    using g v(2) by (intro trim_space_graphic) (auto simp: list_all_iff)
  ultimately show ?thesis
    by (auto simp: parse_info_hash_def btih_prefix_def to_lower_def lower_char_def)
qed

lemma hex_token: "list_all is_hex v \<Longrightarrow> list_all token_char v"
  by (auto simp: list_all_iff token_char_def is_hex_graphic is_hex_unreserved)

lemma b32_char_token: "x < 32 \<Longrightarrow> token_char (b32_digit x)"
  by (auto simp: token_char_def graphic_def unreserved_def is_alnum_def b32_digit_def)

lemma base32_encode_token: "list_all token_char (base32_encode s)"
  by (induction s rule: base32_encode.induct)
    (auto simp: list_all_iff b32_char_token digits_less simp del: list.map)

lemma b32_digit_upper: "x < 32 \<Longrightarrow> upper_char (b32_digit x) = b32_digit x"
  by (auto simp: upper_char_def b32_digit_def)

lemma base32_encode_upper: "to_upper (base32_encode s) = base32_encode s"
  by (induction s rule: base32_encode.induct)
    (auto simp: to_upper_def b32_digit_upper digits_less comp_def simp del: list.map intro!: map_idI)

section \<open>Properties\<close>

text \<open>C33. Whatever text is given, an accepted magnet link yields 40 lower-case hexadecimal digits:
  the form the database's check constraint on \<open>torrents.info_hash\<close> requires.\<close>

theorem info_hash_well_formed: "parse_info_hash m = Inr h \<Longrightarrow> wf_info_hash h"
  by (auto simp: parse_info_hash_def split: option.splits if_splits intro: parse_topics_wf)

text \<open>A link with a hexadecimal topic, in either case and with any further parameters behind it,
  yields that topic in lower case.\<close>

lemma info_hash_of_hex_topic:
  assumes "length v = 40" and "list_all is_hex v" and "magnet_tail rest"
  shows "parse_info_hash (magnet_of v rest) = Inr (to_lower v)"
proof -
  obtain d where d: "hex_decode v = Some d"
    using assms(1,2) hex_decode_Some_iff [of v] by auto
  with hex_decode_length [OF d] assms(1) have "parse_btih v = Inr (to_lower v)"
    by (simp add: parse_btih_def)
  moreover have "v \<noteq> ''''" using assms(1) by auto
  ultimately show ?thesis
    using parse_magnet_of [OF hex_token [OF assms(2)] _ assms(3)] by simp
qed

text \<open>The base-32 and the hexadecimal spelling of the same twenty bytes are the same torrent.\<close>

lemma info_hash_base32_hex_agree:
  assumes "length s = 20" and "magnet_tail rest"
  shows "parse_info_hash (magnet_of (base32_encode s) rest) = Inr (hex_encode s) \<and>
    parse_info_hash (magnet_of (hex_encode s) rest) = Inr (hex_encode s)"
proof
  have l: "length (base32_encode s) = 32" using length_base32_encode [of s] assms(1) by simp
  then have "base32_encode s \<noteq> ''''" by auto
  moreover have "parse_btih (base32_encode s) = Inr (hex_encode s)"
    using l assms(1) base32_decode_encode [of s] by (simp add: parse_btih_def base32_encode_upper)
  ultimately show "parse_info_hash (magnet_of (base32_encode s) rest) = Inr (hex_encode s)"
    using parse_magnet_of [OF base32_encode_token _ assms(2)] by simp
next
  have "list_all is_hex (hex_encode s)"
    using hex_encode_lower [of s] by (auto simp: list_all_iff lower_hex_is_hex)
  then show "parse_info_hash (magnet_of (hex_encode s) rest) = Inr (hex_encode s)"
    using info_hash_of_hex_topic [of "hex_encode s" rest] assms hex_encode_lower [of s]
    by (simp add: to_lower_lower_hex)
qed

text \<open>Each of the three at a concrete link.\<close>

theorem info_hash_well_formed_witness:
  "parse_info_hash (magnet_of (replicate 40 (CHR ''A'')) ''&dn=x'') = Inr (replicate 40 (CHR ''a'')) \<and>
   wf_info_hash (replicate 40 (CHR ''a''))"
proof -
  have "parse_info_hash (magnet_of (replicate 40 (CHR ''A'')) ''&dn=x'') = Inr (replicate 40 (CHR ''a''))"
    by code_simp
  then show ?thesis using info_hash_well_formed by blast
qed


end
