(* ===== verification/Ingest_Model.thy ===== *)
theory Ingest_Model
  imports Complex_Main Magnet
begin

text \<open>
  \<open>internal/ingest/model.go\<close> and the job constructors of \<open>internal/ingest/service.go\<close>: the data the
  ingest service, the task manager and the database exchange. Times are Go's nanoseconds since
  1970 as \<open>int\<close>; the progress of a task (a \<open>float64\<close> the code only compares and stores) is a
  rational; sizes are \<open>int64\<close> values held in \<open>int\<close>, and the one sum the code forms wraps
  (\<open>wrap64\<close>).
\<close>

type_synonym timestamp = int

record task =
  t_job_gid :: string
  t_info_hash :: string
  t_name :: string
  t_result_id :: string
  t_delete_file_id :: string
  t_wp_path_id :: string
  t_status :: int
  t_last_update :: int
  t_size_bytes :: int
  t_progress :: rat
  t_done :: bool
  t_failed :: bool
  t_category :: string

definition empty_task :: task where
  "empty_task = \<lparr>t_job_gid = '''', t_info_hash = '''', t_name = '''', t_result_id = '''',
     t_delete_file_id = '''', t_wp_path_id = '''', t_status = 0, t_last_update = 0, t_size_bytes = 0,
     t_progress = 0, t_done = False, t_failed = False, t_category = ''''\<rparr>"

record create_result =
  c_info_hash :: string
  c_created :: bool
  c_err_code :: int
  c_error :: string

definition empty_create_result :: create_result where
  "empty_create_result = \<lparr>c_info_hash = '''', c_created = False, c_err_code = 0, c_error = ''''\<rparr>"

definition conflict :: "create_result \<Rightarrow> bool" where
  "conflict r = (c_err_code r = 10008)"

record remote_parent =
  p_id :: string
  p_name :: string

record remote_node =
  n_id :: string
  n_parent_id :: string
  n_name :: string
  n_sha1 :: string
  n_size_bytes :: int
  n_pick_code :: string
  n_is_dir :: bool
  n_created_at :: int
  n_updated_at :: int
  n_parents :: "remote_parent list"

record scan_file =
  f_relative_path :: string
  f_strm_path :: string
  f_name :: string
  f_sha1 :: string
  f_size_bytes :: int
  f_remote_id :: string
  f_parent_id :: string
  f_remote_path :: string
  f_pick_code :: string
  f_created_at :: int
  f_updated_at :: int
  f_needs_strm :: bool

record scan_result =
  r_name :: string
  r_info_hash :: string
  r_magnet_uri :: string
  r_result_id :: string
  r_reused_task :: bool
  r_total_bytes :: int
  r_scanned_at :: timestamp
  r_strm_root :: string
  r_files :: "scan_file list"

datatype job_state = Queued | Running | Succeeded | Failed | Canceled

record job =
  j_id :: int
  j_gid :: string
  j_source :: string
  j_info_hash :: string
  j_name :: string
  j_progress :: rat
  j_magnet_uri :: string
  j_category :: string
  j_target_sha1 :: string
  j_state :: job_state
  j_error :: string
  j_created_at :: timestamp
  j_started_at :: "timestamp option"
  j_finished_at :: "timestamp option"

definition source_aria2 :: string where "source_aria2 = ''aria2''"
definition source_qbittorrent :: string where "source_qbittorrent = ''qbittorrent''"
definition source_cli :: string where "source_cli = ''cli''"
definition source_restore :: string where "source_restore = ''materialization_restore''"

lemmas source_defs = source_aria2_def source_qbittorrent_def source_cli_def source_restore_def

text \<open>\<open>newGID\<close> and \<open>AssignNewGID\<close>: eight bytes of the random source, in hexadecimal. The bytes are
  an argument (\<open>None\<close>: reading them failed).\<close>

definition new_gid :: "string option \<Rightarrow> err + string" where
  "new_gid rnd = (case rnd of None \<Rightarrow> Inl (Msg ''rand'') | Some bytes \<Rightarrow> Inr (hex_encode bytes))"

definition assign_new_gid :: "string option \<Rightarrow> job \<Rightarrow> err + job" where
  "assign_new_gid rnd j = (case new_gid rnd of Inl e \<Rightarrow> Inl e | Inr g \<Rightarrow> Inr (j\<lparr>j_gid := g\<rparr>))"

definition new_job_for_source :: "timestamp \<Rightarrow> string \<Rightarrow> string \<Rightarrow> err + job" where
  "new_job_for_source now magnet_uri source =
     (case parse_info_hash magnet_uri of
       Inl e \<Rightarrow> Inl e
     | Inr h \<Rightarrow> Inr \<lparr>j_id = 0, j_gid = take 16 h, j_source = trim_space source, j_info_hash = h,
         j_name = '''', j_progress = 0, j_magnet_uri = trim_space magnet_uri, j_category = '''',
         j_target_sha1 = '''', j_state = Queued, j_error = '''', j_created_at = now,
         j_started_at = None, j_finished_at = None\<rparr>)"

definition new_job :: "timestamp \<Rightarrow> string \<Rightarrow> err + job" where
  "new_job now magnet_uri = new_job_for_source now magnet_uri source_aria2"

text \<open>Addition of \<open>int64\<close> values.\<close>

definition wrap64 :: "int \<Rightarrow> int" where
  "wrap64 x = (x + 2 ^ 63) mod 2 ^ 64 - 2 ^ 63"

lemma wrap64_id: "- (2 ^ 63) \<le> x \<Longrightarrow> x < 2 ^ 63 \<Longrightarrow> wrap64 x = x"
  by (simp add: wrap64_def)

lemma new_job_fields:
  assumes "new_job_for_source now m src = Inr j"
  shows "j_state j = Queued" "wf_info_hash (j_info_hash j)" "j_gid j = take 16 (j_info_hash j)"
    "j_source j = trim_space src" "j_created_at j = now"
  using assms parse_topics_wf
  by (auto simp: new_job_for_source_def parse_info_hash_def split: sum.splits option.splits if_splits)

end
