(* ===== verification/Library_Paths.thy ===== *)
theory Library_Paths
  imports Ingest_Model
begin

text \<open>
  The pure helpers of \<open>internal/ingest/service.go\<close> that decide what is published and where: which
  files are videos, where a file's STRM goes below the library root, what a torrent's own
  directory may be called, and the paths recorded for the files of 115.
\<close>

section \<open>File kinds\<close>

definition is_nfo_file :: "string \<Rightarrow> bool" where
  "is_nfo_file file_path = equal_fold (path_ext (trim_space file_path)) ''.nfo''"

definition video_extensions :: "string list" where
  "video_extensions =
     [''.3g2'', ''.3gp'', ''.asf'', ''.avi'', ''.divx'', ''.f4v'', ''.flv'',
      ''.m2t'', ''.m2ts'', ''.m4v'', ''.mkv'', ''.mov'', ''.mp4'', ''.mpe'',
      ''.mpeg'', ''.mpg'', ''.mts'', ''.ogm'', ''.ogv'', ''.rm'', ''.rmvb'',
      ''.ts'', ''.vob'', ''.webm'', ''.wmv'']"

definition is_video_file :: "string \<Rightarrow> bool" where
  "is_video_file file_path = (to_lower (path_ext (trim_space file_path)) \<in> set video_extensions)"

section \<open>Library paths\<close>

text \<open>Both builders test the cleaned root and file the same way (\<open>rel_path_ok\<close>).\<close>

definition library_relative_path :: "string \<Rightarrow> string \<Rightarrow> err + string" where
  "library_relative_path base file_path =
     (let clean_root = path_clean (trim_space base); clean_file = path_clean (trim_space file_path)
      in if \<not> rel_path_ok clean_root \<or> \<not> rel_path_ok clean_file
         then Inl (Msg ''invalid library output path'')
         else Inr (path_join [clean_root, clean_file]))"

definition strm_relative_path :: "string \<Rightarrow> string \<Rightarrow> err + string" where
  "strm_relative_path base file_path =
     (let clean_root = path_clean (trim_space base); clean_file = path_clean (trim_space file_path)
      in if \<not> rel_path_ok clean_root \<or> \<not> rel_path_ok clean_file
         then Inl (Msg ''invalid STRM output path'')
         else Inr (path_join [clean_root, clean_file @ ''.strm'']))"

text \<open>\<open>SafeLibraryName\<close>; the mapping is on characters, and every character it replaces is one byte
  of its UTF-8 encoding.\<close>

definition safe_char :: "char \<Rightarrow> char" where
  "safe_char c =
     (if c = CHR ''/'' \<or> code_of c = 92 then CHR ''_''
      else if code_of c < 32 \<or> code_of c = 127 then CHR ''_''
      else c)"

definition safe_library_name :: "string \<Rightarrow> string" where
  "safe_library_name value =
     (let v = trim_set (map safe_char (trim_space value)) '' .''
      in if v = ''.'' \<or> v = ''..'' then '''' else v)"

section \<open>Scanned files\<close>

definition remote_file :: "remote_node \<Rightarrow> string \<Rightarrow> string \<Rightarrow> scan_file" where
  "remote_file n relative_path remote_path_value =
     \<lparr>f_relative_path = relative_path, f_strm_path = '''', f_name = n_name n, f_sha1 = to_lower (n_sha1 n),
      f_size_bytes = n_size_bytes n, f_remote_id = n_id n, f_parent_id = n_parent_id n,
      f_remote_path = remote_path_value, f_pick_code = n_pick_code n,
      f_created_at = n_created_at n, f_updated_at = n_updated_at n, f_needs_strm = False\<rparr>"

definition contains_sha1 :: "scan_file list \<Rightarrow> string \<Rightarrow> bool" where
  "contains_sha1 fs sha1 = list_ex (\<lambda>f. equal_fold (f_sha1 f) sha1) fs"

definition remote_path :: "remote_parent list \<Rightarrow> string \<Rightarrow> string" where
  "remote_path parents name =
     (let segs = map p_name (filter (\<lambda>p. p_id p \<noteq> ''0'' \<and> p_name p \<noteq> '''') parents)
        @ (if name \<noteq> '''' then [name] else [])
      in ''/'' @ trim_left (path_join segs) ''/'')"

section \<open>Facts the publishing code rests on\<close>

lemma library_relative_path_eq:
  assumes "library_relative_path base f = Inr p"
  defines "rs \<equiv> path_segs (trim_space base)" and "fs \<equiv> path_segs (trim_space f)"
  shows "rs \<noteq> []" "list_all plain_seg rs" "fs \<noteq> []" "list_all plain_seg fs" "p = join_with ''/'' (rs @ fs)"
proof -
  from assms(1) have ok: "rel_path_ok (path_clean (trim_space base))" "rel_path_ok (path_clean (trim_space f))"
    and p: "p = path_join [path_clean (trim_space base), path_clean (trim_space f)]"
    by (auto simp: library_relative_path_def Let_def split: if_splits)
  from rel_path_ok_segs [OF ok(1)] rel_path_ok_segs [OF ok(2)]
  show "rs \<noteq> []" "list_all plain_seg rs" "fs \<noteq> []" "list_all plain_seg fs" "p = join_with ''/'' (rs @ fs)"
    using p path_join_plain unfolding rs_def fs_def by auto
qed

lemma strm_relative_path_eq:
  assumes "strm_relative_path base f = Inr p"
  defines "rs \<equiv> path_segs (trim_space base)" and "fs \<equiv> path_segs (trim_space f)"
  shows "rs \<noteq> []" "list_all plain_seg rs" "fs \<noteq> []" "list_all plain_seg fs"
    "p = join_with ''/'' (rs @ butlast fs @ [last fs @ ''.strm''])"
proof -
  from assms(1) have ok: "rel_path_ok (path_clean (trim_space base))" "rel_path_ok (path_clean (trim_space f))"
    and p: "p = path_join [path_clean (trim_space base), path_clean (trim_space f) @ ''.strm'']"
    by (auto simp: strm_relative_path_def Let_def split: if_splits)
  from rel_path_ok_segs [OF ok(1)] rel_path_ok_segs [OF ok(2)]
  show rs: "rs \<noteq> []" "list_all plain_seg rs" and fs: "fs \<noteq> []" "list_all plain_seg fs"
    unfolding rs_def fs_def by auto
  have "list_all plain_seg (butlast fs @ [last fs @ ''.strm''])"
    using plain_append_suffix [OF fs, of "''.strm''"] by simp
  then show "p = join_with ''/'' (rs @ butlast fs @ [last fs @ ''.strm''])"
    using p rs fs rel_path_ok_segs [OF ok(1)] rel_path_ok_segs [OF ok(2)]
      path_join_plain [of rs "butlast fs @ [last fs @ ''.strm'']"] join_snoc_append [OF fs(1), of "''/''" "''.strm''"]
    unfolding rs_def fs_def by simp
qed

text \<open>A path that stays below the directory it is resolved in.\<close>

definition inside_library :: "string \<Rightarrow> bool" where
  "inside_library p \<longleftrightarrow> (\<exists>xs. xs \<noteq> [] \<and> list_all plain_seg xs \<and> p = join_with ''/'' xs)"

lemma trim_left_hd: "trim_left s cs \<noteq> [] \<Longrightarrow> hd (trim_left s cs) \<notin> set cs"
  unfolding trim_left_def using hd_dropWhile [of "\<lambda>c. c \<in> set cs" s] by blast

lemma trim_set_ends:
  assumes "trim_set s cs \<noteq> []"
  shows "hd (trim_set s cs) \<notin> set cs \<and> last (trim_set s cs) \<notin> set cs"
proof -
  let ?l = "trim_left s cs" and ?r = "trim_right (trim_left s cs) cs"
  have "last ?r \<notin> set cs"
    using assms hd_dropWhile [of "\<lambda>c. c \<in> set cs" "rev ?l"]
    by (auto simp: trim_set_def trim_right_def last_rev)
  moreover have "\<exists>t. ?l = ?r @ t"
    unfolding trim_right_def
    by (metis rev_append rev_rev_ident takeWhile_dropWhile_id)
  then have "hd ?r = hd ?l" "?l \<noteq> []" using assms unfolding trim_set_def by (metis hd_append2 append_is_Nil_conv)+
  then have "hd ?r \<notin> set cs" using trim_left_hd by metis
  ultimately show ?thesis by (simp add: trim_set_def)
qed

lemma set_trim_set: "set (trim_set s cs) \<subseteq> set s"
  using set_dropWhile_subset unfolding trim_set_def trim_left_def trim_right_def
  by (metis (no_types, lifting) set_rev subset_trans)

section \<open>Properties\<close>

text \<open>Where an STRM file may go: whatever names the torrent and its file carry, an accepted path
  consists of plain segments only, so it names a file below the STRM directory (no absolute path,
  no parent segment), and it is the cleaned root, the cleaned directory of the file and the file's
  name with \<open>.strm\<close> behind it.\<close>

lemma strm_relative_path_inside:
  assumes "strm_relative_path base f = Inr p"
  shows "inside_library p \<and> p = path_clean (trim_space base) @ ''/'' @ path_clean (trim_space f) @ ''.strm''"
proof -
  let ?rs = "path_segs (trim_space base)" and ?fs = "path_segs (trim_space f)"
  note eq = strm_relative_path_eq [OF assms]
  have "list_all plain_seg (butlast ?fs @ [last ?fs @ ''.strm''])"
    using plain_append_suffix [OF eq(3,4), of "''.strm''"] by simp
  then have "inside_library p"
    unfolding inside_library_def using eq(1,2,5)
    by (intro exI [of _ "?rs @ butlast ?fs @ [last ?fs @ ''.strm'']"]) simp
  moreover have "p = join_with ''/'' ?rs @ ''/'' @ join_with ''/'' ?fs @ ''.strm''"
    using eq(1,3,5) by (simp add: join_append join_snoc_append)
  moreover have "rel_path_ok (path_clean (trim_space base))" "rel_path_ok (path_clean (trim_space f))"
    using assms by (auto simp: strm_relative_path_def Let_def split: if_splits)
  ultimately show ?thesis using rel_path_ok_segs by metis
qed

text \<open>Two files of one torrent share an STRM path only if their cleaned paths are the same, so
  publishing one file never overwrites the STRM of another.\<close>

lemma strm_relative_path_injective:
  assumes "strm_relative_path base f = Inr p" and "strm_relative_path base g = Inr p"
  shows "path_clean (trim_space f) = path_clean (trim_space g)"
proof -
  have "\<And>h. strm_relative_path base h = Inr p \<Longrightarrow>
      p = path_clean (trim_space base) @ ''/'' @ path_clean (trim_space h) @ ''.strm''"
    by (drule strm_relative_path_inside) simp
  with assms show ?thesis by (metis append_same_eq same_append_eq)
qed

text \<open>A name made safe for the library is empty or one plain path segment without control
  characters or backslashes, so a torrent's or a category's name cannot leave its directory.\<close>

lemma safe_library_name_plain:
  "safe_library_name v = '''' \<or> plain_seg (safe_library_name v)
     \<and> (\<forall>c \<in> set (safe_library_name v). 32 \<le> code_of c \<and> code_of c \<noteq> 127 \<and> code_of c \<noteq> 92)"
proof (cases "safe_library_name v = ''''")
  case False
  let ?t = "trim_set (map safe_char (trim_space v)) '' .''"
  have t: "safe_library_name v = ?t" "?t \<noteq> ''.''" "?t \<noteq> ''..''" "?t \<noteq> ''''"
    using False by (auto simp: safe_library_name_def Let_def split: if_splits)
  have sc: "safe_char d \<noteq> slash \<and> 32 \<le> code_of (safe_char d) \<and> code_of (safe_char d) \<noteq> 127 \<and> code_of (safe_char d) \<noteq> 92" for d
    by (auto simp: safe_char_def)
  have "c \<noteq> slash \<and> 32 \<le> code_of c \<and> code_of c \<noteq> 127 \<and> code_of c \<noteq> 92" if "c \<in> set ?t" for c
  proof -
    from that set_trim_set [of "map safe_char (trim_space v)" "'' .''"]
    obtain d where "c = safe_char d" by auto
    with sc show ?thesis by simp
  qed
  with t show ?thesis unfolding plain_seg_def by metis
qed simp

end
