(* ===== verification/Store.thy ===== *)
theory Store
  imports Ingest_Model
begin

text \<open>
  The SQLite schema of \<open>internal/storage/sqlite/db.go\<close>: one record per table row, one field of
  \<open>db\<close> per table. A table is the list of its rows in insertion order; a nullable column is an
  \<open>option\<close>; a time column (text of fixed width in UTC, so that text order is time order) is its
  number of microseconds. \<open>keyed_table\<close> is the contract of the one pattern every write uses,
  \<open>INSERT ... ON CONFLICT(key) DO UPDATE\<close>.
\<close>

section \<open>Times\<close>

definition format_time :: "timestamp \<Rightarrow> int" where
  "format_time t = t div 1000"

definition parse_time :: "int \<Rightarrow> timestamp" where
  "parse_time m = m * 1000"

definition nullable_time :: "timestamp option \<Rightarrow> int option" where
  "nullable_time t = map_option format_time t"

lemma format_time_mono: "s \<le> t \<Longrightarrow> format_time s \<le> format_time t"
  by (simp add: format_time_def zdiv_mono1)

lemma format_parse_time [simp]: "format_time (parse_time m) = m"
  by (simp add: format_time_def parse_time_def)

section \<open>Rows\<close>

record torrent_row =
  tr_id :: int
  tr_info_hash :: string
  tr_magnet_uri :: string
  tr_display_name :: string
  tr_total_bytes :: int
  tr_file_count :: int
  tr_strm_root :: string
  tr_created_at :: int
  tr_updated_at :: int
  tr_scanned_at :: "int option"

record task_row =
  tk_id :: int
  tk_torrent_id :: int
  tk_gid :: string
  tk_source :: string
  tk_magnet_uri :: string
  tk_state :: job_state
  tk_error :: string
  tk_prov_status :: int
  tk_prov_update :: int
  tk_prov_progress :: rat
  tk_created_at :: int
  tk_started_at :: "int option"
  tk_finished_at :: "int option"

datatype artifact_state = Active | Deleting | DeleteFailed | Deleted | Orphaned

record artifact_row =
  ar_id :: int
  ar_torrent_id :: int
  ar_task_id :: "int option"
  ar_provider :: string
  ar_result_remote_id :: string
  ar_delete_file_id :: string
  ar_work_dir_remote_id :: string
  ar_state :: artifact_state
  ar_last_accessed_at :: "int option"
  ar_verified_at :: "int option"
  ar_deleted_at :: "int option"
  ar_deletion_error :: string
  ar_created_at :: int
  ar_updated_at :: int

record content_row =
  co_id :: int
  co_sha1 :: string
  co_size_bytes :: int
  co_preferred_name :: string
  co_last_accessed_at :: "int option"
  co_created_at :: int
  co_updated_at :: int

record torrent_file_row =
  tf_id :: int
  tf_torrent_id :: int
  tf_content_id :: int
  tf_relative_path :: string
  tf_source_created_at :: int
  tf_source_updated_at :: int
  tf_strm_seeded_at :: "int option"
  tf_last_seen_at :: int
  tf_removed_at :: "int option"

datatype ownership = ManagedCache | External

record location_row =
  lo_id :: int
  lo_content_id :: int
  lo_torrent_id :: "int option"
  lo_artifact_id :: "int option"
  lo_provider :: string
  lo_remote_file_id :: string
  lo_remote_parent_id :: string
  lo_pick_code :: string
  lo_remote_path :: string
  lo_ownership :: ownership
  lo_verified_at :: "int option"
  lo_materialized_at :: "int option"
  lo_deleted_at :: "int option"
  lo_created_at :: int
  lo_updated_at :: int

record db =
  torrents :: "torrent_row list"
  tasks :: "task_row list"
  aria2_tasks :: "int list"
  qbittorrent_tasks :: "(int \<times> string) list"
  restore_tasks :: "(int \<times> string) list"
  cli_tasks :: "int list"
  artifacts :: "artifact_row list"
  categories :: "(string \<times> string) list"
  contents :: "content_row list"
  torrent_files :: "torrent_file_row list"
  locations :: "location_row list"

definition empty_db :: db where
  "empty_db = \<lparr>torrents = [], tasks = [], aria2_tasks = [], qbittorrent_tasks = [], restore_tasks = [],
     cli_tasks = [], artifacts = [], categories = [], contents = [], torrent_files = [], locations = []\<rparr>"

section \<open>Row ids\<close>

text \<open>\<open>INTEGER PRIMARY KEY\<close> without \<open>AUTOINCREMENT\<close>: one more than the largest id in use.\<close>

fun max_id :: "int list \<Rightarrow> int" where
  "max_id [] = 0"
| "max_id (i # is) = max i (max_id is)"

definition next_id :: "('r \<Rightarrow> int) \<Rightarrow> 'r list \<Rightarrow> int" where
  "next_id rid rows = max_id (map rid rows) + 1"

lemma max_id_upper: "i \<in> set is \<Longrightarrow> i \<le> max_id is"
  by (induction "is") auto

lemma next_id_fresh: "next_id rid rows \<notin> rid ` set rows"
proof
  assume "next_id rid rows \<in> rid ` set rows"
  then have "next_id rid rows \<le> max_id (map rid rows)"
    by (intro max_id_upper) auto
  then show False by (simp add: next_id_def)
qed

lemma next_id_neq: "r \<in> set rows \<Longrightarrow> rid r \<noteq> next_id rid rows"
  using next_id_fresh [of rid rows] by (metis image_eqI)

section \<open>Updating and upserting rows\<close>

definition update_rows :: "('r \<Rightarrow> bool) \<Rightarrow> ('r \<Rightarrow> 'r) \<Rightarrow> 'r list \<Rightarrow> 'r list" where
  "update_rows P f rows = map (\<lambda>r. if P r then f r else r) rows"

definition count_rows :: "('r \<Rightarrow> bool) \<Rightarrow> 'r list \<Rightarrow> nat" where
  "count_rows P rows = length (filter P rows)"

definition upsert :: "('r \<Rightarrow> int) \<Rightarrow> ('r \<Rightarrow> bool) \<Rightarrow> ('r \<Rightarrow> 'r) \<Rightarrow> (int \<Rightarrow> 'r) \<Rightarrow> 'r list \<Rightarrow> 'r list" where
  "upsert rid P upd mk rows =
     (if list_ex P rows then update_rows P upd rows else rows @ [mk (next_id rid rows)])"

lemma set_update_rows: "set (update_rows P f rows) = (\<lambda>r. if P r then f r else r) ` set rows"
  by (simp add: update_rows_def)

lemma map_update_rows: "(\<And>r. g (f r) = g r) \<Longrightarrow> map g (update_rows P f rows) = map g rows"
  by (simp add: update_rows_def)

lemma length_update_rows [simp]: "length (update_rows P f rows) = length rows"
  by (simp add: update_rows_def)

lemma update_rows_none: "\<not> list_ex P rows \<Longrightarrow> update_rows P f rows = rows"
  by (auto simp: update_rows_def list_ex_iff intro: map_idI)

lemma count_rows_0: "count_rows P rows = 0 \<longleftrightarrow> \<not> list_ex P rows"
  by (auto simp: count_rows_def list_ex_iff filter_empty_conv)

lemma find_update_rows_key:
  "(\<And>r. k (f r) = k r) \<Longrightarrow>
    find (\<lambda>r. k r = x) (update_rows P f rows) =
      map_option (\<lambda>r. if P r then f r else r) (find (\<lambda>r. k r = x) rows)"
  by (induction rows) (auto simp: update_rows_def)

lemma find_append: "find P (xs @ ys) = (case find P xs of None \<Rightarrow> find P ys | Some x \<Rightarrow> Some x)"
  by (induction xs) auto

lemma find_key_unique:
  "distinct (map k rows) \<Longrightarrow> r \<in> set rows \<Longrightarrow> find (\<lambda>x. k x = k r) rows = Some r"
  by (induction rows) (auto simp: image_iff)

lemma find_Some_set: "find P xs = Some x \<Longrightarrow> x \<in> set xs \<and> P x"
  by (auto simp: find_Some_iff)

lemma find_None_key: "find (\<lambda>x. k x = v) rows = None \<longleftrightarrow> v \<notin> k ` set rows"
  by (auto simp: find_None_iff)

text \<open>The contract of a table with a unique key that inserts and updates respect.\<close>

locale keyed_table =
  fixes rid :: "'r \<Rightarrow> int" and key :: "'r \<Rightarrow> 'k" and upd :: "'a \<Rightarrow> 'r \<Rightarrow> 'r" and mk :: "'a \<Rightarrow> int \<Rightarrow> 'r"
    and arg_key :: "'a \<Rightarrow> 'k"
  assumes upd_id: "rid (upd a r) = rid r"
    and upd_key: "key (upd a r) = key r"
    and mk_id: "rid (mk a i) = i"
    and mk_key: "key (mk a i) = arg_key a"
begin

lemma upsert_ids:
  assumes "distinct (map rid rows)"
  shows "distinct (map rid (upsert rid (\<lambda>r. key r = arg_key a) (upd a) (mk a) rows))"
  using assms next_id_fresh [of rid rows]
  by (auto simp: upsert_def map_update_rows upd_id mk_id)

lemma upsert_keys:
  assumes "distinct (map key rows)"
  shows "distinct (map key (upsert rid (\<lambda>r. key r = arg_key a) (upd a) (mk a) rows))"
  using assms by (auto simp: upsert_def map_update_rows upd_key mk_key list_ex_iff)

lemma upsert_find:
  "find (\<lambda>r. key r = k) (upsert rid (\<lambda>r. key r = arg_key a) (upd a) (mk a) rows) =
     (if k = arg_key a then
        Some (case find (\<lambda>r. key r = k) rows of None \<Rightarrow> mk a (next_id rid rows) | Some r \<Rightarrow> upd a r)
      else find (\<lambda>r. key r = k) rows)"
proof (cases "list_ex (\<lambda>r. key r = arg_key a) rows")
  case True
  then have "find (\<lambda>r. key r = arg_key a) rows \<noteq> None"
    by (auto simp: list_ex_iff find_None_iff)
  then obtain q where q: "find (\<lambda>r. key r = arg_key a) rows = Some q" by blast
  have "find (\<lambda>r. key r = k) (upsert rid (\<lambda>r. key r = arg_key a) (upd a) (mk a) rows) =
      map_option (\<lambda>r. if key r = arg_key a then upd a r else r) (find (\<lambda>r. key r = k) rows)"
    using True by (simp add: upsert_def find_update_rows_key upd_key)
  then show ?thesis
    using q find_Some_set [of "\<lambda>r. key r = k" rows]
    by (cases "find (\<lambda>r. key r = k) rows") auto
next
  case False
  then have "find (\<lambda>r. key r = arg_key a) rows = None"
    by (auto simp: list_ex_iff find_None_iff)
  with False show ?thesis
    by (auto simp: upsert_def find_append mk_key split: option.splits)
qed

lemma upsert_set:
  "r \<in> set (upsert rid (\<lambda>r. key r = arg_key a) (upd a) (mk a) rows) \<Longrightarrow>
    r \<in> set rows \<and> key r \<noteq> arg_key a \<or> (\<exists>q \<in> set rows. key q = arg_key a \<and> r = upd a q) \<or>
      arg_key a \<notin> key ` set rows \<and> r = mk a (next_id rid rows)"
  by (auto simp: upsert_def set_update_rows list_ex_iff split: if_splits)

lemma upsert_id_mono:
  "rid ` set rows \<subseteq> rid ` set (upsert rid (\<lambda>r. key r = arg_key a) (upd a) (mk a) rows)"
proof -
  have "map rid (update_rows P (upd a) rows) = map rid rows" for P
    by (rule map_update_rows) (rule upd_id)
  then have "rid ` set (update_rows P (upd a) rows) = rid ` set rows" for P
    by (metis set_map)
  then show ?thesis by (auto simp: upsert_def)
qed

end

end
