(* ===== verification/Job_Store.thy ===== *)
theory Job_Store
  imports Store
begin

text \<open>
  The job half of \<open>internal/storage/sqlite/ingest.go\<close>: the tasks table and the per-source tables
  behind it. Each operation is the statement sequence of the method of the same name; a violated
  constraint of the schema is an error, and an operation that opens a transaction is under \<open>tx\<close>.
  Failures of SQLite itself (I/O, a canceled context) are not modelled.
\<close>

section \<open>Schema constraints\<close>

definition active :: "task_row \<Rightarrow> bool" where
  "active r = (tk_state r = Queued \<or> tk_state r = Running)"

text \<open>\<open>idx_tasks_active_source_torrent\<close>: one queued or running task per source and torrent.\<close>

definition active_unique :: "task_row list \<Rightarrow> bool" where
  "active_unique ts = distinct (map (\<lambda>r. (tk_source r, tk_torrent_id r)) (filter active ts))"

definition hash_check :: "string \<Rightarrow> bool" where
  "hash_check h = (length h = 40 \<and> h = to_lower h)"

section \<open>Reading jobs\<close>

definition qbit_category :: "db \<Rightarrow> int \<Rightarrow> string" where
  "qbit_category d i = (case find (\<lambda>q. fst q = i) (qbittorrent_tasks d) of None \<Rightarrow> '''' | Some q \<Rightarrow> snd q)"

definition torrent_by_id :: "db \<Rightarrow> int \<Rightarrow> torrent_row option" where
  "torrent_by_id d i = find (\<lambda>t. tr_id t = i) (torrents d)"

definition torrent_by_hash :: "db \<Rightarrow> string \<Rightarrow> torrent_row option" where
  "torrent_by_hash d h = find (\<lambda>t. tr_info_hash t = h) (torrents d)"

definition task_by_gid :: "db \<Rightarrow> string \<Rightarrow> task_row option" where
  "task_by_gid d g = find (\<lambda>r. tk_gid r = g) (tasks d)"

text \<open>The join every job query makes, and \<open>scanJob\<close>.\<close>

definition job_of_row :: "db \<Rightarrow> task_row \<Rightarrow> job option" where
  "job_of_row d r =
     map_option (\<lambda>t.
       \<lparr>j_id = tk_id r, j_gid = tk_gid r, j_source = tk_source r, j_info_hash = tr_info_hash t,
        j_name = tr_display_name t, j_progress = tk_prov_progress r, j_magnet_uri = tk_magnet_uri r,
        j_category = qbit_category d (tk_id r), j_target_sha1 = '''', j_state = tk_state r,
        j_error = tk_error r, j_created_at = parse_time (tk_created_at r),
        j_started_at = map_option parse_time (tk_started_at r),
        j_finished_at = map_option parse_time (tk_finished_at r)\<rparr>)
       (torrent_by_id d (tk_torrent_id r))"

definition get_job :: "string \<Rightarrow> (db, job) io" where
  "get_job g = (\<lambda>d.
     (case task_by_gid d g of
       None \<Rightarrow> Inl ErrJobNotFound
     | Some r \<Rightarrow> (case job_of_row d r of None \<Rightarrow> Inl ErrJobNotFound | Some j \<Rightarrow> Inr j), d))"

text \<open>\<open>listJobs\<close>: the aria2 and qBittorrent sources are told by their own tables.\<close>

definition source_clause :: "db \<Rightarrow> string \<Rightarrow> task_row \<Rightarrow> bool" where
  "source_clause d source r =
     (if source = '''' then True
      else if source = source_aria2 then tk_id r \<in> set (aria2_tasks d)
      else if source = source_qbittorrent then tk_id r \<in> fst ` set (qbittorrent_tasks d)
      else tk_source r = source)"

definition order_jobs :: "task_row list \<Rightarrow> task_row list" where
  "order_jobs rows = sort_key tk_created_at (sort_key tk_id rows)"

definition list_jobs :: "string \<Rightarrow> job_state list \<Rightarrow> (db, job list) io" where
  "list_jobs source states = (\<lambda>d.
     (Inr (List.map_filter (job_of_row d)
        (order_jobs (filter (\<lambda>r. source_clause d source r \<and> (states = [] \<or> tk_state r \<in> set states)) (tasks d)))), d))"

definition latest_job :: "string \<Rightarrow> string \<Rightarrow> (db, job) io" where
  "latest_job source info_hash = (\<lambda>d.
     (let rows = filter (\<lambda>r. tk_source r = source \<and>
          map_option tr_info_hash (torrent_by_id d (tk_torrent_id r)) = Some (to_lower info_hash)) (tasks d)
      in case rev (sort_key tk_id rows) of
           [] \<Rightarrow> Inl ErrJobNotFound
         | r # _ \<Rightarrow> (case job_of_row d r of None \<Rightarrow> Inl ErrJobNotFound | Some j \<Rightarrow> Inr j), d))"

section \<open>Writing jobs\<close>

type_synonym torrent_arg = "string \<times> string \<times> int"

definition job_torrent_mk :: "torrent_arg \<Rightarrow> int \<Rightarrow> torrent_row" where
  "job_torrent_mk a i = (case a of (h, m, now) \<Rightarrow>
     \<lparr>tr_id = i, tr_info_hash = h, tr_magnet_uri = m, tr_display_name = '''', tr_total_bytes = 0,
      tr_file_count = 0, tr_strm_root = '''', tr_created_at = now, tr_updated_at = now, tr_scanned_at = None\<rparr>)"

definition job_torrent_upd :: "torrent_arg \<Rightarrow> torrent_row \<Rightarrow> torrent_row" where
  "job_torrent_upd a t = (case a of (h, m, now) \<Rightarrow> t\<lparr>tr_magnet_uri := m, tr_updated_at := now\<rparr>)"

definition upsert_job_torrent :: "torrent_arg \<Rightarrow> torrent_row list \<Rightarrow> torrent_row list" where
  "upsert_job_torrent a = upsert tr_id (\<lambda>t. tr_info_hash t = fst a) (job_torrent_upd a) (job_torrent_mk a)"

interpretation jt: keyed_table tr_id tr_info_hash job_torrent_upd job_torrent_mk fst
  by unfold_locales (auto simp: job_torrent_upd_def job_torrent_mk_def split: prod.splits)

text \<open>The row of the source's own table.\<close>

definition insert_extension :: "string \<Rightarrow> job \<Rightarrow> int \<Rightarrow> (db, unit) io" where
  "insert_extension source j i = (\<lambda>d.
     if source = source_aria2 then
       (if i \<in> set (aria2_tasks d) then (Inl (Constraint ''aria2_tasks.task_id''), d)
        else (Inr (), d\<lparr>aria2_tasks := aria2_tasks d @ [i]\<rparr>))
     else if source = source_qbittorrent then
       (if i \<in> fst ` set (qbittorrent_tasks d) then (Inl (Constraint ''qbittorrent_tasks.task_id''), d)
        else (Inr (), d\<lparr>qbittorrent_tasks := qbittorrent_tasks d @ [(i, trim_space (j_category j))]\<rparr>))
     else if source = source_restore then
       (if i \<in> fst ` set (restore_tasks d) then (Inl (Constraint ''materialization_restore_tasks.task_id''), d)
        else (Inr (), d\<lparr>restore_tasks := restore_tasks d @ [(i, to_lower (j_target_sha1 j))]\<rparr>))
     else if source = source_cli then
       (if i \<in> set (cli_tasks d) then (Inl (Constraint ''cli_tasks.task_id''), d)
        else (Inr (), d\<lparr>cli_tasks := cli_tasks d @ [i]\<rparr>))
     else (Inr (), d))"

definition new_task_row :: "string \<Rightarrow> job \<Rightarrow> int \<Rightarrow> int \<Rightarrow> task_row" where
  "new_task_row source j torrent_id i =
     \<lparr>tk_id = i, tk_torrent_id = torrent_id, tk_gid = j_gid j, tk_source = source,
      tk_magnet_uri = j_magnet_uri j, tk_state = j_state j, tk_error = '''', tk_prov_status = 0,
      tk_prov_update = 0, tk_prov_progress = 0, tk_created_at = format_time (j_created_at j),
      tk_started_at = None, tk_finished_at = None\<rparr>"

definition insert_task :: "task_row \<Rightarrow> (db, unit) io" where
  "insert_task r = (\<lambda>d.
     if tk_gid r \<in> tk_gid ` set (tasks d) then (Inl (Constraint ''tasks.gid''), d)
     else if tk_source r = '''' then (Inl (Constraint ''tasks.source''), d)
     else if \<not> active_unique (tasks d @ [r]) then (Inl (Constraint ''tasks.source, tasks.torrent_id''), d)
     else (Inr (), d\<lparr>tasks := tasks d @ [r]\<rparr>))"

definition create_job :: "job \<Rightarrow> (db, unit) io" where
  "create_job j = tx (\<lambda>d.
     let source = (if j_source j = '''' then source_aria2 else j_source j);
         now = format_time (j_created_at j); h = to_lower (j_info_hash j)
     in if \<not> hash_check h then (Inl (Constraint ''torrents.info_hash''), d)
        else
          let d1 = d\<lparr>torrents := upsert_job_torrent (h, j_magnet_uri j, now) (torrents d)\<rparr>
          in case torrent_by_hash d1 h of
               None \<Rightarrow> (Inl ErrNoRows, d1)
             | Some t \<Rightarrow>
                 let i = next_id tk_id (tasks d1)
                 in io_bind (insert_task (new_task_row source j (tr_id t) i))
                      (\<lambda>_. insert_extension source j i) d1)"

definition update_job_row :: "job \<Rightarrow> task_row \<Rightarrow> task_row" where
  "update_job_row j r = r\<lparr>tk_magnet_uri := j_magnet_uri j, tk_state := j_state j, tk_error := j_error j,
     tk_started_at := nullable_time (j_started_at j), tk_finished_at := nullable_time (j_finished_at j)\<rparr>"

text \<open>The guard of the statement: a canceled task is only written by another cancellation.\<close>

definition update_guard :: "job \<Rightarrow> task_row \<Rightarrow> bool" where
  "update_guard j r = (tk_gid r = j_gid j \<and> (tk_state r \<noteq> Canceled \<or> j_state j = Canceled))"

definition set_qbit_category :: "job \<Rightarrow> db \<Rightarrow> db" where
  "set_qbit_category j d =
     (case task_by_gid d (j_gid j) of
       None \<Rightarrow> d
     | Some r \<Rightarrow> d\<lparr>qbittorrent_tasks :=
         map (\<lambda>q. if fst q = tk_id r then (fst q, trim_space (j_category j)) else q) (qbittorrent_tasks d)\<rparr>)"

definition update_job :: "job \<Rightarrow> (db, unit) io" where
  "update_job j = tx (\<lambda>d.
     let ts = update_rows (update_guard j) (update_job_row j) (tasks d);
         affected = count_rows (update_guard j) (tasks d)
     in if \<not> active_unique ts then (Inl (Constraint ''tasks.source, tasks.torrent_id''), d)
        else
          let d1 = d\<lparr>tasks := ts\<rparr>;
              finish = (if j_source j = source_qbittorrent \<or> j_category j \<noteq> ''''
                        then (Inr (), set_qbit_category j d1) else (Inr (), d1))
          in if affected = 0 then
               (case task_by_gid d1 (j_gid j) of
                 None \<Rightarrow> (Inl ErrJobNotFound, d1)
               | Some r \<Rightarrow> if tk_state r = Canceled then (Inl ErrJobCanceled, d1) else finish)
             else finish)"

definition cancel_guard :: "string \<Rightarrow> task_row \<Rightarrow> bool" where
  "cancel_guard g r = (tk_gid r = g \<and> tk_state r \<in> {Queued, Running, Failed})"

definition cancel_row :: "int \<Rightarrow> task_row \<Rightarrow> task_row" where
  "cancel_row now r = r\<lparr>tk_state := Canceled, tk_error := '''', tk_finished_at := Some now\<rparr>"

definition cancel_job :: "timestamp \<Rightarrow> string \<Rightarrow> (db, unit) io" where
  "cancel_job now g = (\<lambda>d.
     if 0 < count_rows (cancel_guard g) (tasks d)
     then (Inr (), d\<lparr>tasks := update_rows (cancel_guard g) (cancel_row (format_time now)) (tasks d)\<rparr>)
     else io_bind (get_job g)
       (\<lambda>j. if j_state j = Canceled then io_ret () else io_fail (Msg ''task cannot be canceled in this state'')) d)"

text \<open>Deleting a task row deletes its rows in the per-source tables (\<open>ON DELETE CASCADE\<close>) and
  clears the artifacts' reference to it (\<open>ON DELETE SET NULL\<close>).\<close>

definition delete_tasks :: "(task_row \<Rightarrow> bool) \<Rightarrow> db \<Rightarrow> db" where
  "delete_tasks P d =
     (let gone = set (map tk_id (filter P (tasks d)))
      in d\<lparr>tasks := filter (\<lambda>r. \<not> P r) (tasks d),
           aria2_tasks := filter (\<lambda>i. i \<notin> gone) (aria2_tasks d),
           qbittorrent_tasks := filter (\<lambda>q. fst q \<notin> gone) (qbittorrent_tasks d),
           restore_tasks := filter (\<lambda>q. fst q \<notin> gone) (restore_tasks d),
           cli_tasks := filter (\<lambda>i. i \<notin> gone) (cli_tasks d),
           artifacts := map (\<lambda>a. case ar_task_id a of
               None \<Rightarrow> a | Some i \<Rightarrow> if i \<in> gone then a\<lparr>ar_task_id := None\<rparr> else a) (artifacts d)\<rparr>)"

definition delete_job :: "string \<Rightarrow> (db, unit) io" where
  "delete_job g = (\<lambda>d.
     let P = (\<lambda>r. tk_gid r = g \<and> tk_state r \<in> {Canceled, Failed, Succeeded})
     in if 0 < count_rows P (tasks d) then (Inr (), delete_tasks P d)
        else io_bind (get_job g) (\<lambda>j. io_fail (Msg ''queued or running task cannot be deleted'')) d)"

definition delete_job_any :: "string \<Rightarrow> (db, unit) io" where
  "delete_job_any g = (\<lambda>d. (Inr (), delete_tasks (\<lambda>r. tk_gid r = g) d))"

definition requeue_row :: "task_row \<Rightarrow> task_row" where
  "requeue_row r = r\<lparr>tk_state := Queued, tk_error := '''', tk_started_at := None, tk_finished_at := None\<rparr>"

definition recover_running_jobs :: "(db, unit) io" where
  "recover_running_jobs = (\<lambda>d.
     (Inr (), d\<lparr>tasks := update_rows (\<lambda>r. tk_state r = Running) requeue_row (tasks d)\<rparr>))"

definition recover_running_jobs_by_source :: "string list \<Rightarrow> (db, unit) io" where
  "recover_running_jobs_by_source sources = (\<lambda>d.
     if sources = [] then (Inr (), d)
     else (Inr (), d\<lparr>tasks := update_rows (\<lambda>r. tk_state r = Running \<and> tk_source r \<in> set sources)
            requeue_row (tasks d)\<rparr>))"

section \<open>Categories\<close>

definition create_category :: "string \<Rightarrow> string \<Rightarrow> (db, unit) io" where
  "create_category name save_path = (\<lambda>d.
     let n = trim_space name; p = trim_space save_path
     in (Inr (), d\<lparr>categories :=
          (if n \<in> fst ` set (categories d)
           then map (\<lambda>c. if fst c = n then (n, p) else c) (categories d)
           else categories d @ [(n, p)])\<rparr>))"

definition get_categories :: "(db, string \<Rightarrow> string option) io" where
  "get_categories = (\<lambda>d. (Inr (map_of (categories d)), d))"

end
