(* ===== verification/Job_Store_Facts.thy ===== *)
theory Job_Store_Facts
  imports Job_Store
begin

text \<open>
  What the task tables keep (\<open>jobs_ok\<close>: unique ids, gids and info hashes, at most one active task
  per source and torrent, every reference resolved), what each job operation does to the state of
  every task (\<open>state_of\<close>), and the life of a task over sequences of operations.
\<close>

section \<open>The invariant\<close>

definition task_ids :: "db \<Rightarrow> int set" where
  "task_ids d = tk_id ` set (tasks d)"

definition extensions_ok :: "db \<Rightarrow> bool" where
  "extensions_ok d \<longleftrightarrow>
     distinct (aria2_tasks d) \<and> set (aria2_tasks d) \<subseteq> task_ids d \<and>
     distinct (map fst (qbittorrent_tasks d)) \<and> fst ` set (qbittorrent_tasks d) \<subseteq> task_ids d \<and>
     distinct (map fst (restore_tasks d)) \<and> fst ` set (restore_tasks d) \<subseteq> task_ids d \<and>
     distinct (cli_tasks d) \<and> set (cli_tasks d) \<subseteq> task_ids d"

definition torrents_ok :: "db \<Rightarrow> bool" where
  "torrents_ok d \<longleftrightarrow> distinct (map tr_id (torrents d)) \<and> distinct (map tr_info_hash (torrents d)) \<and>
     (\<forall>t \<in> set (torrents d). hash_check (tr_info_hash t))"

definition tasks_ok :: "db \<Rightarrow> bool" where
  "tasks_ok d \<longleftrightarrow> distinct (map tk_id (tasks d)) \<and> distinct (map tk_gid (tasks d)) \<and>
     active_unique (tasks d) \<and> tk_torrent_id ` set (tasks d) \<subseteq> tr_id ` set (torrents d)"

definition jobs_ok :: "db \<Rightarrow> bool" where
  "jobs_ok d \<longleftrightarrow> torrents_ok d \<and> tasks_ok d \<and> extensions_ok d"

definition state_of :: "db \<Rightarrow> string \<Rightarrow> job_state option" where
  "state_of d g = map_option tk_state (task_by_gid d g)"

lemmas jobs_defs = jobs_ok_def torrents_ok_def tasks_ok_def extensions_ok_def task_ids_def

lemma jobs_ok_empty: "jobs_ok empty_db"
  by (simp add: jobs_defs empty_db_def active_unique_def)

section \<open>Active tasks\<close>

abbreviation slot :: "task_row \<Rightarrow> string \<times> int" where
  "slot r \<equiv> (tk_source r, tk_torrent_id r)"

lemma active_unique_snoc:
  "active_unique (ts @ [r]) \<longleftrightarrow>
     active_unique ts \<and> (active r \<longrightarrow> slot r \<notin> slot ` set (filter active ts))"
  by (auto simp: active_unique_def)

lemma active_slots_update:
  assumes "\<And>r. r \<in> set ts \<Longrightarrow> P r \<Longrightarrow> active (f r) \<Longrightarrow> active r" and "\<And>r. slot (f r) = slot r"
  shows "slot ` set (filter active (update_rows P f ts)) \<subseteq> slot ` set (filter active ts)"
proof
  fix x
  assume "x \<in> slot ` set (filter active (update_rows P f ts))"
  then obtain r where r: "r \<in> set ts" "active (if P r then f r else r)" "x = slot (if P r then f r else r)"
    by (auto simp: set_update_rows split: if_splits)
  have "active r"
    by (cases "P r") (use r(1,2) assms(1) in auto)
  moreover have "x = slot r"
    using r(3) assms(2) [of r] by (cases "P r") auto
  ultimately show "x \<in> slot ` set (filter active ts)" using r(1) by auto
qed

lemma active_unique_update_in:
  assumes "active_unique ts"
    and "\<And>r. r \<in> set ts \<Longrightarrow> P r \<Longrightarrow> active (f r) \<Longrightarrow> active r" and k: "\<And>r. slot (f r) = slot r"
  shows "active_unique (update_rows P f ts)"
  using assms(1,2)
proof (induction ts)
  case (Cons r ts)
  let ?r = "if P r then f r else r"
  have step: "update_rows P f (r # ts) = ?r # update_rows P f ts"
    by (simp add: update_rows_def)
  have tl: "active_unique ts" using Cons.prems(1) by (auto simp: active_unique_def split: if_splits)
  have IH: "active_unique (update_rows P f ts)"
    using Cons.IH [OF tl] Cons.prems(2) by simp
  show ?case
  proof (cases "active ?r")
    case True
    then have "active r" using Cons.prems(2) by (cases "P r") auto
    with Cons.prems have "slot r \<notin> slot ` set (filter active ts)"
      by (simp add: active_unique_def)
    then have "slot r \<notin> slot ` set (filter active (update_rows P f ts))"
      using active_slots_update [of ts P f, OF _ k] Cons.prems(2) by force
    moreover have "slot ?r = slot r" using k [of r] by auto
    ultimately show ?thesis using IH True unfolding step by (simp add: active_unique_def)
  next
    case False
    with IH show ?thesis unfolding step by (simp add: active_unique_def)
  qed
qed (simp add: update_rows_def)

lemma active_unique_update:
  assumes "\<And>r. P r \<Longrightarrow> active (f r) \<Longrightarrow> active r" and "\<And>r. slot (f r) = slot r"
  shows "active_unique ts \<Longrightarrow> active_unique (update_rows P f ts)"
  using active_unique_update_in [of ts P f] assms by blast

lemma active_unique_filter: "active_unique ts \<Longrightarrow> active_unique (filter P ts)"
  by (induction ts) (auto simp: active_unique_def)

section \<open>Row updates keep the invariant\<close>

lemma tasks_update_ok:
  assumes "jobs_ok d" and "active_unique (update_rows P f (tasks d))"
    and "\<And>r. tk_id (f r) = tk_id r" "\<And>r. tk_gid (f r) = tk_gid r" "\<And>r. tk_torrent_id (f r) = tk_torrent_id r"
  shows "jobs_ok (d\<lparr>tasks := update_rows P f (tasks d)\<rparr>)"
proof -
  have ids: "map tk_id (update_rows P f (tasks d)) = map tk_id (tasks d)"
    and gids: "map tk_gid (update_rows P f (tasks d)) = map tk_gid (tasks d)"
    and tids: "map tk_torrent_id (update_rows P f (tasks d)) = map tk_torrent_id (tasks d)"
    using assms(3-5) by (auto intro: map_update_rows)
  have "tk_id ` set (update_rows P f (tasks d)) = tk_id ` set (tasks d)"
    and "tk_torrent_id ` set (update_rows P f (tasks d)) = tk_torrent_id ` set (tasks d)"
    using ids tids by (metis list.set_map)+
  then show ?thesis
    using assms(1,2) ids gids by (simp add: jobs_defs)
qed

lemma update_rows_state:
  assumes "\<And>r. tk_gid (f r) = tk_gid r"
  shows "state_of (d\<lparr>tasks := update_rows P f (tasks d)\<rparr>) g =
    map_option (\<lambda>r. tk_state (if P r then f r else r)) (task_by_gid d g)"
  using assms by (simp add: state_of_def task_by_gid_def find_update_rows_key option.map_comp comp_def)

lemma task_by_gid_Some: "task_by_gid d g = Some r \<Longrightarrow> r \<in> set (tasks d) \<and> tk_gid r = g"
  using find_Some_set by (fastforce simp: task_by_gid_def)

lemma task_by_gid_unique:
  "jobs_ok d \<Longrightarrow> r \<in> set (tasks d) \<Longrightarrow> tk_gid r = g \<Longrightarrow> task_by_gid d g = Some r"
  using find_key_unique [of tk_gid "tasks d" r] by (auto simp: jobs_defs task_by_gid_def)

lemma count_by_gid:
  assumes "jobs_ok d"
  shows "0 < count_rows (\<lambda>r. tk_gid r = g \<and> Q r) (tasks d) \<longleftrightarrow>
    (\<exists>r. task_by_gid d g = Some r \<and> Q r)"
proof -
  have "0 < count_rows (\<lambda>r. tk_gid r = g \<and> Q r) (tasks d) \<longleftrightarrow>
      (\<exists>r \<in> set (tasks d). tk_gid r = g \<and> Q r)"
    using count_rows_0 [of "\<lambda>r. tk_gid r = g \<and> Q r" "tasks d"] by (auto simp: list_ex_iff)
  then show ?thesis
    using task_by_gid_unique [OF assms] task_by_gid_Some by blast
qed

section \<open>Creating\<close>

lemma upsert_job_torrent_facts:
  fixes m :: string and now :: int
  assumes "torrents_ok d" and "hash_check h"
  defines "d1 \<equiv> d\<lparr>torrents := upsert_job_torrent (h, m, now) (torrents d)\<rparr>"
  shows "torrents_ok d1" "tr_id ` set (torrents d) \<subseteq> tr_id ` set (torrents d1)"
    "\<exists>t. torrent_by_hash d1 h = Some t \<and> t \<in> set (torrents d1) \<and> tr_info_hash t = h"
proof -
  let ?a = "(h, m, now)"
  have "distinct (map tr_id (torrents d1))" "distinct (map tr_info_hash (torrents d1))"
    using assms(1) jt.upsert_ids [of "torrents d" ?a] jt.upsert_keys [of "torrents d" ?a]
    by (auto simp: d1_def upsert_job_torrent_def torrents_ok_def)
  moreover have "hash_check (tr_info_hash t)" if "t \<in> set (torrents d1)" for t
  proof -
    have "t \<in> set (torrents d) \<or> (\<exists>q \<in> set (torrents d). t = job_torrent_upd ?a q) \<or>
        t = job_torrent_mk ?a (next_id tr_id (torrents d))"
      using jt.upsert_set [of t ?a "torrents d"] that
      by (auto simp: d1_def upsert_job_torrent_def)
    then show ?thesis
      using assms(1,2) jt.upd_key [of ?a] jt.mk_key [of ?a] by (auto simp: torrents_ok_def)
  qed
  ultimately show "torrents_ok d1" by (simp add: torrents_ok_def)
  show "tr_id ` set (torrents d) \<subseteq> tr_id ` set (torrents d1)"
    using jt.upsert_id_mono [of "torrents d" ?a] by (simp add: d1_def upsert_job_torrent_def)
  have "torrent_by_hash d1 h \<noteq> None"
    using jt.upsert_find [of h ?a "torrents d"]
    by (simp add: d1_def upsert_job_torrent_def torrent_by_hash_def)
  then obtain t where "torrent_by_hash d1 h = Some t" by blast
  then show "\<exists>t. torrent_by_hash d1 h = Some t \<and> t \<in> set (torrents d1) \<and> tr_info_hash t = h"
    using find_Some_set [of "\<lambda>t. tr_info_hash t = h" "torrents d1" t]
    by (auto simp: torrent_by_hash_def)
qed

lemma insert_extension_fresh:
  assumes "extensions_ok d" and "i \<notin> tk_id ` set (tasks d)"
  shows "\<exists>d'. insert_extension src j i (d\<lparr>tasks := tasks d @ [r]\<rparr>) = (Inr (), d') \<and>
    tasks d' = tasks d @ [r] \<and> torrents d' = torrents d \<and>
    qbittorrent_tasks d' = qbittorrent_tasks d @
      (if src = source_qbittorrent then [(i, trim_space (j_category j))] else []) \<and>
    (tk_id r = i \<longrightarrow> extensions_ok d')"
proof -
  have "i \<notin> set (aria2_tasks d)" "i \<notin> fst ` set (qbittorrent_tasks d)"
    "i \<notin> fst ` set (restore_tasks d)" "i \<notin> set (cli_tasks d)"
    using assms by (auto simp: extensions_ok_def task_ids_def)
  then show ?thesis
    using assms(1) by (auto simp: insert_extension_def extensions_ok_def task_ids_def source_defs)
qed

text \<open>What \<open>create_job\<close> does, in one lemma: it succeeds exactly when the hash is well formed, the gid
  is free and no active task of the same source has the torrent.\<close>

definition job_source :: "job \<Rightarrow> string" where
  "job_source j = (if j_source j = '''' then source_aria2 else j_source j)"

definition slot_taken :: "db \<Rightarrow> string \<Rightarrow> string \<Rightarrow> bool" where
  "slot_taken d src h = (case torrent_by_hash d h of
     None \<Rightarrow> False
   | Some t \<Rightarrow> list_ex (\<lambda>r. active r \<and> tk_source r = src \<and> tk_torrent_id r = tr_id t) (tasks d))"

lemma slot_taken_iff:
  "slot_taken d src h \<longleftrightarrow> (\<exists>t r. torrent_by_hash d h = Some t \<and> r \<in> set (tasks d) \<and> active r \<and>
     tk_source r = src \<and> tk_torrent_id r = tr_id t)"
  by (auto simp: slot_taken_def list_ex_iff split: option.splits)

definition creatable :: "job \<Rightarrow> db \<Rightarrow> bool" where
  "creatable j d \<longleftrightarrow> hash_check (to_lower (j_info_hash j)) \<and> task_by_gid d (j_gid j) = None \<and>
     \<not> (j_state j \<in> {Queued, Running} \<and> slot_taken d (job_source j) (to_lower (j_info_hash j)))"

lemma task_by_gid_None: "task_by_gid d g = None \<longleftrightarrow> g \<notin> tk_gid ` set (tasks d)"
  unfolding task_by_gid_def by (rule find_None_key)

lemma slot_taken_upsert:
  fixes j h and m :: string and now :: int
  assumes ok: "jobs_ok d" and h: "hash_check h"
    and t: "torrent_by_hash (d\<lparr>torrents := upsert_job_torrent (h, m, now) (torrents d)\<rparr>) h = Some t"
  shows "(src, tr_id t) \<in> slot ` set (filter active (tasks d)) \<longleftrightarrow> slot_taken d src h"
proof -
  let ?a = "(h, m, now)"
  have f: "Some t = Some (case torrent_by_hash d h of
      None \<Rightarrow> job_torrent_mk ?a (next_id tr_id (torrents d)) | Some r \<Rightarrow> job_torrent_upd ?a r)"
    using t jt.upsert_find [of h ?a "torrents d"]
    by (simp add: torrent_by_hash_def upsert_job_torrent_def)
  show ?thesis
  proof (cases "torrent_by_hash d h")
    case None
    with f have "tr_id t = next_id tr_id (torrents d)" by (simp add: jt.mk_id)
    moreover have "tk_torrent_id r \<noteq> next_id tr_id (torrents d)" if "r \<in> set (tasks d)" for r
      using ok imageI [OF that, of tk_torrent_id] next_id_fresh [of tr_id "torrents d"]
      by (auto simp: jobs_ok_def tasks_ok_def)
    ultimately show ?thesis using None unfolding slot_taken_iff by fastforce
  next
    case (Some q)
    with f have "tr_id t = tr_id q" by (simp add: jt.upd_id)
    with Some show ?thesis by (auto simp: slot_taken_iff image_iff)
  qed
qed

definition job_category_added :: "job \<Rightarrow> db \<Rightarrow> db \<Rightarrow> bool" where
  "job_category_added j d d' \<longleftrightarrow> qbittorrent_tasks d' = qbittorrent_tasks d @
     (if job_source j = source_qbittorrent then [(next_id tk_id (tasks d), trim_space (j_category j))] else [])"

lemma create_job_run:
  assumes ok: "jobs_ok d"
  shows "if creatable j d then
       \<exists>d' t. create_job j d = (Inr (), d') \<and> jobs_ok d' \<and>
         torrent_by_hash d' (to_lower (j_info_hash j)) = Some t \<and> job_category_added j d d' \<and>
         tasks d' = tasks d @ [new_task_row (job_source j) j (tr_id t) (next_id tk_id (tasks d))]
     else \<exists>e. create_job j d = (Inl e, d)"
proof -
  let ?h = "to_lower (j_info_hash j)" and ?now = "format_time (j_created_at j)"
  let ?d1 = "d\<lparr>torrents := upsert_job_torrent (?h, j_magnet_uri j, ?now) (torrents d)\<rparr>"
  let ?i = "next_id tk_id (tasks d)"
  show ?thesis
  proof (cases "hash_check ?h")
    case False
    then show ?thesis by (simp add: creatable_def create_job_def tx_def Let_def)
  next
    case h: True
    have tok: "torrents_ok d" using ok by (simp add: jobs_ok_def)
    note up = upsert_job_torrent_facts [OF tok h, of "j_magnet_uri j" ?now]
    from up(3) obtain t where t: "torrent_by_hash ?d1 ?h = Some t" "t \<in> set (torrents ?d1)" by blast
    let ?r = "new_task_row (job_source j) j (tr_id t) ?i"
    have run: "create_job j d =
        tx (\<lambda>_. io_bind (insert_task ?r) (\<lambda>_. insert_extension (job_source j) j ?i) ?d1) d"
      using h t(1) by (simp add: create_job_def tx_def Let_def job_source_def)
    have src: "job_source j \<noteq> ''''" by (simp add: job_source_def source_defs)
    have actr: "active ?r \<longleftrightarrow> j_state j \<in> {Queued, Running}"
      by (simp add: active_def new_task_row_def)
    have au: "active_unique (tasks d @ [?r]) \<longleftrightarrow>
        \<not> (j_state j \<in> {Queued, Running} \<and> slot_taken d (job_source j) ?h)"
      using ok slot_taken_upsert [OF ok h t(1), of "job_source j"] actr
      by (simp add: active_unique_snoc jobs_defs) (auto simp: new_task_row_def)
    have gid: "tk_gid ?r \<in> tk_gid ` set (tasks d) \<longleftrightarrow> task_by_gid d (j_gid j) \<noteq> None"
      by (simp add: task_by_gid_None new_task_row_def)
    show ?thesis
    proof (cases "creatable j d")
      case False
      then have "\<exists>e. insert_task ?r ?d1 = (Inl e, ?d1)"
        using h gid au src by (auto simp: insert_task_def creatable_def)
      with False run show ?thesis by (auto simp: tx_def io_bind_def)
    next
      case True
      have ins: "insert_task ?r ?d1 = (Inr (), ?d1\<lparr>tasks := tasks ?d1 @ [?r]\<rparr>)"
        using True h gid au src by (simp add: insert_task_def creatable_def new_task_row_def)
      have ext: "extensions_ok ?d1" using ok by (simp add: jobs_defs)
      have "?i \<notin> tk_id ` set (tasks ?d1)" using next_id_fresh [of tk_id "tasks d"] by simp
      from insert_extension_fresh [OF ext this, of "job_source j" j ?r]
      obtain d' where d': "insert_extension (job_source j) j ?i (?d1\<lparr>tasks := tasks ?d1 @ [?r]\<rparr>) = (Inr (), d')"
        "tasks d' = tasks d @ [?r]" "torrents d' = torrents ?d1" "extensions_ok d'" "job_category_added j d d'"
        by (auto simp: new_task_row_def job_category_added_def)
      have "create_job j d = (Inr (), d')"
        using run ins d'(1) by (simp add: tx_def io_bind_def)
      moreover have "jobs_ok d'"
        unfolding jobs_ok_def
      proof (intro conjI)
        show "torrents_ok d'" using up(1) d'(3) by (simp add: torrents_ok_def)
        show "extensions_ok d'" by (rule d'(4))
        have "tr_id t \<in> tr_id ` set (torrents d')" using t(2) d'(3) by simp
        moreover have "tr_id ` set (torrents d) \<subseteq> tr_id ` set (torrents d')" using up(2) d'(3) by simp
        moreover have "active_unique (tasks d @ [?r])" using au True by (simp add: creatable_def)
        moreover have "tk_torrent_id ` set (tasks d) \<subseteq> tr_id ` set (torrents d)"
          using ok by (simp add: jobs_ok_def tasks_ok_def)
        moreover have "tk_gid ?r \<notin> tk_gid ` set (tasks d)"
          using gid True by (simp add: creatable_def)
        moreover have "distinct (map tk_id (tasks d))" "distinct (map tk_gid (tasks d))"
          using ok by (simp_all add: jobs_ok_def tasks_ok_def)
        moreover have "tk_id ?r \<notin> tk_id ` set (tasks d)" "tk_torrent_id ?r = tr_id t"
          using next_id_fresh [of tk_id "tasks d"] by (simp_all add: new_task_row_def)
        ultimately show "tasks_ok d'"
          unfolding tasks_ok_def d'(2) by (simp add: subset_trans)
      qed
      moreover have "torrent_by_hash d' ?h = Some t"
        using t(1) d'(3) by (simp add: torrent_by_hash_def)
      ultimately show ?thesis using True d'(2,5) by auto
    qed
  qed
qed

end
