(* ===== verification/Job_Life.thy ===== *)
theory Job_Life
  imports Job_Store_Facts
begin

text \<open>
  The life of a task. One lemma per operation of the job store says when it succeeds and what it
  does to the state of every task; together they show that the store refines a small state
  machine per task (\<open>moves\<close>), whatever operations run in whatever order (\<open>run_ops\<close>).
\<close>

section \<open>What each operation does\<close>

lemma state_of_tasks: "tasks d' = tasks d \<Longrightarrow> state_of d' = state_of d"
  by (rule ext) (simp add: state_of_def task_by_gid_def)

lemma jobs_ok_cong:
  assumes "jobs_ok d" "tasks d' = tasks d" "torrents d' = torrents d" "aria2_tasks d' = aria2_tasks d"
    "map fst (qbittorrent_tasks d') = map fst (qbittorrent_tasks d)" "restore_tasks d' = restore_tasks d"
    "cli_tasks d' = cli_tasks d"
  shows "jobs_ok d'"
  using assms by (simp add: jobs_defs flip: set_map)

lemma set_qbit_category_frame:
  "tasks (set_qbit_category j d) = tasks d" "torrents (set_qbit_category j d) = torrents d"
  "aria2_tasks (set_qbit_category j d) = aria2_tasks d" "restore_tasks (set_qbit_category j d) = restore_tasks d"
  "cli_tasks (set_qbit_category j d) = cli_tasks d"
  "map fst (qbittorrent_tasks (set_qbit_category j d)) = map fst (qbittorrent_tasks d)"
  by (auto simp: set_qbit_category_def split: option.splits)

lemma set_qbit_category_ok: "jobs_ok d \<Longrightarrow> jobs_ok (set_qbit_category j d)"
  by (erule jobs_ok_cong) (rule set_qbit_category_frame)+

lemma update_guard_none:
  assumes "jobs_ok d" and "\<And>r. task_by_gid d (j_gid j) = Some r \<Longrightarrow> tk_state r = Canceled \<and> j_state j \<noteq> Canceled"
  shows "\<not> list_ex (update_guard j) (tasks d)"
  using assms task_by_gid_unique [OF assms(1)] by (fastforce simp: list_ex_iff update_guard_def)

text \<open>Everything \<open>UpdateJob\<close> can do.\<close>

lemma update_job_run:
  assumes ok: "jobs_ok d"
  shows "case task_by_gid d (j_gid j) of
      None \<Rightarrow> update_job j d = (Inl ErrJobNotFound, d)
    | Some r \<Rightarrow>
        if tk_state r = Canceled \<and> j_state j \<noteq> Canceled then update_job j d = (Inl ErrJobCanceled, d)
        else if \<not> active_unique (update_rows (update_guard j) (update_job_row j) (tasks d))
        then \<exists>e. update_job j d = (Inl (Constraint e), d)
        else \<exists>d'. update_job j d = (Inr (), d') \<and> jobs_ok d' \<and> torrents d' = torrents d \<and>
          tasks d' = update_rows (update_guard j) (update_job_row j) (tasks d)"
proof -
  let ?ts = "update_rows (update_guard j) (update_job_row j) (tasks d)"
  have au: "active_unique (tasks d)" using ok by (simp add: jobs_ok_def tasks_ok_def)
  show ?thesis
  proof (cases "task_by_gid d (j_gid j)")
    case None
    then have no: "\<not> list_ex (update_guard j) (tasks d)" by (intro update_guard_none [OF ok]) simp
    then show ?thesis
      using None au by (simp add: update_job_def tx_def Let_def update_rows_none count_rows_0 task_by_gid_def)
  next
    case (Some r)
    show ?thesis
    proof (cases "tk_state r = Canceled \<and> j_state j \<noteq> Canceled")
      case True
      then have no: "\<not> list_ex (update_guard j) (tasks d)"
        using Some by (intro update_guard_none [OF ok]) simp
      then show ?thesis
        using Some True au by (simp add: update_job_def tx_def Let_def update_rows_none count_rows_0 task_by_gid_def)
    next
      case False
      then have "list_ex (update_guard j) (tasks d)"
        using task_by_gid_Some [OF Some] by (auto simp: list_ex_iff update_guard_def)
      then have n: "count_rows (update_guard j) (tasks d) \<noteq> 0" by (simp add: count_rows_0)
      have "jobs_ok (d\<lparr>tasks := ?ts\<rparr>)" if "active_unique ?ts"
        by (rule tasks_update_ok [OF ok that]) (simp_all add: update_job_row_def)
      then show ?thesis
        using Some False n set_qbit_category_ok [of "d\<lparr>tasks := ?ts\<rparr>" j]
        by (auto simp: update_job_def tx_def Let_def set_qbit_category_frame)
    qed
  qed
qed

text \<open>The state of every task after \<open>UpdateJob\<close>, on its two outcomes.\<close>

lemma update_job_ok:
  assumes ok: "jobs_ok d" and run: "update_job j d = (Inr (), d')"
  shows "jobs_ok d'" "state_of d' g = (if g = j_gid j then Some (j_state j) else state_of d g)"
    "\<exists>s. state_of d (j_gid j) = Some s \<and> (s = Canceled \<longrightarrow> j_state j = Canceled)"
proof -
  from update_job_run [OF ok, of j] run obtain r where r: "task_by_gid d (j_gid j) = Some r"
      "\<not> (tk_state r = Canceled \<and> j_state j \<noteq> Canceled)" and ok': "jobs_ok d'"
      and ts: "tasks d' = update_rows (update_guard j) (update_job_row j) (tasks d)"
    by (auto split: option.splits if_splits)
  show "jobs_ok d'" by fact
  have "state_of d' g = state_of (d\<lparr>tasks := update_rows (update_guard j) (update_job_row j) (tasks d)\<rparr>) g"
    using ts by (simp add: state_of_def task_by_gid_def)
  also have "\<dots> = map_option (\<lambda>r. tk_state (if update_guard j r then update_job_row j r else r)) (task_by_gid d g)"
    by (rule update_rows_state) (simp add: update_job_row_def)
  also have "\<dots> = (if g = j_gid j then Some (j_state j) else state_of d g)"
  proof (cases "g = j_gid j")
    case True
    then show ?thesis
      using r task_by_gid_Some [OF r(1)] by (simp add: update_guard_def update_job_row_def)
  next
    case False
    then show ?thesis
      using task_by_gid_Some [of d g]
      by (cases "task_by_gid d g") (auto simp: state_of_def update_guard_def)
  qed
  finally show "state_of d' g = (if g = j_gid j then Some (j_state j) else state_of d g)" .
  show "\<exists>s. state_of d (j_gid j) = Some s \<and> (s = Canceled \<longrightarrow> j_state j = Canceled)"
    using r by (auto simp: state_of_def)
qed

lemma update_job_error:
  assumes "jobs_ok d" and "update_job j d = (Inl e, d')"
  shows "d' = d"
  by (rule tx_error [OF assms(2) [unfolded update_job_def]])

lemma update_job_canceled:
  assumes "jobs_ok d" and "state_of d (j_gid j) = Some Canceled" and "j_state j \<noteq> Canceled"
  shows "update_job j d = (Inl ErrJobCanceled, d)"
  using update_job_run [OF assms(1), of j] assms(2,3) by (auto simp: state_of_def split: option.splits)

text \<open>Writing a finished state, or running a task that already holds its slot, cannot fail.\<close>

lemma update_job_succeeds:
  assumes ok: "jobs_ok d" and st: "state_of d (j_gid j) = Some s"
    and free: "s \<noteq> Canceled \<or> j_state j = Canceled"
    and slot: "j_state j \<in> {Queued, Running} \<longrightarrow> s \<in> {Queued, Running}"
  shows "\<exists>d'. update_job j d = (Inr (), d')"
proof -
  obtain r where r: "task_by_gid d (j_gid j) = Some r" "tk_state r = s"
    using st by (auto simp: state_of_def)
  have "active_unique (update_rows (update_guard j) (update_job_row j) (tasks d))"
  proof (rule active_unique_update_in)
    show "active_unique (tasks d)" using ok by (simp add: jobs_ok_def tasks_ok_def)
    fix q
    assume q: "q \<in> set (tasks d)" "update_guard j q" "active (update_job_row j q)"
    then have "q = r"
      using task_by_gid_unique [OF ok q(1)] r by (simp add: update_guard_def)
    then show "active q" using q(3) slot r by (auto simp: active_def update_job_row_def)
  qed (simp add: update_job_row_def)
  then show ?thesis
    using update_job_run [OF ok, of j] r free by (auto split: if_splits)
qed


text \<open>Creating a task: one new task in the state of the job, or nothing at all.\<close>

lemma create_job_ok:
  assumes ok: "jobs_ok d" and run: "create_job j d = (Inr (), d')"
  shows "jobs_ok d'" "state_of d (j_gid j) = None"
    "state_of d' g = (if g = j_gid j then Some (j_state j) else state_of d g)"
proof -
  have c: "creatable j d" using create_job_run [OF ok, of j] run by (auto split: if_splits)
  with create_job_run [OF ok, of j] run have "jobs_ok d' \<and> (\<exists>t :: torrent_row.
      tasks d' = tasks d @ [new_task_row (job_source j) j (tr_id t) (next_id tk_id (tasks d))])"
    by auto
  then obtain t :: torrent_row where ok': "jobs_ok d'"
    and ts: "tasks d' = tasks d @ [new_task_row (job_source j) j (tr_id t) (next_id tk_id (tasks d))]"
    by blast
  show "jobs_ok d'" by fact
  have none: "task_by_gid d (j_gid j) = None" using c by (simp add: creatable_def)
  then show "state_of d (j_gid j) = None" by (simp add: state_of_def)
  show "state_of d' g = (if g = j_gid j then Some (j_state j) else state_of d g)"
    using none ts
    by (auto simp: state_of_def task_by_gid_def find_append new_task_row_def split: option.splits)
qed

lemma create_job_error:
  assumes "create_job j d = (Inl e, d')"
  shows "d' = d"
  by (rule tx_error [OF assms [unfolded create_job_def]])

text \<open>Canceling, deleting and recovering.\<close>

lemma get_job_state: "get_job g d = (Inr j, d') \<Longrightarrow> d' = d \<and> state_of d g = Some (j_state j)"
  by (auto simp: get_job_def state_of_def job_of_row_def split: option.splits)

lemma get_job_same: "snd (get_job g d) = d"
  by (simp add: get_job_def)

lemma get_job_total:
  assumes "jobs_ok d"
  shows "case state_of d g of None \<Rightarrow> get_job g d = (Inl ErrJobNotFound, d)
    | Some s \<Rightarrow> \<exists>j. get_job g d = (Inr j, d) \<and> j_state j = s \<and> j_gid j = g"
proof (cases "task_by_gid d g")
  case None
  then show ?thesis by (simp add: state_of_def get_job_def)
next
  case (Some r)
  then have "tk_torrent_id r \<in> tr_id ` set (torrents d)"
    using assms task_by_gid_Some [OF Some] by (auto simp: jobs_ok_def tasks_ok_def)
  then have "torrent_by_id d (tk_torrent_id r) \<noteq> None"
    unfolding torrent_by_id_def find_None_key by simp
  then show ?thesis
    using Some task_by_gid_Some [OF Some] by (auto simp: state_of_def get_job_def job_of_row_def)
qed

lemma cancel_job_run:
  assumes ok: "jobs_ok d" and run: "cancel_job now g d = (r, d')"
  shows "jobs_ok d'"
    "case state_of d g of
       None \<Rightarrow> r = Inl ErrJobNotFound \<and> d' = d
     | Some Succeeded \<Rightarrow> (\<exists>m. r = Inl (Msg m)) \<and> d' = d
     | Some _ \<Rightarrow> r = Inr () \<and> (\<forall>h. state_of d' h = (if h = g then Some Canceled else state_of d h))"
proof -
  let ?ts = "update_rows (cancel_guard g) (cancel_row (format_time now)) (tasks d)"
  have n: "0 < count_rows (cancel_guard g) (tasks d) \<longleftrightarrow>
      (\<exists>s \<in> {Queued, Running, Failed}. state_of d g = Some s)"
    unfolding cancel_guard_def count_by_gid [OF ok] by (auto simp: state_of_def)
  have st: "state_of (d\<lparr>tasks := ?ts\<rparr>) h = (if h = g \<and> (\<exists>s \<in> {Queued, Running, Failed}. state_of d g = Some s)
      then Some Canceled else state_of d h)" for h
    using task_by_gid_Some [of d h] update_rows_state [of "cancel_row (format_time now)" "cancel_guard g" d h]
    by (cases "task_by_gid d h") (auto simp: cancel_row_def cancel_guard_def state_of_def)
  have ok': "jobs_ok (d\<lparr>tasks := ?ts\<rparr>)"
    using ok by (intro tasks_update_ok [OF ok] active_unique_update)
      (simp_all add: cancel_row_def active_def jobs_ok_def tasks_ok_def)
  show "jobs_ok d'"
    using run ok ok' get_job_same [of g d]
    by (auto simp: cancel_job_def io_bind_def split: if_splits prod.splits sum.splits)
  show "case state_of d g of
       None \<Rightarrow> r = Inl ErrJobNotFound \<and> d' = d
     | Some Succeeded \<Rightarrow> (\<exists>m. r = Inl (Msg m)) \<and> d' = d
     | Some _ \<Rightarrow> r = Inr () \<and> (\<forall>h. state_of d' h = (if h = g then Some Canceled else state_of d h))"
    using run n st get_job_total [OF ok, of g]
    by (auto simp: cancel_job_def io_bind_def split: option.splits job_state.splits if_splits)
qed

lemma find_filter: "find P (filter Q xs) = find (\<lambda>x. Q x \<and> P x) xs"
  by (induction xs) auto

lemma delete_tasks_ok:
  assumes ok: "jobs_ok d"
  shows "jobs_ok (delete_tasks P d)"
proof -
  let ?gone = "set (map tk_id (filter P (tasks d)))"
  have keep: "i \<in> tk_id ` set (filter (\<lambda>r. \<not> P r) (tasks d))" if "i \<in> tk_id ` set (tasks d)" "i \<notin> ?gone" for i
    using that by auto
  show ?thesis
    unfolding jobs_ok_def
  proof (intro conjI)
    show "torrents_ok (delete_tasks P d)"
      using ok by (simp add: jobs_ok_def torrents_ok_def delete_tasks_def Let_def)
    show "tasks_ok (delete_tasks P d)"
      using ok active_unique_filter [of "tasks d"]
      by (auto simp: jobs_ok_def tasks_ok_def delete_tasks_def Let_def intro: distinct_map_filter)
    show "extensions_ok (delete_tasks P d)"
      using ok keep
      by (auto simp: jobs_ok_def extensions_ok_def task_ids_def delete_tasks_def Let_def
          intro: distinct_map_filter)
  qed
qed

lemma delete_tasks_state:
  assumes ok: "jobs_ok d"
  shows "state_of (delete_tasks (\<lambda>r. tk_gid r = g \<and> Q r) d) h =
    (if h = g \<and> (\<exists>r. task_by_gid d g = Some r \<and> Q r) then None else state_of d h)"
proof -
  have t: "task_by_gid (delete_tasks (\<lambda>r. tk_gid r = g \<and> Q r) d) h =
      find (\<lambda>r. tk_gid r = h) (filter (\<lambda>r. \<not> (tk_gid r = g \<and> Q r)) (tasks d))"
    by (simp add: task_by_gid_def delete_tasks_def Let_def)
  have c: "(\<exists>r. task_by_gid d g = Some r \<and> Q r) \<longleftrightarrow> (\<exists>r \<in> set (tasks d). tk_gid r = g \<and> Q r)"
    using task_by_gid_unique [OF ok] task_by_gid_Some by blast
  show ?thesis
  proof (cases "h = g \<and> (\<exists>r. task_by_gid d g = Some r \<and> Q r)")
    case True
    then obtain r where r: "task_by_gid d g = Some r" "Q r" by blast
    have "tk_gid q = h \<longrightarrow> tk_gid q = g \<and> Q q" if "q \<in> set (tasks d)" for q
      using task_by_gid_unique [OF ok that] True r by auto
    then have "task_by_gid (delete_tasks (\<lambda>r. tk_gid r = g \<and> Q r) d) h = None"
      unfolding t by (auto simp: find_None_iff)
    with True show ?thesis by (auto simp: state_of_def)
  next
    case False
    then have "\<not> (\<exists>r \<in> set (tasks d). tk_gid r = h \<and> (tk_gid r = g \<and> Q r))" using c by auto
    then have "task_by_gid (delete_tasks (\<lambda>r. tk_gid r = g \<and> Q r) d) h = task_by_gid d h"
      unfolding t unfolding find_filter task_by_gid_def by (intro find_cong) auto
    with False show ?thesis by (auto simp: state_of_def)
  qed
qed

lemma delete_job_run:
  assumes ok: "jobs_ok d" and run: "delete_job g d = (r, d')"
  shows "jobs_ok d'"
    "case state_of d g of
       None \<Rightarrow> r = Inl ErrJobNotFound \<and> d' = d
     | Some s \<Rightarrow> if s \<in> {Queued, Running} then (\<exists>m. r = Inl (Msg m)) \<and> d' = d
         else r = Inr () \<and> (\<forall>h. state_of d' h = (if h = g then None else state_of d h))"
proof -
  let ?Q = "\<lambda>r. tk_state r \<in> {Canceled, Failed, Succeeded}"
  have n: "0 < count_rows (\<lambda>r. tk_gid r = g \<and> ?Q r) (tasks d) \<longleftrightarrow>
      (\<exists>s. state_of d g = Some s \<and> s \<notin> {Queued, Running})"
    unfolding count_by_gid [OF ok] state_of_def
    by (cases "task_by_gid d g") (auto, (metis job_state.exhaust)+)
  have ok': "jobs_ok (delete_tasks (\<lambda>r. tk_gid r = g \<and> ?Q r) d)"
    by (rule delete_tasks_ok [OF ok])
  have st: "state_of (delete_tasks (\<lambda>r. tk_gid r = g \<and> ?Q r) d) h =
      (if h = g \<and> (\<exists>s. state_of d g = Some s \<and> s \<notin> {Queued, Running}) then None else state_of d h)" for h
    unfolding delete_tasks_state [OF ok] using n by (simp add: count_by_gid [OF ok])
  show "jobs_ok d'"
    using run ok ok' get_job_same [of g d]
    by (auto simp: delete_job_def io_bind_def Let_def split: if_splits prod.splits sum.splits)
  show "case state_of d g of
       None \<Rightarrow> r = Inl ErrJobNotFound \<and> d' = d
     | Some s \<Rightarrow> if s \<in> {Queued, Running} then (\<exists>m. r = Inl (Msg m)) \<and> d' = d
         else r = Inr () \<and> (\<forall>h. state_of d' h = (if h = g then None else state_of d h))"
    using run n st get_job_total [OF ok, of g]
    by (cases "state_of d g") (auto simp: delete_job_def io_bind_def Let_def split: if_splits)
qed

lemma delete_job_any_run:
  assumes ok: "jobs_ok d" and run: "delete_job_any g d = (r, d')"
  shows "r = Inr ()" "jobs_ok d'" "state_of d' h = (if h = g then None else state_of d h)"
proof -
  show "r = Inr ()" "jobs_ok d'"
    using run delete_tasks_ok [OF ok] by (auto simp: delete_job_any_def)
  show "state_of d' h = (if h = g then None else state_of d h)"
    using run delete_tasks_state [OF ok, of g "\<lambda>_. True" h]
    by (auto simp: delete_job_any_def state_of_def)
qed

lemma requeue_ok:
  assumes ok: "jobs_ok d" and run: "\<And>r. P r \<Longrightarrow> tk_state r = Running"
  shows "jobs_ok (d\<lparr>tasks := update_rows P requeue_row (tasks d)\<rparr>)"
  using ok by (intro tasks_update_ok [OF ok] active_unique_update)
    (simp_all add: requeue_row_def active_def jobs_ok_def tasks_ok_def run)

lemma requeue_state:
  "state_of (d\<lparr>tasks := update_rows P requeue_row (tasks d)\<rparr>) g =
    map_option (\<lambda>r. if P r then Queued else tk_state r) (task_by_gid d g)"
proof -
  have "state_of (d\<lparr>tasks := update_rows P requeue_row (tasks d)\<rparr>) g =
      map_option (\<lambda>r. tk_state (if P r then requeue_row r else r)) (task_by_gid d g)"
    by (rule update_rows_state) (simp add: requeue_row_def)
  also have "(\<lambda>r. tk_state (if P r then requeue_row r else r)) = (\<lambda>r. if P r then Queued else tk_state r)"
    by (auto simp: requeue_row_def)
  finally show ?thesis .
qed

lemma recover_run:
  assumes ok: "jobs_ok d" and run: "recover_running_jobs d = (r, d')"
  shows "r = Inr ()" "jobs_ok d'"
    "state_of d' g = (if state_of d g = Some Running then Some Queued else state_of d g)"
proof -
  let ?P = "\<lambda>r. tk_state r = Running"
  have d': "d' = d\<lparr>tasks := update_rows ?P requeue_row (tasks d)\<rparr>"
    using run by (simp add: recover_running_jobs_def)
  show "r = Inr ()" using run by (simp add: recover_running_jobs_def)
  show "jobs_ok d'" unfolding d' by (rule requeue_ok [OF ok]) simp
  show "state_of d' g = (if state_of d g = Some Running then Some Queued else state_of d g)"
    unfolding d' requeue_state by (cases "task_by_gid d g") (auto simp: state_of_def)
qed

lemma recover_by_source_run:
  assumes ok: "jobs_ok d" and run: "recover_running_jobs_by_source srcs d = (r, d')"
  shows "r = Inr ()" "jobs_ok d'"
    "state_of d' g = state_of d g \<or> state_of d g = Some Running \<and> state_of d' g = Some Queued"
    "\<And>q. q \<in> set (tasks d') \<Longrightarrow> tk_source q \<in> set srcs \<Longrightarrow> tk_state q \<noteq> Running"
proof -
  let ?P = "\<lambda>r. tk_state r = Running \<and> tk_source r \<in> set srcs"
  have d': "d' = d\<lparr>tasks := update_rows ?P requeue_row (tasks d)\<rparr>"
    using run by (auto simp: recover_running_jobs_by_source_def update_rows_def split: if_splits)
  show "r = Inr ()" using run by (auto simp: recover_running_jobs_by_source_def split: if_splits)
  show "jobs_ok d'" unfolding d' by (rule requeue_ok [OF ok]) simp
  show "state_of d' g = state_of d g \<or> state_of d g = Some Running \<and> state_of d' g = Some Queued"
    unfolding d' requeue_state by (cases "task_by_gid d g") (auto simp: state_of_def)
  show "\<And>q. q \<in> set (tasks d') \<Longrightarrow> tk_source q \<in> set srcs \<Longrightarrow> tk_state q \<noteq> Running"
    unfolding d' by (auto simp: set_update_rows requeue_row_def split: if_splits)
qed

section \<open>The state machine of a task\<close>

text \<open>\<open>None\<close> is a task that does not exist.\<close>

datatype job_op =
    OpCreate job | OpUpdate job | OpCancel timestamp string | OpDelete string | OpDeleteAny string
  | OpRecover | OpRecoverBy "string list"

fun exec_op :: "job_op \<Rightarrow> (db, unit) io" where
  "exec_op (OpCreate j) = create_job j"
| "exec_op (OpUpdate j) = update_job j"
| "exec_op (OpCancel now g) = cancel_job now g"
| "exec_op (OpDelete g) = delete_job g"
| "exec_op (OpDeleteAny g) = delete_job_any g"
| "exec_op OpRecover = recover_running_jobs"
| "exec_op (OpRecoverBy srcs) = recover_running_jobs_by_source srcs"

fun run_ops :: "job_op list \<Rightarrow> db \<Rightarrow> db" where
  "run_ops [] d = d"
| "run_ops (op # ops) d = run_ops ops (snd (exec_op op d))"

inductive moves :: "job_op \<Rightarrow> string \<Rightarrow> job_state option \<Rightarrow> job_state option \<Rightarrow> bool" where
  stays: "moves op g s s"
| created: "moves (OpCreate j) (j_gid j) None (Some (j_state j))"
| written: "s = Canceled \<longrightarrow> j_state j = Canceled \<Longrightarrow> moves (OpUpdate j) (j_gid j) (Some s) (Some (j_state j))"
| canceled: "s \<noteq> Succeeded \<Longrightarrow> moves (OpCancel now g) g (Some s) (Some Canceled)"
| deleted: "s \<notin> {Queued, Running} \<Longrightarrow> moves (OpDelete g) g (Some s) None"
| dropped: "moves (OpDeleteAny g) g (Some s) None"
| recovered: "op = OpRecover \<or> op = OpRecoverBy srcs \<Longrightarrow> moves op g (Some Running) (Some Queued)"

inductive_cases moves_from: "moves op g (Some s) s'"

lemma exec_op_step:
  assumes ok: "jobs_ok d" and run: "exec_op op d = (r, d')"
  shows "jobs_ok d' \<and> moves op g (state_of d g) (state_of d' g)"
proof (cases op)
  case (OpCreate j)
  show ?thesis
  proof (cases r)
    case (Inl e)
    then show ?thesis using OpCreate run ok by (auto dest: create_job_error intro: stays)
  next
    case (Inr u)
    then have "create_job j d = (Inr (), d')" using OpCreate run by simp
    from create_job_ok [OF ok this] created [of j] show ?thesis
      by (cases "g = j_gid j") (auto simp: OpCreate intro: stays)
  qed
next
  case (OpUpdate j)
  show ?thesis
  proof (cases r)
    case (Inl e)
    then show ?thesis using OpUpdate run ok by (auto dest: update_job_error [OF ok] intro: stays)
  next
    case (Inr u)
    then have "update_job j d = (Inr (), d')" using OpUpdate run by simp
    from update_job_ok [OF ok this] written [of _ j] show ?thesis
      by (cases "g = j_gid j") (auto simp: OpUpdate intro: stays)
  qed
next
  case (OpCancel now h)
  then have "cancel_job now h d = (r, d')" using run by simp
  from cancel_job_run [OF ok this] show ?thesis
    by (cases "g = h") (auto simp: OpCancel intro: stays canceled split: option.splits job_state.splits)
next
  case (OpDelete h)
  then have "delete_job h d = (r, d')" using run by simp
  from delete_job_run [OF ok this] show ?thesis
    by (cases "g = h") (auto simp: OpDelete intro: stays deleted split: option.splits if_splits)
next
  case (OpDeleteAny h)
  then have "delete_job_any h d = (r, d')" using run by simp
  from delete_job_any_run [OF ok this] show ?thesis
    by (cases "g = h"; cases "state_of d g") (auto simp: OpDeleteAny intro: stays dropped)
next
  case OpRecover
  then have "recover_running_jobs d = (r, d')" using run by simp
  from recover_run [OF ok this] show ?thesis by (auto simp: OpRecover intro: stays recovered)
next
  case (OpRecoverBy srcs)
  then have "recover_running_jobs_by_source srcs d = (r, d')" using run by simp
  from recover_by_source_run (2) [OF ok this] recover_by_source_run (3) [OF ok this, of g] show ?thesis
    by (auto simp: OpRecoverBy intro: stays recovered)
qed

lemma run_ops_ok: "jobs_ok d \<Longrightarrow> jobs_ok (run_ops ops d)"
proof (induction ops arbitrary: d)
  case (Cons op ops)
  obtain r d' where "exec_op op d = (r, d')" by (cases "exec_op op d")
  with exec_op_step [OF Cons.prems this] Cons.IH [of d'] show ?case by simp
qed simp

definition deletes :: "string \<Rightarrow> job_op \<Rightarrow> bool" where
  "deletes g op \<longleftrightarrow> op = OpDelete g \<or> op = OpDeleteAny g"

lemma moves_canceled: "moves op g (Some Canceled) s' \<Longrightarrow> \<not> deletes g op \<Longrightarrow> s' = Some Canceled"
  by (erule moves_from) (auto simp: deletes_def)

lemma run_ops_canceled:
  "jobs_ok d \<Longrightarrow> state_of d g = Some Canceled \<Longrightarrow> list_all (\<lambda>op. \<not> deletes g op) ops \<Longrightarrow>
    state_of (run_ops ops d) g = Some Canceled"
proof (induction ops arbitrary: d)
  case (Cons op ops)
  obtain r d' where d': "exec_op op d = (r, d')" by (cases "exec_op op d")
  from exec_op_step [OF Cons.prems(1) d', of g] have "jobs_ok d'" "moves op g (Some Canceled) (state_of d' g)"
    using Cons.prems(2) by simp_all
  then show ?case using Cons.IH [of d'] Cons.prems(3) moves_canceled d' by auto
qed simp

section \<open>The properties\<close>

text \<open>C27. Whatever sequence of job operations runs against an empty database, in whatever order, the tables
  stay consistent: ids, gids and info hashes are unique, no source has two queued or running tasks of
  one torrent, and every row of a per-source table and every torrent reference belongs to a row.\<close>

theorem job_tables_consistent: "jobs_ok (run_ops ops empty_db)"
  by (rule run_ops_ok [OF jobs_ok_empty])

text \<open>C1. The job store refines the state machine of a task: on every database the operations produce, each
  further operation, successful or not, moves every task along an edge of the machine. A task comes to exist by
  creation only, a canceled one is never resumed, only finished ones are deleted by \<open>DeleteJob\<close>, and recovery
  touches running ones only.\<close>

theorem job_store_refines_machine:
  "moves op g (state_of (run_ops ops empty_db) g) (state_of (snd (exec_op op (run_ops ops empty_db))) g)"
proof -
  obtain r d' where "exec_op op (run_ops ops empty_db) = (r, d')"
    by (cases "exec_op op (run_ops ops empty_db)")
  with exec_op_step [OF run_ops_ok [OF jobs_ok_empty] this, of g] show ?thesis by simp
qed

text \<open>A canceled task stays canceled through every later operation that does not delete it, so a worker that
  finishes late cannot overwrite a cancellation.\<close>

lemma canceled_is_final:
  assumes "state_of (run_ops ops empty_db) g = Some Canceled"
    and "list_all (\<lambda>op. \<not> deletes g op) later"
  shows "state_of (run_ops later (run_ops ops empty_db)) g = Some Canceled"
  using run_ops_ok [OF jobs_ok_empty] assms by (rule run_ops_canceled)

definition sample_job :: job where
  "sample_job = \<lparr>j_id = 0, j_gid = ''g1'', j_source = source_qbittorrent,
     j_info_hash = ''0123456789abcdef0123456789abcdef01234567'', j_name = '''', j_progress = 0,
     j_magnet_uri = ''m'', j_category = '' tv '', j_target_sha1 = '''', j_state = Queued, j_error = '''',
     j_created_at = 1234567, j_started_at = None, j_finished_at = None\<rparr>"

text \<open>\<open>CreateJob\<close> succeeds exactly when the info hash is well formed, the gid is free and, for a queued or
  running job, the source has no active task of the torrent; otherwise it changes nothing.\<close>

lemma create_job_iff:
  assumes "jobs_ok d"
  shows "if creatable j d then fst (create_job j d) = Inr () \<and> state_of (snd (create_job j d)) (j_gid j) = Some (j_state j)
    else (\<exists>e. create_job j d = (Inl e, d))"
proof (cases "creatable j d")
  case True
  with create_job_run [OF assms, of j] obtain d' where d': "create_job j d = (Inr (), d')" by auto
  with True create_job_ok (3) [OF assms d', of "j_gid j"] show ?thesis by simp
next
  case False
  with create_job_run [OF assms, of j] show ?thesis by simp
qed

text \<open>A created job reads back: the row of the new task, its torrent and its per-source row yield the job that was
  stored, with the info hash in lower case, the source filled in, the category trimmed and the time cut to
  microseconds.\<close>

lemma create_get_roundtrip:
  assumes ok: "jobs_ok d" and run: "create_job j d = (Inr (), d')"
  shows "\<exists>i name. get_job (j_gid j) d' = (Inr (j\<lparr>j_id := i, j_source := job_source j,
     j_info_hash := to_lower (j_info_hash j), j_name := name, j_progress := 0,
     j_category := (if job_source j = source_qbittorrent then trim_space (j_category j) else ''''),
     j_target_sha1 := '''', j_error := '''', j_created_at := parse_time (format_time (j_created_at j)),
     j_started_at := None, j_finished_at := None\<rparr>), d')"
proof -
  let ?i = "next_id tk_id (tasks d)"
  have c: "creatable j d" using create_job_run [OF ok, of j] run by (auto split: if_splits)
  with create_job_run [OF ok, of j] run have "\<exists>t. jobs_ok d' \<and> job_category_added j d d' \<and>
      torrent_by_hash d' (to_lower (j_info_hash j)) = Some t \<and>
      tasks d' = tasks d @ [new_task_row (job_source j) j (tr_id t) ?i]" by auto
  then obtain t where ok': "jobs_ok d'" and cat: "job_category_added j d d'"
    and t: "torrent_by_hash d' (to_lower (j_info_hash j)) = Some t"
    and ts: "tasks d' = tasks d @ [new_task_row (job_source j) j (tr_id t) ?i]" by blast
  have "t \<in> set (torrents d')" and h: "tr_info_hash t = to_lower (j_info_hash j)"
    using find_Some_set [OF t [unfolded torrent_by_hash_def]] by simp_all
  then have tid: "torrent_by_id d' (tr_id t) = Some t"
    using ok' find_key_unique [of tr_id "torrents d'" t] by (simp add: torrent_by_id_def jobs_ok_def torrents_ok_def)
  have gid: "task_by_gid d' (j_gid j) = Some (new_task_row (job_source j) j (tr_id t) ?i)"
    using c ts by (simp add: task_by_gid_def find_append creatable_def) (simp add: new_task_row_def)
  have "?i \<notin> fst ` set (qbittorrent_tasks d)"
    using ok next_id_fresh [of tk_id "tasks d"] by (auto simp: jobs_ok_def extensions_ok_def task_ids_def)
  then have none: "find (\<lambda>q. fst q = ?i) (qbittorrent_tasks d) = None" unfolding find_None_key .
  have "qbit_category d' ?i = (if job_source j = source_qbittorrent then trim_space (j_category j) else '''')"
    using cat none by (simp add: qbit_category_def job_category_added_def find_append)
  then show ?thesis
    using gid tid h
    by (intro exI [of _ ?i] exI [of _ "tr_display_name t"])
      (cases j, simp add: get_job_def job_of_row_def new_task_row_def)
qed

end
