(* ===== verification/Job_Runner.thy ===== *)
theory Job_Runner
  imports Job_Life
begin

text \<open>
  \<open>RunJobWithResolver\<close> of \<open>internal/ingest/service.go\<close>: a job is marked running, resolved, and marked
  succeeded or failed. What it relies on is the contract of \<open>UpdateJob\<close> (\<open>job_writer\<close>), which the
  job store provides. The world \<open>'w\<close> is whatever the repository and the resolver share; other
  operations that run meanwhile (a cancellation) are part of what \<open>resolve\<close> does to it.
\<close>

section \<open>The code\<close>

definition running_job :: "timestamp \<Rightarrow> job \<Rightarrow> job" where
  "running_job started j = j\<lparr>j_state := Running, j_error := '''', j_started_at := Some started, j_finished_at := None\<rparr>"

definition run_error :: "bool \<Rightarrow> err \<Rightarrow> err" where
  "run_error deadline e = (if errors_is e CtxDeadlineExceeded \<or> deadline then JobTimeout else e)"

text \<open>\<open>deadline\<close>: the job's context had reached its deadline when \<open>resolve\<close> returned.\<close>

definition run_job_with_resolver ::
    "(job \<Rightarrow> ('w, unit) io) \<Rightarrow> timestamp \<Rightarrow> timestamp \<Rightarrow> bool \<Rightarrow> job \<Rightarrow> ('w, 'r) io \<Rightarrow> ('w, 'r) io" where
  "run_job_with_resolver upd started finished deadline j resolve =
     (let j1 = running_job started j; j2 = j1\<lparr>j_finished_at := Some finished\<rparr>
      in io_bind (upd j1) (\<lambda>_. io_try resolve (\<lambda>r. case r of
           Inl e \<Rightarrow>
             (let e' = run_error deadline e
              in io_try (upd (j2\<lparr>j_state := Failed, j_error := err_text e'\<rparr>)) (\<lambda>s. case s of
                   Inl se \<Rightarrow> if errors_is se ErrJobCanceled then io_fail ErrJobCanceled
                     else io_fail (Wrap (err_text se) e')
                 | Inr _ \<Rightarrow> io_fail e'))
         | Inr x \<Rightarrow> io_bind (upd (j2\<lparr>j_state := Succeeded\<rparr>)) (\<lambda>_. io_ret x))))"

section \<open>The contract of UpdateJob\<close>

locale job_writer =
  fixes inv :: "'w \<Rightarrow> bool" and st :: "'w \<Rightarrow> string \<Rightarrow> job_state option" and upd :: "job \<Rightarrow> ('w, unit) io"
  assumes upd_ok: "inv w \<Longrightarrow> upd j w = (Inr (), w') \<Longrightarrow>
      inv w' \<and> st w' g = (if g = j_gid j then Some (j_state j) else st w g)"
    and upd_error: "inv w \<Longrightarrow> upd j w = (Inl e, w') \<Longrightarrow> w' = w"
    and upd_missing: "inv w \<Longrightarrow> st w (j_gid j) = None \<Longrightarrow> upd j w = (Inl ErrJobNotFound, w)"
    and upd_canceled: "inv w \<Longrightarrow> st w (j_gid j) = Some Canceled \<Longrightarrow> j_state j \<noteq> Canceled \<Longrightarrow>
      upd j w = (Inl ErrJobCanceled, w)"
    and upd_succeeds: "inv w \<Longrightarrow> st w (j_gid j) = Some s \<Longrightarrow> s \<noteq> Canceled \<Longrightarrow>
      j_state j \<in> {Queued, Running} \<longrightarrow> s \<in> {Queued, Running} \<Longrightarrow> \<exists>w'. upd j w = (Inr (), w')"
begin

lemma upd_finish:
  assumes "inv w" and "j_state j \<in> {Succeeded, Failed}"
  shows "case st w (j_gid j) of
      None \<Rightarrow> upd j w = (Inl ErrJobNotFound, w)
    | Some Canceled \<Rightarrow> upd j w = (Inl ErrJobCanceled, w)
    | Some _ \<Rightarrow> \<exists>w'. upd j w = (Inr (), w') \<and> inv w' \<and> st w' (j_gid j) = Some (j_state j)"
proof (cases "st w (j_gid j)")
  case None
  with upd_missing assms(1) show ?thesis by simp
next
  case (Some s)
  show ?thesis
  proof (cases "s = Canceled")
    case True
    then show ?thesis using upd_canceled [OF assms(1)] Some assms(2) by auto
  next
    case False
    then obtain w' where w': "upd j w = (Inr (), w')"
      using upd_succeeds [OF assms(1) Some] assms(2) by auto
    with upd_ok [OF assms(1) w', of "j_gid j"] Some False show ?thesis
      by (auto split: job_state.splits)
  qed
qed

text \<open>A job that could start ends in a final state, told by the result.\<close>

lemma run_job_ends:
  assumes inv: "inv w" and start: "st w (j_gid j) \<in> {Some Queued, Some Running}"
    and keep: "\<And>w. inv w \<Longrightarrow> st w (j_gid j) = Some Running \<Longrightarrow>
      inv (snd (resolve w)) \<and> st (snd (resolve w)) (j_gid j) \<in> {Some Running, Some Canceled}"
    and run: "run_job_with_resolver upd t0 t1 deadline j resolve w = (r, w')"
  shows "inv w'" "case r of Inr _ \<Rightarrow> st w' (j_gid j) = Some Succeeded
    | Inl e \<Rightarrow> st w' (j_gid j) = Some Failed \<or> st w' (j_gid j) = Some Canceled \<and> e = ErrJobCanceled"
proof -
  let ?j1 = "running_job t0 j"
  have g: "j_gid ?j1 = j_gid j" "j_state ?j1 = Running" by (simp_all add: running_job_def)
  obtain w1 where w1: "upd ?j1 w = (Inr (), w1)"
    using upd_succeeds [OF inv, of ?j1] start g by auto
  from upd_ok [OF inv w1, of "j_gid j"] have i1: "inv w1" "st w1 (j_gid j) = Some Running" using g by simp_all
  obtain x w2 where w2: "resolve w1 = (x, w2)" by (cases "resolve w1")
  with keep [OF i1] have i2: "inv w2" "st w2 (j_gid j) \<in> {Some Running, Some Canceled}" by simp_all
  show "inv w'" "case r of Inr _ \<Rightarrow> st w' (j_gid j) = Some Succeeded
    | Inl e \<Rightarrow> st w' (j_gid j) = Some Failed \<or> st w' (j_gid j) = Some Canceled \<and> e = ErrJobCanceled"
  proof (atomize (full), cases x)
    case (Inl e)
    let ?e = "run_error deadline e"
    let ?j2 = "?j1\<lparr>j_finished_at := Some t1, j_state := Failed, j_error := err_text ?e\<rparr>"
    from upd_finish [OF i2(1), of ?j2] i2(2) run w1 w2 Inl g
    show "inv w' \<and> (case r of Inr _ \<Rightarrow> st w' (j_gid j) = Some Succeeded
      | Inl e \<Rightarrow> st w' (j_gid j) = Some Failed \<or> st w' (j_gid j) = Some Canceled \<and> e = ErrJobCanceled)"
      using i2(1) by (auto simp: run_job_with_resolver_def Let_def io_bind_def io_try_def)
  next
    case (Inr y)
    let ?j2 = "?j1\<lparr>j_finished_at := Some t1, j_state := Succeeded\<rparr>"
    from upd_finish [OF i2(1), of ?j2] i2(2) run w1 w2 Inr g
    show "inv w' \<and> (case r of Inr _ \<Rightarrow> st w' (j_gid j) = Some Succeeded
      | Inl e \<Rightarrow> st w' (j_gid j) = Some Failed \<or> st w' (j_gid j) = Some Canceled \<and> e = ErrJobCanceled)"
      using i2(1) by (auto simp: run_job_with_resolver_def Let_def io_bind_def io_try_def)
  qed
qed

text \<open>A job canceled before it starts is not run at all.\<close>

lemma run_job_canceled_first:
  assumes "inv w" and "st w (j_gid j) = Some Canceled"
  shows "run_job_with_resolver upd t0 t1 deadline j resolve w = (Inl ErrJobCanceled, w)"
  using upd_canceled [OF assms(1), of "running_job t0 j"] assms(2)
  by (simp add: run_job_with_resolver_def Let_def io_bind_def running_job_def)

end

interpretation js: job_writer jobs_ok state_of update_job
proof unfold_locales
  fix w w' :: db and j :: job and g e s
  assume ok: "jobs_ok w"
  show "update_job j w = (Inr (), w') \<Longrightarrow>
      jobs_ok w' \<and> state_of w' g = (if g = j_gid j then Some (j_state j) else state_of w g)"
    using update_job_ok (1, 2) [OF ok] by blast
  show "update_job j w = (Inl e, w') \<Longrightarrow> w' = w"
    by (rule update_job_error [OF ok])
  show "state_of w (j_gid j) = None \<Longrightarrow> update_job j w = (Inl ErrJobNotFound, w)"
    using update_job_run [OF ok, of j] by (simp add: state_of_def split: option.splits)
  show "state_of w (j_gid j) = Some Canceled \<Longrightarrow> j_state j \<noteq> Canceled \<Longrightarrow>
      update_job j w = (Inl ErrJobCanceled, w)"
    by (rule update_job_canceled [OF ok])
  show "state_of w (j_gid j) = Some s \<Longrightarrow> s \<noteq> Canceled \<Longrightarrow>
      j_state j \<in> {Queued, Running} \<longrightarrow> s \<in> {Queued, Running} \<Longrightarrow> \<exists>w'. update_job j w = (Inr (), w')"
    by (rule update_job_succeeds [OF ok]) simp_all
qed

section \<open>The property\<close>

text \<open>A job that runs never stays running: whatever the resolver does (as long as it leaves the task running or
  somebody cancels it meanwhile), the task is succeeded exactly when a result is returned, and otherwise it is failed
  or, when it was canceled during the run, still canceled with \<open>ErrJobCanceled\<close> returned.\<close>

lemma run_job_reaches_final_state:
  assumes "jobs_ok d" and "state_of d (j_gid j) \<in> {Some Queued, Some Running}"
    and "\<And>d. jobs_ok d \<Longrightarrow> state_of d (j_gid j) = Some Running \<Longrightarrow>
      jobs_ok (snd (resolve d)) \<and> state_of (snd (resolve d)) (j_gid j) \<in> {Some Running, Some Canceled}"
    and "run_job_with_resolver update_job t0 t1 deadline j resolve d = (r, d')"
  shows "jobs_ok d' \<and> (case r of Inr _ \<Rightarrow> state_of d' (j_gid j) = Some Succeeded
    | Inl e \<Rightarrow> state_of d' (j_gid j) = Some Failed \<or> state_of d' (j_gid j) = Some Canceled \<and> e = ErrJobCanceled)"
  using js.run_job_ends [OF assms] by simp

text \<open>The witness cancels the job while it runs.\<close>

end
