(* ===== verification/Service_World.thy ===== *)
theory Service_World
  imports Job_Runner
begin

text \<open>
  The world the ingest service runs in. \<open>Provider\<close> (\<open>internal/ingest/repository.go\<close>) is an interface
  to the 115 cloud: here a record of functions over a state \<open>'p\<close> of the cloud, an argument of
  everything that uses it; the optional interfaces the code asks for by type assertion are options.
  The rest of the state belongs to the program: the database, the view of the offline tasks, the
  library directory.

  Time and concurrency are explicit. \<open>w_ticks\<close> says how much time passes before each reading of the
  clock. \<open>w_events\<close> is what happens while an operation blocks: the cloud makes progress, the
  scheduler polls, time passes, or the operation's context ends; it also ends after the last event.
\<close>

section \<open>The cloud\<close>

record 'p provider =
  pv_list_offline :: "int \<Rightarrow> ('p, task list \<times> int) io"
  pv_add_offline :: "string list \<Rightarrow> string \<Rightarrow> ('p, create_result list) io"
  pv_delete_offline :: "string \<Rightarrow> bool \<Rightarrow> ('p, unit) io"
  pv_folder_info :: "string \<Rightarrow> ('p, remote_node) io"
  pv_list_folder :: "string \<Rightarrow> int \<Rightarrow> int \<Rightarrow> ('p, remote_node list \<times> int) io"
  pv_quota :: "('p, int) io option"
  pv_available :: "('p \<Rightarrow> bool) option"
  pv_delete_file :: "(string \<Rightarrow> string \<Rightarrow> ('p, unit) io) option"
  pv_recycle_bin :: "('p, unit) io option"
  pv_read_nfo :: "(string \<Rightarrow> ('p, string) io) option"

section \<open>The offline tasks somebody waits for\<close>

text \<open>\<open>taskPollResult\<close>. A waiter is a channel with room for one result: its identity and what is in it.\<close>

record poll_result =
  pr_task :: task
  pr_found :: bool
  pr_err :: "err option"

record managed_task =
  mt_task :: task
  mt_started :: timestamp
  mt_last_poll :: "timestamp option"
  mt_next_poll :: timestamp
  mt_waiters :: "(nat \<times> poll_result option) list"

record offline_tasks =
  om_tasks :: "(string \<times> managed_task) list"
  om_snapshot :: "string \<Rightarrow> task option"
  om_snapshot_at :: "string \<Rightarrow> timestamp option"
  om_next_waiter :: nat

definition empty_offline_tasks :: offline_tasks where
  "empty_offline_tasks = \<lparr>om_tasks = [], om_snapshot = (\<lambda>_. None), om_snapshot_at = (\<lambda>_. None), om_next_waiter = 0\<rparr>"

section \<open>The library directory\<close>

text \<open>What is below the library directory, by the segments of the path relative to it.\<close>

datatype fs_entry = Regular string | Directory | Special

type_synonym files = "(string list \<times> fs_entry) list"

section \<open>The world\<close>

datatype 'p event = EvTime nat | EvCloud "'p \<Rightarrow> 'p" | EvPoll | EvDone err

record 'p world =
  w_prov :: 'p
  w_now :: timestamp
  w_ticks :: "nat list"
  w_events :: "'p event list"
  w_ctx :: "err option"
  w_offline :: offline_tasks
  w_db :: db
  w_library :: files

definition new_world :: "'p \<Rightarrow> 'p world" where
  "new_world p = \<lparr>w_prov = p, w_now = 0, w_ticks = [], w_events = [], w_ctx = None,
     w_offline = empty_offline_tasks, w_db = empty_db, w_library = []\<rparr>"

text \<open>The STRM writer (\<open>internal/strm/service.go\<close>): its directory and the address its files point to.\<close>

record strm_service =
  ss_root :: string
  ss_base :: string

text \<open>The fields of \<open>Service\<close> that do not change.\<close>

record 'p service =
  sv_provider :: "'p provider"
  sv_work_dir :: string
  sv_poll_interval :: int
  sv_poll_min :: int
  sv_poll_max :: int
  sv_scan_interval :: int
  sv_strm :: "strm_service option"

text \<open>\<open>time.Now()\<close>.\<close>

definition read_now :: "(('p, 'z) world_scheme, timestamp) io" where
  "read_now = (\<lambda>w. case w_ticks w of
     [] \<Rightarrow> (Inr (w_now w), w)
   | n # ns \<Rightarrow> (Inr (w_now w + int n), w\<lparr>w_now := w_now w + int n, w_ticks := ns\<rparr>))"

definition on_prov :: "('p, 'a) io \<Rightarrow> (('p, 'z) world_scheme, 'a) io" where
  "on_prov m = (\<lambda>w. case m (w_prov w) of (r, p) \<Rightarrow> (r, w\<lparr>w_prov := p\<rparr>))"

definition on_db :: "(db, 'a) io \<Rightarrow> (('p, 'z) world_scheme, 'a) io" where
  "on_db m = (\<lambda>w. case m (w_db w) of (r, d) \<Rightarrow> (r, w\<lparr>w_db := d\<rparr>))"

definition on_library :: "(files, 'a) io \<Rightarrow> (('p, 'z) world_scheme, 'a) io" where
  "on_library m = (\<lambda>w. case m (w_library w) of (r, fs) \<Rightarrow> (r, w\<lparr>w_library := fs\<rparr>))"

definition on_offline :: "(offline_tasks \<Rightarrow> offline_tasks) \<Rightarrow> (('p, 'z) world_scheme, unit) io" where
  "on_offline f = (\<lambda>w. (Inr (), w\<lparr>w_offline := f (w_offline w)\<rparr>))"

lemma on_prov_frame [simp]:
  "w_offline (snd (on_prov m w)) = w_offline w" "w_db (snd (on_prov m w)) = w_db w"
  "w_library (snd (on_prov m w)) = w_library w" "w_now (snd (on_prov m w)) = w_now w"
  "w_events (snd (on_prov m w)) = w_events w" "w_ctx (snd (on_prov m w)) = w_ctx w"
  by (simp_all add: on_prov_def split: prod.splits)

lemma on_db_frame [simp]:
  "w_offline (snd (on_db m w)) = w_offline w" "w_prov (snd (on_db m w)) = w_prov w"
  "w_library (snd (on_db m w)) = w_library w" "w_now (snd (on_db m w)) = w_now w"
  "w_db (snd (on_db m w)) = snd (m (w_db w))" "fst (on_db m w) = fst (m (w_db w))"
  by (simp_all add: on_db_def split: prod.splits)

lemma on_library_frame [simp]:
  "w_offline (snd (on_library m w)) = w_offline w" "w_prov (snd (on_library m w)) = w_prov w"
  "w_db (snd (on_library m w)) = w_db w" "w_now (snd (on_library m w)) = w_now w"
  "w_events (snd (on_library m w)) = w_events w" "w_ctx (snd (on_library m w)) = w_ctx w"
  "w_library (snd (on_library m w)) = snd (m (w_library w))" "fst (on_library m w) = fst (m (w_library w))"
  by (simp_all add: on_library_def split: prod.splits)

lemma read_now_frame [simp]:
  "w_offline (snd (read_now w)) = w_offline w" "w_db (snd (read_now w)) = w_db w"
  "w_prov (snd (read_now w)) = w_prov w" "w_library (snd (read_now w)) = w_library w"
  "w_events (snd (read_now w)) = w_events w" "w_ctx (snd (read_now w)) = w_ctx w"
  by (simp_all add: read_now_def split: list.splits)

lemma read_now_mono: "read_now w = (Inr t, w') \<Longrightarrow> t = w_now w' \<and> w_now w \<le> w_now w'"
  by (auto simp: read_now_def split: list.splits)

lemma read_now_total: "\<exists>t w'. read_now w = (Inr t, w')"
  by (cases "w_ticks w") (auto simp: read_now_def)

text \<open>A database operation keeps what it keeps of the database.\<close>

lemma keeps_on_db: "keeps P m \<Longrightarrow> keeps (\<lambda>w. P (w_db w)) (on_db m)"
  by (auto simp: keeps_def)

lemma keeps_db_prov: "keeps (\<lambda>w. P (w_db w)) (on_prov m)"
  by (auto simp: keeps_def)

lemma keeps_db_now: "keeps (\<lambda>w. P (w_db w)) read_now"
  by (auto simp: keeps_def)

lemma keeps_db_offline: "keeps (\<lambda>w. P (w_db w)) (on_offline f)"
  by (auto simp: keeps_def on_offline_def)

lemma keeps_db_library: "keeps (\<lambda>w. P (w_db w)) (on_library m)"
  by (auto simp: keeps_def)

lemmas keeps_db [keeps_intros] = keeps_on_db keeps_db_prov keeps_db_now keeps_db_offline keeps_db_library

text \<open>The contract of \<open>UpdateJob\<close> carries over to the world.\<close>

interpretation wj: job_writer "\<lambda>w. jobs_ok (w_db w)" "\<lambda>w. state_of (w_db w)" "\<lambda>j. on_db (update_job j)"
proof unfold_locales
  fix w w' :: "('p, 'z) world_scheme" and j :: job and g e s
  assume ok: "jobs_ok (w_db w)"
  have w: "w\<lparr>w_db := w_db w\<rparr> = w" by simp
  show "on_db (update_job j) w = (Inr (), w') \<Longrightarrow>
      jobs_ok (w_db w') \<and> state_of (w_db w') g = (if g = j_gid j then Some (j_state j) else state_of (w_db w) g)"
    using js.upd_ok [OF ok] by (fastforce simp: on_db_def split: prod.splits)
  show "on_db (update_job j) w = (Inl e, w') \<Longrightarrow> w' = w"
    using js.upd_error [OF ok] by (fastforce simp: on_db_def split: prod.splits)
  show "state_of (w_db w) (j_gid j) = None \<Longrightarrow> on_db (update_job j) w = (Inl ErrJobNotFound, w)"
    using js.upd_missing [OF ok] by (simp add: on_db_def)
  show "state_of (w_db w) (j_gid j) = Some Canceled \<Longrightarrow> j_state j \<noteq> Canceled \<Longrightarrow>
      on_db (update_job j) w = (Inl ErrJobCanceled, w)"
    using js.upd_canceled [OF ok] by (simp add: on_db_def)
  show "state_of (w_db w) (j_gid j) = Some s \<Longrightarrow> s \<noteq> Canceled \<Longrightarrow>
      j_state j \<in> {Queued, Running} \<longrightarrow> s \<in> {Queued, Running} \<Longrightarrow> \<exists>w'. on_db (update_job j) w = (Inr (), w')"
    using js.upd_succeeds [OF ok] by (fastforce simp: on_db_def)
qed

end
