(* ===== verification/Offline_Tasks.thy ===== *)
theory Offline_Tasks
  imports Service_World "HOL-Library.AList"
begin

text \<open>
  \<open>internal/ingest/offline_tasks.go\<close>: the view of the cloud's offline tasks that every waiting job
  shares. One scheduler polls the tasks that are due; a listing is read page by page until every
  task asked for was seen, and what it shows on the way is cached and delivered to waiters. The
  maps of the code are an association list (\<open>om_tasks\<close>, which the scheduler walks) and functions;
  a set of targets is a list. Locks make each definition one atomic step.
\<close>

section \<open>Comparing tasks, polling intervals\<close>

definition newer_offline_task :: "task \<Rightarrow> task \<Rightarrow> bool" where
  "newer_offline_task candidate current =
     (t_info_hash current = '''' \<or> t_last_update candidate > t_last_update current \<or>
      (t_last_update candidate = t_last_update current \<and>
        (t_status candidate \<noteq> t_status current \<or> t_progress candidate \<noteq> t_progress current \<or>
         t_result_id candidate \<noteq> t_result_id current)))"

text \<open>Go's division of \<open>int64\<close> values truncates toward zero.\<close>

definition go_div :: "int \<Rightarrow> int \<Rightarrow> int" where
  "go_div a b = sgn a * sgn b * (\<bar>a\<bar> div \<bar>b\<bar>)"

definition adaptive_poll_interval :: "'p service \<Rightarrow> int \<Rightarrow> int" where
  "adaptive_poll_interval s elapsed =
     (let minimum = (if sv_poll_min s \<le> 0 then 2000000000 else sv_poll_min s);
          maximum = (if sv_poll_max s \<le> 0 then 300000000000 else sv_poll_max s);
          interval = go_div elapsed 5
      in if interval < minimum then minimum else if interval > maximum then maximum else interval)"

definition poll_interval :: "'p service \<Rightarrow> int" where
  "poll_interval s = (if sv_poll_interval s > 0 then sv_poll_interval s else 1000000000)"

section \<open>Records and waiters\<close>

definition deliver :: "poll_result \<Rightarrow> managed_task \<Rightarrow> managed_task" where
  "deliver r t = t\<lparr>mt_waiters := map (\<lambda>(i, b). (i, case b of None \<Rightarrow> Some r | Some _ \<Rightarrow> b)) (mt_waiters t)\<rparr>"

definition record_of :: "string \<Rightarrow> offline_tasks \<Rightarrow> managed_task option" where
  "record_of k m = map_of (om_tasks m) k"

definition set_record :: "string \<Rightarrow> managed_task \<Rightarrow> offline_tasks \<Rightarrow> offline_tasks" where
  "set_record k t m = m\<lparr>om_tasks := AList.update k t (om_tasks m)\<rparr>"

definition forget :: "string \<Rightarrow> offline_tasks \<Rightarrow> offline_tasks" where
  "forget h m = m\<lparr>om_snapshot := (om_snapshot m)(to_lower h := None),
     om_snapshot_at := (om_snapshot_at m)(to_lower h := None)\<rparr>"

definition invalidate :: "string list \<Rightarrow> offline_tasks \<Rightarrow> offline_tasks" where
  "invalidate hs m = (if hs = [] then m\<lparr>om_snapshot := (\<lambda>_. None), om_snapshot_at := (\<lambda>_. None)\<rparr> else fold forget hs m)"

definition restart_one :: "'p service \<Rightarrow> timestamp \<Rightarrow> string \<Rightarrow> offline_tasks \<Rightarrow> offline_tasks" where
  "restart_one s now h m =
     (case record_of (to_lower h) m of
       None \<Rightarrow> m
     | Some t \<Rightarrow> set_record (to_lower h)
         (t\<lparr>mt_task := empty_task\<lparr>t_info_hash := to_lower h\<rparr>, mt_started := now, mt_last_poll := None,
            mt_next_poll := now + adaptive_poll_interval s 0\<rparr>) m)"

definition restart :: "'p service \<Rightarrow> string list \<Rightarrow> (('p, 'z) world_scheme, unit) io" where
  "restart s hs = io_bind read_now (\<lambda>now. on_offline (fold (restart_one s now) hs))"

text \<open>\<open>nextTargets\<close>: the tasks that are due, and the earliest deadline of the others. Only tasks that
  somebody waits for count.\<close>

definition next_targets :: "timestamp \<Rightarrow> offline_tasks \<Rightarrow> timestamp option \<times> string list" where
  "next_targets now m =
     (let waited = filter (\<lambda>(k, t). mt_waiters t \<noteq> []) (om_tasks m);
          later = map (\<lambda>(k, t). mt_next_poll t) (filter (\<lambda>(k, t). mt_next_poll t > now) waited)
      in (if later = [] then None else Some (Min (set later)),
          map fst (filter (\<lambda>(k, t). mt_next_poll t \<le> now) waited)))"

section \<open>Reading the listing\<close>

text \<open>What one listed task changes: the snapshot, the record somebody may wait on, and the result.\<close>

definition note_snapshot :: "timestamp \<Rightarrow> task \<Rightarrow> offline_tasks \<Rightarrow> offline_tasks" where
  "note_snapshot now t m =
     (let k = to_lower (t_info_hash t)
      in m\<lparr>om_snapshot := (if case om_snapshot m k of None \<Rightarrow> True | Some previous \<Rightarrow> newer_offline_task t previous
             then (om_snapshot m)(k := Some t) else om_snapshot m),
           om_snapshot_at := (om_snapshot_at m)(k := Some now)\<rparr>)"

definition note_record :: "task \<Rightarrow> offline_tasks \<Rightarrow> offline_tasks" where
  "note_record t m =
     (let k = to_lower (t_info_hash t)
      in case record_of k m of
           None \<Rightarrow> m
         | Some r \<Rightarrow> if newer_offline_task t (mt_task r)
             then set_record k (deliver \<lparr>pr_task = t, pr_found = True, pr_err = None\<rparr> (r\<lparr>mt_task := t\<rparr>)) m
             else m)"

type_synonym findings = "(string \<Rightarrow> task option) \<times> string list"

definition note_found :: "task \<Rightarrow> findings \<Rightarrow> findings" where
  "note_found t a = (case a of (found, pending) \<Rightarrow>
     (let k = to_lower (t_info_hash t)
      in if k \<in> set pending
         then ((if case found k of None \<Rightarrow> True | Some previous \<Rightarrow> newer_offline_task t previous
                then found(k := Some t) else found), removeAll k pending)
         else a))"

definition note_task :: "timestamp \<Rightarrow> task \<Rightarrow> offline_tasks \<times> findings \<Rightarrow> offline_tasks \<times> findings" where
  "note_task now t a = (note_record t (note_snapshot now t (fst a)), note_found t (snd a))"

text \<open>The page loop. It ends when nothing is pending or the last page was read; the fuel bounds the
  pages, for a cloud whose page count might grow with every reading.\<close>

fun fetch_pages :: "nat \<Rightarrow> 'p provider \<Rightarrow> int \<Rightarrow> findings \<Rightarrow>
    (('p, 'z) world_scheme, findings \<times> err option) io" where
  "fetch_pages 0 pv page a = (if snd a = [] then io_ret (a, None) else io_fail OutOfFuel)"
| "fetch_pages (Suc n) pv page a =
     (if snd a = [] then io_ret (a, None)
      else io_try (on_prov (pv_list_offline pv page)) (\<lambda>r. case r of
          Inl e \<Rightarrow> io_ret (a, Some (Wrap ''page'' e))
        | Inr (listed, page_count) \<Rightarrow>
            io_bind read_now (\<lambda>now w.
              let (m, a') = fold (note_task now) listed (w_offline w, a);
                  w' = w\<lparr>w_offline := m\<rparr>
              in if page_count \<le> 0 \<or> page \<ge> page_count then (Inr (a', None), w')
                 else fetch_pages n pv (page + 1) a' w')))"

definition cached_tasks :: "timestamp \<Rightarrow> int \<Rightarrow> string list \<Rightarrow> offline_tasks \<Rightarrow> (string \<Rightarrow> task option) option" where
  "cached_tasks now max_age targets m =
     (if list_all (\<lambda>k. case (om_snapshot m k, om_snapshot_at m k) of
           (Some _, Some seen) \<Rightarrow> now - seen < max_age | _ \<Rightarrow> False) targets
      then Some (\<lambda>k. if k \<in> set targets then om_snapshot m k else None) else None)"

definition fetch :: "nat \<Rightarrow> 'p provider \<Rightarrow> string list \<Rightarrow> int \<Rightarrow>
    (('p, 'z) world_scheme, (string \<Rightarrow> task option) \<times> err option) io" where
  "fetch fuel pv targets max_age =
     (let ask = io_bind (fetch_pages fuel pv 1 ((\<lambda>_. None), targets)) (\<lambda>(a, e). io_ret (fst a, e))
      in if max_age > 0 then
           io_bind read_now (\<lambda>now w.
             case cached_tasks now max_age targets (w_offline w) of
               Some found \<Rightarrow> (Inr (found, None), w)
             | None \<Rightarrow> ask w)
         else ask)"

definition query :: "nat \<Rightarrow> 'p provider \<Rightarrow> string list \<Rightarrow> int \<Rightarrow> (('p, 'z) world_scheme, string \<Rightarrow> task option) io" where
  "query fuel pv hashes max_age =
     io_bind (fetch fuel pv (remdups (map to_lower hashes)) max_age)
       (\<lambda>(found, e). case e of None \<Rightarrow> io_ret found | Some e \<Rightarrow> io_fail e)"

section \<open>Polling\<close>

definition poll_one :: "'p service \<Rightarrow> timestamp \<Rightarrow> (string \<Rightarrow> task option) \<times> err option \<Rightarrow> string \<Rightarrow>
    offline_tasks \<Rightarrow> offline_tasks" where
  "poll_one s now res k m =
     (case record_of k m of
       None \<Rightarrow> m
     | Some t \<Rightarrow>
         (let t1 = t\<lparr>mt_last_poll := Some now,
                mt_next_poll := now + adaptive_poll_interval s (now - mt_started t)\<rparr>
          in set_record k
               (case fst res k of
                 Some task \<Rightarrow> deliver \<lparr>pr_task = task, pr_found = True, pr_err = snd res\<rparr> (t1\<lparr>mt_task := task\<rparr>)
               | None \<Rightarrow> deliver \<lparr>pr_task = empty_task, pr_found = False, pr_err = snd res\<rparr> t1) m))"

definition poll :: "nat \<Rightarrow> 'p service \<Rightarrow> string list \<Rightarrow> (('p, 'z) world_scheme, unit) io" where
  "poll fuel s targets =
     io_bind (fetch fuel (sv_provider s) targets 0) (\<lambda>res.
     io_bind read_now (\<lambda>now. on_offline (fold (poll_one s now res) targets)))"

text \<open>One turn of the scheduler \<open>run\<close>: it polls what is due, or sleeps.\<close>

definition scheduler_turn :: "nat \<Rightarrow> 'p service \<Rightarrow> (('p, 'z) world_scheme, unit) io" where
  "scheduler_turn fuel s = io_bind read_now (\<lambda>now w.
     case next_targets now (w_offline w) of
       (_, targets) \<Rightarrow> if targets \<noteq> [] then poll fuel s targets w else (Inr (), w))"

section \<open>Creating and canceling\<close>

definition create_tasks :: "'p service \<Rightarrow> string list \<Rightarrow> (('p, 'z) world_scheme, create_result list) io" where
  "create_tasks s magnets =
     io_bind (on_prov (pv_add_offline (sv_provider s) magnets (sv_work_dir s))) (\<lambda>results.
     io_bind (on_offline (invalidate (map c_info_hash results))) (\<lambda>_.
     io_bind (restart s (map c_info_hash (filter c_created results))) (\<lambda>_. io_ret results)))"

text \<open>Emptying the recycle bin is detached from the operation; here it runs at once and its error is
  dropped (the code logs it).\<close>

definition empty_recycle_bin :: "'p service \<Rightarrow> (('p, 'z) world_scheme, unit) io" where
  "empty_recycle_bin s = (case pv_recycle_bin (sv_provider s) of
     None \<Rightarrow> io_ret ()
   | Some clean \<Rightarrow> io_try (on_prov clean) (\<lambda>_. io_ret ()))"

definition cancel_task :: "'p service \<Rightarrow> string \<Rightarrow> bool \<Rightarrow> (('p, 'z) world_scheme, unit) io" where
  "cancel_task s h delete_source =
     io_bind (on_prov (pv_delete_offline (sv_provider s) h delete_source)) (\<lambda>_.
     io_bind (if delete_source then empty_recycle_bin s else io_ret ()) (\<lambda>_.
     on_offline (invalidate [h])))"

section \<open>Waiting\<close>

definition add_waiter :: "'p service \<Rightarrow> timestamp \<Rightarrow> string \<Rightarrow> task \<Rightarrow> offline_tasks \<Rightarrow> offline_tasks" where
  "add_waiter s now k current m =
     (let i = om_next_waiter m;
          t = (case record_of k m of
            None \<Rightarrow> \<lparr>mt_task = current, mt_started = now, mt_last_poll = None,
              mt_next_poll = now + adaptive_poll_interval s 0, mt_waiters = []\<rparr>
          | Some t \<Rightarrow> if newer_offline_task current (mt_task t) then t\<lparr>mt_task := current\<rparr> else t)
      in (set_record k (t\<lparr>mt_waiters := mt_waiters t @ [(i, None)]\<rparr>) m)\<lparr>om_next_waiter := Suc i\<rparr>)"

definition remove_waiter :: "string \<Rightarrow> nat \<Rightarrow> offline_tasks \<Rightarrow> offline_tasks" where
  "remove_waiter k i m =
     (case record_of k m of
       None \<Rightarrow> m
     | Some t \<Rightarrow> set_record k (t\<lparr>mt_waiters := filter (\<lambda>x. fst x \<noteq> i) (mt_waiters t)\<rparr>) m)"

definition mailbox :: "string \<Rightarrow> nat \<Rightarrow> offline_tasks \<Rightarrow> poll_result option" where
  "mailbox k i m = (case record_of k m of
     None \<Rightarrow> None | Some t \<Rightarrow> (case map_of (mt_waiters t) i of None \<Rightarrow> None | Some b \<Rightarrow> b))"

definition clear_mailbox :: "string \<Rightarrow> nat \<Rightarrow> offline_tasks \<Rightarrow> offline_tasks" where
  "clear_mailbox k i m =
     (case record_of k m of
       None \<Rightarrow> m
     | Some t \<Rightarrow> set_record k (t\<lparr>mt_waiters := map (\<lambda>(j, b). (j, if j = i then None else b)) (mt_waiters t)\<rparr>) m)"

text \<open>What an event does while an operation blocks.\<close>

definition run_event :: "nat \<Rightarrow> 'p service \<Rightarrow> 'p event \<Rightarrow> ('p, 'z) world_scheme \<Rightarrow> ('p, 'z) world_scheme" where
  "run_event fuel s e w =
     (case e of
       EvTime n \<Rightarrow> w\<lparr>w_now := w_now w + int n\<rparr>
     | EvCloud f \<Rightarrow> w\<lparr>w_prov := f (w_prov w)\<rparr>
     | EvPoll \<Rightarrow> snd (scheduler_turn fuel s w)
     | EvDone e \<Rightarrow> w\<lparr>w_ctx := Some e\<rparr>)"

text \<open>The receive loop of \<open>wait\<close>. A result with an error, or without the task, is dropped.\<close>

fun wait_loop :: "nat \<Rightarrow> 'p service \<Rightarrow> string \<Rightarrow> nat \<Rightarrow> 'p event list \<Rightarrow> (('p, 'z) world_scheme, task) io" where
  "wait_loop fuel s k i evs w =
     (case w_ctx w of
       Some e \<Rightarrow> (Inl e, w\<lparr>w_events := evs\<rparr>)
     | None \<Rightarrow>
       (case mailbox k i (w_offline w) of
         Some r \<Rightarrow>
           if pr_err r = None \<and> pr_found r then (Inr (pr_task r), w\<lparr>w_events := evs\<rparr>)
           else (case evs of
               [] \<Rightarrow> (Inl CtxDeadlineExceeded, w\<lparr>w_events := [], w_ctx := Some CtxDeadlineExceeded\<rparr>)
             | e # es \<Rightarrow> wait_loop fuel s k i es
                 (run_event fuel s e (w\<lparr>w_offline := clear_mailbox k i (w_offline w)\<rparr>)))
       | None \<Rightarrow> (case evs of
           [] \<Rightarrow> (Inl CtxDeadlineExceeded, w\<lparr>w_events := [], w_ctx := Some CtxDeadlineExceeded\<rparr>)
         | e # es \<Rightarrow> wait_loop fuel s k i es (run_event fuel s e w))))"

declare wait_loop.simps [simp del]

definition wait_task :: "nat \<Rightarrow> 'p service \<Rightarrow> string \<Rightarrow> task \<Rightarrow> (('p, 'z) world_scheme, task) io" where
  "wait_task fuel s info_hash current =
     (let k = to_lower info_hash
      in io_bind read_now (\<lambda>now w.
           let i = om_next_waiter (w_offline w);
               w1 = w\<lparr>w_offline := add_waiter s now k current (w_offline w)\<rparr>;
               (r, w2) = wait_loop fuel s k i (w_events w1) w1
           in (r, w2\<lparr>w_offline := remove_waiter k i (w_offline w2)\<rparr>)))"

end
