(* ===== verification/Offline_Facts.thy ===== *)
theory Offline_Facts
  imports Offline_Tasks
begin

text \<open>
  What the offline task view promises: the polling interval stays in its bounds, a query walks the
  listing to the end or to the last task it wants and returns the first listed task of each hash,
  the cache is used only while it is fresh, and a waiter whose task is listed is woken with it.
\<close>

section \<open>Intervals\<close>

definition poll_low :: "'p service \<Rightarrow> int" where
  "poll_low s = (if sv_poll_min s \<le> 0 then 2000000000 else sv_poll_min s)"

definition poll_high :: "'p service \<Rightarrow> int" where
  "poll_high s = (if sv_poll_max s \<le> 0 then 300000000000 else sv_poll_max s)"

lemma adaptive_poll_interval_alt:
  "adaptive_poll_interval s e = (if go_div e 5 < poll_low s then poll_low s else min (go_div e 5) (poll_high s))"
  by (simp add: adaptive_poll_interval_def poll_low_def poll_high_def Let_def min_def)

lemma go_div_mono: "x \<le> y \<Longrightarrow> go_div x 5 \<le> go_div y 5"
proof -
  have g: "go_div a 5 = (if 0 \<le> a then a div 5 else - ((- a) div 5))" for a
    by (simp add: go_div_def sgn_if)
  assume "x \<le> y"
  then consider "0 \<le> x" "0 \<le> y" | "x < 0" "0 \<le> y" | "x < 0" "y < 0" by linarith
  then show ?thesis
  proof cases
    case 1
    then show ?thesis using zdiv_mono1 [OF \<open>x \<le> y\<close>, of 5] by (simp add: g)
  next
    case 2
    then have "0 \<le> y div 5" "0 \<le> (- x) div 5" by (simp_all add: pos_imp_zdiv_nonneg_iff)
    with 2 show ?thesis unfolding g by simp
  next
    case 3
    then show ?thesis using zdiv_mono1 [of "- y" "- x" 5] \<open>x \<le> y\<close> by (simp add: g)
  qed
qed

section \<open>Records\<close>

lemma record_of_set [simp]: "record_of k (set_record k' t m) = (if k = k' then Some t else record_of k m)"
  by (simp add: record_of_def set_record_def update_conv')

lemma record_of_snapshot [simp]:
  "record_of k (note_snapshot now t m) = record_of k m" "record_of k (m\<lparr>om_next_waiter := n\<rparr>) = record_of k m"
  by (simp_all add: record_of_def note_snapshot_def Let_def)

text \<open>The waiter \<open>i\<close> of \<open>k\<close> is registered, and its mailbox is empty or holds the task \<open>t\<close>.\<close>

definition found_result :: "task \<Rightarrow> poll_result" where
  "found_result t = \<lparr>pr_task = t, pr_found = True, pr_err = None\<rparr>"

definition box_ok :: "string \<Rightarrow> nat \<Rightarrow> task \<Rightarrow> offline_tasks \<Rightarrow> bool" where
  "box_ok k i t m \<longleftrightarrow> (\<exists>r. record_of k m = Some r \<and> map_of (mt_waiters r) i \<in> {Some None, Some (Some (found_result t))})"

lemma map_of_deliver:
  "map_of (mt_waiters (deliver r t)) i =
     map_option (\<lambda>b. case b of None \<Rightarrow> Some r | Some x \<Rightarrow> Some x) (map_of (mt_waiters t) i)"
proof -
  have "(\<lambda>(i, b). (i, case b of None \<Rightarrow> Some r | Some x \<Rightarrow> Some x)) =
      (\<lambda>(i, b). (i, (\<lambda>i b. case b of None \<Rightarrow> Some r | Some x \<Rightarrow> Some x) i b))" by simp
  then show ?thesis
    by (cases "map_of (mt_waiters t) i") (auto simp: deliver_def map_of_map split: option.splits)
qed

lemma mt_waiters_deliver_task [simp]: "mt_waiters (deliver r (t\<lparr>mt_task := u\<rparr>)) = mt_waiters (deliver r t)"
  by (simp add: deliver_def)

lemma note_record_box:
  assumes "box_ok k i t m" and "to_lower (t_info_hash u) = k \<Longrightarrow> u = t"
  shows "box_ok k i t (note_record u m)"
proof (cases "to_lower (t_info_hash u) = k")
  case True
  with assms show ?thesis
    by (auto simp: box_ok_def note_record_def Let_def map_of_deliver found_result_def split: option.splits)
next
  case False
  with assms(1) show ?thesis
    by (auto simp: box_ok_def note_record_def Let_def split: option.splits)
qed

lemma note_task_box:
  assumes "box_ok k i t (fst a)" and "to_lower (t_info_hash u) = k \<Longrightarrow> u = t"
  shows "box_ok k i t (fst (note_task now u a))"
  using note_record_box [of k i t "note_snapshot now u (fst a)" u] assms
  by (simp add: note_task_def box_ok_def)

lemma fold_note_task_box:
  "box_ok k i t (fst a) \<Longrightarrow> (\<And>u. u \<in> set ts \<Longrightarrow> to_lower (t_info_hash u) = k \<Longrightarrow> u = t) \<Longrightarrow>
    box_ok k i t (fst (fold (note_task now) ts a))"
proof (induction ts arbitrary: a)
  case (Cons u ts)
  have "box_ok k i t (fst (note_task now u a))"
    using note_task_box [OF Cons.prems(1)] Cons.prems(2) by simp
  from Cons.IH [OF this] Cons.prems(2) show ?case by simp
qed simp

section \<open>A page\<close>

abbreviation has_hash :: "string \<Rightarrow> task \<Rightarrow> bool" where
  "has_hash k t \<equiv> to_lower (t_info_hash t) = k"

definition sound_findings :: "findings \<Rightarrow> bool" where
  "sound_findings a \<longleftrightarrow> (\<forall>k \<in> set (snd a). fst a k = None)"

lemma note_found_step:
  assumes "sound_findings a"
  shows "sound_findings (note_found t a)"
    "set (snd (note_found t a)) = set (snd a) - {to_lower (t_info_hash t)}"
    "fst (note_found t a) k = (if has_hash k t \<and> k \<in> set (snd a) then Some t else fst a k)"
  using assms by (auto simp: sound_findings_def note_found_def Let_def split: prod.splits option.splits)

lemma fold_note_task_found: "snd (fold (note_task now) ts a) = fold note_found ts (snd a)"
  by (induction ts arbitrary: a) (simp_all add: note_task_def)

lemma fold_note_found:
  "sound_findings a \<Longrightarrow> sound_findings (fold note_found ts a) \<and>
    set (snd (fold note_found ts a)) = set (snd a) - (\<lambda>t. to_lower (t_info_hash t)) ` set ts \<and>
    fst (fold note_found ts a) k = (if k \<in> set (snd a) then find (has_hash k) ts else fst a k)"
proof (induction ts arbitrary: a)
  case Nil
  then show ?case by (auto simp: sound_findings_def)
next
  case (Cons t ts)
  note s = note_found_step [OF Cons.prems, of t]
  from Cons.IH [OF s(1)] show ?case
    unfolding fold_Cons comp_apply s(2) s(3) by (auto split: if_splits)
qed

section \<open>The listing\<close>

text \<open>A cloud that lists \<open>pages\<close> and reports \<open>n\<close> pages, and does not change while it is read.\<close>

definition lists_pages :: "'p provider \<Rightarrow> (int \<Rightarrow> task list) \<Rightarrow> int \<Rightarrow> 'p \<Rightarrow> bool" where
  "lists_pages pv pages n p \<longleftrightarrow> (\<forall>page. pv_list_offline pv page p = (Inr (pages page, n), p))"

definition all_listed :: "(int \<Rightarrow> task list) \<Rightarrow> int \<Rightarrow> int \<Rightarrow> task list" where
  "all_listed pages from n = concat (map pages [from..max from n])"

lemma all_listed_last: "n \<le> from \<Longrightarrow> all_listed pages from n = pages from"
  by (simp add: all_listed_def max_def)

lemma all_listed_more: "from < n \<Longrightarrow> all_listed pages from n = pages from @ all_listed pages (from + 1) n"
  by (simp add: all_listed_def upto_rec1)

lemma find_app: "find P (xs @ ys) = (case find P xs of None \<Rightarrow> find P ys | Some x \<Rightarrow> Some x)"
  by (rule find_append)

lemma pending_find: "k \<notin> (\<lambda>t. to_lower (t_info_hash t)) ` set ts \<longleftrightarrow> find (has_hash k) ts = None"
  by (auto simp: find_None_iff)

lemma fetch_pages_spec:
  assumes "lists_pages pv pages n (w_prov w)" and "sound_findings a" and "n - page < int fuel" "0 < fuel" "1 \<le> page"
    and "\<And>u. box \<Longrightarrow> u \<in> set (all_listed pages page n) \<Longrightarrow> has_hash k0 u \<Longrightarrow> u = t" and "box \<longrightarrow> box_ok k0 i t (w_offline w)"
  shows "\<exists>a' w'. fetch_pages fuel pv page a w = (Inr (a', None), w') \<and>
    fst a' k = (if k \<in> set (snd a) then find (has_hash k) (all_listed pages page n) else fst a k) \<and>
    w_prov w' = w_prov w \<and> (box \<longrightarrow> box_ok k0 i t (w_offline w')) \<and> w_now w \<le> w_now w' \<and>
    w_events w' = w_events w \<and> w_ctx w' = w_ctx w \<and> w_db w' = w_db w"
  using assms
proof (induction fuel arbitrary: page a w)
  case (Suc fuel)
  show ?case
  proof (cases "snd a = []")
    case True
    then show ?thesis using Suc.prems(7) by simp
  next
    case False
    have l: "on_prov (pv_list_offline pv page) w = (Inr (pages page, n), w)"
      using Suc.prems(1) by (simp add: on_prov_def lists_pages_def)
    obtain now w1 where w1: "read_now w = (Inr now, w1)" using read_now_total by blast
    have f1: "w_prov w1 = w_prov w" "w_offline w1 = w_offline w" "w_events w1 = w_events w" "w_ctx w1 = w_ctx w"
      "w_db w1 = w_db w" "w_now w \<le> w_now w1"
      using read_now_frame [of w] read_now_mono [OF w1] w1 by auto
    obtain m a' where ma: "fold (note_task now) (pages page) (w_offline w1, a) = (m, a')"
      by (cases "fold (note_task now) (pages page) (w_offline w1, a)")
    then have a': "a' = fold note_found (pages page) a"
      using fold_note_task_found [of now "pages page" "(w_offline w1, a)"] by simp
    note fs = fold_note_found [OF Suc.prems(2), of "pages page" k, folded a']
    have sub: "set (pages page) \<subseteq> set (all_listed pages page n)"
      by (cases "page < n") (auto simp: all_listed_more all_listed_last)
    have box: "box \<longrightarrow> box_ok k0 i t m"
      using fold_note_task_box [of k0 i t "(w_offline w1, a)" "pages page" now] Suc.prems(6,7) sub f1 ma by auto
    let ?w2 = "w1\<lparr>w_offline := m\<rparr>"
    have step: "fetch_pages (Suc fuel) pv page a w =
        (if n \<le> 0 \<or> page \<ge> n then (Inr (a', None), ?w2) else fetch_pages fuel pv (page + 1) a' ?w2)"
      using False l w1 ma by (simp add: io_try_def io_bind_def)
    show ?thesis
    proof (cases "n \<le> 0 \<or> page \<ge> n")
      case True
      then have "page \<ge> n" using Suc.prems(5) by auto
      then show ?thesis using step fs f1 box all_listed_last [of n page pages] by auto
    next
      case False
      then have lt: "page < n" by simp
      have IH: "\<exists>a'' w'. fetch_pages fuel pv (page + 1) a' ?w2 = (Inr (a'', None), w') \<and>
          fst a'' k = (if k \<in> set (snd a') then find (has_hash k) (all_listed pages (page + 1) n) else fst a' k) \<and>
          w_prov w' = w_prov ?w2 \<and> (box \<longrightarrow> box_ok k0 i t (w_offline w')) \<and> w_now ?w2 \<le> w_now w' \<and>
          w_events w' = w_events ?w2 \<and> w_ctx w' = w_ctx ?w2 \<and> w_db w' = w_db ?w2"
      proof (rule Suc.IH)
        show "lists_pages pv pages n (w_prov ?w2)" using Suc.prems(1) f1 by simp
        show "sound_findings a'" using fs by simp
        show "n - (page + 1) < int fuel" "0 < fuel" "1 \<le> page + 1" using Suc.prems(3,5) lt by simp_all
        show "u = t" if box "u \<in> set (all_listed pages (page + 1) n)" "has_hash k0 u" for u
          using Suc.prems(6) [of u] that by (simp add: all_listed_more [OF lt])
        show "box \<longrightarrow> box_ok k0 i t (w_offline ?w2)" using box by simp
      qed
      have "find (has_hash k) (all_listed pages page n) =
          (case find (has_hash k) (pages page) of None \<Rightarrow> find (has_hash k) (all_listed pages (page + 1) n) | Some x \<Rightarrow> Some x)"
        by (simp add: all_listed_more [OF lt] find_app)
      with IH step False fs f1 show ?thesis
        using pending_find [of k "pages page"] by (auto split: option.splits if_splits)
    qed
  qed
qed simp

section \<open>Queries\<close>

lemma fetch_spec:
  assumes "lists_pages pv pages n (w_prov w)" and "n \<le> int fuel" "0 < fuel"
    and "\<And>u. box \<Longrightarrow> u \<in> set (all_listed pages 1 n) \<Longrightarrow> has_hash k0 u \<Longrightarrow> u = t" and "box \<longrightarrow> box_ok k0 i t (w_offline w)"
  shows "\<exists>found w'. fetch fuel pv targets 0 w = (Inr (found, None), w') \<and>
    found k = (if k \<in> set targets then find (has_hash k) (all_listed pages 1 n) else None) \<and>
    w_prov w' = w_prov w \<and> (box \<longrightarrow> box_ok k0 i t (w_offline w')) \<and> w_now w \<le> w_now w' \<and>
    w_events w' = w_events w \<and> w_ctx w' = w_ctx w \<and> w_db w' = w_db w"
proof -
  have "sound_findings ((\<lambda>_. None), targets)" by (simp add: sound_findings_def)
  with fetch_pages_spec [OF assms(1) this, of 1 fuel box k0 t i k] assms(2-)
  obtain a' w' where "fetch_pages fuel pv 1 ((\<lambda>_. None), targets) w = (Inr (a', None), w')"
    "fst a' k = (if k \<in> set targets then find (has_hash k) (all_listed pages 1 n) else None)"
    "w_prov w' = w_prov w" "box \<longrightarrow> box_ok k0 i t (w_offline w')" "w_now w \<le> w_now w'"
    "w_events w' = w_events w" "w_ctx w' = w_ctx w" "w_db w' = w_db w"
    by auto
  then show ?thesis by (simp add: fetch_def io_bind_def)
qed

text \<open>A cloud whose page count is bounded never exhausts the fuel.\<close>

lemma fetch_pages_fuel:
  assumes "\<And>page p ts c p'. pv_list_offline pv page p = (Inr (ts, c), p') \<Longrightarrow> c \<le> n"
    and "\<And>page p. fst (pv_list_offline pv page p) \<noteq> Inl OutOfFuel"
  shows "n - page < int fuel \<Longrightarrow> 0 < fuel \<Longrightarrow> fst (fetch_pages fuel pv page a w) \<noteq> Inl OutOfFuel"
proof (induction fuel arbitrary: page a w)
  case (Suc fuel)
  obtain r p where r: "pv_list_offline pv page (w_prov w) = (r, p)" by (cases "pv_list_offline pv page (w_prov w)")
  show ?case
  proof (cases "snd a = [] \<or> (\<exists>e. r = Inl e)")
    case True
    with r show ?thesis by (auto simp: on_prov_def io_try_def)
  next
    case False
    then obtain ts c where rc: "r = Inr (ts, c)" by (cases r) auto
    then have c: "c \<le> n" using assms(1) r by blast
    let ?w1 = "w\<lparr>w_prov := p\<rparr>"
    obtain now w2 where w2: "read_now ?w1 = (Inr now, w2)" using read_now_total by blast
    have IH: "fst (fetch_pages fuel pv (page + 1) a' w3) \<noteq> Inl OutOfFuel" if "page < c" for a' and w3 :: "('a, 'b) world_scheme"
      using Suc.IH [of "page + 1" a' w3] Suc.prems(1) that c by simp
    show ?thesis
      using False r rc w2 IH by (auto simp: on_prov_def io_try_def io_bind_def Let_def split: prod.splits)
  qed
qed simp

section \<open>Waking a waiter\<close>

definition box_full :: "string \<Rightarrow> nat \<Rightarrow> task \<Rightarrow> offline_tasks \<Rightarrow> bool" where
  "box_full k i t m \<longleftrightarrow> (\<exists>r. record_of k m = Some r \<and> map_of (mt_waiters r) i = Some (Some (found_result t)))"

lemma box_full_mailbox: "box_full k i t m \<Longrightarrow> mailbox k i m = Some (found_result t)"
  by (auto simp: box_full_def mailbox_def)

lemma poll_one_box:
  assumes "fst res k = Some t" "snd res = None"
  shows "box_full k i t m \<Longrightarrow> box_full k i t (poll_one s now res k' m)"
    "box_ok k i t m \<Longrightarrow> box_ok k i t (poll_one s now res k' m)"
    "box_ok k i t m \<Longrightarrow> box_full k i t (poll_one s now res k m)"
  using assms
  by (auto simp: box_full_def box_ok_def poll_one_def Let_def map_of_deliver found_result_def split: option.splits)

lemma fold_poll_one_full:
  "fst res k = Some t \<Longrightarrow> snd res = None \<Longrightarrow> box_full k i t m \<Longrightarrow> box_full k i t (fold (poll_one s now res) ks m)"
  by (induction ks arbitrary: m) (simp_all add: poll_one_box(1))

lemma fold_poll_one_wakes:
  "fst res k = Some t \<Longrightarrow> snd res = None \<Longrightarrow> box_ok k i t m \<Longrightarrow> k \<in> set ks \<Longrightarrow>
    box_full k i t (fold (poll_one s now res) ks m)"
proof (induction ks arbitrary: m)
  case (Cons k' ks)
  show ?case
  proof (cases "k = k'")
    case True
    then show ?thesis using Cons.prems by (simp add: fold_poll_one_full poll_one_box(3))
  next
    case False
    then show ?thesis using Cons.prems Cons.IH [of "poll_one s now res k' m"] by (simp add: poll_one_box(2))
  qed
qed simp

lemma due_target:
  assumes "record_of k m = Some t" and "mt_waiters t \<noteq> []" and "mt_next_poll t \<le> now"
  shows "k \<in> set (snd (next_targets now m))"
proof -
  have "(k, t) \<in> set (om_tasks m)" using assms(1) by (simp add: record_of_def map_of_SomeD)
  then show ?thesis using assms(2,3) by (force simp: next_targets_def Let_def)
qed

lemma scheduler_turn_wakes:
  assumes pages: "lists_pages (sv_provider s) pages n (w_prov w)" "n \<le> int fuel" "0 < fuel"
    and one: "\<And>u. u \<in> set (all_listed pages 1 n) \<Longrightarrow> has_hash k u \<Longrightarrow> u = t"
    and listed: "t \<in> set (all_listed pages 1 n)" "has_hash k t"
    and box: "box_ok k i t (w_offline w)"
    and due: "\<And>r. record_of k (w_offline w) = Some r \<Longrightarrow> mt_next_poll r \<le> w_now w"
  shows "box_full k i t (w_offline (snd (scheduler_turn fuel s w))) \<and>
    w_ctx (snd (scheduler_turn fuel s w)) = w_ctx w \<and> w_prov (snd (scheduler_turn fuel s w)) = w_prov w"
proof -
  obtain now w1 where w1: "read_now w = (Inr now, w1)" using read_now_total by blast
  have f1: "w_prov w1 = w_prov w" "w_offline w1 = w_offline w" "w_ctx w1 = w_ctx w" "w_now w \<le> now"
    using read_now_frame [of w] read_now_mono [OF w1] w1 by auto
  let ?ks = "snd (next_targets now (w_offline w1))"
  obtain r where r: "record_of k (w_offline w) = Some r" "mt_waiters r \<noteq> []"
    using box by (cases "record_of k (w_offline w)") (force simp: box_ok_def)+
  with due [OF r(1)] f1 have k: "k \<in> set ?ks" by (intro due_target [of k _ r]) auto
  have find: "find (has_hash k) (all_listed pages 1 n) = Some t"
  proof -
    have "find (has_hash k) (all_listed pages 1 n) \<noteq> None" using listed by (auto simp: find_None_iff)
    then obtain u where "find (has_hash k) (all_listed pages 1 n) = Some u" by blast
    then show ?thesis using find_Some_set one by fastforce
  qed
  have p1: "lists_pages (sv_provider s) pages n (w_prov w1)" "True \<longrightarrow> box_ok k i t (w_offline w1)"
    using pages box f1 by simp_all
  have "\<exists>found w2. fetch fuel (sv_provider s) ?ks 0 w1 = (Inr (found, None), w2) \<and>
      found k = (if k \<in> set ?ks then find (has_hash k) (all_listed pages 1 n) else None) \<and>
      w_prov w2 = w_prov w1 \<and> (True \<longrightarrow> box_ok k i t (w_offline w2)) \<and> w_now w1 \<le> w_now w2 \<and>
      w_events w2 = w_events w1 \<and> w_ctx w2 = w_ctx w1 \<and> w_db w2 = w_db w1"
    by (rule fetch_spec [OF p1(1) pages(2,3) _ p1(2)]) (rule one)
  then obtain found w2 where
    w2: "fetch fuel (sv_provider s) ?ks 0 w1 = (Inr (found, None), w2)" "found k = Some t"
      "w_prov w2 = w_prov w1" "box_ok k i t (w_offline w2)" "w_ctx w2 = w_ctx w1"
    using k find by (elim exE conjE) simp
  obtain now2 w3 where w3: "read_now w2 = (Inr now2, w3)" using read_now_total by blast
  have f3: "w_offline w3 = w_offline w2" "w_ctx w3 = w_ctx w2" "w_prov w3 = w_prov w2"
    using read_now_frame [of w2] w3 by auto
  have turn: "snd (scheduler_turn fuel s w) = w3\<lparr>w_offline := fold (poll_one s now2 (found, None)) ?ks (w_offline w3)\<rparr>"
    using w1 k w2(1) w3
    by (auto simp: scheduler_turn_def poll_def io_bind_def on_offline_def case_prod_beta)
  have "box_full k i t (fold (poll_one s now2 (found, None)) ?ks (w_offline w3))"
    using w2 f3 k by (intro fold_poll_one_wakes) simp_all
  then show ?thesis using turn f1 f3 w2 by simp
qed

text \<open>The record a waiter joins is due once the cloud has been left alone for \<open>d\<close>.\<close>

definition due_after :: "'p service \<Rightarrow> string \<Rightarrow> offline_tasks \<Rightarrow> timestamp \<Rightarrow> int \<Rightarrow> bool" where
  "due_after s k m now d \<longleftrightarrow> (case record_of k m of
     None \<Rightarrow> adaptive_poll_interval s 0 \<le> d
   | Some r \<Rightarrow> mt_next_poll r \<le> now + d \<and> om_next_waiter m \<notin> fst ` set (mt_waiters r))"

lemma add_waiter_box:
  assumes "due_after s k m now0 d" and "now0 \<le> now"
  shows "box_ok k (om_next_waiter m) t (add_waiter s now k cur m)"
    "mailbox k (om_next_waiter m) (add_waiter s now k cur m) = None"
    "\<And>r. record_of k (add_waiter s now k cur m) = Some r \<Longrightarrow> mt_next_poll r \<le> now + d"
  using assms
  by (auto simp: map_of_eq_None_iff [symmetric] due_after_def add_waiter_def Let_def box_ok_def mailbox_def map_add_def split: option.splits if_splits)

lemma wait_task_wakes:
  assumes pages: "lists_pages (sv_provider s) pages n (w_prov w)" "n \<le> int fuel" "0 < fuel"
    and one: "\<And>u. u \<in> set (all_listed pages 1 n) \<Longrightarrow> has_hash (to_lower h) u \<Longrightarrow> u = t"
    and listed: "t \<in> set (all_listed pages 1 n)" "has_hash (to_lower h) t"
    and run: "w_ctx w = None" "w_events w = EvTime d # EvPoll # es"
    and due: "due_after s (to_lower h) (w_offline w) (w_now w) (int d)"
  shows "fst (wait_task fuel s h cur w) = Inr t"
proof -
  let ?k = "to_lower h"
  obtain now w1 where w1: "read_now w = (Inr now, w1)" using read_now_total by blast
  have f1: "w_prov w1 = w_prov w" "w_offline w1 = w_offline w" "w_ctx w1 = w_ctx w" "w_events w1 = w_events w"
      "w_now w \<le> now" "now = w_now w1"
    using read_now_frame [of w] read_now_mono [OF w1] w1 by auto
  let ?i = "om_next_waiter (w_offline w)"
  let ?w2 = "w1\<lparr>w_offline := add_waiter s now ?k cur (w_offline w)\<rparr>"
  let ?w3 = "?w2\<lparr>w_now := w_now ?w2 + int d\<rparr>"
  let ?w4 = "snd (scheduler_turn fuel s ?w3)"
  note b = add_waiter_box [OF due f1(5)]
  have p: "lists_pages (sv_provider s) pages n (w_prov ?w3)" using pages f1 by simp
  have "box_full ?k ?i t (w_offline ?w4) \<and> w_ctx ?w4 = w_ctx ?w3 \<and> w_prov ?w4 = w_prov ?w3"
    by (rule scheduler_turn_wakes [OF p pages(2,3) one listed]) (use b f1 in auto)
  then have w4: "mailbox ?k ?i (w_offline ?w4) = Some (found_result t)" "w_ctx ?w4 = None"
    using box_full_mailbox f1 run by auto
  have "wait_loop fuel s ?k ?i (EvTime d # EvPoll # es) ?w2 = wait_loop fuel s ?k ?i (EvPoll # es) ?w3"
    using f1 run b(2) [of cur] by (subst wait_loop.simps) (simp add: run_event_def)
  also have "\<dots> = wait_loop fuel s ?k ?i es ?w4"
    using f1 run b(2) [of cur] by (subst wait_loop.simps) (simp add: run_event_def)
  also have "\<dots> = (Inr t, ?w4\<lparr>w_events := es\<rparr>)"
    using w4 by (subst wait_loop.simps) (simp add: found_result_def)
  finally show ?thesis
    using w1 f1 run by (simp add: wait_task_def Let_def io_bind_def case_prod_beta)
qed

section \<open>The properties\<close>

text \<open>The time between two polls of a task never leaves the configured bounds and is never zero, so the
  scheduler neither starves a task nor busy-loops on it, whatever the configuration says.\<close>

lemma adaptive_poll_interval_bounds:
  "min (poll_low s) (poll_high s) \<le> adaptive_poll_interval s elapsed \<and>
   adaptive_poll_interval s elapsed \<le> max (poll_low s) (poll_high s) \<and> 0 < adaptive_poll_interval s elapsed"
  by (auto simp: adaptive_poll_interval_alt poll_low_def poll_high_def)

definition sample_pages :: "int \<Rightarrow> task list" where
  "sample_pages page =
     (if page = 1 then [empty_task\<lparr>t_info_hash := ''AB'', t_last_update := 3\<rparr>]
      else [empty_task\<lparr>t_info_hash := ''cd'', t_last_update := 5, t_name := ''x''\<rparr>,
            empty_task\<lparr>t_info_hash := ''ab'', t_last_update := 9\<rparr>])"

definition sample_provider :: "unit provider" where
  "sample_provider = \<lparr>pv_list_offline = (\<lambda>page. io_ret (sample_pages page, 2)),
     pv_add_offline = (\<lambda>_ _. io_ret []), pv_delete_offline = (\<lambda>_ _. io_ret ()),
     pv_folder_info = (\<lambda>_. io_fail ErrOfflineResultNotFound), pv_list_folder = (\<lambda>_ _ _. io_ret ([], 0)),
     pv_quota = None, pv_available = None, pv_delete_file = None, pv_recycle_bin = None, pv_read_nfo = None\<rparr>"

definition sample_service :: "unit service" where
  "sample_service = \<lparr>sv_provider = sample_provider, sv_work_dir = ''w'', sv_poll_interval = 0, sv_poll_min = 0,
     sv_poll_max = 0, sv_scan_interval = 0, sv_strm = None\<rparr>"

lemma sample_lists: "lists_pages sample_provider sample_pages 2 ()"
  by (simp add: lists_pages_def sample_provider_def)

lemma sample_listed: "all_listed sample_pages 1 2 = sample_pages 1 @ sample_pages 2"
  by (simp add: all_listed_more all_listed_last)

text \<open>A query reads the listing page by page and stops as soon as it has what it wants, yet it returns exactly what a
  search of the whole listing returns: for every hash asked for, in any case, the first listed task with it, and
  nothing if no page has it.\<close>

lemma query_finds_first_listed:
  assumes "lists_pages pv pages n (w_prov w)" and "n \<le> int fuel" and "0 < fuel"
  shows "\<exists>found w'. query fuel pv hashes 0 w = (Inr found, w') \<and>
    found k = (if k \<in> to_lower ` set hashes then find (has_hash k) (all_listed pages 1 n) else None)"
  using fetch_spec [OF assms, of False "''''" empty_task 0 "remdups (map to_lower hashes)" k]
  by (auto simp: query_def io_bind_def)

text \<open>The page loop ends: a cloud whose page count never exceeds \<open>n\<close>, whatever else it answers and however it
  changes between two pages, is read with \<open>n\<close> pages of fuel.\<close>

lemma fetch_pages_end:
  assumes "\<And>page p ts c p'. pv_list_offline pv page p = (Inr (ts, c), p') \<Longrightarrow> c \<le> n"
    and "\<And>page p. fst (pv_list_offline pv page p) \<noteq> Inl OutOfFuel" and "n \<le> int fuel" and "0 < fuel"
  shows "fst (fetch fuel pv targets max_age w) \<noteq> Inl OutOfFuel"
proof -
  have "fst (fetch_pages fuel pv 1 a w) \<noteq> Inl OutOfFuel" for a and w :: "('a, 'b) world_scheme"
    by (rule fetch_pages_fuel [OF assms(1,2)]) (use assms(3,4) in simp_all)
  then have ask: "fst (io_bind (fetch_pages fuel pv 1 a) (\<lambda>(a, e). io_ret (fst a, e)) w) \<noteq> Inl OutOfFuel"
    for a and w :: "('a, 'b) world_scheme"
    by (simp add: io_bind_def split: prod.splits sum.splits) (metis fst_conv)
  obtain now w1 where w1: "read_now w = (Inr now, w1)" using read_now_total by blast
  then show ?thesis
    using ask by (auto simp: fetch_def Let_def io_bind_Inr split: option.splits)
qed

text \<open>C19. A job that waits for a task is woken with it: if the cloud lists the task once and is left alone until the
  task's poll is due, the next turn of the scheduler hands the listed task to the waiter, whether the waiter is the
  first for this hash or joins others.\<close>

theorem wait_returns_listed_task:
  assumes "lists_pages (sv_provider s) pages n (w_prov w)" and "n \<le> int fuel" and "0 < fuel"
    and "\<And>u. u \<in> set (all_listed pages 1 n) \<Longrightarrow> has_hash (to_lower h) u \<Longrightarrow> u = t"
    and "t \<in> set (all_listed pages 1 n)" and "has_hash (to_lower h) t"
    and "w_ctx w = None" and "w_events w = EvTime d # EvPoll # es"
    and "due_after s (to_lower h) (w_offline w) (w_now w) (int d)"
  shows "fst (wait_task fuel s h current w) = Inr t"
  using assms by (rule wait_task_wakes)

lemma wait_returns_listed_task_witness:
  "fst (wait_task 2 sample_service ''CD'' empty_task ((new_world ())\<lparr>w_events := [EvTime 2000000000, EvPoll]\<rparr>)) =
    Inr (empty_task\<lparr>t_info_hash := ''cd'', t_last_update := 5, t_name := ''x''\<rparr>)"
proof (rule wait_returns_listed_task [where pages = sample_pages and n = 2 and d = 2000000000 and es = "[]"])
  show "lists_pages (sv_provider sample_service) sample_pages 2 (w_prov ((new_world ())\<lparr>w_events := [EvTime 2000000000, EvPoll]\<rparr>))"
    by (simp add: sample_service_def sample_lists)
  show "u = empty_task\<lparr>t_info_hash := ''cd'', t_last_update := 5, t_name := ''x''\<rparr>"
    if "u \<in> set (all_listed sample_pages 1 2)" "has_hash (to_lower ''CD'') u" for u
  proof -
    have "list_all (\<lambda>u. has_hash (to_lower ''CD'') u \<longrightarrow> u = empty_task\<lparr>t_info_hash := ''cd'', t_last_update := 5, t_name := ''x''\<rparr>)
        (sample_pages 1 @ sample_pages 2)" by code_simp
    with that show ?thesis by (simp add: sample_listed list_all_iff)
  qed
  show "empty_task\<lparr>t_info_hash := ''cd'', t_last_update := 5, t_name := ''x''\<rparr> \<in> set (all_listed sample_pages 1 2)"
    unfolding sample_listed by (simp add: sample_pages_def)
  show "has_hash (to_lower ''CD'') (empty_task\<lparr>t_info_hash := ''cd'', t_last_update := 5, t_name := ''x''\<rparr>)"
    by code_simp
  show "due_after sample_service (to_lower ''CD'') (w_offline ((new_world ())\<lparr>w_events := [EvTime 2000000000, EvPoll]\<rparr>))
      (w_now ((new_world ())\<lparr>w_events := [EvTime 2000000000, EvPoll]\<rparr>)) (int 2000000000)"
    by (simp add: due_after_def new_world_def empty_offline_tasks_def record_of_def adaptive_poll_interval_def
        sample_service_def go_div_def)
qed (simp_all add: new_world_def)

end
