(* ===== verification/Scan.thy ===== *)
theory Scan
  imports Service_World Library_Paths "HOL-Library.List_Lexorder" "HOL-Library.Char_ord" "HOL-Library.Multiset"
begin

text \<open>
  Scanning the result of a finished task: \<open>scanResult\<close>, \<open>scanFolder\<close> and the request pacer of
  \<open>internal/ingest/service.go\<close>. The recursion follows the folders of the cloud, which may hold
  anything; the code cuts cycles by the ids on the current path, the model also counts the pages it
  may still read (\<open>fuel\<close>), and the theorems say how much is enough.
\<close>

section \<open>The code\<close>

text \<open>What a scan keeps: the world, when the last request was made, and the files reported to the
  callback \<open>onFile\<close> so far.\<close>

record ('p, 'z) scan_state =
  sc_world :: "('p, 'z) world_scheme"
  sc_last :: "timestamp option"
  sc_seen :: "scan_file list"

definition in_world :: "(('p, 'z) world_scheme, 'a) io \<Rightarrow> (('p, 'z) scan_state, 'a) io" where
  "in_world m = (\<lambda>s. case m (sc_world s) of (r, w) \<Rightarrow> (r, s\<lparr>sc_world := w\<rparr>))"

definition stamp_call :: "(('p, 'z) scan_state, unit) io" where
  "stamp_call = io_bind (in_world read_now) (\<lambda>now s. (Inr (), s\<lparr>sc_last := Some now\<rparr>))"

definition sleep :: "int \<Rightarrow> (('p, 'z) world_scheme, unit) io" where
  "sleep d = (\<lambda>w. case w_ctx w of Some e \<Rightarrow> (Inl e, w) | None \<Rightarrow> (Inr (), w\<lparr>w_now := w_now w + d\<rparr>))"

definition pacer_wait :: "int \<Rightarrow> (('p, 'z) scan_state, unit) io" where
  "pacer_wait interval = (\<lambda>s.
     if interval \<le> 0 then stamp_call s
     else case sc_last s of
       None \<Rightarrow> stamp_call s
     | Some t \<Rightarrow> io_bind (in_world read_now) (\<lambda>now.
         let wait = t + interval - now
         in if wait > 0 then io_bind (in_world (sleep wait)) (\<lambda>_. stamp_call) else stamp_call) s)"

definition emit :: "scan_file \<Rightarrow> (('p, 'z) scan_state, unit) io" where
  "emit f = (\<lambda>s. (Inr (), s\<lparr>sc_seen := sc_seen s @ [f]\<rparr>))"

text \<open>The files of one page; \<open>sub\<close> scans a folder.\<close>

fun scan_items :: "(remote_node \<Rightarrow> string \<Rightarrow> string \<Rightarrow> (('p, 'z) scan_state, scan_file list) io) \<Rightarrow>
    string \<Rightarrow> string \<Rightarrow> remote_node list \<Rightarrow> (('p, 'z) scan_state, scan_file list) io" where
  "scan_items sub prefix remote_prefix [] = io_ret []"
| "scan_items sub prefix remote_prefix (item # items) =
     (let relative_path = path_join [prefix, n_name item];
          item_remote_path = path_join [remote_prefix, n_name item]
      in io_bind
           (if n_is_dir item then sub item relative_path item_remote_path
            else (let f = remote_file item relative_path (''/'' @ trim_left item_remote_path ''/'')
                  in io_bind (emit f) (\<lambda>_. io_ret [f])))
           (\<lambda>fs. io_bind (scan_items sub prefix remote_prefix items) (\<lambda>rest. io_ret (fs @ rest))))"

definition page_size :: int where
  "page_size = 1000"

fun scan_pages :: "nat \<Rightarrow> 'p service \<Rightarrow> string \<Rightarrow> string \<Rightarrow> string \<Rightarrow> string list \<Rightarrow> int \<Rightarrow> scan_file list \<Rightarrow>
    (('p, 'z) scan_state, scan_file list) io" where
  "scan_pages 0 sv folder prefix remote_prefix visited offset acc = io_fail OutOfFuel"
| "scan_pages (Suc fuel) sv folder prefix remote_prefix visited offset acc =
     io_bind (pacer_wait (sv_scan_interval sv)) (\<lambda>_.
     io_bind (wrap_err ''scan'' (in_world (on_prov (pv_list_folder (sv_provider sv) folder offset page_size))))
       (\<lambda>(items, listed_total).
     io_bind (scan_items
         (\<lambda>item p rp. if n_id item \<in> set visited then io_fail (Msg ''folder cycle'')
           else scan_pages fuel sv (n_id item) p rp (n_id item # visited) 0 [])
         prefix remote_prefix items)
       (\<lambda>fs.
         let offset' = offset + int (length items)
         in if items = [] \<or> offset' \<ge> listed_total then io_ret (acc @ fs)
            else scan_pages fuel sv folder prefix remote_prefix visited offset' (acc @ fs))))"

definition scan_folder :: "nat \<Rightarrow> 'p service \<Rightarrow> string \<Rightarrow> string \<Rightarrow> string \<Rightarrow> string list \<Rightarrow>
    (('p, 'z) scan_state, scan_file list) io" where
  "scan_folder fuel sv folder prefix remote_prefix visited =
     (if folder \<in> set visited then io_fail (Msg ''folder cycle'')
      else scan_pages fuel sv folder prefix remote_prefix (folder # visited) 0 [])"

text \<open>\<open>sort.Slice\<close> by path; it need not be stable, so files with one path may come in any order.\<close>

definition sort_files :: "scan_file list \<Rightarrow> scan_file list" where
  "sort_files fs = sort_key f_relative_path fs"

definition scan_result_in :: "nat \<Rightarrow> 'p service \<Rightarrow> task \<Rightarrow> (('p, 'z) scan_state, scan_file list \<times> string) io" where
  "scan_result_in fuel sv t =
     io_bind (pacer_wait (sv_scan_interval sv)) (\<lambda>_.
     io_bind (wrap_err ''read result'' (in_world (on_prov (pv_folder_info (sv_provider sv) (t_result_id t))))) (\<lambda>top.
       if \<not> n_is_dir top then
         (let f = remote_file top (n_name top) (remote_path (n_parents top) (n_name top))
          in io_bind (emit f) (\<lambda>_. io_ret ([f], n_name top)))
       else io_bind (scan_folder fuel sv (n_id top) '''' (remote_path (n_parents top) (n_name top)) [])
              (\<lambda>fs. io_ret (sort_files fs, n_name top))))"

text \<open>The files and the name of the result, with the files the callback saw.\<close>

definition scan_task_result :: "nat \<Rightarrow> 'p service \<Rightarrow> task \<Rightarrow> ('p, 'z) world_scheme \<Rightarrow>
    (err + scan_file list \<times> string) \<times> scan_file list \<times> ('p, 'z) world_scheme" where
  "scan_task_result fuel sv t w =
     (case scan_result_in fuel sv t \<lparr>sc_world = w, sc_last = None, sc_seen = []\<rparr> of
       (r, s) \<Rightarrow> (r, sc_seen s, sc_world s))"

section \<open>The folder tree of the cloud\<close>

datatype folder_tree = File_Leaf remote_node | Folder remote_node "folder_tree list"

fun node_of :: "folder_tree \<Rightarrow> remote_node" where
  "node_of (File_Leaf n) = n"
| "node_of (Folder n ts) = n"

text \<open>The tree is what the cloud holds below a node: the listing of a folder (\<open>kids\<close>) is its children,
  and no folder contains itself.\<close>

fun holds :: "(string \<Rightarrow> remote_node list) \<Rightarrow> string list \<Rightarrow> folder_tree \<Rightarrow> bool" where
  "holds kids visited (File_Leaf n) = (\<not> n_is_dir n)"
| "holds kids visited (Folder n ts) = (n_is_dir n \<and> n_id n \<notin> set visited \<and> kids (n_id n) = map node_of ts \<and>
     list_all (holds kids (n_id n # visited)) ts)"

fun flat :: "string \<Rightarrow> string \<Rightarrow> folder_tree \<Rightarrow> scan_file list" where
  "flat prefix rp (File_Leaf n) =
     [remote_file n (path_join [prefix, n_name n]) (''/'' @ trim_left (path_join [rp, n_name n]) ''/'')]"
| "flat prefix rp (Folder n ts) =
     concat (map (flat (path_join [prefix, n_name n]) (path_join [rp, n_name n])) ts)"

fun tree_cost :: "folder_tree \<Rightarrow> nat" where
  "tree_cost (File_Leaf n) = 0"
| "tree_cost (Folder n ts) = Suc (length ts) + sum_list (map tree_cost ts)"

text \<open>A cloud that lists \<open>kids\<close>, in pages, and does not change while it is read.\<close>

definition lists_kids :: "'p provider \<Rightarrow> (string \<Rightarrow> remote_node list) \<Rightarrow> 'p \<Rightarrow> bool" where
  "lists_kids pv kids p \<longleftrightarrow> (\<forall>folder offset limit. 0 \<le> offset \<longrightarrow>
     pv_list_folder pv folder offset limit p =
       (Inr (take (nat limit) (drop (nat offset) (kids folder)), int (length (kids folder))), p))"

lemma lists_kidsD:
  "lists_kids pv kids p \<Longrightarrow> 0 \<le> offset \<Longrightarrow> pv_list_folder pv folder offset limit p =
     (Inr (take (nat limit) (drop (nat offset) (kids folder)), int (length (kids folder))), p)"
  by (simp add: lists_kids_def)

section \<open>The pacer\<close>

lemma stamp_call_run: "\<exists>s'. stamp_call s = (Inr (), s') \<and> w_prov (sc_world s') = w_prov (sc_world s) \<and>
    w_ctx (sc_world s') = w_ctx (sc_world s) \<and> sc_seen s' = sc_seen s \<and> w_db (sc_world s') = w_db (sc_world s)"
proof -
  obtain now w where "read_now (sc_world s) = (Inr now, w)" using read_now_total by blast
  then show ?thesis
    using read_now_frame [of "sc_world s"] by (simp add: stamp_call_def in_world_def io_bind_def)
qed

lemma pacer_wait_run:
  assumes "w_ctx (sc_world s) = None"
  shows "\<exists>s'. pacer_wait i s = (Inr (), s') \<and> w_prov (sc_world s') = w_prov (sc_world s) \<and>
    w_ctx (sc_world s') = None \<and> sc_seen s' = sc_seen s \<and> w_db (sc_world s') = w_db (sc_world s)"
proof (cases "i \<le> 0 \<or> sc_last s = None")
  case True
  then show ?thesis using stamp_call_run [of s] assms by (auto simp: pacer_wait_def)
next
  case False
  then obtain t where t: "sc_last s = Some t" by auto
  obtain now w where w: "read_now (sc_world s) = (Inr now, w)" using read_now_total by blast
  have f: "w_prov w = w_prov (sc_world s)" "w_ctx w = None" "w_db w = w_db (sc_world s)"
    using read_now_frame [of "sc_world s"] w assms by auto
  let ?s1 = "s\<lparr>sc_world := w\<rparr>" and ?s2 = "s\<lparr>sc_world := w\<lparr>w_now := w_now w + (t + i - now)\<rparr>\<rparr>"
  show ?thesis
    using False t w f stamp_call_run [of ?s1] stamp_call_run [of ?s2]
    by (simp add: pacer_wait_def io_bind_def in_world_def sleep_def Let_def)
qed

section \<open>A scan returns the tree\<close>

text \<open>A scan state whose context is alive, over the cloud \<open>p\<close> and the database \<open>d\<close>.\<close>

definition alive :: "'p \<Rightarrow> db \<Rightarrow> ('p, 'z) scan_state \<Rightarrow> bool" where
  "alive p d s \<longleftrightarrow> w_prov (sc_world s) = p \<and> w_ctx (sc_world s) = None \<and> w_db (sc_world s) = d"

lemma pacer_wait_alive:
  "alive p d s \<Longrightarrow> \<exists>s'. pacer_wait i s = (Inr (), s') \<and> alive p d s' \<and> sc_seen s' = sc_seen s"
  using pacer_wait_run [of s i] by (auto simp: alive_def)

lemma emit_alive: "alive p d s \<Longrightarrow> alive p d (snd (emit f s))"
  by (simp add: emit_def alive_def)

lemma list_folder_alive:
  assumes "alive p d s" "lists_kids pv kids p" "0 \<le> offset"
  shows "wrap_err m (in_world (on_prov (pv_list_folder pv folder offset limit))) s =
    (Inr (take (nat limit) (drop (nat offset) (kids folder)), int (length (kids folder))), s)"
  using assms by (simp add: alive_def lists_kidsD wrap_err_def in_world_def on_prov_def)

text \<open>One turn of the page loop.\<close>

lemma scan_pages_step:
  assumes "pacer_wait (sv_scan_interval sv) s = (Inr (), s1)"
    and "wrap_err ''scan'' (in_world (on_prov (pv_list_folder (sv_provider sv) folder offset page_size))) s1 =
      (Inr (items, listed_total), s1)"
    and "scan_items (\<lambda>item p rp. if n_id item \<in> set visited then io_fail (Msg ''folder cycle'')
        else scan_pages fuel sv (n_id item) p rp (n_id item # visited) 0 []) prefix rp items s1 = (r, s2)"
  shows "scan_pages (Suc fuel) sv folder prefix rp visited offset acc s =
    (case r of Inl e \<Rightarrow> (Inl e, s2) | Inr fs \<Rightarrow>
      if items = [] \<or> offset + int (length items) \<ge> listed_total then (Inr (acc @ fs), s2)
      else scan_pages fuel sv folder prefix rp visited (offset + int (length items)) (acc @ fs) s2)"
  by (simp add: io_bind_def assms Let_def split: sum.splits)

text \<open>One page, if the folders on it scan to their trees.\<close>

lemma scan_items_tree:
  assumes "\<And>n us s. Folder n us \<in> set ts \<Longrightarrow> alive p d s \<Longrightarrow>
      \<exists>s'. sub n (path_join [prefix, n_name n]) (path_join [rp, n_name n]) s = (Inr (flat prefix rp (Folder n us)), s') \<and>
        alive p d s' \<and> sc_seen s' = sc_seen s @ flat prefix rp (Folder n us)"
    and "list_all (holds kids visited) ts" and "alive p d s"
  shows "\<exists>s'. scan_items sub prefix rp (map node_of ts) s = (Inr (concat (map (flat prefix rp) ts)), s') \<and>
    alive p d s' \<and> sc_seen s' = sc_seen s @ concat (map (flat prefix rp) ts)"
  using assms
proof (induction ts arbitrary: s)
  case (Cons t ts)
  have "\<exists>s1. (if n_is_dir (node_of t) then sub (node_of t) (path_join [prefix, n_name (node_of t)]) (path_join [rp, n_name (node_of t)])
      else (let f = remote_file (node_of t) (path_join [prefix, n_name (node_of t)])
             (''/'' @ trim_left (path_join [rp, n_name (node_of t)]) ''/'')
            in io_bind (emit f) (\<lambda>_. io_ret [f]))) s = (Inr (flat prefix rp t), s1) \<and>
      alive p d s1 \<and> sc_seen s1 = sc_seen s @ flat prefix rp t"
  proof (cases t)
    case (File_Leaf n)
    with Cons.prems(2,3) show ?thesis by (simp add: emit_def io_bind_def alive_def Let_def)
  next
    case (Folder n us)
    then have "n_is_dir n" using Cons.prems(2) by simp
    with Folder Cons.prems(1) [of n us s] Cons.prems(3) show ?thesis by auto
  qed
  then obtain s1 where s1: "(if n_is_dir (node_of t) then sub (node_of t) (path_join [prefix, n_name (node_of t)]) (path_join [rp, n_name (node_of t)])
      else (let f = remote_file (node_of t) (path_join [prefix, n_name (node_of t)])
             (''/'' @ trim_left (path_join [rp, n_name (node_of t)]) ''/'')
            in io_bind (emit f) (\<lambda>_. io_ret [f]))) s = (Inr (flat prefix rp t), s1)"
    "alive p d s1" "sc_seen s1 = sc_seen s @ flat prefix rp t" by blast
  have "\<exists>s'. scan_items sub prefix rp (map node_of ts) s1 = (Inr (concat (map (flat prefix rp) ts)), s') \<and>
    alive p d s' \<and> sc_seen s' = sc_seen s1 @ concat (map (flat prefix rp) ts)"
    by (rule Cons.IH) (use Cons.prems s1(2) in auto)
  then show ?case using s1 by (auto simp: Let_def io_bind_Inr)
qed simp

lemma scan_pages_tree:
  assumes pv: "lists_kids (sv_provider sv) kids p"
  shows "alive p d (s :: ('p, 'z) scan_state) \<Longrightarrow> kids folder = map node_of ts \<Longrightarrow> 0 \<le> offset \<Longrightarrow>
    list_all (holds kids visited) (drop (nat offset) ts) \<Longrightarrow>
    length (drop (nat offset) ts) + sum_list (map tree_cost (drop (nat offset) ts)) < fuel \<Longrightarrow>
    \<exists>s'. scan_pages fuel sv folder prefix rp visited offset acc s =
        (Inr (acc @ concat (map (flat prefix rp) (drop (nat offset) ts))), s') \<and>
      alive p d s' \<and> sc_seen s' = sc_seen s @ concat (map (flat prefix rp) (drop (nat offset) ts))"
proof (induction fuel arbitrary: s folder ts prefix rp visited offset acc)
  case (Suc fuel)
  let ?rest = "drop (nat offset) ts"
  let ?page = "take 1000 ?rest"
  let ?sub = "\<lambda>item p rp. if n_id item \<in> set visited then io_fail (Msg ''folder cycle'')
      else (scan_pages fuel sv (n_id item) p rp (n_id item # visited) 0 [] :: (('p, 'z) scan_state, scan_file list) io)"
  obtain s1 where s1: "pacer_wait (sv_scan_interval sv) s = (Inr (), s1)" "alive p d s1" "sc_seen s1 = sc_seen s"
    using pacer_wait_alive [OF Suc.prems(1)] by blast
  have list: "wrap_err ''scan'' (in_world (on_prov (pv_list_folder (sv_provider sv) folder offset page_size))) s1 =
      (Inr (map node_of ?page, int (length ts)), s1)"
    using list_folder_alive [OF s1(2) pv Suc.prems(3)] Suc.prems(2)
    by (simp add: page_size_def take_map drop_map)
  have sub: "\<exists>s'. ?sub n (path_join [prefix, n_name n]) (path_join [rp, n_name n]) s = (Inr (flat prefix rp (Folder n us)), s') \<and>
      alive p d s' \<and> sc_seen s' = sc_seen s @ flat prefix rp (Folder n us)"
    if t: "Folder n us \<in> set ?page" and s: "alive p d s" for n us s
  proof -
    have r: "Folder n us \<in> set ?rest" using t by (rule in_set_takeD)
    then have h: "holds kids visited (Folder n us)" using Suc.prems(4) by (auto simp: list_all_iff)
    have "tree_cost (Folder n us) \<le> sum_list (map tree_cost ?rest)"
      using member_le_sum_list [of "tree_cost (Folder n us)" "map tree_cost ?rest"] r
      by (metis image_eqI list.set_map zero_le)
    moreover have "0 < length ?rest" using r by (cases ?rest) auto
    ultimately have "length (drop (nat 0) us) + sum_list (map tree_cost (drop (nat 0) us)) < fuel"
      using Suc.prems(5) by simp
    with Suc.IH [OF s, of "n_id n" us 0 "n_id n # visited" "path_join [prefix, n_name n]" "path_join [rp, n_name n]" "[]"] h
    show ?thesis by simp
  qed
  have hp: "list_all (holds kids visited) ?page"
    using Suc.prems(4) by (auto simp: list_all_iff dest: in_set_takeD)
  have "\<exists>s'. scan_items ?sub prefix rp (map node_of ?page) s1 = (Inr (concat (map (flat prefix rp) ?page)), s') \<and>
      alive p d s' \<and> sc_seen s' = sc_seen s1 @ concat (map (flat prefix rp) ?page)"
    by (rule scan_items_tree [where sub = ?sub and ts = ?page, OF _ hp s1(2)]) (rule sub)
  then obtain s2 where
    s2: "scan_items ?sub prefix rp (map node_of ?page) s1 = (Inr (concat (map (flat prefix rp) ?page)), s2)"
      "alive p d s2" "sc_seen s2 = sc_seen s1 @ concat (map (flat prefix rp) ?page)"
    by blast
  let ?off = "offset + int (length (map node_of ?page))"
  have step: "scan_pages (Suc fuel) sv folder prefix rp visited offset acc s =
      (if map node_of ?page = [] \<or> ?off \<ge> int (length ts) then (Inr (acc @ concat (map (flat prefix rp) ?page)), s2)
       else scan_pages fuel sv folder prefix rp visited ?off (acc @ concat (map (flat prefix rp) ?page)) s2)"
    using scan_pages_step [OF s1(1) list s2(1), of acc] by simp
  have off: "nat ?off = nat offset + length ?page" using Suc.prems(3) by simp
  have drop: "drop (nat ?off) ts = drop (length ?page) ?rest" unfolding off by (simp add: add.commute)
  show ?case
  proof (cases "map node_of ?page = [] \<or> ?off \<ge> int (length ts)")
    case True
    then have "length ?rest \<le> 1000"
    proof
      assume "?off \<ge> int (length ts)"
      then have "int (length ts) \<le> offset + 1000" by (auto simp: min_def split: if_splits)
      then show ?thesis using Suc.prems(3) by simp
    qed simp
    then have "?page = ?rest" by simp
    then show ?thesis using step True s1 s2 by simp
  next
    case False
    have split: "?rest = ?page @ drop (nat ?off) ts"
    proof -
      have "take (length ?page) ?rest = ?page" by (simp add: min_def)
      then show ?thesis
        unfolding drop using append_take_drop_id [of "length ?page" ?rest] by (simp only:)
    qed
    have sums: "length ?rest = length ?page + length (drop (nat ?off) ts)"
      by (subst split, rule length_append)
    have costs: "sum_list (map tree_cost ?rest) = sum_list (map tree_cost ?page) + sum_list (map tree_cost (drop (nat ?off) ts))"
      by (subst split, simp only: map_append sum_list_append)
    have files: "concat (map (flat prefix rp) ?rest) =
        concat (map (flat prefix rp) ?page) @ concat (map (flat prefix rp) (drop (nat ?off) ts))"
      by (subst split, simp only: map_append concat_append)
    have "0 < length ?page" using False by auto
    have "set (drop (nat ?off) ts) \<subseteq> set ?rest" unfolding drop by (rule set_drop_subset)
    with Suc.prems(4) have "list_all (holds kids visited) (drop (nat ?off) ts)"
      unfolding list_all_iff by (meson subsetD)
    moreover have "length (drop (nat ?off) ts) + sum_list (map tree_cost (drop (nat ?off) ts)) < fuel"
      using Suc.prems(5) sums costs \<open>0 < length ?page\<close> by linarith
    moreover have "0 \<le> ?off" using Suc.prems(3) by simp
    ultimately have "\<exists>s'. scan_pages fuel sv folder prefix rp visited ?off (acc @ concat (map (flat prefix rp) ?page)) s2 =
        (Inr ((acc @ concat (map (flat prefix rp) ?page)) @ concat (map (flat prefix rp) (drop (nat ?off) ts))), s') \<and>
      alive p d s' \<and> sc_seen s' = sc_seen s2 @ concat (map (flat prefix rp) (drop (nat ?off) ts))"
      by (intro Suc.IH [OF s2(2) Suc.prems(2)])
    then show ?thesis
      unfolding step if_not_P [OF False] files s2(3) s1(3) by (simp only: append_assoc)
  qed
qed simp

section \<open>A scan ends\<close>

text \<open>Whatever the folders contain, cycles included: a folder is not entered twice on one path.\<close>

lemma scan_items_fuel:
  assumes "\<And>n q rp s. n \<in> set items \<Longrightarrow> alive p d s \<Longrightarrow>
      fst (sub n q rp s) \<noteq> Inl OutOfFuel \<and> alive p d (snd (sub n q rp s))"
    and "alive p d s"
  shows "fst (scan_items sub q rp items s) \<noteq> Inl OutOfFuel \<and> alive p d (snd (scan_items sub q rp items s))"
  using assms
proof (induction items arbitrary: s)
  case (Cons n items)
  let ?m = "if n_is_dir n then sub n (path_join [q, n_name n]) (path_join [rp, n_name n])
      else (let f = remote_file n (path_join [q, n_name n]) (''/'' @ trim_left (path_join [rp, n_name n]) ''/'')
            in io_bind (emit f) (\<lambda>_. io_ret [f]))"
  obtain r s1 where m: "?m s = (r, s1)" by (cases "?m s")
  have ok: "r \<noteq> Inl OutOfFuel" "alive p d s1"
    using m Cons.prems(1) [of n s "path_join [q, n_name n]" "path_join [rp, n_name n]"] Cons.prems(2) by (auto simp: emit_def io_bind_def alive_def Let_def split: if_splits)
  have IH: "fst (scan_items sub q rp items s1) \<noteq> Inl OutOfFuel \<and> alive p d (snd (scan_items sub q rp items s1))"
    by (rule Cons.IH) (use Cons.prems ok in auto)
  have eq: "scan_items sub q rp (n # items) s =
      io_bind ?m (\<lambda>fs. io_bind (scan_items sub q rp items) (\<lambda>rest. io_ret (fs @ rest))) s"
    by (simp add: Let_def)
  show ?case
    unfolding eq using m ok IH by (auto simp: io_bind_def split: sum.splits prod.splits)
qed simp

text \<open>Only folders are handed to \<open>sub\<close>.\<close>

lemma scan_items_dirs:
  "scan_items sub q rp items = scan_items (\<lambda>n. if n_is_dir n then sub n else (\<lambda>_ _. io_ret [])) q rp items"
  by (induction items) (simp_all add: Let_def cong: if_cong)

lemma page_progress: "0 < l \<Longrightarrow> l \<le> n - k \<Longrightarrow> n - (k + l) < n - (k :: nat)"
  by linarith

lemma scan_pages_fuel:
  assumes pv: "lists_kids (sv_provider sv) kids p" and fin: "finite F"
    and F: "\<And>f n. n \<in> set (kids f) \<Longrightarrow> n_is_dir n \<Longrightarrow> n_id n \<in> F" and K: "\<And>f. length (kids f) \<le> K"
  shows "alive p d (s :: ('p, 'z) scan_state) \<Longrightarrow> 0 \<le> offset \<Longrightarrow>
    card (F - set visited) * (K + 1) + (length (kids folder) - nat offset) < fuel \<Longrightarrow>
    fst (scan_pages fuel sv folder prefix rp visited offset acc s) \<noteq> Inl OutOfFuel \<and>
    alive p d (snd (scan_pages fuel sv folder prefix rp visited offset acc s))"
proof (induction fuel arbitrary: s folder prefix rp visited offset acc)
  case (Suc fuel)
  let ?page = "take 1000 (drop (nat offset) (kids folder))"
  let ?sub = "\<lambda>item p rp. if n_id item \<in> set visited then io_fail (Msg ''folder cycle'')
      else (scan_pages fuel sv (n_id item) p rp (n_id item # visited) 0 [] :: (('p, 'z) scan_state, scan_file list) io)"
  obtain s1 where s1: "pacer_wait (sv_scan_interval sv) s = (Inr (), s1)" "alive p d s1"
    using pacer_wait_alive [OF Suc.prems(1)] by blast
  have list: "wrap_err ''scan'' (in_world (on_prov (pv_list_folder (sv_provider sv) folder offset page_size))) s1 =
      (Inr (?page, int (length (kids folder))), s1)"
    using list_folder_alive [OF s1(2) pv Suc.prems(2)] by (simp add: page_size_def)
  have sub: "fst (?sub n q rp s) \<noteq> Inl OutOfFuel \<and> alive p d (snd (?sub n q rp s))"
    if n: "n \<in> set ?page" "n_is_dir n" and s: "alive p d s" for n q rp s
  proof (cases "n_id n \<in> set visited")
    case False
    have "n_id n \<in> F" using F [of n folder] n by (meson in_set_dropD in_set_takeD)
    then have "n_id n \<in> F - set visited" using False by simp
    then have "card (F - set (n_id n # visited)) < card (F - set visited)"
      using fin by (intro psubset_card_mono) auto
    then have "card (F - set (n_id n # visited)) * (K + 1) + (K + 1) \<le> card (F - set visited) * (K + 1)"
      by (metis Suc_leI add.commute mult_Suc mult_le_mono1)
    then have "card (F - set (n_id n # visited)) * (K + 1) + (length (kids (n_id n)) - nat 0) < fuel"
      using Suc.prems(3) K [of "n_id n"] by simp
    with Suc.IH [OF s _ this] False show ?thesis by simp
  qed (use s in simp)
  have dirs: "scan_items ?sub prefix rp ?page = scan_items (\<lambda>n. if n_is_dir n then ?sub n else (\<lambda>_ _. io_ret [])) prefix rp ?page"
    by (rule scan_items_dirs)
  have "fst (scan_items ?sub prefix rp ?page s1) \<noteq> Inl OutOfFuel \<and> alive p d (snd (scan_items ?sub prefix rp ?page s1))"
    by (subst dirs, subst dirs, rule scan_items_fuel) (use sub s1(2) in auto)
  moreover obtain r s2 where "scan_items ?sub prefix rp ?page s1 = (r, s2)"
    by (cases "scan_items ?sub prefix rp ?page s1")
  ultimately have s2: "scan_items ?sub prefix rp ?page s1 = (r, s2)" "r \<noteq> Inl OutOfFuel" "alive p d s2" by simp_all
  let ?off = "offset + int (length ?page)"
  have step: "scan_pages (Suc fuel) sv folder prefix rp visited offset acc s =
      (case r of Inl e \<Rightarrow> (Inl e, s2) | Inr fs \<Rightarrow>
        if ?page = [] \<or> ?off \<ge> int (length (kids folder)) then (Inr (acc @ fs), s2)
        else scan_pages fuel sv folder prefix rp visited ?off (acc @ fs) s2)"
    by (rule scan_pages_step [OF s1(1) list s2(1)])
  show ?case
  proof (cases "(\<exists>e. r = Inl e) \<or> ?page = [] \<or> ?off \<ge> int (length (kids folder))")
    case True
    then show ?thesis unfolding step using s2 by (auto split: sum.splits)
  next
    case False
    then have nc: "\<not> (?page = [] \<or> ?off \<ge> int (length (kids folder)))" by blast
    from False obtain fs where r: "r = Inr fs" by (cases r) auto
    have "0 < length ?page" using False by auto
    moreover have "nat ?off = nat offset + length ?page" using Suc.prems(2) by simp
    moreover have "length ?page \<le> length (kids folder) - nat offset" by simp
    ultimately have "length (kids folder) - nat ?off < length (kids folder) - nat offset"
      using page_progress by (simp only:)
    then have "card (F - set visited) * (K + 1) + (length (kids folder) - nat ?off) < fuel"
      using Suc.prems(3) by linarith
    then have IH: "fst (scan_pages fuel sv folder prefix rp visited ?off (acc @ fs) s2) \<noteq> Inl OutOfFuel \<and>
        alive p d (snd (scan_pages fuel sv folder prefix rp visited ?off (acc @ fs) s2))"
      by (intro Suc.IH [OF s2(3)]) (use Suc.prems(2) in auto)
    have "scan_pages (Suc fuel) sv folder prefix rp visited offset acc s =
        scan_pages fuel sv folder prefix rp visited ?off (acc @ fs) s2"
      by (simp only: step r sum.case nc if_False)
    with IH show ?thesis by metis
  qed
qed simp

section \<open>The properties\<close>

lemma scan_task_result_folder:
  assumes pv: "lists_kids (sv_provider sv) kids (w_prov w)"
    and top: "pv_folder_info (sv_provider sv) (t_result_id t) (w_prov w) = (Inr n, w_prov w)"
    and tree: "holds kids [] (Folder n ts)" and fuel: "tree_cost (Folder n ts) \<le> fuel" and ctx: "w_ctx w = None"
  shows "\<exists>w'. scan_task_result fuel sv t w =
    (Inr (sort_files (concat (map (flat '''' (remote_path (n_parents n) (n_name n))) ts)), n_name n),
     concat (map (flat '''' (remote_path (n_parents n) (n_name n))) ts), w') \<and> w_prov w' = w_prov w \<and> w_db w' = w_db w"
proof -
  let ?s = "\<lparr>sc_world = w, sc_last = None, sc_seen = []\<rparr>"
  let ?rp = "remote_path (n_parents n) (n_name n)"
  have "alive (w_prov w) (w_db w) ?s" using ctx by (simp add: alive_def)
  from pacer_wait_alive [OF this] obtain s1 where s1: "pacer_wait (sv_scan_interval sv) ?s = (Inr (), s1)"
    "alive (w_prov w) (w_db w) s1" "sc_seen s1 = []" by auto
  have info: "wrap_err ''read result'' (in_world (on_prov (pv_folder_info (sv_provider sv) (t_result_id t)))) s1 = (Inr n, s1)"
    using s1(2) top by (simp add: wrap_err_def in_world_def on_prov_def alive_def)
  have k: "kids (n_id n) = map node_of ts" "list_all (holds kids [n_id n]) (drop (nat 0) ts)" "n_is_dir n"
    using tree by simp_all
  have "length (drop (nat 0) ts) + sum_list (map tree_cost (drop (nat 0) ts)) < fuel" using fuel by simp
  with scan_pages_tree [OF pv s1(2) k(1) order.refl k(2), of fuel "''''" ?rp "[]"]
  have "\<exists>s2. scan_pages fuel sv (n_id n) '''' ?rp [n_id n] 0 [] s1 = (Inr (concat (map (flat '''' ?rp) ts)), s2) \<and>
      alive (w_prov w) (w_db w) s2 \<and> sc_seen s2 = concat (map (flat '''' ?rp) ts)"
    using s1(3) by simp
  then obtain s2 where s2: "scan_pages fuel sv (n_id n) '''' ?rp [n_id n] 0 [] s1 = (Inr (concat (map (flat '''' ?rp) ts)), s2)"
      "alive (w_prov w) (w_db w) s2" "sc_seen s2 = concat (map (flat '''' ?rp) ts)"
    by blast
  have "scan_result_in fuel sv t ?s = (Inr (sort_files (concat (map (flat '''' ?rp) ts)), n_name n), s2)"
    using s1(1) info k(3) s2(1) by (simp add: scan_result_in_def io_bind_Inr scan_folder_def)
  then show ?thesis using s2 by (simp add: scan_task_result_def alive_def)
qed

text \<open>C17. Scanning a folder returns exactly the files of its tree: every file once, below the path of its folders and
  with its cloud path, sorted by path, and the callback sees each of them. The pages of a folder join without a gap
  or an overlap, whatever its size, and the fuel the theorem asks for is the size of the tree.\<close>

theorem scan_returns_tree:
  assumes "lists_kids (sv_provider sv) kids (w_prov w)"
    and "pv_folder_info (sv_provider sv) (t_result_id t) (w_prov w) = (Inr n, w_prov w)"
    and "holds kids [] (Folder n ts)" and "tree_cost (Folder n ts) \<le> fuel" and "w_ctx w = None"
  shows "\<exists>fs w'. scan_task_result fuel sv t w = (Inr (sort_files fs, n_name n), fs, w') \<and>
    fs = concat (map (flat '''' (remote_path (n_parents n) (n_name n))) ts) \<and>
    mset (sort_files fs) = mset fs \<and> sorted (map f_relative_path (sort_files fs)) \<and>
    w_prov w' = w_prov w \<and> w_db w' = w_db w"
  using scan_task_result_folder [OF assms] by (auto simp: sort_files_def)

definition sample_node :: "string \<Rightarrow> string \<Rightarrow> bool \<Rightarrow> remote_node" where
  "sample_node i name dir = \<lparr>n_id = i, n_parent_id = '''', n_name = name, n_sha1 = ''AB'', n_size_bytes = 7,
     n_pick_code = ''p'', n_is_dir = dir, n_created_at = 0, n_updated_at = 0, n_parents = []\<rparr>"

definition sample_kids :: "string \<Rightarrow> remote_node list" where
  "sample_kids i = (if i = ''r'' then [sample_node ''s'' ''sub'' True, sample_node ''a'' ''a.mkv'' False]
     else if i = ''s'' then [sample_node ''b'' ''b.mkv'' False]
     else if i = ''loop'' then [sample_node ''loop'' ''again'' True] else [])"

definition sample_scan_service :: "unit service" where
  "sample_scan_service = \<lparr>sv_provider =
     \<lparr>pv_list_offline = (\<lambda>_. io_ret ([], 0)), pv_add_offline = (\<lambda>_ _. io_ret []), pv_delete_offline = (\<lambda>_ _. io_ret ()),
      pv_folder_info = (\<lambda>_. io_ret (sample_node ''r'' ''Show'' True)),
      pv_list_folder = (\<lambda>i offset limit. io_ret
        (take (nat limit) (drop (nat offset) (sample_kids i)), int (length (sample_kids i)))),
      pv_quota = None, pv_available = None, pv_delete_file = None, pv_recycle_bin = None, pv_read_nfo = None\<rparr>,
     sv_work_dir = ''w'', sv_poll_interval = 0, sv_poll_min = 0, sv_poll_max = 0, sv_scan_interval = 5, sv_strm = None\<rparr>"

lemma sample_lists_kids: "lists_kids (sv_provider sample_scan_service) sample_kids ()"
  by (simp add: lists_kids_def sample_scan_service_def)

lemma scan_returns_tree_witness:
  "\<exists>w'. scan_task_result 9 sample_scan_service empty_task (new_world ()) =
    (Inr (map (\<lambda>(n, p). remote_file n p (''/Show/'' @ p))
        [(sample_node ''a'' ''a.mkv'' False, ''a.mkv''), (sample_node ''b'' ''b.mkv'' False, ''sub/b.mkv'')], ''Show''),
     map (\<lambda>(n, p). remote_file n p (''/Show/'' @ p))
        [(sample_node ''b'' ''b.mkv'' False, ''sub/b.mkv''), (sample_node ''a'' ''a.mkv'' False, ''a.mkv'')], w')"
proof -
  let ?ts = "[Folder (sample_node ''s'' ''sub'' True) [File_Leaf (sample_node ''b'' ''b.mkv'' False)],
    File_Leaf (sample_node ''a'' ''a.mkv'' False)]"
  let ?fs = "concat (map (flat '''' (remote_path (n_parents (sample_node ''r'' ''Show'' True))
    (n_name (sample_node ''r'' ''Show'' True)))) ?ts)"
  have h: "holds sample_kids [] (Folder (sample_node ''r'' ''Show'' True) ?ts)"
    "tree_cost (Folder (sample_node ''r'' ''Show'' True) ?ts) \<le> 9"
    "pv_folder_info (sv_provider sample_scan_service) (t_result_id empty_task) (w_prov (new_world ())) =
      (Inr (sample_node ''r'' ''Show'' True), w_prov (new_world ()))"
    by code_simp+
  have fs: "?fs = map (\<lambda>(n, p). remote_file n p (''/Show/'' @ p))
        [(sample_node ''b'' ''b.mkv'' False, ''sub/b.mkv''), (sample_node ''a'' ''a.mkv'' False, ''a.mkv'')]"
    by code_simp
  have st: "sort_files ?fs = map (\<lambda>(n, p). remote_file n p (''/Show/'' @ p))
        [(sample_node ''a'' ''a.mkv'' False, ''a.mkv''), (sample_node ''b'' ''b.mkv'' False, ''sub/b.mkv'')]"
    by code_simp
  have name: "n_name (sample_node ''r'' ''Show'' True) = ''Show''" and "w_ctx (new_world ()) = None"
    and "lists_kids (sv_provider sample_scan_service) sample_kids (w_prov (new_world ()))"
    by (simp_all add: sample_node_def new_world_def sample_lists_kids)
  from scan_returns_tree [OF this(3) h(3) h(1,2) this(2)]
  have "\<exists>w'. scan_task_result 9 sample_scan_service empty_task (new_world ()) =
      (Inr (sort_files ?fs, n_name (sample_node ''r'' ''Show'' True)), ?fs, w')" by blast
  then show ?thesis unfolding st unfolding fs unfolding name .
qed

text \<open>A scan ends on every cloud, also one whose folders contain each other: where the folders are finitely many
  (\<open>F\<close>) and none lists more than \<open>K\<close> entries, \<open>(card F + 1) * (K + 1)\<close> pages are never exceeded, because no folder is
  entered twice on one path.\<close>

lemma scan_folder_ends:
  assumes "lists_kids (sv_provider sv) kids (w_prov (sc_world s))" and "finite F"
    and "\<And>f n. n \<in> set (kids f) \<Longrightarrow> n_is_dir n \<Longrightarrow> n_id n \<in> F" and "\<And>f. length (kids f) \<le> K"
    and "(card F + 1) * (K + 1) \<le> fuel" and "w_ctx (sc_world s) = None"
  shows "fst (scan_folder fuel sv folder prefix rp visited s) \<noteq> Inl OutOfFuel"
proof (cases "folder \<in> set visited")
  case False
  have "card (F - set (folder # visited)) \<le> card F" using assms(2) by (simp add: card_mono)
  then have "card (F - set (folder # visited)) * (K + 1) \<le> card F * (K + 1)"
    by (rule mult_le_mono1)
  moreover have "card F * (K + 1) + (K + 1) \<le> fuel" using assms(5) by simp
  ultimately have "card (F - set (folder # visited)) * (K + 1) + (length (kids folder) - nat 0) < fuel"
    using assms(4) [of folder] by linarith
  moreover have "alive (w_prov (sc_world s)) (w_db (sc_world s)) s" using assms(6) by (simp add: alive_def)
  ultimately have "fst (scan_pages fuel sv folder prefix rp (folder # visited) 0 [] s) \<noteq> Inl OutOfFuel \<and>
      alive (w_prov (sc_world s)) (w_db (sc_world s)) (snd (scan_pages fuel sv folder prefix rp (folder # visited) 0 [] s))"
    by (intro scan_pages_fuel [OF assms(1-4)]) auto
  then show ?thesis using False by (simp add: scan_folder_def)
qed (simp add: scan_folder_def)

text \<open>The witness scans a folder that contains itself.\<close>

end
