(* ===== verification/Scan_Store.thy ===== *)
theory Scan_Store
  imports Job_Store Library_Paths Go_Numbers "HOL-Library.List_Lexorder" "HOL-Library.Char_ord"
begin

text \<open>
  The result half of \<open>internal/storage/sqlite/ingest.go\<close>: what the database keeps of an offline task
  (\<open>SaveTask\<close>), of a scan (\<open>SaveScan\<close>), which STRM files were written (\<open>MarkSTRMSeeded\<close>) and how a
  result is read back. Each operation is the statement sequence of the method; the checks of the
  schema that a statement can fail are error branches, and everything under \<open>tx\<close> rolls back.
\<close>

section \<open>Artifacts\<close>

definition artifact_fill :: "string \<Rightarrow> string \<Rightarrow> string" where
  "artifact_fill new old = (if new \<noteq> '''' then new else old)"

definition update_artifact :: "task \<Rightarrow> string \<Rightarrow> int \<Rightarrow> artifact_row \<Rightarrow> artifact_row" where
  "update_artifact t result now a = a\<lparr>ar_result_remote_id := artifact_fill result (ar_result_remote_id a),
     ar_delete_file_id := artifact_fill (t_delete_file_id t) (ar_delete_file_id a),
     ar_work_dir_remote_id := artifact_fill (t_wp_path_id t) (ar_work_dir_remote_id a),
     ar_state := Active, ar_verified_at := Some now, ar_deleted_at := None, ar_deletion_error := '''',
     ar_updated_at := now\<rparr>"

definition new_artifact :: "int \<Rightarrow> int \<Rightarrow> task \<Rightarrow> string \<Rightarrow> int \<Rightarrow> int \<Rightarrow> artifact_row" where
  "new_artifact torrent_id task_id t result now i =
     \<lparr>ar_id = i, ar_torrent_id = torrent_id, ar_task_id = Some task_id, ar_provider = ''p115'',
      ar_result_remote_id = result, ar_delete_file_id = t_delete_file_id t,
      ar_work_dir_remote_id = t_wp_path_id t, ar_state = Active, ar_last_accessed_at = None,
      ar_verified_at = Some now, ar_deleted_at = None, ar_deletion_error = '''', ar_created_at = now,
      ar_updated_at = now\<rparr>"

definition upsert_managed_artifact :: "int \<Rightarrow> int \<Rightarrow> task \<Rightarrow> string \<Rightarrow> int \<Rightarrow> (db, int) io" where
  "upsert_managed_artifact torrent_id task_id t result_id now = (\<lambda>d.
     let result = (if result_id = '''' then t_result_id t else result_id)
     in case find (\<lambda>a. ar_task_id a = Some task_id) (artifacts d) of
          Some a \<Rightarrow> (Inr (ar_id a), d\<lparr>artifacts :=
            update_rows (\<lambda>x. ar_id x = ar_id a) (update_artifact t result now) (artifacts d)\<rparr>)
        | None \<Rightarrow>
            (let i = next_id ar_id (artifacts d)
             in (Inr i, d\<lparr>artifacts := artifacts d @ [new_artifact torrent_id task_id t result now i]\<rparr>)))"

text \<open>Deleting artifact rows deletes their locations (\<open>ON DELETE CASCADE\<close>).\<close>

definition delete_artifacts :: "(artifact_row \<Rightarrow> bool) \<Rightarrow> db \<Rightarrow> db" where
  "delete_artifacts P d =
     (let gone = set (map ar_id (filter P (artifacts d)))
      in d\<lparr>artifacts := filter (\<lambda>a. \<not> P a) (artifacts d),
           locations := filter (\<lambda>l. case lo_artifact_id l of None \<Rightarrow> True | Some i \<Rightarrow> i \<notin> gone) (locations d)\<rparr>)"

section \<open>SaveTask\<close>

definition progress_ok :: "task \<Rightarrow> bool" where
  "progress_ok t = (0 \<le> t_progress t \<and> t_progress t \<le> 100)"

definition provider_row :: "task \<Rightarrow> task_row \<Rightarrow> task_row" where
  "provider_row t r = r\<lparr>tk_prov_status := t_status t, tk_prov_update := t_last_update t,
     tk_prov_progress := t_progress t\<rparr>"

type_synonym task_torrent = "string \<times> string \<times> string \<times> int \<times> int"

definition task_torrent_mk :: "task_torrent \<Rightarrow> int \<Rightarrow> torrent_row" where
  "task_torrent_mk a i = (case a of (h, m, name, bytes, now) \<Rightarrow>
     \<lparr>tr_id = i, tr_info_hash = h, tr_magnet_uri = m, tr_display_name = name, tr_total_bytes = bytes,
      tr_file_count = 0, tr_strm_root = '''', tr_created_at = now, tr_updated_at = now, tr_scanned_at = None\<rparr>)"

definition task_torrent_upd :: "task_torrent \<Rightarrow> torrent_row \<Rightarrow> torrent_row" where
  "task_torrent_upd a t = (case a of (h, m, name, bytes, now) \<Rightarrow>
     t\<lparr>tr_magnet_uri := m, tr_display_name := (if name \<noteq> '''' then name else tr_display_name t),
       tr_total_bytes := (if bytes > 0 then bytes else tr_total_bytes t), tr_updated_at := now\<rparr>)"

interpretation tt: keyed_table tr_id tr_info_hash task_torrent_upd task_torrent_mk fst
  by unfold_locales (auto simp: task_torrent_upd_def task_torrent_mk_def split: prod.splits)

definition direct_gid :: "string \<Rightarrow> string" where
  "direct_gid h = ''direct-'' @ to_lower h"

text \<open>The task the status belongs to: the job's, or the newest of the torrent.\<close>

definition status_task :: "db \<Rightarrow> task \<Rightarrow> int option" where
  "status_task d t =
     (if t_job_gid t \<noteq> '''' then map_option tk_id (task_by_gid d (t_job_gid t))
      else (case rev (sort (map tk_id (filter (\<lambda>r.
               map_option tr_info_hash (torrent_by_id d (tk_torrent_id r)) = Some (to_lower (t_info_hash t))) (tasks d)))) of
             [] \<Rightarrow> None | i # _ \<Rightarrow> Some i))"

definition direct_task_row :: "string \<Rightarrow> string \<Rightarrow> job_state \<Rightarrow> task \<Rightarrow> int \<Rightarrow> int option \<Rightarrow> int \<Rightarrow> int \<Rightarrow> task_row" where
  "direct_task_row gid magnet_uri state t created finished torrent_id i =
     \<lparr>tk_id = i, tk_torrent_id = torrent_id, tk_gid = gid, tk_source = ''direct'', tk_magnet_uri = magnet_uri,
      tk_state = state, tk_error = '''', tk_prov_status = t_status t, tk_prov_update = t_last_update t,
      tk_prov_progress = t_progress t, tk_created_at = created, tk_started_at = None, tk_finished_at = finished\<rparr>"

definition save_task_status :: "string \<Rightarrow> task \<Rightarrow> int \<Rightarrow> (db, unit) io" where
  "save_task_status magnet_uri t now = (\<lambda>d.
     case status_task d t of
       Some i \<Rightarrow>
         if progress_ok t
         then (Inr (), d\<lparr>tasks := update_rows (\<lambda>r. tk_id r = i) (provider_row t) (tasks d)\<rparr>)
         else (Inl (Wrap ''save task status'' (Constraint ''tasks.provider_task_progress'')), d)
     | None \<Rightarrow>
         if t_job_gid t \<noteq> '''' then (Inr (), d)
         else if \<not> progress_ok t then (Inl (Constraint ''tasks.provider_task_progress''), d)
         else
           (let gid = direct_gid (t_info_hash t)
            in if gid \<in> tk_gid ` set (tasks d)
               then (Inr (), d\<lparr>tasks := update_rows (\<lambda>r. tk_gid r = gid) (provider_row t) (tasks d)\<rparr>)
               else (case torrent_by_hash d (to_lower (t_info_hash t)) of
                   None \<Rightarrow> (Inr (), d)
                 | Some q \<Rightarrow> insert_task (direct_task_row gid magnet_uri Running t now None (tr_id q)
                     (next_id tk_id (tasks d))) d)))"

definition save_task_artifact :: "task \<Rightarrow> int \<Rightarrow> (db, unit) io" where
  "save_task_artifact t now = (\<lambda>d.
     if t_result_id t \<noteq> '''' \<or> t_delete_file_id t \<noteq> '''' \<or> t_wp_path_id t \<noteq> '''' then
       (let gid = (if t_job_gid t = '''' then direct_gid (t_info_hash t) else t_job_gid t)
        in case task_by_gid d gid of
             None \<Rightarrow> (Inl ErrNoRows, d)
           | Some r \<Rightarrow> io_bind (upsert_managed_artifact (tk_torrent_id r) (tk_id r) t (t_result_id t) now)
               (\<lambda>_. io_ret ()) d)
     else (Inr (), d))"

definition save_task :: "timestamp \<Rightarrow> string \<Rightarrow> task \<Rightarrow> (db, unit) io" where
  "save_task time magnet_uri t = tx (\<lambda>d.
     let now = format_time time; h = to_lower (t_info_hash t)
     in if \<not> hash_check h \<or> t_size_bytes t < 0 then (Inl (Wrap ''save task'' (Constraint ''torrents'')), d)
        else io_bind (save_task_status magnet_uri t now) (\<lambda>_. save_task_artifact t now)
          (d\<lparr>torrents := upsert tr_id (\<lambda>q. tr_info_hash q = h)
              (task_torrent_upd (h, magnet_uri, t_name t, t_size_bytes t, now))
              (task_torrent_mk (h, magnet_uri, t_name t, t_size_bytes t, now)) (torrents d)\<rparr>))"

section \<open>The directory of a torrent\<close>

definition strm_candidate :: "string \<Rightarrow> string \<Rightarrow> nat \<Rightarrow> string" where
  "strm_candidate preferred short_hash n =
     (if n = 2 then preferred @ '' ['' @ short_hash @ '']''
      else if n > 2 then preferred @ '' ['' @ short_hash @ ''-'' @ decimal n @ '']''
      else preferred)"

text \<open>The loop of \<open>availableSTRMRoot\<close>; more candidates than torrents are never tried.\<close>

fun strm_root_from :: "nat \<Rightarrow> string set \<Rightarrow> string \<Rightarrow> string \<Rightarrow> nat \<Rightarrow> string option" where
  "strm_root_from 0 taken preferred short_hash n = None"
| "strm_root_from (Suc fuel) taken preferred short_hash n =
     (if strm_candidate preferred short_hash n \<in> taken then strm_root_from fuel taken preferred short_hash (Suc n)
      else Some (strm_candidate preferred short_hash n))"

definition available_strm_root :: "string \<Rightarrow> string \<Rightarrow> db \<Rightarrow> string option" where
  "available_strm_root preferred info_hash d =
     strm_root_from (Suc (length (torrents d))) (tr_strm_root ` set (torrents d)) preferred (take 8 info_hash) 1"

definition preferred_strm_root :: "scan_result \<Rightarrow> task \<Rightarrow> string" where
  "preferred_strm_root r t =
     (let p1 = safe_library_name (t_name t);
          p2 = (if p1 = '''' then safe_library_name (r_name r) else p1);
          p3 = (if p2 = '''' then r_info_hash r else p2);
          category = safe_library_name (t_category t)
      in if category \<noteq> '''' then path_join [category, p3] else p3)"

section \<open>SaveScan\<close>

definition scan_torrent_mk :: "scan_result \<times> int \<Rightarrow> int \<Rightarrow> torrent_row" where
  "scan_torrent_mk a i = (case a of (r, now) \<Rightarrow>
     \<lparr>tr_id = i, tr_info_hash = r_info_hash r, tr_magnet_uri = r_magnet_uri r, tr_display_name = r_name r,
      tr_total_bytes = r_total_bytes r, tr_file_count = int (length (r_files r)), tr_strm_root = '''',
      tr_created_at = now, tr_updated_at = now, tr_scanned_at = Some (format_time (r_scanned_at r))\<rparr>)"

definition scan_torrent_upd :: "scan_result \<times> int \<Rightarrow> torrent_row \<Rightarrow> torrent_row" where
  "scan_torrent_upd a t = (case a of (r, now) \<Rightarrow>
     t\<lparr>tr_magnet_uri := r_magnet_uri r, tr_display_name := r_name r, tr_total_bytes := r_total_bytes r,
       tr_file_count := int (length (r_files r)), tr_updated_at := now,
       tr_scanned_at := Some (format_time (r_scanned_at r))\<rparr>)"

interpretation st: keyed_table tr_id tr_info_hash scan_torrent_upd scan_torrent_mk "\<lambda>a. r_info_hash (fst a)"
  by unfold_locales (auto simp: scan_torrent_upd_def scan_torrent_mk_def split: prod.splits)

text \<open>The task of the scan: the job's, or the torrent's own \<open>direct\<close> task, which is made if need be.\<close>

definition scan_task :: "scan_result \<Rightarrow> task \<Rightarrow> int \<Rightarrow> int \<Rightarrow> (db, int) io" where
  "scan_task r t torrent_id now = (\<lambda>d.
     if t_job_gid t \<noteq> '''' then
       (case task_by_gid d (t_job_gid t) of
         None \<Rightarrow> (Inl ErrNoRows, d)
       | Some q \<Rightarrow>
           if progress_ok t
           then (Inr (tk_id q), d\<lparr>tasks := update_rows (\<lambda>x. tk_gid x = t_job_gid t) (provider_row t) (tasks d)\<rparr>)
           else (Inl (Constraint ''tasks.provider_task_progress''), d))
     else if \<not> progress_ok t then (Inl (Constraint ''tasks.provider_task_progress''), d)
     else
       (let gid = direct_gid (r_info_hash r)
        in case task_by_gid d gid of
             Some q \<Rightarrow> (Inr (tk_id q), d\<lparr>tasks := update_rows (\<lambda>x. tk_gid x = gid)
               (\<lambda>x. (provider_row t x)\<lparr>tk_state := Succeeded, tk_finished_at := Some now\<rparr>) (tasks d)\<rparr>)
           | None \<Rightarrow>
               (let i = next_id tk_id (tasks d)
                in io_bind (insert_task (direct_task_row gid (r_magnet_uri r) Succeeded t now (Some now) torrent_id i))
                     (\<lambda>_. io_ret i) d)))"

definition choose_strm_root :: "scan_result \<Rightarrow> task \<Rightarrow> torrent_row \<Rightarrow> (db, string) io" where
  "choose_strm_root r t q = (\<lambda>d.
     if tr_strm_root q \<noteq> '''' then (Inr (tr_strm_root q), d)
     else case available_strm_root (preferred_strm_root r t) (r_info_hash r) d of
            None \<Rightarrow> (Inl OutOfFuel, d)
          | Some base \<Rightarrow> (Inr base, d\<lparr>torrents :=
              update_rows (\<lambda>x. tr_id x = tr_id q) (\<lambda>x. x\<lparr>tr_strm_root := base\<rparr>) (torrents d)\<rparr>))"

definition content_mk :: "scan_file \<times> int \<Rightarrow> int \<Rightarrow> content_row" where
  "content_mk a i = (case a of (f, now) \<Rightarrow>
     \<lparr>co_id = i, co_sha1 = to_lower (f_sha1 f), co_size_bytes = f_size_bytes f, co_preferred_name = f_name f,
      co_last_accessed_at = None, co_created_at = now, co_updated_at = now\<rparr>)"

definition content_upd :: "scan_file \<times> int \<Rightarrow> content_row \<Rightarrow> content_row" where
  "content_upd a c = (case a of (f, now) \<Rightarrow>
     c\<lparr>co_preferred_name := (if co_preferred_name c = '''' then f_name f else co_preferred_name c),
       co_updated_at := now\<rparr>)"

interpretation ct: keyed_table co_id co_sha1 content_upd content_mk "\<lambda>a. to_lower (f_sha1 (fst a))"
  by unfold_locales (auto simp: content_upd_def content_mk_def split: prod.splits)

definition content_by_sha1 :: "db \<Rightarrow> string \<Rightarrow> content_row option" where
  "content_by_sha1 d s = find (\<lambda>c. co_sha1 c = s) (contents d)"

definition upsert_content :: "scan_file \<Rightarrow> int \<Rightarrow> (db, int) io" where
  "upsert_content f now = (\<lambda>d.
     let s = to_lower (f_sha1 f)
     in if length s \<noteq> 40 \<or> f_size_bytes f < 0 then (Inl (Wrap ''save content'' (Constraint ''content_objects'')), d)
        else
          (let d1 = d\<lparr>contents := upsert co_id (\<lambda>c. co_sha1 c = s) (content_upd (f, now)) (content_mk (f, now)) (contents d)\<rparr>
           in case content_by_sha1 d1 s of
                None \<Rightarrow> (Inl ErrNoRows, d1)
              | Some c \<Rightarrow> if co_size_bytes c \<noteq> f_size_bytes f then (Inl (Msg ''size mismatch''), d1)
                         else (Inr (co_id c), d1)))"

type_synonym location_arg = "int \<times> int \<times> int \<times> scan_file \<times> int"

definition location_mk :: "location_arg \<Rightarrow> int \<Rightarrow> location_row" where
  "location_mk a i = (case a of (content, torrent, artifact, f, now) \<Rightarrow>
     \<lparr>lo_id = i, lo_content_id = content, lo_torrent_id = Some torrent, lo_artifact_id = Some artifact,
      lo_provider = ''p115'', lo_remote_file_id = f_remote_id f, lo_remote_parent_id = f_parent_id f,
      lo_pick_code = f_pick_code f, lo_remote_path = f_remote_path f, lo_ownership = ManagedCache,
      lo_verified_at = Some now, lo_materialized_at = Some now, lo_deleted_at = None, lo_created_at = now,
      lo_updated_at = now\<rparr>)"

definition location_upd :: "location_arg \<Rightarrow> location_row \<Rightarrow> location_row" where
  "location_upd a l = (case a of (content, torrent, artifact, f, now) \<Rightarrow>
     l\<lparr>lo_content_id := content, lo_torrent_id := Some torrent, lo_artifact_id := Some artifact,
       lo_remote_parent_id := f_parent_id f, lo_pick_code := f_pick_code f, lo_remote_path := f_remote_path f,
       lo_verified_at := Some now, lo_deleted_at := None, lo_updated_at := now\<rparr>)"

definition location_key :: "location_row \<Rightarrow> string \<times> string" where
  "location_key l = (lo_provider l, lo_remote_file_id l)"

definition location_arg_key :: "location_arg \<Rightarrow> string \<times> string" where
  "location_arg_key a = (case a of (content, torrent, artifact, f, now) \<Rightarrow> (''p115'', f_remote_id f))"

interpretation lt: keyed_table lo_id location_key location_upd location_mk location_arg_key
  by unfold_locales
    (auto simp: location_upd_def location_mk_def location_key_def location_arg_key_def split: prod.splits)

text \<open>Another copy of the content that this torrent (or none) recorded is no longer live.\<close>

definition stale_location :: "int \<Rightarrow> int \<Rightarrow> scan_file \<Rightarrow> location_row \<Rightarrow> bool" where
  "stale_location torrent content f l =
     (lo_content_id l = content \<and> lo_provider l = ''p115'' \<and> lo_ownership l = ManagedCache \<and>
      lo_deleted_at l = None \<and> (lo_torrent_id l = Some torrent \<or> lo_torrent_id l = None) \<and>
      lo_remote_file_id l \<noteq> f_remote_id f)"

definition upsert_remote_location :: "int \<Rightarrow> int \<Rightarrow> int \<Rightarrow> scan_file \<Rightarrow> int \<Rightarrow> db \<Rightarrow> db" where
  "upsert_remote_location torrent artifact content f now d =
     (let ls = update_rows (stale_location torrent content f)
           (\<lambda>l. l\<lparr>lo_deleted_at := Some now, lo_updated_at := now\<rparr>) (locations d);
          a = (content, torrent, artifact, f, now)
      in d\<lparr>locations := upsert lo_id (\<lambda>l. location_key l = location_arg_key a) (location_upd a) (location_mk a) ls\<rparr>)"

type_synonym file_arg = "int \<times> int \<times> scan_file \<times> int"

definition torrent_file_mk :: "file_arg \<Rightarrow> int \<Rightarrow> torrent_file_row" where
  "torrent_file_mk a i = (case a of (torrent, content, f, now) \<Rightarrow>
     \<lparr>tf_id = i, tf_torrent_id = torrent, tf_content_id = content, tf_relative_path = f_relative_path f,
      tf_source_created_at = f_created_at f, tf_source_updated_at = f_updated_at f, tf_strm_seeded_at = None,
      tf_last_seen_at = now, tf_removed_at = None\<rparr>)"

definition torrent_file_upd :: "file_arg \<Rightarrow> torrent_file_row \<Rightarrow> torrent_file_row" where
  "torrent_file_upd a x = (case a of (torrent, content, f, now) \<Rightarrow>
     x\<lparr>tf_strm_seeded_at := (if tf_content_id x = content then tf_strm_seeded_at x else None),
       tf_content_id := content, tf_source_created_at := f_created_at f, tf_source_updated_at := f_updated_at f,
       tf_last_seen_at := now, tf_removed_at := None\<rparr>)"

definition file_key :: "torrent_file_row \<Rightarrow> int \<times> string" where
  "file_key x = (tf_torrent_id x, tf_relative_path x)"

definition file_arg_key :: "file_arg \<Rightarrow> int \<times> string" where
  "file_arg_key a = (case a of (torrent, content, f, now) \<Rightarrow> (torrent, f_relative_path f))"

interpretation ft: keyed_table tf_id file_key torrent_file_upd torrent_file_mk file_arg_key
  by unfold_locales
    (auto simp: torrent_file_upd_def torrent_file_mk_def file_key_def file_arg_key_def split: prod.splits)

definition upsert_torrent_file :: "int \<Rightarrow> int \<Rightarrow> scan_file \<Rightarrow> int \<Rightarrow> (db, scan_file) io" where
  "upsert_torrent_file torrent content f now = (\<lambda>d.
     let a = (torrent, content, f, now);
         fs = upsert tf_id (\<lambda>x. file_key x = file_arg_key a) (torrent_file_upd a) (torrent_file_mk a) (torrent_files d)
     in case find (\<lambda>x. file_key x = file_arg_key a) fs of
          None \<Rightarrow> (Inl ErrNoRows, d\<lparr>torrent_files := fs\<rparr>)
        | Some x \<Rightarrow> (Inr (f\<lparr>f_needs_strm := tf_strm_seeded_at x = None\<rparr>), d\<lparr>torrent_files := fs\<rparr>))"

fun save_files :: "int \<Rightarrow> int \<Rightarrow> int \<Rightarrow> scan_file list \<Rightarrow> (db, scan_file list) io" where
  "save_files torrent artifact now [] = io_ret []"
| "save_files torrent artifact now (f # fs) =
     io_bind (upsert_content f now) (\<lambda>content.
     io_bind (\<lambda>d. (Inr (), upsert_remote_location torrent artifact content f now d)) (\<lambda>_.
     io_bind (upsert_torrent_file torrent content f now) (\<lambda>f'.
     io_bind (save_files torrent artifact now fs) (\<lambda>fs'. io_ret (f' # fs')))))"

text \<open>An older artifact of the torrent that holds no live file and belongs to no unfinished task.\<close>

definition obsolete_artifact :: "int \<Rightarrow> int \<Rightarrow> db \<Rightarrow> artifact_row \<Rightarrow> bool" where
  "obsolete_artifact torrent artifact d a =
     (ar_torrent_id a = torrent \<and> ar_id a \<noteq> artifact \<and>
      \<not> list_ex (\<lambda>l. lo_artifact_id l = Some (ar_id a) \<and> lo_deleted_at l = None) (locations d) \<and>
      (case ar_task_id a of
         None \<Rightarrow> True
       | Some i \<Rightarrow> list_ex (\<lambda>r. tk_id r = i \<and> tk_state r \<in> {Succeeded, Failed, Canceled}) (tasks d)))"

text \<open>What happens once the torrent \<open>q\<close> of the result is known.\<close>

definition save_scan_rows :: "int \<Rightarrow> scan_result \<Rightarrow> task \<Rightarrow> torrent_row \<Rightarrow> (db, scan_result) io" where
  "save_scan_rows now r t q =
     io_bind (scan_task r t (tr_id q) now) (\<lambda>task_id.
     io_bind (upsert_managed_artifact (tr_id q) task_id t (r_result_id r) now) (\<lambda>artifact.
     io_bind (choose_strm_root r t q) (\<lambda>base.
     io_bind (\<lambda>d. (Inr (), d\<lparr>torrent_files := update_rows
         (\<lambda>x. tf_torrent_id x = tr_id q \<and> tf_removed_at x = None)
         (\<lambda>x. x\<lparr>tf_removed_at := Some now\<rparr>) (torrent_files d)\<rparr>)) (\<lambda>_.
     io_bind (save_files (tr_id q) artifact now (r_files r)) (\<lambda>fs d.
       (Inr (r\<lparr>r_strm_root := base, r_files := fs\<rparr>),
        delete_artifacts (obsolete_artifact (tr_id q) artifact d) d))))))"

definition save_scan :: "timestamp \<Rightarrow> scan_result \<Rightarrow> task \<Rightarrow> (db, scan_result) io" where
  "save_scan time r t = tx (\<lambda>d.
     let now = format_time time
     in if \<not> hash_check (r_info_hash r) \<or> r_total_bytes r < 0 then (Inl (Wrap ''save magnet'' (Constraint ''torrents'')), d)
        else
          (let d1 = d\<lparr>torrents := upsert tr_id (\<lambda>q. tr_info_hash q = r_info_hash r)
                (scan_torrent_upd (r, now)) (scan_torrent_mk (r, now)) (torrents d)\<rparr>
           in case torrent_by_hash d1 (r_info_hash r) of
                None \<Rightarrow> (Inl ErrNoRows, d1)
              | Some q \<Rightarrow> save_scan_rows now r t q d1))"

section \<open>STRM bookkeeping and reading a result\<close>

fun mark_paths :: "int \<Rightarrow> string \<Rightarrow> string list \<Rightarrow> (db, unit) io" where
  "mark_paths now h [] = io_ret ()"
| "mark_paths now h (p # ps) = (\<lambda>d.
     let P = (\<lambda>x. map_option tr_id (torrent_by_hash d h) = Some (tf_torrent_id x) \<and> tf_relative_path x = p)
     in if count_rows P (torrent_files d) \<noteq> 1 then (Inl (Msg ''file not found''), d)
        else mark_paths now h ps
          (d\<lparr>torrent_files := update_rows P (\<lambda>x. x\<lparr>tf_strm_seeded_at := Some now\<rparr>) (torrent_files d)\<rparr>))"

definition mark_strm_seeded :: "timestamp \<Rightarrow> string \<Rightarrow> string list \<Rightarrow> (db, unit) io" where
  "mark_strm_seeded time info_hash paths =
     (if paths = [] then io_ret () else tx (mark_paths (format_time time) (to_lower info_hash) paths))"

text \<open>\<open>ORDER BY \<dots> DESC LIMIT 1\<close>.\<close>

definition newest :: "('r \<Rightarrow> 'k :: linorder) \<Rightarrow> 'r list \<Rightarrow> 'r option" where
  "newest key rows = (case rev (sort_key key rows) of [] \<Rightarrow> None | x # _ \<Rightarrow> Some x)"

definition artifact_rank :: "artifact_row \<Rightarrow> int list" where
  "artifact_rank a = [case ar_verified_at a of None \<Rightarrow> ar_created_at a | Some v \<Rightarrow> v, ar_id a]"

text \<open>A location that may serve a content: external, or of an active artifact. \<open>NULL\<close> sorts last.\<close>

definition usable_location :: "db \<Rightarrow> int \<Rightarrow> location_row \<Rightarrow> bool" where
  "usable_location d content l =
     (lo_content_id l = content \<and> lo_deleted_at l = None \<and>
      (lo_ownership l = External \<or>
       list_ex (\<lambda>a. lo_artifact_id l = Some (ar_id a) \<and> ar_state a = Active) (artifacts d)))"

definition location_rank :: "location_row \<Rightarrow> int list" where
  "location_rank l =
     [if lo_ownership l = External then 1 else 0,
      case lo_verified_at l of None \<Rightarrow> 0 | Some _ \<Rightarrow> 1,
      case lo_verified_at l of None \<Rightarrow> 0 | Some v \<Rightarrow> v, lo_id l]"

definition result_file :: "db \<Rightarrow> torrent_file_row \<Rightarrow> content_row \<Rightarrow> scan_file" where
  "result_file d x c =
     (let l = newest location_rank (filter (usable_location d (co_id c)) (locations d));
          part = (\<lambda>g. case l of None \<Rightarrow> '''' | Some l \<Rightarrow> g l)
      in \<lparr>f_relative_path = tf_relative_path x, f_strm_path = '''', f_name = co_preferred_name c, f_sha1 = co_sha1 c,
          f_size_bytes = co_size_bytes c, f_remote_id = part lo_remote_file_id, f_parent_id = part lo_remote_parent_id,
          f_remote_path = part lo_remote_path, f_pick_code = part lo_pick_code,
          f_created_at = tf_source_created_at x, f_updated_at = tf_source_updated_at x,
          f_needs_strm = tf_strm_seeded_at x = None\<rparr>)"

definition result_files :: "db \<Rightarrow> int \<Rightarrow> scan_file list" where
  "result_files d torrent =
     List.map_filter (\<lambda>x. map_option (result_file d x) (find (\<lambda>c. co_id c = tf_content_id x) (contents d)))
       (sort_key tf_relative_path (filter (\<lambda>x. tf_torrent_id x = torrent \<and> tf_removed_at x = None) (torrent_files d)))"

definition result_by_info_hash :: "string \<Rightarrow> (db, scan_result) io" where
  "result_by_info_hash info_hash = (\<lambda>d.
     (case torrent_by_hash d (to_lower info_hash) of
       None \<Rightarrow> Inl ErrNoRows
     | Some q \<Rightarrow> Inr
         \<lparr>r_name = tr_display_name q, r_info_hash = tr_info_hash q, r_magnet_uri = tr_magnet_uri q,
          r_result_id = (case newest artifact_rank (filter (\<lambda>a. ar_torrent_id a = tr_id q \<and> ar_state a = Active) (artifacts d)) of
              None \<Rightarrow> '''' | Some a \<Rightarrow> ar_result_remote_id a),
          r_reused_task = False, r_total_bytes = tr_total_bytes q,
          r_scanned_at = (case tr_scanned_at q of None \<Rightarrow> 0 | Some s \<Rightarrow> parse_time s),
          r_strm_root = tr_strm_root q, r_files = result_files d (tr_id q)\<rparr>, d))"

section \<open>Cleaning up\<close>

definition task_cleanup_info :: "string \<Rightarrow> (db, int \<times> string \<times> string) io" where
  "task_cleanup_info gid = (\<lambda>d.
     (case newest ar_id (filter (\<lambda>a. ar_provider a = ''p115'' \<and> ar_state a = Active \<and>
         list_ex (\<lambda>r. tk_gid r = gid \<and> ar_task_id a = Some (tk_id r)) (tasks d)) (artifacts d)) of
       None \<Rightarrow> Inl ErrJobNotFound
     | Some a \<Rightarrow> Inr (ar_id a, ar_delete_file_id a, ar_work_dir_remote_id a), d))"

definition mark_artifact_deleted :: "int \<Rightarrow> (db, unit) io" where
  "mark_artifact_deleted i = (\<lambda>d. (Inr (), if i = 0 then d else delete_artifacts (\<lambda>a. ar_id a = i) d))"

end
