(* ===== verification/Scan_Facts.thy ===== *)
theory Scan_Facts
  imports Scan_Store Job_Life
begin

text \<open>
  What saving an offline task or a scan keeps and establishes: the task tables stay consistent and
  no task of a job changes its state, the directory chosen for a torrent is free, and a saved scan
  reads back as exactly the scanned files.
\<close>

section \<open>Task tables\<close>

lemma jobs_ok_torrents:
  assumes "jobs_ok d" and "torrents_ok (d\<lparr>torrents := ts\<rparr>)" and "tr_id ` set (torrents d) \<subseteq> tr_id ` set ts"
  shows "jobs_ok (d\<lparr>torrents := ts\<rparr>)"
proof -
  have "tk_torrent_id ` set (tasks d) \<subseteq> tr_id ` set ts"
    using assms(1,3) unfolding jobs_ok_def tasks_ok_def by (meson subset_trans)
  then show ?thesis
    using assms(1,2) by (simp add: jobs_ok_def tasks_ok_def extensions_ok_def task_ids_def)
qed

lemma state_of_torrents [simp]: "state_of (d\<lparr>torrents := ts\<rparr>) = state_of d"
  by (rule state_of_tasks) simp

lemma task_by_gid_torrents [simp]: "task_by_gid (d\<lparr>torrents := ts\<rparr>) g = task_by_gid d g"
  by (simp add: task_by_gid_def)

lemma provider_update:
  assumes "jobs_ok d"
  shows "jobs_ok (d\<lparr>tasks := update_rows P (provider_row t) (tasks d)\<rparr>)"
    "state_of (d\<lparr>tasks := update_rows P (provider_row t) (tasks d)\<rparr>) g = state_of d g"
proof -
  have "active_unique (update_rows P (provider_row t) (tasks d))"
    using assms by (intro active_unique_update) (simp_all add: provider_row_def active_def jobs_ok_def tasks_ok_def)
  then show "jobs_ok (d\<lparr>tasks := update_rows P (provider_row t) (tasks d)\<rparr>)"
    using assms by (intro tasks_update_ok) (simp_all add: provider_row_def)
  have "state_of (d\<lparr>tasks := update_rows P (provider_row t) (tasks d)\<rparr>) g =
      map_option (\<lambda>r. tk_state (if P r then provider_row t r else r)) (task_by_gid d g)"
    by (rule update_rows_state) (simp add: provider_row_def)
  also have "(\<lambda>r. tk_state (if P r then provider_row t r else r)) = tk_state"
    by (auto simp: provider_row_def)
  finally show "state_of (d\<lparr>tasks := update_rows P (provider_row t) (tasks d)\<rparr>) g = state_of d g"
    by (simp add: state_of_def)
qed

lemma insert_task_ok:
  assumes "jobs_ok d" and "tk_torrent_id r \<in> tr_id ` set (torrents d)" and "tk_id r = next_id tk_id (tasks d)"
  shows "jobs_ok (snd (insert_task r d))"
proof (cases "tk_gid r \<in> tk_gid ` set (tasks d) \<or> tk_source r = '''' \<or> \<not> active_unique (tasks d @ [r])")
  case False
  have "tk_id r \<notin> tk_id ` set (tasks d)" using assms(3) next_id_fresh by metis
  then show ?thesis
    using False assms(1,2)
    by (simp add: insert_task_def jobs_ok_def tasks_ok_def extensions_ok_def task_ids_def torrents_ok_def subset_insertI2)
qed (use assms(1) in \<open>auto simp: insert_task_def\<close>)

lemma upsert_artifact_frame:
  "tasks (snd (upsert_managed_artifact a b t r now d)) = tasks d"
  "torrents (snd (upsert_managed_artifact a b t r now d)) = torrents d"
  "aria2_tasks (snd (upsert_managed_artifact a b t r now d)) = aria2_tasks d"
  "qbittorrent_tasks (snd (upsert_managed_artifact a b t r now d)) = qbittorrent_tasks d"
  "restore_tasks (snd (upsert_managed_artifact a b t r now d)) = restore_tasks d"
  "cli_tasks (snd (upsert_managed_artifact a b t r now d)) = cli_tasks d"
  "torrent_files (snd (upsert_managed_artifact a b t r now d)) = torrent_files d"
  "contents (snd (upsert_managed_artifact a b t r now d)) = contents d"
  "\<exists>i. fst (upsert_managed_artifact a b t r now d) = Inr i"
  by (simp_all add: upsert_managed_artifact_def Let_def split: option.splits)

lemma upsert_artifact_ok: "jobs_ok d \<Longrightarrow> jobs_ok (snd (upsert_managed_artifact a b t r now d))"
  by (erule jobs_ok_cong) (simp_all add: upsert_artifact_frame)

text \<open>The upserts of the torrents table.\<close>

lemma upsert_torrents_ok:
  assumes "keyed_table tr_id tr_info_hash upd mk key" and "torrents_ok d" and "hash_check (key a)"
  defines "d1 \<equiv> d\<lparr>torrents := upsert tr_id (\<lambda>q. tr_info_hash q = key a) (upd a) (mk a) (torrents d)\<rparr>"
  shows "torrents_ok d1" "tr_id ` set (torrents d) \<subseteq> tr_id ` set (torrents d1)"
    "\<exists>q. torrent_by_hash d1 (key a) = Some q \<and> q \<in> set (torrents d1)"
proof -
  note kt = keyed_table.upsert_ids [OF assms(1), of "torrents d" a]
    keyed_table.upsert_keys [OF assms(1), of "torrents d" a]
  have "hash_check (tr_info_hash q)" if "q \<in> set (torrents d1)" for q
    using keyed_table.upsert_set [OF assms(1), of q a "torrents d"] that assms(2,3)
      keyed_table.upd_key [OF assms(1)] keyed_table.mk_key [OF assms(1)]
    by (auto simp: d1_def torrents_ok_def)
  then show "torrents_ok d1" using kt assms(2) by (simp add: d1_def torrents_ok_def)
  show "tr_id ` set (torrents d) \<subseteq> tr_id ` set (torrents d1)"
    using keyed_table.upsert_id_mono [OF assms(1), of "torrents d" a] by (simp add: d1_def)
  have "torrent_by_hash d1 (key a) \<noteq> None"
    using keyed_table.upsert_find [OF assms(1), of "key a" a "torrents d"]
    by (simp add: d1_def torrent_by_hash_def)
  then obtain q where q: "torrent_by_hash d1 (key a) = Some q" by blast
  then show "\<exists>q. torrent_by_hash d1 (key a) = Some q \<and> q \<in> set (torrents d1)"
    using find_Some_set [of "\<lambda>q. tr_info_hash q = key a" "torrents d1" q] by (simp add: torrent_by_hash_def)
qed

text \<open>\<open>SaveTask\<close> keeps the tables and, for a job's task, every state.\<close>

lemma save_task_status_ok:
  assumes "jobs_ok d"
  shows "jobs_ok (snd (save_task_status m t now d))"
    "t_job_gid t \<noteq> '''' \<Longrightarrow> state_of (snd (save_task_status m t now d)) g = state_of d g"
proof -
  have q: "tr_id q \<in> tr_id ` set (torrents d)" if "torrent_by_hash d h = Some q" for h q
    using find_Some_set that by (fastforce simp: torrent_by_hash_def)
  show "jobs_ok (snd (save_task_status m t now d))"
    using assms provider_update(1) [OF assms] insert_task_ok [OF assms] q
    by (auto simp: save_task_status_def Let_def direct_task_row_def split: option.splits)
  show "state_of (snd (save_task_status m t now d)) g = state_of d g" if "t_job_gid t \<noteq> ''''"
    using that provider_update(2) [OF assms] by (simp add: save_task_status_def split: option.splits)
qed

lemma save_task_artifact_ok:
  assumes "jobs_ok d"
  shows "jobs_ok (snd (save_task_artifact t now d)) \<and> state_of (snd (save_task_artifact t now d)) g = state_of d g"
proof -
  have "state_of (snd (upsert_managed_artifact a b t r now d)) g = state_of d g" for a b r
    by (rule fun_cong [OF state_of_tasks]) (rule upsert_artifact_frame)
  then show ?thesis
    using assms upsert_artifact_ok [OF assms]
    by (auto simp: save_task_artifact_def io_bind_def Let_def split: option.splits prod.splits sum.splits) (metis snd_conv)+
qed

lemma snd_io_bind: "snd (io_bind m f w) = (case fst (m w) of Inl e \<Rightarrow> snd (m w) | Inr x \<Rightarrow> snd (f x (snd (m w))))"
  by (simp add: io_bind_def split: prod.splits sum.splits)

lemma snd_tx: "snd (tx m w) = (case fst (m w) of Inl e \<Rightarrow> w | Inr x \<Rightarrow> snd (m w))"
  by (simp add: tx_def split: prod.splits sum.splits)

lemma save_task_ok:
  assumes "jobs_ok d"
  shows "jobs_ok (snd (save_task time m t d))"
    "t_job_gid t \<noteq> '''' \<Longrightarrow> state_of (snd (save_task time m t d)) g = state_of d g"
proof -
  let ?h = "to_lower (t_info_hash t)" and ?now = "format_time time"
  let ?a = "(?h, m, t_name t, t_size_bytes t, ?now)"
  let ?d1 = "d\<lparr>torrents := upsert tr_id (\<lambda>q. tr_info_hash q = ?h) (task_torrent_upd ?a) (task_torrent_mk ?a) (torrents d)\<rparr>"
  let ?d2 = "snd (save_task_status m t ?now ?d1)"
  have ok1: "jobs_ok ?d1" if "hash_check ?h"
    using upsert_torrents_ok [OF tt.keyed_table_axioms, of d ?a] assms that
    by (intro jobs_ok_torrents) (simp_all add: jobs_ok_def)
  have "jobs_ok (snd (save_task time m t d)) \<and>
      (t_job_gid t \<noteq> '''' \<longrightarrow> state_of (snd (save_task time m t d)) g = state_of d g)"
  proof (cases "\<not> hash_check ?h \<or> t_size_bytes t < 0")
    case True
    then show ?thesis using assms by (simp add: save_task_def Let_def snd_tx)
  next
    case False
    note s = save_task_status_ok(1) [OF ok1, of m t ?now] save_task_status_ok(2) [OF ok1, of t m ?now g]
    have "jobs_ok ?d2" using s(1) False by simp
    from save_task_artifact_ok [OF this, of t ?now g] s False show ?thesis
      using assms by (auto simp: save_task_def Let_def snd_tx snd_io_bind split: sum.splits)
  qed
  then show "jobs_ok (snd (save_task time m t d))"
    "t_job_gid t \<noteq> '''' \<Longrightarrow> state_of (snd (save_task time m t d)) g = state_of d g" by simp_all
qed

text \<open>\<open>SaveScan\<close>, step by step.\<close>

lemma scan_task_ok:
  assumes "jobs_ok d" and "torrent \<in> tr_id ` set (torrents d)"
  shows "jobs_ok (snd (scan_task r t torrent now d))"
    "t_job_gid t \<noteq> '''' \<Longrightarrow> state_of (snd (scan_task r t torrent now d)) g = state_of d g"
    "torrents (snd (scan_task r t torrent now d)) = torrents d"
    "contents (snd (scan_task r t torrent now d)) = contents d"
    "torrent_files (snd (scan_task r t torrent now d)) = torrent_files d"
proof -
  let ?f = "\<lambda>x. (provider_row t x)\<lparr>tk_state := Succeeded, tk_finished_at := Some now\<rparr>"
  have up: "jobs_ok (d\<lparr>tasks := update_rows P ?f (tasks d)\<rparr>)" for P
    using assms(1) by (intro tasks_update_ok active_unique_update)
      (simp_all add: provider_row_def active_def jobs_ok_def tasks_ok_def)
  have ins: "jobs_ok (snd (insert_task (direct_task_row gid m Succeeded t now fin torrent (next_id tk_id (tasks d))) d))" for gid m fin
    by (rule insert_task_ok) (use assms in \<open>simp_all add: direct_task_row_def\<close>)
  show "jobs_ok (snd (scan_task r t torrent now d))"
    using assms(1) provider_update(1) [OF assms(1)] up ins
    by (auto simp: scan_task_def Let_def snd_io_bind split: option.splits sum.splits)
  show "state_of (snd (scan_task r t torrent now d)) g = state_of d g" if "t_job_gid t \<noteq> ''''"
    using that provider_update(2) [OF assms(1)] by (simp add: scan_task_def split: option.splits)
  show "torrents (snd (scan_task r t torrent now d)) = torrents d"
    "contents (snd (scan_task r t torrent now d)) = contents d"
    "torrent_files (snd (scan_task r t torrent now d)) = torrent_files d"
    by (auto simp: scan_task_def Let_def snd_io_bind insert_task_def split: option.splits sum.splits)
qed

lemma choose_strm_root_ok:
  assumes "jobs_ok d"
  shows "jobs_ok (snd (choose_strm_root r t q d)) \<and> state_of (snd (choose_strm_root r t q d)) g = state_of d g"
proof -
  let ?ts = "\<lambda>base. update_rows (\<lambda>x. tr_id x = tr_id q) (\<lambda>x. x\<lparr>tr_strm_root := base\<rparr>) (torrents d)"
  have m: "map tr_id (?ts base) = map tr_id (torrents d)" "map tr_info_hash (?ts base) = map tr_info_hash (torrents d)" for base
    by (auto intro: map_update_rows)
  then have s: "tr_id ` set (?ts base) = tr_id ` set (torrents d)"
    "tr_info_hash ` set (?ts base) = tr_info_hash ` set (torrents d)" for base
    by (metis list.set_map)+
  have "jobs_ok (d\<lparr>torrents := ?ts base\<rparr>)" for base
  proof (rule jobs_ok_torrents [OF assms])
    have "\<forall>x \<in> set (?ts base). hash_check (tr_info_hash x)"
      using assms s(2) [of base] unfolding jobs_ok_def torrents_ok_def by (metis (no_types, lifting) image_iff)
    then show "torrents_ok (d\<lparr>torrents := ?ts base\<rparr>)"
      using assms m by (simp add: torrents_ok_def jobs_ok_def)
  qed (simp add: s)
  then show ?thesis using assms by (simp add: choose_strm_root_def split: option.splits)
qed

definition same_tasks :: "db \<Rightarrow> db \<Rightarrow> bool" where
  "same_tasks d d' \<longleftrightarrow> tasks d' = tasks d \<and> torrents d' = torrents d \<and> aria2_tasks d' = aria2_tasks d \<and>
     qbittorrent_tasks d' = qbittorrent_tasks d \<and> restore_tasks d' = restore_tasks d \<and> cli_tasks d' = cli_tasks d"

lemma same_tasks_ok: "same_tasks d d' \<Longrightarrow> jobs_ok d \<Longrightarrow> jobs_ok d' \<and> state_of d' = state_of d"
  unfolding same_tasks_def using jobs_ok_cong [of d d'] state_of_tasks [of d' d] by simp

lemma save_files_same: "same_tasks d (snd (save_files torrent artifact now fs d))"
proof (induction fs arbitrary: d)
  case (Cons f fs)
  have a: "same_tasks d (snd (upsert_content f now d))" for d
    by (simp add: upsert_content_def Let_def same_tasks_def split: option.splits)
  have b: "same_tasks d (upsert_remote_location torrent artifact c f now d)" for c d
    by (simp add: upsert_remote_location_def Let_def same_tasks_def)
  have c: "same_tasks d (snd (upsert_torrent_file torrent c f now d))" for c d
    by (simp add: upsert_torrent_file_def Let_def same_tasks_def split: option.splits)
  have trans: "same_tasks d d1 \<Longrightarrow> same_tasks d1 d2 \<Longrightarrow> same_tasks d d2" for d d1 d2
    by (simp add: same_tasks_def)
  show ?case
    using a b c Cons.IH trans by (simp add: snd_io_bind split: sum.splits) (meson trans)
qed (simp add: same_tasks_def)

text \<open>What every step of a saved scan keeps: the tables, the torrent, and the states if the scan is a job's.\<close>

definition scan_keeps :: "int \<Rightarrow> task \<Rightarrow> string \<Rightarrow> job_state option \<Rightarrow> db \<Rightarrow> bool" where
  "scan_keeps torrent t g s d \<longleftrightarrow> jobs_ok d \<and> torrent \<in> tr_id ` set (torrents d) \<and>
     (t_job_gid t \<noteq> '''' \<longrightarrow> state_of d g = s)"

lemma scan_keeps_same: "same_tasks d d' \<Longrightarrow> scan_keeps torrent t g s d \<Longrightarrow> scan_keeps torrent t g s d'"
  using same_tasks_ok [of d d'] by (auto simp: scan_keeps_def same_tasks_def)

lemma keeps_same: "(\<And>d. same_tasks d (snd (m d))) \<Longrightarrow> keeps (scan_keeps torrent t g s) m"
  by (rule keepsI) (rule scan_keeps_same)

lemma save_scan_rows_keeps: "keeps (scan_keeps (tr_id q) t g s) (save_scan_rows now r t q)"
  unfolding save_scan_rows_def
proof (intro keeps_bind)
  show "keeps (scan_keeps (tr_id q) t g s) (scan_task r t (tr_id q) now)"
    by (rule keepsI) (use scan_task_ok in \<open>simp add: scan_keeps_def\<close>)
  show "keeps (scan_keeps (tr_id q) t g s) (upsert_managed_artifact (tr_id q) i t (r_result_id r) now)" for i
  proof (rule keepsI)
    fix d
    assume "scan_keeps (tr_id q) t g s d"
    then show "scan_keeps (tr_id q) t g s (snd (upsert_managed_artifact (tr_id q) i t (r_result_id r) now d))"
      using upsert_artifact_ok [of d] fun_cong [OF state_of_tasks, OF upsert_artifact_frame(1)]
      by (simp add: scan_keeps_def upsert_artifact_frame)
  qed
  show "keeps (scan_keeps (tr_id q) t g s) (choose_strm_root r t q)"
  proof (rule keepsI)
    fix d
    assume k: "scan_keeps (tr_id q) t g s d"
    have "map tr_id (update_rows P (\<lambda>x. x\<lparr>tr_strm_root := b\<rparr>) ts) = map tr_id ts" for P b and ts :: "torrent_row list"
      by (rule map_update_rows) simp
    then have "tr_id ` set (torrents (snd (choose_strm_root r t q d))) = tr_id ` set (torrents d)"
      by (simp add: choose_strm_root_def split: option.splits) (metis list.set_map)
    then show "scan_keeps (tr_id q) t g s (snd (choose_strm_root r t q d))"
      using k choose_strm_root_ok [of d r t q g] by (simp add: scan_keeps_def)
  qed
  show "keeps (scan_keeps (tr_id q) t g s) (\<lambda>d. (Inr (), d\<lparr>torrent_files := update_rows
         (\<lambda>x. tf_torrent_id x = tr_id q \<and> tf_removed_at x = None)
         (\<lambda>x. x\<lparr>tf_removed_at := Some now\<rparr>) (torrent_files d)\<rparr>))"
    by (rule keeps_same) (simp add: same_tasks_def)
  show "keeps (scan_keeps (tr_id q) t g s) (save_files (tr_id q) i now (r_files r))" for i
    by (rule keeps_same) (rule save_files_same)
  show "keeps (scan_keeps (tr_id q) t g s) (\<lambda>d. (Inr (x d), delete_artifacts (P d) d))" for x :: "db \<Rightarrow> scan_result" and P
    by (rule keeps_same) (simp add: same_tasks_def delete_artifacts_def Let_def)
qed

lemma save_scan_torrent:
  fixes now :: int
  assumes "torrents_ok d" and "hash_check (r_info_hash r)"
  defines "d1 \<equiv> d\<lparr>torrents := upsert tr_id (\<lambda>q. tr_info_hash q = r_info_hash r)
    (scan_torrent_upd (r, now)) (scan_torrent_mk (r, now)) (torrents d)\<rparr>"
  shows "torrents_ok d1" "tr_id ` set (torrents d) \<subseteq> tr_id ` set (torrents d1)"
    "\<exists>q. torrent_by_hash d1 (r_info_hash r) = Some q \<and> q \<in> set (torrents d1)"
  using upsert_torrents_ok [OF st.keyed_table_axioms, of d "(r, now)"] assms by simp_all

lemma save_scan_ok:
  assumes "jobs_ok d"
  shows "jobs_ok (snd (save_scan time r t d)) \<and>
    (t_job_gid t \<noteq> '''' \<longrightarrow> state_of (snd (save_scan time r t d)) g = state_of d g)"
proof (cases "\<not> hash_check (r_info_hash r) \<or> r_total_bytes r < 0")
  case True
  then show ?thesis using assms by (simp add: save_scan_def Let_def snd_tx)
next
  case False
  let ?now = "format_time time"
  let ?d1 = "d\<lparr>torrents := upsert tr_id (\<lambda>q. tr_info_hash q = r_info_hash r)
    (scan_torrent_upd (r, ?now)) (scan_torrent_mk (r, ?now)) (torrents d)\<rparr>"
  have tok: "torrents_ok d" "hash_check (r_info_hash r)" using assms False by (simp_all add: jobs_ok_def)
  note up = save_scan_torrent [OF tok, of ?now]
  then obtain q where q: "torrent_by_hash ?d1 (r_info_hash r) = Some q" "q \<in> set (torrents ?d1)" by auto
  have "scan_keeps (tr_id q) t g (state_of d g) ?d1"
    using jobs_ok_torrents [OF assms up(1)] up(2) q(2) by (simp add: scan_keeps_def)
  with save_scan_rows_keeps have "scan_keeps (tr_id q) t g (state_of d g) (snd (save_scan_rows ?now r t q ?d1))"
    unfolding keeps_def by blast
  then show ?thesis
    using False q(1) assms by (auto simp: save_scan_def Let_def snd_tx scan_keeps_def split: sum.splits)
qed

section \<open>The directory of a torrent\<close>

lemma strm_candidate_inj: "strm_candidate p h m = strm_candidate p h n \<Longrightarrow> 1 \<le> m \<Longrightarrow> 1 \<le> n \<Longrightarrow> m = n"
  using decimal_inj [of m n] by (auto simp: strm_candidate_def split: if_splits)

lemma strm_root_from_some:
  "strm_root_from fuel taken p h n = Some c \<Longrightarrow> c \<notin> taken \<and> (\<exists>m. n \<le> m \<and> c = strm_candidate p h m)"
proof (induction fuel arbitrary: n)
  case (Suc fuel)
  then show ?case by (auto split: if_splits dest!: Suc.IH intro: Suc_leD)
qed simp

lemma strm_root_from_none:
  "strm_root_from fuel taken p h n = None \<Longrightarrow> strm_candidate p h ` {n..<n + fuel} \<subseteq> taken"
proof (induction fuel arbitrary: n)
  case (Suc fuel)
  have eq: "{n..<n + Suc fuel} = insert n {Suc n..<Suc n + fuel}" by auto
  from Suc.prems have "strm_candidate p h n \<in> taken" "strm_root_from fuel taken p h (Suc n) = None"
    by (auto split: if_splits)
  with Suc.IH [OF this(2)] show ?case unfolding eq image_insert by (simp only: insert_subset)
qed simp

lemma available_strm_root_free:
  "\<exists>c. available_strm_root preferred h d = Some c \<and> c \<notin> tr_strm_root ` set (torrents d) \<and>
    (\<exists>n \<ge> 1. c = strm_candidate preferred (take 8 h) n)"
proof -
  let ?taken = "tr_strm_root ` set (torrents d)" and ?n = "length (torrents d)"
  have "strm_root_from (Suc ?n) ?taken preferred (take 8 h) 1 \<noteq> None"
  proof
    assume "strm_root_from (Suc ?n) ?taken preferred (take 8 h) 1 = None"
    then have "strm_candidate preferred (take 8 h) ` {1..<1 + Suc ?n} \<subseteq> ?taken"
      by (rule strm_root_from_none)
    then have "card (strm_candidate preferred (take 8 h) ` {1..<1 + Suc ?n}) \<le> card ?taken"
      by (intro card_mono) auto
    moreover have "inj_on (strm_candidate preferred (take 8 h)) {1..<1 + Suc ?n}"
      by (rule inj_onI) (auto dest: strm_candidate_inj)
    then have "card (strm_candidate preferred (take 8 h) ` {1..<1 + Suc ?n}) = Suc ?n"
      by (simp add: card_image)
    moreover have "card ?taken \<le> ?n"
      using card_length [of "map tr_strm_root (torrents d)"] by simp
    ultimately show False by simp
  qed
  then show ?thesis
    unfolding available_strm_root_def
    using strm_root_from_some [of "Suc ?n" ?taken preferred "take 8 h" 1] by blast
qed

section \<open>A saved scan reads back\<close>

definition files_ok :: "db \<Rightarrow> bool" where
  "files_ok d \<longleftrightarrow> distinct (map co_id (contents d)) \<and> distinct (map co_sha1 (contents d)) \<and>
     distinct (map file_key (torrent_files d))"

definition live_files :: "db \<Rightarrow> int \<Rightarrow> torrent_file_row list" where
  "live_files d torrent = filter (\<lambda>x. tf_torrent_id x = torrent \<and> tf_removed_at x = None) (torrent_files d)"

text \<open>The content \<open>i\<close> is the content of the scanned file.\<close>

definition is_content :: "db \<Rightarrow> scan_file \<Rightarrow> int \<Rightarrow> bool" where
  "is_content d f i \<longleftrightarrow> (\<exists>c \<in> set (contents d). co_id c = i \<and> co_sha1 c = to_lower (f_sha1 f) \<and>
     co_size_bytes c = f_size_bytes f)"

text \<open>The live files of the torrent are those of \<open>fs\<close>, by path, each with its content.\<close>

definition holds_files :: "db \<Rightarrow> int \<Rightarrow> scan_file list \<Rightarrow> bool" where
  "holds_files d torrent fs \<longleftrightarrow>
     tf_relative_path ` set (live_files d torrent) = f_relative_path ` set fs \<and>
     (\<forall>x \<in> set (live_files d torrent). \<exists>f \<in> set fs. f_relative_path f = tf_relative_path x \<and>
        is_content d f (tf_content_id x))"

lemma upsert_content_ok:
  assumes "files_ok d" and "upsert_content f now d = (Inr i, d')"
  shows "files_ok d'" "is_content d' f i" "torrent_files d' = torrent_files d"
    "\<And>g j. is_content d g j \<Longrightarrow> is_content d' g j"
proof -
  let ?s = "to_lower (f_sha1 f)" and ?a = "(f, now)"
  let ?cs = "upsert co_id (\<lambda>c. co_sha1 c = ?s) (content_upd ?a) (content_mk ?a) (contents d)"
  from assms(2) have d': "d' = d\<lparr>contents := ?cs\<rparr>" and c: "\<exists>c. find (\<lambda>c. co_sha1 c = ?s) ?cs = Some c \<and>
      co_size_bytes c = f_size_bytes f \<and> co_id c = i"
    by (auto simp: upsert_content_def Let_def content_by_sha1_def split: if_splits option.splits)
  show "files_ok d'"
    using assms(1) ct.upsert_ids [of "contents d" ?a] ct.upsert_keys [of "contents d" ?a]
    by (simp add: files_ok_def d')
  from c obtain c where "c \<in> set ?cs" "co_sha1 c = ?s" "co_size_bytes c = f_size_bytes f" "co_id c = i"
    using find_Some_set by fast
  then show "is_content d' f i" by (auto simp: is_content_def d')
  show "torrent_files d' = torrent_files d" by (simp add: d')
  show "is_content d' g j" if "is_content d g j" for g j
  proof -
    from that obtain c where c: "c \<in> set (contents d)" "co_id c = j" "co_sha1 c = to_lower (f_sha1 g)"
      "co_size_bytes c = f_size_bytes g" by (auto simp: is_content_def)
    let ?c = "if co_sha1 c = ?s then content_upd ?a c else c"
    have "?c \<in> set ?cs" using c(1) by (auto simp: upsert_def set_update_rows list_ex_iff)
    moreover have "co_id ?c = j" "co_sha1 ?c = to_lower (f_sha1 g)" "co_size_bytes ?c = f_size_bytes g"
      using c by (auto simp: content_upd_def)
    ultimately show ?thesis unfolding is_content_def d' by auto
  qed
qed

lemma upsert_torrent_file_ok:
  assumes "files_ok d" and "is_content d f i" and "holds_files d torrent fs"
    and "upsert_torrent_file torrent i f now d = (r, d')"
  shows "files_ok d' \<and> holds_files d' torrent (fs @ [f])"
proof -
  let ?a = "(torrent, i, f, now)"
  let ?tf = "upsert tf_id (\<lambda>x. file_key x = file_arg_key ?a) (torrent_file_upd ?a) (torrent_file_mk ?a) (torrent_files d)"
  have d': "d' = d\<lparr>torrent_files := ?tf\<rparr>"
    using assms(4) by (auto simp: upsert_torrent_file_def Let_def split: option.splits)
  have ok: "files_ok d'"
    using assms(1) ft.upsert_keys [of "torrent_files d" ?a] by (simp add: files_ok_def d')
  have new: "find (\<lambda>x. file_key x = file_arg_key ?a) ?tf =
      Some (case find (\<lambda>x. file_key x = file_arg_key ?a) (torrent_files d) of
        None \<Rightarrow> torrent_file_mk ?a (next_id tf_id (torrent_files d)) | Some x \<Rightarrow> torrent_file_upd ?a x)"
    using ft.upsert_find [of "file_arg_key ?a" ?a "torrent_files d"] by simp
  let ?x = "case find (\<lambda>x. file_key x = file_arg_key ?a) (torrent_files d) of
        None \<Rightarrow> torrent_file_mk ?a (next_id tf_id (torrent_files d)) | Some x \<Rightarrow> torrent_file_upd ?a x"
  have x: "?x \<in> set ?tf" "file_key ?x = file_arg_key ?a" using find_Some_set [OF new] by simp_all
  have xr: "tf_removed_at ?x = None" "tf_content_id ?x = i"
    by (simp_all add: torrent_file_mk_def torrent_file_upd_def split: option.splits)
  have key: "tf_torrent_id ?x = torrent" "tf_relative_path ?x = f_relative_path f"
    using x(2) by (simp_all add: file_key_def file_arg_key_def)
  have sub: "y = ?x \<or> y \<in> set (torrent_files d) \<and> file_key y \<noteq> file_arg_key ?a" if "y \<in> set ?tf" for y
  proof (cases "file_key y = file_arg_key ?a")
    case True
    have "distinct (map file_key ?tf)" using ok by (simp add: files_ok_def d')
    from find_key_unique [OF this that] True new show ?thesis by simp
  next
    case False
    with ft.upsert_set [OF that] show ?thesis using ft.upd_key [of ?a] ft.mk_key [of ?a] by auto
  qed
  have keep: "y \<in> set ?tf" if "y \<in> set (torrent_files d)" "file_key y \<noteq> file_arg_key ?a" for y
    using that by (force simp: upsert_def set_update_rows)
  have live: "y \<in> set (live_files d' torrent) \<longleftrightarrow> y = ?x \<or> y \<in> set (live_files d torrent) \<and> tf_relative_path y \<noteq> f_relative_path f" for y
    using sub [of y] keep [of y] x(1) xr key by (auto simp: live_files_def d' file_key_def file_arg_key_def)
  have "tf_relative_path ` set (live_files d' torrent) = insert (f_relative_path f) (tf_relative_path ` set (live_files d torrent))"
  proof -
    have "set (live_files d' torrent) =
        insert ?x {y \<in> set (live_files d torrent). tf_relative_path y \<noteq> f_relative_path f}"
      using live by blast
    then show ?thesis using key(2) by auto
  qed
  moreover have "\<exists>g \<in> set (fs @ [f]). f_relative_path g = tf_relative_path y \<and> is_content d' g (tf_content_id y)"
    if "y \<in> set (live_files d' torrent)" for y
  proof -
    have "is_content d' g j = is_content d g j" for g j by (simp add: is_content_def d')
    with that live [of y] assms(2,3) key(2) xr(2) show ?thesis by (auto simp: holds_files_def)
  qed
  ultimately show ?thesis using ok assms(3) by (auto simp: holds_files_def)
qed

lemma save_files_ok:
  "files_ok d \<Longrightarrow> holds_files d torrent seen \<Longrightarrow> save_files torrent artifact now fs d = (Inr fs', d') \<Longrightarrow>
    files_ok d' \<and> holds_files d' torrent (seen @ fs)"
proof (induction fs arbitrary: d seen fs')
  case (Cons f fs)
  from Cons.prems(3) obtain i d1 f' d3 rest where
    c: "upsert_content f now d = (Inr i, d1)" and
    t: "upsert_torrent_file torrent i f now (upsert_remote_location torrent artifact i f now d1) = (Inr f', d3)" and
    s: "save_files torrent artifact now fs d3 = (Inr rest, d')"
    by (auto simp: io_bind_eq_Inr)
  let ?d2 = "upsert_remote_location torrent artifact i f now d1"
  note u = upsert_content_ok [OF Cons.prems(1) c]
  have same: "contents ?d2 = contents d1" "torrent_files ?d2 = torrent_files d1"
    by (simp_all add: upsert_remote_location_def Let_def)
  have "holds_files d1 torrent seen"
    using Cons.prems(2) u(3,4) by (fastforce simp: holds_files_def live_files_def)
  then have "files_ok ?d2" "is_content ?d2 f i" "holds_files ?d2 torrent seen"
    using u same by (simp_all add: files_ok_def is_content_def holds_files_def live_files_def)
  from upsert_torrent_file_ok [OF this t] Cons.IH [OF _ _ s, of "seen @ [f]"] show ?case by simp
qed simp

text \<open>Reading back.\<close>

lemma result_file_simps [simp]:
  "f_relative_path (result_file d x c) = tf_relative_path x" "f_sha1 (result_file d x c) = co_sha1 c"
  "f_size_bytes (result_file d x c) = co_size_bytes c"
  by (simp_all add: result_file_def Let_def)

lemma map_filter_all:
  "(\<And>x. x \<in> set xs \<Longrightarrow> \<exists>y. g x = Some y \<and> k y = h x) \<Longrightarrow> map k (List.map_filter g xs) = map h xs"
  by (induction xs) (force simp: List.map_filter_simps)+

lemma result_files_read:
  assumes ok: "files_ok d" and holds: "holds_files d torrent fs" and dist: "distinct (map f_relative_path fs)"
  shows "map f_relative_path (result_files d torrent) = sort (map f_relative_path fs)"
    "\<And>g. g \<in> set (result_files d torrent) \<Longrightarrow>
      \<exists>f \<in> set fs. f_relative_path g = f_relative_path f \<and> f_sha1 g = to_lower (f_sha1 f) \<and> f_size_bytes g = f_size_bytes f"
proof -
  let ?rows = "sort_key tf_relative_path (live_files d torrent)"
  let ?g = "\<lambda>x. map_option (result_file d x) (find (\<lambda>c. co_id c = tf_content_id x) (contents d))"
  have rf: "result_files d torrent = List.map_filter ?g ?rows"
    by (simp add: result_files_def live_files_def)
  have g: "\<exists>c f. find (\<lambda>c. co_id c = tf_content_id x) (contents d) = Some c \<and> f \<in> set fs \<and>
      f_relative_path f = tf_relative_path x \<and> co_sha1 c = to_lower (f_sha1 f) \<and> co_size_bytes c = f_size_bytes f"
    if "x \<in> set ?rows" for x
  proof -
    from that holds obtain f c where "f \<in> set fs" "f_relative_path f = tf_relative_path x" "c \<in> set (contents d)"
      "co_id c = tf_content_id x" "co_sha1 c = to_lower (f_sha1 f)" "co_size_bytes c = f_size_bytes f"
      by (auto simp: holds_files_def is_content_def)
    moreover from this have "find (\<lambda>x. co_id x = co_id c) (contents d) = Some c"
      using ok by (intro find_key_unique) (simp_all add: files_ok_def)
    ultimately show ?thesis by auto
  qed
  have "map f_relative_path (result_files d torrent) = map tf_relative_path ?rows"
    unfolding rf by (rule map_filter_all) (use g in fastforce)
  also have "\<dots> = sort (map f_relative_path fs)"
  proof (rule sorted_distinct_set_unique)
    have "inj_on tf_relative_path (set (live_files d torrent))"
      by (rule inj_onI) (use ok in \<open>auto simp: live_files_def files_ok_def file_key_def distinct_map inj_on_def\<close>)
    moreover have "distinct (live_files d torrent)"
      using ok by (auto simp: live_files_def files_ok_def distinct_map)
    ultimately show "distinct (map tf_relative_path ?rows)" by (simp add: distinct_map)
    show "set (map tf_relative_path ?rows) = set (sort (map f_relative_path fs))"
      using holds by (simp add: holds_files_def)
  qed (use dist in simp_all)
  finally show "map f_relative_path (result_files d torrent) = sort (map f_relative_path fs)" .
  show "\<exists>f \<in> set fs. f_relative_path g' = f_relative_path f \<and> f_sha1 g' = to_lower (f_sha1 f) \<and> f_size_bytes g' = f_size_bytes f"
    if "g' \<in> set (result_files d torrent)" for g'
  proof -
    from that obtain x where "x \<in> set ?rows" "?g x = Some g'" by (auto simp: rf List.map_filter_def)
    with g [of x] show ?thesis by auto metis
  qed
qed

text \<open>The steps of \<open>SaveScan\<close> before and after its files.\<close>

lemma choose_strm_root_frame:
  "contents (snd (choose_strm_root r t q d)) = contents d"
  "torrent_files (snd (choose_strm_root r t q d)) = torrent_files d"
  by (simp_all add: choose_strm_root_def split: option.splits)

lemma choose_strm_root_run:
  assumes "choose_strm_root r t q d = (Inr base, d')" and "torrent_by_hash d h = Some q"
  shows "torrent_by_hash d' h = Some (q\<lparr>tr_strm_root := base\<rparr>)"
proof (cases "tr_strm_root q = ''''")
  case True
  let ?ts = "update_rows (\<lambda>x. tr_id x = tr_id q) (\<lambda>x. x\<lparr>tr_strm_root := base\<rparr>) (torrents d)"
  have "d' = d\<lparr>torrents := ?ts\<rparr>"
    using assms(1) True by (auto simp: choose_strm_root_def split: option.splits)
  moreover have "find (\<lambda>x. tr_info_hash x = h) ?ts =
      map_option (\<lambda>x. if tr_id x = tr_id q then x\<lparr>tr_strm_root := base\<rparr> else x) (find (\<lambda>x. tr_info_hash x = h) (torrents d))"
    by (rule find_update_rows_key) simp
  ultimately show ?thesis using assms(2) by (simp add: torrent_by_hash_def)
next
  case False
  with assms show ?thesis by (simp add: choose_strm_root_def)
qed

text \<open>What a scan writes into the row of its torrent.\<close>

definition scanned_torrent :: "scan_result \<Rightarrow> torrent_row \<Rightarrow> bool" where
  "scanned_torrent r q \<longleftrightarrow> tr_display_name q = r_name r \<and> tr_magnet_uri q = r_magnet_uri r \<and>
     tr_total_bytes q = r_total_bytes r \<and> tr_info_hash q = r_info_hash r \<and>
     tr_scanned_at q = Some (format_time (r_scanned_at r))"

lemma save_scan_rows_reads:
  assumes ok: "files_ok d" and q: "torrent_by_hash d h = Some q" and id: "tr_id q \<in> tr_id ` set (torrents d)"
    and run: "save_scan_rows now r t q d = (Inr r', d')" and jobs: "jobs_ok d"
  shows "torrent_by_hash d' h = Some (q\<lparr>tr_strm_root := r_strm_root r'\<rparr>) \<and> files_ok d' \<and>
    holds_files d' (tr_id q) (r_files r)"
proof -
  let ?rm = "\<lambda>d. d\<lparr>torrent_files := update_rows (\<lambda>x. tf_torrent_id x = tr_id q \<and> tf_removed_at x = None)
         (\<lambda>x. x\<lparr>tf_removed_at := Some now\<rparr>) (torrent_files d)\<rparr>"
  from run obtain i d1 a d2 base d3 fs d4 where
    s1: "scan_task r t (tr_id q) now d = (Inr i, d1)" and
    s2: "upsert_managed_artifact (tr_id q) i t (r_result_id r) now d1 = (Inr a, d2)" and
    s3: "choose_strm_root r t q d2 = (Inr base, d3)" and
    s4: "save_files (tr_id q) a now (r_files r) (?rm d3) = (Inr fs, d4)" and
    r': "r' = r\<lparr>r_strm_root := base, r_files := fs\<rparr>" and d': "d' = delete_artifacts (obsolete_artifact (tr_id q) a d4) d4"
    unfolding save_scan_rows_def io_bind_eq_Inr by (auto simp: io_bind_eq_Inr)
  have f1: "torrents d1 = torrents d" "contents d1 = contents d" "torrent_files d1 = torrent_files d"
    using scan_task_ok(3-5) [OF jobs id, of r t now] s1 by simp_all
  have f2: "torrents d2 = torrents d1" "contents d2 = contents d1" "torrent_files d2 = torrent_files d1"
    using upsert_artifact_frame [of "tr_id q" i t "r_result_id r" now d1] s2 by simp_all
  have f3: "contents d3 = contents d2" "torrent_files d3 = torrent_files d2"
    using choose_strm_root_frame [of r t q d2] s3 by simp_all
  have "torrent_by_hash d2 h = Some q" using q f1 f2 by (simp add: torrent_by_hash_def)
  from choose_strm_root_run [OF s3 this] have t3: "torrent_by_hash d3 h = Some (q\<lparr>tr_strm_root := base\<rparr>)" .
  have "map file_key (torrent_files (?rm d3)) = map file_key (torrent_files d3)"
    by (simp, rule map_update_rows) (simp add: file_key_def)
  then have "files_ok (?rm d3)" using ok f1 f2 f3 by (simp add: files_ok_def)
  moreover have "holds_files (?rm d3) (tr_id q) []"
    by (auto simp: holds_files_def live_files_def set_update_rows filter_empty_conv)
  ultimately have h4: "files_ok d4 \<and> holds_files d4 (tr_id q) (r_files r)"
    using save_files_ok [OF _ _ s4, of "[]"] by simp
  have "torrents d4 = torrents d3"
    using save_files_same [of "?rm d3" "tr_id q" a now "r_files r"] s4 by (simp add: same_tasks_def)
  then have "torrent_by_hash d' h = Some (q\<lparr>tr_strm_root := base\<rparr>)"
    using t3 by (simp add: torrent_by_hash_def d' delete_artifacts_def Let_def)
  moreover have "files_ok d' \<and> holds_files d' (tr_id q) (r_files r)"
    using h4 by (simp add: d' delete_artifacts_def Let_def files_ok_def holds_files_def live_files_def is_content_def)
  ultimately show ?thesis by (simp add: r')
qed

lemma save_scan_reads:
  assumes jobs: "jobs_ok d" and ok: "files_ok d" and run: "save_scan time r t d = (Inr r', d')"
  shows "\<exists>q. torrent_by_hash d' (r_info_hash r) = Some q \<and> scanned_torrent r q \<and> tr_strm_root q = r_strm_root r' \<and>
    files_ok d' \<and> holds_files d' (tr_id q) (r_files r)"
proof -
  let ?now = "format_time time" and ?h = "r_info_hash r"
  let ?d1 = "d\<lparr>torrents := upsert tr_id (\<lambda>q. tr_info_hash q = ?h)
    (scan_torrent_upd (r, ?now)) (scan_torrent_mk (r, ?now)) (torrents d)\<rparr>"
  from run have h: "hash_check ?h" by (auto simp: save_scan_def Let_def tx_eq_Inr split: if_splits)
  have tok: "torrents_ok d" using jobs by (simp add: jobs_ok_def)
  note up = save_scan_torrent [OF tok h, of ?now]
  from up(3) obtain q where q: "torrent_by_hash ?d1 ?h = Some q" "q \<in> set (torrents ?d1)" by blast
  have "Some q = Some (case torrent_by_hash d ?h of None \<Rightarrow> scan_torrent_mk (r, ?now) (next_id tr_id (torrents d))
      | Some x \<Rightarrow> scan_torrent_upd (r, ?now) x)"
    using q(1) st.upsert_find [of ?h "(r, ?now)" "torrents d"] by (simp add: torrent_by_hash_def)
  then have sc: "scanned_torrent r q"
    using find_Some_set [of "\<lambda>q. tr_info_hash q = ?h" "torrents d"]
    by (auto simp: scanned_torrent_def scan_torrent_mk_def scan_torrent_upd_def torrent_by_hash_def split: option.splits)
  have rows: "save_scan_rows ?now r t q ?d1 = (Inr r', d')"
    using run h q(1) by (auto simp: save_scan_def Let_def tx_eq_Inr split: if_splits)
  have ok1: "files_ok ?d1" using ok by (simp add: files_ok_def)
  have jobs1: "jobs_ok ?d1" using jobs_ok_torrents [OF jobs up(1)] up(2) by simp
  from save_scan_rows_reads [OF ok1 q(1) _ rows jobs1] q(2)
  have "torrent_by_hash d' ?h = Some (q\<lparr>tr_strm_root := r_strm_root r'\<rparr>) \<and> files_ok d' \<and>
      holds_files d' (tr_id q) (r_files r)" by simp
  then show ?thesis using sc by (intro exI [of _ "q\<lparr>tr_strm_root := r_strm_root r'\<rparr>"]) (simp add: scanned_torrent_def)
qed

section \<open>The properties\<close>

text \<open>C24. Saving a scan replaces the files of the torrent: what is read back afterwards is the name, the size and the
  directory of the result, and exactly the scanned files, in the order of their paths, each with the hash (in lower
  case) and the size that were scanned; files of an earlier scan that are gone are not returned.\<close>

theorem saved_scan_reads_back:
  assumes "jobs_ok d" and "files_ok d" and "distinct (map f_relative_path (r_files r))"
    and "save_scan time r t d = (Inr r', d')"
  shows "\<exists>res. result_by_info_hash (r_info_hash r) d' = (Inr res, d') \<and> r_name res = r_name r \<and>
    r_info_hash res = r_info_hash r \<and> r_total_bytes res = r_total_bytes r \<and> r_strm_root res = r_strm_root r' \<and>
    map f_relative_path (r_files res) = sort (map f_relative_path (r_files r)) \<and>
    list_all (\<lambda>g. list_ex (\<lambda>f. f_relative_path g = f_relative_path f \<and> f_sha1 g = to_lower (f_sha1 f) \<and>
      f_size_bytes g = f_size_bytes f) (r_files r)) (r_files res)"
proof -
  have "hash_check (r_info_hash r)" using assms(4) by (auto simp: save_scan_def Let_def tx_eq_Inr split: if_splits)
  then have low: "to_lower (r_info_hash r) = r_info_hash r" by (simp add: hash_check_def)
  from save_scan_reads [OF assms(1,2,4)] obtain q where q: "torrent_by_hash d' (r_info_hash r) = Some q"
    "scanned_torrent r q" "tr_strm_root q = r_strm_root r'" "files_ok d'" "holds_files d' (tr_id q) (r_files r)" by blast
  note f = result_files_read [OF q(4,5) assms(3)]
  have "list_all (\<lambda>g. list_ex (\<lambda>f. f_relative_path g = f_relative_path f \<and> f_sha1 g = to_lower (f_sha1 f) \<and>
      f_size_bytes g = f_size_bytes f) (r_files r)) (result_files d' (tr_id q))"
    using f(2) unfolding list_all_iff list_ex_iff by blast
  then show ?thesis
    using q(1-3) f(1) low by (simp add: result_by_info_hash_def scanned_torrent_def)
qed

text \<open>The directory chosen for a new torrent is always found and never one that another torrent has: the loop over
  suffixed names ends, after at most one attempt more than there are torrents.\<close>

lemma strm_root_is_free:
  "\<exists>c. available_strm_root preferred info_hash d = Some c \<and> c \<notin> tr_strm_root ` set (torrents d)"
  using available_strm_root_free by blast

text \<open>Saving the status or the scan of a job's task leaves the tables consistent and the state of every task alone,
  so a cancellation that arrives while the result is being saved is not lost.\<close>

lemma saving_keeps_task_states:
  assumes "jobs_ok d" and "t_job_gid t \<noteq> ''''"
  shows "jobs_ok (snd (save_task time m t d)) \<and> state_of (snd (save_task time m t d)) g = state_of d g \<and>
    jobs_ok (snd (save_scan time r t d)) \<and> state_of (snd (save_scan time r t d)) g = state_of d g"
  using save_task_ok [OF assms(1)] save_scan_ok [OF assms(1)] assms(2) by blast

section \<open>Witnesses\<close>

definition sample_file :: "string \<Rightarrow> char \<Rightarrow> scan_file" where
  "sample_file p c = \<lparr>f_relative_path = p, f_strm_path = '''', f_name = p, f_sha1 = replicate 40 c, f_size_bytes = 5,
     f_remote_id = c # p, f_parent_id = ''0'', f_remote_path = p, f_pick_code = ''k'', f_created_at = 1, f_updated_at = 2,
     f_needs_strm = False\<rparr>"

definition sample_result :: "scan_file list \<Rightarrow> scan_result" where
  "sample_result fs = \<lparr>r_name = ''Show'', r_info_hash = j_info_hash sample_job, r_magnet_uri = ''m'', r_result_id = ''r'',
     r_reused_task = False, r_total_bytes = 5 * int (length fs), r_scanned_at = 3000, r_strm_root = '''', r_files = fs\<rparr>"

definition sample_task :: task where
  "sample_task = empty_task\<lparr>t_job_gid := ''g1'', t_info_hash := j_info_hash sample_job, t_result_id := ''r''\<rparr>"

definition sample_db :: db where
  "sample_db = run_ops [OpCreate sample_job, OpUpdate (sample_job\<lparr>j_state := Running\<rparr>)] empty_db"

lemma sample_db_ok: "jobs_ok sample_db" "files_ok sample_db"
  unfolding sample_db_def by (rule run_ops_ok [OF jobs_ok_empty]) code_simp

definition is_right :: "'a + 'b \<Rightarrow> bool" where
  "is_right r = (case r of Inl _ \<Rightarrow> False | Inr _ \<Rightarrow> True)"

text \<open>The witness scans a torrent twice: one file goes, one comes.\<close>

definition sample_db1 :: db where
  "sample_db1 = snd (save_scan 1000 (sample_result [sample_file ''a.mkv'' (CHR ''A'')]) sample_task sample_db)"

definition sample_rescan :: scan_result where
  "sample_rescan = sample_result [sample_file ''c.mkv'' (CHR ''c''), sample_file ''b.mkv'' (CHR ''B'')]"

lemma saved_scan_reads_back_witness:
  "\<exists>res d'. save_scan 2000 sample_rescan sample_task sample_db1 = (Inr (fst res), d') \<and>
     result_by_info_hash (j_info_hash sample_job) d' = (Inr (snd res), d') \<and>
     map f_relative_path (r_files (snd res)) = [''b.mkv'', ''c.mkv'']"
proof -
  have c: "files_ok sample_db1" "distinct (map f_relative_path (r_files sample_rescan))"
    "is_right (fst (save_scan 2000 sample_rescan sample_task sample_db1))"
    "sort (map f_relative_path (r_files sample_rescan)) = [''b.mkv'', ''c.mkv'']"
    "r_info_hash sample_rescan = j_info_hash sample_job"
    by code_simp+
  have ok: "jobs_ok sample_db1" using save_scan_ok [OF sample_db_ok(1)] unfolding sample_db1_def by blast
  from c(3) obtain r' d' where run: "save_scan 2000 sample_rescan sample_task sample_db1 = (Inr r', d')"
    by (cases "save_scan 2000 sample_rescan sample_task sample_db1") (auto simp: is_right_def split: sum.splits)
  from saved_scan_reads_back [OF ok c(1,2) run] obtain res where
    "result_by_info_hash (r_info_hash sample_rescan) d' = (Inr res, d')"
    "map f_relative_path (r_files res) = sort (map f_relative_path (r_files sample_rescan))" by blast
  then show ?thesis
    unfolding c(4,5) using run by (intro exI [of _ "(r', res)"] exI [of _ d']) simp
qed


text \<open>Directories of two torrents are different, but one may contain the other, and then two torrents share an STRM
  file: a torrent named like a category takes the category's directory, and its file in a folder named like a
  second torrent of that category gets the path of the second torrent's file.\<close>

lemma nested_strm_roots_collide:
  "let named = (\<lambda>n c. empty_task\<lparr>t_name := n, t_category := c\<rparr>); h = replicate 40 (CHR ''a'');
       d = empty_db\<lparr>torrents := [scan_torrent_mk (sample_result [], 0) 1\<lparr>tr_strm_root := ''tv''\<rparr>]\<rparr>
   in available_strm_root (preferred_strm_root (sample_result []) (named ''tv'' '''')) h empty_db = Some ''tv'' \<and>
      available_strm_root (preferred_strm_root (sample_result []) (named ''Show'' ''tv'')) h d = Some ''tv/Show'' \<and>
      strm_relative_path ''tv'' ''Show/x.mkv'' = Inr ''tv/Show/x.mkv.strm'' \<and>
      strm_relative_path ''tv/Show'' ''x.mkv'' = Inr ''tv/Show/x.mkv.strm''"
  by code_simp

end
