(* ===== verification/Strm_Store.thy ===== *)
theory Strm_Store
  imports Service_World "HOL-Library.AList"
begin

text \<open>
  \<open>internal/strm/service.go\<close>: the files the program writes into the media library. An STRM file holds
  one URL, of this program's redirect handler, and only files that hold such a URL are ever
  overwritten. The directory is an association list from path segments to entries; symbolic links
  and devices are \<open>Special\<close>. I/O errors of the operating system are not modelled, nor is the
  temporary file behind \<open>atomicWrite\<close>, whose rename makes a write one step.
\<close>

section \<open>The service\<close>

definition http_base :: "string \<Rightarrow> bool" where
  "http_base base = (case url_parse base of
     None \<Rightarrow> False
   | Some u \<Rightarrow> u_host u \<noteq> '''' \<and> (u_scheme u = ''http'' \<or> u_scheme u = ''https'') \<and>
       u_raw_query u = '''' \<and> u_fragment u = '''')"

text \<open>\<open>New\<close>; \<open>cwd\<close> is the working directory that \<open>filepath.Abs\<close> resolves against.\<close>

definition new_strm_service :: "string \<Rightarrow> string \<Rightarrow> string \<Rightarrow> err + strm_service" where
  "new_strm_service cwd root_dir public_base_url =
     (let dir = trim_space root_dir;
          absolute = (if is_abs dir then path_clean dir else path_join [cwd, dir]);
          base = trim_right (trim_space public_base_url) ''/''
      in if dir = '''' then Inl (Msg ''empty STRM directory'')
         else if \<not> http_base base then Inl (Msg ''invalid public_base_url'')
         else Inr \<lparr>ss_root = absolute, ss_base = base\<rparr>)"

definition clean_relative_path :: "string \<Rightarrow> err + string" where
  "clean_relative_path value =
     (let v = trim_space value; clean = path_clean v
      in if v = '''' \<or> is_abs v \<or> char_of (0 :: nat) \<in> set v then Inl (Msg ''invalid STRM path'')
         else if clean = ''.'' \<or> clean = ''..'' \<or> has_prefix clean ''../'' then Inl (Msg ''invalid STRM path'')
         else Inr clean)"

text \<open>\<open>Path\<close>. The code checks once more that the joined path is below the root; the path relative to the
  root is the cleaned one, which passed this test.\<close>

definition strm_path :: "strm_service \<Rightarrow> string \<Rightarrow> err + string" where
  "strm_path s relative_path =
     (case clean_relative_path relative_path of
       Inl e \<Rightarrow> Inl e
     | Inr clean \<Rightarrow> Inr (path_join [ss_root s, clean]))"

section \<open>Contents\<close>

definition valid_sha1 :: "string \<Rightarrow> bool" where
  "valid_sha1 v = (length v = 40 \<and> hex_decode v \<noteq> None)"

definition newline :: char where
  "newline = char_of (10 :: nat)"

definition strm_content :: "strm_service \<Rightarrow> string \<Rightarrow> string \<Rightarrow> string" where
  "strm_content s sha1 info_hash =
     ss_base s @ ''/redirect/'' @ to_lower sha1 @
       (if info_hash \<noteq> '''' then ''?info_hash='' @ query_escape (to_lower info_hash) else '''') @ [newline]"

definition blank_chars :: string where
  "blank_chars = [char_of (13 :: nat), newline, char_of (9 :: nat), CHR '' '']"

text \<open>\<open>redirectSHA1\<close>: the hash of a managed file, \<open>None\<close> if the file is not ours.\<close>

definition redirect_sha1 :: "string \<Rightarrow> string option" where
  "redirect_sha1 content =
     (let v = trim_space content
      in if v = '''' \<or> contains_any v blank_chars then None
         else case url_parse v of
           None \<Rightarrow> None
         | Some u \<Rightarrow>
             if u_host u = '''' \<or> \<not> (u_scheme u = ''http'' \<or> u_scheme u = ''https'') \<or> u_fragment u \<noteq> '''' then None
             else (case parse_query (u_raw_query u) of (pairs, ok) \<Rightarrow>
               if \<not> ok \<or> list_ex (\<lambda>p. fst p \<noteq> ''info_hash'') pairs then None
               else if query_values pairs ''info_hash'' \<noteq> [] \<and>
                   (length (query_values pairs ''info_hash'') \<noteq> 1 \<or>
                    \<not> valid_sha1 (to_lower (hd (query_values pairs ''info_hash'')))) then None
               else
                 (let segs = split_on slash (trim_set (escaped_path u) ''/'')
                  in if length segs < 2 \<or> segs ! (length segs - 2) \<noteq> ''redirect'' then None
                     else case unescape EncSegment (last segs) of
                       None \<Rightarrow> None
                     | Some x \<Rightarrow> if valid_sha1 (to_lower x) then Some (to_lower x) else None)))"

section \<open>Writing\<close>

definition max_strm_size :: nat where
  "max_strm_size = 16384"

text \<open>\<open>ensureDirectories\<close>: every directory on the way is made, or is there and is one.\<close>

fun ensure_directories :: "string list \<Rightarrow> string list \<Rightarrow> (files, unit) io" where
  "ensure_directories current [] = io_ret ()"
| "ensure_directories current (x # xs) = (\<lambda>fs.
     let here = current @ [x]
     in case map_of fs here of
          None \<Rightarrow> ensure_directories here xs (AList.update here Directory fs)
        | Some Directory \<Rightarrow> ensure_directories here xs fs
        | Some _ \<Rightarrow> (Inl (Msg ''not a directory''), fs))"

definition atomic_write :: "string list \<Rightarrow> string \<Rightarrow> (files, unit) io" where
  "atomic_write target content =
     io_bind (ensure_directories [] (butlast target)) (\<lambda>_ fs. (Inr (), AList.update target (Regular content) fs))"

definition file_segs :: "string \<Rightarrow> string list" where
  "file_segs clean = split_on slash clean"

definition strm_write :: "strm_service \<Rightarrow> string \<Rightarrow> string \<Rightarrow> string \<Rightarrow> (files, string) io" where
  "strm_write s relative_path sha1_value info_hash_value = (\<lambda>fs.
     let sha1 = to_lower (trim_space sha1_value); info_hash = to_lower (trim_space info_hash_value)
     in if \<not> valid_sha1 sha1 then (Inl (Msg ''invalid SHA1''), fs)
        else if info_hash \<noteq> '''' \<and> \<not> valid_sha1 info_hash then (Inl (Msg ''invalid info hash''), fs)
        else case clean_relative_path relative_path of
          Inl e \<Rightarrow> (Inl e, fs)
        | Inr clean \<Rightarrow>
            (let write = io_bind (atomic_write (file_segs clean) (strm_content s sha1 info_hash))
                   (\<lambda>_. io_ret (path_join [ss_root s, clean]))
             in case map_of fs (file_segs clean) of
                  None \<Rightarrow> write fs
                | Some (Regular content) \<Rightarrow>
                    if length content > max_strm_size then (Inl (Msg ''STRM file too large''), fs)
                    else if redirect_sha1 content = None then (Inl (Msg ''unmanaged STRM file''), fs)
                    else write fs
                | Some _ \<Rightarrow> (Inl (Msg ''not a regular file''), fs)))"

definition nfo_write :: "strm_service \<Rightarrow> string \<Rightarrow> string \<Rightarrow> (files, string) io" where
  "nfo_write s relative_path content = (\<lambda>fs.
     if \<not> equal_fold (path_ext relative_path) ''.nfo'' then (Inl (Msg ''not an .nfo path''), fs)
     else case clean_relative_path relative_path of
       Inl e \<Rightarrow> (Inl e, fs)
     | Inr clean \<Rightarrow>
         (case map_of fs (file_segs clean) of
           Some Directory \<Rightarrow> (Inl (Msg ''not a regular file''), fs)
         | Some Special \<Rightarrow> (Inl (Msg ''not a regular file''), fs)
         | _ \<Rightarrow> io_bind (atomic_write (file_segs clean) content) (\<lambda>_. io_ret (path_join [ss_root s, clean])) fs))"

section \<open>Moving to another address\<close>

definition normalize_prefix :: "string \<Rightarrow> err + string" where
  "normalize_prefix value =
     (let v = trim_right (trim_space value) ''/''
      in if v = '''' \<or> contains_any v blank_chars then Inl (Msg ''empty prefix'')
         else if http_base v then Inr v else Inl (Msg ''invalid prefix''))"

definition replaced_content :: "string \<Rightarrow> string \<Rightarrow> string \<Rightarrow> string option" where
  "replaced_content old_prefix new_prefix content =
     (if length content > max_strm_size then None
      else
        (let v = trim_space content
         in if contains_any v blank_chars \<or> \<not> has_prefix v old_prefix then None
            else
              (let suffix = trim_prefix v old_prefix
               in if suffix = '''' \<or> \<not> has_prefix suffix ''/'' then None
                  else Some (new_prefix @ suffix @ [newline]))))"

definition is_strm_entry :: "string list \<times> fs_entry \<Rightarrow> bool" where
  "is_strm_entry e = (case e of
     (p, Regular _) \<Rightarrow> p \<noteq> [] \<and> equal_fold (path_ext (last p)) ''.strm'' | _ \<Rightarrow> False)"

definition replace_entry :: "string \<Rightarrow> string \<Rightarrow> string list \<times> fs_entry \<Rightarrow> string list \<times> fs_entry" where
  "replace_entry old_prefix new_prefix e =
     (if is_strm_entry e then
        (case e of
          (p, Regular content) \<Rightarrow>
            (case replaced_content old_prefix new_prefix content of
              None \<Rightarrow> e | Some content' \<Rightarrow> (p, Regular content'))
        | _ \<Rightarrow> e)
      else e)"

text \<open>\<open>ReplacePrefix\<close>: how many files were looked at and how many were rewritten. The walk reaches what is
  below the directory, links are not followed.\<close>

definition replace_prefix :: "string \<Rightarrow> string \<Rightarrow> (files, nat \<times> nat) io" where
  "replace_prefix old_value new_value = (\<lambda>fs.
     case normalize_prefix old_value of
       Inl e \<Rightarrow> (Inl (Wrap ''old prefix'' e), fs)
     | Inr old_prefix \<Rightarrow>
         (case normalize_prefix new_value of
           Inl e \<Rightarrow> (Inl (Wrap ''new prefix'' e), fs)
         | Inr new_prefix \<Rightarrow>
             if old_prefix = new_prefix then (Inl (Msg ''same prefix''), fs)
             else (Inr (length (filter is_strm_entry fs),
                    length (filter (\<lambda>e. is_strm_entry e \<and> (case snd e of
                      Regular c \<Rightarrow> replaced_content old_prefix new_prefix c \<noteq> None | _ \<Rightarrow> False)) fs)),
                   map (replace_entry old_prefix new_prefix) fs)))"

end
