(* ===== verification/Strm_Facts.thy ===== *)
theory Strm_Facts
  imports Strm_Store
begin

text \<open>
  What the STRM writer promises: a file it wrote is recognised as its own (so it may be rewritten),
  nothing else is overwritten and nothing but the target and the directories above it changes, and
  moving the library to another address turns each file into the one that would be written there.
\<close>

section \<open>A URL below a base URL\<close>

lemma scheme_len_app: "scheme_len i s = Some n \<Longrightarrow> 0 < n \<Longrightarrow> scheme_len i (s @ t) = Some n \<and> n < i + length s"
proof (induction i s rule: scheme_len.induct)
  case (2 i c s)
  then show ?case by (auto split: if_splits)
qed simp

lemma takeWhile_slash_app: "takeWhile (\<lambda>c. c \<noteq> slash) (s @ slash # t) = takeWhile (\<lambda>c. c \<noteq> slash) s"
  by (induction s) auto

lemma dropWhile_slash_app: "dropWhile (\<lambda>c. c \<noteq> slash) (s @ slash # t) = dropWhile (\<lambda>c. c \<noteq> slash) s @ slash # t"
  by (induction s) auto

lemma has_prefix_app: "has_prefix s p \<Longrightarrow> has_prefix (s @ t) p"
  by (auto simp: has_prefix_iff)

lemma has_ctl_app [simp]: "has_ctl (s @ t) \<longleftrightarrow> has_ctl s \<or> has_ctl t"
  by (simp add: has_ctl_def)

text \<open>A base without query and fragment, extended by a path and a query.\<close>

lemma url_parse_below:
  assumes base: "url_parse base = Some u" "u_host u \<noteq> ''''" "u_scheme u \<noteq> ''''"
    and clean: "CHR ''?'' \<notin> set base" "CHR ''#'' \<notin> set base"
    and p: "list_all (\<lambda>c. unreserved c \<or> c = slash) p"
    and q: "\<not> has_ctl q" "CHR ''#'' \<notin> set q"
  shows "url_parse (base @ slash # p @ (if q = '''' then '''' else CHR ''?'' # q)) =
    Some (u\<lparr>u_path := u_path u @ slash # p, u_raw_path := u_raw_path u @ slash # p, u_raw_query := q\<rparr>)"
proof -
  let ?y = "slash # p" and ?q = "if q = '''' then '''' else CHR ''?'' # q"
  have pc: "CHR ''?'' \<notin> set p" "CHR ''#'' \<notin> set p" "CHR ''%'' \<notin> set p" "\<not> has_ctl p"
    using p by (auto simp: list_all_iff unreserved_def is_alnum_def has_ctl_def list_ex_iff)
  have b: "parse_nofrag base = Some u"
    using base(1) cut_none [OF clean(2)] by (auto simp: url_parse_def split: option.splits)
  have ctl: "\<not> has_ctl base" using b by (auto simp: parse_nofrag_def split: if_splits)
  have star: "base \<noteq> ''*''" using b base(2) by (auto simp: parse_nofrag_def split: if_splits)
  from b ctl star obtain n where n: "scheme_len 0 base = Some n" by (auto simp: parse_nofrag_def split: option.splits)
  let ?rest = "drop (Suc n) base"
  have n0: "0 < n"
  proof (rule ccontr)
    assume "\<not> 0 < n"
    then have "u_scheme u = ''''"
      using b ctl star n by (auto simp: parse_nofrag_def Let_def split: if_splits option.splits prod.splits)
    with base(3) show False by simp
  qed
  have q0: "split_query ?rest = (?rest, '''')"
    using clean(1) by (simp add: split_query_def) (metis cut_none in_set_dropD)
  have slash: "has_prefix ?rest ''/''"
  proof (rule ccontr)
    assume "\<not> has_prefix ?rest ''/''"
    then have "u_host u = ''''"
      using b ctl star n n0 q0 by (auto simp: parse_nofrag_def Let_def split: if_splits)
    with base(2) show False by simp
  qed
  from b ctl star n n0 q0 slash obtain h r where hr: "parse_hier (to_lower (take n base)) ?rest = Some (h, r)"
    and path: "unescape EncPath r = Some (u_path u)"
    and u: "u = \<lparr>u_scheme = to_lower (take n base), u_host = h, u_path = u_path u, u_raw_path = r, u_raw_query = '''', u_fragment = ''''\<rparr>"
    by (auto simp: parse_nofrag_def Let_def split: option.splits)
  have sch: "to_lower (take n base) \<noteq> ''''" using base(3) u by (cases u) auto
  have hier: "has_prefix ?rest ''//''"
  proof (rule ccontr)
    assume "\<not> has_prefix ?rest ''//''"
    with hr have "h = ''''" by (simp add: parse_hier_def)
    with base(2) u show False by (cases u) simp
  qed
  then obtain t where rt: "?rest = ''//'' @ t" by (auto simp: has_prefix_iff)
  have ph: "parse_hier (to_lower (take n base)) (''//'' @ x) =
      map_option (\<lambda>h. (h, dropWhile (\<lambda>c. c \<noteq> slash) x)) (parse_authority (takeWhile (\<lambda>c. c \<noteq> slash) x))" for x
    using sch by (simp add: parse_hier_def)
  have hr': "parse_hier (to_lower (take n base)) (?rest @ ?y) = Some (h, r @ ?y)"
    using hr unfolding rt append_assoc ph takeWhile_slash_app dropWhile_slash_app by auto
  have path': "unescape EncPath (r @ ?y) = Some (u_path u @ ?y)"
    using unescape_append [OF path, of ?y] unescape_plain [of ?y EncPath] pc by simp
  have sl: "scheme_len 0 (base @ ?y @ ?q) = Some n" "n < length base"
    using scheme_len_app [OF n n0, of "?y @ ?q"] by simp_all
  have dt: "drop (Suc n) (base @ ?y @ ?q) = ?rest @ ?y @ ?q" "take n (base @ ?y @ ?q) = take n base"
    using sl(2) by simp_all
  have cutq: "split_query (?rest @ ?y @ ?q) = (?rest @ ?y, q)"
  proof -
    have nq: "CHR ''?'' \<notin> set (?rest @ ?y)" using clean(1) pc(1) by (auto dest: in_set_dropD)
    show ?thesis
      using cut_append [OF nq, of q] cut_none [OF nq] by (simp add: split_query_def)
  qed
  have ctl': "\<not> has_ctl (base @ ?y @ ?q)"
    using ctl pc(4) q(1) by (auto simp: has_ctl_def)
  have star': "base @ ?y @ ?q \<noteq> ''*''" using star ctl n n0 by (cases base) auto
  have "parse_nofrag (base @ ?y @ ?q) =
      Some \<lparr>u_scheme = to_lower (take n base), u_host = h, u_path = u_path u @ ?y, u_raw_path = r @ ?y, u_raw_query = q, u_fragment = ''''\<rparr>"
    using ctl' star' sl(1) n0 dt cutq hr' path' has_prefix_app [OF slash]
    by (simp add: parse_nofrag_def Let_def)
  moreover have "CHR ''#'' \<notin> set (base @ ?y @ ?q)" using clean(2) pc(2) q(2) by auto
  ultimately show ?thesis
    using cut_none [of "CHR ''#''" "base @ ?y @ ?q"] u by (cases u) (simp add: url_parse_def)
qed

section \<open>A written file is a managed file\<close>

text \<open>The addresses the program can serve: printable, without query and fragment marks.\<close>

definition clean_base :: "string \<Rightarrow> bool" where
  "clean_base b \<longleftrightarrow> http_base b \<and> list_all graphic b \<and> CHR ''?'' \<notin> set b \<and> CHR ''#'' \<notin> set b"

lemma trim_space_newline:
  assumes "list_all graphic s" and "s \<noteq> []"
  shows "trim_space (s @ [newline]) = s"
proof -
  obtain c t where s: "s = c # t" using assms(2) by (cases s) auto
  obtain x y where r: "rev s = x # y" using assms(2) by (cases "rev s") auto
  then have "x \<in> set s" by (metis list.set_intros(1) set_rev)
  then have x: "graphic x" using assms(1) by (simp add: list_all_iff)
  have "rspace_len (newline # rev s) = 1" by (simp add: rspace_len_def newline_def)
  then have "trim_rspace (newline # rev s) = trim_rspace (rev s)"
    by (subst trim_rspace.simps) simp
  also have "\<dots> = rev s" unfolding r by (rule trim_rspace_graphic [OF x])
  finally have "trim_rspace (newline # rev s) = rev s" .
  moreover have "trim_left_space (s @ [newline]) = s @ [newline]"
    using assms(1) by (simp add: s trim_left_space_graphic)
  ultimately show ?thesis by (simp add: trim_space_def)
qed

lemma graphic_not_blank: "graphic c \<Longrightarrow> c \<notin> set blank_chars"
  by (auto simp: graphic_def blank_chars_def newline_def)

lemma graphic_no_blank: "list_all graphic v \<Longrightarrow> \<not> contains_any v blank_chars"
  unfolding contains_any_def list_ex_iff list_all_iff using graphic_not_blank by blast

lemma valid_sha1_hex: "valid_sha1 v \<longleftrightarrow> length v = 40 \<and> list_all is_hex v"
  using hex_decode_Some_iff [of v] by (auto simp: valid_sha1_def)

lemma not_hex_marks:
  "\<not> is_hex CHR ''#''" "\<not> is_hex CHR ''&''" "\<not> is_hex CHR '';''" "\<not> is_hex CHR ''%''"
  "\<not> is_hex CHR ''+''" "\<not> is_hex CHR ''=''"
  by code_simp+

lemma hex_no_ctl: "list_all is_hex v \<Longrightarrow> \<not> has_ctl v"
  using is_hex_graphic by (fastforce simp: has_ctl_def list_ex_iff list_all_iff graphic_def)

lemma hex_marks:
  "list_all is_hex v \<Longrightarrow> CHR ''#'' \<notin> set v \<and> CHR ''&'' \<notin> set v \<and> CHR '';'' \<notin> set v \<and> CHR ''%'' \<notin> set v \<and>
     CHR ''+'' \<notin> set v \<and> CHR ''='' \<notin> set v"
  using not_hex_marks by (auto simp: list_all_iff)

lemma is_hex_no_slash: "list_all is_hex v \<Longrightarrow> slash \<notin> set v"
  by (auto simp: list_all_iff is_hex_def hex_val_def)

lemma split_on_last: "c \<notin> set b \<Longrightarrow> split_on c (a @ c # b) = split_on c a @ [b]"
proof (induction a)
  case Nil
  then show ?case by (simp add: split_on_no_sep)
next
  case (Cons x a)
  then show ?case
    by (cases "split_on c a"; cases "split_on c (a @ c # b)") (auto split: list.splits)
qed

lemma split_on_last2:
  "c \<notin> set a \<Longrightarrow> c \<notin> set b \<Longrightarrow> \<exists>xs. split_on c (s @ c # a @ c # b) = xs @ [a, b]"
  using split_on_last [of c b "s @ c # a"] split_on_last [of c a s] by simp

text \<open>The last two segments of a path, whatever slashes are in front.\<close>

lemma trimmed_tail:
  assumes "a \<noteq> []" "slash \<notin> set a" "b \<noteq> []" "slash \<notin> set b"
  shows "\<exists>xs. split_on slash (trim_set (s @ slash # a @ slash # b) ''/'') = xs @ [a, b]"
proof -
  let ?s = "s @ slash # a @ slash # b"
  have tl: "trim_left ?s ''/'' = (if list_all (\<lambda>c. c = slash) s then a @ slash # b else trim_left s ''/'' @ slash # a @ slash # b)"
  proof (cases "list_all (\<lambda>c. c = slash) s")
    case True
    then have "dropWhile (\<lambda>c. c = slash) ?s = dropWhile (\<lambda>c. c = slash) (a @ slash # b)"
      by (simp add: list_all_iff dropWhile_append2)
    also have "\<dots> = a @ slash # b" using assms(1,2) by (cases a) auto
    finally show ?thesis using True by (simp add: trim_left_def)
  next
    case False
    then obtain x where "x \<in> set s" "x \<noteq> slash" by (auto simp: list_all_iff)
    then have "dropWhile (\<lambda>c. c = slash) ?s = dropWhile (\<lambda>c. c = slash) s @ slash # a @ slash # b"
      by (intro dropWhile_append1) auto
    then show ?thesis using False by (simp add: trim_left_def)
  qed
  have "last b \<noteq> slash" using assms(3,4) last_in_set by metis
  then have tr: "trim_right (t @ slash # b) ''/'' = t @ slash # b" for t
    using assms(3) by (intro trim_right_id) auto
  show ?thesis
  proof (cases "list_all (\<lambda>c. c = slash) s")
    case True
    then have "trim_set ?s ''/'' = a @ slash # b" using tl tr [of a] by (simp add: trim_set_def)
    then show ?thesis using split_on_append_sep [OF assms(2), of b] split_on_no_sep [OF assms(4)] by simp
  next
    case False
    then have "trim_set ?s ''/'' = trim_left s ''/'' @ slash # a @ slash # b"
      using tl tr [of "trim_left s ''/'' @ slash # a"] by (simp add: trim_set_def)
    then show ?thesis using split_on_last2 [OF assms(2,4)] by simp
  qed
qed

lemma valid_encoded_app: "valid_encoded m (s @ t) \<longleftrightarrow> valid_encoded m s \<and> valid_encoded m t"
  by (simp add: valid_encoded_def)

lemma slash_plain: "\<not> should_escape slash EncPath" "slash \<noteq> CHR '' ''"
  by code_simp+

lemma path_char_plain: "unreserved c \<or> c = slash \<Longrightarrow> \<not> should_escape c EncPath \<and> c \<noteq> CHR '' ''"
  using should_escape_unreserved [of c EncPath] space_not_unreserved slash_plain by blast

lemma path_chars_valid: "list_all (\<lambda>c. unreserved c \<or> c = slash) p \<Longrightarrow> valid_encoded EncPath p"
  unfolding valid_encoded_def list_all_iff using path_char_plain by blast

lemma escape_path_id: "list_all (\<lambda>c. unreserved c \<or> c = slash) p \<Longrightarrow> escape EncPath p = p"
proof (induction p)
  case (Cons c p)
  then have "\<not> should_escape c EncPath" "c \<noteq> CHR '' ''" using path_char_plain [of c] by simp_all
  with Cons show ?case by (simp add: escape_def)
qed (simp add: escape_def)

lemma escape_path_chars:
  "list_all (\<lambda>c. unreserved c \<or> c = slash) p \<Longrightarrow> escape EncPath (s @ p) = escape EncPath s @ p"
  using escape_path_id [of p] by (simp add: escape_def)

lemma empty_no_ctl: "\<not> has_ctl ''''"
  by (simp add: has_ctl_def)

lemma info_hash_plain: "has_ctl (''info_hash='' @ v) = has_ctl v"
proof -
  have "\<not> has_ctl ''info_hash=''" by code_simp
  then show ?thesis by (simp only: has_ctl_app simp_thms)
qed

text \<open>The address in a written file: what it parses to, and its query.\<close>

definition link_query :: "string \<Rightarrow> string" where
  "link_query ih = (if ih = '''' then '''' else ''info_hash='' @ to_lower ih)"

definition link_path :: "string \<Rightarrow> string" where
  "link_path sha = ''redirect/'' @ to_lower sha"

definition strm_link :: "string \<Rightarrow> string \<Rightarrow> string \<Rightarrow> string" where
  "strm_link b sha ih = b @ slash # link_path sha @ (if link_query ih = '''' then '''' else CHR ''?'' # link_query ih)"

lemma valid_sha1_lower:
  "valid_sha1 sha \<Longrightarrow> list_all is_hex (to_lower sha) \<and> length (to_lower sha) = 40 \<and> valid_sha1 (to_lower sha)"
  using lower_hex_lower_char lower_hex_is_hex by (auto simp: valid_sha1_hex list_all_iff to_lower_def)

lemma strm_link_form:
  assumes "ih = '''' \<or> valid_sha1 ih"
  shows "b @ ''/redirect/'' @ to_lower sha @
    (if ih \<noteq> '''' then ''?info_hash='' @ query_escape (to_lower ih) else '''') = strm_link b sha ih"
proof -
  have "ih \<noteq> '''' \<Longrightarrow> query_escape (to_lower ih) = to_lower ih"
    using assms valid_sha1_lower [of ih] escape_unreserved [of "to_lower ih" EncQuery] is_hex_unreserved
    by (auto simp: query_escape_def list_all_iff)
  then show ?thesis by (simp add: strm_link_def link_path_def link_query_def)
qed

lemma strm_link_parse:
  assumes base: "clean_base b" "url_parse b = Some u" and sha: "valid_sha1 sha" and ih: "ih = '''' \<or> valid_sha1 ih"
  shows "list_all graphic (strm_link b sha ih)"
    "url_parse (strm_link b sha ih) = Some (u\<lparr>u_path := u_path u @ slash # link_path sha,
       u_raw_path := u_raw_path u @ slash # link_path sha, u_raw_query := link_query ih\<rparr>)"
    "parse_query (link_query ih) = ((if ih = '''' then [] else [(''info_hash'', to_lower ih)]), True)"
    "list_all (\<lambda>c. unreserved c \<or> c = slash) (link_path sha)"
proof -
  let ?h = "to_lower sha" and ?i = "to_lower ih"
  have hex: "list_all is_hex ?h" using valid_sha1_lower [OF sha] by blast
  have ihex: "ih \<noteq> '''' \<Longrightarrow> list_all is_hex ?i" using ih valid_sha1_lower by blast
  show "list_all graphic (strm_link b sha ih)"
    using base hex ihex is_hex_graphic
    by (auto simp: strm_link_def link_path_def link_query_def clean_base_def list_all_iff graphic_def)
  show p: "list_all (\<lambda>c. unreserved c \<or> c = slash) (link_path sha)"
    using hex is_hex_unreserved by (auto simp: link_path_def list_all_iff unreserved_def is_alnum_def)
  from base have u: "u_host u \<noteq> ''''" "u_scheme u = ''http'' \<or> u_scheme u = ''https''"
    by (auto simp: clean_base_def http_base_def)
  have q: "\<not> has_ctl (link_query ih)" "CHR ''#'' \<notin> set (link_query ih)" "CHR ''&'' \<notin> set (link_query ih)"
      "CHR '';'' \<notin> set (link_query ih)"
    using ihex hex_no_ctl [of ?i] hex_marks [of ?i] info_hash_plain [of ?i] empty_no_ctl by (auto simp: link_query_def)
  show "url_parse (strm_link b sha ih) = Some (u\<lparr>u_path := u_path u @ slash # link_path sha,
       u_raw_path := u_raw_path u @ slash # link_path sha, u_raw_query := link_query ih\<rparr>)"
    unfolding strm_link_def
    by (rule url_parse_below [OF base(2) u(1) _ _ _ p q(1,2)]) (use u(2) base in \<open>auto simp: clean_base_def\<close>)
  show "parse_query (link_query ih) = ((if ih = '''' then [] else [(''info_hash'', ?i)]), True)"
  proof (cases "ih = ''''")
    case False
    have "parse_pair (''info_hash'' @ CHR ''='' # ?i) = Some (''info_hash'', ?i)"
      by (rule parse_pair_plain) (use ihex False hex_marks [of ?i] in auto)
    then show ?thesis using parse_query_single [of "link_query ih"] q(3,4) False by (simp add: link_query_def)
  qed (simp add: parse_query_def link_query_def)
qed

lemma redirect_sha1_written:
  assumes base: "clean_base b" and sha: "valid_sha1 sha" and ih: "ih = '''' \<or> valid_sha1 ih"
  shows "redirect_sha1 (b @ ''/redirect/'' @ to_lower sha @
     (if ih \<noteq> '''' then ''?info_hash='' @ query_escape (to_lower ih) else '''') @ [newline]) = Some (to_lower sha)"
proof -
  let ?h = "to_lower sha" and ?v = "strm_link b sha ih" and ?p = "link_path sha"
  note hex = valid_sha1_lower [OF sha]
  from base obtain u where u: "url_parse b = Some u" "u_host u \<noteq> ''''" "u_scheme u = ''http'' \<or> u_scheme u = ''https''"
      "u_fragment u = ''''"
    by (auto simp: clean_base_def http_base_def split: option.splits)
  note link = strm_link_parse [OF base u(1) sha ih]
  have v: "?v \<noteq> ''''" by (simp add: strm_link_def)
  have trim: "trim_space (?v @ [newline]) = ?v"
    using link(1) v by (rule trim_space_newline)
  have noblank: "\<not> contains_any ?v blank_chars"
    using link(1) by (rule graphic_no_blank)
  let ?u = "u\<lparr>u_path := u_path u @ slash # ?p, u_raw_path := u_raw_path u @ slash # ?p, u_raw_query := link_query ih\<rparr>"
  have esc: "\<exists>s. escaped_path ?u = s @ slash # ''redirect'' @ slash # ?h"
    using path_chars_valid [of "slash # ?p"] escape_path_chars [of "slash # ?p" "u_path u"] link(4)
    by (auto simp: escaped_path_def valid_encoded_app link_path_def)
  then obtain xs where segs: "split_on slash (trim_set (escaped_path ?u) ''/'') = xs @ [''redirect'', ?h]"
    using trimmed_tail [of "''redirect''" ?h] is_hex_no_slash [of ?h] hex by fastforce
  have un: "unescape EncSegment ?h = Some ?h"
    using hex by (intro unescape_plain) (use hex_marks [of ?h] in auto)
  have "redirect_sha1 (?v @ [newline]) = Some ?h"
    unfolding redirect_sha1_def trim Let_def link(2)
    using noblank v u link(3) segs un hex ih valid_sha1_lower [of ih]
    by (auto simp: query_values_def)
  then show ?thesis using strm_link_form [OF ih, of b sha] by (metis append_assoc)
qed

section \<open>What a write changes\<close>

text \<open>Making directories leaves every entry as it is and adds directories only.\<close>

lemma ensure_directories_keeps:
  "map_of fs q = Some e \<Longrightarrow> map_of (snd (ensure_directories cur xs fs)) q = Some e"
proof (induction cur xs arbitrary: fs rule: ensure_directories.induct)
  case (2 cur x xs)
  show ?case
  proof (cases "map_of fs (cur @ [x])")
    case None
    with "2.prems" have "map_of (AList.update (cur @ [x]) Directory fs) q = Some e"
      by (auto simp: update_conv')
    with None show ?thesis using "2.IH"(1) [OF refl None] by (simp add: Let_def)
  next
    case (Some a)
    with 2 show ?thesis by (cases a) auto
  qed
qed simp

lemma ensure_directories_new:
  "map_of (snd (ensure_directories cur xs fs)) q = Some e \<Longrightarrow> map_of fs q = Some e \<or> e = Directory"
proof (induction cur xs arbitrary: fs rule: ensure_directories.induct)
  case (2 cur x xs)
  show ?case
  proof (cases "map_of fs (cur @ [x])")
    case None
    from None "2.prems" have "map_of (AList.update (cur @ [x]) Directory fs) q = Some e \<or> e = Directory"
      using "2.IH"(1) by (auto simp: Let_def)
    then show ?thesis by (auto simp: update_conv' split: if_splits)
  next
    case (Some a)
    with 2 show ?thesis by (cases a) auto
  qed
qed simp

lemma atomic_write_ok:
  "atomic_write target content fs = (Inr u, fs') \<Longrightarrow> map_of fs' target = Some (Regular content)"
  by (auto simp: atomic_write_def io_bind_eq_Inr update_conv')

lemma atomic_write_other:
  assumes "map_of fs q = Some e" and "q \<noteq> target"
  shows "map_of (snd (atomic_write target content fs)) q = Some e"
proof -
  let ?m = "ensure_directories [] (butlast target) fs"
  have "map_of (snd ?m) q = Some e" using assms(1) by (rule ensure_directories_keeps)
  with assms(2) show ?thesis
    by (auto simp: atomic_write_def io_bind_def update_conv' split: prod.splits sum.splits)
qed

lemma strm_write_Inr:
  assumes "strm_write s rel sha ih fs = (Inr p, fs')"
  obtains clean where "clean_relative_path rel = Inr clean" and "p = path_join [ss_root s, clean]"
    and "valid_sha1 (to_lower (trim_space sha))"
    and "to_lower (trim_space ih) = '''' \<or> valid_sha1 (to_lower (trim_space ih))"
    and "map_of fs' (file_segs clean) = Some (Regular (strm_content s (to_lower (trim_space sha)) (to_lower (trim_space ih))))"
  using assms
  by (fastforce simp: strm_write_def Let_def io_bind_eq_Inr dest: atomic_write_ok
      split: if_splits sum.splits option.splits fs_entry.splits)

definition managed_entry :: "fs_entry \<Rightarrow> bool" where
  "managed_entry e = (case e of
     Regular c \<Rightarrow> length c \<le> max_strm_size \<and> redirect_sha1 c \<noteq> None | _ \<Rightarrow> False)"

lemma snd_bind_ret: "snd (io_bind m (\<lambda>_. io_ret x) w) = snd (m w)"
  by (simp add: io_bind_def split: prod.splits sum.splits)

lemma strm_write_run:
  assumes "map_of fs q = Some e" and "\<not> managed_entry e"
  shows "snd (strm_write s rel sha ih fs) = fs \<or>
     (\<exists>target content. snd (strm_write s rel sha ih fs) = snd (atomic_write target content fs) \<and> q \<noteq> target)"
proof (cases "clean_relative_path rel")
  case (Inr clean)
  have run: "\<exists>content. snd (strm_write s rel sha ih fs) = fs \<or>
      snd (strm_write s rel sha ih fs) = snd (atomic_write (file_segs clean) content fs) \<and> q \<noteq> file_segs clean"
    using assms
    by (cases "map_of fs (file_segs clean)")
       (auto simp: strm_write_def managed_entry_def Let_def Inr snd_bind_ret split: fs_entry.splits)
  then show ?thesis by blast
qed (simp add: strm_write_def Let_def)

lemma strm_write_foreign:
  "map_of fs q = Some e \<Longrightarrow> \<not> managed_entry e \<Longrightarrow> map_of (snd (strm_write s rel sha ih fs)) q = Some e"
  using strm_write_run [of fs q e s rel sha ih] atomic_write_other [of fs q e] by auto

text \<open>C16. The STRM writer never changes an entry of the library that is not one of its own files: whatever
  a write is asked for and however it ends, a directory, a special file, an oversized file or a file that
  does not hold a URL of the redirect handler is afterwards what it was.\<close>

theorem strm_write_keeps_foreign_files:
  assumes "map_of fs q = Some e" and "\<not> managed_entry e"
  shows "map_of (snd (strm_write s rel sha ih fs)) q = Some e"
  using assms by (rule strm_write_foreign)

definition sample_files :: files where
  "sample_files = [([''Film''], Directory), ([''Film'', ''a.strm''], Regular ''https://example.com/x''),
     ([''Film'', ''b.strm''], Regular (''http://nas:8080/redirect/'' @ replicate 40 CHR ''a'' @ [newline]))]"

definition sample_strm :: strm_service where
  "sample_strm = \<lparr>ss_root = ''/library'', ss_base = ''http://nas:8080''\<rparr>"

theorem strm_write_keeps_foreign_files_witness:
  "map_of (snd (strm_write sample_strm ''Film/a.strm'' (replicate 40 CHR ''b'') '''' sample_files)) [''Film'', ''a.strm''] =
     Some (Regular ''https://example.com/x'')"
  by (rule strm_write_keeps_foreign_files) code_simp+

text \<open>An entry that holds a URL of the redirect handler; a write keeps it one.\<close>

definition redirect_at :: "files \<Rightarrow> string list \<Rightarrow> bool" where
  "redirect_at fs q \<longleftrightarrow> (\<exists>c. map_of fs q = Some (Regular c) \<and> redirect_sha1 c \<noteq> None)"

lemma strm_content_redirect:
  "clean_base (ss_base s) \<Longrightarrow> valid_sha1 sha \<Longrightarrow> ih = '''' \<or> valid_sha1 ih \<Longrightarrow>
     redirect_sha1 (strm_content s sha ih) = Some (to_lower sha)"
  using redirect_sha1_written [of "ss_base s" sha ih] by (simp add: strm_content_def)

lemma atomic_write_redirects:
  assumes "redirect_sha1 content \<noteq> None" and "redirect_at fs q"
  shows "redirect_at (snd (atomic_write target content fs)) q"
proof -
  obtain r fs1 where e: "ensure_directories [] (butlast target) fs = (r, fs1)" by fastforce
  have "redirect_at fs1 q"
    using assms(2) ensure_directories_keeps [of fs q _ "[]" "butlast target"] by (auto simp: redirect_at_def e)
  then show ?thesis
    using assms(1) by (cases r) (auto simp: atomic_write_def io_bind_def e redirect_at_def update_conv')
qed

lemma strm_write_redirects:
  assumes "clean_base (ss_base s)" and "redirect_at fs q"
  shows "redirect_at (snd (strm_write s rel sha ih fs)) q"
proof -
  let ?sha = "to_lower (trim_space sha)" and ?ih = "to_lower (trim_space ih)"
  have "snd (strm_write s rel sha ih fs) = fs \<or> valid_sha1 ?sha \<and> (?ih = '''' \<or> valid_sha1 ?ih) \<and>
      (\<exists>target. snd (strm_write s rel sha ih fs) = snd (atomic_write target (strm_content s ?sha ?ih) fs))"
    unfolding strm_write_def Let_def
    by (cases "clean_relative_path rel") (auto simp: snd_bind_ret split: option.splits fs_entry.splits)
  then show ?thesis
    using assms(2) atomic_write_redirects [OF _ assms(2)] strm_content_redirect [OF assms(1), of ?sha ?ih] by auto
qed

lemma strm_write_redirect_target:
  assumes "clean_base (ss_base s)" and "strm_write s rel sha ih fs = (Inr p, fs')"
  shows "\<exists>target. clean_relative_path rel = Inr target \<and> redirect_at fs' (file_segs target)"
  using assms(2) by (rule strm_write_Inr) (auto simp: redirect_at_def strm_content_redirect [OF assms(1)])

text \<open>A file the service has written is one it recognises: for a service made from a printable address
  without query and fragment marks, after a write that succeeds the file at the target holds exactly the
  URL of the redirect handler, reading the hash back from it gives the hash that was asked for.\<close>

lemma written_strm_is_managed:
  assumes svc: "new_strm_service cwd dir base = Inr s" and clean: "clean_base (ss_base s)"
    and run: "strm_write s rel sha ih fs = (Inr p, fs')"
  shows "\<exists>target c. strm_path s rel = Inr p \<and> clean_relative_path rel = Inr target \<and>
     map_of fs' (file_segs target) = Some (Regular c) \<and> redirect_sha1 c = Some (to_lower (trim_space sha))"
proof -
  from run obtain target where t: "clean_relative_path rel = Inr target" "p = path_join [ss_root s, target]"
    and sha: "valid_sha1 (to_lower (trim_space sha))"
    and ih: "to_lower (trim_space ih) = '''' \<or> valid_sha1 (to_lower (trim_space ih))"
    and cont: "map_of fs' (file_segs target) = Some (Regular (strm_content s (to_lower (trim_space sha)) (to_lower (trim_space ih))))"
    by (rule strm_write_Inr)
  have "redirect_sha1 (strm_content s (to_lower (trim_space sha)) (to_lower (trim_space ih))) =
      Some (to_lower (trim_space sha))"
    using strm_content_redirect [OF clean sha ih] by simp
  with t cont show ?thesis by (auto simp: strm_path_def)
qed

section \<open>Moving the library to another address\<close>

lemma normalize_prefix_Inr:
  "normalize_prefix v = Inr b \<Longrightarrow> http_base b \<and> b \<noteq> '''' \<and> \<not> contains_any b blank_chars"
  by (auto simp: normalize_prefix_def Let_def split: if_splits)

lemma graphic_content:
  assumes "list_all graphic b" and "valid_sha1 sha" and "ih = '''' \<or> valid_sha1 ih"
  shows "list_all graphic (b @ ''/redirect/'' @ to_lower sha @
     (if ih \<noteq> '''' then ''?info_hash='' @ query_escape (to_lower ih) else ''''))"
proof -
  have "list_all is_hex (to_lower sha)" "ih \<noteq> '''' \<Longrightarrow> list_all is_hex (to_lower ih)"
    using assms(2,3) lower_hex_lower_char lower_hex_is_hex
    by (auto simp: valid_sha1_hex list_all_iff to_lower_def)
  moreover from this have "ih \<noteq> '''' \<Longrightarrow> query_escape (to_lower ih) = to_lower ih"
    using escape_unreserved [of "to_lower ih" EncQuery] is_hex_unreserved
    by (auto simp: query_escape_def list_all_iff)
  ultimately show ?thesis
    using assms(1) is_hex_graphic by (auto simp: list_all_iff graphic_def)
qed

lemma replaced_strm_content:
  assumes gr: "list_all graphic (ss_base s)" and sha: "valid_sha1 sha" and ih: "ih = '''' \<or> valid_sha1 ih"
    and len: "length (strm_content s sha ih) \<le> max_strm_size"
  shows "replaced_content (ss_base s) new_base (strm_content s sha ih) =
    Some (strm_content (s\<lparr>ss_base := new_base\<rparr>) sha ih)"
proof -
  let ?t = "''/redirect/'' @ to_lower sha @ (if ih \<noteq> '''' then ''?info_hash='' @ query_escape (to_lower ih) else '''')"
  have g: "list_all graphic (ss_base s @ ?t)" by (rule graphic_content [OF gr sha ih])
  have c: "strm_content s sha ih = (ss_base s @ ?t) @ [newline]" by (simp add: strm_content_def)
  have t: "trim_space ((ss_base s @ ?t) @ [newline]) = ss_base s @ ?t"
    using g by (rule trim_space_newline) simp
  have "has_prefix ?t ''/''" by (simp add: has_prefix_iff)
  then show ?thesis
    using len graphic_no_blank [OF g] unfolding replaced_content_def c t Let_def
    by (auto simp: trim_prefix_def strm_content_def)
qed

lemma map_of_replace_entry:
  "map_of (map (replace_entry a b) fs) q = map_option (\<lambda>e. snd (replace_entry a b (q, e))) (map_of fs q)"
proof (induction fs)
  case (Cons e fs)
  obtain p x where e: "e = (p, x)" by fastforce
  have "fst (replace_entry a b (p, x)) = p"
    by (auto simp: replace_entry_def split: fs_entry.splits option.splits)
  then show ?case using Cons by (cases "replace_entry a b (p, x)") (auto simp: e)
qed simp

text \<open>Moving the library to another address: if replacing the prefix of the service's address succeeds, then a
  file that holds what the service wrote for a hash now holds what a service at the new address
  would write for it, and whatever is not a regular STRM file is unchanged.\<close>

lemma replace_prefix_moves_files:
  assumes run: "replace_prefix (ss_base s) new_value fs = (Inr n, fs')"
    and old: "normalize_prefix (ss_base s) = Inr (ss_base s)" "list_all graphic (ss_base s)"
    and sha: "valid_sha1 sha" and ih: "ih = '''' \<or> valid_sha1 ih"
    and len: "length (strm_content s sha ih) \<le> max_strm_size"
  shows "\<exists>new_base. normalize_prefix new_value = Inr new_base \<and>
    (\<forall>q. is_strm_entry (q, Regular (strm_content s sha ih)) \<and> map_of fs q = Some (Regular (strm_content s sha ih)) \<longrightarrow>
       map_of fs' q = Some (Regular (strm_content (s\<lparr>ss_base := new_base\<rparr>) sha ih))) \<and>
    (\<forall>q e. map_of fs q = Some e \<and> \<not> is_strm_entry (q, e) \<longrightarrow> map_of fs' q = Some e)"
proof -
  from run old(1) obtain new_base where new: "normalize_prefix new_value = Inr new_base"
    and fs': "fs' = map (replace_entry (ss_base s) new_base) fs"
    by (auto simp: replace_prefix_def split: sum.splits if_splits)
  show ?thesis
    using replaced_strm_content [OF old(2) sha ih len]
    by (intro exI [of _ new_base] conjI allI impI new)
       (auto simp: fs' map_of_replace_entry replace_entry_def split: fs_entry.splits)
qed

end
