(* ===== verification/Ingest_Service.thy ===== *)
theory Ingest_Service
  imports Offline_Tasks Scan Scan_Store Strm_Store
begin

text \<open>
  The ingest service (\<open>internal/ingest/service.go\<close>): a magnet link becomes an offline task in the
  cloud, the finished task is scanned, the scan is stored and its STRM files are written. Everything runs over
  \<open>Service_World\<close>.

  The job a context belongs to (\<open>withJobGID\<close>) is the argument \<open>gid\<close>. Work the code leaves to a
  goroutine of its own (the rest of a scan whose target was found, emptying the recycle bin) runs at once, and
  its errors are dropped as the code only logs them. Of two ready branches of a \<open>select\<close> Go
  takes any: \<open>scan_first\<close> says whether the end of a scan is seen before the target it has found. Calls of
  the cloud and of the database are not refused because the context has ended.
\<close>

section \<open>Tasks in the cloud\<close>

definition results_by_hash :: "create_result list \<Rightarrow> string \<Rightarrow> create_result option" where
  "results_by_hash rs = fold (\<lambda>r m. if to_lower (c_info_hash r) = '''' then m else m(to_lower (c_info_hash r) := Some r))
     rs (\<lambda>_. None)"

text \<open>A missing entry of the map is Go's zero value.\<close>

definition result_of :: "(string \<Rightarrow> create_result option) \<Rightarrow> string \<Rightarrow> create_result" where
  "result_of m h = (case m h of None \<Rightarrow> empty_create_result | Some r \<Rightarrow> r)"

fun confirmed :: "(string \<Rightarrow> create_result option) \<Rightarrow> string list \<Rightarrow> err option" where
  "confirmed m [] = None"
| "confirmed m (x # xs) =
     (case parse_info_hash x of
       Inl e \<Rightarrow> Some e
     | Inr h \<Rightarrow> if m h = None then Some (Msg ''no result for task'') else confirmed m xs)"

definition create_offline_tasks :: "'p service \<Rightarrow> string list \<Rightarrow>
    (('p, 'z) world_scheme, string \<Rightarrow> create_result option) io" where
  "create_offline_tasks s magnets =
     io_bind (create_tasks s magnets) (\<lambda>results.
       case confirmed (results_by_hash results) magnets of
         Some e \<Rightarrow> io_fail e | None \<Rightarrow> io_ret (results_by_hash results))"

definition find_task_with_max_age :: "nat \<Rightarrow> 'p service \<Rightarrow> string \<Rightarrow> int \<Rightarrow> (('p, 'z) world_scheme, task option) io" where
  "find_task_with_max_age fuel s h max_age =
     io_bind (query fuel (sv_provider s) [h] max_age) (\<lambda>m. io_ret (m (to_lower h)))"

text \<open>\<open>findTaskWithRetry\<close> asks until it gets an answer; between two attempts something happens.\<close>

fun find_task_retry :: "nat \<Rightarrow> 'p service \<Rightarrow> string \<Rightarrow> int \<Rightarrow> 'p event list \<Rightarrow> (('p, 'z) world_scheme, task option) io" where
  "find_task_retry fuel s h interval evs w =
     (case find_task_with_max_age fuel s h interval w of
       (Inr t, w1) \<Rightarrow> (Inr t, w1\<lparr>w_events := evs\<rparr>)
     | (Inl _, w1) \<Rightarrow>
         (case w_ctx w1 of
           Some e \<Rightarrow> (Inl e, w1\<lparr>w_events := evs\<rparr>)
         | None \<Rightarrow> (case evs of
             [] \<Rightarrow> (Inl CtxDeadlineExceeded, w1\<lparr>w_events := [], w_ctx := Some CtxDeadlineExceeded\<rparr>)
           | e # es \<Rightarrow> find_task_retry fuel s h interval es
               (run_event fuel s e (w1\<lparr>w_now := w_now w1 + interval\<rparr>)))))"

declare find_task_retry.simps [simp del]

definition find_task_with_retry :: "nat \<Rightarrow> 'p service \<Rightarrow> string \<Rightarrow> int \<Rightarrow> (('p, 'z) world_scheme, task option) io" where
  "find_task_with_retry fuel s h interval = (\<lambda>w. find_task_retry fuel s h interval (w_events w) w)"

section \<open>Deleting what a task has produced\<close>

definition below_work_dir :: "'p service \<Rightarrow> remote_node \<Rightarrow> bool" where
  "below_work_dir s n = (n_id n = sv_work_dir s \<or> list_ex (\<lambda>p. p_id p = sv_work_dir s) (n_parents n))"

definition delete_node :: "'p service \<Rightarrow> (string \<Rightarrow> string \<Rightarrow> ('p, unit) io) \<Rightarrow> int \<Rightarrow> remote_node \<Rightarrow> (('p, 'z) world_scheme, unit) io" where
  "delete_node s del artifact n =
     io_bind (wrap_err ''delete source'' (on_prov (del (n_id n) (n_parent_id n)))) (\<lambda>_.
     io_bind (wrap_err ''mark deleted'' (on_db (mark_artifact_deleted artifact))) (\<lambda>_.
     empty_recycle_bin s))"

definition delete_completed_task_files :: "'p service \<Rightarrow> string \<Rightarrow> (('p, 'z) world_scheme, unit) io" where
  "delete_completed_task_files s gid =
     (case pv_delete_file (sv_provider s) of
       None \<Rightarrow> io_fail (Msg ''provider cannot delete'')
     | Some del \<Rightarrow>
         io_bind (on_db (task_cleanup_info gid)) (\<lambda>(artifact, delete_file_id, wp_path_id).
           if trim_space delete_file_id = '''' then io_fail (Msg ''no delete_file_id'')
           else if trim_space wp_path_id \<noteq> trim_space (sv_work_dir s) then io_fail (Msg ''not this work dir'')
           else io_try (on_prov (pv_folder_info (sv_provider s) (trim_space delete_file_id))) (\<lambda>r. case r of
               Inl e \<Rightarrow> if errors_is e ErrOfflineResultNotFound then on_db (mark_artifact_deleted artifact)
                 else io_fail (Wrap ''read source'' e)
             | Inr n \<Rightarrow> if \<not> below_work_dir s n then io_fail (Msg ''not below the work dir'')
                 else delete_node s del artifact n)))"

definition delete_offline_task_for_rebuild :: "'p service \<Rightarrow> task \<Rightarrow> (('p, 'z) world_scheme, unit) io" where
  "delete_offline_task_for_rebuild s t =
     (let delete_source = (t_wp_path_id t \<noteq> '''' \<and> t_wp_path_id t = sv_work_dir s)
      in if delete_source \<and> t_job_gid t \<noteq> '''' then
           io_try (delete_completed_task_files s (t_job_gid t)) (\<lambda>r. case r of
               Inr _ \<Rightarrow> cancel_task s (t_info_hash t) False
             | Inl _ \<Rightarrow> cancel_task s (t_info_hash t) delete_source)
         else cancel_task s (t_info_hash t) delete_source)"

definition replace_conflicting_offline_task :: "nat \<Rightarrow> 'p service \<Rightarrow> string \<Rightarrow> string \<Rightarrow> (('p, 'z) world_scheme, unit) io" where
  "replace_conflicting_offline_task fuel s magnet h =
     io_bind (on_offline (invalidate [h])) (\<lambda>_.
     io_try (find_task_with_max_age fuel s h 0) (\<lambda>r.
       case (case r of
           Inl e \<Rightarrow> if errors_is e CtxCanceled \<or> errors_is e CtxDeadlineExceeded then Inl e else Inr None
         | Inr t \<Rightarrow> Inr t) of
         Inl e \<Rightarrow> io_fail e
       | Inr found \<Rightarrow>
           (let t = (case found of None \<Rightarrow> empty_task\<lparr>t_info_hash := h\<rparr> | Some t \<Rightarrow> t)
            in io_bind (wrap_err ''delete duplicate'' (delete_offline_task_for_rebuild s t)) (\<lambda>_.
               io_bind (wrap_err ''create again'' (create_offline_tasks s [magnet])) (\<lambda>m.
                 if c_created (result_of m h) then io_ret ()
                 else io_fail (Msg ''create again''))))))"

definition cleanup_timed_out_task :: "'p service \<Rightarrow> string \<Rightarrow> (('p, 'z) world_scheme, unit) io" where
  "cleanup_timed_out_task s h = wrap_err ''delete timed out task'' (cancel_task s h True)"

section \<open>Preparing a batch\<close>

type_synonym prepared_task = "task \<times> bool"

fun parse_batch :: "string list \<Rightarrow> (string \<times> string) list \<Rightarrow> err + (string \<times> string) list" where
  "parse_batch [] acc = Inr acc"
| "parse_batch (x # xs) acc =
     (case parse_info_hash x of
       Inl e \<Rightarrow> Inl e
     | Inr h \<Rightarrow> parse_batch xs (if h \<in> fst ` set acc then acc else acc @ [(h, x)]))"

fun sort_results :: "(string \<Rightarrow> create_result option) \<Rightarrow> string list \<Rightarrow> (string \<Rightarrow> prepared_task option) \<Rightarrow> string list \<Rightarrow>
    err + (string \<Rightarrow> prepared_task option) \<times> string list" where
  "sort_results m [] prepared conflicts = Inr (prepared, conflicts)"
| "sort_results m (h # hs) prepared conflicts =
     (if c_created (result_of m h)
      then sort_results m hs (prepared(h := Some (empty_task\<lparr>t_info_hash := h\<rparr>, False))) conflicts
      else if conflict (result_of m h) then sort_results m hs prepared (conflicts @ [h])
      else Inl (Msg ''create failed''))"

fun reuse_conflicts :: "(string \<Rightarrow> task option) \<Rightarrow> string list \<Rightarrow> (string \<Rightarrow> prepared_task option) \<Rightarrow>
    err + (string \<Rightarrow> prepared_task option)" where
  "reuse_conflicts existing [] prepared = Inr prepared"
| "reuse_conflicts existing (h # hs) prepared =
     (case existing h of
       None \<Rightarrow> Inl (Msg ''conflict but not listed'')
     | Some t \<Rightarrow> reuse_conflicts existing hs (prepared(h := Some (t, True))))"

definition prepare_offline_tasks :: "nat \<Rightarrow> 'p service \<Rightarrow> string list \<Rightarrow>
    (('p, 'z) world_scheme, string \<Rightarrow> prepared_task option) io" where
  "prepare_offline_tasks fuel s magnets =
     (case parse_batch magnets [] of
       Inl e \<Rightarrow> io_fail e
     | Inr parsed \<Rightarrow>
         io_bind (create_offline_tasks s (map snd parsed)) (\<lambda>m.
         case sort_results m (map fst parsed) (\<lambda>_. None) [] of
           Inl e \<Rightarrow> io_fail e
         | Inr (prepared, conflicts) \<Rightarrow>
             io_bind (if conflicts = [] then io_ret prepared
               else io_bind (query fuel (sv_provider s) conflicts 0) (\<lambda>existing.
                 io_of (reuse_conflicts existing conflicts prepared))) (\<lambda>prepared.
             if list_all (\<lambda>h. prepared h \<noteq> None) (map fst parsed) then io_ret prepared
             else io_fail (Msg ''no result for task''))))"

section \<open>Publishing\<close>

definition publish_nfo :: "'p service \<Rightarrow> strm_service \<Rightarrow> string \<Rightarrow> scan_file \<Rightarrow> (('p, 'z) world_scheme, unit) io" where
  "publish_nfo s st base f =
     (case pv_read_nfo (sv_provider s) of
       None \<Rightarrow> io_fail (Msg ''provider cannot read NFO'')
     | Some read \<Rightarrow>
         (case library_relative_path base (f_relative_path f) of
           Inl e \<Rightarrow> io_fail e
         | Inr p \<Rightarrow>
             io_bind (wrap_err ''read NFO'' (on_prov (read (f_pick_code f)))) (\<lambda>content.
             io_bind (wrap_err ''write NFO'' (on_library (nfo_write st p content))) (\<lambda>_. io_ret ()))))"

text \<open>One file: what becomes of its entry, and whether its STRM file was written.\<close>

definition publish_file :: "'p service \<Rightarrow> strm_service \<Rightarrow> string \<Rightarrow> string \<Rightarrow> scan_file \<Rightarrow>
    (('p, 'z) world_scheme, scan_file \<times> bool) io" where
  "publish_file s st base h f =
     (if is_nfo_file (f_relative_path f) then
        io_bind (publish_nfo s st base f) (\<lambda>_. io_ret (f\<lparr>f_strm_path := ''''\<rparr>, False))
      else if \<not> is_video_file (f_relative_path f) then io_ret (f\<lparr>f_strm_path := ''''\<rparr>, False)
      else case strm_relative_path base (f_relative_path f) of
        Inl e \<Rightarrow> io_fail e
      | Inr p \<Rightarrow>
          (case strm_path st p of
            Inl e \<Rightarrow> io_fail (Wrap ''STRM path'' e)
          | Inr target \<Rightarrow>
              if \<not> f_needs_strm f then io_ret (f\<lparr>f_strm_path := target\<rparr>, False)
              else io_bind (wrap_err ''write STRM'' (on_library (strm_write st p (f_sha1 f) h)))
                (\<lambda>_. io_ret (f\<lparr>f_strm_path := target\<rparr>, True))))"

fun publish_files :: "'p service \<Rightarrow> strm_service \<Rightarrow> string \<Rightarrow> string \<Rightarrow> scan_file list \<Rightarrow>
    (('p, 'z) world_scheme, (scan_file \<times> bool) list) io" where
  "publish_files s st base h [] = io_ret []"
| "publish_files s st base h (f # fs) =
     io_bind (publish_file s st base h f) (\<lambda>x.
     io_bind (publish_files s st base h fs) (\<lambda>xs. io_ret (x # xs)))"

definition publish_strms :: "'p service \<Rightarrow> scan_result \<Rightarrow> (('p, 'z) world_scheme, scan_result) io" where
  "publish_strms s r =
     (case sv_strm s of
       None \<Rightarrow> io_fail (Msg ''no STRM store'')
     | Some st \<Rightarrow>
         io_bind (publish_files s st (r_strm_root r) (r_info_hash r) (r_files r)) (\<lambda>xs.
           let fs = map fst xs; seeded = map (f_relative_path \<circ> fst) (filter snd xs)
           in if seeded = [] then io_ret (r\<lparr>r_files := fs\<rparr>)
              else io_bind read_now (\<lambda>now.
                io_bind (wrap_err ''mark seeded'' (on_db (mark_strm_seeded now (r_info_hash r) seeded))) (\<lambda>_.
                io_ret (r\<lparr>r_files := map (\<lambda>f. if is_video_file (f_relative_path f) then f\<lparr>f_needs_strm := False\<rparr> else f) fs\<rparr>)))))"

text \<open>\<open>attachSTRMPaths\<close> and \<open>Result\<close>.\<close>

fun attach_paths :: "strm_service \<Rightarrow> string \<Rightarrow> scan_file list \<Rightarrow> err + scan_file list" where
  "attach_paths st base [] = Inr []"
| "attach_paths st base (f # fs) =
     (case (if \<not> is_video_file (f_relative_path f) then Inr ''''
            else case strm_relative_path base (f_relative_path f) of
              Inl e \<Rightarrow> Inl e | Inr p \<Rightarrow> strm_path st p) of
       Inl e \<Rightarrow> Inl e
     | Inr target \<Rightarrow> map_sum id (Cons (f\<lparr>f_strm_path := target\<rparr>)) (attach_paths st base fs))"

definition attach_strm_paths :: "'p service \<Rightarrow> scan_result \<Rightarrow> err + scan_result" where
  "attach_strm_paths s r =
     (case sv_strm s of
       None \<Rightarrow> Inl (Msg ''no STRM store'')
     | Some st \<Rightarrow> map_sum id (\<lambda>fs. r\<lparr>r_files := fs\<rparr>) (attach_paths st (r_strm_root r) (r_files r)))"

definition service_result :: "'p service \<Rightarrow> string \<Rightarrow> (('p, 'z) world_scheme, scan_result) io" where
  "service_result s h = io_bind (on_db (result_by_info_hash h)) (\<lambda>r. io_of (attach_strm_paths s r))"

text \<open>\<open>RebuildSTRMs\<close> returns how many files it has written beside its error. Without a STRM store the
  code would dereference a nil interface; the server never runs without one.\<close>

fun rebuild_files :: "strm_service \<Rightarrow> string \<Rightarrow> string \<Rightarrow> scan_file list \<Rightarrow> string list \<Rightarrow>
    (('p, 'z) world_scheme, string list \<times> err option) io" where
  "rebuild_files st base h [] acc = io_ret (acc, None)"
| "rebuild_files st base h (f # fs) acc =
     (if \<not> is_video_file (f_relative_path f) then rebuild_files st base h fs acc
      else case strm_relative_path base (f_relative_path f) of
        Inl e \<Rightarrow> io_ret (acc, Some e)
      | Inr p \<Rightarrow> io_try (on_library (strm_write st p (f_sha1 f) h)) (\<lambda>r. case r of
            Inl e \<Rightarrow> io_ret (acc, Some (Wrap ''rebuild STRM'' e))
          | Inr _ \<Rightarrow> rebuild_files st base h fs (acc @ [f_relative_path f])))"

definition rebuild_strms :: "'p service \<Rightarrow> string \<Rightarrow> (('p, 'z) world_scheme, nat \<times> err option) io" where
  "rebuild_strms s h =
     io_try (on_db (result_by_info_hash h)) (\<lambda>r. case r of
         Inl e \<Rightarrow> io_ret (0, Some e)
       | Inr res \<Rightarrow> (case sv_strm s of
           None \<Rightarrow> io_ret (0, Some (Msg ''no STRM store''))
         | Some st \<Rightarrow>
             io_bind (rebuild_files st (r_strm_root res) (r_info_hash res) (r_files res) []) (\<lambda>(rebuilt, e).
             case e of
               Some e \<Rightarrow> io_ret (length rebuilt, Some e)
             | None \<Rightarrow> io_bind read_now (\<lambda>now.
                 io_try (on_db (mark_strm_seeded now (r_info_hash res) rebuilt)) (\<lambda>m. case m of
                     Inl e \<Rightarrow> io_ret (length rebuilt, Some (Wrap ''mark rebuilt'' e))
                   | Inr _ \<Rightarrow> io_ret (length rebuilt, None))))))"

section \<open>Waiting for a task\<close>

text \<open>\<open>waitForTask\<close>: \<open>seen\<close> holds the status, progress and name last stored. Every wait uses up an event, so
  the events of the world bound the turns.\<close>

definition save_current :: "string \<Rightarrow> task \<Rightarrow> (('p, 'z) world_scheme, unit) io" where
  "save_current magnet t = io_bind read_now (\<lambda>now. on_db (save_task now magnet t))"

definition task_look :: "task \<Rightarrow> int \<times> rat \<times> string" where
  "task_look t = (t_status t, t_progress t, t_name t)"

definition next_current :: "task \<Rightarrow> task \<Rightarrow> task" where
  "next_current current t =
     (if t_info_hash t \<noteq> '''' then t\<lparr>t_category := t_category current, t_job_gid := t_job_gid current\<rparr> else current)"

fun wait_turns :: "nat \<Rightarrow> nat \<Rightarrow> 'p service \<Rightarrow> string \<Rightarrow> string \<Rightarrow> int \<times> rat \<times> string \<Rightarrow> task \<Rightarrow>
    (('p, 'z) world_scheme, task) io" where
  "wait_turns 0 fuel s magnet h seen current = io_fail OutOfFuel"
| "wait_turns (Suc n) fuel s magnet h seen current =
     io_bind (if task_look current \<noteq> seen then save_current magnet current else io_ret ()) (\<lambda>_.
       if t_failed current then io_fail (Msg ''offline task failed'')
       else if t_done current \<and> t_result_id current \<noteq> '''' then io_ret current
       else io_bind (wait_task fuel s h current) (\<lambda>t.
         wait_turns n fuel s magnet h (task_look current) (next_current current t)))"

definition wait_for_task :: "nat \<Rightarrow> 'p service \<Rightarrow> string \<Rightarrow> string \<Rightarrow> task \<Rightarrow> (('p, 'z) world_scheme, task) io" where
  "wait_for_task fuel s magnet h current = (\<lambda>w.
     wait_turns (Suc (length (w_events w))) fuel s magnet h (- 999, - 1, '''') current w)"

section \<open>Resolving a magnet link\<close>

definition total_bytes :: "scan_file list \<Rightarrow> int" where
  "total_bytes fs = fold (\<lambda>f n. wrap64 (n + f_size_bytes f)) fs 0"

definition scanned_result :: "timestamp \<Rightarrow> string \<Rightarrow> string \<Rightarrow> task \<Rightarrow> bool \<Rightarrow> scan_file list \<Rightarrow> string \<Rightarrow> scan_result" where
  "scanned_result now h magnet t reused fs dir_name =
     \<lparr>r_name = (if dir_name = '''' then t_name t else dir_name), r_info_hash = h, r_magnet_uri = magnet, r_result_id = t_result_id t,
      r_reused_task = reused, r_total_bytes = total_bytes fs, r_scanned_at = now, r_strm_root = trim_space (t_category t),
      r_files = fs\<rparr>"

definition finish_scan :: "'p service \<Rightarrow> string \<Rightarrow> string \<Rightarrow> task \<Rightarrow> bool \<Rightarrow> scan_file list \<Rightarrow> string \<Rightarrow> bool \<Rightarrow>
    (('p, 'z) world_scheme, scan_result) io" where
  "finish_scan s h magnet t reused fs dir_name publish =
     io_bind read_now (\<lambda>scanned.
     io_bind read_now (\<lambda>now.
     io_bind (on_db (save_scan now (scanned_result scanned h magnet t reused fs dir_name) t)) (\<lambda>r.
     io_try (cancel_task s h False) (\<lambda>_. if publish then publish_strms s r else io_ret r))))"

datatype scanned = Target scan_file | Scanned "scan_file list" string

definition scan_plain :: "nat \<Rightarrow> 'p service \<Rightarrow> task \<Rightarrow> (('p, 'z) world_scheme, scanned) io" where
  "scan_plain fuel s t = (\<lambda>w. case scan_task_result fuel s t w of
     (r, _, w1) \<Rightarrow> (map_sum id (\<lambda>(fs, dir_name). Scanned fs dir_name) r, w1))"

text \<open>A scan for one file runs under the background context, which the end of the job does not end, and
  stops waiting once the file was seen.\<close>

definition scan_target :: "bool \<Rightarrow> nat \<Rightarrow> 'p service \<Rightarrow> string \<Rightarrow> string \<Rightarrow> task \<Rightarrow> bool \<Rightarrow> string \<Rightarrow>
    (('p, 'z) world_scheme, scanned) io" where
  "scan_target scan_first fuel s h magnet t reused target = (\<lambda>w.
     case w_ctx w of
       Some e \<Rightarrow> (Inl e, w)
     | None \<Rightarrow>
         (case scan_task_result fuel s t w of (r, seen, w1) \<Rightarrow>
           (case find (\<lambda>f. equal_fold (f_sha1 f) target) seen of
             None \<Rightarrow> (map_sum id (\<lambda>(fs, dir_name). Scanned fs dir_name) r, w1)
           | Some f \<Rightarrow>
               if scan_first then (map_sum id (\<lambda>(fs, dir_name). Scanned fs dir_name) r, w1)
               else (Inr (Target f),
                 (case r of
                   Inl _ \<Rightarrow> w1
                 | Inr (fs, dir_name) \<Rightarrow> snd (finish_scan s h magnet t reused fs dir_name False w1))))))"

definition scan_for :: "bool \<Rightarrow> nat \<Rightarrow> 'p service \<Rightarrow> string \<Rightarrow> string \<Rightarrow> task \<Rightarrow> bool \<Rightarrow> string \<Rightarrow>
    (('p, 'z) world_scheme, scanned) io" where
  "scan_for scan_first fuel s h magnet t reused target =
     (if target = '''' then scan_plain fuel s t
      else io_bind (scan_target scan_first fuel s h magnet t reused target) (\<lambda>x. case x of
          Target f \<Rightarrow> io_ret (Target f)
        | Scanned fs dir_name \<Rightarrow>
            if contains_sha1 fs target then io_ret (Scanned fs dir_name)
            else io_fail (Wrap ''target file missing'' ErrOfflineResultNotFound)))"

text \<open>The result of a scan that stopped at its target holds nothing but that file.\<close>

definition target_result :: "scan_file \<Rightarrow> scan_result" where
  "target_result f = \<lparr>r_name = '''', r_info_hash = '''', r_magnet_uri = '''', r_result_id = '''', r_reused_task = False,
     r_total_bytes = 0, r_scanned_at = 0, r_strm_root = '''', r_files = [f]\<rparr>"

definition recreate :: "'p service \<Rightarrow> string \<Rightarrow> string \<Rightarrow> task \<Rightarrow> (('p, 'z) world_scheme, unit) io" where
  "recreate s magnet h t =
     io_bind (wrap_err ''delete lost task'' (delete_offline_task_for_rebuild s t)) (\<lambda>_.
     io_bind (wrap_err ''create again'' (create_offline_tasks s [magnet])) (\<lambda>m.
       if c_created (result_of m h) then io_ret ()
       else io_fail (Wrap ''create again'' (Msg (c_error (result_of m h))))))"

text \<open>The loop over lost results: \<open>rebuilds\<close> is how often the task may still be created again.\<close>

fun resolve_loop :: "nat \<Rightarrow> bool \<Rightarrow> nat \<Rightarrow> 'p service \<Rightarrow> string \<Rightarrow> string \<Rightarrow> string \<Rightarrow> string \<Rightarrow> bool \<Rightarrow> task \<Rightarrow> bool \<Rightarrow>
    (('p, 'z) world_scheme, scan_result) io" where
  "resolve_loop rebuilds scan_first fuel s gid magnet h target publish t reused =
     io_bind (wait_for_task fuel s magnet h t) (\<lambda>t.
     io_try (scan_for scan_first fuel s h magnet t reused target) (\<lambda>r. case r of
         Inr (Target f) \<Rightarrow> io_ret (target_result f)
       | Inr (Scanned fs dir_name) \<Rightarrow> finish_scan s h magnet t reused fs dir_name publish
       | Inl e \<Rightarrow>
           (case rebuilds of
             0 \<Rightarrow> io_fail e
           | Suc n \<Rightarrow>
               if \<not> errors_is e ErrOfflineResultNotFound then io_fail e
               else io_bind (recreate s magnet h t) (\<lambda>_.
                 let t' = empty_task\<lparr>t_info_hash := h, t_category := t_category t, t_job_gid := gid\<rparr>
                 in io_bind (save_current magnet t') (\<lambda>_.
                    resolve_loop n scan_first fuel s gid magnet h target publish t' False)))))"

text \<open>How a resolve begins: the task to wait for, and whether it was there before.\<close>

definition start_task :: "nat \<Rightarrow> 'p service \<Rightarrow> string \<Rightarrow> string \<Rightarrow> bool \<Rightarrow> (('p, 'z) world_scheme, task \<times> bool) io" where
  "start_task fuel s magnet h force_create =
     io_bind (wrap_err ''create task'' (create_offline_tasks s [magnet])) (\<lambda>m.
       let r = result_of m h; fresh = empty_task\<lparr>t_info_hash := h\<rparr>
       in if c_created r then io_ret (fresh, False)
          else if conflict r \<and> force_create then
            io_bind (wrap_err ''replace conflict'' (replace_conflicting_offline_task fuel s magnet h)) (\<lambda>_. io_ret (fresh, False))
          else if conflict r then
            io_bind (find_task_with_retry fuel s h 0) (\<lambda>x. case x of
                None \<Rightarrow> io_fail (Msg ''conflict but not listed'') | Some t \<Rightarrow> io_ret (t, True))
          else io_fail (Msg ''create failed''))"

definition resolve :: "bool \<Rightarrow> nat \<Rightarrow> 'p service \<Rightarrow> string \<Rightarrow> string \<Rightarrow> prepared_task option \<Rightarrow> bool \<Rightarrow> string \<Rightarrow> bool \<Rightarrow>
    (('p, 'z) world_scheme, scan_result) io" where
  "resolve scan_first fuel s gid magnet prepared publish target force_create =
     (case parse_info_hash magnet of
       Inl e \<Rightarrow> io_fail e
     | Inr h \<Rightarrow>
         io_bind (case prepared of
             None \<Rightarrow> start_task fuel s magnet h force_create
           | Some (t, reused) \<Rightarrow>
               if equal_fold (t_info_hash t) h then io_ret (t, reused) else io_fail (Msg ''info hash mismatch''))
           (\<lambda>(t, reused).
             let t1 = (if reused then t else empty_task\<lparr>t_info_hash := h, t_category := t_category t\<rparr>)\<lparr>t_job_gid := gid\<rparr>
             in io_bind (save_current magnet t1) (\<lambda>_.
                resolve_loop 1 scan_first fuel s gid magnet h target publish t1 reused)))"

definition resolve_magnet :: "nat \<Rightarrow> 'p service \<Rightarrow> string \<Rightarrow> string \<Rightarrow> (('p, 'z) world_scheme, scan_result) io" where
  "resolve_magnet fuel s gid magnet = resolve False fuel s gid magnet None True '''' False"

definition resolve_prepared :: "nat \<Rightarrow> 'p service \<Rightarrow> string \<Rightarrow> string \<Rightarrow> prepared_task \<Rightarrow> (('p, 'z) world_scheme, scan_result) io" where
  "resolve_prepared fuel s gid magnet p = resolve False fuel s gid magnet (Some p) True '''' False"

definition restore_content :: "bool \<Rightarrow> nat \<Rightarrow> 'p service \<Rightarrow> string \<Rightarrow> string \<Rightarrow> string \<Rightarrow> (('p, 'z) world_scheme, scan_file) io" where
  "restore_content scan_first fuel s gid magnet sha1 =
     io_bind (resolve scan_first fuel s gid magnet None False (to_lower sha1) True) (\<lambda>r.
       case find (\<lambda>f. equal_fold (f_sha1 f) sha1) (r_files r) of
         Some f \<Rightarrow> io_ret f | None \<Rightarrow> io_fail (Msg ''file not found after rebuild''))"

text \<open>\<open>RunJob\<close>: a job runs \<open>Resolve\<close> under its own identity.\<close>

definition run_job :: "nat \<Rightarrow> 'p service \<Rightarrow> timestamp \<Rightarrow> timestamp \<Rightarrow> bool \<Rightarrow> job \<Rightarrow> (('p, 'z) world_scheme, scan_result) io" where
  "run_job fuel s started finished deadline j =
     run_job_with_resolver (\<lambda>j. on_db (update_job j)) started finished deadline j
       (resolve_magnet fuel s (j_gid j) (j_magnet_uri j))"

end
