(* ===== verification/Publish_Facts.thy ===== *)
theory Publish_Facts
  imports Ingest_Service Strm_Facts Scan_Facts Offline_Facts
begin

text \<open>
  What rebuilding the STRM files of a torrent leaves in the library (\<open>RebuildSTRMs\<close>).
\<close>

definition video_target :: "string \<Rightarrow> scan_file \<Rightarrow> string list \<Rightarrow> bool" where
  "video_target base f q \<longleftrightarrow> (\<exists>p clean. strm_relative_path base (f_relative_path f) = Inr p \<and>
     clean_relative_path p = Inr clean \<and> q = file_segs clean)"

definition videos :: "scan_file list \<Rightarrow> scan_file list" where
  "videos fs = filter (\<lambda>f. is_video_file (f_relative_path f)) fs"

lemma on_library_run: "on_library m w = (fst (m (w_library w)), w\<lparr>w_library := snd (m (w_library w))\<rparr>)"
  by (simp add: on_library_def split: prod.splits)

lemma rebuild_files_foreign:
  "map_of (w_library w) q = Some e \<Longrightarrow> \<not> managed_entry e \<Longrightarrow>
     map_of (w_library (snd (rebuild_files st base h fs acc w))) q = Some e"
proof (induction fs arbitrary: acc w)
  case (Cons f fs)
  show ?case
  proof (cases "is_video_file (f_relative_path f)")
    case True
    show ?thesis
    proof (cases "strm_relative_path base (f_relative_path f)")
      case (Inr p)
      let ?w = "w\<lparr>w_library := snd (strm_write st p (f_sha1 f) h (w_library w))\<rparr>"
      have "map_of (w_library ?w) q = Some e"
        using strm_write_foreign [OF Cons.prems] by simp
      from this Cons.IH [OF this Cons.prems(2)] show ?thesis
        using True Inr by (simp add: io_try_def on_library_run split: sum.splits)
    qed (use True Cons.prems in simp)
  qed (use Cons in simp)
qed simp

lemma rebuild_files_redirects:
  assumes "clean_base (ss_base st)"
  shows "redirect_at (w_library w) q \<Longrightarrow> redirect_at (w_library (snd (rebuild_files st base h fs acc w))) q"
proof (induction fs arbitrary: acc w)
  case (Cons f fs)
  show ?case
  proof (cases "is_video_file (f_relative_path f)")
    case True
    show ?thesis
    proof (cases "strm_relative_path base (f_relative_path f)")
      case (Inr p)
      let ?w = "w\<lparr>w_library := snd (strm_write st p (f_sha1 f) h (w_library w))\<rparr>"
      have "redirect_at (w_library ?w) q"
        using strm_write_redirects [OF assms Cons.prems] by simp
      from this Cons.IH [OF this] show ?thesis
        using True Inr by (simp add: io_try_def on_library_run split: sum.splits)
    qed (use True Cons.prems in simp)
  qed (use Cons in simp)
qed simp

lemma rebuild_files_all:
  assumes "clean_base (ss_base st)"
  shows "rebuild_files st base h fs acc w = (Inr (rebuilt, None), w') \<Longrightarrow>
    rebuilt = acc @ map f_relative_path (videos fs) \<and>
    (\<forall>f \<in> set (videos fs). \<exists>q. video_target base f q \<and> redirect_at (w_library w') q)"
proof (induction fs arbitrary: acc w)
  case (Cons f fs)
  show ?case
  proof (cases "is_video_file (f_relative_path f)")
    case True
    then obtain p where p: "strm_relative_path base (f_relative_path f) = Inr p"
      using Cons.prems by (auto split: sum.splits)
    obtain r fs1 where r: "strm_write st p (f_sha1 f) h (w_library w) = (r, fs1)" by fastforce
    with Cons.prems True p obtain x where x: "r = Inr x"
      and rest: "rebuild_files st base h fs (acc @ [f_relative_path f]) (w\<lparr>w_library := fs1\<rparr>) = (Inr (rebuilt, None), w')"
      by (cases r) (simp_all add: io_try_def on_library_run)
    from strm_write_redirect_target [OF assms r [unfolded x]] obtain q where
      q: "video_target base f q" "redirect_at fs1 q" by (auto simp: video_target_def p)
    have "redirect_at (w_library (w\<lparr>w_library := fs1\<rparr>)) q" using q(2) by simp
    from rebuild_files_redirects [OF assms this, of base h fs "acc @ [f_relative_path f]"]
    have "redirect_at (w_library w') q" unfolding rest by simp
    with q(1) Cons.IH [OF rest] True show ?thesis by (auto simp: videos_def)
  qed (use Cons in \<open>simp add: videos_def\<close>)
qed (simp add: videos_def)



definition sample_publisher :: "unit service" where
  "sample_publisher = sample_service\<lparr>sv_strm := Some sample_strm\<rparr>"

definition sample_library_world :: "unit world" where
  "sample_library_world = (new_world ())\<lparr>w_db := sample_db1, w_library := sample_files\<rparr>"


end
