(* ===== verification/Task_Manager.thy ===== *)
theory Task_Manager
  imports Ingest_Service
begin

text \<open>
  The task manager (\<open>internal/task/manager.go\<close>): jobs are stored, queued in batches, and run by a worker. The
  world is the one of the ingest service with the manager's own state behind it. The channel \<open>queue\<close> is a
  list of at most 128 batches, the set \<open>queued\<close> a list. Each operation is one step: the mutexes of the code
  protect the same sections, and what other goroutines do between two steps is another step.

  The goroutines of a batch are run one after the other, in the order they are started. The jobs' contexts
  are the world's \<open>w_ctx\<close>, whose deadline the events of the world may bring (\<open>EvDone\<close>). \<open>m_events\<close>
  holds what happens during the runs to come, one list for each job; \<open>m_rand\<close> is the random source.
\<close>

section \<open>State\<close>

record 'p manager =
  mg_service :: "'p service"
  mg_enabled :: bool
  mg_disabled_err :: "err option"
  mg_quota :: "('p, int) io option"
  mg_quota_min :: int

record 'p m_world = "'p world" +
  m_queue :: "string list list"
  m_queued :: "string list"
  m_taken :: "string list option"
  m_running :: "string list"
  m_stopped :: "err option"
  m_prepared :: "(err + (string \<Rightarrow> prepared_task option)) option"
  m_rand :: "string option list"
  m_events :: "'p event list list"

definition max_concurrent_downloads :: nat where
  "max_concurrent_downloads = 128"

definition available :: "'p manager \<Rightarrow> ('p, 'z) world_scheme \<Rightarrow> bool" where
  "available m w = (mg_enabled m \<and>
     (case pv_available (sv_provider (mg_service m)) of None \<Rightarrow> True | Some f \<Rightarrow> f (w_prov w)))"

definition unavailable_err :: "'p manager \<Rightarrow> err" where
  "unavailable_err m = (case mg_disabled_err m of Some e \<Rightarrow> e | None \<Rightarrow> Msg ''TOKEN unavailable'')"

section \<open>The queue\<close>

text \<open>\<open>enqueueMany\<close>: what is not queued yet is marked and put into the channel as one batch; if the manager
  has stopped or the channel is full the marks are taken back.\<close>

fun new_marks :: "string list \<Rightarrow> string list \<Rightarrow> string list" where
  "new_marks marked [] = []"
| "new_marks marked (g # gs) =
     (if g = '''' \<or> g \<in> set marked then new_marks marked gs else g # new_marks (g # marked) gs)"

definition enqueue_many :: "string list \<Rightarrow> (('p, 'z) m_world_scheme, unit) io" where
  "enqueue_many gids = (\<lambda>w.
     let pending = new_marks (m_queued w) gids
     in if pending = [] then (Inr (), w)
        else case m_stopped w of
          Some e \<Rightarrow> (Inl e, w)
        | None \<Rightarrow>
            if length (m_queue w) < max_concurrent_downloads
            then (Inr (), w\<lparr>m_queue := m_queue w @ [pending], m_queued := pending @ m_queued w\<rparr>)
            else (Inl (Msg ''queue full''), w))"

definition unmark_many :: "string list \<Rightarrow> ('p, 'z) m_world_scheme \<Rightarrow> ('p, 'z) m_world_scheme" where
  "unmark_many gids w = w\<lparr>m_queued := filter (\<lambda>g. g \<notin> set gids) (m_queued w)\<rparr>"

section \<open>Submitting\<close>

definition check_offline_quota :: "'p manager \<Rightarrow> (('p, 'z) world_scheme, unit) io" where
  "check_offline_quota m =
     (if mg_quota_min m \<le> 0 then io_ret ()
      else case mg_quota m of
        None \<Rightarrow> io_fail (Msg ''no quota provider'')
      | Some ask \<Rightarrow>
          io_bind (wrap_err ''quota'' (on_prov ask)) (\<lambda>remaining.
            if remaining < mg_quota_min m then io_fail (Msg ''quota too low'') else io_ret ()))"

definition next_random :: "(('p, 'z) m_world_scheme, string option) io" where
  "next_random = (\<lambda>w. case m_rand w of [] \<Rightarrow> (Inr None, w) | r # rs \<Rightarrow> (Inr r, w\<lparr>m_rand := rs\<rparr>))"

definition draw_gid :: "job \<Rightarrow> (('p, 'z) m_world_scheme, job) io" where
  "draw_gid j = io_bind next_random (\<lambda>r. io_of (assign_new_gid r j))"

definition ensure_unique_gid :: "job \<Rightarrow> (('p, 'z) m_world_scheme, job) io" where
  "ensure_unique_gid j = io_try (on_db (get_job (j_gid j))) (\<lambda>r. case r of
       Inl e \<Rightarrow> if errors_is e ErrJobNotFound then io_ret j else io_fail e
     | Inr _ \<Rightarrow> draw_gid j)"

text \<open>The job a submission is answered with instead of a new one.\<close>

definition live_job :: "job \<Rightarrow> (('p, 'z) m_world_scheme, job option) io" where
  "live_job j = io_try (on_db (latest_job (j_source j) (j_info_hash j))) (\<lambda>r. case r of
       Inl e \<Rightarrow> if errors_is e ErrJobNotFound then io_ret None else io_fail e
     | Inr x \<Rightarrow> io_ret (if j_state x \<noteq> Failed \<and> j_state x \<noteq> Canceled then Some x else None))"

definition submit :: "'p manager \<Rightarrow> job \<Rightarrow> (('p, 'z) m_world_scheme, string) io" where
  "submit m j = (\<lambda>w.
     if \<not> available m w then (Inl (unavailable_err m), w)
     else io_bind (live_job j) (\<lambda>x. case x of
         Some x \<Rightarrow>
           if j_category j \<noteq> '''' \<and> j_category x \<noteq> j_category j
           then io_bind (on_db (update_job (x\<lparr>j_category := j_category j\<rparr>))) (\<lambda>_. io_ret (j_gid x))
           else io_ret (j_gid x)
       | None \<Rightarrow>
           io_bind (ensure_unique_gid j) (\<lambda>j.
           io_bind (check_offline_quota m) (\<lambda>_.
           io_bind (on_db (create_job j)) (\<lambda>_.
           io_bind (enqueue_many [j_gid j]) (\<lambda>_. io_ret (j_gid j)))))) w)"

text \<open>\<open>SubmitMany\<close>: first every job gets its identity (of its own, or of the job it repeats), then the new
  ones are stored, then they are queued as one batch. \<open>fuel\<close> bounds the drawing of a fresh identity.\<close>

fun draw_until :: "nat \<Rightarrow> string list \<Rightarrow> job \<Rightarrow> (('p, 'z) m_world_scheme, job) io" where
  "draw_until n seen j =
     (if j_gid j \<notin> set seen then io_ret j
      else case n of 0 \<Rightarrow> io_bind (draw_gid j) (\<lambda>_. io_fail OutOfFuel) | Suc n \<Rightarrow> io_bind (draw_gid j) (draw_until n seen))"

fun identify :: "job list \<Rightarrow> string list \<Rightarrow> (('p, 'z) m_world_scheme, (string \<times> job option) list) io" where
  "identify [] seen = io_ret []"
| "identify (j # js) seen =
     io_bind (live_job j) (\<lambda>x. case x of
         Some x \<Rightarrow> io_bind (identify js seen) (\<lambda>rest. io_ret ((j_gid x, None) # rest))
       | None \<Rightarrow>
           io_bind (ensure_unique_gid j) (\<lambda>j.
           io_bind (\<lambda>w. draw_until (length (m_rand w)) seen j w) (\<lambda>j.
           io_bind (identify js (j_gid j # seen)) (\<lambda>rest. io_ret ((j_gid j, Some j) # rest)))))"

fun create_jobs :: "job list \<Rightarrow> (('p, 'z) m_world_scheme, unit) io" where
  "create_jobs [] = io_ret ()"
| "create_jobs (j # js) = io_bind (on_db (create_job j)) (\<lambda>_. create_jobs js)"

definition submit_many :: "'p manager \<Rightarrow> job list \<Rightarrow> (('p, 'z) m_world_scheme, string list) io" where
  "submit_many m js = (\<lambda>w.
     if \<not> available m w then (Inl (unavailable_err m), w)
     else if js = [] then (Inl (Msg ''no magnets''), w)
     else io_bind (identify js []) (\<lambda>xs.
       let new = List.map_filter snd xs
       in io_bind (if new \<noteq> [] then check_offline_quota m else io_ret ()) (\<lambda>_.
          io_bind (create_jobs new) (\<lambda>_.
          io_bind (enqueue_many (map j_gid new)) (\<lambda>_. io_ret (map fst xs))))) w)"

section \<open>Canceling, deleting, rebuilding\<close>

text \<open>The context of a job that is running is canceled; the run itself sees it by an event.\<close>

definition cancel_job_of :: "'p manager \<Rightarrow> string \<Rightarrow> bool \<Rightarrow> (('p, 'z) m_world_scheme, unit) io" where
  "cancel_job_of m gid delete_files =
     io_bind (on_db (get_job gid)) (\<lambda>j.
       if j_state j \<notin> {Queued, Running, Failed, Canceled} then io_fail (Msg ''cannot cancel'')
       else io_bind read_now (\<lambda>now.
            io_bind (on_db (cancel_job now gid)) (\<lambda>_ w.
              if available m w
              then io_try (on_prov (pv_delete_offline (sv_provider (mg_service m)) (j_info_hash j) delete_files))
                     (\<lambda>_. io_ret ()) w
              else (Inr (), w))))"

definition delete_with_files :: "'p manager \<Rightarrow> string \<Rightarrow> bool \<Rightarrow> (('p, 'z) m_world_scheme, unit) io" where
  "delete_with_files m gid delete_files =
     io_bind (on_db (get_job gid)) (\<lambda>j.
       if j_state j = Queued \<or> j_state j = Running then
         io_bind (cancel_job_of m gid delete_files) (\<lambda>_. on_db (delete_job gid))
       else if j_state j = Succeeded then
         io_bind (if delete_files then delete_completed_task_files (mg_service m) (j_gid j) else io_ret ())
           (\<lambda>_. on_db (delete_job_any gid))
       else on_db (delete_job gid))"

definition rebuild_job :: "'p manager \<Rightarrow> string \<Rightarrow> (('p, 'z) m_world_scheme, nat \<times> err option) io" where
  "rebuild_job m gid =
     io_try (on_db (get_job gid)) (\<lambda>r. case r of
         Inl e \<Rightarrow> io_ret (0, Some e)
       | Inr j \<Rightarrow> if j_state j \<noteq> Succeeded then io_ret (0, Some (Msg ''not finished''))
           else rebuild_strms (mg_service m) (j_info_hash j))"

section \<open>Running a batch\<close>

text \<open>The body of \<open>prepareOnce\<close>, run by the first job that gets there.\<close>

definition prepare_batch :: "nat \<Rightarrow> 'p manager \<Rightarrow> string list \<Rightarrow> (('p, 'z) m_world_scheme, string \<Rightarrow> prepared_task option) io" where
  "prepare_batch fuel m magnets = (\<lambda>w.
     case m_prepared w of
       Some r \<Rightarrow> (r, w)
     | None \<Rightarrow>
         (case io_bind (check_offline_quota m) (\<lambda>_. prepare_offline_tasks fuel (mg_service m) magnets) w of
           (r, w1) \<Rightarrow> (r, w1\<lparr>m_prepared := Some r\<rparr>)))"

definition batch_resolve :: "nat \<Rightarrow> 'p manager \<Rightarrow> string list \<Rightarrow> job \<Rightarrow> (('p, 'z) m_world_scheme, scan_result) io" where
  "batch_resolve fuel m magnets j =
     io_bind (prepare_batch fuel m magnets) (\<lambda>prepared.
       case prepared (j_info_hash j) of
         None \<Rightarrow> io_fail (Msg ''no prepared task'')
       | Some (t, reused) \<Rightarrow>
           resolve_prepared fuel (mg_service m) (j_gid j) (j_magnet_uri j) (t\<lparr>t_category := j_category j\<rparr>, reused))"

text \<open>An error that comes with a context past its deadline is a timeout.\<close>

definition with_deadline :: "(('p, 'z) world_scheme, 'r) io \<Rightarrow> (('p, 'z) world_scheme, 'r) io" where
  "with_deadline body = (\<lambda>w. case body w of
     (Inr x, w1) \<Rightarrow> (Inr x, w1)
   | (Inl e, w1) \<Rightarrow> (Inl (if w_ctx w1 = Some CtxDeadlineExceeded then JobTimeout else e), w1))"

definition start_context :: "('p, 'z) m_world_scheme \<Rightarrow> ('p, 'z) m_world_scheme" where
  "start_context w = w\<lparr>w_ctx := None,
     w_events := (case m_events w of [] \<Rightarrow> [] | es # _ \<Rightarrow> es), m_events := tl (m_events w)\<rparr>"

text \<open>\<open>runJob\<close>; \<open>finished\<close> is the reading of the clock at the end of the run.\<close>

definition run_one_job :: "'p manager \<Rightarrow> timestamp \<Rightarrow> job \<Rightarrow> (('p, 'z) m_world_scheme, scan_result) io \<Rightarrow>
    (('p, 'z) m_world_scheme, unit) io" where
  "run_one_job m finished j body = (\<lambda>w.
     let w0 = (start_context w)\<lparr>m_running := j_gid j # m_running w\<rparr>
     in io_bind read_now (\<lambda>started.
        io_try (run_job_with_resolver (\<lambda>j. on_db (update_job j)) started finished False j (with_deadline body)) (\<lambda>r.
        io_bind (\<lambda>w. case r of
            Inr _ \<Rightarrow> (Inr (), w)
          | Inl e \<Rightarrow>
              if errors_is e ErrJobCanceled \<or> w_ctx w \<noteq> Some CtxDeadlineExceeded then (Inr (), w)
              else io_try (cleanup_timed_out_task (mg_service m) (j_info_hash j)) (\<lambda>_. io_ret ()) w)
          (\<lambda>_ w. (Inr (), w\<lparr>m_running := removeAll (j_gid j) (m_running w)\<rparr>)))) w0)"

definition queued_job :: "db \<Rightarrow> string \<Rightarrow> job option" where
  "queued_job d gid = (case fst (get_job gid d) of
     Inr j \<Rightarrow> if j_state j = Queued then Some j else None | Inl _ \<Rightarrow> None)"

fun run_jobs :: "nat \<Rightarrow> 'p manager \<Rightarrow> timestamp \<Rightarrow> string list \<Rightarrow> job list \<Rightarrow> (('p, 'z) m_world_scheme, unit) io" where
  "run_jobs fuel m finished magnets [] = io_ret ()"
| "run_jobs fuel m finished magnets (j # js) =
     io_bind (run_one_job m finished j (batch_resolve fuel m magnets j)) (\<lambda>_. run_jobs fuel m finished magnets js)"

definition run_batch :: "nat \<Rightarrow> 'p manager \<Rightarrow> timestamp \<Rightarrow> string list \<Rightarrow> (('p, 'z) m_world_scheme, unit) io" where
  "run_batch fuel m finished gids = (\<lambda>w.
     let js = List.map_filter (queued_job (w_db w)) gids
     in run_jobs fuel m finished (map j_magnet_uri js) js (w\<lparr>m_prepared := None\<rparr>))"

text \<open>One turn of \<open>worker\<close>: it takes a batch out of the channel, or, once the cloud is available, unmarks
  the batch it holds and runs it.\<close>

definition worker_turn :: "nat \<Rightarrow> 'p manager \<Rightarrow> timestamp \<Rightarrow> (('p, 'z) m_world_scheme, unit) io" where
  "worker_turn fuel m finished = (\<lambda>w.
     if m_stopped w \<noteq> None then (Inr (), w)
     else case m_taken w of
       None \<Rightarrow> (case m_queue w of
           [] \<Rightarrow> (Inr (), w)
         | gids # rest \<Rightarrow> (Inr (), w\<lparr>m_queue := rest, m_taken := Some gids\<rparr>))
     | Some gids \<Rightarrow>
         if \<not> available m w then (Inr (), w)
         else run_batch fuel m finished gids (unmark_many gids (w\<lparr>m_taken := None\<rparr>)))"

section \<open>Starting\<close>

fun list_jobs_of :: "string list \<Rightarrow> (('p, 'z) m_world_scheme, job list) io" where
  "list_jobs_of [] = io_ret []"
| "list_jobs_of (src # srcs) =
     io_bind (on_db (list_jobs src [Queued])) (\<lambda>js. io_bind (list_jobs_of srcs) (\<lambda>rest. io_ret (js @ rest)))"

definition empty_m_world :: "('p, 'z) m_world_scheme \<Rightarrow> ('p, 'z) m_world_scheme" where
  "empty_m_world w = w\<lparr>m_queue := [], m_queued := [], m_taken := None, m_running := []\<rparr>"

text \<open>\<open>newManager\<close>: jobs that were running when the program stopped are queued again, and everything that is
  queued becomes one batch. \<open>None\<close> for the sources means all of them.\<close>

definition new_manager :: "'p service \<Rightarrow> int \<Rightarrow> string list option \<Rightarrow> (('p, 'z) m_world_scheme, 'p manager) io" where
  "new_manager s quota_min sources =
     io_bind (on_db (case sources of
         None \<Rightarrow> recover_running_jobs
       | Some srcs \<Rightarrow> if srcs = [] then recover_running_jobs else recover_running_jobs_by_source srcs)) (\<lambda>_.
     if quota_min > 0 \<and> pv_quota (sv_provider s) = None then io_fail (Msg ''no quota provider'')
     else io_bind (\<lambda>w. (Inr (), empty_m_world w)) (\<lambda>_.
          io_bind (case sources of None \<Rightarrow> on_db (list_jobs '''' [Queued]) | Some srcs \<Rightarrow> list_jobs_of srcs) (\<lambda>js.
          io_bind (enqueue_many (map j_gid js)) (\<lambda>_.
          io_ret \<lparr>mg_service = s, mg_enabled = True, mg_disabled_err = None,
            mg_quota = (if quota_min > 0 then pv_quota (sv_provider s) else None), mg_quota_min = quota_min\<rparr>))))"

definition new_disabled_manager :: "'p service \<Rightarrow> err \<Rightarrow> 'p manager" where
  "new_disabled_manager s reason = \<lparr>mg_service = s, mg_enabled = False, mg_disabled_err = Some reason,
     mg_quota = None, mg_quota_min = 0\<rparr>"

end
