(* ===== verification/Ingest_Facts.thy ===== *)
theory Ingest_Facts
  imports Ingest_Service Scan_Facts Strm_Facts Offline_Facts
begin

text \<open>
  What the ingest service promises, whatever the cloud answers: it keeps the job tables and the state of the job
  it works for, so that a job that runs reaches a final state; waiting for a task ends; nothing outside the
  work directory is deleted; what it publishes are its own STRM files.
\<close>

section \<open>What never touches the database\<close>

text \<open>Computations over the world that leave the database alone, and whatever else is put behind the fields of the world.\<close>

abbreviation w_base :: "('p, 'z) world_scheme \<Rightarrow> db \<times> 'z" where
  "w_base w \<equiv> (w_db w, world.more w)"

lemma more_frame [simp]:
  "world.more (snd (on_prov p w)) = world.more w" "world.more (snd (on_db m w)) = world.more w"
  "world.more (snd (on_library l w)) = world.more w" "world.more (snd (read_now w)) = world.more w"
  by (simp_all add: on_prov_def on_db_def on_library_def read_now_def split: prod.splits list.splits)

definition db_free :: "(('p, 'z) world_scheme, 'a) io \<Rightarrow> bool" where
  "db_free m \<longleftrightarrow> (\<forall>w. w_base (snd (m w)) = w_base w)"

lemma db_freeI: "(\<And>w. w_base (snd (m w)) = w_base w) \<Longrightarrow> db_free m"
  by (simp add: db_free_def)

lemma db_freeD: "db_free m \<Longrightarrow> w_base (snd (m w)) = w_base w"
  by (simp add: db_free_def)

lemma db_free_of_keeps:
  assumes "\<And>P. keeps (\<lambda>w. P (w_base w)) m"
  shows "db_free m"
proof (rule db_freeI)
  fix w
  show "w_base (snd (m w)) = w_base w" using assms [of "\<lambda>d. d = w_base w"] by (simp add: keeps_def)
qed

lemma keeps_db_free: "db_free m \<Longrightarrow> keeps (\<lambda>w. P (w_base w)) m"
  by (simp add: keeps_def db_free_def)

lemma fetch_pages_db: "w_base (snd (fetch_pages n pv page a w)) = w_base w"
proof (induction n arbitrary: page a w)
  case 0
  then show ?case by simp
next
  case (Suc n)
  show ?case
  proof (cases "snd a = []")
    case False
    obtain r w1 where r: "on_prov (pv_list_offline pv page) w = (r, w1)" by fastforce
    have w1: "w_base w1 = w_base w" using on_prov_frame(2) [of "pv_list_offline pv page" w] more_frame(1) [of "pv_list_offline pv page" w] r by simp
    obtain t w2 where t: "read_now w1 = (Inr t, w2)" using read_now_total by blast
    have w2: "w_base w2 = w_base w" using read_now_frame(2) [of w1] more_frame(4) [of w1] t w1 by simp
    show ?thesis
      using False w1 w2 t Suc.IH by (auto simp: io_try_def io_bind_def r Let_def split: sum.splits prod.splits)
  qed simp
qed

lemma db_free_intros:
  "db_free (io_ret x)" "db_free (io_fail e)" "db_free (io_of r)" "db_free (on_prov p)" "db_free read_now"
  "db_free (on_offline f)" "db_free (on_library l)"
  by (simp_all add: db_free_def on_offline_def)

lemma db_free_bind: "db_free m \<Longrightarrow> (\<And>x. db_free (f x)) \<Longrightarrow> db_free (io_bind m f)"
  by (rule db_free_of_keeps) (auto intro: keeps_bind keeps_db_free)

lemma db_free_try: "db_free m \<Longrightarrow> (\<And>r. db_free (f r)) \<Longrightarrow> db_free (io_try m f)"
  by (rule db_free_of_keeps) (auto intro: keeps_try keeps_db_free)

lemma db_free_wrap: "db_free m \<Longrightarrow> db_free (wrap_err s m)"
  by (rule db_free_of_keeps) (auto intro: keeps_wrap keeps_db_free)

lemmas db_free_rules = db_free_intros db_free_bind db_free_try db_free_wrap

lemma fetch_pages_free: "db_free (fetch_pages n pv page a)"
  by (rule db_freeI) (rule fetch_pages_db)

lemma fetch_free: "db_free (fetch fuel pv targets max_age)"
proof -
  have ask: "db_free (io_bind (fetch_pages fuel pv 1 ((\<lambda>_. None), targets)) (\<lambda>(a, e). io_ret (fst a, e)))"
    by (intro db_free_bind fetch_pages_free) (auto intro: db_free_intros)
  have "db_free (\<lambda>w. case cached_tasks now max_age targets (w_offline w) of
      Some found \<Rightarrow> (Inr (found, None), w)
    | None \<Rightarrow> io_bind (fetch_pages fuel pv 1 ((\<lambda>_. None), targets)) (\<lambda>(a, e). io_ret (fst a, e)) w)" for now
    using ask by (auto simp: db_free_def split: option.splits)
  with ask show ?thesis
    unfolding fetch_def Let_def by (auto intro!: db_free_bind [OF db_free_intros(5)])
qed

lemma query_free: "db_free (query fuel pv hs max_age)"
  unfolding query_def by (intro db_free_bind fetch_free) (auto intro: db_free_intros split: option.splits)

lemma scheduler_turn_free: "db_free (scheduler_turn fuel s)"
proof -
  have p: "db_free (poll fuel s targets)" for targets
    unfolding poll_def by (intro db_free_bind fetch_free db_free_intros)
  show ?thesis
    unfolding scheduler_turn_def
    by (intro db_free_bind db_free_intros) (use p in \<open>auto simp: db_free_def split: prod.splits\<close>)
qed

lemma run_event_db: "w_base (run_event fuel s e w) = w_base w"
  using db_freeD [OF scheduler_turn_free] by (cases e) (simp_all add: run_event_def)

lemma wait_loop_db: "w_base (snd (wait_loop fuel s k i evs w)) = w_base w"
proof (induction fuel s k i evs w rule: wait_loop.induct)
  case (1 fuel s k i evs w)
  show ?case
    by (subst (1 2) wait_loop.simps)
       (use 1 in \<open>auto simp: run_event_db split: option.splits list.splits\<close>)
qed

lemma wait_task_free: "db_free (wait_task fuel s h t :: (('p, 'z) world_scheme, task) io)"
proof -
  have "db_free (\<lambda>w :: ('p, 'z) world_scheme. let i = om_next_waiter (w_offline w);
      w1 = w\<lparr>w_offline := add_waiter s now (to_lower h) t (w_offline w)\<rparr>;
      (r, w2) = wait_loop fuel s (to_lower h) i (w_events w1) w1
    in (r, w2\<lparr>w_offline := remove_waiter (to_lower h) i (w_offline w2)\<rparr>))" for now
  proof (rule db_freeI)
    fix w :: "('p, 'z) world_scheme"
    let ?i = "om_next_waiter (w_offline w)" and ?w = "w\<lparr>w_offline := add_waiter s now (to_lower h) t (w_offline w)\<rparr>"
    have "w_base (snd (wait_loop fuel s (to_lower h) ?i (w_events ?w) ?w)) = w_base w" by (simp add: wait_loop_db)
    then show "w_base (snd ((\<lambda>w. let i = om_next_waiter (w_offline w);
        w1 = w\<lparr>w_offline := add_waiter s now (to_lower h) t (w_offline w)\<rparr>;
        (r, w2) = wait_loop fuel s (to_lower h) i (w_events w1) w1
      in (r, w2\<lparr>w_offline := remove_waiter (to_lower h) i (w_offline w2)\<rparr>)) w)) = w_base w"
      by (simp add: Let_def case_prod_beta)
  qed
  then show ?thesis by (auto simp: wait_task_def Let_def intro!: db_free_bind db_free_intros)
qed

section \<open>A scan leaves the database alone\<close>

abbreviation scan_db :: "db \<times> 'z \<Rightarrow> ('p, 'z) scan_state \<Rightarrow> bool" where
  "scan_db d s \<equiv> w_base (sc_world s) = d"

lemma keeps_in_world: "db_free m \<Longrightarrow> keeps (scan_db d) (in_world m)"
  by (auto simp: keeps_def in_world_def db_free_def split: prod.splits) (metis snd_conv)+

lemma stamp_call_db: "keeps (scan_db d) stamp_call"
  unfolding stamp_call_def by (intro keeps_bind keeps_in_world db_free_intros) (simp add: keeps_def)

lemma sleep_free: "db_free (sleep d)"
  by (simp add: db_free_def sleep_def split: option.splits)

lemma pacer_wait_db:
  fixes d :: "db \<times> 'z"
  shows "keeps (scan_db d) (pacer_wait i)"
proof (rule keepsI)
  fix s :: "('p, 'z) scan_state"
  assume s: "scan_db d s"
  have m: "keeps (scan_db d) (io_bind (in_world read_now) (\<lambda>now.
      let wait = t + i - now in if wait > 0 then io_bind (in_world (sleep wait)) (\<lambda>_. stamp_call) else stamp_call))" for t
    unfolding Let_def
    by (intro keeps_bind keeps_in_world keeps_if stamp_call_db sleep_free db_free_intros)
  show "scan_db d (snd (pacer_wait i s))"
    using s m stamp_call_db [of d]
    by (auto simp: pacer_wait_def keeps_def split: option.splits)
qed

lemma emit_db: "keeps (scan_db d) (emit f)"
  by (simp add: emit_def keeps_def)

lemma scan_items_db:
  "(\<And>item p rp. keeps (scan_db d) (sub item p rp)) \<Longrightarrow> keeps (scan_db d) (scan_items sub prefix rprefix items)"
proof (induction items)
  case (Cons x xs)
  then show ?case by (auto simp: Let_def intro!: keeps_bind keeps_ret emit_db)
qed (simp add: keeps_ret)

lemma scan_pages_db: "keeps (scan_db d) (scan_pages fuel sv folder prefix rprefix visited offset acc)"
proof (induction fuel arbitrary: folder prefix rprefix visited offset acc)
  case (Suc fuel)
  then show ?case
    by (auto simp: Let_def intro!: keeps_bind keeps_ret keeps_wrap keeps_in_world db_free_intros
        pacer_wait_db scan_items_db keeps_fail)
qed (simp add: keeps_fail)

lemma scan_result_in_db: "keeps (scan_db d) (scan_result_in fuel sv t)"
  unfolding scan_result_in_def scan_folder_def
  by (auto simp: Let_def intro!: keeps_bind keeps_ret keeps_wrap keeps_in_world db_free_intros
      pacer_wait_db scan_pages_db keeps_fail emit_db)

lemma scan_task_result_db: "scan_task_result fuel sv t w = (r, seen, w') \<Longrightarrow> w_base w' = w_base w"
  using keepsD [OF scan_result_in_db [of "w_base w"], where w = "\<lparr>sc_world = w, sc_last = None, sc_seen = []\<rparr>"]
  by (auto simp: scan_task_result_def split: prod.splits)

section \<open>What the service does to the job tables\<close>

text \<open>The job tables are in order and the job \<open>g\<close> is in the state \<open>x\<close>.\<close>

definition job_in :: "string \<Rightarrow> job_state option \<times> 'z \<Rightarrow> db \<times> 'z \<Rightarrow> bool" where
  "job_in g x b \<longleftrightarrow> jobs_ok (fst b) \<and> (state_of (fst b) g, snd b) = x"

abbreviation w_job :: "string \<Rightarrow> job_state option \<times> 'z \<Rightarrow> ('p, 'z) world_scheme \<Rightarrow> bool" where
  "w_job g x w \<equiv> job_in g x (w_base w)"

lemma keeps_free_job: "db_free m \<Longrightarrow> keeps (w_job g x) m"
  by (rule keeps_db_free)

lemma same_tasks_job: "same_tasks d d' \<Longrightarrow> job_in g x (d, z) \<Longrightarrow> job_in g x (d', z)"
  using same_tasks_ok [of d d'] by (simp add: job_in_def)

lemma mark_artifact_deleted_same: "same_tasks d (snd (mark_artifact_deleted i d))"
  by (simp add: mark_artifact_deleted_def same_tasks_def delete_artifacts_def Let_def)

lemma mark_paths_same: "same_tasks d (snd (mark_paths now h ps d))"
proof (induction ps arbitrary: d)
  case (Cons p ps)
  show ?case using Cons [of "d\<lparr>torrent_files := x\<rparr>" for x] by (simp add: Let_def same_tasks_def)
qed (simp add: same_tasks_def)

lemma mark_strm_seeded_same: "same_tasks d (snd (mark_strm_seeded now h ps d))"
  using mark_paths_same [of d "format_time now" "to_lower h" ps]
  by (simp add: mark_strm_seeded_def snd_tx same_tasks_def split: sum.splits)

lemma keeps_same_db: "(\<And>d. same_tasks d (snd (m d))) \<Longrightarrow> keeps (w_job g x) (on_db m)"
  by (rule keepsI) (auto intro: same_tasks_job)

lemma save_task_job: "t_job_gid t \<noteq> '''' \<Longrightarrow> keeps (w_job g x) (on_db (save_task now m t))"
  by (rule keepsI) (simp add: job_in_def save_task_ok)

lemma save_scan_job: "t_job_gid t \<noteq> '''' \<Longrightarrow> keeps (w_job g x) (on_db (save_scan now r t))"
  by (rule keepsI) (use save_scan_ok in \<open>auto simp: job_in_def\<close>)

lemma empty_recycle_bin_free: "db_free (empty_recycle_bin s)"
  unfolding empty_recycle_bin_def by (auto intro!: db_free_try db_free_intros split: option.splits)

lemma cancel_task_free: "db_free (cancel_task s h b)"
  unfolding cancel_task_def by (auto intro!: db_free_bind db_free_intros empty_recycle_bin_free)

lemma create_tasks_free: "db_free (create_tasks s magnets)"
  unfolding create_tasks_def restart_def by (intro db_free_bind db_free_intros)

lemma create_offline_tasks_free: "db_free (create_offline_tasks s magnets)"
  unfolding create_offline_tasks_def
  by (intro db_free_bind create_tasks_free) (auto intro: db_free_intros split: option.splits)

lemma find_task_free: "db_free (find_task_with_max_age fuel s h max_age)"
  unfolding find_task_with_max_age_def by (intro db_free_bind query_free db_free_intros)

lemma find_task_retry_db: "w_base (snd (find_task_retry fuel s h interval evs w)) = w_base w"
proof (induction fuel s h interval evs w rule: find_task_retry.induct)
  case (1 fuel s h interval evs w)
  obtain r w1 where r: "find_task_with_max_age fuel s h interval w = (r, w1)" by fastforce
  have w1: "w_base w1 = w_base w" using db_freeD [OF find_task_free, of fuel s h interval w] r by simp
  show ?case
    by (subst (1 2) find_task_retry.simps)
       (use 1 r w1 in \<open>auto simp: run_event_db split: sum.splits option.splits list.splits\<close>)
qed

lemma find_task_with_retry_free: "db_free (find_task_with_retry fuel s h interval)"
  by (simp add: db_free_def find_task_with_retry_def find_task_retry_db)


lemmas job_free = db_free_intros [THEN keeps_free_job] empty_recycle_bin_free [THEN keeps_free_job]
  cancel_task_free [THEN keeps_free_job] create_offline_tasks_free [THEN keeps_free_job]
  find_task_free [THEN keeps_free_job] find_task_with_retry_free [THEN keeps_free_job]
  wait_task_free [THEN keeps_free_job]

lemmas job_rules = keeps_bind keeps_try keeps_wrap job_free

lemma delete_node_job: "keeps (w_job g x) (delete_node s del a n)"
  unfolding delete_node_def
  by (intro job_rules keeps_same_db mark_artifact_deleted_same)

lemma task_cleanup_info_same: "same_tasks d (snd (task_cleanup_info gid d))"
  by (simp add: task_cleanup_info_def same_tasks_def)

lemma delete_completed_job: "keeps (w_job g x) (delete_completed_task_files s gid)"
  unfolding delete_completed_task_files_def
  by (auto intro!: job_rules keeps_same_db task_cleanup_info_same mark_artifact_deleted_same
        delete_node_job split: option.splits sum.splits)

lemma delete_for_rebuild_job: "keeps (w_job g x) (delete_offline_task_for_rebuild s t)"
  unfolding delete_offline_task_for_rebuild_def
  by (auto simp: Let_def intro!: job_rules delete_completed_job split: sum.splits)

lemma replace_conflicting_job: "keeps (w_job g x) (replace_conflicting_offline_task fuel s magnet h)"
  unfolding replace_conflicting_offline_task_def
  by (auto simp: Let_def intro!: job_rules delete_for_rebuild_job
     split: sum.splits option.splits)

lemma publish_file_free: "db_free (publish_file s st base h f)"
  unfolding publish_file_def publish_nfo_def
  by (auto intro!: db_free_rules split: sum.splits option.splits)

lemma publish_files_free: "db_free (publish_files s st base h fs)"
proof (induction fs)
  case Nil
  show ?case unfolding publish_files.simps by (rule db_free_intros)
next
  case (Cons f fs)
  show ?case unfolding publish_files.simps by (intro db_free_bind publish_file_free Cons db_free_intros)
qed

lemma publish_strms_job: "keeps (w_job g x) (publish_strms s r)"
  unfolding publish_strms_def
  by (auto simp: Let_def intro!: job_rules publish_files_free [THEN keeps_free_job]
      keeps_same_db mark_strm_seeded_same split: option.splits)

lemma finish_scan_job: "t_job_gid t \<noteq> '''' \<Longrightarrow> keeps (w_job g x) (finish_scan s h magnet t reused fs n publish)"
  unfolding finish_scan_def
  by (auto intro!: job_rules save_scan_job publish_strms_job)

lemma scan_for_job:
  fixes s :: "'p service"
  assumes "t_job_gid t \<noteq> ''''"
  shows "keeps (w_job g x :: ('p, 'z) world_scheme \<Rightarrow> bool) (scan_for sf fuel s h magnet t reused target)"
proof -
  have plain: "keeps (w_job g x) (scan_plain fuel s t)"
    by (rule keepsI) (auto simp: scan_plain_def dest: scan_task_result_db split: prod.splits)
  have target: "keeps (w_job g x :: ('p, 'z) world_scheme \<Rightarrow> bool) (scan_target sf fuel s h magnet t reused target)"
  proof (rule keepsI)
    fix w :: "('p, 'z) world_scheme"
    assume w: "w_job g x w"
    obtain r seen w1 where run: "scan_task_result fuel s t w = (r, seen, w1)" by (metis prod_cases3)
    then have w1: "w_job g x w1" using w scan_task_result_db by metis
    have "w_job g x (snd (finish_scan s h magnet t reused fs n False w1))" for fs n
      using finish_scan_job [OF assms] w1 unfolding keeps_def by blast
    with w w1 show "w_job g x (snd (scan_target sf fuel s h magnet t reused target w))"
      by (auto simp: scan_target_def run split: option.splits sum.splits)
  qed
  show ?thesis
    unfolding scan_for_def
    by (auto intro!: job_rules plain target split: scanned.splits)
qed

lemma wait_turns_job:
  fixes s :: "'p service"
  shows "t_job_gid t \<noteq> '''' \<Longrightarrow>
    keeps (w_job g x :: ('p, 'z) world_scheme \<Rightarrow> bool) (wait_turns n fuel s magnet h seen t)"
proof (induction n arbitrary: seen t)
  case (Suc n)
  have "keeps (w_job g x :: ('p, 'z) world_scheme \<Rightarrow> bool)
      (wait_turns n fuel s magnet h (task_look t) (next_current t u))" for u
    by (rule Suc.IH) (use Suc.prems in \<open>simp add: next_current_def\<close>)
  then show ?case
    using Suc.prems unfolding wait_turns.simps save_current_def
    by (auto intro!: job_rules save_task_job)
qed (simp add: keeps_fail)

text \<open>Waiting hands back the identity of the job with the task.\<close>

lemma wait_turns_gid:
  "wait_turns n fuel s magnet h seen t w = (Inr t', w') \<Longrightarrow> t_job_gid t' = t_job_gid t"
proof (induction n arbitrary: seen t w)
  case (Suc n)
  have "t_job_gid (next_current t u) = t_job_gid t" for u by (simp add: next_current_def)
  with Suc show ?case by (fastforce simp: io_bind_eq_Inr split: if_splits)
qed simp

lemma wait_for_task_job:
  fixes s :: "'p service"
  assumes "t_job_gid t \<noteq> ''''"
  shows "keeps (w_job g x :: ('p, 'z) world_scheme \<Rightarrow> bool) (wait_for_task fuel s magnet h t)"
proof (rule keepsI)
  fix w :: "('p, 'z) world_scheme"
  assume "w_job g x w"
  with wait_turns_job [OF assms] show "w_job g x (snd (wait_for_task fuel s magnet h t w))"
    unfolding wait_for_task_def keeps_def by blast
qed

lemma wait_for_task_gid: "wait_for_task fuel s magnet h t w = (Inr u, w') \<Longrightarrow> t_job_gid u = t_job_gid t"
  unfolding wait_for_task_def by (rule wait_turns_gid)

text \<open>A computation whose result satisfies something, with the rest keeping the predicate for such results.\<close>

lemma keeps_bind_result:
  assumes "keeps P m" and "\<And>w y w'. m w = (Inr y, w') \<Longrightarrow> Q y" and "\<And>y. Q y \<Longrightarrow> keeps P (f y)"
  shows "keeps P (io_bind m f)"
proof (rule keepsI)
  fix w
  assume "P w"
  obtain r w1 where r: "m w = (r, w1)" by fastforce
  with assms(1) \<open>P w\<close> have "P w1" by (auto intro: keepsD)
  with r assms(2,3) show "P (snd (io_bind m f w))"
    by (cases r) (auto simp: io_bind_def keeps_def)
qed

lemma recreate_job: "keeps (w_job g x) (recreate s magnet h u)"
  unfolding recreate_def by (auto intro!: job_rules delete_for_rebuild_job)

lemma resolve_loop_job:
  fixes s :: "'p service"
  shows "t_job_gid t \<noteq> '''' \<Longrightarrow> gid \<noteq> '''' \<Longrightarrow> keeps (w_job g x :: ('p, 'z) world_scheme \<Rightarrow> bool)
     (resolve_loop n sf fuel s gid magnet h target publish t reused)"
proof (induction n arbitrary: t reused)
  case 0
  show ?case
    by (subst resolve_loop.simps, rule keeps_bind_result [where Q = "\<lambda>u. t_job_gid u \<noteq> ''''"])
       (use 0 in \<open>auto intro!: wait_for_task_job job_rules scan_for_job finish_scan_job
          dest!: wait_for_task_gid split: sum.splits scanned.splits\<close>)
next
  case (Suc n)
  show ?case
    by (subst resolve_loop.simps, rule keeps_bind_result [where Q = "\<lambda>u. t_job_gid u \<noteq> ''''"])
       (use Suc in \<open>auto intro!: wait_for_task_job job_rules scan_for_job finish_scan_job recreate_job save_task_job
          simp: save_current_def Let_def simp del: resolve_loop.simps
          dest!: wait_for_task_gid split: sum.splits scanned.splits\<close>)
qed

lemma resolve_job:
  fixes s :: "'p service"
  assumes "gid \<noteq> ''''"
  shows "keeps (w_job g x :: ('p, 'z) world_scheme \<Rightarrow> bool) (resolve sf fuel s gid magnet prepared publish target force)"
proof -
  have "keeps (w_job g x :: ('p, 'z) world_scheme \<Rightarrow> bool) (start_task fuel s magnet h force)" for h
    unfolding start_task_def Let_def
    by (auto intro!: job_rules replace_conflicting_job split: option.splits)
  then show ?thesis
    using assms unfolding resolve_def save_current_def Let_def
    by (auto intro!: job_rules save_task_job resolve_loop_job simp del: resolve_loop.simps
        split: sum.splits option.splits)
qed

lemma resolve_keeps:
  fixes v :: "('p, 'z) world_scheme"
  assumes "gid \<noteq> ''''" and "jobs_ok (w_db v)"
  shows "jobs_ok (w_db (snd (resolve sf fuel s gid magnet prepared publish target force v))) \<and>
    state_of (w_db (snd (resolve sf fuel s gid magnet prepared publish target force v))) g = state_of (w_db v) g \<and>
    world.more (snd (resolve sf fuel s gid magnet prepared publish target force v)) = world.more v"
  using resolve_job [OF assms(1), of g "(state_of (w_db v) g, world.more v)" sf fuel s magnet prepared publish target force]
    assms(2) by (simp add: keeps_def job_in_def)

section \<open>Waiting for a task ends\<close>

text \<open>Nobody waits under an identity that is still to be given out.\<close>

definition waiters_fresh :: "offline_tasks \<Rightarrow> bool" where
  "waiters_fresh m \<longleftrightarrow> (\<forall>k r x. record_of k m = Some r \<longrightarrow> x \<in> set (mt_waiters r) \<longrightarrow> fst x < om_next_waiter m)"

abbreviation w_fresh :: "('p, 'z) world_scheme \<Rightarrow> bool" where
  "w_fresh w \<equiv> waiters_fresh (w_offline w)"

lemma record_of_set_record: "record_of k (set_record k' t m) = (if k = k' then Some t else record_of k m)"
  by (simp add: record_of_def set_record_def update_conv')

lemma next_waiter_set_record [simp]: "om_next_waiter (set_record k t m) = om_next_waiter m"
  by (simp add: set_record_def)

lemma waiters_fresh_set:
  "waiters_fresh m \<Longrightarrow> (\<And>x. x \<in> set (mt_waiters t) \<Longrightarrow> fst x < om_next_waiter m) \<Longrightarrow> waiters_fresh (set_record k t m)"
  by (auto simp: waiters_fresh_def record_of_set_record split: if_splits)

lemma waiters_fresh_frame:
  "om_tasks m' = om_tasks m \<Longrightarrow> om_next_waiter m' = om_next_waiter m \<Longrightarrow> waiters_fresh m \<Longrightarrow> waiters_fresh m'"
  by (simp add: waiters_fresh_def record_of_def)

lemma deliver_ids [simp]: "fst ` set (mt_waiters (deliver r t)) = fst ` set (mt_waiters t)"
  by (force simp: deliver_def)

lemma fresh_ids:
  "waiters_fresh m \<Longrightarrow> record_of k m = Some r \<Longrightarrow> fst ` set ws \<subseteq> fst ` set (mt_waiters r) \<Longrightarrow> x \<in> set ws \<Longrightarrow>
     fst x < om_next_waiter m"
  unfolding waiters_fresh_def by (metis (no_types, lifting) image_eqI image_iff subsetD)

lemma note_task_fresh: "waiters_fresh m \<Longrightarrow> waiters_fresh (fst (note_task now t (m, a)))"
proof -
  assume m: "waiters_fresh m"
  let ?m = "note_snapshot now t m"
  have s: "waiters_fresh ?m" by (rule waiters_fresh_frame [OF _ _ m]) (simp_all add: note_snapshot_def Let_def)
  show ?thesis
  proof (cases "record_of (to_lower (t_info_hash t)) ?m")
    case (Some r)
    have "fst x < om_next_waiter ?m" if "x \<in> set (mt_waiters (deliver p (r\<lparr>mt_task := t\<rparr>)))" for x p
      using fresh_ids [OF s Some _ that] by simp
    then show ?thesis
      using s Some by (auto simp: note_task_def note_record_def Let_def intro!: waiters_fresh_set)
  qed (use s in \<open>simp add: note_task_def note_record_def Let_def\<close>)
qed

lemma fold_note_fresh: "waiters_fresh m \<Longrightarrow> waiters_fresh (fst (fold (note_task now) ts (m, a)))"
proof (induction ts arbitrary: m a)
  case (Cons t ts)
  then show ?case using note_task_fresh [OF Cons.prems, of now t a] by (metis fold_simps(2) prod.collapse)
qed simp

lemma poll_one_fresh: "waiters_fresh m \<Longrightarrow> waiters_fresh (poll_one s now res k m)"
proof (cases "record_of k m")
  case (Some r)
  assume m: "waiters_fresh m"
  have "fst x < om_next_waiter m"
    if "x \<in> set (mt_waiters (deliver p (r\<lparr>mt_last_poll := a, mt_next_poll := b, mt_task := c\<rparr>)))" for x p a b c
    using fresh_ids [OF m Some _ that] by simp
  moreover have "fst x < om_next_waiter m"
    if "x \<in> set (mt_waiters (deliver p (r\<lparr>mt_last_poll := a, mt_next_poll := b\<rparr>)))" for x p a b
    using fresh_ids [OF m Some _ that] by simp
  ultimately show ?thesis
    using m Some by (auto simp: poll_one_def Let_def intro!: waiters_fresh_set split: option.splits)
qed (simp add: poll_one_def)

lemma fold_poll_fresh: "waiters_fresh m \<Longrightarrow> waiters_fresh (fold (poll_one s now res) ks m)"
  by (induction ks arbitrary: m) (simp_all add: poll_one_fresh)

lemma fetch_pages_fresh: "w_fresh w \<Longrightarrow> w_fresh (snd (fetch_pages n pv page a w))"
proof (induction n arbitrary: page a w)
  case (Suc n)
  show ?case
  proof (cases "snd a = []")
    case False
    obtain r w1 where r: "on_prov (pv_list_offline pv page) w = (r, w1)" by fastforce
    have w1: "w_offline w1 = w_offline w" using on_prov_frame(1) [of "pv_list_offline pv page" w] r by simp
    obtain t w2 where t: "read_now w1 = (Inr t, w2)" using read_now_total by blast
    have w2: "w_offline w2 = w_offline w" using read_now_frame(1) [of w1] t w1 by simp
    have f: "waiters_fresh (fst (fold (note_task t) ts (w_offline w, a)))" for ts
      using fold_note_fresh Suc.prems by blast
    show ?thesis
    proof (cases r)
      case (Inr p)
      obtain listed pages where p: "p = (listed, pages)" by fastforce
      obtain m b where m: "fold (note_task t) listed (w_offline w2, a) = (m, b)" by (metis surj_pair)
      then have "waiters_fresh m" using f [of listed] w2 by simp
      then show ?thesis
        using False t m Suc.IH [of "w2\<lparr>w_offline := m\<rparr>"] by (simp add: io_try_def io_bind_def r Inr p Let_def)
    qed (use False w1 Suc.prems in \<open>simp add: io_try_def r\<close>)
  qed (use Suc.prems in simp)
qed simp

lemma keeps_fresh_frame: "(\<And>w. w_offline (snd (m w)) = w_offline w) \<Longrightarrow> keeps w_fresh m"
  by (simp add: keeps_def)

lemma scheduler_turn_fresh: "keeps w_fresh (scheduler_turn fuel s)"
proof -
  have f: "keeps w_fresh (fetch_pages n pv page a)" for n pv page a
    by (rule keepsI) (rule fetch_pages_fresh)
  have now: "keeps w_fresh read_now" by (rule keeps_fresh_frame) simp
  have g: "keeps w_fresh (fetch fuel pv targets 0)" for pv targets
    unfolding fetch_def Let_def by (auto intro!: keeps_bind f keeps_ret)
  have "keeps w_fresh (on_offline (fold (poll_one s now res) targets))" for now res targets
    by (auto simp: keeps_def on_offline_def fold_poll_fresh)
  then have "keeps w_fresh (poll fuel s targets)" for targets
    unfolding poll_def by (intro keeps_bind g now)
  then show ?thesis
    unfolding scheduler_turn_def
    by (intro keeps_bind now) (auto simp: keeps_def split: prod.splits)
qed

lemma run_event_fresh: "w_fresh w \<Longrightarrow> w_fresh (run_event fuel s e w)"
  using scheduler_turn_fresh by (cases e) (auto simp: run_event_def keeps_def)

text \<open>What an event does to the events still to come: nothing.\<close>

lemma on_prov_events: "w_events (snd (on_prov m w)) = w_events w"
  by simp

lemma fetch_pages_events: "w_events (snd (fetch_pages n pv page a w)) = w_events w"
proof (induction n arbitrary: page a w)
  case (Suc n)
  show ?case
  proof (cases "snd a = []")
    case False
    obtain r w1 where r: "on_prov (pv_list_offline pv page) w = (r, w1)" by fastforce
    have w1: "w_events w1 = w_events w" using on_prov_frame(5) [of "pv_list_offline pv page" w] r by simp
    obtain t w2 where t: "read_now w1 = (Inr t, w2)" using read_now_total by blast
    have w2: "w_events w2 = w_events w" using read_now_frame(5) [of w1] t w1 by simp
    show ?thesis
      using False w1 w2 t Suc.IH by (auto simp: io_try_def io_bind_def r Let_def split: sum.splits prod.splits)
  qed simp
qed simp

text \<open>Taking a message out of a mailbox, leaving the queue of waiters.\<close>

lemma clear_mailbox_fresh: "waiters_fresh m \<Longrightarrow> waiters_fresh (clear_mailbox k i m)"
proof (cases "record_of k m")
  case (Some r)
  assume m: "waiters_fresh m"
  have "fst ` set (map (\<lambda>(j, b). (j, if j = i then None else b)) (mt_waiters r)) \<subseteq> fst ` set (mt_waiters r)"
    by (auto simp: image_iff) force
  from fresh_ids [OF m Some this] show ?thesis
    using m Some by (auto simp: clear_mailbox_def intro!: waiters_fresh_set)
qed (simp add: clear_mailbox_def)

lemma remove_waiter_fresh: "waiters_fresh m \<Longrightarrow> waiters_fresh (remove_waiter k i m)"
proof (cases "record_of k m")
  case (Some r)
  assume m: "waiters_fresh m"
  have "fst ` set (filter (\<lambda>x. fst x \<noteq> i) (mt_waiters r)) \<subseteq> fst ` set (mt_waiters r)" by auto
  from fresh_ids [OF m Some this] show ?thesis
    using m Some by (auto simp: remove_waiter_def intro!: waiters_fresh_set)
qed (simp add: remove_waiter_def)

lemma add_waiter_fresh:
  assumes "waiters_fresh m"
  shows "waiters_fresh (add_waiter s now k t m)" and "mailbox k (om_next_waiter m) (add_waiter s now k t m) = None"
proof -
  let ?r = "case record_of k m of
      None \<Rightarrow> \<lparr>mt_task = t, mt_started = now, mt_last_poll = None,
        mt_next_poll = now + adaptive_poll_interval s 0, mt_waiters = []\<rparr>
    | Some r \<Rightarrow> if newer_offline_task t (mt_task r) then r\<lparr>mt_task := t\<rparr> else r"
  have old: "fst x < om_next_waiter m" if "x \<in> set (mt_waiters ?r)" for x
  proof (cases "record_of k m")
    case (Some r)
    then have "x \<in> set (mt_waiters r)" using that by (simp split: if_splits)
    with Some assms show ?thesis unfolding waiters_fresh_def by blast
  qed (use that in simp)
  have rec: "record_of k' (add_waiter s now k t m) =
      (if k = k' then Some (?r\<lparr>mt_waiters := mt_waiters ?r @ [(om_next_waiter m, None)]\<rparr>) else record_of k' m)" for k'
    by (simp add: add_waiter_def Let_def record_of_def set_record_def update_conv')
  have nxt: "om_next_waiter (add_waiter s now k t m) = Suc (om_next_waiter m)"
    by (simp add: add_waiter_def Let_def)
  show "waiters_fresh (add_waiter s now k t m)"
    unfolding waiters_fresh_def nxt rec using old assms
    by (auto simp: waiters_fresh_def less_SucI split: if_splits)
  have "map_of (mt_waiters ?r) (om_next_waiter m) = None"
    using old by (force simp: map_of_eq_None_iff)
  then show "mailbox k (om_next_waiter m) (add_waiter s now k t m) = None"
    by (simp add: mailbox_def rec map_add_def)
qed


lemma wait_loop_fresh:
  "w_fresh w \<Longrightarrow> w_fresh (snd (wait_loop fuel s k i evs w)) \<and>
     length (w_events (snd (wait_loop fuel s k i evs w))) \<le> length evs \<and>
     (\<forall>t. fst (wait_loop fuel s k i evs w) = Inr t \<longrightarrow> mailbox k i (w_offline w) = None \<longrightarrow>
        length (w_events (snd (wait_loop fuel s k i evs w))) < length evs)"
proof (induction fuel s k i evs w rule: wait_loop.induct)
  case (1 fuel s k i evs w)
  show ?case
    by (subst (1 2 3 4) wait_loop.simps)
       (use 1 in \<open>auto simp: run_event_fresh clear_mailbox_fresh le_SucI less_Suc_eq_le split: option.splits list.splits\<close>)
qed

lemma wait_task_fresh:
  assumes "w_fresh w" and "wait_task fuel s h t w = (r, w')"
  shows "w_fresh w'" and "r = Inr u \<Longrightarrow> length (w_events w') < length (w_events w)"
proof -
  obtain now w1 where now: "read_now w = (Inr now, w1)" using read_now_total by blast
  have f: "w_offline w1 = w_offline w" "w_events w1 = w_events w"
    using read_now_frame(1,5) [of w] now by simp_all
  let ?k = "to_lower h" and ?i = "om_next_waiter (w_offline w)"
  let ?w2 = "w1\<lparr>w_offline := add_waiter s now ?k t (w_offline w)\<rparr>"
  obtain r2 w3 where loop: "wait_loop fuel s ?k ?i (w_events w) ?w2 = (r2, w3)" by fastforce
  have w2: "w_fresh ?w2" "mailbox ?k ?i (w_offline ?w2) = None"
    using add_waiter_fresh [OF assms(1)] by simp_all
  have run: "r = r2" "w' = w3\<lparr>w_offline := remove_waiter ?k ?i (w_offline w3)\<rparr>"
    using assms(2) now loop f by (simp_all add: wait_task_def io_bind_def Let_def)
  from wait_loop_fresh [OF w2(1), of fuel s ?k ?i "w_events w"] loop w2(2)
  show "w_fresh w'" and "r = Inr u \<Longrightarrow> length (w_events w') < length (w_events w)"
    unfolding run by (simp_all add: remove_waiter_fresh)
qed

lemma on_db_events [simp]: "w_events (snd (on_db m w)) = w_events w"
  by (simp add: on_db_def split: prod.splits)

lemma save_current_frame:
  "save_current magnet t w = (r, w') \<Longrightarrow> w_offline w' = w_offline w \<and> w_events w' = w_events w"
proof -
  assume run: "save_current magnet t w = (r, w')"
  obtain now w1 where now: "read_now w = (Inr now, w1)" using read_now_total by blast
  have "w_offline w1 = w_offline w" "w_events w1 = w_events w"
    using read_now_frame(1,5) [of w] now by simp_all
  then show ?thesis
    using run now on_db_frame(1) [of "save_task now magnet t" w1] on_db_events [of "save_task now magnet t" w1]
    by (simp add: save_current_def io_bind_def)
qed

lemma wait_turns_enough:
  fixes w :: "('p, 'z) world_scheme"
  shows "w_fresh w \<Longrightarrow> length (w_events w) < n \<Longrightarrow> length (w_events w) < m \<Longrightarrow>
     wait_turns n fuel s magnet h seen t w = wait_turns m fuel s magnet h seen t w"
proof (induction n arbitrary: m seen t w)
  case (Suc n)
  then obtain m' where m: "m = Suc m'" by (cases m) auto
  define pre :: "(('p, 'z) world_scheme, unit) io" where "pre = (if task_look t \<noteq> seen then save_current magnet t else io_ret ())"
  obtain r1 w1 where r1: "pre w = (r1, w1)" by fastforce
  then have f1: "w_offline w1 = w_offline w" "w_events w1 = w_events w"
    by (auto simp: pre_def dest: save_current_frame split: if_splits)
  obtain r2 w2 where r2: "wait_task fuel s h t w1 = (r2, w2)" by fastforce
  have "w_fresh w1" using Suc.prems(1) f1 by simp
  note w2 = wait_task_fresh [OF this r2]
  have "wait_turns n fuel s magnet h (task_look t) (next_current t u) w2 =
      wait_turns m' fuel s magnet h (task_look t) (next_current t u) w2" if "r2 = Inr u" for u
    by (rule Suc.IH [OF w2(1)]) (use w2(2) [OF that] f1 Suc.prems m in simp_all)
  then show ?case
    unfolding m wait_turns.simps pre_def [symmetric]
    by (cases r1; cases r2) (simp_all add: io_bind_def r1 r2)
qed simp

text \<open>Waiting for a task ends: as long as no identity of a waiter is reused, the turns the model allows are
  enough, so that allowing more gives the same outcome; \<open>wait_for_task\<close> never stops for want of
  turns. (Every turn that does not return blocks until something happens.)\<close>

lemma wait_for_task_ends:
  assumes "waiters_fresh (w_offline w)" and "length (w_events w) < n"
  shows "wait_turns n fuel s magnet h (- 999, - 1, '''') t w = wait_for_task fuel s magnet h t w"
  unfolding wait_for_task_def by (rule wait_turns_enough) (use assms in simp_all)


section \<open>Running a job\<close>

lemma run_job_outcome:
  fixes w :: "('p, 'z) world_scheme"
  assumes "jobs_ok (w_db w)" and "state_of (w_db w) (j_gid j) \<in> {Some Queued, Some Running}" and "j_gid j \<noteq> ''''"
    and run: "run_job fuel s started finished deadline j w = (r, w')"
  shows "jobs_ok (w_db w') \<and> (case r of Inr _ \<Rightarrow> state_of (w_db w') (j_gid j) = Some Succeeded
    | Inl e \<Rightarrow> state_of (w_db w') (j_gid j) = Some Failed \<or>
        state_of (w_db w') (j_gid j) = Some Canceled \<and> e = ErrJobCanceled)"
proof -
  have keep: "jobs_ok (w_db (snd (resolve_magnet fuel s (j_gid j) (j_magnet_uri j) v))) \<and>
      state_of (w_db (snd (resolve_magnet fuel s (j_gid j) (j_magnet_uri j) v))) (j_gid j) \<in> {Some Running, Some Canceled}"
    if "jobs_ok (w_db v)" "state_of (w_db v) (j_gid j) = Some Running" for v :: "('p, 'z) world_scheme"
    unfolding resolve_magnet_def using resolve_keeps [OF assms(3) that(1), where g = "j_gid j"] that(2) by simp
  show ?thesis
    using wj.run_job_ends [OF assms(1,2) keep run [unfolded run_job_def]] by blast
qed

text \<open>C2. A job that the service runs reaches a final state, whatever the cloud answers and whatever happens while it
  waits: started in a database in order with the job queued or running, the run leaves the database in order
  and the job succeeded exactly if the run returned a result, otherwise failed.\<close>

theorem run_job_final:
  fixes w :: "('p, 'z) world_scheme"
  assumes "jobs_ok (w_db w)" and "state_of (w_db w) (j_gid j) \<in> {Some Queued, Some Running}" and "j_gid j \<noteq> ''''"
    and run: "run_job fuel s started finished deadline j w = (r, w')"
  shows "jobs_ok (w_db w') \<and> (case r of Inr _ \<Rightarrow> state_of (w_db w') (j_gid j) = Some Succeeded
    | Inl e \<Rightarrow> state_of (w_db w') (j_gid j) = Some Failed \<or>
        state_of (w_db w') (j_gid j) = Some Canceled \<and> e = ErrJobCanceled)"
  using assms by (rule run_job_outcome)

section \<open>Deleting source files\<close>

lemma on_prov_run: "m (w_prov w) = (r, p) \<Longrightarrow> on_prov m w = (r, w\<lparr>w_prov := p\<rparr>)"
  by (simp add: on_prov_def)

text \<open>C18. Nothing outside the work directory is deleted: if the file a job's artifact names is found in the cloud
  and neither is the work directory nor has it among its parents, then deleting the job's files fails, and
  beyond that look-up the cloud is not called and nothing changes.\<close>

theorem delete_stays_in_work_dir:
  assumes "task_cleanup_info gid (w_db w) = (Inr (artifact, file_id, wp), w_db w)"
    and "pv_folder_info (sv_provider s) (trim_space file_id) (w_prov w) = (Inr n, p)"
    and "n_id n \<noteq> sv_work_dir s" and "sv_work_dir s \<notin> p_id ` set (n_parents n)"
  shows "\<exists>e w'. delete_completed_task_files s gid w = (Inl e, w') \<and> (w' = w \<or> w' = w\<lparr>w_prov := p\<rparr>)"
proof -
  have db: "on_db (task_cleanup_info gid) w = (Inr (artifact, file_id, wp), w)"
    using assms(1) by (simp add: on_db_def)
  have "\<not> below_work_dir s n"
    using assms(3,4) by (force simp: below_work_dir_def list_ex_iff)
  then show ?thesis
    using assms(2) by (simp add: delete_completed_task_files_def io_bind_def io_try_def db on_prov_run split: option.splits)
qed

text \<open>A task of another work directory is refused before the cloud is asked.\<close>

lemma delete_refuses_other_work_dir:
  assumes "task_cleanup_info gid (w_db w) = (Inr (artifact, file_id, wp), w_db w)"
    and "trim_space wp \<noteq> trim_space (sv_work_dir s)"
  shows "\<exists>e. delete_completed_task_files s gid w = (Inl e, w)"
proof -
  have "on_db (task_cleanup_info gid) w = (Inr (artifact, file_id, wp), w)"
    using assms(1) by (simp add: on_db_def)
  with assms(2) show ?thesis
    by (simp add: delete_completed_task_files_def io_bind_def split: option.splits)
qed

text \<open>The check accepts the work directory itself: when a job's artifact names the work directory, everything the
  program ever downloaded is deleted with that one job.\<close>

lemma work_dir_itself_is_deleted:
  assumes "task_cleanup_info gid (w_db w) = (Inr (artifact, file_id, wp), w_db w)"
    and "trim_space file_id \<noteq> ''''" and "trim_space wp = trim_space (sv_work_dir s)"
    and "pv_folder_info (sv_provider s) (trim_space file_id) (w_prov w) = (Inr n, p)" and "n_id n = sv_work_dir s"
    and "pv_delete_file (sv_provider s) = Some del" and "del (sv_work_dir s) (n_parent_id n) p = (Inr (), p')"
    and "pv_recycle_bin (sv_provider s) = None"
  shows "\<exists>w'. delete_completed_task_files s gid w = (Inr (), w') \<and> w_prov w' = p'"
proof -
  have db: "on_db (task_cleanup_info gid) w = (Inr (artifact, file_id, wp), w)"
    using assms(1) by (simp add: on_db_def)
  have mark: "on_db (mark_artifact_deleted artifact) v = (Inr (), v\<lparr>w_db := snd (mark_artifact_deleted artifact (w_db v))\<rparr>)"
    for v :: "('a, 'b) world_scheme"
    by (simp add: on_db_def mark_artifact_deleted_def)
  show ?thesis
    using assms
    by (simp add: delete_completed_task_files_def delete_node_def below_work_dir_def empty_recycle_bin_def io_bind_def
        io_try_def wrap_err_def db on_prov_run mark)
qed

section \<open>Witnesses\<close>

definition sample_world :: "unit world" where
  "sample_world = (new_world ())\<lparr>w_db := sample_db, w_events := [EvTime 5, EvPoll]\<rparr>"

theorem run_job_final_witness:
  "state_of (w_db (snd (run_job 2 sample_service 1 2 False sample_job sample_world))) ''g1'' \<in>
     {Some Succeeded, Some Failed, Some Canceled}"
proof -
  have g: "j_gid sample_job = ''g1''" by (simp add: sample_job_def)
  have w: "w_db sample_world = sample_db" by (simp add: sample_world_def)
  have st: "state_of (w_db sample_world) (j_gid sample_job) \<in> {Some Queued, Some Running}"
    unfolding w by code_simp
  from run_job_final [OF _ st _ surjective_pairing, of 2 sample_service 1 2 False] sample_db_ok(1)
  show ?thesis unfolding w g by (auto simp: g split: sum.splits)
qed

text \<open>A cloud that knows one folder, and what a job's artifact says of it.\<close>

definition sample_folder :: "string \<Rightarrow> remote_parent list \<Rightarrow> remote_node" where
  "sample_folder n parents = \<lparr>n_id = n, n_parent_id = ''0'', n_name = ''x'', n_sha1 = '''', n_size_bytes = 0,
     n_pick_code = '''', n_is_dir = True, n_created_at = 0, n_updated_at = 0, n_parents = parents\<rparr>"

definition sample_owner :: "string \<Rightarrow> remote_parent list \<Rightarrow> unit service" where
  "sample_owner n parents = sample_service\<lparr>sv_provider := sample_provider\<lparr>
     pv_folder_info := (\<lambda>_. io_ret (sample_folder n parents)),
     pv_delete_file := Some (\<lambda>_ _. io_ret ())\<rparr>\<rparr>"

definition sample_owner_world :: "unit world" where
  "sample_owner_world = (new_world ())\<lparr>w_db := snd (save_task_artifact
     (sample_task\<lparr>t_delete_file_id := ''f'', t_wp_path_id := ''w''\<rparr>) 1 sample_db)\<rparr>"

lemma sample_cleanup: "task_cleanup_info ''g1'' (w_db sample_owner_world) = (Inr (1, ''f'', ''w''), w_db sample_owner_world)"
proof -
  have "fst (task_cleanup_info ''g1'' (w_db sample_owner_world)) = Inr (1, ''f'', ''w'')" by code_simp
  then show ?thesis by (simp add: task_cleanup_info_def split: option.splits)
qed

theorem delete_stays_in_work_dir_witness:
  "\<exists>e w'. delete_completed_task_files (sample_owner ''f'' []) ''g1'' sample_owner_world = (Inl e, w') \<and>
     (w' = sample_owner_world \<or> w' = sample_owner_world\<lparr>w_prov := ()\<rparr>)"
  by (rule delete_stays_in_work_dir [OF sample_cleanup, where n = "sample_folder ''f'' []"])
     (simp_all add: sample_owner_def sample_service_def sample_folder_def)

end
