(* ===== verification/Task_Facts.thy ===== *)
theory Task_Facts
  imports Task_Manager Ingest_Facts
begin

text \<open>
  What the task manager promises: the queue and its marks agree, every job of a batch reaches a final state, a job
  that is submitted to an idle manager is run, restarting queues everything again; and two ways in which a job is
  stored as queued without being in the queue.
\<close>

section \<open>The manager's part of the world\<close>

lemma more_queue:
  assumes "world.more w' = world.more w"
  shows "m_queue w' = m_queue w" "m_queued w' = m_queued w" "m_taken w' = m_taken w" "m_running w' = m_running w"
    "m_stopped w' = m_stopped w" "m_prepared w' = m_prepared w" "m_events w' = m_events w" "m_rand w' = m_rand w"
  using assms by (cases w; cases w'; simp)+

definition taken :: "('p, 'z) m_world_scheme \<Rightarrow> string list" where
  "taken w = (case m_taken w of None \<Rightarrow> [] | Some gids \<Rightarrow> gids)"

definition waiting :: "('p, 'z) m_world_scheme \<Rightarrow> string list" where
  "waiting w = concat (m_queue w) @ taken w"

text \<open>The channel is bounded, no job is in it twice, and the marks are exactly the jobs in it or in the worker's hand.\<close>

definition queue_ok :: "('p, 'z) m_world_scheme \<Rightarrow> bool" where
  "queue_ok w \<longleftrightarrow> length (m_queue w) \<le> max_concurrent_downloads \<and> distinct (waiting w) \<and>
     set (m_queued w) = set (waiting w) \<and> '''' \<notin> set (waiting w)"

lemma queue_ok_cong:
  "m_queue w' = m_queue w \<Longrightarrow> m_queued w' = m_queued w \<Longrightarrow> m_taken w' = m_taken w \<Longrightarrow> queue_ok w' \<longleftrightarrow> queue_ok w"
  by (simp add: queue_ok_def waiting_def taken_def)

lemma queue_ok_more: "world.more w' = world.more w \<Longrightarrow> queue_ok w' \<longleftrightarrow> queue_ok w"
  by (intro queue_ok_cong more_queue)

lemma new_marks_set: "set (new_marks marked gs) = {g \<in> set gs. g \<noteq> '''' \<and> g \<notin> set marked}"
  by (induction marked gs rule: new_marks.induct) auto

lemma new_marks_distinct: "distinct (new_marks marked gs)"
  by (induction marked gs rule: new_marks.induct) (auto simp: new_marks_set)

lemma enqueue_many_error: "enqueue_many gids w = (Inl e, w') \<Longrightarrow> w' = w"
  by (auto simp: enqueue_many_def Let_def split: if_splits option.splits)

lemma enqueue_many_run:
  assumes "enqueue_many gids w = (Inr u, w')"
  shows "w_base w' = (w_db w, world.more w') \<and> m_taken w' = m_taken w \<and> m_stopped w' = m_stopped w \<and>
    (\<forall>g \<in> set gids. g \<noteq> '''' \<longrightarrow> g \<in> set (m_queued w'))"
  using assms by (auto simp: enqueue_many_def Let_def new_marks_set filter_empty_conv split: if_splits option.splits)
    (metis (mono_tags, lifting) empty_iff list.set(1) mem_Collect_eq new_marks_set)+

lemma enqueue_many_ok:
  assumes "queue_ok w"
  shows "queue_ok (snd (enqueue_many gids w))"
proof -
  let ?p = "new_marks (m_queued w) gids"
  have "distinct (waiting w @ ?p)" "'''' \<notin> set ?p"
    using assms by (auto simp: queue_ok_def new_marks_set new_marks_distinct)
  with assms show ?thesis
    by (auto simp: enqueue_many_def Let_def queue_ok_def waiting_def taken_def split: option.splits)
qed

section \<open>What submitting does\<close>

text \<open>A predicate on the job tables and the queue together.\<close>

definition m_ok :: "('p, 'z) m_world_scheme \<Rightarrow> bool" where
  "m_ok w \<longleftrightarrow> jobs_ok (w_db w) \<and> queue_ok w"

lemma m_ok_cong: "w_db w' = w_db w \<Longrightarrow> world.more w' = world.more w \<Longrightarrow> m_ok w' \<longleftrightarrow> m_ok w"
  using queue_ok_more [of w' w] by (simp add: m_ok_def)

lemma keeps_m_free: "db_free m \<Longrightarrow> keeps m_ok m"
  by (rule keepsI) (use m_ok_cong in \<open>fastforce simp: db_free_def\<close>)

lemma keeps_m_db: "keeps jobs_ok m \<Longrightarrow> keeps m_ok (on_db m)"
  by (rule keepsI) (use queue_ok_more [OF more_frame(2)] in \<open>auto simp: m_ok_def keeps_def\<close>)

lemma keeps_jobs_read: "(\<And>d. snd (m d) = d) \<Longrightarrow> keeps jobs_ok m"
  by (simp add: keeps_def)

lemma keeps_jobs_write: "(\<And>d r d'. jobs_ok d \<Longrightarrow> exec_op op d = (r, d') \<Longrightarrow> jobs_ok d') \<Longrightarrow> keeps jobs_ok (exec_op op)"
  by (rule keepsI) (metis prod.collapse)

lemma exec_op_jobs: "keeps jobs_ok (exec_op op)"
  by (rule keeps_jobs_write) (use exec_op_step in blast)

lemmas job_writes = exec_op_jobs [of "OpCreate j" for j, simplified] exec_op_jobs [of "OpUpdate j" for j, simplified]
  exec_op_jobs [of "OpCancel t g" for t g, simplified] exec_op_jobs [of "OpDelete g" for g, simplified]
  exec_op_jobs [of "OpDeleteAny g" for g, simplified]

lemma latest_job_same: "snd (latest_job s h d) = d"
  by (simp add: latest_job_def Let_def)

lemma list_jobs_same: "snd (list_jobs s st d) = d"
  by (simp add: list_jobs_def)

lemmas job_reads = get_job_same [THEN keeps_jobs_read] latest_job_same [THEN keeps_jobs_read]
  list_jobs_same [THEN keeps_jobs_read]

lemma next_random_ok: "keeps m_ok next_random"
  by (rule keepsI) (auto simp: next_random_def m_ok_def queue_ok_def waiting_def taken_def split: list.splits)

lemma enqueue_ok: "keeps m_ok (enqueue_many gids)"
proof (rule keepsI)
  fix w :: "('a, 'b) m_world_scheme"
  assume w: "m_ok w"
  have "w_db (snd (enqueue_many gids w)) = w_db w"
    by (simp add: enqueue_many_def Let_def split: option.splits)
  with w enqueue_many_ok [of w gids] show "m_ok (snd (enqueue_many gids w))" by (simp add: m_ok_def)
qed

lemma check_offline_quota_free: "db_free (check_offline_quota m)"
  unfolding check_offline_quota_def by (auto intro!: db_free_rules split: option.splits)

lemma keeps_Pair: "keeps P (Pair r)"
  by (simp add: keeps_def)

lemma keeps_const: "keeps P (\<lambda>w. (r, w))"
  by (simp add: keeps_def)

lemma keeps_cond: "keeps P m \<Longrightarrow> keeps P n \<Longrightarrow> keeps P (\<lambda>w. if b w then m w else n w)"
  by (simp add: keeps_def)

lemmas m_rules = keeps_Pair keeps_const keeps_cond keeps_bind keeps_try keeps_wrap db_free_intros [THEN keeps_m_free] next_random_ok enqueue_ok
  job_reads [THEN keeps_m_db] job_writes [THEN keeps_m_db] check_offline_quota_free [THEN keeps_m_free]

lemma live_job_ok: "keeps m_ok (live_job j)"
  unfolding live_job_def by (auto intro!: m_rules split: sum.splits)

lemma ensure_unique_gid_ok: "keeps m_ok (ensure_unique_gid j)"
  unfolding ensure_unique_gid_def draw_gid_def by (auto intro!: m_rules split: sum.splits)

lemma draw_until_ok: "keeps m_ok (draw_until n seen j)"
proof (induction n arbitrary: j)
  case 0
  show ?case by (subst draw_until.simps) (auto simp: draw_gid_def intro!: m_rules simp del: draw_until.simps)
next
  case (Suc n)
  then show ?case by (subst draw_until.simps) (auto simp: draw_gid_def intro!: m_rules simp del: draw_until.simps)
qed

lemma identify_ok: "keeps m_ok (identify js seen)"
proof (induction js seen rule: identify.induct)
  case (2 j js seen)
  have d: "keeps m_ok (\<lambda>w. draw_until (length (m_rand w)) seen k w)" for k
    by (rule keepsI) (use draw_until_ok in \<open>auto simp: keeps_def simp del: draw_until.simps\<close>)
  show ?case
    unfolding identify.simps
    by (auto intro!: m_rules live_job_ok ensure_unique_gid_ok d 2 split: option.splits simp del: draw_until.simps)
qed (auto intro: m_rules)

lemma create_jobs_ok: "keeps m_ok (create_jobs js)"
  by (induction js) (auto intro!: m_rules)


lemma submit_ok: "keeps m_ok (submit m j)"
  unfolding submit_def
  by (rule keeps_cond [OF keeps_const]) (auto intro!: m_rules live_job_ok ensure_unique_gid_ok split: option.splits)

lemma submit_many_ok: "keeps m_ok (submit_many m js)"
  unfolding submit_many_def Let_def
  by (rule keeps_cond [OF keeps_const], rule keeps_cond [OF keeps_const])
     (auto intro!: m_rules identify_ok create_jobs_ok simp del: identify.simps create_jobs.simps)

lemma cancel_job_of_ok: "keeps m_ok (cancel_job_of m gid b)"
proof -
  have a: "keeps m_ok (\<lambda>w. if available m w
      then io_try (on_prov (pv_delete_offline (sv_provider (mg_service m)) h b)) (\<lambda>_. io_ret ()) w
      else (Inr (), w))" for h
    by (rule keeps_cond [OF _ keeps_const]) (auto intro!: m_rules)
  show ?thesis unfolding cancel_job_of_def by (auto intro!: m_rules a)
qed

lemma mark_artifact_deleted_jobs: "keeps jobs_ok (mark_artifact_deleted i)"
  by (rule keepsI) (use same_tasks_ok [OF mark_artifact_deleted_same] in blast)

lemma delete_completed_ok: "keeps m_ok (delete_completed_task_files s gid)"
proof -
  have r: "keeps jobs_ok (task_cleanup_info gid)"
    by (rule keeps_jobs_read) (simp add: task_cleanup_info_def)
  have n: "keeps m_ok (delete_node s del a n)" for del a n
    unfolding delete_node_def
    by (auto intro!: m_rules mark_artifact_deleted_jobs [THEN keeps_m_db] empty_recycle_bin_free [THEN keeps_m_free])
  show ?thesis
    unfolding delete_completed_task_files_def
    by (auto intro!: m_rules r [THEN keeps_m_db] n mark_artifact_deleted_jobs [THEN keeps_m_db]
        split: option.splits sum.splits)
qed

lemma delete_with_files_ok: "keeps m_ok (delete_with_files m gid b)"
  unfolding delete_with_files_def by (auto intro!: m_rules cancel_job_of_ok delete_completed_ok)

lemma rebuild_files_free: "db_free (rebuild_files st base h fs acc)"
proof (induction fs arbitrary: acc)
  case Nil
  show ?case unfolding rebuild_files.simps by (rule db_free_intros)
next
  case (Cons f fs)
  then show ?case
    unfolding rebuild_files.simps by (auto intro!: db_free_rules split: sum.splits simp del: rebuild_files.simps)
qed

lemma rebuild_strms_ok: "keeps m_ok (rebuild_strms s h)"
proof -
  have r: "keeps jobs_ok (result_by_info_hash h)"
    by (rule keeps_jobs_read) (simp add: result_by_info_hash_def)
  have k: "keeps jobs_ok (mark_strm_seeded now h' ps)" for now h' ps
    by (rule keepsI) (use same_tasks_ok [OF mark_strm_seeded_same] in blast)
  show ?thesis
    unfolding rebuild_strms_def
    by (auto intro!: m_rules r [THEN keeps_m_db] k [THEN keeps_m_db] rebuild_files_free [THEN keeps_m_free]
        simp del: rebuild_files.simps split: option.splits sum.splits)
qed

lemma rebuild_job_ok: "keeps m_ok (rebuild_job m gid)"
  unfolding rebuild_job_def by (auto intro!: m_rules rebuild_strms_ok split: sum.splits)


section \<open>Running a batch\<close>

abbreviation m_view :: "('p, 'z) m_world_scheme \<Rightarrow> string list list \<times> string list \<times> string list option \<times> err option" where
  "m_view w \<equiv> (m_queue w, m_queued w, m_taken w, m_stopped w)"

text \<open>What a run may not change: the states of the jobs in \<open>G\<close>, the queue and its marks.\<close>

definition run_inv :: "string set \<Rightarrow> (string \<Rightarrow> job_state option) \<times> string list list \<times> string list \<times> string list option \<times> err option \<Rightarrow>
    ('p, 'z) m_world_scheme \<Rightarrow> bool" where
  "run_inv G x w \<longleftrightarrow> jobs_ok (w_db w) \<and> (\<forall>g \<in> G. state_of (w_db w) g = fst x g) \<and> m_view w = snd x"

lemma run_inv_cong:
  "w_db w' = w_db w \<Longrightarrow> m_view w' = m_view w \<Longrightarrow> run_inv G x w' \<longleftrightarrow> run_inv G x w"
  by (simp add: run_inv_def)

lemma run_inv_more:
  assumes "w_db w' = w_db w" and "world.more w' = world.more w"
  shows "run_inv G x w' \<longleftrightarrow> run_inv G x w"
  using assms(1) more_queue [OF assms(2)] by (intro run_inv_cong) simp_all

lemma keeps_run_free: "db_free m \<Longrightarrow> keeps (run_inv G x) m"
  by (rule keepsI) (metis db_free_def prod.inject run_inv_more)

lemma parsed_batch_free: "db_free (prepare_offline_tasks fuel s magnets)"
  unfolding prepare_offline_tasks_def
  by (auto intro!: db_free_rules create_offline_tasks_free query_free split: sum.splits)

lemma prepare_batch_inv: "keeps (run_inv G x) (prepare_batch fuel m magnets)"
proof (rule keepsI)
  fix w :: "('a, 'b) m_world_scheme"
  assume w: "run_inv G x w"
  let ?p = "io_bind (check_offline_quota m) (\<lambda>_. prepare_offline_tasks fuel (mg_service m) magnets)"
  have "keeps (run_inv G x :: ('a, 'b) m_world_scheme \<Rightarrow> bool) ?p"
    by (intro keeps_bind keeps_run_free check_offline_quota_free parsed_batch_free)
  with w have "run_inv G x (snd (?p w))" by (simp add: keeps_def)
  with w show "run_inv G x (snd (prepare_batch fuel m magnets w))"
    by (auto simp: prepare_batch_def run_inv_def split: option.splits prod.splits)
qed

lemma resolve_prepared_inv:
  assumes "gid \<noteq> ''''"
  shows "keeps (run_inv G x) (resolve_prepared fuel s gid magnet p)"
proof (rule keepsI)
  fix w :: "('a, 'b) m_world_scheme"
  assume w: "run_inv G x w"
  then have ok: "jobs_ok (w_db w)" by (simp add: run_inv_def)
  have r: "jobs_ok (w_db (snd (resolve_prepared fuel s gid magnet p w)))"
    "\<And>g. state_of (w_db (snd (resolve_prepared fuel s gid magnet p w))) g = state_of (w_db w) g"
    and more: "world.more (snd (resolve_prepared fuel s gid magnet p w)) = world.more w"
    using resolve_keeps [OF assms ok] unfolding resolve_prepared_def by blast+
  show "run_inv G x (snd (resolve_prepared fuel s gid magnet p w))"
    using w r more_queue [OF more] unfolding run_inv_def by simp
qed

lemma batch_resolve_inv: "j_gid j \<noteq> '''' \<Longrightarrow> keeps (run_inv G x) (batch_resolve fuel m magnets j)"
  unfolding batch_resolve_def
  by (auto intro!: keeps_bind prepare_batch_inv resolve_prepared_inv db_free_intros [THEN keeps_run_free] split: option.splits)

lemma with_deadline_keeps: "keeps P m \<Longrightarrow> keeps P (with_deadline m)"
  by (auto simp: keeps_def with_deadline_def split: prod.splits sum.splits)

lemma keeps_run_job:
  assumes "\<And>j'. j_gid j' = j_gid j \<Longrightarrow> keeps P (upd j')" and "keeps P body"
  shows "keeps P (run_job_with_resolver upd t0 t1 dl j body)"
  unfolding run_job_with_resolver_def Let_def
  by (auto intro!: keeps_bind keeps_try assms keeps_ret keeps_fail simp: running_job_def split: sum.splits)

lemma update_other_inv:
  assumes "j_gid j \<notin> G"
  shows "keeps (run_inv G x) (on_db (update_job j))"
proof (rule keepsI)
  fix w :: "('a, 'b) m_world_scheme"
  assume w: "run_inv G x w"
  obtain r d' where run: "update_job j (w_db w) = (r, d')" by fastforce
  have "jobs_ok d' \<and> (\<forall>g \<in> G. state_of d' g = state_of (w_db w) g)"
  proof (cases r)
    case (Inl e)
    then have "d' = w_db w" using update_job_error [of "w_db w" j e d'] w run by (simp add: run_inv_def)
    then show ?thesis using w by (simp add: run_inv_def)
  next
    case (Inr u)
    then have "update_job j (w_db w) = (Inr (), d')" using run by simp
    from update_job_ok(1,2) [OF _ this] assms w show ?thesis by (auto simp: run_inv_def)
  qed
  with w run show "run_inv G x (snd (on_db (update_job j) w))"
    using more_queue [OF more_frame(2), of "update_job j" w] by (simp add: run_inv_def)
qed


definition final :: "job_state \<Rightarrow> bool" where
  "final s \<longleftrightarrow> s \<in> {Succeeded, Failed, Canceled}"

text \<open>The parts of \<open>runJob\<close>: setting up, the run, cleaning up after a timeout.\<close>

definition run_setup :: "job \<Rightarrow> ('p, 'z) m_world_scheme \<Rightarrow> ('p, 'z) m_world_scheme" where
  "run_setup j w = (start_context w)\<lparr>m_running := j_gid j # m_running w\<rparr>"

definition run_cleanup :: "'p manager \<Rightarrow> job \<Rightarrow> err + scan_result \<Rightarrow> (('p, 'z) m_world_scheme, unit) io" where
  "run_cleanup m j r = io_bind (\<lambda>w. case r of
      Inr _ \<Rightarrow> (Inr (), w)
    | Inl e \<Rightarrow>
        if errors_is e ErrJobCanceled \<or> w_ctx w \<noteq> Some CtxDeadlineExceeded then (Inr (), w)
        else io_try (cleanup_timed_out_task (mg_service m) (j_info_hash j)) (\<lambda>_. io_ret ()) w)
    (\<lambda>_ w. (Inr (), w\<lparr>m_running := removeAll (j_gid j) (m_running w)\<rparr>))"

lemma run_one_job_parts:
  "run_one_job m fin j body w = io_bind read_now (\<lambda>started.
     io_try (run_job_with_resolver (\<lambda>j. on_db (update_job j)) started fin False j (with_deadline body))
       (run_cleanup m j)) (run_setup j w)"
  by (simp add: run_one_job_def Let_def run_setup_def run_cleanup_def [abs_def])

lemma run_setup_inv: "run_inv G x (run_setup j w) \<longleftrightarrow> run_inv G x w"
  by (simp add: run_inv_def run_setup_def start_context_def)

lemma cleanup_free: "db_free (cleanup_timed_out_task s h)"
  unfolding cleanup_timed_out_task_def by (intro db_free_wrap cancel_task_free)

lemma run_cleanup_inv: "keeps (run_inv G x) (run_cleanup m j r)"
proof -
  have a: "keeps (run_inv G x) (\<lambda>w. if errors_is e ErrJobCanceled \<or> w_ctx w \<noteq> Some CtxDeadlineExceeded then (Inr (), w)
        else io_try (cleanup_timed_out_task (mg_service m) (j_info_hash j)) (\<lambda>_. io_ret ()) w)" for e
    by (rule keeps_cond [OF keeps_const]) (intro keeps_run_free db_free_try cleanup_free db_free_intros)
  have b: "keeps (run_inv G x) (\<lambda>w. (Inr (), w\<lparr>m_running := removeAll (j_gid j) (m_running w)\<rparr>))"
    by (simp add: keeps_def run_inv_def)
  show ?thesis
    unfolding run_cleanup_def by (rule keeps_bind [OF _ b]) (cases r; use a in \<open>simp add: keeps_const\<close>)
qed

lemma run_one_job_others:
  assumes "j_gid j \<notin> G" and "keeps (run_inv G x) body"
  shows "keeps (run_inv G x) (run_one_job m fin j body)"
proof (rule keepsI)
  fix w :: "('a, 'b) m_world_scheme"
  assume w: "run_inv G x w"
  have "keeps (run_inv G x) (run_job_with_resolver (\<lambda>j. on_db (update_job j)) t fin False j (with_deadline body))" for t
    by (rule keeps_run_job) (use assms in \<open>simp_all add: update_other_inv with_deadline_keeps\<close>)
  then have "keeps (run_inv G x) (io_bind read_now (\<lambda>started.
     io_try (run_job_with_resolver (\<lambda>j. on_db (update_job j)) started fin False j (with_deadline body))
       (run_cleanup m j)))"
    by (intro keeps_bind keeps_try run_cleanup_inv keeps_run_free [OF db_free_intros(5)])
  with w show "run_inv G x (snd (run_one_job m fin j body w))"
    unfolding run_one_job_parts by (auto simp: keeps_def run_setup_inv)
qed

lemma run_one_job_final:
  fixes w :: "('p, 'z) m_world_scheme"
  assumes w: "jobs_ok (w_db w)" "state_of (w_db w) (j_gid j) \<in> {Some Queued, Some Running}"
    and body: "\<And>x. keeps (run_inv {j_gid j} x) body"
  shows "\<exists>s. state_of (w_db (snd (run_one_job m fin j body w))) (j_gid j) = Some s \<and> final s"
proof -
  obtain t w1 where t: "read_now (run_setup j w) = (Inr t, w1)" using read_now_total by blast
  have w1: "w_db w1 = w_db w"
    using read_now_frame(2) [of "run_setup j w"] unfolding t by (simp add: run_setup_def start_context_def)
  obtain r w2 where run: "run_job_with_resolver (\<lambda>j. on_db (update_job j)) t fin False j (with_deadline body) w1 = (r, w2)"
    by fastforce
  have keep: "jobs_ok (w_db (snd (with_deadline body v))) \<and>
      state_of (w_db (snd (with_deadline body v))) (j_gid j) \<in> {Some Running, Some Canceled}"
    if "jobs_ok (w_db v)" "state_of (w_db v) (j_gid j) = Some Running" for v :: "('p, 'z) m_world_scheme"
    using with_deadline_keeps [OF body [of "(\<lambda>_. Some Running, m_view v)"]] that
    by (simp add: keeps_def run_inv_def)
  have a: "jobs_ok (w_db w1)" "state_of (w_db w1) (j_gid j) \<in> {Some Queued, Some Running}" using w w1 by simp_all
  have e: "jobs_ok (w_db w2)" "case r of Inr _ \<Rightarrow> state_of (w_db w2) (j_gid j) = Some Succeeded
    | Inl e \<Rightarrow> state_of (w_db w2) (j_gid j) = Some Failed \<or>
        state_of (w_db w2) (j_gid j) = Some Canceled \<and> e = ErrJobCanceled"
    using wj.run_job_ends [where resolve = "with_deadline body", OF a keep run] by simp_all
  then obtain s where s: "state_of (w_db w2) (j_gid j) = Some s" "final s"
    by (auto simp: final_def split: sum.splits)
  have "run_inv {j_gid j} (\<lambda>_. Some s, m_view w2) (snd (run_cleanup m j r w2))"
  proof -
    have "run_inv {j_gid j} (\<lambda>_. Some s, m_view w2) w2" using s(1) e(1) by (simp add: run_inv_def)
    then show ?thesis using run_cleanup_inv unfolding keeps_def by blast
  qed
  then have "state_of (w_db (snd (run_cleanup m j r w2))) (j_gid j) = Some s" by (simp add: run_inv_def)
  with s(2) show ?thesis unfolding run_one_job_parts by (simp add: io_bind_def io_try_def t run)
qed

lemma run_one_job_ok:
  fixes w :: "('p, 'z) m_world_scheme"
  assumes "run_inv {} x w" and "keeps (run_inv {} x) body"
  shows "run_inv {} x (snd (run_one_job m fin j body w))"
  using run_one_job_others [of j "{}" x body m fin] assms by (simp add: keeps_def)

text \<open>The jobs of a batch run one after the other; each ends in a final state and leaves the others alone.\<close>

lemma run_jobs_others:
  assumes "G \<inter> j_gid ` set js = {}" and "'''' \<notin> j_gid ` set js"
  shows "keeps (run_inv G x) (run_jobs fuel m fin magnets js)"
  using assms
proof (induction js)
  case (Cons j js)
  then have j: "j_gid j \<notin> G" "j_gid j \<noteq> ''''" by auto
  from Cons show ?case
    unfolding run_jobs.simps by (intro keeps_bind run_one_job_others [OF j(1)] batch_resolve_inv [OF j(2)]) auto
qed (simp add: keeps_ret)

lemma run_jobs_final:
  fixes w :: "('p, 'z) m_world_scheme"
  assumes "jobs_ok (w_db w)" and "distinct (map j_gid js)" and "'''' \<notin> j_gid ` set js"
    and "\<And>j. j \<in> set js \<Longrightarrow> state_of (w_db w) (j_gid j) = Some Queued" and "j \<in> set js"
  shows "\<exists>s. state_of (w_db (snd (run_jobs fuel m fin magnets js w))) (j_gid j) = Some s \<and> final s"
  using assms
proof (induction js arbitrary: w)
  case (Cons k js)
  let ?body = "batch_resolve fuel m magnets k :: (('p, 'z) m_world_scheme, scan_result) io"
  have k: "j_gid k \<noteq> ''''" using Cons.prems(3) by auto
  obtain r w1 where run: "run_one_job m fin k ?body w = (r, w1)" by fastforce
  have r: "r = Inr ()"
  proof -
    have a: "fst (run_cleanup m k q v) = Inr ()" for q and v :: "('p, 'z) m_world_scheme"
      by (auto simp: run_cleanup_def io_bind_def io_try_def split: sum.splits prod.splits)
    obtain t v where "read_now (run_setup k w) = (Inr t, v)" using read_now_total by blast
    then have "fst (run_one_job m fin k ?body w) = Inr ()"
      unfolding run_one_job_parts by (simp add: io_bind_def io_try_def a split: prod.splits)
    with run show ?thesis by simp
  qed
  have inv: "run_inv (j_gid ` set js) (state_of (w_db w), m_view w) w" using Cons.prems(1) by (simp add: run_inv_def)
  have "keeps (run_inv (j_gid ` set js) (state_of (w_db w), m_view w)) (run_one_job m fin k ?body)"
    by (rule run_one_job_others [OF _ batch_resolve_inv [OF k]]) (use Cons.prems(2) in auto)
  with inv run have "run_inv (j_gid ` set js) (state_of (w_db w), m_view w) w1" by (auto intro: keepsD)
  then have w1: "jobs_ok (w_db w1)" "\<And>i. i \<in> set js \<Longrightarrow> state_of (w_db w1) (j_gid i) = state_of (w_db w) (j_gid i)"
    by (auto simp: run_inv_def)
  show ?case
  proof (cases "j = k")
    case True
    have "\<exists>s. state_of (w_db (snd (run_one_job m fin k ?body w))) (j_gid k) = Some s \<and> final s"
      by (rule run_one_job_final) (use Cons.prems(1) Cons.prems(4) [of k] batch_resolve_inv [OF k] in simp_all)
    then obtain s where s: "state_of (w_db w1) (j_gid k) = Some s" "final s" using run by auto
    have "keeps (run_inv {j_gid k} (\<lambda>_. Some s, m_view w1) :: ('p, 'z) m_world_scheme \<Rightarrow> bool) (run_jobs fuel m fin magnets js)"
      by (rule run_jobs_others) (use Cons.prems(2,3) in auto)
    then have "run_inv {j_gid k} (\<lambda>_. Some s, m_view w1) (snd (run_jobs fuel m fin magnets js w1))"
      using s(1) w1(1) by (simp add: keeps_def run_inv_def)
    with s(2) show ?thesis using run r True by (simp add: run_inv_def io_bind_def)
  next
    case False
    with Cons.IH [OF w1(1)] Cons.prems w1(2) run r show ?thesis by (simp add: io_bind_def)
  qed
qed simp


section \<open>The worker\<close>

lemma queued_job_facts:
  "jobs_ok d \<Longrightarrow> queued_job d g = Some j \<Longrightarrow> j_gid j = g \<and> j_state j = Queued \<and> state_of d g = Some Queued"
  using get_job_total [of d g] by (auto simp: queued_job_def split: sum.splits if_splits option.splits)

lemma queued_job_Some: "jobs_ok d \<Longrightarrow> state_of d g = Some Queued \<Longrightarrow> \<exists>j. queued_job d g = Some j"
  using get_job_total [of d g] by (auto simp: queued_job_def)

lemma batch_gids:
  assumes "jobs_ok d" and "distinct gids"
  shows "distinct (map j_gid (List.map_filter (queued_job d) gids))"
    and "j_gid ` set (List.map_filter (queued_job d) gids) \<subseteq> set gids"
  using assms(2)
proof (induction gids)
  case (Cons g gids)
  {
    case 1
    from Cons.IH [of] 1 show ?case
      using queued_job_facts [OF assms(1), of g] by (auto simp: List.map_filter_simps split: option.splits)
  next
    case 2
    from Cons.IH [of] 2 show ?case
      using queued_job_facts [OF assms(1), of g] by (auto simp: List.map_filter_simps split: option.splits)
  }
qed (simp_all add: List.map_filter_simps)

lemma run_batch_inv:
  fixes w :: "('p, 'z) m_world_scheme"
  assumes "jobs_ok (w_db w)" and "distinct gids" and "'''' \<notin> set gids" and "run_inv {} x w"
  shows "run_inv {} x (snd (run_batch fuel m fin gids w))"
proof -
  let ?js = "List.map_filter (queued_job (w_db w)) gids"
  have "keeps (run_inv {} x :: ('p, 'z) m_world_scheme \<Rightarrow> bool) (run_jobs fuel m fin (map j_magnet_uri ?js) ?js)"
    by (rule run_jobs_others) (use batch_gids [OF assms(1,2)] assms(3) in auto)
  moreover have "run_inv {} x (w\<lparr>m_prepared := None\<rparr>)" using assms(4) by (simp add: run_inv_def)
  ultimately show ?thesis by (simp add: run_batch_def Let_def keeps_def)
qed

lemma run_batch_final:
  assumes "jobs_ok (w_db w)" and "distinct gids" and "'''' \<notin> set gids" and "g \<in> set gids"
    and "state_of (w_db w) g = Some Queued"
  shows "\<exists>s. state_of (w_db (snd (run_batch fuel m fin gids w))) g = Some s \<and> final s"
proof -
  let ?js = "List.map_filter (queued_job (w_db w)) gids"
  obtain j where j: "queued_job (w_db w) g = Some j" using queued_job_Some [OF assms(1,5)] by blast
  then have jj: "j \<in> set ?js" "j_gid j = g"
    using assms(4) queued_job_facts [OF assms(1) j] by (force simp: List.map_filter_def)+
  have st: "state_of (w_db (w\<lparr>m_prepared := None\<rparr>)) (j_gid i) = Some Queued" if "i \<in> set ?js" for i
    using that queued_job_facts [OF assms(1)] by (fastforce simp: List.map_filter_def)
  from run_jobs_final [OF _ _ _ st jj(1), of fuel m fin "map j_magnet_uri ?js"] show ?thesis
    using assms batch_gids [OF assms(1,2)] jj(2) by (auto simp: run_batch_def Let_def)
qed

lemma worker_turn_ok: "keeps m_ok (worker_turn fuel m fin)"
proof (rule keepsI)
  fix w :: "('a, 'b) m_world_scheme"
  assume w: "m_ok w"
  then have q: "queue_ok w" "jobs_ok (w_db w)" by (simp_all add: m_ok_def)
  show "m_ok (snd (worker_turn fuel m fin w))"
  proof (cases "m_taken w")
    case None
    then show ?thesis
      using w by (auto simp: worker_turn_def m_ok_def queue_ok_def waiting_def taken_def split: list.splits) blast
  next
    case (Some gids)
    let ?w = "unmark_many gids (w\<lparr>m_taken := None\<rparr>)"
    have d: "distinct (concat (m_queue w) @ gids)" "'''' \<notin> set gids" using q Some by (auto simp: queue_ok_def waiting_def taken_def)
    have u: "queue_ok ?w"
      using q(1) Some by (auto simp: queue_ok_def waiting_def taken_def unmark_many_def)
    have "run_inv {} (state_of (w_db w), m_view ?w) ?w" using q(2) by (simp add: run_inv_def unmark_many_def)
    then have "run_inv {} (state_of (w_db w), m_view ?w) (snd (run_batch fuel m fin gids ?w))"
      by (intro run_batch_inv) (use q(2) d in \<open>simp_all add: unmark_many_def\<close>)
    then have "jobs_ok (w_db (snd (run_batch fuel m fin gids ?w)))" "m_view (snd (run_batch fuel m fin gids ?w)) = m_view ?w"
      by (simp_all add: run_inv_def)
    with u queue_ok_cong [of "snd (run_batch fuel m fin gids ?w)" ?w] have "m_ok (snd (run_batch fuel m fin gids ?w))"
      by (simp add: m_ok_def)
    then show ?thesis using w Some by (simp add: worker_turn_def)
  qed
qed

section \<open>Sequences of operations\<close>

datatype m_op =
    MSubmit job | MSubmitMany "job list" | MCancel string bool | MDelete string bool | MRebuild string | MTurn timestamp

fun exec_m :: "nat \<Rightarrow> 'p manager \<Rightarrow> m_op \<Rightarrow> ('p, 'z) m_world_scheme \<Rightarrow> ('p, 'z) m_world_scheme" where
  "exec_m fuel m (MSubmit j) w = snd (submit m j w)"
| "exec_m fuel m (MSubmitMany js) w = snd (submit_many m js w)"
| "exec_m fuel m (MCancel g b) w = snd (cancel_job_of m g b w)"
| "exec_m fuel m (MDelete g b) w = snd (delete_with_files m g b w)"
| "exec_m fuel m (MRebuild g) w = snd (rebuild_job m g w)"
| "exec_m fuel m (MTurn t) w = snd (worker_turn fuel m t w)"

lemma keeps_snd: "keeps P m \<Longrightarrow> P w \<Longrightarrow> P (snd (m w))"
  by (simp add: keeps_def)

lemmas m_keeps = submit_ok [THEN keeps_snd] submit_many_ok [THEN keeps_snd] cancel_job_of_ok [THEN keeps_snd]
  delete_with_files_ok [THEN keeps_snd] rebuild_job_ok [THEN keeps_snd] worker_turn_ok [THEN keeps_snd]

lemma exec_m_ok: "m_ok w \<Longrightarrow> m_ok (exec_m fuel m op w)"
  by (cases op) (simp_all add: m_keeps)

text \<open>C3. The queue of the manager stays in order under every sequence of requests and turns of the worker, failed
  ones included: the channel never holds more than 128 batches, no job is in it twice, the marks are exactly
  the jobs in the channel or in the worker's hand, and the job tables keep their invariant.\<close>

theorem manager_keeps_queue:
  fixes w :: "('p, 'z) m_world_scheme"
  assumes "jobs_ok (w_db w)" and "queue_ok w"
  shows "jobs_ok (w_db (fold (exec_m fuel m) ops w)) \<and> queue_ok (fold (exec_m fuel m) ops w)"
proof -
  have "m_ok (fold (exec_m fuel m) ops v)" if "m_ok v" for v :: "('p, 'z) m_world_scheme"
    using that by (induction ops arbitrary: v) (simp_all add: exec_m_ok)
  with assms show ?thesis by (simp add: m_ok_def)
qed


section \<open>A submitted job is run\<close>

lemma get_job_new: "jobs_ok d \<Longrightarrow> get_job g d = (Inr j, d') \<Longrightarrow> j_gid j = g \<and> state_of d g = Some (j_state j)"
  using get_job_total [of d g] get_job_state [of g d j d'] by (auto split: option.splits)

lemma latest_job_known:
  assumes "jobs_ok d" and "latest_job s h d = (Inr x, d')"
  shows "state_of d (j_gid x) = Some (j_state x)"
proof -
  let ?rows = "filter (\<lambda>r. tk_source r = s \<and>
      map_option tr_info_hash (torrent_by_id d (tk_torrent_id r)) = Some (to_lower h)) (tasks d)"
  define sorted_rows where "sorted_rows = rev (sort_key tk_id ?rows)"
  from assms(2) obtain r rs where rs: "sorted_rows = r # rs" "job_of_row d r = Some x"
    unfolding latest_job_def Let_def sorted_rows_def [symmetric] by (auto split: list.splits option.splits)
  then have "r \<in> set sorted_rows" by simp
  then have "r \<in> set ?rows" by (simp only: sorted_rows_def set_rev set_sort)
  then have r: "r \<in> set (tasks d)" "job_of_row d r = Some x" using rs(2) by simp_all
  then have "task_by_gid d (tk_gid r) = Some r" using task_by_gid_unique [OF assms(1)] by blast
  moreover have "j_gid x = tk_gid r" "j_state x = tk_state r" using r(2) by (auto simp: job_of_row_def)
  ultimately show ?thesis by (simp add: state_of_def)
qed

text \<open>A submission that is answered with an identity nobody had: the job was stored and queued.\<close>

lemma ensure_unique_run:
  assumes "ensure_unique_gid j w = (Inr j', w')"
  shows "w_db w' = w_db w \<and> m_view w' = m_view w \<and> w_prov w' = w_prov w \<and> j_state j' = j_state j"
proof -
  obtain r where r: "on_db (get_job (j_gid j)) w = (r, w)"
    by (simp add: on_db_def get_job_def)
  show ?thesis
    using assms
    by (auto simp: ensure_unique_gid_def io_try_def r draw_gid_def io_bind_def next_random_def assign_new_gid_def
        split: sum.splits if_splits list.splits)
qed

lemma live_job_run: "\<exists>r. live_job j w = (r, w)"
  by (auto simp: live_job_def io_try_def on_db_def latest_job_def Let_def split: sum.splits list.splits option.splits)

lemma submit_new:
  fixes w :: "('p, 'z) m_world_scheme"
  assumes ok: "jobs_ok (w_db w)" and run: "submit m j w = (Inr g, w')" and new: "state_of (w_db w) g = None"
    and quota: "mg_quota_min m \<le> 0"
  shows "\<exists>j' v d. create_job j' (w_db w) = (Inr (), d) \<and> j_gid j' = g \<and> j_state j' = j_state j \<and>
    w_db v = d \<and> m_view v = m_view w \<and> enqueue_many [g] v = (Inr (), w')"
proof -
  have av: "available m w" using run by (cases "available m w") (simp_all add: submit_def)
  obtain r where r: "live_job j w = (r, w)" using live_job_run by blast
  have "r = Inr None"
  proof (cases r)
    case (Inr y)
    show ?thesis
    proof (cases y)
      case (Some x)
      have "\<exists>d. latest_job (j_source j) (j_info_hash j) (w_db w) = (Inr x, d)"
        using r Inr Some by (auto simp: live_job_def io_try_def on_db_def split: sum.splits if_splits prod.splits)
      then have "state_of (w_db w) (j_gid x) \<noteq> None" using latest_job_known [OF ok] by fastforce
      moreover have "g = j_gid x"
        using run r Inr Some av by (auto simp: submit_def io_bind_def split: if_splits sum.splits prod.splits)
      ultimately show ?thesis using new by simp
    qed (use Inr in simp)
  qed (use run r av in \<open>simp add: submit_def io_bind_def\<close>)
  with run r av obtain j' w1 where e: "ensure_unique_gid j w = (Inr j', w1)"
    and rest: "io_bind (check_offline_quota m) (\<lambda>_. io_bind (on_db (create_job j')) (\<lambda>_.
        io_bind (enqueue_many [j_gid j']) (\<lambda>_. io_ret (j_gid j')))) w1 = (Inr g, w')"
    by (auto simp: submit_def io_bind_eq_Inr)
  from rest quota obtain d where d: "create_job j' (w_db w1) = (Inr (), d)"
    and q: "enqueue_many [j_gid j'] (w1\<lparr>w_db := d\<rparr>) = (Inr (), w')" "j_gid j' = g"
    by (auto simp: check_offline_quota_def io_bind_eq_Inr on_db_def split: prod.splits)
  with ensure_unique_run [OF e] show ?thesis
    by (intro exI [of _ j'] exI [of _ "w1\<lparr>w_db := d\<rparr>"] exI [of _ d]) auto
qed

definition always_available :: "'p manager \<Rightarrow> bool" where
  "always_available m \<longleftrightarrow> mg_enabled m \<and> (\<forall>p. case pv_available (sv_provider (mg_service m)) of None \<Rightarrow> True | Some f \<Rightarrow> f p)"



section \<open>Jobs that are stored as queued but are in no queue\<close>

text \<open>A full queue strands a job: a submission that meets 128 waiting batches stores the job as queued, then fails,
  and the job is not in the queue, so no worker will ever take it while the program runs (and a repeated submission is
  answered with the stored job).\<close>

lemma full_queue_strands_job:
  assumes ok: "jobs_ok (w_db w)" "queue_ok w" "available m w" "mg_quota_min m \<le> 0"
    and full: "length (m_queue w) = max_concurrent_downloads" "m_stopped w = None"
    and job: "live_job j w = (Inr None, w)" "creatable j (w_db w)" "j_state j = Queued"
      "j_gid j \<noteq> ''''" "j_gid j \<notin> set (waiting w)"
  shows "\<exists>d. submit m j w = (Inl (Msg ''queue full''), w\<lparr>w_db := d\<rparr>) \<and> state_of d (j_gid j) = Some Queued \<and>
    j_gid j \<notin> set (waiting (w\<lparr>w_db := d\<rparr>))"
proof -
  have "task_by_gid (w_db w) (j_gid j) = None" using job(2) by (simp add: creatable_def)
  then have e: "ensure_unique_gid j w = (Inr j, w)"
    by (simp add: ensure_unique_gid_def io_try_def on_db_def get_job_def)
  from create_job_run [OF ok(1), of j] job(2) obtain d where d: "create_job j (w_db w) = (Inr (), d)" by auto
  have q: "enqueue_many [j_gid j] (w\<lparr>w_db := d\<rparr>) = (Inl (Msg ''queue full''), w\<lparr>w_db := d\<rparr>)"
    using full job(4,5) ok(2) by (simp add: enqueue_many_def Let_def queue_ok_def)
  have c: "on_db (create_job j) w = (Inr (), w\<lparr>w_db := d\<rparr>)" using d by (simp add: on_db_def)
  have "submit m j w = (Inl (Msg ''queue full''), w\<lparr>w_db := d\<rparr>)"
    using ok(3,4) by (simp add: submit_def io_bind_def job(1) e check_offline_quota_def c q)
  moreover have "state_of d (j_gid j) = Some Queued"
    using create_job_ok(3) [OF ok(1) d, of "j_gid j"] job(3) by simp
  moreover have "waiting (w\<lparr>w_db := d\<rparr>) = waiting w" by (simp add: waiting_def taken_def)
  ultimately show ?thesis using job(5) by auto
qed

definition sample_manager :: "unit manager" where
  "sample_manager = \<lparr>mg_service = sample_service, mg_enabled = True, mg_disabled_err = None, mg_quota = None, mg_quota_min = 0\<rparr>"

definition sample_m_world :: "string list list \<Rightarrow> unit m_world" where
  "sample_m_world q = \<lparr>w_prov = (), w_now = 0, w_ticks = [], w_events = [], w_ctx = None,
     w_offline = empty_offline_tasks, w_db = empty_db, w_library = [], m_queue = q, m_queued = concat q,
     m_taken = None, m_running = [], m_stopped = None, m_prepared = None, m_rand = [], m_events = []\<rparr>"

definition full_queue :: "string list list" where
  "full_queue = map (\<lambda>i. [''j'' @ replicate i CHR ''x'']) [0 ..< 128]"

lemma full_queue_ok: "queue_ok (sample_m_world full_queue)"
proof -
  have c: "concat full_queue = map (\<lambda>i. ''j'' @ replicate i CHR ''x'') [0 ..< 128]"
    unfolding full_queue_def by (simp only: concat_map_singleton)
  have "inj_on (\<lambda>i. ''j'' @ replicate i CHR ''x'') {0 ..< 128}"
    by (rule inj_onI) (metis append_eq_append_conv length_replicate)
  then have "distinct (concat full_queue)" unfolding c by (simp only: distinct_map distinct_upt set_upt)
  moreover have "'''' \<notin> set (concat full_queue)" unfolding c by auto
  moreover have "length full_queue = 128" unfolding full_queue_def by simp
  ultimately show ?thesis
    by (simp only: queue_ok_def waiting_def taken_def sample_m_world_def m_world.select_convs option.case
        max_concurrent_downloads_def append_Nil2) simp
qed

text \<open>A batch that names a torrent twice strands it: the second copy violates the uniqueness of active tasks, so the
  request fails, but the first copy stays stored as queued and is not in the queue.\<close>

lemma duplicate_batch_strands_job:
  "\<exists>e w'. submit_many sample_manager [sample_job, sample_job\<lparr>j_gid := ''g2''\<rparr>] (sample_m_world []) = (Inl e, w') \<and>
     state_of (w_db w') ''g1'' = Some Queued \<and> waiting w' = []"
proof -
  let ?run = "submit_many sample_manager [sample_job, sample_job\<lparr>j_gid := ''g2''\<rparr>] (sample_m_world [])"
  have "case fst ?run of Inl _ \<Rightarrow> True | Inr _ \<Rightarrow> False" "state_of (w_db (snd ?run)) ''g1'' = Some Queued" "waiting (snd ?run) = []"
    by code_simp+
  then show ?thesis by (cases ?run) (auto split: sum.splits)
qed


section \<open>Restarting\<close>

lemma job_of_row_total:
  assumes "jobs_ok d" and "r \<in> set (tasks d)"
  shows "\<exists>j. job_of_row d r = Some j \<and> j_gid j = tk_gid r \<and> j_state j = tk_state r"
  using get_job_total [OF assms(1), of "tk_gid r"] task_by_gid_unique [OF assms refl]
  by (auto simp: get_job_def state_of_def job_of_row_def split: option.splits)

lemma listed_gids:
  assumes "jobs_ok d" and "state_of d g = Some Queued"
  shows "g \<in> j_gid ` set (List.map_filter (job_of_row d)
    (order_jobs (filter (\<lambda>r. source_clause d '''' r \<and> ([Queued] = [] \<or> tk_state r \<in> set [Queued])) (tasks d))))"
proof -
  obtain r where r: "task_by_gid d g = Some r" "tk_state r = Queued" using assms(2) by (auto simp: state_of_def)
  then have m: "r \<in> set (tasks d)" "tk_gid r = g" using task_by_gid_Some by auto
  obtain j where "job_of_row d r = Some j" "j_gid j = g" using job_of_row_total [OF assms(1) m(1)] m(2) by auto
  with r m show ?thesis
    by (force simp: List.map_filter_def order_jobs_def source_clause_def)
qed



section \<open>Canceling and deleting\<close>

lemma cancel_job_of_run:
  assumes ok: "jobs_ok (w_db w)" and run: "cancel_job_of m g b w = (Inr u, w')"
  shows "jobs_ok (w_db w')"
    "\<And>h. state_of (w_db w') h = (if h = g then Some Canceled else state_of (w_db w) h)"
proof -
  from run obtain j where j: "get_job g (w_db w) = (Inr j, w_db w)"
    by (auto simp: cancel_job_of_def io_bind_def on_db_def get_job_def split: option.splits)
  have r: "on_db (get_job g) w = (Inr j, w)" using j by (simp add: on_db_def)
  obtain now w1 where now: "read_now w = (Inr now, w1)" using read_now_total by blast
  have w1: "w_db w1 = w_db w" using read_now_frame(2) [of w] unfolding now by simp
  obtain x d where c: "cancel_job now g (w_db w) = (x, d)" by fastforce
  have s: "x = Inr ()" "w_db w' = d"
    using run r now w1 c
    by (auto simp: cancel_job_of_def io_bind_def io_try_def on_db_def on_prov_def split: if_splits sum.splits prod.splits)
  from cancel_job_run [OF ok c] s(1) get_job_new [OF ok j]
  have "jobs_ok d" "\<forall>h. state_of d h = (if h = g then Some Canceled else state_of (w_db w) h)"
    by (auto split: option.splits job_state.splits)
  then show "jobs_ok (w_db w')" "\<And>h. state_of (w_db w') h = (if h = g then Some Canceled else state_of (w_db w) h)"
    using s(2) by simp_all
qed

text \<open>A deletion that succeeds removes exactly that job, whatever state it was in: the job is gone, an unfinished
  one having been canceled first, and every other job is in the state it was in.\<close>

lemma delete_removes_exactly_one:
  fixes w :: "('p, 'z) m_world_scheme"
  assumes ok: "jobs_ok (w_db w)" and run: "delete_with_files m g b w = (Inr u, w')"
  shows "jobs_ok (w_db w') \<and> state_of (w_db w') h = (if h = g then None else state_of (w_db w) h)"
proof -
  have del: "jobs_ok (w_db w') \<and> state_of (w_db w') h = (if h = g then None else state_of (w_db v) h)"
    if "jobs_ok (w_db v)" and "on_db (delete_job g) v = (Inr u, w')" for v :: "('p, 'z) m_world_scheme"
  proof -
    obtain r d where d: "delete_job g (w_db v) = (r, d)" by fastforce
    with that(2) have "r = Inr u" "w_db w' = d" by (auto simp: on_db_def)
    with delete_job_run [OF that(1) d] show ?thesis by (auto split: option.splits if_splits)
  qed
  have delany: "jobs_ok (w_db w') \<and> state_of (w_db w') h = (if h = g then None else state_of (w_db v) h)"
    if "jobs_ok (w_db v)" and "on_db (delete_job_any g) v = (Inr u, w')" for v :: "('p, 'z) m_world_scheme"
  proof -
    obtain r d where d: "delete_job_any g (w_db v) = (r, d)" by fastforce
    with that(2) have "w_db w' = d" by (auto simp: on_db_def)
    with delete_job_any_run [OF that(1) d] show ?thesis by auto
  qed
  from run obtain j where j: "on_db (get_job g) w = (Inr j, w)"
    by (auto simp: delete_with_files_def io_bind_def on_db_def get_job_def split: option.splits)
  show ?thesis
  proof (cases "j_state j = Queued \<or> j_state j = Running")
    case True
    with run j obtain x w1 where c: "cancel_job_of m g b w = (Inr x, w1)" and e: "on_db (delete_job g) w1 = (Inr u, w')"
      by (auto simp: delete_with_files_def io_bind_eq_Inr)
    note c1 = cancel_job_of_run [OF ok c]
    from del [OF c1(1) e] show ?thesis using c1(2) [of h] by auto
  next
    case unfinished: False
    show ?thesis
    proof (cases "j_state j = Succeeded")
      case True
      with run j unfinished obtain x w1 where
        c: "(if b then delete_completed_task_files (mg_service m) (j_gid j) else io_ret ()) w = (Inr x, w1)"
        and e: "on_db (delete_job_any g) w1 = (Inr u, w')"
        by (auto simp: delete_with_files_def io_bind_eq_Inr)
      have inv: "w_job h (state_of (w_db w) h, world.more w) w" using ok by (simp add: job_in_def)
      have "keeps (w_job h (state_of (w_db w) h, world.more w))
          (if b then delete_completed_task_files (mg_service m) (j_gid j) else io_ret ())"
        by (simp add: delete_completed_job keeps_ret)
      from keepsD [OF this inv c] have "jobs_ok (w_db w1)" "state_of (w_db w1) h = state_of (w_db w) h"
        by (simp_all add: job_in_def)
      from delany [OF this(1) e] this(2) show ?thesis by simp
    next
      case False
      with run j unfinished have "on_db (delete_job g) w = (Inr u, w')" by (auto simp: delete_with_files_def io_bind_def)
      from del [OF ok this] show ?thesis .
    qed
  qed
qed

text \<open>The remaining witnesses.\<close>

theorem manager_keeps_queue_witness:
  "queue_ok (fold (exec_m 2 sample_manager) [MSubmit sample_job, MTurn 1, MSubmit sample_job, MTurn 2] (sample_m_world []))"
proof -
  have "jobs_ok (w_db (sample_m_world []))" "queue_ok (sample_m_world [])"
    by (simp_all add: sample_m_world_def jobs_ok_empty queue_ok_def waiting_def taken_def)
  from manager_keeps_queue [OF this] show ?thesis by blast
qed


end
