(* ===== verification/Materialize_Store.thy ===== *)
theory Materialize_Store
  imports Scan_Store
begin

text \<open>
  The records of \<open>internal/materialize/model.go\<close> and the repository behind them,
  \<open>internal/storage/sqlite/materialize.go\<close>: where copies of a content are kept in the cloud, when they
  were last used, and which of them the cache may give up. Joins follow the keys of the schema; a
  query that orders its rows sorts them by the same keys, the last one first.
\<close>

section \<open>Records\<close>

text \<open>\<open>Source.ArtifactState\<close> is empty when the query does not fill it. \<open>RemoteParent\<close> has the fields of
  the record of the same name in \<open>Ingest_Model\<close>.\<close>

record mat_source =
  ms_artifact_id :: int
  ms_artifact_state :: "artifact_state option"
  ms_info_hash :: string
  ms_magnet_uri :: string
  ms_total_bytes :: int
  ms_delete_file_id :: string
  ms_wp_path_id :: string

record mat_location =
  ml_id :: int
  ml_remote_file_id :: string
  ml_remote_parent_id :: string
  ml_pick_code :: string
  ml_remote_path :: string
  ml_ownership :: ownership
  ml_source_info_hash :: string
  ml_materialized_at :: "timestamp option"

record asset =
  as_id :: int
  as_sha1 :: string
  as_size_bytes :: int
  as_preferred_name :: string
  as_last_accessed_at :: "timestamp option"
  as_created_at :: timestamp
  as_updated_at :: timestamp
  as_locations :: "mat_location list"
  as_sources :: "mat_source list"

record cache_artifact =
  ca_id :: int
  ca_result_remote_id :: string
  ca_last_accessed_at :: "timestamp option"
  ca_created_at :: timestamp

record cloud_file =
  cf_id :: string
  cf_parent_id :: string
  cf_name :: string
  cf_sha1 :: string
  cf_size_bytes :: int
  cf_pick_code :: string
  cf_remote_path :: string
  cf_source_info_hash :: string
  cf_parents :: "remote_parent list"

section \<open>Reading\<close>

text \<open>The columns of a content and of a location, as every query reads them.\<close>

definition asset_of_row :: "content_row \<Rightarrow> asset" where
  "asset_of_row c =
     \<lparr>as_id = co_id c, as_sha1 = co_sha1 c, as_size_bytes = co_size_bytes c, as_preferred_name = co_preferred_name c,
      as_last_accessed_at = map_option parse_time (co_last_accessed_at c), as_created_at = parse_time (co_created_at c),
      as_updated_at = parse_time (co_updated_at c), as_locations = [], as_sources = []\<rparr>"

definition location_of_row :: "location_row \<Rightarrow> mat_location" where
  "location_of_row l =
     \<lparr>ml_id = lo_id l, ml_remote_file_id = lo_remote_file_id l, ml_remote_parent_id = lo_remote_parent_id l,
      ml_pick_code = lo_pick_code l, ml_remote_path = lo_remote_path l, ml_ownership = lo_ownership l,
      ml_source_info_hash = '''', ml_materialized_at = map_option parse_time (lo_materialized_at l)\<rparr>"

definition live_location :: "location_row \<Rightarrow> bool" where
  "live_location l = (lo_provider l = ''p115'' \<and> lo_deleted_at l = None)"

definition artifact_active :: "db \<Rightarrow> int option \<Rightarrow> bool" where
  "artifact_active d i = list_ex (\<lambda>a. i = Some (ar_id a) \<and> ar_state a = Active) (artifacts d)"

definition asset_location :: "db \<Rightarrow> int \<Rightarrow> location_row \<Rightarrow> bool" where
  "asset_location d content l =
     (lo_content_id l = content \<and> live_location l \<and>
      (lo_ownership l = External \<or> artifact_active d (lo_artifact_id l)))"

text \<open>\<open>ORDER BY CASE ownership ..., verified_at DESC, id DESC\<close>; a missing time sorts first, so last here.\<close>

definition order_locations :: "location_row list \<Rightarrow> location_row list" where
  "order_locations ls =
     sort_key (\<lambda>l. if lo_ownership l = External then 0 else (1::nat))
      (sort_key (\<lambda>l. if lo_verified_at l = None then 1 else (0::nat))
        (sort_key (\<lambda>l. case lo_verified_at l of None \<Rightarrow> 0 | Some t \<Rightarrow> - t) (sort_key (\<lambda>l. - lo_id l) ls)))"

definition source_of_torrent :: "torrent_row \<Rightarrow> mat_source" where
  "source_of_torrent t =
     \<lparr>ms_artifact_id = 0, ms_artifact_state = None, ms_info_hash = tr_info_hash t, ms_magnet_uri = tr_magnet_uri t,
      ms_total_bytes = tr_total_bytes t, ms_delete_file_id = '''', ms_wp_path_id = ''''\<rparr>"

definition source_torrents :: "db \<Rightarrow> int \<Rightarrow> torrent_row list" where
  "source_torrents d content =
     sort_key (\<lambda>t. - (case tr_scanned_at t of None \<Rightarrow> tr_updated_at t | Some s \<Rightarrow> s))
      (sort_key tr_total_bytes (sort_key tr_info_hash
        (filter (\<lambda>t. list_ex (\<lambda>x. tf_torrent_id x = tr_id t \<and> tf_content_id x = content \<and> tf_removed_at x = None)
            (torrent_files d)) (torrents d))))"

definition asset_by_sha1 :: "string \<Rightarrow> (db, asset) io" where
  "asset_by_sha1 sha1_value = (\<lambda>d.
     (case content_by_sha1 d (to_lower sha1_value) of
       None \<Rightarrow> Inl ErrAssetNotFound
     | Some c \<Rightarrow> Inr ((asset_of_row c)\<lparr>
         as_locations := map location_of_row (order_locations (filter (asset_location d (co_id c)) (locations d))),
         as_sources := map source_of_torrent (source_torrents d (co_id c))\<rparr>), d))"

text \<open>SQLite's \<open>LIKE\<close>: \<open>%\<close> stands for any text, \<open>_\<close> for any character, letters match in both cases.\<close>

function (sequential) sql_like :: "string \<Rightarrow> string \<Rightarrow> bool" where
  "sql_like [] s = (s = [])"
| "sql_like (p # ps) [] = (p = CHR ''%'' \<and> sql_like ps [])"
| "sql_like (p # ps) (c # s) =
     (if p = CHR ''%'' then sql_like ps (c # s) \<or> sql_like (p # ps) s
      else (p = CHR ''_'' \<or> lower_char p = lower_char c) \<and> sql_like ps s)"
  by pat_completeness auto

termination by (relation "measure (\<lambda>(p, s). length p + length s)") auto

definition assets_by_sha1_prefix :: "string \<Rightarrow> (db, asset list) io" where
  "assets_by_sha1_prefix prefix = (\<lambda>d.
     (Inr (map asset_of_row (sort_key co_sha1
        (filter (\<lambda>c. sql_like (to_lower prefix @ ''%'') (co_sha1 c)) (contents d)))), d))"

definition sha1_prefixes :: "string \<Rightarrow> int \<Rightarrow> (db, string list) io" where
  "sha1_prefixes prefix len = (\<lambda>d.
     (Inr (sort (remdups (map (\<lambda>c. take (nat len) (co_sha1 c))
        (filter (\<lambda>c. sql_like (to_lower prefix @ ''%'') (co_sha1 c)) (contents d))))), d))"

section \<open>Saving a location\<close>

text \<open>The upsert of \<open>SaveLocation\<close>: content, torrent, artifact, the location, the time.\<close>

type_synonym save_arg = "int \<times> int option \<times> int option \<times> mat_location \<times> int"

definition save_mk :: "save_arg \<Rightarrow> int \<Rightarrow> location_row" where
  "save_mk a i = (case a of (content, torrent, artifact, l, now) \<Rightarrow>
     \<lparr>lo_id = i, lo_content_id = content, lo_torrent_id = torrent, lo_artifact_id = artifact, lo_provider = ''p115'',
      lo_remote_file_id = ml_remote_file_id l, lo_remote_parent_id = ml_remote_parent_id l,
      lo_pick_code = ml_pick_code l, lo_remote_path = ml_remote_path l, lo_ownership = ml_ownership l,
      lo_verified_at = Some now, lo_materialized_at = Some now, lo_deleted_at = None, lo_created_at = now,
      lo_updated_at = now\<rparr>)"

definition coalesce :: "'a option \<Rightarrow> 'a option \<Rightarrow> 'a option" where
  "coalesce x y = (case x of None \<Rightarrow> y | Some v \<Rightarrow> Some v)"

definition save_upd :: "save_arg \<Rightarrow> location_row \<Rightarrow> location_row" where
  "save_upd a x = (case a of (content, torrent, artifact, l, now) \<Rightarrow>
     x\<lparr>lo_content_id := content, lo_torrent_id := coalesce torrent (lo_torrent_id x),
       lo_artifact_id := coalesce artifact (lo_artifact_id x), lo_remote_parent_id := ml_remote_parent_id l,
       lo_pick_code := ml_pick_code l, lo_remote_path := ml_remote_path l,
       lo_ownership := (if lo_ownership x = ManagedCache then ManagedCache else ml_ownership l),
       lo_verified_at := Some now, lo_materialized_at := Some now, lo_deleted_at := None, lo_updated_at := now\<rparr>)"

definition save_key :: "save_arg \<Rightarrow> string \<times> string" where
  "save_key a = (case a of (content, torrent, artifact, l, now) \<Rightarrow> (''p115'', ml_remote_file_id l))"

interpretation sv: keyed_table lo_id location_key save_upd save_mk save_key
  by unfold_locales (auto simp: save_upd_def save_mk_def location_key_def save_key_def split: prod.splits)

definition save_location_row :: "save_arg \<Rightarrow> (db, unit) io" where
  "save_location_row a = (\<lambda>d.
     if fst a \<notin> co_id ` set (contents d) then (Inl (Constraint ''remote_locations.content_id''), d)
     else (Inr (), d\<lparr>locations := upsert lo_id (\<lambda>x. location_key x = save_key a) (save_upd a) (save_mk a) (locations d)\<rparr>))"

text \<open>Other copies that this torrent (or none) recorded of the content are no longer live.\<close>

definition replaced_location :: "int \<Rightarrow> int \<Rightarrow> string \<Rightarrow> location_row \<Rightarrow> bool" where
  "replaced_location content torrent remote_id l =
     (lo_content_id l = content \<and> live_location l \<and> lo_ownership l = ManagedCache \<and>
      (lo_torrent_id l = Some torrent \<or> lo_torrent_id l = None) \<and> lo_remote_file_id l \<noteq> remote_id)"

definition delete_locations :: "(location_row \<Rightarrow> bool) \<Rightarrow> int \<Rightarrow> db \<Rightarrow> db" where
  "delete_locations P now d = d\<lparr>locations :=
     update_rows P (\<lambda>l. l\<lparr>lo_deleted_at := Some now, lo_updated_at := now\<rparr>) (locations d)\<rparr>"

definition torrent_artifact :: "db \<Rightarrow> int \<Rightarrow> int option" where
  "torrent_artifact d torrent = map_option ar_id
     (newest ar_id (filter (\<lambda>a. ar_torrent_id a = torrent \<and> ar_provider a = ''p115'' \<and> ar_state a = Active) (artifacts d)))"

definition save_location :: "timestamp \<Rightarrow> int \<Rightarrow> mat_location \<Rightarrow> (db, unit) io" where
  "save_location time content l = tx (\<lambda>d.
     let now = format_time time
     in if ml_source_info_hash l = '''' then save_location_row (content, None, None, l, now) d
        else case torrent_by_hash d (to_lower (ml_source_info_hash l)) of
          None \<Rightarrow> (Inl ErrNoRows, d)
        | Some q \<Rightarrow> save_location_row (content, Some (tr_id q), torrent_artifact d (tr_id q), l, now)
            (delete_locations (replaced_location content (tr_id q) (ml_remote_file_id l)) now d))"

section \<open>Locations that are gone\<close>

definition kept_artifact :: "artifact_row \<Rightarrow> bool" where
  "kept_artifact a = (ar_state a \<in> {Active, Orphaned})"

definition mark_location_deleted :: "timestamp \<Rightarrow> int \<Rightarrow> (db, unit) io" where
  "mark_location_deleted time i = tx (\<lambda>d.
     let d1 = delete_locations (\<lambda>l. lo_id l = i) (format_time time) d
     in (Inr (), delete_artifacts (\<lambda>a. kept_artifact a \<and>
           Option.bind (find (\<lambda>l. lo_id l = i) (locations d1)) lo_artifact_id = Some (ar_id a) \<and>
           \<not> list_ex (\<lambda>l. lo_artifact_id l = Some (ar_id a) \<and> lo_deleted_at l = None) (locations d1)) d1))"

definition mark_source_locations_deleted :: "timestamp \<Rightarrow> string \<Rightarrow> (db, unit) io" where
  "mark_source_locations_deleted time info_hash = tx (\<lambda>d.
     let P = (\<lambda>a. kept_artifact a \<and>
           map_option tr_id (torrent_by_hash d (to_lower info_hash)) = Some (ar_torrent_id a));
         ids = map ar_id (filter P (artifacts d))
     in (Inr (), delete_artifacts P (delete_locations (\<lambda>l. live_location l \<and> lo_ownership l = ManagedCache \<and>
           (case lo_artifact_id l of None \<Rightarrow> False | Some i \<Rightarrow> i \<in> set ids)) (format_time time) d)))"

section \<open>What was used when\<close>

definition touch_asset :: "timestamp \<Rightarrow> int \<Rightarrow> (db, unit) io" where
  "touch_asset time content = tx (\<lambda>d.
     let now = format_time time;
         used = List.map_filter lo_artifact_id
           (filter (\<lambda>l. lo_content_id l = content \<and> lo_deleted_at l = None) (locations d))
     in (Inr (), d\<lparr>
          contents := update_rows (\<lambda>c. co_id c = content)
            (\<lambda>c. c\<lparr>co_last_accessed_at := Some now, co_updated_at := now\<rparr>) (contents d),
          artifacts := update_rows (\<lambda>a. ar_state a = Active \<and> ar_id a \<in> set used)
            (\<lambda>a. a\<lparr>ar_last_accessed_at := Some now, ar_updated_at := now\<rparr>) (artifacts d)\<rparr>))"

definition artifact_used_at :: "artifact_row \<Rightarrow> int" where
  "artifact_used_at a = (case ar_last_accessed_at a of None \<Rightarrow> ar_created_at a | Some t \<Rightarrow> t)"

definition managed_location :: "location_row \<Rightarrow> bool" where
  "managed_location l = (lo_deleted_at l = None \<and> lo_ownership l = ManagedCache)"

definition managed_cache_artifacts :: "(db, cache_artifact list) io" where
  "managed_cache_artifacts = (\<lambda>d.
     (Inr (map (\<lambda>a. \<lparr>ca_id = ar_id a, ca_result_remote_id = ar_result_remote_id a,
          ca_last_accessed_at = map_option parse_time (ar_last_accessed_at a),
          ca_created_at = parse_time (ar_created_at a)\<rparr>)
        (sort_key artifact_used_at (sort_key ar_id
          (filter (\<lambda>a. ar_provider a = ''p115'' \<and> ar_state a = Active \<and>
             list_ex (\<lambda>l. lo_artifact_id l = Some (ar_id a) \<and> managed_location l) (locations d)) (artifacts d))))), d))"

text \<open>A row of the join of artifacts, their torrents, their live cached locations and the contents.\<close>

definition cache_rows :: "(artifact_row \<Rightarrow> bool) \<Rightarrow> db \<Rightarrow> (artifact_row \<times> torrent_row \<times> location_row \<times> content_row) list" where
  "cache_rows P d =
     concat (map (\<lambda>a. concat (map (\<lambda>t. concat (map (\<lambda>l. map (\<lambda>c. (a, t, l, c))
       (filter (\<lambda>c. co_id c = lo_content_id l) (contents d)))
       (filter (\<lambda>l. lo_artifact_id l = Some (ar_id a) \<and> managed_location l) (locations d))))
       (filter (\<lambda>t. tr_id t = ar_torrent_id a) (torrents d))))
       (filter P (artifacts d)))"

definition managed_cache_locations :: "(db, asset list) io" where
  "managed_cache_locations = (\<lambda>d.
     (Inr (map (\<lambda>(a, t, l, c). (asset_of_row c)\<lparr>as_updated_at := 0, as_locations := [location_of_row l]\<rparr>)
        (sort_key (\<lambda>(a, t, l, c). artifact_used_at a) (sort_key (\<lambda>(a, t, l, c). co_id c)
          (sort_key (\<lambda>(a, t, l, c). lo_id l)
            (filter (\<lambda>(a, t, l, c). lo_provider l = ''p115'') (cache_rows (\<lambda>a. ar_state a = Active) d)))))), d))"

definition expired_asset :: "artifact_row \<times> torrent_row \<times> location_row \<times> content_row \<Rightarrow> asset" where
  "expired_asset r = (case r of (a, t, l, c) \<Rightarrow>
     (asset_of_row c)\<lparr>as_last_accessed_at := None, as_created_at := 0, as_updated_at := 0,
        as_locations := [location_of_row l],
        as_sources := [(source_of_torrent t)\<lparr>ms_artifact_id := ar_id a, ms_artifact_state := Some (ar_state a),
          ms_delete_file_id := ar_delete_file_id a, ms_wp_path_id := ar_work_dir_remote_id a\<rparr>]\<rparr>)"

definition expired_managed_locations :: "timestamp \<Rightarrow> (db, asset list) io" where
  "expired_managed_locations cutoff = (\<lambda>d.
     (Inr (map expired_asset
        (sort_key (\<lambda>(a, t, l, c). ar_id a) (sort_key (\<lambda>(a, t, l, c). co_id c) (sort_key (\<lambda>(a, t, l, c). lo_id l)
          (cache_rows (\<lambda>a. ar_provider a = ''p115'' \<and> kept_artifact a \<and>
             artifact_used_at a < format_time cutoff) d))))), d))"

end
