(* ===== verification/Materialize.thy ===== *)
theory Materialize
  imports Materialize_Store Ingest_Service
begin

text \<open>
  \<open>internal/materialize/service.go\<close>: from the SHA1 of a content to a copy of it in the cloud, restoring
  the copy from its torrents when it is gone, and the cleanup that keeps the work directory small.
  At the end the restorer of \<open>internal/bootstrap/app.go\<close>, which runs the ingest service for it.

  The world of the ingest service grows by the resolution cache, its flights (a resolution that is
  running, shared by everybody who asks for the same key) and the flags of the recycle-bin worker.
  A flight is started by one operation and run by another, \<open>run_flight\<close>, so that any number of
  requests can come between the two. Differences of times stay far from the bounds of
  \<open>time.Duration\<close>. Log lines are left out.
\<close>

section \<open>State\<close>

record resolution =
  rs_asset :: asset
  rs_location :: mat_location

record cache_entry =
  ce_resolution :: resolution
  ce_last_access :: timestamp

record flight =
  fl_key :: string
  fl_sha1 :: string
  fl_preferred :: string
  fl_result :: "(err + resolution) option"

record 'p mat_world = "'p world" +
  mw_entries :: "string \<Rightarrow> cache_entry option"
  mw_flights :: "string \<Rightarrow> nat option"
  mw_results :: "flight list"
  mw_recycle_running :: bool
  mw_recycle_pending :: bool
  mw_rand :: "string option list"

text \<open>The address files are redirected to, parsed: what \<open>URL.String\<close> writes before the path (scheme,
  user, host), the path with its original spelling, and what it writes after (query, fragment).\<close>

record base_url =
  bu_prefix :: string
  bu_path :: string
  bu_raw_path :: string
  bu_suffix :: string

text \<open>The fields of \<open>Service\<close> that do not change. The optional interfaces are options; the repository
  is the database, which implements all of them.\<close>

record ('p, 'w) mat_service =
  mx_file_info :: "string \<Rightarrow> ('p, cloud_file) io"
  mx_delete :: "string \<Rightarrow> string \<Rightarrow> ('p, unit) io"
  mx_recycle_bin :: "('p, unit) io option"
  mx_downloader :: "(string \<Rightarrow> string \<Rightarrow> ('p, string) io) option"
  mx_offline_tasks :: "(string \<Rightarrow> bool \<Rightarrow> ('p, bool) io) option"
  mx_restorer :: "(string \<Rightarrow> string \<Rightarrow> ('w, cloud_file) io) option"
  mx_work_dir :: string
  mx_base :: base_url
  mx_redirect_type :: string
  mx_cache_ttl :: int
  mx_cache_max :: int

text \<open>A repository call that reads the clock first.\<close>

definition timed :: "(timestamp \<Rightarrow> (db, 'a) io) \<Rightarrow> (('p, 'z) world_scheme, 'a) io" where
  "timed f = io_bind read_now (\<lambda>t. on_db (f t))"

section \<open>Addresses\<close>

definition under :: "cloud_file \<Rightarrow> string \<Rightarrow> bool" where
  "under f folder = list_ex (\<lambda>p. p_id p = folder) (cf_parents f)"

definition mat_remote_path :: "cloud_file \<Rightarrow> string" where
  "mat_remote_path f =
     (let v = trim_space (cf_remote_path f)
      in if v \<noteq> '''' then ''/'' @ trim_left v ''/''
         else ''/'' @ trim_left (path_join (map p_name (filter (\<lambda>p. p_id p \<noteq> ''0'' \<and> p_name p \<noteq> '''') (cf_parents f))
           @ [cf_name f])) ''/'')"

text \<open>\<open>EscapedPath\<close>: the original spelling as long as it still spells the path.\<close>

definition url_path_text :: "string \<Rightarrow> string \<Rightarrow> string" where
  "url_path_text raw p =
     (if raw \<noteq> '''' \<and> valid_encoded EncPath raw \<and> unescape EncPath raw = Some p then raw
      else if p = ''*'' then ''*'' else escape EncPath p)"

definition append_url_path :: "base_url \<Rightarrow> string \<Rightarrow> string" where
  "append_url_path b p =
     (let new = trim_right (bu_path b) ''/'' @ ''/'' @ trim_left p ''/''
      in bu_prefix b @ url_path_text (bu_raw_path b) new @ bu_suffix b)"

definition object_extension :: "asset \<Rightarrow> string" where
  "object_extension a = (let e = to_lower (path_ext (as_preferred_name a)) in if e = '''' then ''.bin'' else e)"

definition stable_object_path :: "asset \<Rightarrow> string" where
  "stable_object_path a =
     path_join [''objects'', take 2 (as_sha1 a), take 2 (drop 2 (as_sha1 a)), as_sha1 a @ object_extension a]"

definition redirect_url :: "('p, 'w) mat_service \<Rightarrow> asset \<Rightarrow> string \<Rightarrow> string" where
  "redirect_url s a p =
     (if mx_redirect_type s = ''proxy'' \<or> mx_redirect_type s = ''stable_dav''
      then append_url_path (mx_base s) (stable_object_path a)
      else append_url_path (mx_base s) p)"

section \<open>Resolving\<close>

definition preferred_sources :: "mat_source list \<Rightarrow> string \<Rightarrow> err + mat_source list" where
  "preferred_sources sources preferred =
     (let h = to_lower (trim_space preferred)
      in if h = '''' then Inr sources
         else case find (\<lambda>x. equal_fold (ms_info_hash x) h) sources of
           None \<Rightarrow> Inl (Msg ''info hash is no source of the content'')
         | Some x \<Rightarrow> Inr (x # filter (\<lambda>y. \<not> equal_fold (ms_info_hash y) h) sources))"

fun find_existing :: "('p, 'w) mat_service \<Rightarrow> string \<Rightarrow> mat_location list \<Rightarrow>
    (('p, 'z) world_scheme, (cloud_file \<times> ownership) option) io" where
  "find_existing s sha1 [] = io_ret None"
| "find_existing s sha1 (l # ls) =
     io_try (on_prov (mx_file_info s (ml_remote_file_id l))) (\<lambda>r. case r of
         Inl e \<Rightarrow>
           if errors_is e ErrRemoteNotFound
           then io_bind (timed (\<lambda>t. mark_location_deleted t (ml_id l))) (\<lambda>_. find_existing s sha1 ls)
           else io_fail (Wrap ''check file'' e)
       | Inr f \<Rightarrow> if equal_fold (cf_sha1 f) sha1 then io_ret (Some (f, ml_ownership l)) else find_existing s sha1 ls)"

text \<open>The loop over the sources; \<open>es\<close> are the errors so far.\<close>

fun restore_from :: "(string \<Rightarrow> string \<Rightarrow> (('p, 'z) world_scheme, cloud_file) io) \<Rightarrow> string \<Rightarrow> mat_source list \<Rightarrow> err list \<Rightarrow>
    (('p, 'z) world_scheme, cloud_file) io" where
  "restore_from rest sha1 [] es = io_fail (Wrap ''all sources failed'' (Joined es))"
| "restore_from rest sha1 (x # xs) es =
     io_try (rest (ms_magnet_uri x) sha1) (\<lambda>r. case r of
         Inr f \<Rightarrow> io_ret (f\<lparr>cf_source_info_hash := ms_info_hash x\<rparr>)
       | Inl e \<Rightarrow> (\<lambda>w. case w_ctx w of
             Some c \<Rightarrow> (Inl c, w)
           | None \<Rightarrow> restore_from rest sha1 xs (es @ [Wrap (ms_info_hash x) e]) w))"

definition restore_asset :: "('p, ('p, 'z) world_scheme) mat_service \<Rightarrow> asset \<Rightarrow> string \<Rightarrow>
    (('p, 'z) world_scheme, cloud_file \<times> ownership) io" where
  "restore_asset s a preferred =
     (case mx_restorer s of
       None \<Rightarrow> io_fail (Msg ''file is gone and there is no restorer'')
     | Some rest \<Rightarrow> io_bind (io_of (preferred_sources (as_sources a) preferred)) (\<lambda>sources.
         if sources = [] then io_fail (Msg ''file is gone and has no source'')
         else io_bind (restore_from rest (as_sha1 a) sources []) (\<lambda>f. io_ret (f, ManagedCache))))"

definition resolved_location :: "cloud_file \<Rightarrow> ownership \<Rightarrow> mat_location" where
  "resolved_location f own =
     \<lparr>ml_id = 0, ml_remote_file_id = cf_id f, ml_remote_parent_id = cf_parent_id f, ml_pick_code = cf_pick_code f,
      ml_remote_path = mat_remote_path f, ml_ownership = own, ml_source_info_hash = cf_source_info_hash f,
      ml_materialized_at = None\<rparr>"

text \<open>\<open>cacheResolution\<close>: entries that are too old go, the new one is in.\<close>

definition cache_resolution :: "('p, 'w) mat_service \<Rightarrow> string \<Rightarrow> resolution \<Rightarrow> (('p, 'z) mat_world_scheme, unit) io" where
  "cache_resolution s key r =
     (if mx_cache_ttl s \<le> 0 then io_ret ()
      else io_bind read_now (\<lambda>now w. (Inr (), w\<lparr>mw_entries := (\<lambda>k.
        if k = key then Some \<lparr>ce_resolution = r, ce_last_access = now\<rparr>
        else case mw_entries w k of
          None \<Rightarrow> None
        | Some e \<Rightarrow> if now - ce_last_access e \<ge> mx_cache_ttl s then None else Some e)\<rparr>)))"

definition mat_resolve :: "('p, ('p, 'z) mat_world_scheme) mat_service \<Rightarrow> string \<Rightarrow> string \<Rightarrow> string \<Rightarrow>
    (('p, 'z) mat_world_scheme, resolution) io" where
  "mat_resolve s key sha1_value preferred =
     io_bind (on_db (asset_by_sha1 sha1_value)) (\<lambda>a.
     io_bind (find_existing s (as_sha1 a) (as_locations a)) (\<lambda>x.
     io_bind (case x of Some found \<Rightarrow> io_ret found | None \<Rightarrow> restore_asset s a preferred) (\<lambda>(f, own).
       let loc = resolved_location f own; r = \<lparr>rs_asset = a, rs_location = loc\<rparr>
       in io_bind (timed (\<lambda>t. save_location t (as_id a) loc)) (\<lambda>_.
          io_bind (timed (\<lambda>t. touch_asset t (as_id a))) (\<lambda>_.
          io_bind (cache_resolution s key r) (\<lambda>_. io_ret r))))))"

section \<open>The cache and the flights\<close>

text \<open>A cache hit renews the entry; an entry that is too old is dropped.\<close>

definition lookup_entry :: "('p, 'w) mat_service \<Rightarrow> string \<Rightarrow> (('p, 'z) mat_world_scheme, resolution option) io" where
  "lookup_entry s key = io_bind read_now (\<lambda>now w.
     case mw_entries w key of
       None \<Rightarrow> (Inr None, w)
     | Some e \<Rightarrow>
         if now - ce_last_access e \<ge> mx_cache_ttl s then (Inr None, w\<lparr>mw_entries := (mw_entries w)(key := None)\<rparr>)
         else (Inr (Some (ce_resolution e)), w\<lparr>mw_entries := (mw_entries w)(key \<mapsto> e\<lparr>ce_last_access := now\<rparr>)\<rparr>))"

definition cached_resolution :: "('p, 'w) mat_service \<Rightarrow> string \<Rightarrow> (('p, 'z) mat_world_scheme, resolution option) io" where
  "cached_resolution s key = (if mx_cache_ttl s \<le> 0 then io_ret None else lookup_entry s key)"

definition new_flight :: "flight \<Rightarrow> (('p, 'z) mat_world_scheme, nat) io" where
  "new_flight f = (\<lambda>w. (Inr (length (mw_results w)), w\<lparr>mw_results := mw_results w @ [f]\<rparr>))"

text \<open>\<open>startResolution\<close>: a hit in the cache is a flight that has ended; a running flight of the key is
  joined; otherwise a new one starts.\<close>

definition start_resolution :: "('p, 'w) mat_service \<Rightarrow> string \<Rightarrow> string \<Rightarrow> string \<Rightarrow> (('p, 'z) mat_world_scheme, nat) io" where
  "start_resolution s key sha1_value preferred =
     (let f = \<lparr>fl_key = key, fl_sha1 = sha1_value, fl_preferred = preferred, fl_result = None\<rparr>
      in io_bind (cached_resolution s key) (\<lambda>x. case x of
           Some r \<Rightarrow> new_flight (f\<lparr>fl_result := Some (Inr r)\<rparr>)
         | None \<Rightarrow> (\<lambda>w. case mw_flights w key of
               Some i \<Rightarrow> (Inr i, w)
             | None \<Rightarrow> io_bind (new_flight f) (\<lambda>i w. (Inr i, w\<lparr>mw_flights := (mw_flights w)(key \<mapsto> i)\<rparr>)) w)))"

text \<open>The goroutine of a flight.\<close>

definition end_flight :: "nat \<Rightarrow> flight \<Rightarrow> err + resolution \<Rightarrow> (('p, 'z) mat_world_scheme, unit) io" where
  "end_flight i f r = (\<lambda>w. (Inr (), w\<lparr>mw_results := (mw_results w)[i := f\<lparr>fl_result := Some r\<rparr>],
     mw_flights := (mw_flights w)(fl_key f := None)\<rparr>))"

definition run_flight :: "('p, ('p, 'z) mat_world_scheme) mat_service \<Rightarrow> nat \<Rightarrow> (('p, 'z) mat_world_scheme, unit) io" where
  "run_flight s i = (\<lambda>w.
     if i < length (mw_results w) \<and> fl_result (mw_results w ! i) = None then
       (let f = mw_results w ! i
        in io_try (mat_resolve s (fl_key f) (fl_sha1 f) (fl_preferred f)) (end_flight i f) w)
     else (Inr (), w))"

text \<open>\<open>ResolveFrom\<close>. The request's context has ended before (\<open>ended\<close>) or ends while the flight is still
  running (\<open>gone\<close>); the flight goes on without it.\<close>

definition await_flight :: "('p, ('p, 'z) mat_world_scheme) mat_service \<Rightarrow> err option \<Rightarrow> nat \<Rightarrow>
    (('p, 'z) mat_world_scheme, resolution) io" where
  "await_flight s gone i = (case gone of
       Some e \<Rightarrow> io_fail e
     | None \<Rightarrow> io_bind (run_flight s i) (\<lambda>_ w.
         (case fl_result (mw_results w ! i) of None \<Rightarrow> Inl OutOfFuel | Some r \<Rightarrow> r, w)))"

definition resolve_from :: "('p, ('p, 'z) mat_world_scheme) mat_service \<Rightarrow> err option \<Rightarrow> err option \<Rightarrow> string \<Rightarrow> string \<Rightarrow>
    (('p, 'z) mat_world_scheme, resolution) io" where
  "resolve_from s ended gone sha1_value preferred =
     (let key = to_lower sha1_value
      in io_bind (cached_resolution s key) (\<lambda>x. case x of
           Some r \<Rightarrow> io_bind (timed (\<lambda>t. touch_asset t (as_id (rs_asset r)))) (\<lambda>_. io_ret r)
         | None \<Rightarrow> (case ended of
               Some e \<Rightarrow> io_fail e
             | None \<Rightarrow> io_bind (start_resolution s key sha1_value preferred) (await_flight s gone))))"

definition redirect_from :: "('p, ('p, 'z) mat_world_scheme) mat_service \<Rightarrow> err option \<Rightarrow> err option \<Rightarrow> string \<Rightarrow> string \<Rightarrow> string \<Rightarrow>
    (('p, 'z) mat_world_scheme, string) io" where
  "redirect_from s ended gone sha1_value preferred user_agent =
     io_bind (resolve_from s ended gone sha1_value preferred) (\<lambda>r.
       if mx_redirect_type s = ''direct'' then
         (case mx_downloader s of
           None \<Rightarrow> io_fail (Msg ''no download service'')
         | Some download \<Rightarrow>
             if trim_space (ml_pick_code (rs_location r)) = '''' then io_fail (Msg ''file has no pick code'')
             else on_prov (download (ml_pick_code (rs_location r)) user_agent))
       else io_ret (redirect_url s (rs_asset r) (ml_remote_path (rs_location r))))"

section \<open>The recycle bin\<close>

text \<open>A request marks the bin as pending and starts the worker unless it runs. The worker takes the mark,
  empties the bin, and goes on as long as a request came meanwhile.\<close>

definition delete_recycle_bin_async :: "('p, 'w) mat_service \<Rightarrow> (('p, 'z) mat_world_scheme, unit) io" where
  "delete_recycle_bin_async s = (\<lambda>w. case mx_recycle_bin s of
       None \<Rightarrow> (Inr (), w)
     | Some _ \<Rightarrow> (Inr (), w\<lparr>mw_recycle_pending := True, mw_recycle_running := True\<rparr>))"

definition recycle_take :: "(('p, 'z) mat_world_scheme, unit) io" where
  "recycle_take = (\<lambda>w. (Inr (), w\<lparr>mw_recycle_pending := False\<rparr>))"

definition recycle_end :: "(('p, 'z) mat_world_scheme, unit) io" where
  "recycle_end = (\<lambda>w. (Inr (), if mw_recycle_pending w then w else w\<lparr>mw_recycle_running := False\<rparr>))"

definition recycle_turn :: "('p, 'w) mat_service \<Rightarrow> (('p, 'z) mat_world_scheme, unit) io" where
  "recycle_turn s = (\<lambda>w. case mx_recycle_bin s of
       Some clear \<Rightarrow>
         if mw_recycle_running w
         then io_bind recycle_take (\<lambda>_. io_try (on_prov clear) (\<lambda>_. recycle_end)) w else (Inr (), w)
     | None \<Rightarrow> (Inr (), w))"

section \<open>Cleaning up\<close>

definition delete_task_source :: "('p, 'w) mat_service \<Rightarrow> string \<Rightarrow> (('p, 'z) mat_world_scheme, bool) io" where
  "delete_task_source s delete_id =
     io_try (on_prov (mx_file_info s delete_id)) (\<lambda>r. case r of
         Inl e \<Rightarrow> io_ret (errors_is e ErrRemoteNotFound)
       | Inr f \<Rightarrow>
           if \<not> under f (mx_work_dir s) then io_ret False
           else io_try (on_prov (mx_delete s (cf_id f) (cf_parent_id f))) (\<lambda>d. case d of
               Inl _ \<Rightarrow> io_ret False
             | Inr _ \<Rightarrow> io_bind (delete_recycle_bin_async s) (\<lambda>_. io_ret True)))"

definition mark_source_deleted :: "mat_source \<Rightarrow> (('p, 'z) world_scheme, unit) io" where
  "mark_source_deleted x =
     (if ms_artifact_id x \<noteq> 0 then on_db (mark_artifact_deleted (ms_artifact_id x))
      else timed (\<lambda>t. mark_source_locations_deleted t (ms_info_hash x)))"

definition cleanup_key :: "mat_source \<Rightarrow> string \<Rightarrow> string" where
  "cleanup_key x h = (if ms_artifact_id x \<noteq> 0
     then ''artifact:'' @ (if ms_artifact_id x < 0 then ''-'' else '''') @ decimal (nat \<bar>ms_artifact_id x\<bar>) else h)"

text \<open>The map of the sources already cleaned is shared by the whole cleanup: for each key, whether its
  files may be deleted one by one. The loop returns that for the asset, whether to go on with it, and the
  map, which keeps what was done before an error.\<close>

type_synonym cleaned = "string \<Rightarrow> bool option"

fun clean_sources :: "('p, 'w) mat_service \<Rightarrow> (string \<Rightarrow> bool \<Rightarrow> ('p, bool) io) \<Rightarrow> mat_source list \<Rightarrow> cleaned \<Rightarrow> bool \<Rightarrow>
    (('p, 'z) mat_world_scheme, bool \<times> bool \<times> cleaned) io" where
  "clean_sources s offline [] cl allow = io_ret (allow, True, cl)"
| "clean_sources s offline (x # xs) cl allow =
     (let h = to_lower (trim_space (ms_info_hash x)); key = cleanup_key x h; delete_id = trim_space (ms_delete_file_id x);
          cleaned_up = io_try (mark_source_deleted x) (\<lambda>m. case m of
              Inl _ \<Rightarrow> io_ret (False, False, cl)
            | Inr _ \<Rightarrow> io_bind (delete_recycle_bin_async s) (\<lambda>_. clean_sources s offline xs (cl(key \<mapsto> False)) False))
      in if h = '''' then clean_sources s offline xs cl allow
         else case cl key of
           Some b \<Rightarrow> clean_sources s offline xs cl (allow \<or> b)
         | None \<Rightarrow>
             if delete_id \<noteq> '''' then
               io_bind (delete_task_source s delete_id) (\<lambda>ok.
                 if \<not> ok then io_ret (False, False, cl) else cleaned_up)
             else if ms_artifact_state x = Some Orphaned then clean_sources s offline xs (cl(key \<mapsto> True)) True
             else io_try (on_prov (offline h True)) (\<lambda>r. case r of
                 Inl _ \<Rightarrow> io_ret (False, False, cl)
               | Inr found \<Rightarrow> if found then cleaned_up else clean_sources s offline xs (cl(key \<mapsto> True)) True))"

definition cleanup_task_sources :: "('p, 'w) mat_service \<Rightarrow> mat_source list \<Rightarrow> cleaned \<Rightarrow>
    (('p, 'z) mat_world_scheme, bool \<times> bool \<times> cleaned) io" where
  "cleanup_task_sources s xs cl =
     (if xs = [] then io_ret (True, True, cl)
      else case mx_offline_tasks s of
        None \<Rightarrow> io_ret (False, False, cl)
      | Some offline \<Rightarrow> clean_sources s offline xs cl False)"

fun cleanup_locations :: "('p, 'w) mat_service \<Rightarrow> mat_location list \<Rightarrow> (('p, 'z) mat_world_scheme, unit) io" where
  "cleanup_locations s [] = io_ret ()"
| "cleanup_locations s (l # ls) =
     io_try (on_prov (mx_file_info s (ml_remote_file_id l))) (\<lambda>r. case r of
         Inl e \<Rightarrow>
           if errors_is e ErrRemoteNotFound
           then io_bind (timed (\<lambda>t. mark_location_deleted t (ml_id l))) (\<lambda>_. cleanup_locations s ls)
           else cleanup_locations s ls
       | Inr f \<Rightarrow>
           if \<not> under f (mx_work_dir s) then cleanup_locations s ls
           else io_try (on_prov (mx_delete s (cf_id f) (cf_parent_id f))) (\<lambda>d. case d of
               Inl _ \<Rightarrow> cleanup_locations s ls
             | Inr _ \<Rightarrow> io_bind (delete_recycle_bin_async s) (\<lambda>_.
                 io_bind (timed (\<lambda>t. mark_location_deleted t (ml_id l))) (\<lambda>_. cleanup_locations s ls))))"

fun cleanup_assets :: "('p, 'w) mat_service \<Rightarrow> asset list \<Rightarrow> cleaned \<Rightarrow> (('p, 'z) mat_world_scheme, unit) io" where
  "cleanup_assets s [] cl = io_ret ()"
| "cleanup_assets s (a # as) cl =
     io_bind (cleanup_task_sources s (as_sources a) cl) (\<lambda>(allow, ok, cl').
       if \<not> ok \<or> \<not> allow then cleanup_assets s as cl'
       else io_bind (cleanup_locations s (as_locations a)) (\<lambda>_. cleanup_assets s as cl'))"

text \<open>The loop of \<open>cleanupOverCapacity\<close>: the oldest results go until the work directory fits.\<close>

fun evict :: "('p, 'w) mat_service \<Rightarrow> cache_artifact list \<Rightarrow> (('p, 'z) mat_world_scheme, unit) io" where
  "evict s [] = io_ret ()"
| "evict s (c # cs) = (\<lambda>w.
     case w_ctx w of
       Some e \<Rightarrow> (Inl e, w)
     | None \<Rightarrow>
         if trim_space (ca_result_remote_id c) = '''' then evict s cs w
         else io_try (on_prov (mx_file_info s (ca_result_remote_id c))) (\<lambda>r. case r of
             Inl e \<Rightarrow>
               if errors_is e ErrRemoteNotFound
               then io_bind (on_db (mark_artifact_deleted (ca_id c))) (\<lambda>_. evict s cs)
               else evict s cs
           | Inr f \<Rightarrow>
               if \<not> under f (mx_work_dir s) then evict s cs
               else io_try (on_prov (mx_delete s (cf_id f) (cf_parent_id f))) (\<lambda>d. case d of
                   Inl _ \<Rightarrow> evict s cs
                 | Inr _ \<Rightarrow> io_bind (on_db (mark_artifact_deleted (ca_id c))) (\<lambda>_.
                     io_bind (delete_recycle_bin_async s) (\<lambda>_.
                     io_try (on_prov (mx_file_info s (mx_work_dir s))) (\<lambda>i. case i of
                         Inl e \<Rightarrow> if errors_is e ErrRemoteNotFound then io_ret () else io_fail (Wrap ''refresh size'' e)
                       | Inr info \<Rightarrow> if cf_size_bytes info \<le> mx_cache_max s then io_ret () else evict s cs))))) w)"

definition cleanup_over_capacity :: "('p, 'w) mat_service \<Rightarrow> (('p, 'z) mat_world_scheme, unit) io" where
  "cleanup_over_capacity s =
     (if mx_cache_max s \<le> 0 \<or> trim_space (mx_work_dir s) = '''' then io_ret ()
      else io_try (on_prov (mx_file_info s (mx_work_dir s))) (\<lambda>r. case r of
          Inl e \<Rightarrow> if errors_is e ErrRemoteNotFound then io_ret () else io_fail (Wrap ''read size'' e)
        | Inr info \<Rightarrow>
            if cf_size_bytes info \<le> mx_cache_max s then io_ret ()
            else io_bind (on_db managed_cache_artifacts) (evict s)))"

definition mat_cleanup :: "('p, 'w) mat_service \<Rightarrow> int \<Rightarrow> (('p, 'z) mat_world_scheme, unit) io" where
  "mat_cleanup s retention =
     io_bind read_now (\<lambda>now.
     io_bind (on_db (expired_managed_locations (now - retention))) (\<lambda>as.
     io_bind (cleanup_assets s as (\<lambda>_. None)) (\<lambda>_. cleanup_over_capacity s)))"

section \<open>The restorer\<close>

text \<open>\<open>offlineContentRestorer.RestoreContent\<close>: a restore is a job of its own source. \<open>finished\<close> is the
  reading of the clock at the end of the run.\<close>

definition mat_random :: "(('p, 'z) mat_world_scheme, string option) io" where
  "mat_random = (\<lambda>w. case mw_rand w of [] \<Rightarrow> (Inr None, w) | r # rs \<Rightarrow> (Inr r, w\<lparr>mw_rand := rs\<rparr>))"

definition restored_file :: "scan_file \<Rightarrow> cloud_file" where
  "restored_file f = \<lparr>cf_id = f_remote_id f, cf_parent_id = f_parent_id f, cf_name = f_name f, cf_sha1 = f_sha1 f,
     cf_size_bytes = f_size_bytes f, cf_pick_code = f_pick_code f, cf_remote_path = f_remote_path f,
     cf_source_info_hash = '''', cf_parents = []\<rparr>"

definition restore_job :: "string \<Rightarrow> string \<Rightarrow> (('p, 'z) mat_world_scheme, job) io" where
  "restore_job magnet sha1 =
     io_bind read_now (\<lambda>now.
     io_bind (io_of (new_job_for_source now magnet source_restore)) (\<lambda>j0.
       let j = j0\<lparr>j_target_sha1 := to_lower sha1\<rparr>
       in io_try (on_db (get_job (j_gid j))) (\<lambda>r. case r of
            Inr _ \<Rightarrow> io_bind mat_random (\<lambda>rnd. io_of (assign_new_gid rnd j))
          | Inl e \<Rightarrow> if errors_is e ErrJobNotFound then io_ret j else io_fail e)))"

definition restorer :: "bool \<Rightarrow> nat \<Rightarrow> 'p service \<Rightarrow> timestamp \<Rightarrow> string \<Rightarrow> string \<Rightarrow>
    (('p, 'z) mat_world_scheme, cloud_file) io" where
  "restorer scan_first fuel s finished magnet sha1 =
     io_bind (restore_job magnet sha1) (\<lambda>j.
     io_bind (on_db (create_job j)) (\<lambda>_.
     io_bind read_now (\<lambda>started.
     io_bind (run_job_with_resolver (\<lambda>j. on_db (update_job j)) started finished False j
         (restore_content scan_first fuel s (j_gid j) magnet sha1)) (\<lambda>f.
       if \<not> equal_fold (f_sha1 f) sha1 then io_fail (Msg ''restored file has another SHA1'')
       else io_ret (restored_file f)))))"

end
