(* ===== verification/Webdav.thy ===== *)
theory Webdav
  imports Materialize
begin

text \<open>
  \<open>internal/transport/webdav/handler.go\<close>: the read-only DAV tree over the contents (two levels of buckets by
  SHA1), its property listings, and the proxy that streams an object from the cloud, with the cache of
  download addresses. The upstream HTTP client, the MIME table of the system and the formatting of dates are
  fields of the handler; the XML encoding of a listing is left out, a listing is its entries. Requests are
  handled one after the other, so an address is never asked for twice at once and the flights of the
  address cache are always empty.
\<close>

section \<open>HTTP\<close>

text \<open>\<open>http.Header\<close>: the values by canonical name. \<open>Get\<close>, \<open>Del\<close> and \<open>Set\<close> make the name canonical.\<close>

type_synonym header = "(string \<times> string list) list"

definition token_byte :: "char \<Rightarrow> bool" where
  "token_byte c = (is_alnum c \<or> c \<in> set ''!#$%&*+-.^_|~'' \<or> code_of c = 39 \<or> code_of c = 96)"

fun canonical_chars :: "bool \<Rightarrow> string \<Rightarrow> string" where
  "canonical_chars up [] = []"
| "canonical_chars up (c # s) = (if up then upper_char c else lower_char c) # canonical_chars (c = CHR ''-'') s"

definition canonical_key :: "string \<Rightarrow> string" where
  "canonical_key k = (if list_all token_byte k then canonical_chars True k else k)"

definition header_values :: "header \<Rightarrow> string \<Rightarrow> string list" where
  "header_values h k = (case map_of h (canonical_key k) of None \<Rightarrow> [] | Some vs \<Rightarrow> vs)"

definition header_get :: "header \<Rightarrow> string \<Rightarrow> string" where
  "header_get h k = (case header_values h k of [] \<Rightarrow> '''' | v # _ \<Rightarrow> v)"

definition header_del :: "string \<Rightarrow> header \<Rightarrow> header" where
  "header_del k h = filter (\<lambda>x. fst x \<noteq> canonical_key k) h"

definition header_set :: "string \<Rightarrow> string \<Rightarrow> header \<Rightarrow> header" where
  "header_set k v h = (canonical_key k, [v]) # header_del k h"

record http_request =
  rq_method :: string
  rq_path :: string
  rq_raw_query :: string
  rq_headers :: header

record http_response =
  rp_status :: nat
  rp_headers :: header
  rp_body :: string

definition plain_response :: "nat \<Rightarrow> http_response" where
  "plain_response status = \<lparr>rp_status = status, rp_headers = [], rp_body = ''''\<rparr>"

section \<open>Resources\<close>

datatype resource =
    DavRoot
  | ObjectsRoot
  | FirstBucket string
  | SecondBucket string
  | Object string string

definition dav_root :: string where "dav_root = ''/dav''"
definition objects_root :: string where "objects_root = ''/dav/objects''"

definition valid_hex :: "string \<Rightarrow> nat \<Rightarrow> bool" where
  "valid_hex v n = (length v = n \<and> v = to_lower v \<and> hex_decode v \<noteq> None)"

text \<open>An object is \<open><first two>/<next two>/<sha1>.<extension>\<close>.\<close>

definition parse_object :: "string \<Rightarrow> string \<Rightarrow> string \<Rightarrow> string \<Rightarrow> err + resource" where
  "parse_object clean a b name =
     (let sha1 = takeWhile (\<lambda>c. c \<noteq> CHR ''.'') name
      in if \<not> valid_hex a 2 \<or> \<not> valid_hex b 2 then Inl (Msg ''invalid object buckets'')
         else if length sha1 = length name \<or> length sha1 + 1 = length name then Inl (Msg ''object extension is required'')
         else if \<not> valid_hex sha1 40 \<or> take 2 sha1 \<noteq> a \<or> take 2 (drop 2 sha1) \<noteq> b
           then Inl (Msg ''object path does not match SHA1'')
         else Inr (Object sha1 clean))"

definition parse_resource :: "string \<Rightarrow> err + resource" where
  "parse_resource v =
     (let clean = trim_suffix v ''/''
      in if clean = dav_root then Inr DavRoot
         else if clean = objects_root then Inr ObjectsRoot
         else if \<not> has_prefix clean (objects_root @ ''/'') then Inl (Msg ''outside DAV root'')
         else case split_on slash (trim_prefix clean (objects_root @ ''/'')) of
             [a] \<Rightarrow> if valid_hex a 2 then Inr (FirstBucket a) else Inl (Msg ''invalid first bucket'')
           | [a, b] \<Rightarrow> if valid_hex a 2 \<and> valid_hex b 2 then Inr (SecondBucket (a @ b)) else Inl (Msg ''invalid second bucket'')
           | [a, b, c] \<Rightarrow> parse_object clean a b c
           | _ \<Rightarrow> Inl (Msg ''invalid DAV path''))"

definition object_href :: "asset \<Rightarrow> string" where
  "object_href a = objects_root @ ''/'' @ take 2 (as_sha1 a) @ ''/'' @ take 2 (drop 2 (as_sha1 a)) @ ''/'' @ as_sha1 a @ object_extension a"

section \<open>Listings\<close>

record dav_entry =
  en_href :: string
  en_name :: string
  en_asset :: "asset option"

definition collection_entry :: "string \<Rightarrow> string \<Rightarrow> dav_entry" where
  "collection_entry href name = \<lparr>en_href = href, en_name = name, en_asset = None\<rparr>"

definition object_entry :: "asset \<Rightarrow> string \<Rightarrow> dav_entry" where
  "object_entry a href = \<lparr>en_href = href, en_name = path_base href, en_asset = Some a\<rparr>"

definition bucket_href :: "string \<Rightarrow> string" where
  "bucket_href p = objects_root @ ''/'' @ take 2 p @ ''/'' @ drop 2 p @ ''/''"

definition collection_not_found :: err where
  "collection_not_found = Msg ''DAV collection not found''"

fun dav_entries :: "resource \<Rightarrow> bool \<Rightarrow> (db, dav_entry list) io" where
  "dav_entries DavRoot children =
     io_ret (collection_entry (dav_root @ ''/'') ''dav'' #
       (if children then [collection_entry (objects_root @ ''/'') ''objects''] else []))"
| "dav_entries ObjectsRoot children =
     (if \<not> children then io_ret [collection_entry (objects_root @ ''/'') ''objects'']
      else io_bind (sha1_prefixes '''' 2) (\<lambda>ps. io_ret (collection_entry (objects_root @ ''/'') ''objects'' #
        map (\<lambda>p. collection_entry (objects_root @ ''/'' @ p @ ''/'') p) ps)))"
| "dav_entries (FirstBucket prefix) children =
     io_bind (sha1_prefixes prefix 4) (\<lambda>ps.
       if ps = [] then io_fail collection_not_found
       else io_ret (collection_entry (objects_root @ ''/'' @ prefix @ ''/'') prefix #
         (if children then map (\<lambda>p. collection_entry (bucket_href p) (drop 2 p)) ps else [])))"
| "dav_entries (SecondBucket prefix) children =
     io_bind (assets_by_sha1_prefix prefix) (\<lambda>as.
       if as = [] then io_fail collection_not_found
       else io_ret (collection_entry (bucket_href prefix) (drop 2 prefix) #
         (if children then map (\<lambda>a. object_entry a (object_href a)) as else [])))"
| "dav_entries (Object sha1 href) children =
     io_bind (asset_by_sha1 sha1) (\<lambda>a. io_ret [object_entry a href])"

text \<open>The properties of an entry (\<open>multistatusFor\<close>); times are not formatted yet.\<close>

record dav_props =
  dp_href :: string
  dp_name :: string
  dp_collection :: bool
  dp_length :: "int option"
  dp_type :: string
  dp_etag :: string
  dp_modified :: timestamp

definition stable_etag :: "asset \<Rightarrow> string" where
  "stable_etag a = CHR 0x22 # as_sha1 a @ [CHR 0x22]"

definition props_of :: "(string \<Rightarrow> string) \<Rightarrow> dav_entry \<Rightarrow> dav_props" where
  "props_of mime e = (case en_asset e of
       None \<Rightarrow> \<lparr>dp_href = en_href e, dp_name = en_name e, dp_collection = True, dp_length = None, dp_type = '''',
         dp_etag = '''', dp_modified = 0\<rparr>
     | Some a \<Rightarrow> \<lparr>dp_href = en_href e, dp_name = en_name e, dp_collection = False, dp_length = Some (as_size_bytes a),
         dp_type = (let t = mime (path_ext (en_href e)) in if t = '''' then ''application/octet-stream'' else t),
         dp_etag = stable_etag a, dp_modified = as_created_at a\<rparr>)"

text \<open>\<open>propfind\<close>: the status and the listing.\<close>

definition propfind :: "(string \<Rightarrow> string) \<Rightarrow> http_request \<Rightarrow> resource \<Rightarrow> db \<Rightarrow> nat \<times> dav_props list" where
  "propfind mime q r d =
     (let t = trim_space (header_get (rq_headers q) ''Depth''); depth = (if t = '''' then ''infinity'' else t)
      in if depth \<noteq> ''0'' \<and> depth \<noteq> ''1'' then (403, [])
         else case fst (dav_entries r (depth = ''1'') d) of
             Inl e \<Rightarrow> (if errors_is e ErrAssetNotFound \<or> errors_is e collection_not_found then 404 else 500, [])
           | Inr es \<Rightarrow> (207, map (props_of mime) es))"

section \<open>Headers of the proxy\<close>

definition hop_headers :: "string list" where
  "hop_headers = [''Connection'', ''Proxy-Connection'', ''Keep-Alive'', ''Proxy-Authenticate'', ''Proxy-Authorization'',
     ''TE'', ''Trailer'', ''Transfer-Encoding'', ''Upgrade'']"

text \<open>The names a \<open>Connection\<close> header lists go first; the values are read once.\<close>

definition remove_hop_headers :: "header \<Rightarrow> header" where
  "remove_hop_headers h =
     (let listed = concat (map (\<lambda>v. map trim_space (split_on (CHR '','') v)) (header_values h ''Connection''))
      in fold header_del (listed @ hop_headers) h)"

definition copy_response_headers :: "header \<Rightarrow> header \<Rightarrow> header" where
  "copy_response_headers dest src =
     header_del ''Set-Cookie'' (remove_hop_headers (src @ filter (\<lambda>x. fst x \<notin> fst ` set src) dest))"

definition etag_matches :: "string \<Rightarrow> string \<Rightarrow> bool" where
  "etag_matches v etag =
     list_ex (\<lambda>i. let t = trim_space i in t = ''*'' \<or> t = etag \<or> trim_prefix t ''W/'' = etag) (split_on (CHR '','') v)"

definition upstream_headers :: "string \<Rightarrow> string \<Rightarrow> header \<Rightarrow> header" where
  "upstream_headers agent etag h =
     (let h1 = header_set ''User-Agent'' agent (fold header_del [''Authorization'', ''Cookie'', ''Proxy-Authorization'',
            ''If-Match'', ''If-None-Match'', ''If-Modified-Since'', ''If-Unmodified-Since''] (remove_hop_headers h));
          range = header_get h1 ''If-Range''
      in if range = '''' then h1
         else header_del ''If-Range'' (if etag_matches range etag then h1 else header_del ''Range'' h1))"

definition expired_download_status :: "nat \<Rightarrow> bool" where
  "expired_download_status n = (n \<in> {401, 403, 410})"

section \<open>Download addresses\<close>

record url_entry =
  ue_value :: string
  ue_cached_at :: timestamp

record 'p dav_world = "'p mat_world" +
  dw_urls :: "string \<Rightarrow> url_entry option"

text \<open>The handler: the materializer that resolves, the downloader, the client (method, address, headers), the
  MIME table, the format of dates.\<close>

record ('p, 'w) dav_handler =
  dv_service :: "('p, 'w) mat_service"
  dv_download :: "string \<Rightarrow> string \<Rightarrow> ('p, string) io"
  dv_fetch :: "string \<Rightarrow> string \<Rightarrow> header \<Rightarrow> ('p, http_response) io"
  dv_mime :: "string \<Rightarrow> string"
  dv_date :: "timestamp \<Rightarrow> string"

definition cached_download_url :: "('p, 'w) dav_handler \<Rightarrow> string \<Rightarrow> string \<Rightarrow> string \<Rightarrow> (('p, 'z) dav_world_scheme, url_entry) io" where
  "cached_download_url h key pick agent = (\<lambda>w.
     let ask = io_try (on_prov (dv_download h pick agent)) (\<lambda>r. io_bind read_now (\<lambda>now w.
           case r of
             Inl e \<Rightarrow> (Inl e, w)
           | Inr v \<Rightarrow> (let e = \<lparr>ue_value = v, ue_cached_at = now\<rparr> in (Inr e, w\<lparr>dw_urls := (dw_urls w)(key \<mapsto> e)\<rparr>))))
     in case dw_urls w key of
          Some e \<Rightarrow> if ue_value e \<noteq> '''' then (Inr e, w) else ask w
        | None \<Rightarrow> ask w)"

definition invalidate_download_url :: "string \<Rightarrow> string \<Rightarrow> (('p, 'z) dav_world_scheme, unit) io" where
  "invalidate_download_url key stale = (\<lambda>w. (Inr (),
     if (case dw_urls w key of None \<Rightarrow> '''' | Some e \<Rightarrow> ue_value e) = stale
     then w\<lparr>dw_urls := (dw_urls w)(key := None)\<rparr> else w))"

definition valid_download_url :: "string \<Rightarrow> bool" where
  "valid_download_url v = (case url_parse v of
     None \<Rightarrow> False | Some u \<Rightarrow> u_scheme u \<in> {''http'', ''https''} \<and> u_host u \<noteq> '''')"

text \<open>The two attempts of \<open>download\<close>: an expired address is dropped and asked for again once.\<close>

fun download_attempts :: "nat \<Rightarrow> bool \<Rightarrow> ('p, 'w) dav_handler \<Rightarrow> http_request \<Rightarrow> string \<Rightarrow> string \<Rightarrow> string \<Rightarrow> string \<Rightarrow>
    (('p, 'z) dav_world_scheme, http_response) io" where
  "download_attempts 0 first h q key pick agent etag = io_fail (Msg ''address not usable after a refresh'')"
| "download_attempts (Suc n) first h q key pick agent etag =
     io_bind (wrap_err ''download address'' (cached_download_url h key pick agent)) (\<lambda>e.
       if \<not> valid_download_url (ue_value e) then
         io_bind (invalidate_download_url key (ue_value e)) (\<lambda>_. io_fail (Msg ''invalid download address''))
       else io_bind (on_prov (dv_fetch h (rq_method q) (ue_value e) (upstream_headers agent etag (rq_headers q)))) (\<lambda>r.
         if expired_download_status (rp_status r) then
           io_bind (invalidate_download_url key (ue_value e)) (\<lambda>_.
             if first then download_attempts n False h q key pick agent etag else io_ret r)
         else io_ret r))"

definition dav_download :: "('p, 'w) dav_handler \<Rightarrow> http_request \<Rightarrow> string \<Rightarrow> string \<Rightarrow> (('p, 'z) dav_world_scheme, http_response) io" where
  "dav_download h q pick etag =
     (let ua = header_get (rq_headers q) ''User-Agent''; agent = (if ua = '''' then ''magnet-to-strm'' else ua)
      in download_attempts 2 True h q (pick @ char_of (0 :: nat) # agent) pick agent etag)"

section \<open>The handler\<close>

definition proxy_object :: "('p, ('p, 'z) dav_world_scheme) dav_handler \<Rightarrow> http_request \<Rightarrow> string \<Rightarrow>
    (('p, 'z) dav_world_scheme, http_response) io" where
  "proxy_object h q sha1 =
     io_try (resolve_from (dv_service h) None None sha1 '''') (\<lambda>r. case r of
         Inl e \<Rightarrow> io_ret (plain_response (if errors_is e ErrAssetNotFound then 404 else 502))
       | Inr res \<Rightarrow>
           (let a = rs_asset res; pick = ml_pick_code (rs_location res); etag = stable_etag a;
                if_match = header_get (rq_headers q) ''If-Match''; if_none = header_get (rq_headers q) ''If-None-Match''
            in if trim_space pick = '''' then io_ret (plain_response 502)
               else if if_match \<noteq> '''' \<and> \<not> etag_matches if_match etag then io_ret (plain_response 412)
               else if if_none \<noteq> '''' \<and> etag_matches if_none etag
                 then io_ret (plain_response 304\<lparr>rp_headers := [(''Etag'', [etag])]\<rparr>)
               else io_try (dav_download h q pick etag) (\<lambda>d. case d of
                   Inl _ \<Rightarrow> io_ret (plain_response 502)
                 | Inr up \<Rightarrow> io_ret \<lparr>rp_status = rp_status up,
                     rp_headers = (let hs = header_set ''ETag'' etag (copy_response_headers [] (rp_headers up))
                       in if as_created_at a = 0 then hs else header_set ''Last-Modified'' (dv_date h (as_created_at a)) hs),
                     rp_body = (if rq_method q = ''HEAD'' then '''' else rp_body up)\<rparr>)))"

text \<open>\<open>ServeHTTP\<close>; a listing answers with its entries instead of their XML. The common headers of the DAV
  protocol (\<open>DAV\<close>, \<open>Allow\<close>) are left out.\<close>

datatype dav_answer = Answer http_response | Listing nat "dav_props list"

definition dav_serve :: "('p, ('p, 'z) dav_world_scheme) dav_handler \<Rightarrow> http_request \<Rightarrow> (('p, 'z) dav_world_scheme, dav_answer) io" where
  "dav_serve h q =
     (if rq_method q = ''OPTIONS'' then io_ret (Answer (plain_response 200))
      else case parse_resource (rq_path q) of
        Inl _ \<Rightarrow> io_ret (Answer (plain_response 404))
      | Inr r \<Rightarrow>
          if rq_method q = ''PROPFIND'' then
            (\<lambda>w. (Inr (case propfind (dv_mime h) q r (w_db w) of (n, ps) \<Rightarrow> Listing n ps), w))
          else if rq_method q = ''GET'' \<or> rq_method q = ''HEAD'' then
            (case r of
               Object sha1 href \<Rightarrow> io_bind (proxy_object h q sha1) (\<lambda>x. io_ret (Answer x))
             | _ \<Rightarrow> io_ret (Answer (plain_response 405)))
          else io_ret (Answer (plain_response 405)))"

end
