(* ===== verification/Http_Server.thy ===== *)
theory Http_Server
  imports Webdav
begin

text \<open>
  \<open>internal/transport/httpserver/server.go\<close>: the routes of the server, the redirect that STRM files point
  to, and the root-level alias of the DAV objects. \<open>http.ServeMux\<close> sends a request to the longest pattern
  that matches its path, after redirecting a path that is not clean. The handlers of other components
  (the JSON API, aria2, qBittorrent, the web pages) are one function of the server.
\<close>

section \<open>Redirects\<close>

definition hex_escape_non_ascii :: "string \<Rightarrow> string" where
  "hex_escape_non_ascii s = concat (map (\<lambda>c. if code_of c \<ge> 128
     then [CHR ''%'', hex_digit (code_of c div 16), hex_digit (code_of c mod 16)] else [c]) s)"

definition server_valid_sha1 :: "string \<Rightarrow> bool" where
  "server_valid_sha1 v = (length v = 40 \<and> hex_decode v \<noteq> None)"

text \<open>The hash of the torrent a redirect prefers: none, one that is valid, or an error of the request.\<close>

definition redirect_query :: "string \<Rightarrow> string option" where
  "redirect_query raw =
     (case parse_query raw of (ps, ok) \<Rightarrow>
       if \<not> ok \<or> list_ex (\<lambda>p. fst p \<noteq> ''info_hash'') ps then None
       else case query_values ps ''info_hash'' of
           [] \<Rightarrow> Some ''''
         | [v] \<Rightarrow> (let h = to_lower (trim_space v) in if server_valid_sha1 h then Some h else None)
         | _ \<Rightarrow> None)"

text \<open>The address of \<open>http.Redirect\<close> is absolute here, so it is sent as it is.\<close>

definition redirect_response :: "string \<Rightarrow> http_response" where
  "redirect_response url = \<lparr>rp_status = 302,
     rp_headers = [(''Location'', [hex_escape_non_ascii url]), (''Cache-Control'', [''no-store''])], rp_body = ''''\<rparr>"

definition serve_redirect :: "('p, ('p, 'z) mat_world_scheme) mat_service \<Rightarrow> err option \<Rightarrow> err option \<Rightarrow> http_request \<Rightarrow>
    (('p, 'z) mat_world_scheme, http_response) io" where
  "serve_redirect s ended gone q =
     (let sha1 = to_lower (trim_prefix (rq_path q) ''/redirect/'')
      in if rq_method q \<noteq> ''GET'' \<and> rq_method q \<noteq> ''HEAD'' then
           io_ret (plain_response 405\<lparr>rp_headers := [(''Allow'', [''GET, HEAD''])]\<rparr>)
         else if slash \<in> set sha1 \<or> \<not> server_valid_sha1 sha1 then io_ret (plain_response 400)
         else case redirect_query (rq_raw_query q) of
             None \<Rightarrow> io_ret (plain_response 400)
           | Some h \<Rightarrow> io_try (redirect_from s ended gone sha1 h (header_get (rq_headers q) ''User-Agent'')) (\<lambda>r. case r of
                 Inl e \<Rightarrow> io_ret (plain_response (if errors_is e ErrAssetNotFound then 404 else 502))
               | Inr url \<Rightarrow> io_ret (redirect_response url)))"

section \<open>Routes\<close>

datatype route = RtRedirect | RtObjects | RtDav | RtProxy | RtHealth | RtReady | RtOther

definition route_of :: "string \<Rightarrow> route" where
  "route_of p =
     (if p = ''/dav'' \<or> has_prefix p ''/dav/'' then RtDav
      else if has_prefix p ''/objects/'' then RtObjects
      else if has_prefix p ''/proxy/'' then RtProxy
      else if has_prefix p ''/redirect/'' then RtRedirect
      else if p = ''/healthz'' then RtHealth
      else if p = ''/readyz'' then RtReady
      else RtOther)"

text \<open>\<open>cleanPath\<close> of the multiplexer: the clean path, with the slash at the end kept.\<close>

definition mux_clean :: "string \<Rightarrow> string" where
  "mux_clean p =
     (let q = (if p = '''' then ''/'' else if \<not> has_prefix p ''/'' then ''/'' @ p else p); np = path_clean q
      in if has_suffix q ''/'' \<and> np \<noteq> ''/'' then np @ ''/'' else np)"

text \<open>The server: the DAV handler, which holds the materializer, whether the database answers, the
  status the multiplexer of the Go release redirects unclean paths with (301 or 307), and the handlers of the
  other components.\<close>

record ('p, 'w) http_server =
  hs_dav :: "('p, 'w) dav_handler"
  hs_ready :: bool
  hs_clean_status :: nat
  hs_other :: "http_request \<Rightarrow> ('w, dav_answer) io"

definition http_serve :: "('p, ('p, 'z) dav_world_scheme) http_server \<Rightarrow> err option \<Rightarrow> err option \<Rightarrow> http_request \<Rightarrow>
    (('p, 'z) dav_world_scheme, dav_answer) io" where
  "http_serve h ended gone q =
     (if mux_clean (rq_path q) \<noteq> rq_path q then
        io_ret (Answer (plain_response (hs_clean_status h)\<lparr>rp_headers := [(''Location'',
          [escape EncPath (mux_clean (rq_path q)) @ (if rq_raw_query q = '''' then '''' else CHR ''?'' # rq_raw_query q)])]\<rparr>))
      else case route_of (rq_path q) of
          RtDav \<Rightarrow> dav_serve (hs_dav h) q
        | RtObjects \<Rightarrow> dav_serve (hs_dav h) (q\<lparr>rq_path := ''/dav'' @ rq_path q\<rparr>)
        | RtProxy \<Rightarrow> io_ret (Answer (plain_response 404))
        | RtRedirect \<Rightarrow> io_bind (serve_redirect (dv_service (hs_dav h)) ended gone q) (\<lambda>r. io_ret (Answer r))
        | RtHealth \<Rightarrow> io_ret (Answer (plain_response 200))
        | RtReady \<Rightarrow> io_ret (Answer (plain_response (if hs_ready h then 200 else 503)))
        | RtOther \<Rightarrow> hs_other h q)"

end
