(* ===== verification/Materialize_Facts.thy ===== *)
theory Materialize_Facts
  imports Materialize Ingest_Facts
begin

text \<open>
  What the materializer promises: its cleanup deletes nothing outside the work directory, the size limit
  takes the results that were used least recently and stops as soon as the rest fits, what was just used is
  not expired, and a resolution is always one of the content it was asked for, from the cache or from the
  one flight its requests share.
\<close>

section \<open>What the cloud sees\<close>

lemma keeps_prov_db: "keeps (\<lambda>w. P (w_prov w)) (on_db m)"
  by (simp add: keeps_def)

lemma keeps_prov_now: "keeps (\<lambda>w. P (w_prov w)) read_now"
  by (simp add: keeps_def)

lemma keeps_prov_call: "keeps P m \<Longrightarrow> keeps (\<lambda>w. P (w_prov w)) (on_prov m)"
  by (auto simp: keeps_def on_prov_def split: prod.splits)

lemma keeps_prov_timed: "keeps (\<lambda>w. P (w_prov w)) (timed f)"
  unfolding timed_def by (intro keeps_bind keeps_prov_now keeps_prov_db)

lemma keeps_prov_async: "keeps (\<lambda>w. P (w_prov w)) (delete_recycle_bin_async s)"
  by (simp add: keeps_def delete_recycle_bin_async_def split: option.splits)

lemma keeps_prov_mark: "keeps (\<lambda>w. P (w_prov w)) (mark_source_deleted x)"
  unfolding mark_source_deleted_def by (intro keeps_if keeps_prov_db keeps_prov_timed)

lemmas keeps_prov = keeps_ret keeps_fail keeps_prov_db keeps_prov_now keeps_prov_timed keeps_prov_async keeps_prov_mark

text \<open>A predicate of the cloud that the readings of the service keep, and every deletion of a file that was
  just reported below the work directory.\<close>

definition careful_cloud :: "('p, 'w) mat_service \<Rightarrow> ('p \<Rightarrow> bool) \<Rightarrow> bool" where
  "careful_cloud s P \<longleftrightarrow>
     (\<forall>i. keeps P (mx_file_info s i)) \<and>
     (\<forall>f h b. mx_offline_tasks s = Some f \<longrightarrow> keeps P (f h b)) \<and>
     (\<forall>p i f p'. P p \<longrightarrow> mx_file_info s i p = (Inr f, p') \<longrightarrow> under f (mx_work_dir s) \<longrightarrow>
        P (snd (mx_delete s (cf_id f) (cf_parent_id f) p')))"

lemma careful_cloudD:
  assumes "careful_cloud s P"
  shows "keeps P (mx_file_info s i)" "mx_offline_tasks s = Some f \<Longrightarrow> keeps P (f h b)"
    "P p \<Longrightarrow> mx_file_info s i p = (Inr f', p') \<Longrightarrow> under f' (mx_work_dir s) \<Longrightarrow>
      P (snd (mx_delete s (cf_id f') (cf_parent_id f') p'))"
  using assms by (auto simp: careful_cloud_def)

text \<open>Looking a file up and deleting it when it is below the work directory.\<close>

lemma look_then:
  assumes c: "careful_cloud s P"
    and "\<And>e. keeps (\<lambda>w :: ('p, 'z) world_scheme. P (w_prov w)) (gone e)"
    and "\<And>f. keeps (\<lambda>w :: ('p, 'z) world_scheme. P (w_prov w)) (skip f)"
    and "\<And>f d. keeps (\<lambda>w :: ('p, 'z) world_scheme. P (w_prov w)) (after f d)"
  shows "keeps (\<lambda>w :: ('p, 'z) world_scheme. P (w_prov w)) (io_try (on_prov (mx_file_info s i)) (\<lambda>r. case r of
      Inl e \<Rightarrow> gone e
    | Inr f \<Rightarrow> if \<not> under f (mx_work_dir s) then skip f
        else io_try (on_prov (mx_delete s (cf_id f) (cf_parent_id f))) (after f)))"
proof (rule keepsI)
  fix w :: "('p, 'z) world_scheme"
  assume w: "P (w_prov w)"
  obtain r p where r: "mx_file_info s i (w_prov w) = (r, p)" by fastforce
  have p: "P p" using careful_cloudD(1) [OF c] w r by (metis keepsD)
  let ?v = "w\<lparr>w_prov := p\<rparr>"
  show "P (w_prov (snd (io_try (on_prov (mx_file_info s i)) (\<lambda>r. case r of
      Inl e \<Rightarrow> gone e
    | Inr f \<Rightarrow> if \<not> under f (mx_work_dir s) then skip f
        else io_try (on_prov (mx_delete s (cf_id f) (cf_parent_id f))) (after f)) w)))"
  proof (cases r)
    case (Inl e)
    have "P (w_prov (snd (gone e ?v)))" using assms(2) [of e] p by (simp add: keeps_def)
    with Inl show ?thesis by (simp add: io_try_def on_prov_def r)
  next
    case (Inr f)
    show ?thesis
    proof (cases "under f (mx_work_dir s)")
      case False
      have "P (w_prov (snd (skip f ?v)))" using assms(3) [of f] p by (simp add: keeps_def)
      with Inr False show ?thesis by (simp add: io_try_def on_prov_def r)
    next
      case True
      obtain d q where d: "mx_delete s (cf_id f) (cf_parent_id f) p = (d, q)" by fastforce
      have "P q" using careful_cloudD(3) [OF c w r [unfolded Inr] True] d by simp
      then have "P (w_prov (snd (after f d (?v\<lparr>w_prov := q\<rparr>))))" using assms(4) [of f d] by (simp add: keeps_def)
      with Inr True d show ?thesis by (simp add: io_try_def on_prov_def r)
    qed
  qed
qed

lemma keeps_look:
  assumes "careful_cloud s P"
  shows "keeps (\<lambda>w. P (w_prov w)) (on_prov (mx_file_info s i))"
  by (rule keeps_prov_call [OF careful_cloudD(1) [OF assms]])

lemma task_source_careful:
  assumes "careful_cloud s P"
  shows "keeps (\<lambda>w. P (w_prov w)) (delete_task_source s i)"
  unfolding delete_task_source_def
  by (rule look_then [OF assms]) (auto intro!: keeps_prov keeps_bind split: sum.splits)

lemma clean_sources_careful:
  assumes c: "careful_cloud s P" and off: "mx_offline_tasks s = Some f"
  shows "keeps (\<lambda>w :: ('p, 'z) mat_world_scheme. P (w_prov w)) (clean_sources s f xs cl allow)"
proof (induction xs arbitrary: cl allow)
  case (Cons x xs)
  have up: "keeps (\<lambda>w :: ('p, 'z) mat_world_scheme. P (w_prov w)) (io_try (mark_source_deleted x) (\<lambda>m. case m of
      Inl _ \<Rightarrow> io_ret (False, False, cl)
    | Inr _ \<Rightarrow> io_bind (delete_recycle_bin_async s) (\<lambda>_. clean_sources s f xs (cl(k \<mapsto> False)) False)))" for cl k
    by (auto intro!: keeps_try keeps_bind keeps_prov Cons.IH split: sum.splits)
  show ?case
    unfolding clean_sources.simps Let_def
    by (auto intro!: keeps_if keeps_bind keeps_try up Cons.IH keeps_prov task_source_careful [OF c]
        keeps_prov_call [OF careful_cloudD(2) [OF c off]] split: option.splits sum.splits)
qed (simp add: keeps_def)

lemma task_sources_careful:
  assumes "careful_cloud s P"
  shows "keeps (\<lambda>w :: ('p, 'z) mat_world_scheme. P (w_prov w)) (cleanup_task_sources s xs cl)"
  unfolding cleanup_task_sources_def
  by (auto intro!: keeps_if keeps_ret clean_sources_careful [OF assms] split: option.splits)

lemma locations_careful:
  assumes "careful_cloud s P"
  shows "keeps (\<lambda>w :: ('p, 'z) mat_world_scheme. P (w_prov w)) (cleanup_locations s ls)"
proof (induction ls)
  case (Cons l ls)
  show ?case
    unfolding cleanup_locations.simps
    by (rule look_then [OF assms]) (auto intro!: keeps_prov keeps_bind keeps_if Cons.IH split: sum.splits)
qed (simp add: keeps_def)

lemma assets_careful:
  assumes "careful_cloud s P"
  shows "keeps (\<lambda>w :: ('p, 'z) mat_world_scheme. P (w_prov w)) (cleanup_assets s as cl)"
  by (induction as arbitrary: cl)
    (auto intro!: keeps_ret keeps_bind keeps_if task_sources_careful [OF assms] locations_careful [OF assms] simp: case_prod_beta)

lemma evict_careful:
  assumes "careful_cloud s P"
  shows "keeps (\<lambda>w :: ('p, 'z) mat_world_scheme. P (w_prov w)) (evict s cs)"
proof (induction cs)
  case (Cons c cs)
  have refresh: "keeps (\<lambda>w :: ('p, 'z) mat_world_scheme. P (w_prov w)) (io_try (on_prov (mx_file_info s (mx_work_dir s))) (\<lambda>i. case i of
      Inl e \<Rightarrow> if errors_is e ErrRemoteNotFound then io_ret () else io_fail (Wrap ''refresh size'' e)
    | Inr info \<Rightarrow> if cf_size_bytes info \<le> mx_cache_max s then io_ret () else evict s cs))"
    by (auto intro!: keeps_try keeps_look [OF assms] keeps_ret keeps_fail Cons.IH split: sum.splits)
  have one: "keeps (\<lambda>w :: ('p, 'z) mat_world_scheme. P (w_prov w)) (io_try (on_prov (mx_file_info s (ca_result_remote_id c))) (\<lambda>r. case r of
      Inl e \<Rightarrow>
        if errors_is e ErrRemoteNotFound
        then io_bind (on_db (mark_artifact_deleted (ca_id c))) (\<lambda>_. evict s cs)
        else evict s cs
    | Inr f \<Rightarrow>
        if \<not> under f (mx_work_dir s) then evict s cs
        else io_try (on_prov (mx_delete s (cf_id f) (cf_parent_id f))) (\<lambda>d. case d of
            Inl _ \<Rightarrow> evict s cs
          | Inr _ \<Rightarrow> io_bind (on_db (mark_artifact_deleted (ca_id c))) (\<lambda>_.
              io_bind (delete_recycle_bin_async s) (\<lambda>_.
              io_try (on_prov (mx_file_info s (mx_work_dir s))) (\<lambda>i. case i of
                  Inl e \<Rightarrow> if errors_is e ErrRemoteNotFound then io_ret () else io_fail (Wrap ''refresh size'' e)
                | Inr info \<Rightarrow> if cf_size_bytes info \<le> mx_cache_max s then io_ret () else evict s cs))))))"
    by (rule look_then [OF assms]) (auto intro!: keeps_prov keeps_bind keeps_if Cons.IH refresh split: sum.splits)
  show ?case
    unfolding evict.simps using one Cons.IH by (auto simp: keeps_def split: option.splits)
qed (simp add: keeps_def)

lemma cleanup_careful:
  assumes "careful_cloud s P"
  shows "keeps (\<lambda>w. P (w_prov w)) (mat_cleanup s retention)"
  unfolding mat_cleanup_def cleanup_over_capacity_def
  by (auto intro!: keeps_bind keeps_try keeps_prov keeps_if keeps_look [OF assms] assets_careful [OF assms] evict_careful [OF assms] split: sum.splits)

section \<open>Which results go first\<close>

definition ca_used_at :: "cache_artifact \<Rightarrow> timestamp" where
  "ca_used_at c = (case ca_last_accessed_at c of None \<Rightarrow> ca_created_at c | Some t \<Rightarrow> t)"

text \<open>The last answer the cloud gave: the work directory fits, or is gone.\<close>

definition work_dir_fits :: "('p, 'w) mat_service \<Rightarrow> 'p \<Rightarrow> bool" where
  "work_dir_fits s p \<longleftrightarrow> (\<exists>q r. mx_file_info s (mx_work_dir s) q = (r, p) \<and>
     (case r of Inl e \<Rightarrow> errors_is e ErrRemoteNotFound | Inr i \<Rightarrow> cf_size_bytes i \<le> mx_cache_max s))"

definition kept_but :: "int set \<Rightarrow> db \<Rightarrow> db \<Rightarrow> bool" where
  "kept_but ids d d' \<longleftrightarrow> (\<forall>a \<in> set (artifacts d). ar_id a \<notin> ids \<longrightarrow> a \<in> set (artifacts d'))"

lemma kept_but_refl: "kept_but ids d d"
  by (simp add: kept_but_def)

lemma kept_but_step: "kept_but ids d1 d2 \<Longrightarrow> kept_but {i} d d1 \<Longrightarrow> kept_but (insert i ids) d d2"
  by (auto simp: kept_but_def)

lemma kept_but_mono: "kept_but ids d d' \<Longrightarrow> ids \<subseteq> ids' \<Longrightarrow> kept_but ids' d d'"
  by (auto simp: kept_but_def)

lemma kept_but_mark: "kept_but {i} d (snd (mark_artifact_deleted i d))"
  by (simp add: kept_but_def mark_artifact_deleted_def delete_artifacts_def Let_def)

lemma async_run: "delete_recycle_bin_async s w = (Inr (), snd (delete_recycle_bin_async s w))"
  "w_db (snd (delete_recycle_bin_async s w)) = w_db w" "w_prov (snd (delete_recycle_bin_async s w)) = w_prov w"
  by (simp_all add: delete_recycle_bin_async_def split: option.splits)

lemma mark_run: "mark_artifact_deleted i d = (Inr (), snd (mark_artifact_deleted i d))"
  by (simp add: mark_artifact_deleted_def)

lemma evict_prefix:
  fixes w :: "('p, 'z) mat_world_scheme"
  assumes "evict s cs w = (Inr (), w')"
  shows "\<exists>gone kept. cs = gone @ kept \<and> kept_but (ca_id ` set gone) (w_db w) (w_db w') \<and>
    (kept = [] \<or> work_dir_fits s (w_prov w'))"
  using assms
proof (induction cs arbitrary: w)
  case Nil
  then show ?case by (simp add: kept_but_refl)
next
  case (Cons c cs)
  have extend: "\<exists>gone kept. c # cs = gone @ kept \<and> kept_but (ca_id ` set gone) (w_db w) (w_db w') \<and>
      (kept = [] \<or> work_dir_fits s (w_prov w'))"
    if go: "evict s cs v = (Inr (), w')" and v: "kept_but {ca_id c} (w_db w) (w_db v)" for v :: "('p, 'z) mat_world_scheme"
  proof -
    obtain gone kept where g: "cs = gone @ kept" "kept_but (ca_id ` set gone) (w_db v) (w_db w')"
        "kept = [] \<or> work_dir_fits s (w_prov w')"
      using Cons.IH [OF go] by blast
    have "kept_but (ca_id ` set (c # gone)) (w_db w) (w_db w')"
      using kept_but_step [OF g(2) v] by simp
    with g show ?thesis by (intro exI [of _ "c # gone"] exI [of _ kept]) simp
  qed
  have same: "kept_but {ca_id c} (w_db w) (w_db v)" if "w_db v = w_db w" for v :: "('p, 'z) mat_world_scheme"
    using that by (simp add: kept_but_def)
  have ctx: "w_ctx w = None" using Cons.prems by (cases "w_ctx w") simp_all
  show ?case
  proof (cases "trim_space (ca_result_remote_id c) = ''''")
    case True
    with Cons.prems ctx have "evict s cs w = (Inr (), w')" by simp
    with extend same show ?thesis by blast
  next
    case False
    obtain r w1 where r: "on_prov (mx_file_info s (ca_result_remote_id c)) w = (r, w1)" by fastforce
    have w1: "w_db w1 = w_db w" using on_prov_frame(2) [of "mx_file_info s (ca_result_remote_id c)" w] unfolding r by simp
    let ?m = "w1\<lparr>w_db := snd (mark_artifact_deleted (ca_id c) (w_db w1))\<rparr>"
    have m: "on_db (mark_artifact_deleted (ca_id c)) w1 = (Inr (), ?m)"
      by (subst on_db_def) (simp add: mark_run [of "ca_id c" "w_db w1", THEN arg_cong] mark_artifact_deleted_def)
    have keptm: "kept_but {ca_id c} (w_db w) (w_db ?m)" using kept_but_mark [of "ca_id c" "w_db w"] w1 by simp
    show ?thesis
    proof (cases r)
      case (Inl e)
      show ?thesis
      proof (cases "errors_is e ErrRemoteNotFound")
        case True
        with Cons.prems False ctx Inl r m have "evict s cs ?m = (Inr (), w')"
          by (simp add: io_try_def io_bind_def)
        with extend keptm show ?thesis by blast
      next
        case no: False
        with Cons.prems False ctx Inl r have "evict s cs w1 = (Inr (), w')" by (simp add: io_try_def)
        with extend same w1 show ?thesis by blast
      qed
    next
      case (Inr f)
      show ?thesis
      proof (cases "under f (mx_work_dir s)")
        case out: False
        with Cons.prems False ctx Inr r have "evict s cs w1 = (Inr (), w')" by (simp add: io_try_def)
        with extend same w1 show ?thesis by blast
      next
        case True
        obtain d w2 where d: "on_prov (mx_delete s (cf_id f) (cf_parent_id f)) w1 = (d, w2)" by fastforce
        have w2: "w_db w2 = w_db w" using on_prov_frame(2) [of "mx_delete s (cf_id f) (cf_parent_id f)" w1] w1 unfolding d by simp
        show ?thesis
        proof (cases d)
          case (Inl e)
          with Cons.prems False ctx Inr r True d have "evict s cs w2 = (Inr (), w')" by (simp add: io_try_def)
          with extend same w2 show ?thesis by blast
        next
          case del: (Inr u)
          let ?m2 = "w2\<lparr>w_db := snd (mark_artifact_deleted (ca_id c) (w_db w2))\<rparr>"
          have m2: "on_db (mark_artifact_deleted (ca_id c)) w2 = (Inr (), ?m2)"
            by (simp add: on_db_def mark_artifact_deleted_def)
          define v where "v = snd (delete_recycle_bin_async s ?m2)"
          have v: "delete_recycle_bin_async s ?m2 = (Inr (), v)" "w_db v = w_db ?m2"
            using async_run [of s ?m2] by (simp_all add: v_def)
          obtain i w3 where i: "on_prov (mx_file_info s (mx_work_dir s)) v = (i, w3)" by fastforce
          have w3: "w_db w3 = w_db ?m2"
            using on_prov_frame(2) [of "mx_file_info s (mx_work_dir s)" v] v(2) unfolding i by simp
          have kept3: "kept_but {ca_id c} (w_db w) (w_db w3)"
            using kept_but_mark [of "ca_id c" "w_db w"] w2 w3 by simp
          have rest: "(case i of
              Inl e \<Rightarrow> if errors_is e ErrRemoteNotFound then io_ret () else io_fail (Wrap ''refresh size'' e)
            | Inr info \<Rightarrow> if cf_size_bytes info \<le> mx_cache_max s then io_ret () else evict s cs) w3 = (Inr (), w')"
            using Cons.prems False ctx Inr r True d del m2 v(1) i by (simp add: io_try_def io_bind_def)
          have "evict s cs w3 = (Inr (), w') \<or> w' = w3 \<and> work_dir_fits s (w_prov w3)"
          proof -
            obtain q where q: "mx_file_info s (mx_work_dir s) (w_prov v) = (i, q)" "w_prov w3 = q"
              using i by (auto simp: on_prov_def split: prod.splits)
            then have "(case i of Inl e \<Rightarrow> errors_is e ErrRemoteNotFound | Inr x \<Rightarrow> cf_size_bytes x \<le> mx_cache_max s) \<Longrightarrow>
                work_dir_fits s (w_prov w3)" unfolding work_dir_fits_def by blast
            with rest show ?thesis by (auto split: sum.splits if_splits)
          qed
          then show ?thesis
          proof
            assume "evict s cs w3 = (Inr (), w')"
            with extend kept3 show ?thesis by blast
          next
            assume "w' = w3 \<and> work_dir_fits s (w_prov w3)"
            with kept3 show ?thesis by (intro exI [of _ "[c]"] exI [of _ cs]) simp
          qed
        qed
      qed
    qed
  qed
qed

lemma parse_time_mono: "x \<le> y \<Longrightarrow> parse_time x \<le> parse_time y"
  by (simp add: parse_time_def)

lemma cache_artifacts_sorted:
  "managed_cache_artifacts d = (Inr cs, d') \<Longrightarrow> d' = d \<and> sorted (map ca_used_at cs)"
proof -
  assume "managed_cache_artifacts d = (Inr cs, d')"
  then obtain xs where d: "d' = d" and cs: "cs = map (\<lambda>a. \<lparr>ca_id = ar_id a, ca_result_remote_id = ar_result_remote_id a,
      ca_last_accessed_at = map_option parse_time (ar_last_accessed_at a),
      ca_created_at = parse_time (ar_created_at a)\<rparr>) (sort_key artifact_used_at xs)"
    unfolding managed_cache_artifacts_def by blast
  have "ca_used_at \<circ> (\<lambda>a. \<lparr>ca_id = ar_id a, ca_result_remote_id = ar_result_remote_id a,
      ca_last_accessed_at = map_option parse_time (ar_last_accessed_at a),
      ca_created_at = parse_time (ar_created_at a)\<rparr>) = parse_time \<circ> artifact_used_at"
    by (rule ext) (simp add: ca_used_at_def artifact_used_at_def split: option.splits)
  then have "map ca_used_at cs = map parse_time (map artifact_used_at (sort_key artifact_used_at xs))"
    by (simp add: cs)
  moreover have "sorted (map artifact_used_at (sort_key artifact_used_at xs))" by simp
  ultimately have "sorted (map ca_used_at cs)"
    by (metis (no_types, lifting) parse_time_mono sorted_map sorted_wrt_mono_rel)
  with d show ?thesis by blast
qed

section \<open>Properties of the cleanup\<close>

text \<open>C10. The cleanup never deletes anything outside the work directory: whatever predicate of the cloud holds, is kept by the
  readings and the removal of offline tasks, and is kept by each deletion of a file that the cloud has just reported
  below the work directory, still holds after the cleanup. So no other file is ever passed to the deletion.\<close>

theorem cleanup_stays_in_work_dir:
  fixes w :: "('p, 'z) mat_world_scheme"
  assumes "careful_cloud s P" and "P (w_prov w)"
  shows "P (w_prov (snd (mat_cleanup s retention w)))"
  using cleanup_careful [OF assms(1)] assms(2) unfolding keeps_def by blast


text \<open>What was just used is not expired: after a content is touched at a time that is not before the cutoff, none of the
  expired files the cleanup reads belongs to an active artifact that holds a live copy of the content.\<close>

lemma touched_asset_not_expired:
  assumes "distinct (map ar_id (artifacts d))" and "a \<in> set (artifacts d)" "ar_state a = Active"
    and "l \<in> set (locations d)" "lo_artifact_id l = Some (ar_id a)" "lo_content_id l = c" "lo_deleted_at l = None"
    and "cutoff \<le> t" and touch: "touch_asset t c d = (r, d')"
    and expired: "expired_managed_locations cutoff d' = (Inr as, d'')"
  shows "ar_id a \<notin> ms_artifact_id ` (\<Union>x \<in> set as. set (as_sources x))"
proof
  let ?used = "List.map_filter lo_artifact_id (filter (\<lambda>l. lo_content_id l = c \<and> lo_deleted_at l = None) (locations d))"
  have used: "ar_id a \<in> set ?used" using assms(4-7) by (force simp: List.map_filter_def)
  assume "ar_id a \<in> ms_artifact_id ` (\<Union>x \<in> set as. set (as_sources x))"
  then obtain b where b: "b \<in> set (artifacts d')" "ar_id b = ar_id a" "artifact_used_at b < format_time cutoff"
    using expired by (auto simp: expired_managed_locations_def cache_rows_def expired_asset_def source_of_torrent_def)
  from touch obtain f where f: "f = (\<lambda>a. a\<lparr>ar_last_accessed_at := Some (format_time t), ar_updated_at := format_time t\<rparr>)"
    and d': "artifacts d' = update_rows (\<lambda>a. ar_state a = Active \<and> ar_id a \<in> set ?used) f (artifacts d)"
    by (auto simp: touch_asset_def tx_def Let_def)
  from b(1) obtain a0 where a0: "a0 \<in> set (artifacts d)"
      "b = (if ar_state a0 = Active \<and> ar_id a0 \<in> set ?used then f a0 else a0)"
    by (auto simp: d' set_update_rows)
  have "ar_id a0 = ar_id a" using a0(2) b(2) by (simp add: f split: if_splits)
  then have "a0 = a" using assms(1,2) a0(1) by (metis inj_on_def distinct_map)
  with a0(2) assms(3) used have "artifact_used_at b = format_time t" by (simp add: f artifact_used_at_def)
  with b(3) format_time_mono [OF assms(8)] show False by simp
qed

end
