(* ===== verification/Materialize_Cache.thy ===== *)
theory Materialize_Cache
  imports Materialize_Facts Task_Facts
begin

text \<open>
  The resolution cache and its flights. The invariant says what an entry and a flight are about; it holds
  through every sequence of requests, flights and cleanups, also while restores run the ingest service, so a
  request is always answered with the content it asked for and a key never has two flights.
\<close>

section \<open>The invariant\<close>

type_synonym cache_view = "(string \<Rightarrow> cache_entry option) \<times> (string \<Rightarrow> nat option) \<times> flight list"

definition mw_view :: "('p, 'z) mat_world_scheme \<Rightarrow> cache_view" where
  "mw_view w = (mw_entries w, mw_flights w, mw_results w)"

definition resolution_of :: "string \<Rightarrow> resolution \<Rightarrow> bool" where
  "resolution_of key r \<longleftrightarrow> as_sha1 (rs_asset r) = key"

definition pending :: "flight \<Rightarrow> bool" where
  "pending f \<longleftrightarrow> fl_result f = None"

definition entries_ok :: "(string \<Rightarrow> cache_entry option) \<Rightarrow> bool" where
  "entries_ok es \<longleftrightarrow> (\<forall>k e. es k = Some e \<longrightarrow> resolution_of k (ce_resolution e))"

definition flight_ok :: "flight \<Rightarrow> bool" where
  "flight_ok f \<longleftrightarrow> to_lower (fl_sha1 f) = fl_key f \<and> (\<forall>r. fl_result f = Some (Inr r) \<longrightarrow> resolution_of (fl_key f) r)"

text \<open>The map of the running flights names exactly the flights that have no result yet.\<close>

definition flights_ok :: "(string \<Rightarrow> nat option) \<Rightarrow> flight list \<Rightarrow> bool" where
  "flights_ok m fs \<longleftrightarrow> list_all flight_ok fs \<and>
     (\<forall>k i. m k = Some i \<longleftrightarrow> i < length fs \<and> fl_key (fs ! i) = k \<and> pending (fs ! i))"

definition cache_ok :: "cache_view \<Rightarrow> bool" where
  "cache_ok v \<longleftrightarrow> entries_ok (fst v) \<and> flights_ok (fst (snd v)) (snd (snd v))"

definition rand_ok :: "('p, 'z) mat_world_scheme \<Rightarrow> bool" where
  "rand_ok w \<longleftrightarrow> Some '''' \<notin> set (mw_rand w)"

definition mat_inv :: "cache_view \<Rightarrow> ('p, 'z) mat_world_scheme \<Rightarrow> bool" where
  "mat_inv v w \<longleftrightarrow> jobs_ok (w_db w) \<and> rand_ok w \<and> mw_view w = v"

definition mat_ok :: "('p, 'z) mat_world_scheme \<Rightarrow> bool" where
  "mat_ok w \<longleftrightarrow> jobs_ok (w_db w) \<and> rand_ok w \<and> cache_ok (mw_view w)"

lemma mat_ok_inv: "mat_ok w \<longleftrightarrow> (\<exists>v. cache_ok v \<and> mat_inv v w)"
  unfolding mat_ok_def mat_inv_def by blast

lemma keeps_mat_ok: "(\<And>v. keeps (mat_inv v) m) \<Longrightarrow> keeps mat_ok m"
  unfolding mat_ok_inv [abs_def] keeps_def by blast

lemma single_flight:
  assumes "flights_ok m fs" "i < length fs" "j < length fs" "fl_key (fs ! i) = fl_key (fs ! j)" "pending (fs ! i)" "pending (fs ! j)"
  shows "i = j"
proof -
  have "m (fl_key (fs ! i)) = Some i" "m (fl_key (fs ! i)) = Some j"
    using assms by (simp_all add: flights_ok_def)
  then show ?thesis by simp
qed

section \<open>What leaves the cache alone\<close>

lemma more_view:
  assumes "world.more w' = world.more w"
  shows "mw_view w' = mw_view w" "mw_rand w' = mw_rand w"
  using assms by (cases w; cases w'; simp add: mw_view_def)+

lemma mat_inv_more: "world.more w' = world.more w \<Longrightarrow> jobs_ok (w_db w') \<Longrightarrow> mat_inv v w \<Longrightarrow> mat_inv v w'"
  using more_view [of w' w] by (simp add: mat_inv_def rand_ok_def)

lemma keeps_inv_free:
  fixes m :: "(('p, 'z) mat_world_scheme, 'a) io"
  assumes "db_free m"
  shows "keeps (mat_inv v) m"
proof (rule keepsI)
  fix w :: "('p, 'z) mat_world_scheme"
  assume w: "mat_inv v w"
  have "world.more (snd (m w)) = world.more w" "w_db (snd (m w)) = w_db w" using assms by (simp_all add: db_free_def)
  with w show "mat_inv v (snd (m w))" using mat_inv_more [of "snd (m w)" w v] by (simp add: mat_inv_def)
qed

lemma keeps_inv_db:
  assumes "keeps jobs_ok m"
  shows "keeps (mat_inv v) (on_db m :: (('p, 'z) mat_world_scheme, 'a) io)"
proof (rule keepsI)
  fix w :: "('p, 'z) mat_world_scheme"
  assume w: "mat_inv v w"
  with assms have "jobs_ok (w_db (snd (on_db m w)))" by (simp add: keeps_def mat_inv_def)
  with w show "mat_inv v (snd (on_db m w))" using mat_inv_more [OF more_frame(2)] by blast
qed

lemma keeps_jobs_same: "(\<And>d. same_tasks d (snd (m d))) \<Longrightarrow> keeps jobs_ok m"
  using same_tasks_ok by (fastforce simp: keeps_def)

lemma same_simps: "same_tasks d (d\<lparr>locations := ls\<rparr>)" "same_tasks d (d\<lparr>contents := cs, artifacts := as\<rparr>)"
  "same_tasks d d" "same_tasks d (delete_artifacts P d) "
  by (simp_all add: same_tasks_def delete_artifacts_def Let_def)

lemma same_trans: "same_tasks a b \<Longrightarrow> same_tasks b c \<Longrightarrow> same_tasks a c"
  by (simp add: same_tasks_def)

lemma same_delete: "same_tasks d (delete_locations P now d)" "same_tasks d (delete_artifacts Q (delete_locations P now d))"
  by (simp_all add: delete_locations_def same_tasks_def delete_artifacts_def Let_def)

lemma snd_tx_inr: "snd (tx (\<lambda>d. (Inr x, f d)) d) = f d"
  by (simp add: tx_def)

lemma save_location_same: "same_tasks d (snd (save_location t c l d))"
proof -
  have row: "same_tasks d (snd (save_location_row a d))" for a d
    by (simp add: save_location_row_def same_simps)
  show ?thesis
    using same_trans [OF same_delete(1) row] row
    by (auto simp: save_location_def tx_def Let_def same_simps split: prod.splits sum.splits option.splits)
      (metis snd_conv)+
qed

lemma materialize_writes_same:
  "same_tasks d (snd (mark_location_deleted t i d))" "same_tasks d (snd (mark_source_locations_deleted t h d))"
  "same_tasks d (snd (touch_asset t c d))" "same_tasks d (snd (mark_artifact_deleted i d))"
  by (simp_all add: mark_location_deleted_def mark_source_locations_deleted_def touch_asset_def tx_def Let_def
      same_simps same_delete mark_artifact_deleted_def)

lemma materialize_reads_same:
  "snd (asset_by_sha1 h d) = d" "snd (managed_cache_artifacts d) = d" "snd (expired_managed_locations t d) = d"
  by (simp_all add: asset_by_sha1_def managed_cache_artifacts_def expired_managed_locations_def)

lemmas keeps_inv_writes = materialize_writes_same [THEN keeps_jobs_same, THEN keeps_inv_db]
  save_location_same [THEN keeps_jobs_same, THEN keeps_inv_db]
  materialize_reads_same [THEN keeps_jobs_read, THEN keeps_inv_db]

lemma keeps_inv_timed: "(\<And>t. keeps (mat_inv v) (on_db (f t) :: (('p, 'z) mat_world_scheme, 'a) io)) \<Longrightarrow>
    keeps (mat_inv v) (timed f :: (('p, 'z) mat_world_scheme, 'a) io)"
  unfolding timed_def by (rule keeps_bind [OF keeps_inv_free [OF db_free_intros(5)]])

lemma keeps_inv_flags: "keeps (mat_inv v) (delete_recycle_bin_async s)" "keeps (mat_inv v) recycle_take"
  "keeps (mat_inv v) recycle_end"
  by (auto simp: keeps_def delete_recycle_bin_async_def recycle_take_def recycle_end_def mat_inv_def mw_view_def rand_ok_def
      split: option.splits)

lemma mark_source_inv: "keeps (mat_inv v) (mark_source_deleted x)"
  unfolding mark_source_deleted_def by (intro keeps_if keeps_inv_timed keeps_inv_writes)

lemmas inv_rules = keeps_ret keeps_fail keeps_of keeps_bind keeps_try keeps_if keeps_inv_flags keeps_inv_writes
  mark_source_inv db_free_intros [THEN keeps_inv_free] keeps_inv_timed

section \<open>The cleanup\<close>

lemma delete_task_source_inv: "keeps (mat_inv v) (delete_task_source s i)"
  unfolding delete_task_source_def by (auto intro!: inv_rules split: sum.splits)

lemma clean_sources_inv: "keeps (mat_inv v) (clean_sources s f xs cl allow :: (('p, 'z) mat_world_scheme, _) io)"
proof (induction xs arbitrary: cl allow)
  case (Cons x xs)
  have up: "keeps (mat_inv v) (io_try (mark_source_deleted x) (\<lambda>m. case m of
      Inl _ \<Rightarrow> io_ret (False, False, cl)
    | Inr _ \<Rightarrow> io_bind (delete_recycle_bin_async s) (\<lambda>_ :: unit. clean_sources s f xs (cl(k \<mapsto> False)) False))
    :: (('p, 'z) mat_world_scheme, _) io)" for cl k
    by (auto intro!: inv_rules Cons.IH split: sum.splits)
  show ?case
    unfolding clean_sources.simps Let_def
    by (auto intro!: inv_rules up Cons.IH delete_task_source_inv split: option.splits sum.splits)
qed (simp add: keeps_def)

lemma cleanup_locations_inv: "keeps (mat_inv v) (cleanup_locations s ls :: (('p, 'z) mat_world_scheme, unit) io)"
proof (induction ls)
  case (Cons l ls)
  show ?case
    unfolding cleanup_locations.simps by (auto intro!: inv_rules Cons.IH split: sum.splits)
qed (simp add: keeps_def)

lemma cleanup_assets_inv: "keeps (mat_inv v) (cleanup_assets s as cl :: (('p, 'z) mat_world_scheme, unit) io)"
proof (induction as arbitrary: cl)
  case (Cons a as)
  have "keeps (mat_inv v) (cleanup_task_sources s (as_sources a) cl :: (('p, 'z) mat_world_scheme, _) io)" for cl
    unfolding cleanup_task_sources_def by (auto intro!: inv_rules clean_sources_inv split: option.splits)
  with Cons show ?case by (auto intro!: keeps_bind keeps_if cleanup_locations_inv simp: case_prod_beta)
qed (simp add: keeps_def)

lemma keeps_ctx: "keeps P m \<Longrightarrow> keeps P (\<lambda>w. case w_ctx w of Some e \<Rightarrow> (Inl e, w) | None \<Rightarrow> m w)"
  by (simp add: keeps_def split: option.splits)

lemma if_app: "(if b then m else n) w = (if b then m w else n w)"
  by simp

lemma evict_inv: "keeps (mat_inv v) (evict s cs :: (('p, 'z) mat_world_scheme, unit) io)"
proof (induction cs)
  case (Cons c cs)
  show ?case
    unfolding evict.simps if_app [symmetric]
    by (rule keeps_ctx) (auto intro!: inv_rules Cons.IH split: sum.splits)
qed (simp add: keeps_def)

lemma cleanup_inv: "keeps (mat_inv v) (mat_cleanup s retention)"
  unfolding mat_cleanup_def cleanup_over_capacity_def
  by (auto intro!: inv_rules cleanup_assets_inv evict_inv split: sum.splits)

lemma recycle_turn_inv: "keeps (mat_inv v) (recycle_turn s :: (('p, 'z) mat_world_scheme, unit) io)"
proof (cases "mx_recycle_bin s")
  case (Some c)
  have "keeps (mat_inv v) (io_bind recycle_take (\<lambda>_. io_try (on_prov c) (\<lambda>_. recycle_end)) ::
      (('p, 'z) mat_world_scheme, unit) io)"
    by (intro inv_rules)
  with Some show ?thesis by (simp add: recycle_turn_def keeps_def)
qed (simp add: recycle_turn_def keeps_def)

section \<open>Restoring\<close>

lemma keeps_bind_when:
  assumes "keeps P m" and "\<And>w y w'. P w \<Longrightarrow> m w = (Inr y, w') \<Longrightarrow> Q y" and "\<And>y. Q y \<Longrightarrow> keeps P (f y)"
  shows "keeps P (io_bind m f)"
proof (rule keepsI)
  fix w
  assume w: "P w"
  obtain r w1 where r: "m w = (r, w1)" by fastforce
  with assms(1) w have "P w1" by (auto intro: keepsD)
  with r assms(2) [OF w] assms(3) show "P (snd (io_bind m f w))"
    by (cases r) (auto simp: io_bind_def keeps_def)
qed

lemma hex_encode_nonempty: "bs \<noteq> '''' \<Longrightarrow> hex_encode bs \<noteq> ''''"
  by (metis length_hex_encode list.size(3) mult_eq_0_iff length_0_conv zero_neq_numeral)

lemma mat_random_inv: "keeps (mat_inv v) mat_random"
  by (auto simp: keeps_def mat_random_def mat_inv_def rand_ok_def mw_view_def split: list.splits)

lemma restore_job_inv: "keeps (mat_inv v) (restore_job magnet sha1)"
  unfolding restore_job_def Let_def
  by (auto intro!: inv_rules mat_random_inv keeps_inv_db [OF keeps_jobs_read [OF get_job_same]] split: sum.splits)

lemma on_db_get: "on_db (get_job g) w = (r, w1) \<Longrightarrow> w1 = w"
  using get_job_same [of g "w_db w"] by (auto simp: on_db_def split: prod.splits)

lemma read_now_rand: "read_now w = (r, w1) \<Longrightarrow> mw_rand w1 = mw_rand w"
  using more_view(2) [OF more_frame(4), of w] by (metis snd_conv)

lemma restore_job_gid:
  assumes "mat_inv v w" and run: "restore_job magnet sha1 w = (Inr j, w')"
  shows "j_gid j \<noteq> ''''"
proof -
  obtain now w1 where now: "read_now w = (Inr now, w1)" using read_now_total by blast
  have rnd: "rand_ok w1" using assms(1) read_now_rand [OF now] by (simp add: mat_inv_def rand_ok_def)
  show ?thesis
  proof (cases "new_job_for_source now magnet source_restore")
    case (Inl e)
    with run now show ?thesis by (simp add: restore_job_def io_bind_def)
  next
    case (Inr j0)
    have g0: "j_gid j0 \<noteq> ''''" using new_job_fields(2,3) [OF Inr] by (auto simp: wf_info_hash_def)
    let ?j = "j0\<lparr>j_target_sha1 := to_lower sha1\<rparr>"
    obtain r w2 where r: "on_db (get_job (j_gid j0)) w1 = (r, w2)" by fastforce
    with run now Inr have "(case r of
        Inr _ \<Rightarrow> io_bind mat_random (\<lambda>rnd. io_of (assign_new_gid rnd ?j))
      | Inl e \<Rightarrow> if errors_is e ErrJobNotFound then io_ret ?j else io_fail e) w1 = (Inr j, w')"
      using on_db_get [OF r] by (cases r) (simp_all add: restore_job_def io_bind_def io_try_def Let_def)
    with g0 rnd show ?thesis
      by (auto simp: io_bind_def mat_random_def assign_new_gid_def new_gid_def rand_ok_def hex_encode_nonempty
          split: sum.splits if_splits list.splits option.splits)
  qed
qed

lemma restore_content_inv:
  assumes "gid \<noteq> ''''"
  shows "keeps (mat_inv v) (restore_content sf fuel s gid magnet sha1 :: (('p, 'z) mat_world_scheme, scan_file) io)"
proof -
  have "keeps (mat_inv v) (resolve sf fuel s gid magnet prep pub target force :: (('p, 'z) mat_world_scheme, scan_result) io)"
    for prep pub target force
  proof (rule keepsI)
    fix w :: "('p, 'z) mat_world_scheme"
    assume w: "mat_inv v w"
    then have ok: "jobs_ok (w_db w)" by (simp add: mat_inv_def)
    show "mat_inv v (snd (resolve sf fuel s gid magnet prep pub target force w))"
      using resolve_keeps [OF assms ok] by (intro mat_inv_more [OF _ _ w]) blast+
  qed
  then show ?thesis
    unfolding restore_content_def by (auto intro!: keeps_bind keeps_ret keeps_fail split: option.splits)
qed

lemma restorer_inv: "keeps (mat_inv v) (restorer sf fuel s finished magnet sha1)"
  unfolding restorer_def
proof (rule keeps_bind_when [where Q = "\<lambda>j. j_gid j \<noteq> ''''"])
  fix j :: job
  assume j: "j_gid j \<noteq> ''''"
  show "keeps (mat_inv v) (io_bind (on_db (create_job j)) (\<lambda>_.
     io_bind read_now (\<lambda>started.
     io_bind (run_job_with_resolver (\<lambda>j. on_db (update_job j)) started finished False j
         (restore_content sf fuel s (j_gid j) magnet sha1)) (\<lambda>f.
       if \<not> equal_fold (f_sha1 f) sha1 then io_fail (Msg ''restored file has another SHA1'')
       else io_ret (restored_file f)))) :: (('a, 'b) mat_world_scheme, cloud_file) io)"
    by (intro inv_rules keeps_run_job keeps_inv_db job_writes restore_content_inv j)
qed (use restore_job_inv restore_job_gid in \<open>blast+\<close>)

definition restorer_ok :: "('p, ('p, 'z) mat_world_scheme) mat_service \<Rightarrow> bool" where
  "restorer_ok s \<longleftrightarrow> (\<forall>rest. mx_restorer s = Some rest \<longrightarrow> (\<forall>v m h. keeps (mat_inv v) (rest m h)))"

lemma restorer_okD: "restorer_ok s \<Longrightarrow> mx_restorer s = Some rest \<Longrightarrow> keeps (mat_inv v) (rest m h)"
  unfolding restorer_ok_def by blast

lemma restorer_ok_real: "mx_restorer s \<in> {None, Some (restorer sf fuel sv finished)} \<Longrightarrow> restorer_ok s"
  using restorer_inv by (auto simp: restorer_ok_def)

section \<open>Resolving\<close>

lemma find_existing_inv: "keeps (mat_inv v) (find_existing s sha1 ls :: (('p, 'z) mat_world_scheme, _) io)"
proof (induction ls)
  case (Cons l ls)
  show ?case
    unfolding find_existing.simps by (auto intro!: inv_rules Cons.IH split: sum.splits)
qed (simp add: keeps_def)

lemma restore_from_inv:
  assumes "\<And>m h. keeps (mat_inv v) (rest m h :: (('p, 'z) mat_world_scheme, cloud_file) io)"
  shows "keeps (mat_inv v) (restore_from rest sha1 xs es)"
proof (induction xs arbitrary: es)
  case (Cons x xs)
  show ?case
    unfolding restore_from.simps
    by (auto intro!: keeps_try keeps_ret keeps_ctx assms Cons.IH split: sum.splits)
qed (simp add: keeps_def)

lemma restore_asset_inv: "restorer_ok s \<Longrightarrow> keeps (mat_inv v) (restore_asset s a preferred)"
  unfolding restore_asset_def
  by (auto intro!: inv_rules restore_from_inv intro: restorer_okD split: option.splits)

text \<open>The entries may change, but each stays one of its key; the flights stay.\<close>

definition flights_kept :: "(string \<Rightarrow> nat option) \<times> flight list \<Rightarrow> ('p, 'z) mat_world_scheme \<Rightarrow> bool" where
  "flights_kept x w \<longleftrightarrow> (\<exists>es. entries_ok es \<and> mat_inv (es, x) w)"

lemma keeps_flights: "(\<And>v. keeps (mat_inv v) m) \<Longrightarrow> keeps (flights_kept x) m"
  unfolding flights_kept_def [abs_def] keeps_def by blast

lemma cache_resolution_kept:
  assumes "resolution_of key r"
  shows "keeps (flights_kept x) (cache_resolution s key r :: (('p, 'z) mat_world_scheme, unit) io)"
proof -
  have "keeps (flights_kept x) (\<lambda>w :: ('p, 'z) mat_world_scheme. (Inr (), w\<lparr>mw_entries := (\<lambda>k.
        if k = key then Some \<lparr>ce_resolution = r, ce_last_access = now\<rparr>
        else case mw_entries w k of
          None \<Rightarrow> None
        | Some e \<Rightarrow> if now - ce_last_access e \<ge> mx_cache_ttl s then None else Some e)\<rparr>))" for now
  proof (rule keepsI)
    fix w :: "('p, 'z) mat_world_scheme"
    let ?es = "\<lambda>k. if k = key then Some \<lparr>ce_resolution = r, ce_last_access = now\<rparr>
        else case mw_entries w k of
          None \<Rightarrow> None
        | Some e \<Rightarrow> if now - ce_last_access e \<ge> mx_cache_ttl s then None else Some e"
    assume "flights_kept x w"
    then have "entries_ok (mw_entries w)" "jobs_ok (w_db w)" "rand_ok w" "(mw_flights w, mw_results w) = x"
      by (auto simp: flights_kept_def mat_inv_def mw_view_def)
    moreover from this(1) assms have "entries_ok ?es" by (auto simp: entries_ok_def split: option.splits if_splits)
    ultimately have "entries_ok ?es \<and> mat_inv (?es, x) (w\<lparr>mw_entries := ?es\<rparr>)"
      by (auto simp: mat_inv_def mw_view_def rand_ok_def)
    then show "flights_kept x (snd (Inr (), w\<lparr>mw_entries := ?es\<rparr>))"
      unfolding flights_kept_def by auto
  qed
  then show ?thesis
    unfolding cache_resolution_def
    by (auto intro!: keeps_bind keeps_ret keeps_flights [OF keeps_inv_free [OF db_free_intros(5)]])
qed

lemma asset_by_sha1_key: "on_db (asset_by_sha1 h) w = (Inr a, w') \<Longrightarrow> as_sha1 a = to_lower h"
  by (auto simp: on_db_def asset_by_sha1_def asset_of_row_def content_by_sha1_def find_Some_iff split: option.splits)

lemma mat_resolve_kept:
  assumes "restorer_ok s" and "key = to_lower sha1"
  shows "keeps (flights_kept x) (mat_resolve s key sha1 preferred)"
  unfolding mat_resolve_def
proof (rule keeps_bind_result [where Q = "\<lambda>a. as_sha1 a = key"])
  fix a :: asset
  assume a: "as_sha1 a = key"
  show "keeps (flights_kept x) (io_bind (find_existing s (as_sha1 a) (as_locations a)) (\<lambda>x.
     io_bind (case x of Some found \<Rightarrow> io_ret found | None \<Rightarrow> restore_asset s a preferred) (\<lambda>(f, own).
       let loc = resolved_location f own; r = \<lparr>rs_asset = a, rs_location = loc\<rparr>
       in io_bind (timed (\<lambda>t. save_location t (as_id a) loc)) (\<lambda>_.
          io_bind (timed (\<lambda>t. touch_asset t (as_id a))) (\<lambda>_.
          io_bind (cache_resolution s key r) (\<lambda>_. io_ret r))))))"
    unfolding Let_def
    by (auto intro!: keeps_bind cache_resolution_kept keeps_ret keeps_flights [OF find_existing_inv]
        keeps_flights [OF restore_asset_inv [OF assms(1)]] keeps_flights [OF keeps_inv_timed [OF keeps_inv_writes(3)]]
        keeps_flights [OF keeps_inv_timed [OF keeps_inv_writes(5)]]
        simp: resolution_of_def a split: option.splits prod.splits)
qed (rule keeps_flights [OF keeps_inv_writes(6)], use asset_by_sha1_key assms(2) in blast)

lemma mat_resolve_result:
  "mat_resolve s key sha1 preferred w = (Inr r, w') \<Longrightarrow> resolution_of (to_lower sha1) r"
  by (auto simp: mat_resolve_def io_bind_eq_Inr Let_def resolution_of_def dest!: asset_by_sha1_key split: prod.splits)

section \<open>Flights\<close>

lemma mat_ok_flights: "mat_ok w \<longleftrightarrow> (\<exists>m fs. flights_ok m fs \<and> flights_kept (m, fs) w)"
  unfolding mat_ok_inv flights_kept_def cache_ok_def by force

lemma flights_kept_view: "flights_kept (m, fs) w \<Longrightarrow> mw_flights w = m \<and> mw_results w = fs \<and> entries_ok (mw_entries w)"
  by (auto simp: flights_kept_def mat_inv_def mw_view_def)

text \<open>Giving the flights another value, with the rest of the world as it is.\<close>

lemma flights_kept_set:
  assumes "flights_kept x w" "w_db w' = w_db w" "mw_rand w' = mw_rand w" "mw_entries w' = mw_entries w"
  shows "flights_kept (mw_flights w', mw_results w') w'"
  using assms by (auto simp: flights_kept_def mat_inv_def mw_view_def rand_ok_def)

lemma lookup_entry_kept:
  fixes w :: "('p, 'z) mat_world_scheme"
  assumes "flights_kept x w" and run: "lookup_entry s key w = (r, w')"
  shows "flights_kept x w' \<and> (\<exists>y. r = Inr y \<and> (\<forall>z. y = Some z \<longrightarrow> resolution_of key z))"
proof -
  obtain now w1 where now: "read_now w = (Inr now, w1)" using read_now_total by blast
  have "keeps (flights_kept x) (read_now :: (('p, 'z) mat_world_scheme, timestamp) io)"
    by (rule keeps_flights [OF keeps_inv_free [OF db_free_intros(5)]])
  with assms(1) now have w1: "flights_kept x w1" by (metis keepsD)
  then have es: "entries_ok (mw_entries w1)" by (cases x) (simp add: flights_kept_view)
  have upd: "flights_kept x (w1\<lparr>mw_entries := es'\<rparr>)" if "entries_ok es'" for es'
    using w1 that by (auto simp: flights_kept_def mat_inv_def mw_view_def rand_ok_def)
  have "entries_ok ((mw_entries w1)(key := None))" using es by (auto simp: entries_ok_def)
  moreover have "entries_ok ((mw_entries w1)(key \<mapsto> e\<lparr>ce_last_access := now\<rparr>))" if "mw_entries w1 key = Some e" for e
    using es that by (auto simp: entries_ok_def)
  ultimately show ?thesis
    using run now w1 es upd
    by (auto simp: lookup_entry_def io_bind_def entries_ok_def split: option.splits if_splits)
qed

lemma cached_resolution_kept:
  assumes "flights_kept x w" and "cached_resolution s key w = (r, w')"
  shows "flights_kept x w' \<and> (\<exists>y. r = Inr y \<and> (\<forall>z. y = Some z \<longrightarrow> resolution_of key z))"
  using assms lookup_entry_kept [OF assms(1)] by (auto simp: cached_resolution_def split: if_splits)

lemma flights_ok_snoc:
  assumes ok: "flights_ok m fs" and f: "flight_ok f"
  shows "\<not> pending f \<Longrightarrow> flights_ok m (fs @ [f])"
    "m (fl_key f) = None \<Longrightarrow> pending f \<Longrightarrow> flights_ok (m(fl_key f \<mapsto> length fs)) (fs @ [f])"
proof -
  have m: "m k = Some i \<longleftrightarrow> i < length fs \<and> fl_key (fs ! i) = k \<and> pending (fs ! i)" for k i
    using ok by (simp add: flights_ok_def)
  show "\<not> pending f \<Longrightarrow> flights_ok m (fs @ [f])"
    using ok f by (auto simp: flights_ok_def nth_append less_Suc_eq)
  assume none: "m (fl_key f) = None" and p: "pending f"
  then have free: "\<not> (i < length fs \<and> fl_key (fs ! i) = fl_key f \<and> pending (fs ! i))" for i
    using m [of "fl_key f" i] by simp
  have "(m(fl_key f \<mapsto> length fs)) k = Some i \<longleftrightarrow>
      i < length (fs @ [f]) \<and> fl_key ((fs @ [f]) ! i) = k \<and> pending ((fs @ [f]) ! i)" for k i
    using m [of k i] p free [of i] by (auto simp: nth_append less_Suc_eq)
  with ok f show "flights_ok (m(fl_key f \<mapsto> length fs)) (fs @ [f])" by (simp add: flights_ok_def)
qed

lemma flights_ok_end:
  assumes ok: "flights_ok m fs" and i: "i < length fs" "pending (fs ! i)"
    and r: "\<And>z. r = Inr z \<Longrightarrow> resolution_of (fl_key (fs ! i)) z"
  shows "flights_ok (m(fl_key (fs ! i) := None)) (fs[i := (fs ! i)\<lparr>fl_result := Some r\<rparr>])"
proof -
  have m: "m k = Some j \<longleftrightarrow> j < length fs \<and> fl_key (fs ! j) = k \<and> pending (fs ! j)" for k j
    using ok by (simp add: flights_ok_def)
  have fi: "flight_ok (fs ! i)" using ok i(1) by (simp add: flights_ok_def list_all_length)
  have new: "flight_ok ((fs ! i)\<lparr>fl_result := Some r\<rparr>)" "\<not> pending ((fs ! i)\<lparr>fl_result := Some r\<rparr>)"
    using fi r by (auto simp: flight_ok_def pending_def)
  have "list_all flight_ok (fs[i := (fs ! i)\<lparr>fl_result := Some r\<rparr>])"
    using ok new(1) i(1) by (auto simp: flights_ok_def list_all_length nth_list_update)
  moreover have "(m(fl_key (fs ! i) := None)) k = Some j \<longleftrightarrow>
      j < length fs \<and> fl_key (fs[i := (fs ! i)\<lparr>fl_result := Some r\<rparr>] ! j) = k \<and>
      pending (fs[i := (fs ! i)\<lparr>fl_result := Some r\<rparr>] ! j)" for k j
    using m [of k j] new(2) single_flight [OF ok, of i j] i
    by (cases "j = i") (auto simp: nth_list_update)
  ultimately show ?thesis by (simp add: flights_ok_def)
qed

lemma start_resolution_ok:
  fixes w :: "('p, 'z) mat_world_scheme"
  assumes ok: "mat_ok w" and key: "key = to_lower sha1" and run: "start_resolution s key sha1 preferred w = (r, w')"
  shows "mat_ok w' \<and> (\<exists>i. r = Inr i \<and> i < length (mw_results w') \<and> fl_key (mw_results w' ! i) = key)"
proof -
  obtain m fs where m: "flights_ok m fs" and w: "flights_kept (m, fs) w" using ok mat_ok_flights by blast
  obtain x w1 where x: "cached_resolution s key w = (x, w1)" by fastforce
  from cached_resolution_kept [OF w x] obtain y where w1: "flights_kept (m, fs) w1" and y: "x = Inr y"
      "\<And>z. y = Some z \<Longrightarrow> resolution_of key z" by blast
  note v = flights_kept_view [OF w1]
  let ?f = "\<lparr>fl_key = key, fl_sha1 = sha1, fl_preferred = preferred, fl_result = None\<rparr>"
  show ?thesis
  proof (cases y)
    case (Some z)
    let ?g = "?f\<lparr>fl_result := Some (Inr z)\<rparr>"
    have "flights_ok m (fs @ [?g])"
      by (rule flights_ok_snoc(1) [OF m]) (use key y(2) [OF Some] in \<open>auto simp: flight_ok_def pending_def\<close>)
    moreover have "flights_kept (m, fs @ [?g]) (w1\<lparr>mw_results := mw_results w1 @ [?g]\<rparr>)"
      using flights_kept_set [OF w1, of "w1\<lparr>mw_results := mw_results w1 @ [?g]\<rparr>"] v by simp
    ultimately have "mat_ok (w1\<lparr>mw_results := mw_results w1 @ [?g]\<rparr>)" using mat_ok_flights by blast
    with run x y(1) Some show ?thesis by (auto simp: start_resolution_def io_bind_def new_flight_def Let_def)
  next
    case None
    show ?thesis
    proof (cases "m key")
      case (Some i)
      with m v have "i < length (mw_results w1)" "fl_key (mw_results w1 ! i) = key" by (simp_all add: flights_ok_def)
      moreover have "mat_ok w1" using m w1 mat_ok_flights by blast
      ultimately show ?thesis
        using run x y(1) None Some v by (auto simp: start_resolution_def io_bind_def Let_def)
    next
      case none: None
      let ?w = "w1\<lparr>mw_results := mw_results w1 @ [?f], mw_flights := (mw_flights w1)(key \<mapsto> length fs)\<rparr>"
      have "flights_ok (m(key \<mapsto> length fs)) (fs @ [?f])"
        using flights_ok_snoc(2) [OF m, of ?f] none key by (simp add: flight_ok_def pending_def)
      moreover have "flights_kept (m(key \<mapsto> length fs), fs @ [?f]) ?w"
        using flights_kept_set [OF w1, of ?w] v by simp
      ultimately have "mat_ok ?w" using mat_ok_flights by blast
      with run x y(1) None none v show ?thesis
        by (auto simp: start_resolution_def io_bind_def new_flight_def Let_def)
    qed
  qed
qed

lemma run_flight_ok:
  fixes w :: "('p, 'z) mat_world_scheme"
  assumes "restorer_ok s" and ok: "mat_ok w" and run: "run_flight s i w = (r, w')"
  shows "mat_ok w' \<and> r = Inr () \<and> length (mw_results w') = length (mw_results w) \<and>
    (i < length (mw_results w) \<longrightarrow> fl_key (mw_results w' ! i) = fl_key (mw_results w ! i) \<and> \<not> pending (mw_results w' ! i))"
proof (cases "i < length (mw_results w) \<and> fl_result (mw_results w ! i) = None")
  case False
  with run ok show ?thesis by (auto simp: run_flight_def pending_def)
next
  case True
  let ?f = "mw_results w ! i"
  obtain m fs where m: "flights_ok m fs" and w: "flights_kept (m, fs) w" using ok mat_ok_flights by blast
  note v = flights_kept_view [OF w]
  have key: "fl_key ?f = to_lower (fl_sha1 ?f)"
    using m v True by (simp add: flights_ok_def list_all_length flight_ok_def)
  obtain x w1 where x: "mat_resolve s (fl_key ?f) (fl_sha1 ?f) (fl_preferred ?f) w = (x, w1)" by fastforce
  have w1: "flights_kept (m, fs) w1" using mat_resolve_kept [OF assms(1) key] w x by (metis keepsD)
  note v1 = flights_kept_view [OF w1]
  have res: "x = Inr z \<Longrightarrow> resolution_of (fl_key ?f) z" for z
    using mat_resolve_result x key by metis
  let ?w = "w1\<lparr>mw_results := (mw_results w1)[i := ?f\<lparr>fl_result := Some x\<rparr>], mw_flights := (mw_flights w1)(fl_key ?f := None)\<rparr>"
  have w': "w' = ?w" "r = Inr ()"
    using run True x by (simp_all add: run_flight_def io_try_def end_flight_def Let_def)
  have "flights_ok (m(fl_key ?f := None)) (fs[i := ?f\<lparr>fl_result := Some x\<rparr>])"
    using flights_ok_end [OF m, of i x] True v res by (simp add: pending_def)
  moreover have "flights_kept (m(fl_key ?f := None), fs[i := ?f\<lparr>fl_result := Some x\<rparr>]) ?w"
    using flights_kept_set [OF w1, of ?w] v1 by simp
  ultimately have "mat_ok ?w" using mat_ok_flights by blast
  then show ?thesis using w' v v1 True by (simp add: pending_def)
qed

lemma resolve_from_ok:
  fixes w :: "('p, 'z) mat_world_scheme"
  assumes r: "restorer_ok s" and ok: "mat_ok w" and run: "resolve_from s ended gone sha1 preferred w = (y, w')"
  shows "mat_ok w' \<and> (\<forall>z. y = Inr z \<longrightarrow> resolution_of (to_lower sha1) z)"
proof -
  let ?key = "to_lower sha1"
  obtain m fs where m: "flights_ok m fs" and w: "flights_kept (m, fs) w" using ok mat_ok_flights by blast
  obtain x w1 where x: "cached_resolution s ?key w = (x, w1)" by fastforce
  from cached_resolution_kept [OF w x] obtain c where w1: "flights_kept (m, fs) w1" and c: "x = Inr c"
      "\<And>z. c = Some z \<Longrightarrow> resolution_of ?key z" by blast
  have ok1: "mat_ok w1" using m w1 mat_ok_flights by blast
  show ?thesis
  proof (cases c)
    case (Some z)
    have t: "keeps mat_ok (timed (\<lambda>t. touch_asset t i) :: (('p, 'z) mat_world_scheme, unit) io)" for i
      by (rule keeps_mat_ok) (rule keeps_inv_timed [OF keeps_inv_writes(3)])
    obtain u w2 where u: "timed (\<lambda>t. touch_asset t (as_id (rs_asset z))) w1 = (u, w2)" by fastforce
    have "mat_ok w2" using t ok1 u by (metis keepsD)
    with run x c Some u show ?thesis by (cases u) (auto simp: resolve_from_def Let_def io_bind_def)
  next
    case None
    show ?thesis
    proof (cases ended)
      case (Some e)
      with run x c None ok1 show ?thesis by (auto simp: resolve_from_def Let_def io_bind_def)
    next
      case running: None
      obtain i w2 where i: "start_resolution s ?key sha1 preferred w1 = (i, w2)" by fastforce
      from start_resolution_ok [OF ok1 refl i] obtain j where ok2: "mat_ok w2" and j: "i = Inr j"
          "j < length (mw_results w2)" "fl_key (mw_results w2 ! j) = ?key" by blast
      have y: "await_flight s gone j w2 = (y, w')"
        using run x c None running i j(1) by (simp add: resolve_from_def Let_def io_bind_def)
      show ?thesis
      proof (cases gone)
        case (Some e)
        with y ok2 show ?thesis by (auto simp: await_flight_def)
      next
        case waits: None
        obtain u w3 where u: "run_flight s j w2 = (u, w3)" by fastforce
        note f = run_flight_ok [OF r ok2 u]
        with y waits u have w': "w' = w3" "y = (case fl_result (mw_results w3 ! j) of None \<Rightarrow> Inl OutOfFuel | Some r \<Rightarrow> r)"
          by (auto simp: await_flight_def io_bind_def)
        obtain m3 fs3 where m3: "flights_ok m3 fs3" "flights_kept (m3, fs3) w3" using f mat_ok_flights by blast
        then have "flight_ok (mw_results w3 ! j)"
          using flights_kept_view [OF m3(2)] f j(2) by (simp add: flights_ok_def list_all_length)
        with w' f j show ?thesis by (auto simp: flight_ok_def split: option.splits)
      qed
    qed
  qed
qed

section \<open>Every sequence of operations\<close>

datatype mat_op =
    MatResolve "err option" "err option" string string
  | MatRedirect "err option" "err option" string string string
  | MatRun nat
  | MatCleanup int
  | MatRecycle

fun exec_mat :: "('p, ('p, 'z) mat_world_scheme) mat_service \<Rightarrow> mat_op \<Rightarrow> ('p, 'z) mat_world_scheme \<Rightarrow> ('p, 'z) mat_world_scheme" where
  "exec_mat s (MatResolve ended gone sha1 preferred) w = snd (resolve_from s ended gone sha1 preferred w)"
| "exec_mat s (MatRedirect ended gone sha1 preferred agent) w = snd (redirect_from s ended gone sha1 preferred agent w)"
| "exec_mat s (MatRun i) w = snd (run_flight s i w)"
| "exec_mat s (MatCleanup retention) w = snd (mat_cleanup s retention w)"
| "exec_mat s MatRecycle w = snd (recycle_turn s w)"

lemma exec_mat_ok:
  fixes w :: "('p, 'z) mat_world_scheme"
  assumes r: "restorer_ok s" and ok: "mat_ok w"
  shows "mat_ok (exec_mat s op w)"
proof (cases op)
  case (MatResolve ended gone sha1 preferred)
  then show ?thesis using resolve_from_ok [OF r ok] by (metis exec_mat.simps(1) prod.collapse)
next
  case (MatRedirect ended gone sha1 preferred agent)
  have res: "keeps mat_ok (resolve_from s ended gone sha1 preferred)"
    by (rule keepsI) (use resolve_from_ok [OF r] in \<open>metis prod.collapse\<close>)
  have "keeps mat_ok (redirect_from s ended gone sha1 preferred agent)"
    unfolding redirect_from_def
    by (auto intro!: keeps_bind res keeps_ret keeps_fail keeps_mat_ok [OF keeps_inv_free [OF db_free_intros(4)]] split: option.splits)
  with MatRedirect ok show ?thesis by (simp add: keeps_def)
next
  case (MatRun i)
  then show ?thesis using run_flight_ok [OF r ok] by (metis exec_mat.simps(3) prod.collapse)
next
  case (MatCleanup retention)
  have "keeps mat_ok (mat_cleanup s retention :: (('p, 'z) mat_world_scheme, unit) io)"
    by (rule keeps_mat_ok [OF cleanup_inv])
  with MatCleanup ok show ?thesis by (simp add: keeps_def)
next
  case MatRecycle
  have "keeps mat_ok (recycle_turn s :: (('p, 'z) mat_world_scheme, unit) io)"
    by (rule keeps_mat_ok [OF recycle_turn_inv])
  with MatRecycle ok show ?thesis by (simp add: keeps_def)
qed

lemma run_mat_ok: "restorer_ok s \<Longrightarrow> mat_ok w \<Longrightarrow> mat_ok (fold (exec_mat s) ops w)"
  by (induction ops arbitrary: w) (auto intro: exec_mat_ok)

text \<open>C11. A resolution is always one of the content it was asked for, and a key never has two flights at once: after any
  sequence of requests, flights, cleanups and recycle-bin turns that starts with consistent job tables and a consistent
  cache (for instance an empty one), for a service without restorer or with the one of the program, an answered request
  holds the content with the requested SHA1, and two flights of one key that still run are the same flight.\<close>

theorem resolution_matches_request:
  fixes w0 :: "('p, 'z) mat_world_scheme"
  assumes "mx_restorer s \<in> {None, Some (restorer scan_first fuel sv finished)}" and "mat_ok w0"
    and "w = fold (exec_mat s) ops w0"
  shows "(resolve_from s ended gone sha1 preferred w = (Inr r, w') \<longrightarrow> as_sha1 (rs_asset r) = to_lower sha1) \<and>
    (\<forall>i < length (mw_results w). \<forall>j < length (mw_results w). fl_key (mw_results w ! i) = fl_key (mw_results w ! j) \<longrightarrow>
      fl_result (mw_results w ! i) = None \<longrightarrow> fl_result (mw_results w ! j) = None \<longrightarrow> i = j)"
proof -
  have r: "restorer_ok s" by (rule restorer_ok_real [OF assms(1)])
  then have ok: "mat_ok w" unfolding assms(3) using assms(2) by (rule run_mat_ok)
  then have fl: "flights_ok (mw_flights w) (mw_results w)" by (simp add: mat_ok_def cache_ok_def mw_view_def)
  show ?thesis
    using resolve_from_ok [OF r ok] single_flight [OF fl] unfolding resolution_of_def pending_def by blast
qed

section \<open>Witnesses\<close>

text \<open>A cloud with two files in the work directory and one elsewhere; its state is the files and the ids deleted.\<close>

type_synonym sample_cloud = "cloud_file list \<times> string list"

definition sample_cloud_file :: "string \<Rightarrow> string \<Rightarrow> cloud_file" where
  "sample_cloud_file i parent = \<lparr>cf_id = i, cf_parent_id = parent, cf_name = i @ ''.mkv'', cf_sha1 = replicate 40 (CHR ''a''),
     cf_size_bytes = 5, cf_pick_code = ''p'', cf_remote_path = '''', cf_source_info_hash = '''',
     cf_parents = [\<lparr>p_id = parent, p_name = ''x''\<rparr>]\<rparr>"

definition sample_cloud_files :: "cloud_file list" where
  "sample_cloud_files = [sample_cloud_file ''f1'' ''w'', sample_cloud_file ''f2'' ''w'', sample_cloud_file ''g'' ''v'']"

definition sample_info :: "string \<Rightarrow> (sample_cloud, cloud_file) io" where
  "sample_info i = (\<lambda>(fs, log).
     (if i = ''w'' then Inr ((sample_cloud_file ''w'' ''0'')\<lparr>cf_size_bytes := sum_list (map cf_size_bytes fs)\<rparr>)
      else case find (\<lambda>f. cf_id f = i) fs of None \<Rightarrow> Inl ErrRemoteNotFound | Some f \<Rightarrow> Inr f, (fs, log)))"

definition sample_delete :: "string \<Rightarrow> string \<Rightarrow> (sample_cloud, unit) io" where
  "sample_delete i parent = (\<lambda>(fs, log). (Inr (), (filter (\<lambda>f. cf_id f \<noteq> i) fs, i # log)))"

definition sample_materializer :: "(sample_cloud, sample_cloud mat_world) mat_service" where
  "sample_materializer = \<lparr>mx_file_info = sample_info, mx_delete = sample_delete, mx_recycle_bin = None,
     mx_downloader = None, mx_offline_tasks = Some (\<lambda>h b. io_ret False), mx_restorer = None, mx_work_dir = ''w'',
     mx_base = \<lparr>bu_prefix = ''http://h'', bu_path = '''', bu_raw_path = '''', bu_suffix = ''''\<rparr>,
     mx_redirect_type = ''proxy'', mx_cache_ttl = 10, mx_cache_max = 12\<rparr>"

definition sample_artifact :: "int \<Rightarrow> string \<Rightarrow> int \<Rightarrow> artifact_row" where
  "sample_artifact i remote used = \<lparr>ar_id = i, ar_torrent_id = 1, ar_task_id = None, ar_provider = ''p115'',
     ar_result_remote_id = remote, ar_delete_file_id = '''', ar_work_dir_remote_id = ''w'', ar_state = Active,
     ar_last_accessed_at = Some used, ar_verified_at = None, ar_deleted_at = None, ar_deletion_error = '''',
     ar_created_at = 0, ar_updated_at = 0\<rparr>"

definition sample_location :: "int \<Rightarrow> int \<Rightarrow> string \<Rightarrow> location_row" where
  "sample_location i artifact remote = \<lparr>lo_id = i, lo_content_id = 1, lo_torrent_id = Some 1, lo_artifact_id = Some artifact,
     lo_provider = ''p115'', lo_remote_file_id = remote, lo_remote_parent_id = ''w'', lo_pick_code = ''p'',
     lo_remote_path = '''', lo_ownership = ManagedCache, lo_verified_at = Some 0, lo_materialized_at = Some 0,
     lo_deleted_at = None, lo_created_at = 0, lo_updated_at = 0\<rparr>"

definition sample_cache_db :: db where
  "sample_cache_db = empty_db\<lparr>
     torrents := [\<lparr>tr_id = 1, tr_info_hash = replicate 40 (CHR ''b''), tr_magnet_uri = ''m'', tr_display_name = ''n'',
       tr_total_bytes = 5, tr_file_count = 1, tr_strm_root = ''n'', tr_created_at = 0, tr_updated_at = 0, tr_scanned_at = None\<rparr>],
     contents := [\<lparr>co_id = 1, co_sha1 = replicate 40 (CHR ''a''), co_size_bytes = 5, co_preferred_name = ''a.mkv'',
       co_last_accessed_at = None, co_created_at = 0, co_updated_at = 0\<rparr>],
     artifacts := [sample_artifact 1 ''f1'' 7, sample_artifact 2 ''f2'' 3, sample_artifact 3 ''g'' 1],
     locations := [sample_location 1 1 ''f1'', sample_location 2 2 ''f2'', sample_location 3 3 ''g'']\<rparr>"

definition sample_mat_world :: "sample_cloud mat_world" where
  "sample_mat_world = \<lparr>w_prov = (sample_cloud_files, []), w_now = 5000000, w_ticks = [], w_events = [], w_ctx = None,
     w_offline = empty_offline_tasks, w_db = sample_cache_db, w_library = [], mw_entries = (\<lambda>_. None),
     mw_flights = (\<lambda>_. None), mw_results = [], mw_recycle_running = False, mw_recycle_pending = False, mw_rand = []\<rparr>"

definition sample_only_work_dir :: "sample_cloud \<Rightarrow> bool" where
  "sample_only_work_dir = (\<lambda>(fs, log). set fs \<subseteq> set sample_cloud_files \<and> ''g'' \<notin> set log)"

lemma sample_careful: "careful_cloud sample_materializer sample_only_work_dir"
proof -
  have "cf_id f \<noteq> ''g''" if "sample_only_work_dir p" "sample_info i p = (Inr f, p')" "under f ''w''" for p i f p'
  proof -
    from that(2,3) have "find (\<lambda>f. cf_id f = i) (fst p) = Some f"
      by (auto simp: sample_info_def sample_cloud_file_def under_def split: prod.splits if_splits option.splits)
    then have "f \<in> set sample_cloud_files"
      using that(1) by (auto simp: sample_only_work_dir_def find_Some_iff split: prod.splits)
    with that(3) show ?thesis by (auto simp: sample_cloud_files_def sample_cloud_file_def under_def)
  qed
  moreover have same: "snd (sample_info i p) = p" for i p
    by (simp add: sample_info_def split: prod.splits)
  moreover have "sample_only_work_dir (snd (sample_delete i parent p))" if "sample_only_work_dir p" "i \<noteq> ''g''" for i parent p
    using that by (auto simp: sample_delete_def sample_only_work_dir_def split: prod.splits)
  ultimately have "sample_only_work_dir (snd (sample_delete (cf_id f) (cf_parent_id f) p'))"
    if "sample_only_work_dir p" "sample_info i p = (Inr f, p')" "under f ''w''" for p i f p'
    using that by (metis snd_conv)
  with same show ?thesis
    by (auto simp: careful_cloud_def keeps_def sample_materializer_def)
qed

theorem cleanup_stays_in_work_dir_witness:
  "sample_only_work_dir (w_prov (snd (mat_cleanup sample_materializer 0 sample_mat_world)))"
  by (rule cleanup_stays_in_work_dir [OF sample_careful])
    (simp add: sample_only_work_dir_def sample_mat_world_def)


theorem touched_asset_not_expired_witness:
  "1 \<notin> ms_artifact_id ` (\<Union>x \<in> set (case fst (expired_managed_locations 9000
     (snd (touch_asset 9000 1 sample_cache_db))) of Inr as \<Rightarrow> as | Inl _ \<Rightarrow> []). set (as_sources x))"
proof -
  obtain as where as: "expired_managed_locations 9000 (snd (touch_asset 9000 1 sample_cache_db)) =
      (Inr as, snd (touch_asset 9000 1 sample_cache_db))"
    by (simp add: expired_managed_locations_def)
  have "ar_id (sample_artifact 1 ''f1'' 7) \<notin> ms_artifact_id ` (\<Union>x \<in> set as. set (as_sources x))"
    by (rule touched_asset_not_expired [OF _ _ _ _ _ _ _ order_refl surjective_pairing as, where l = "sample_location 1 1 ''f1''"])
      (simp_all add: sample_cache_db_def sample_artifact_def sample_location_def)
  then show ?thesis by (simp add: as sample_artifact_def)
qed

definition sample_requests :: "mat_op list" where
  "sample_requests = [MatResolve None (Some CtxCanceled) (replicate 40 (CHR ''A'')) '''', MatRun 0,
     MatResolve None (Some CtxCanceled) (replicate 40 (CHR ''c'')) '''']"

theorem resolution_matches_request_witness:
  "\<exists>r. fst (resolve_from sample_materializer None None (replicate 40 (CHR ''A'')) ''''
       (fold (exec_mat sample_materializer) sample_requests sample_mat_world)) = Inr r \<and>
     as_sha1 (rs_asset r) = replicate 40 (CHR ''a'')"
proof -
  let ?w = "fold (exec_mat sample_materializer) sample_requests sample_mat_world"
  let ?ask = "resolve_from sample_materializer None None (replicate 40 (CHR ''A'')) '''' ?w"
  have "case fst ?ask of Inr _ \<Rightarrow> True | Inl _ \<Rightarrow> False" by code_simp
  then obtain r where r: "?ask = (Inr r, snd ?ask)" by (cases ?ask) (auto split: sum.splits)
  have hash: "hash_check (replicate 40 (CHR ''b''))" by code_simp
  have ok: "mat_ok sample_mat_world"
    by (simp add: hash mat_ok_def sample_mat_world_def sample_cache_db_def empty_db_def jobs_defs active_unique_def rand_ok_def
        cache_ok_def mw_view_def entries_ok_def flights_ok_def)
  have "as_sha1 (rs_asset r) = to_lower (replicate 40 (CHR ''A''))"
    using resolution_matches_request [OF _ ok refl, of sample_materializer] r
    by (simp add: sample_materializer_def)
  moreover have "to_lower (replicate 40 (CHR ''A'')) = replicate 40 (CHR ''a'')" by code_simp
  ultimately show ?thesis using r by (metis fst_conv)
qed

end
