(* ===== verification/Restore_Facts.thy ===== *)
theory Restore_Facts
  imports Materialize_Cache
begin

text \<open>
  How the restorer, the job store and the start of the task manager work together: a restore is a job of its own
  source, the manager of the server recovers the jobs of two other sources only, and the job store allows one
  unfinished job per source and torrent.
\<close>

section \<open>A restore needs a free slot\<close>

lemma restore_job_fields:
  fixes w :: "('p, 'z) mat_world_scheme"
  assumes "parse_info_hash magnet = Inr h" and run: "restore_job magnet sha1 w = (Inr j, w')"
  shows "w_db w' = w_db w" "j_info_hash j = h" "j_source j = source_restore" "j_state j = Queued"
proof -
  obtain now w1 where now: "read_now w = (Inr now, w1)" using read_now_total by blast
  have w1: "w_db w1 = w_db w" using read_now_frame(2) [of w] now by simp
  obtain j0 where j0: "new_job_for_source now magnet source_restore = Inr j0" "j_info_hash j0 = h"
      "j_source j0 = source_restore" "j_state j0 = Queued"
  proof -
    have "trim_space source_restore = source_restore" by code_simp
    with assms(1) that show ?thesis by (simp add: new_job_for_source_def)
  qed
  let ?j = "j0\<lparr>j_target_sha1 := to_lower sha1\<rparr>"
  obtain r w2 where r: "on_db (get_job (j_gid j0)) w1 = (r, w2)" by fastforce
  have "(case r of
      Inr _ \<Rightarrow> io_bind mat_random (\<lambda>rnd. io_of (assign_new_gid rnd ?j))
    | Inl e \<Rightarrow> if errors_is e ErrJobNotFound then io_ret ?j else io_fail e) w1 = (Inr j, w')"
    using run now j0(1) on_db_get [OF r] r by (cases r) (simp_all add: restore_job_def io_bind_def io_try_def Let_def)
  with j0(2-4) w1 show "w_db w' = w_db w" "j_info_hash j = h" "j_source j = source_restore" "j_state j = Queued"
    by (auto simp: io_bind_def mat_random_def assign_new_gid_def new_gid_def
        split: sum.splits if_splits list.splits option.splits)
qed

lemma taken_restore_fails:
  fixes v :: "('p, 'z) mat_world_scheme"
  assumes ok: "jobs_ok (w_db v)" and taken: "slot_taken (w_db v) source_restore h"
    and h: "parse_info_hash magnet = Inr h" "to_lower h = h"
  shows "\<exists>e. fst (restorer sf fuel s finished magnet sha1 v) = Inl e"
proof -
  obtain x v1 where x: "restore_job magnet sha1 v = (x, v1)" by fastforce
  show ?thesis
  proof (cases x)
    case (Inl e)
    with x show ?thesis by (simp add: restorer_def io_bind_def)
  next
    case (Inr j)
    note f = restore_job_fields [OF h(1) x [unfolded Inr]]
    have src: "job_source j = source_restore" using f(3) by (simp add: job_source_def source_defs)
    have "\<not> creatable j (w_db v1)" using taken f h(2) src by (simp add: creatable_def)
    then obtain e where e: "create_job j (w_db v1) = (Inl e, w_db v1)"
      using create_job_run [of "w_db v1" j] ok f(1) by auto
    have "on_db (create_job j) v1 = (Inl e, v1)" by (simp add: on_db_def e)
    with x Inr show ?thesis by (simp add: restorer_def io_bind_def)
  qed
qed

lemma recover_keeps_other_source:
  assumes "recover_running_jobs_by_source srcs d = (r, d')" and "q \<in> set (tasks d)" and "tk_source q \<notin> set srcs"
  shows "q \<in> set (tasks d')" "torrents d' = torrents d"
  using assms by (force simp: recover_running_jobs_by_source_def set_update_rows split: if_splits)+

lemma new_manager_db:
  fixes w :: "('p, 'z) m_world_scheme"
  assumes "new_manager s quota_min (Some srcs) w = (r, w')" and "srcs \<noteq> []"
  shows "\<exists>x. recover_running_jobs_by_source srcs (w_db w) = (x, w_db w')"
proof -
  obtain x d where x: "recover_running_jobs_by_source srcs (w_db w) = (x, d)" by fastforce
  have k: "keeps (\<lambda>v :: ('p, 'z) m_world_scheme. w_db v = d) (list_jobs_of ss)" for ss
  proof (induction ss)
    case (Cons a ss)
    have "keeps (\<lambda>v :: ('p, 'z) m_world_scheme. w_db v = d) (on_db (list_jobs a [Queued]))"
      by (simp add: keeps_def list_jobs_def)
    with Cons show ?case by (auto intro!: keeps_bind keeps_ret)
  qed (simp add: keeps_def)
  have e: "keeps (\<lambda>v :: ('p, 'z) m_world_scheme. w_db v = d) (enqueue_many gs)" for gs
    by (simp add: keeps_def enqueue_many_def Let_def split: option.splits)
  let ?rest = "if quota_min > 0 \<and> pv_quota (sv_provider s) = None then io_fail (Msg ''no quota provider'')
     else io_bind (\<lambda>w. (Inr (), empty_m_world w)) (\<lambda>_.
          io_bind (list_jobs_of srcs) (\<lambda>js.
          io_bind (enqueue_many (map j_gid js)) (\<lambda>_.
          io_ret \<lparr>mg_service = s, mg_enabled = True, mg_disabled_err = None,
            mg_quota = (if quota_min > 0 then pv_quota (sv_provider s) else None), mg_quota_min = quota_min\<rparr>)))"
  have "keeps (\<lambda>v :: ('p, 'z) m_world_scheme. w_db v = d) ?rest"
    by (intro keeps_if keeps_fail keeps_bind k e keeps_ret) (simp add: keeps_def empty_m_world_def)
  then have d: "w_db (snd (?rest (w\<lparr>w_db := d\<rparr>))) = d"
    unfolding keeps_def by simp
  have "x = Inr ()" using x by (auto simp: recover_running_jobs_by_source_def split: if_splits)
  with x have first: "on_db (recover_running_jobs_by_source srcs) w = (Inr (), w\<lparr>w_db := d\<rparr>)"
    by (simp add: on_db_def)
  have "new_manager s quota_min (Some srcs) w = ?rest (w\<lparr>w_db := d\<rparr>)"
    unfolding new_manager_def option.case if_not_P [OF assms(2)] io_bind_Inr [where m = "on_db (recover_running_jobs_by_source srcs)" and w = w, OF first] ..
  then have "?rest (w\<lparr>w_db := d\<rparr>) = (r, w')" using assms(1) by simp
  with d x show ?thesis by auto
qed

text \<open>C28. A restore that was running when the program stopped blocks every later restore from the same torrent: the start of
  the manager recovers the jobs of the two download sources only, so the job of the restore keeps its state, and the unique
  index on unfinished tasks makes every further restore for that torrent fail.\<close>

theorem crashed_restore_blocks_restores:
  fixes w :: "('p, 'z) m_world_scheme" and v :: "('p2, 'z2) mat_world_scheme"
  assumes ok: "jobs_ok (w_db w)" and task: "q \<in> set (tasks (w_db w))" "tk_source q = source_restore" "tk_state q = Running"
    and torrent: "torrent_by_hash (w_db w) h = Some t" "tk_torrent_id q = tr_id t"
    and start: "new_manager s quota_min (Some [source_aria2, source_qbittorrent]) w = (r, w')"
    and v: "w_db v = w_db w'" and magnet: "parse_info_hash magnet = Inr h"
  shows "state_of (w_db w') (tk_gid q) = Some Running \<and> (\<exists>e. fst (restorer sf fuel sv finished magnet sha1 v) = Inl e)"
proof -
  obtain x where x: "recover_running_jobs_by_source [source_aria2, source_qbittorrent] (w_db w) = (x, w_db w')"
    using new_manager_db [OF start] by blast
  note rec = recover_by_source_run [OF ok x]
  have other: "tk_source q \<notin> set [source_aria2, source_qbittorrent]" by (simp add: task(2) source_defs)
  note q = recover_keeps_other_source [OF x task(1) other]
  have "state_of (w_db w') (tk_gid q) = Some Running"
    using task_by_gid_unique [OF rec(2) q(1) refl] task(3) by (simp add: state_of_def)
  moreover have "slot_taken (w_db w') source_restore h"
    using q torrent task unfolding slot_taken_iff by (auto simp: torrent_by_hash_def active_def)
  moreover have "to_lower h = h" using magnet
    by (auto simp: parse_info_hash_def split: option.splits if_splits intro!: wf_info_hash_lower parse_topics_wf)
  ultimately show ?thesis using taken_restore_fails [of v h magnet] rec(2) v magnet by simp
qed

definition sample_hash :: string where
  "sample_hash = replicate 40 (CHR ''b'')"

definition sample_restore_row :: task_row where
  "sample_restore_row = \<lparr>tk_id = 1, tk_torrent_id = 1, tk_gid = ''r'', tk_source = source_restore, tk_magnet_uri = ''m'',
     tk_state = Running, tk_error = '''', tk_prov_status = 0, tk_prov_update = 0, tk_prov_progress = 0,
     tk_created_at = 0, tk_started_at = Some 0, tk_finished_at = None\<rparr>"

definition sample_crashed_db :: db where
  "sample_crashed_db = empty_db\<lparr>
     torrents := [\<lparr>tr_id = 1, tr_info_hash = sample_hash, tr_magnet_uri = ''m'', tr_display_name = ''n'',
       tr_total_bytes = 5, tr_file_count = 1, tr_strm_root = ''n'', tr_created_at = 0, tr_updated_at = 0, tr_scanned_at = None\<rparr>],
     tasks := [sample_restore_row], restore_tasks := [(1, replicate 40 (CHR ''a''))]\<rparr>"

definition sample_crashed :: "unit m_world" where
  "sample_crashed = (sample_m_world [])\<lparr>w_db := sample_crashed_db\<rparr>"

definition sample_started :: "unit mat_world" where
  "sample_started = \<lparr>w_prov = (), w_now = 0, w_ticks = [], w_events = [], w_ctx = None, w_offline = empty_offline_tasks,
     w_db = w_db (snd (new_manager sample_service 0 (Some [source_aria2, source_qbittorrent]) sample_crashed)),
     w_library = [], mw_entries = (\<lambda>_. None), mw_flights = (\<lambda>_. None), mw_results = [],
     mw_recycle_running = False, mw_recycle_pending = False, mw_rand = []\<rparr>"

theorem crashed_restore_blocks_restores_witness:
  "\<exists>e. fst (restorer False 5 sample_service 9 (''magnet:?xt=urn:btih:'' @ sample_hash) (replicate 40 (CHR ''a'')) sample_started) = Inl e"
proof -
  have hash: "hash_check sample_hash" by code_simp
  have ok: "jobs_ok (w_db sample_crashed)"
    by (simp add: sample_crashed_def sample_crashed_db_def empty_db_def jobs_defs active_unique_def active_def
        sample_restore_row_def hash source_defs)
  have t: "\<exists>t. torrent_by_hash (w_db sample_crashed) sample_hash = Some t \<and> tk_torrent_id sample_restore_row = tr_id t"
    by (simp add: sample_crashed_def sample_crashed_db_def torrent_by_hash_def sample_restore_row_def)
  then obtain t where t: "torrent_by_hash (w_db sample_crashed) sample_hash = Some t" "tk_torrent_id sample_restore_row = tr_id t"
    by blast
  have m: "parse_info_hash (''magnet:?xt=urn:btih:'' @ sample_hash) = Inr sample_hash" by code_simp
  show ?thesis
    by (rule crashed_restore_blocks_restores [OF ok _ _ _ t surjective_pairing _ m, THEN conjunct2])
      (simp_all add: sample_crashed_def sample_crashed_db_def sample_restore_row_def sample_started_def)
qed

end
