(* ===== verification/Server_Facts.thy ===== *)
theory Server_Facts
  imports Http_Server Materialize_Cache Restore_Facts
begin

text \<open>
  The way of a player: from the address in a STRM file over the redirect to the object of the DAV tree that
  has the same SHA1; and that the tree holds every content.
\<close>

section \<open>Percent coding of any path\<close>

lemma escape_ascii: "list_all (\<lambda>c. code_of c < 128) (escape m s)"
proof -
  have digit: "code_of (upper_hex_digit x) < 128" if "x < 16" for x
    using that by (simp add: upper_hex_digit_def)
  have out: "c \<notin> set s" if "128 \<le> code_of c" "list_all (\<lambda>c. code_of c < 128) s" for c s
    using that by (auto simp: list_all_iff)
  have "should_escape c m" if "128 \<le> code_of c" for c
  proof -
    have "\<not> is_alnum c" "code_of c \<notin> {34, 39}" using that by (auto simp: is_alnum_def)
    moreover have "c \<notin> set ''!$&()*+,;=:[]<>''" "c \<notin> set ''-_.~''" "c \<notin> set ''$&+,/:;=?@''" "c \<notin> set ''!()*''"
      by (rule out [OF that], code_simp)+
    ultimately show ?thesis unfolding should_escape_def by (simp only: if_False simp_thms)
  qed
  then have "code_of c < 128" if "\<not> should_escape c m" for c
    using that by (meson not_less)
  with digit show ?thesis
    unfolding escape_def list_all_iff by (auto simp: code_of_less_256)
qed

lemma hex_escape_ascii: "list_all (\<lambda>c. code_of c < 128) s \<Longrightarrow> hex_escape_non_ascii s = s"
  by (induction s) (auto simp: hex_escape_non_ascii_def)

section \<open>The address of an object\<close>

lemma split_on_no: "x \<in> set (split_on c s) \<Longrightarrow> c \<notin> set x"
  using set_split_on by blast

lemma path_ext_shape:
  assumes "path_ext p \<noteq> ''''"
  shows "\<exists>t. path_ext p = CHR ''.'' # t \<and> CHR ''.'' \<notin> set t \<and> slash \<notin> set t"
proof -
  let ?t = "takeWhile (\<lambda>c. c \<noteq> CHR ''.'') (rev (last_seg p))"
  have "last_seg p \<in> set (split_on slash p)" by (simp add: last_seg_def split_on_neq_Nil)
  then have s: "slash \<notin> set (last_seg p)" by (rule split_on_no)
  have "set ?t \<subseteq> set (last_seg p)" by (metis set_rev set_takeWhileD subsetI)
  with s have "slash \<notin> set (rev ?t)" by auto
  moreover have "CHR ''.'' \<notin> set (rev ?t)" by (auto dest: set_takeWhileD)
  ultimately show ?thesis using assms by (auto simp: path_ext_def Let_def split: if_splits)
qed

lemma lower_char_mark: "lower_char c = CHR ''.'' \<longleftrightarrow> c = CHR ''.''" "lower_char c = slash \<longleftrightarrow> c = slash"
proof -
  have lc: "lower_char c = c \<or> 97 \<le> code_of (lower_char c) \<and> 65 \<le> code_of c" by (auto simp: lower_char_def)
  have "lower_char c \<noteq> c \<Longrightarrow> lower_char c \<noteq> d \<and> c \<noteq> d" if d: "code_of d < 65" for d
  proof -
    assume "lower_char c \<noteq> c"
    with lc have "97 \<le> code_of (lower_char c)" "65 \<le> code_of c" by blast+
    with d have "code_of (lower_char c) \<noteq> code_of d" "code_of c \<noteq> code_of d" by linarith+
    then show ?thesis by metis
  qed
  moreover have "code_of (CHR ''.'') < 65" "code_of slash < 65" by code_simp+
  ultimately show "lower_char c = CHR ''.'' \<longleftrightarrow> c = CHR ''.''" "lower_char c = slash \<longleftrightarrow> c = slash"
    by metis+
qed

lemma long_plain: "2 < length x \<Longrightarrow> slash \<notin> set x \<Longrightarrow> plain_seg x"
  by (auto simp: plain_seg_def)

lemma object_extension_shape:
  "\<exists>t. object_extension a = CHR ''.'' # t \<and> CHR ''.'' \<notin> set t \<and> slash \<notin> set t"
proof (cases "path_ext (as_preferred_name a) = ''''")
  case True
  then show ?thesis by (simp add: object_extension_def Let_def)
next
  case False
  then obtain t where t: "path_ext (as_preferred_name a) = CHR ''.'' # t" "CHR ''.'' \<notin> set t" "slash \<notin> set t"
    using path_ext_shape by blast
  have "to_lower (CHR ''.'' # t) = CHR ''.'' # to_lower t"
    using lower_char_mark(1) [of "CHR ''.''"] by simp
  moreover have "CHR ''.'' \<notin> set (to_lower t)" "slash \<notin> set (to_lower t)"
    unfolding to_lower_def set_map using t(2,3) lower_char_mark by (metis imageE)+
  ultimately show ?thesis using t(1) by (simp add: object_extension_def Let_def)
qed

definition object_segs :: "asset \<Rightarrow> string list" where
  "object_segs a = [''objects'', take 2 (as_sha1 a), take 2 (drop 2 (as_sha1 a)), as_sha1 a @ object_extension a]"

lemma hex_plain:
  assumes "list_all is_hex x" and "x \<noteq> ''''"
  shows "plain_seg x"
proof -
  have "\<not> is_hex (CHR ''.'')" "\<not> is_hex slash" by code_simp+
  with assms show ?thesis by (cases x) (auto simp: plain_seg_def list_all_iff)
qed

lemma valid_hex_iff: "valid_hex v n \<longleftrightarrow> length v = n \<and> v = to_lower v \<and> list_all is_hex v \<and> even n"
  using hex_decode_Some_iff [of v] by (auto simp: valid_hex_def)

lemma object_segs_plain:
  assumes "valid_hex (as_sha1 a) 40"
  shows "list_all plain_seg (object_segs a)"
proof -
  have h: "list_all is_hex (as_sha1 a)" "length (as_sha1 a) = 40" using assms by (simp_all add: valid_hex_iff)
  have "list_all is_hex (take 2 (as_sha1 a))" "list_all is_hex (take 2 (drop 2 (as_sha1 a)))"
    using h(1) by (auto simp: list_all_iff dest!: in_set_takeD in_set_dropD)
  with h have "plain_seg (take 2 (as_sha1 a))" "plain_seg (take 2 (drop 2 (as_sha1 a)))"
    by (auto intro!: hex_plain)
  moreover have "plain_seg (as_sha1 a @ object_extension a)"
  proof -
    obtain t where t: "object_extension a = CHR ''.'' # t" "slash \<notin> set t" using object_extension_shape by blast
    have "as_sha1 a \<noteq> ''''" using h(2) by auto
    then have "slash \<notin> set (as_sha1 a)" using hex_plain [OF h(1)] by (simp add: plain_seg_def)
    with t h(2) show ?thesis by (intro long_plain) auto
  qed
  moreover have "plain_seg ''objects''" by code_simp
  ultimately show ?thesis by (simp add: object_segs_def)
qed

lemma stable_object_path_segs:
  assumes "valid_hex (as_sha1 a) 40"
  shows "stable_object_path a = join_with ''/'' (object_segs a)"
proof -
  have p: "list_all plain_seg (object_segs a)" by (rule object_segs_plain [OF assms])
  then have "filter (\<lambda>x. x \<noteq> []) (object_segs a) = object_segs a"
    by (auto simp: filter_id_conv list_all_iff plain_seg_def)
  moreover have "stable_object_path a = path_join (object_segs a)" by (simp add: stable_object_path_def object_segs_def)
  moreover have "object_segs a \<noteq> []" by (simp add: object_segs_def)
  ultimately show ?thesis using path_clean_join_plain [OF _ p] by (simp add: path_join_def)
qed

lemma object_href_segs:
  assumes "valid_hex (as_sha1 a) 40"
  shows "object_href a = ''/dav/'' @ stable_object_path a"
  by (simp add: stable_object_path_segs [OF assms] object_segs_def object_href_def objects_root_def)

lemma trim_suffix_none: "\<not> has_suffix s x \<Longrightarrow> trim_suffix s x = s"
  by (simp add: trim_suffix_def)

text \<open>An object's address parses back to the object, unless its extension is a single dot.\<close>

lemma parse_object_href:
  assumes sha: "valid_hex (as_sha1 a) 40" and ext: "object_extension a \<noteq> ''.''"
  shows "parse_resource (object_href a) = Inr (Object (as_sha1 a) (object_href a))"
proof -
  let ?a = "take 2 (as_sha1 a)" and ?b = "take 2 (drop 2 (as_sha1 a))" and ?c = "as_sha1 a @ object_extension a"
  obtain t where t: "object_extension a = CHR ''.'' # t" "CHR ''.'' \<notin> set t" "slash \<notin> set t"
    using object_extension_shape by blast
  have h: "list_all is_hex (as_sha1 a)" "length (as_sha1 a) = 40" "to_lower (as_sha1 a) = as_sha1 a"
    using sha by (simp_all add: valid_hex_iff)
  have sub: "valid_hex (take 2 (drop k (as_sha1 a))) 2" if "k \<le> 2" for k
    using that h(1,2) arg_cong [OF h(3), of "\<lambda>x. take 2 (drop k x)"]
    by (auto simp: valid_hex_iff list_all_iff to_lower_def take_map drop_map dest!: in_set_takeD in_set_dropD)
  have p: "list_all plain_seg [?a, ?b, ?c]" using object_segs_plain [OF sha] by (simp add: object_segs_def)
  have split: "split_on slash (join_with ''/'' [?a, ?b, ?c]) = [?a, ?b, ?c]"
    using split_join_plain [OF _ p] by simp
  have href: "object_href a = objects_root @ ''/'' @ join_with ''/'' [?a, ?b, ?c]"
    by (simp add: object_href_def)
  have "t \<noteq> ''''" using ext t(1) by auto
  then have last: "\<not> has_suffix (object_href a) ''/''"
  proof -
    have "last (object_href a) = last t" by (simp add: object_href_def t(1) \<open>t \<noteq> ''''\<close>)
    moreover have "last t \<noteq> slash" using t(3) \<open>t \<noteq> ''''\<close> by (metis last_in_set)
    ultimately show ?thesis by (auto simp: has_suffix_iff)
  qed
  have clean: "trim_suffix (object_href a) ''/'' = object_href a" by (rule trim_suffix_none [OF last])
  have neq: "object_href a \<noteq> dav_root" "object_href a \<noteq> objects_root"
    by (simp_all add: object_href_def dav_root_def objects_root_def)
  have pre: "has_prefix (object_href a) (objects_root @ ''/'')"
      "trim_prefix (object_href a) (objects_root @ ''/'') = join_with ''/'' [?a, ?b, ?c]"
    using has_prefix_append [of "objects_root @ ''/''"] trim_prefix_append [of "objects_root @ ''/''"]
    unfolding href by simp_all
  have "CHR ''.'' \<notin> set (as_sha1 a)" using h(1) by (auto simp: list_all_iff is_hex_def hex_val_def split: if_splits)
  then have tw: "takeWhile (\<lambda>c. c \<noteq> CHR ''.'') ?c = as_sha1 a"
    using t(1) by (subst takeWhile_append2) auto
  have "parse_object (object_href a) ?a ?b ?c = Inr (Object (as_sha1 a) (object_href a))"
    using sub [of 0] sub [of 2] sha t(1) \<open>t \<noteq> ''''\<close> unfolding parse_object_def tw Let_def by simp
  then show ?thesis
    using clean neq pre split by (simp add: parse_resource_def Let_def)
qed

section \<open>The DAV tree\<close>

text \<open>The resources a client reaches that starts at the root and follows the addresses of the listings.\<close>

inductive dav_reach :: "db \<Rightarrow> resource \<Rightarrow> bool" for d where
  dav_start: "dav_reach d DavRoot"
| dav_follow: "dav_reach d r \<Longrightarrow> dav_entries r True d = (Inr es, d) \<Longrightarrow> e \<in> set es \<Longrightarrow>
    parse_resource (en_href e) = Inr r' \<Longrightarrow> dav_reach d r'"

lemma sql_like_any: "sql_like ''%'' s"
  by (induction s) simp_all

lemma sql_like_prefix:
  "list_all (\<lambda>c. c \<noteq> CHR ''%'') p \<Longrightarrow> sql_like (p @ ''%'') (p @ s)"
proof (induction p)
  case Nil
  show ?case using sql_like_any [of s] by simp
next
  case (Cons c p)
  then show ?case by simp
qed

lemma hex_not_percent: "list_all is_hex p \<Longrightarrow> list_all (\<lambda>c. c \<noteq> CHR ''%'') p"
proof -
  have "\<not> is_hex (CHR ''%'')" by code_simp
  then show "list_all is_hex p \<Longrightarrow> ?thesis" by (auto simp: list_all_iff)
qed

lemma content_like:
  assumes "valid_hex h 40"
  shows "sql_like (to_lower (take n h) @ ''%'') h"
proof -
  have h: "list_all is_hex h" "to_lower h = h" using assms by (simp_all add: valid_hex_iff)
  have "to_lower (take n h) = take n (to_lower h)" by (simp add: to_lower_def take_map)
  then have l: "to_lower (take n h) = take n h" using h(2) by simp
  have "list_all is_hex (take n h)" using h(1) by (auto simp: list_all_iff dest: in_set_takeD)
  then show ?thesis
    using sql_like_prefix [OF hex_not_percent, of "take n h" "drop n h"] unfolding l by simp
qed

lemma prefixes_listed:
  assumes "c \<in> set (contents d)" "valid_hex (co_sha1 c) 40"
  shows "\<exists>ps. sha1_prefixes (take k (co_sha1 c)) (int n) d = (Inr ps, d) \<and> take n (co_sha1 c) \<in> set ps"
  using assms content_like [OF assms(2), of k] by (force simp: sha1_prefixes_def)

lemma bucket_parse:
  assumes "valid_hex a 2"
  shows "parse_resource (objects_root @ ''/'' @ a @ ''/'') = Inr (FirstBucket a)"
    "valid_hex b 2 \<Longrightarrow> parse_resource (objects_root @ ''/'' @ a @ ''/'' @ b @ ''/'') = Inr (SecondBucket (a @ b))"
proof -
  have noslash: "slash \<notin> set x" if "valid_hex x 2" for x
    using that hex_plain [of x] by (cases x) (auto simp: valid_hex_iff plain_seg_def)
  have suffix: "trim_suffix (y @ ''/'') ''/'' = y" for y
    using trim_suffix_append [of y "''/''"] by simp
  have prefix: "has_prefix (objects_root @ ''/'' @ y) (objects_root @ ''/'')"
      "trim_prefix (objects_root @ ''/'' @ y) (objects_root @ ''/'') = y" for y
    using has_prefix_append [of "objects_root @ ''/''" y] trim_prefix_append [of "objects_root @ ''/''" y] by simp_all
  have other: "objects_root @ ''/'' @ y \<noteq> dav_root" "objects_root @ ''/'' @ y \<noteq> objects_root" for y
    by (simp_all add: objects_root_def dav_root_def)
  show "parse_resource (objects_root @ ''/'' @ a @ ''/'') = Inr (FirstBucket a)"
    using suffix [of "objects_root @ ''/'' @ a"] prefix [of a] other [of a] assms noslash [OF assms]
    by (simp add: parse_resource_def split_on_no_sep)
  show "parse_resource (objects_root @ ''/'' @ a @ ''/'' @ b @ ''/'') = Inr (SecondBucket (a @ b))" if b: "valid_hex b 2"
  proof -
    have "split_on slash (a @ slash # b) = [a, b]"
      using split_on_append_sep [OF noslash [OF assms]] noslash [OF b] by (simp add: split_on_no_sep)
    then show ?thesis
      using suffix [of "objects_root @ ''/'' @ a @ ''/'' @ b"] prefix [of "a @ ''/'' @ b"] other [of "a @ ''/'' @ b"] assms b
      by (simp add: parse_resource_def)
  qed
qed

lemma valid_hex_part: "valid_hex h 40 \<Longrightarrow> k \<le> 38 \<Longrightarrow> valid_hex (take 2 (drop k h)) 2"
proof -
  assume h: "valid_hex h 40" and k: "k \<le> 38"
  have "to_lower (take 2 (drop k h)) = take 2 (drop k (to_lower h))" by (simp add: to_lower_def take_map drop_map)
  with h k show ?thesis by (auto simp: valid_hex_iff list_all_iff dest!: in_set_takeD in_set_dropD)
qed

text \<open>C22. The DAV tree holds every content: a client that starts at the root and follows the addresses of the listings reaches
  the object of every stored content with a well-formed SHA1 whose preferred name does not end in a dot.\<close>

theorem dav_tree_is_complete:
  assumes c: "c \<in> set (contents d)" and sha: "valid_hex (co_sha1 c) 40"
    and ext: "object_extension (asset_of_row c) \<noteq> ''.''"
  shows "dav_reach d (Object (co_sha1 c) (object_href (asset_of_row c)))"
proof -
  let ?h = "co_sha1 c" and ?a = "take 2 (co_sha1 c)" and ?b = "take 2 (drop 2 (co_sha1 c))"
  have len: "length ?h = 40" using sha by (simp add: valid_hex_iff)
  have v: "valid_hex ?a 2" "valid_hex ?b 2" using valid_hex_part [OF sha, of 0] valid_hex_part [OF sha, of 2] by simp_all
  have four: "take 4 ?h = ?a @ ?b" by (metis take_add numeral_Bit0)
  have "parse_resource (objects_root @ ''/'') = Inr ObjectsRoot" by code_simp
  then have r1: "dav_reach d ObjectsRoot"
    by (intro dav_follow [OF dav_start]) (auto simp: collection_entry_def)
  obtain ps where ps: "sha1_prefixes '''' 2 d = (Inr ps, d)" "?a \<in> set ps"
    using prefixes_listed [OF c sha, of 0 2] by auto
  have r2: "dav_reach d (FirstBucket ?a)"
    by (rule dav_follow [OF r1, where e = "collection_entry (objects_root @ ''/'' @ ?a @ ''/'') ?a"])
      (use ps bucket_parse(1) [OF v(1)] in \<open>auto simp: io_bind_def collection_entry_def\<close>)
  obtain qs where qs: "sha1_prefixes ?a 4 d = (Inr qs, d)" "?a @ ?b \<in> set qs"
    using prefixes_listed [OF c sha, of 2 4] four by auto
  have "bucket_href (?a @ ?b) = objects_root @ ''/'' @ ?a @ ''/'' @ ?b @ ''/''"
    using len by (simp add: bucket_href_def)
  with bucket_parse(2) [OF v]
  have p3: "parse_resource (en_href (collection_entry (bucket_href (?a @ ?b)) (drop 2 (?a @ ?b)))) = Inr (SecondBucket (?a @ ?b))"
    by (simp add: collection_entry_def)
  have "dav_entries (FirstBucket ?a) True d = (Inr (collection_entry (objects_root @ ''/'' @ ?a @ ''/'') ?a #
      map (\<lambda>p. collection_entry (bucket_href p) (drop 2 p)) qs), d)"
    using qs by (auto simp: io_bind_def)
  then have r3: "dav_reach d (SecondBucket (?a @ ?b))"
    by (rule dav_follow [OF r2 _ _ p3])
      (unfold list.set set_map, rule insertI2, rule imageI [where f = "\<lambda>p. collection_entry (bucket_href p) (drop 2 p)"], rule qs(2))
  have like: "sql_like (to_lower (?a @ ?b) @ ''%'') ?h" using content_like [OF sha, of 4] four by simp
  then obtain as where as: "assets_by_sha1_prefix (?a @ ?b) d = (Inr as, d)" "asset_of_row c \<in> set as"
    using c by (auto simp: assets_by_sha1_prefix_def)
  have "as_sha1 (asset_of_row c) = ?h" by (simp add: asset_of_row_def)
  with parse_object_href [of "asset_of_row c"] sha ext
  have p: "parse_resource (object_href (asset_of_row c)) = Inr (Object ?h (object_href (asset_of_row c)))" by simp
  show ?thesis
    by (rule dav_follow [OF r3, where e = "object_entry (asset_of_row c) (object_href (asset_of_row c))"])
      (use as p in \<open>auto simp: io_bind_def object_entry_def image_iff\<close>)
qed

theorem dav_tree_is_complete_witness:
  "dav_reach sample_cache_db (Object (replicate 40 (CHR ''a'')) (''/dav/objects/aa/aa/'' @ replicate 40 (CHR ''a'') @ ''.mkv''))"
proof -
  obtain c where c: "c \<in> set (contents sample_cache_db)" "co_sha1 c = replicate 40 (CHR ''a'')" "co_preferred_name c = ''a.mkv''"
    by (simp add: sample_cache_db_def)
  have e: "object_extension (asset_of_row c) = ''.mkv''"
    using c(3) by (simp add: object_extension_def asset_of_row_def) code_simp
  have h: "valid_hex (co_sha1 c) 40" unfolding c(2) by code_simp
  have "object_href (asset_of_row c) = ''/dav/objects/aa/aa/'' @ replicate 40 (CHR ''a'') @ ''.mkv''"
    unfolding object_href_def e by (simp add: asset_of_row_def c(2) objects_root_def eval_nat_numeral)
  with dav_tree_is_complete [OF c(1) h] e c(2) show ?thesis by simp
qed

section \<open>Following the address in a STRM file\<close>

text \<open>The request of a player that reads a STRM file.\<close>

definition link_request :: "string \<Rightarrow> header \<Rightarrow> http_request option" where
  "link_request content hs = map_option
     (\<lambda>u. \<lparr>rq_method = ''GET'', rq_path = u_path u, rq_raw_query = u_raw_query u, rq_headers = hs\<rparr>)
     (url_parse (trim_space content))"

lemma rooted_join:
  assumes "xs \<noteq> []" and p: "list_all plain_seg xs"
  shows "mux_clean (slash # join_with ''/'' xs) = slash # join_with ''/'' xs"
proof -
  let ?y = "slash # join_with ''/'' xs"
  have abs: "is_abs ?y" by (simp add: is_abs_def has_prefix_Cons)
  have "split_on slash ?y = [] # xs" using split_join_plain [OF assms] by simp
  then have "path_segs ?y = xs" using abs clean_segs_plain [OF p] by (simp add: path_segs_def)
  then have clean: "path_clean ?y = ?y" using abs by (simp add: path_clean_def)
  have l: "plain_seg (last xs)" using assms by (simp add: list_all_iff)
  have "?y = (if butlast xs = [] then ''/'' else slash # join_with ''/'' (butlast xs) @ ''/'') @ last xs"
    using join_snoc_append [of "butlast xs @ [[]]" "''/''" "last xs"] assms(1) join_append [of "butlast xs" "[last xs]" "''/''"]
    by (cases xs rule: rev_cases) auto
  then have "last ?y = last (last xs)" using l by (metis last_append plain_seg_def)
  moreover have "last (last xs) \<noteq> slash" using l unfolding plain_seg_def by (metis last_in_set)
  ultimately have "\<not> has_suffix ?y ''/''" by (auto simp: has_suffix_iff simp del: last.simps)
  then show ?thesis using clean by (simp add: mux_clean_def has_prefix_Cons)
qed

lemma link_path_clean:
  assumes "valid_sha1 sha"
  shows "mux_clean (''/redirect/'' @ to_lower sha) = ''/redirect/'' @ to_lower sha"
proof -
  have "to_lower sha \<noteq> ''''" using valid_sha1_lower [OF assms] by auto
  then have "plain_seg (to_lower sha)" using valid_sha1_lower [OF assms] hex_plain by blast
  moreover have "plain_seg ''redirect''" by code_simp
  ultimately show ?thesis using rooted_join [of "[''redirect'', to_lower sha]"] by simp
qed

lemma graphic_hex: "list_all is_hex x \<Longrightarrow> list_all graphic x"
  using is_hex_graphic by (auto simp: list_all_iff)

lemma link_redirect_query:
  assumes "clean_base b" "url_parse b = Some u" "valid_sha1 sha" and ih: "ih = '''' \<or> valid_sha1 ih"
  shows "redirect_query (link_query ih) = Some (to_lower ih)"
proof -
  note q = strm_link_parse(3) [OF assms]
  have "server_valid_sha1 (to_lower ih) \<and> trim_space (to_lower ih) = to_lower ih" if "ih \<noteq> ''''"
  proof -
    from ih that have v: "valid_sha1 (to_lower ih)" "list_all graphic (to_lower ih)"
      using valid_sha1_lower [of ih] graphic_hex by blast+
    then have "trim_space (to_lower ih) = to_lower ih"
      by (intro trim_space_graphic) (auto simp: list_all_iff)
    with v(1) show ?thesis by (simp add: server_valid_sha1_def valid_sha1_def)
  qed
  then show ?thesis by (auto simp: redirect_query_def q query_values_def)
qed

lemma redirect_url_proxy:
  assumes "mx_redirect_type s = ''proxy''" "bu_path (mx_base s) = ''''" "bu_raw_path (mx_base s) = ''''" "bu_suffix (mx_base s) = ''''"
    and "valid_hex (as_sha1 a) 40"
  shows "redirect_url s a p = bu_prefix (mx_base s) @ escape EncPath (''/'' @ stable_object_path a)"
proof -
  have "hd (stable_object_path a) = CHR ''o''"
    using stable_object_path_segs [OF assms(5)] by (simp add: object_segs_def)
  then have t: "trim_left (stable_object_path a) ''/'' = stable_object_path a"
    by (intro trim_left_id) simp
  have r: "trim_right '''' ''/'' = ''''" by (simp add: trim_right_def trim_left_def)
  have star: "''/'' @ stable_object_path a \<noteq> ''*''" by simp
  show ?thesis
    using star unfolding redirect_url_def append_url_path_def url_path_text_def assms(1-4) Let_def t r by simp
qed

lemma redirect_from_proxy:
  fixes w :: "('p, 'z) mat_world_scheme"
  assumes r: "restorer_ok s" and ok: "mat_ok w" and proxy: "mx_redirect_type s = ''proxy''"
    and run: "redirect_from s ended gone sha1 h agent w = (Inr url, w')"
  shows "\<exists>a p. as_sha1 a = to_lower sha1 \<and> url = redirect_url s a p"
proof -
  obtain x w1 where x: "resolve_from s ended gone sha1 h w = (x, w1)" by fastforce
  with run proxy obtain y where y: "x = Inr y" "url = redirect_url s (rs_asset y) (ml_remote_path (rs_location y))"
    by (cases x) (auto simp: redirect_from_def io_bind_def)
  with resolve_from_ok [OF r ok x] show ?thesis unfolding resolution_of_def by blast
qed

lemma object_request:
  fixes v :: "('p, 'z) dav_world_scheme"
  assumes a: "valid_hex (as_sha1 a) 40" "object_extension a \<noteq> ''.''"
    and q: "rq_method q = ''GET''" "rq_path q = ''/'' @ stable_object_path a"
  shows "http_serve h ended gone q v =
    io_bind (proxy_object (hs_dav h) (q\<lparr>rq_path := object_href a\<rparr>) (as_sha1 a)) (\<lambda>x. io_ret (Answer x)) v"
proof -
  have segs: "rq_path q = slash # join_with ''/'' (object_segs a)"
    using q(2) stable_object_path_segs [OF a(1)] by simp
  have "mux_clean (rq_path q) = rq_path q"
    unfolding segs by (rule rooted_join [OF _ object_segs_plain [OF a(1)]]) (simp add: object_segs_def)
  moreover have "route_of (rq_path q) = RtObjects"
    unfolding segs by (simp add: object_segs_def route_of_def has_prefix_Cons)
  moreover have "''/dav'' @ rq_path q = object_href a" using object_href_segs [OF a(1)] q(2) by simp
  ultimately show ?thesis
    using parse_object_href [OF a] q(1) by (simp add: http_serve_def dav_serve_def)
qed

lemma link_request_path:
  assumes base: "clean_base b" "url_parse b = Some u" "u_path u = ''''"
    and sha: "valid_sha1 sha" and ih: "ih = '''' \<or> valid_sha1 ih"
    and q: "link_request (strm_content \<lparr>ss_root = dir, ss_base = b\<rparr> sha ih) hs = Some q"
  shows "rq_method q = ''GET''" "rq_path q = ''/redirect/'' @ to_lower sha" "rq_raw_query q = link_query ih"
proof -
  have "strm_link b sha ih \<noteq> []" by (simp add: strm_link_def)
  then have "trim_space (strm_content \<lparr>ss_root = dir, ss_base = b\<rparr> sha ih) = strm_link b sha ih"
    using trim_space_newline [OF strm_link_parse(1) [OF base(1,2) sha ih]] strm_link_form [OF ih, of b sha]
    by (metis append_assoc strm_content_def strm_service.select_convs(2))
  with q strm_link_parse(2) [OF base(1,2) sha ih]
  have "q = \<lparr>rq_method = ''GET'', rq_path = slash # link_path sha, rq_raw_query = link_query ih, rq_headers = hs\<rparr>"
    using base(3) by (simp add: link_request_def)
  then show "rq_method q = ''GET''" "rq_path q = ''/redirect/'' @ to_lower sha" "rq_raw_query q = link_query ih"
    by (simp_all add: link_path_def)
qed

text \<open>C4. The address in a STRM file leads to the object with the same SHA1: when a player requests the address written for a
  content, the server never refuses the request; if it redirects (the program's materializer, proxy mode, the files served
  at the root of the redirect address), the new address is the percent-coded path of an object with the SHA1 of the file,
  and unless the extension is a single dot the server answers a request for that path with exactly that object.\<close>

theorem strm_link_reaches_object:
  fixes w :: "('p, 'z) dav_world_scheme" and h :: "('p, ('p, 'z) dav_world_scheme) http_server"
  defines "s \<equiv> dv_service (hs_dav h)"
  assumes base: "clean_base b" "url_parse b = Some u" "u_path u = ''''"
    and sha: "valid_sha1 sha" "ih = '''' \<or> valid_sha1 ih"
    and q: "link_request (strm_content \<lparr>ss_root = dir, ss_base = b\<rparr> sha ih) hs = Some q"
    and mat: "mx_restorer s \<in> {None, Some (restorer scan_first fuel sv finished)}" "mat_ok w"
    and proxy: "mx_redirect_type s = ''proxy''" "bu_path (mx_base s) = ''''" "bu_raw_path (mx_base s) = ''''"
      "bu_suffix (mx_base s) = ''''" "list_all (\<lambda>c. code_of c < 128) (bu_prefix (mx_base s))"
    and run: "http_serve h ended gone q w = (Inr (Answer r), w')"
  shows "rp_status r \<in> {302, 404, 502} \<and> (rp_status r = 302 \<longrightarrow> (\<exists>a p. as_sha1 a = to_lower sha \<and>
    header_get (rp_headers r) ''Location'' = bu_prefix (mx_base s) @ escape EncPath p \<and>
    unescape EncPath (escape EncPath p) = Some p \<and>
    (object_extension a \<noteq> ''.'' \<longrightarrow> (\<forall>q' (v :: ('p, 'z) dav_world_scheme). rq_method q' = ''GET'' \<longrightarrow> rq_path q' = p \<longrightarrow>
      http_serve h None None q' v =
        io_bind (proxy_object (hs_dav h) (q'\<lparr>rq_path := ''/dav'' @ p\<rparr>) (to_lower sha)) (\<lambda>x. io_ret (Answer x)) v))))"
proof -
  let ?h = "to_lower sha"
  note path = link_request_path [OF base sha q]
  note hex = valid_sha1_lower [OF sha(1)]
  have lower: "to_lower ?h = ?h" by simp
  have vh: "valid_hex ?h 40" using hex by (simp add: valid_hex_iff)
  have "slash \<notin> set ?h" using hex is_hex_no_slash by blast
  moreover have "server_valid_sha1 ?h" using hex by (simp add: server_valid_sha1_def valid_sha1_def)
  moreover have "mux_clean (rq_path q) = rq_path q" using link_path_clean [OF sha(1)] path(2) by simp
  moreover have "route_of (rq_path q) = RtRedirect" unfolding path(2) by (simp add: route_of_def has_prefix_Cons)
  moreover have "trim_prefix (rq_path q) ''/redirect/'' = ?h" unfolding path(2) by (rule trim_prefix_append)
  ultimately have "serve_redirect s ended gone q w = (Inr r, w')"
    using run lower path(1) unfolding s_def
    by (auto simp: http_serve_def io_bind_def split: prod.splits sum.splits)
  then have red: "io_try (redirect_from s ended gone ?h (to_lower ih) (header_get (rq_headers q) ''User-Agent'')) (\<lambda>r. case r of
      Inl e \<Rightarrow> io_ret (plain_response (if errors_is e ErrAssetNotFound then 404 else 502))
    | Inr url \<Rightarrow> io_ret (redirect_response url)) w = (Inr r, w')"
    using \<open>slash \<notin> set ?h\<close> \<open>server_valid_sha1 ?h\<close> \<open>trim_prefix (rq_path q) ''/redirect/'' = ?h\<close> path(1)
      link_redirect_query [OF base(1,2) sha] path(3) lower
    by (simp add: serve_redirect_def)
  obtain x w1 where x: "redirect_from s ended gone ?h (to_lower ih) (header_get (rq_headers q) ''User-Agent'') w = (x, w1)"
    by fastforce
  show ?thesis
  proof (cases x)
    case (Inl e)
    with red x have "r = plain_response (if errors_is e ErrAssetNotFound then 404 else 502)" by (simp add: io_try_def)
    then show ?thesis by (simp add: plain_response_def)
  next
    case (Inr url)
    with red x have r: "r = redirect_response url" by (simp add: io_try_def)
    obtain a p0 where a: "as_sha1 a = ?h" "url = redirect_url s a p0"
      using redirect_from_proxy [OF restorer_ok_real [OF mat(1)] mat(2) proxy(1) x [unfolded Inr]] lower by metis
    let ?p = "''/'' @ stable_object_path a"
    have va: "valid_hex (as_sha1 a) 40" using vh a(1) by simp
    have url: "url = bu_prefix (mx_base s) @ escape EncPath ?p"
      unfolding a(2) by (rule redirect_url_proxy [OF proxy(1-4) va])
    have "hex_escape_non_ascii url = url"
      by (rule hex_escape_ascii) (use url proxy(5) escape_ascii in simp)
    moreover have "canonical_key ''Location'' = ''Location''" by code_simp
    ultimately have loc: "header_get (rp_headers r) ''Location'' = bu_prefix (mx_base s) @ escape EncPath ?p"
      using r url by (simp add: redirect_response_def header_get_def header_values_def)
    have "http_serve h None None q' v = io_bind (proxy_object (hs_dav h) (q'\<lparr>rq_path := ''/dav'' @ ?p\<rparr>) ?h) (\<lambda>x. io_ret (Answer x)) v"
      if "object_extension a \<noteq> ''.''" "rq_method q' = ''GET''" "rq_path q' = ?p" for q' and v :: "('p, 'z) dav_world_scheme"
      using object_request [OF va that] object_href_segs [OF va] a(1) by simp
    moreover have "unescape EncPath (escape EncPath ?p) = Some ?p" by (rule unescape_escape) simp_all
    ultimately show ?thesis using loc a(1) r by (auto simp: redirect_response_def)
  qed
qed

definition sample_dav_materializer :: "(sample_cloud, sample_cloud dav_world) mat_service" where
  "sample_dav_materializer = \<lparr>mx_file_info = sample_info, mx_delete = sample_delete, mx_recycle_bin = None,
     mx_downloader = None, mx_offline_tasks = None, mx_restorer = None, mx_work_dir = ''w'',
     mx_base = \<lparr>bu_prefix = ''http://h'', bu_path = '''', bu_raw_path = '''', bu_suffix = ''''\<rparr>,
     mx_redirect_type = ''proxy'', mx_cache_ttl = 10, mx_cache_max = 12\<rparr>"

definition sample_server :: "(sample_cloud, sample_cloud dav_world) http_server" where
  "sample_server = \<lparr>hs_dav = \<lparr>dv_service = sample_dav_materializer, dv_download = (\<lambda>p a. io_ret ''http://u/x''),
     dv_fetch = (\<lambda>m u hs. io_ret (plain_response 200)), dv_mime = (\<lambda>e. ''''), dv_date = (\<lambda>t. '''')\<rparr>,
     hs_ready = True, hs_clean_status = 301, hs_other = (\<lambda>q. io_ret (Answer (plain_response 404)))\<rparr>"

definition sample_dav_world :: "sample_cloud dav_world" where
  "sample_dav_world = \<lparr>w_prov = (sample_cloud_files, []), w_now = 5000000, w_ticks = [], w_events = [], w_ctx = None,
     w_offline = empty_offline_tasks, w_db = sample_cache_db, w_library = [], mw_entries = (\<lambda>_. None),
     mw_flights = (\<lambda>_. None), mw_results = [], mw_recycle_running = False, mw_recycle_pending = False, mw_rand = [],
     dw_urls = (\<lambda>_. None)\<rparr>"

definition sample_link :: string where
  "sample_link = strm_content \<lparr>ss_root = ''/l'', ss_base = ''http://h''\<rparr> (replicate 40 (CHR ''A'')) (replicate 40 (CHR ''b''))"

lemma sample_cache_db_jobs: "jobs_ok sample_cache_db"
proof -
  have "hash_check (replicate 40 (CHR ''b''))" by code_simp
  then show ?thesis by (simp add: sample_cache_db_def empty_db_def jobs_defs active_unique_def)
qed

theorem strm_link_reaches_object_witness:
  "\<exists>q r p. link_request sample_link [] = Some q \<and> fst (http_serve sample_server None None q sample_dav_world) = Inr (Answer r) \<and>
     header_get (rp_headers r) ''Location'' = ''http://h'' @ escape EncPath p \<and> unescape EncPath (escape EncPath p) = Some p"
proof -
  obtain u where u: "url_parse ''http://h'' = Some u" "u_path u = ''''"
  proof -
    have "case url_parse ''http://h'' of Some u \<Rightarrow> u_path u = '''' | None \<Rightarrow> False" by code_simp
    then show ?thesis using that by (cases "url_parse ''http://h''") auto
  qed
  have base: "clean_base ''http://h''" and sha: "valid_sha1 (replicate 40 (CHR ''A''))"
      and ih: "replicate 40 (CHR ''b'') = '''' \<or> valid_sha1 (replicate 40 (CHR ''b''))" by code_simp+
  obtain q where q: "link_request sample_link [] = Some q"
  proof -
    have "link_request sample_link [] \<noteq> None" by code_simp
    then show ?thesis using that by auto
  qed
  let ?serve = "http_serve sample_server None None (the (link_request sample_link [])) sample_dav_world"
  have "case fst ?serve of Inr (Answer r) \<Rightarrow> rp_status r = 302 | _ \<Rightarrow> False" by code_simp
  then obtain r where r: "?serve = (Inr (Answer r), snd ?serve)" "rp_status r = 302"
    by (cases ?serve) (auto split: sum.splits dav_answer.splits)
  have ok: "mat_ok sample_dav_world"
    by (simp add: mat_ok_def sample_dav_world_def sample_cache_db_jobs rand_ok_def cache_ok_def mw_view_def entries_ok_def flights_ok_def)
  have s: "dv_service (hs_dav sample_server) = sample_dav_materializer" by (simp add: sample_server_def)
  have "list_all (\<lambda>c. code_of c < 128) (bu_prefix (mx_base sample_dav_materializer))" by code_simp
  with strm_link_reaches_object [where h = sample_server and ended = None and gone = None and q = q and r = r and
      w' = "snd ?serve", OF base u sha ih q [unfolded sample_link_def] _ ok, unfolded s] r q
  obtain p where "header_get (rp_headers r) ''Location'' = ''http://h'' @ escape EncPath p"
      "unescape EncPath (escape EncPath p) = Some p"
    by (auto simp: sample_dav_materializer_def)
  then show ?thesis using q r by (metis fst_conv option.sel)
qed

end
