(* ===== verification/Credential_Store.thy ===== *)
theory Credential_Store
  imports Service_World
begin

text \<open>
  \<open>internal/storage/sqlite/credentials.go\<close>: the tokens of the cloud and the leases several processes take
  turns with. Nothing else reads or writes the two tables, so they are a record of their own; each is only
  accessed by its primary key and is the map from that key. Times are stored as in \<open>Store\<close>.

  The contract of a lease is the locale \<open>lease_lock\<close>: while one owner holds a lease that has not run out,
  nobody else gets it.
\<close>

section \<open>Rows\<close>

record credential =
  cr_access :: string
  cr_refresh :: string
  cr_expires :: "timestamp option"

record credential_row =
  cd_access :: string
  cd_refresh :: string
  cd_expires :: "int option"
  cd_updated :: int

record lease_row =
  le_owner :: string
  le_expires :: int

record cred_db =
  cd_rows :: "string \<rightharpoonup> credential_row"
  le_rows :: "string \<rightharpoonup> lease_row"

definition empty_cred_db :: cred_db where
  "empty_cred_db = \<lparr>cd_rows = (\<lambda>_. None), le_rows = (\<lambda>_. None)\<rparr>"

section \<open>Credentials\<close>

definition load_credential :: "string \<Rightarrow> (cred_db, credential) io" where
  "load_credential provider = (\<lambda>d. case cd_rows d provider of
       None \<Rightarrow> (Inl ErrCredentialNotFound, d)
     | Some r \<Rightarrow> (Inr \<lparr>cr_access = cd_access r, cr_refresh = cd_refresh r,
         cr_expires = map_option parse_time (cd_expires r)\<rparr>, d))"

definition credential_mk :: "timestamp \<Rightarrow> credential \<Rightarrow> credential_row" where
  "credential_mk now c = \<lparr>cd_access = cr_access c, cd_refresh = cr_refresh c,
     cd_expires = nullable_time (cr_expires c), cd_updated = format_time now\<rparr>"

definition seed_credential :: "timestamp \<Rightarrow> string \<Rightarrow> credential \<Rightarrow> (cred_db, unit) io" where
  "seed_credential now provider c = (\<lambda>d. (Inr (), case cd_rows d provider of
       None \<Rightarrow> d\<lparr>cd_rows := (cd_rows d)(provider \<mapsto> credential_mk now c)\<rparr>
     | Some _ \<Rightarrow> d))"

definition save_credential :: "timestamp \<Rightarrow> string \<Rightarrow> credential \<Rightarrow> (cred_db, unit) io" where
  "save_credential now provider c =
     (\<lambda>d. (Inr (), d\<lparr>cd_rows := (cd_rows d)(provider \<mapsto> credential_mk now c)\<rparr>))"

text \<open>\<open>time.Date(9999, time.December, 31, 23, 59, 59, 0, time.UTC)\<close> in the unit of the columns.\<close>

definition end_of_time :: int where
  "end_of_time = 253402300799 * 1000000"

definition marker_name :: "string \<Rightarrow> string" where
  "marker_name provider = ''credential-source:'' @ provider"

definition refresh_lease :: "string \<Rightarrow> string" where
  "refresh_lease provider = ''credential-refresh:'' @ provider"

text \<open>The first time, the configured token is only remembered by its fingerprint; later a changed one replaces the
  stored tokens, and a cooldown of the old token ends.\<close>

definition reconcile_refresh_token :: "timestamp \<Rightarrow> string \<Rightarrow> string \<Rightarrow> string \<Rightarrow> (cred_db, bool) io" where
  "reconcile_refresh_token now provider refresh_token fingerprint = tx (\<lambda>d.
     let marker = \<lparr>le_owner = fingerprint, le_expires = end_of_time\<rparr>;
         mark = (le_rows d)(marker_name provider \<mapsto> marker)
     in case le_rows d (marker_name provider) of
       None \<Rightarrow> (Inr False, d\<lparr>le_rows := mark\<rparr>)
     | Some m \<Rightarrow>
         if le_owner m = fingerprint then (Inr False, d)
         else case cd_rows d provider of
             None \<Rightarrow> (Inl ErrCredentialNotFound, d)
           | Some r \<Rightarrow> (Inr True, d\<lparr>
               cd_rows := (cd_rows d)(provider \<mapsto> r\<lparr>cd_access := '''', cd_refresh := refresh_token,
                 cd_expires := Some (format_time 0), cd_updated := format_time now\<rparr>),
               le_rows := mark(refresh_lease provider := None)\<rparr>))"

section \<open>Leases\<close>

definition acquire_lease :: "timestamp \<Rightarrow> string \<Rightarrow> string \<Rightarrow> timestamp \<Rightarrow> (cred_db, bool) io" where
  "acquire_lease now name owner until = (\<lambda>d.
     let taken = (Inr True, d\<lparr>le_rows := (le_rows d)(name \<mapsto> \<lparr>le_owner = owner, le_expires = format_time until\<rparr>)\<rparr>)
     in case le_rows d name of
       None \<Rightarrow> taken
     | Some l \<Rightarrow> if le_expires l < format_time now \<or> le_owner l = owner then taken else (Inr False, d))"

definition release_lease :: "string \<Rightarrow> string \<Rightarrow> (cred_db, unit) io" where
  "release_lease name owner = (\<lambda>d. (Inr (), case le_rows d name of
       None \<Rightarrow> d
     | Some l \<Rightarrow> if le_owner l = owner then d\<lparr>le_rows := (le_rows d)(name := None)\<rparr> else d))"

text \<open>Everything a process does to the two tables, with the reading of its clock.\<close>

datatype cred_op =
    OpSeed timestamp string credential
  | OpSave timestamp string credential
  | OpReconcile timestamp string string string
  | OpAcquire timestamp string string timestamp
  | OpRelease string string

fun exec_cred :: "cred_op \<Rightarrow> cred_db \<Rightarrow> cred_db" where
  "exec_cred (OpSeed now p c) d = snd (seed_credential now p c d)"
| "exec_cred (OpSave now p c) d = snd (save_credential now p c d)"
| "exec_cred (OpReconcile now p r f) d = snd (reconcile_refresh_token now p r f d)"
| "exec_cred (OpAcquire now n owner until) d = snd (acquire_lease now n owner until d)"
| "exec_cred (OpRelease n owner) d = snd (release_lease n owner d)"

section \<open>The contract of a lease\<close>

text \<open>\<open>holder d n\<close> is who holds the lease \<open>n\<close> and until when. A foreign operation is one of somebody else, at a time when
  the lease has not run out. \<open>frees\<close> are the operations that may take a lease from its holder.\<close>

locale lease_lock =
  fixes holder :: "'d \<Rightarrow> 'n \<Rightarrow> ('o \<times> int) option"
    and acquire :: "int \<Rightarrow> 'n \<Rightarrow> 'o \<Rightarrow> int \<Rightarrow> 'd \<Rightarrow> bool \<times> 'd"
    and step :: "'p \<Rightarrow> 'd \<Rightarrow> 'd"
    and foreign :: "'n \<Rightarrow> 'o \<Rightarrow> int \<Rightarrow> 'p \<Rightarrow> bool"
  assumes acquired: "acquire now n a u d = (True, d') \<Longrightarrow> holder d' n = Some (a, u)"
    and refused: "holder d n = Some (a, u) \<Longrightarrow> a \<noteq> b \<Longrightarrow> now \<le> u \<Longrightarrow> acquire now n b v d = (False, d)"
    and kept: "holder d n = Some (a, u) \<Longrightarrow> foreign n a u p \<Longrightarrow> holder (step p d) n = Some (a, u)"
begin

lemma held_through: "holder d n = Some (a, u) \<Longrightarrow> \<forall>p \<in> set ps. foreign n a u p \<Longrightarrow> holder (fold step ps d) n = Some (a, u)"
  by (induction ps arbitrary: d) (simp_all add: kept)

lemma exclusive:
  assumes "acquire t n a u d = (True, d')" and "\<forall>p \<in> set ps. foreign n a u p" and "a \<noteq> b" and "now \<le> u"
  shows "fst (acquire now n b v (fold step ps d')) = False"
  using refused [OF held_through [OF acquired [OF assms(1)] assms(2)] assms(3,4)] by simp

end

definition lease_holder :: "cred_db \<Rightarrow> string \<Rightarrow> (string \<times> int) option" where
  "lease_holder d n = map_option (\<lambda>l. (le_owner l, le_expires l)) (le_rows d n)"

definition lease_try :: "int \<Rightarrow> string \<Rightarrow> string \<Rightarrow> int \<Rightarrow> cred_db \<Rightarrow> bool \<times> cred_db" where
  "lease_try now n owner until d =
     (case acquire_lease (parse_time now) n owner (parse_time until) d of (r, d') \<Rightarrow> (r = Inr True, d'))"

text \<open>Somebody else's operation while \<open>owner\<close> holds \<open>n\<close> until \<open>u\<close>: no acquisition after that time, no release in
  the name of the owner, and no import of a changed token, which clears the cooldown.\<close>

fun foreign_op :: "string \<Rightarrow> string \<Rightarrow> int \<Rightarrow> cred_op \<Rightarrow> bool" where
  "foreign_op n owner u (OpAcquire now m b v) = (m = n \<longrightarrow> b \<noteq> owner \<and> format_time now \<le> u)"
| "foreign_op n owner u (OpRelease m b) = (m = n \<longrightarrow> b \<noteq> owner)"
| "foreign_op n owner u (OpReconcile now p r f) = (n \<noteq> refresh_lease p \<and> n \<noteq> marker_name p)"
| "foreign_op n owner u _ = True"

lemmas cred_defs = load_credential_def seed_credential_def save_credential_def reconcile_refresh_token_def
  acquire_lease_def release_lease_def Let_def tx_def

lemma reconcile_other_lease:
  "n \<noteq> refresh_lease p \<Longrightarrow> n \<noteq> marker_name p \<Longrightarrow> le_rows (snd (reconcile_refresh_token now p r f d)) n = le_rows d n"
  by (simp add: cred_defs split: option.splits)

interpretation cl: lease_lock lease_holder lease_try exec_cred foreign_op
proof unfold_locales
  fix now :: int and n a u d d'
  assume "lease_try now n a u d = (True, d')"
  then show "lease_holder d' n = Some (a, u)"
    by (auto simp: lease_try_def lease_holder_def cred_defs split: option.splits if_splits)
next
  fix d n b and now v :: int and a u
  assume "lease_holder d n = Some (a, u)" "a \<noteq> b" "now \<le> u"
  then show "lease_try now n b v d = (False, d)"
    by (auto simp: lease_try_def lease_holder_def cred_defs)
next
  fix d n a u p
  assume "lease_holder d n = Some (a, u)" "foreign_op n a u p"
  then show "lease_holder (exec_cred p d) n = Some (a, u)"
    by (cases p) (auto simp: lease_holder_def reconcile_other_lease cred_defs split: option.splits)
qed

section \<open>What the store promises\<close>

text \<open>C6. Only one process refreshes at a time: once an owner has a lease, every other owner's attempt to get it fails
  until the lease has run out, whatever others do meanwhile to tokens and leases, as long as the owner does not give it back and no
  changed token is imported.\<close>

theorem lease_is_exclusive:
  assumes "acquire_lease t n a until d = (Inr True, d')" and "\<forall>p \<in> set ops. foreign_op n a (format_time until) p"
    and "a \<noteq> b" and "format_time now \<le> format_time until"
  shows "acquire_lease now n b v (fold exec_cred ops d') = (Inr False, fold exec_cred ops d')"
proof -
  have "lease_holder d' n = Some (a, format_time until)"
    using assms(1) by (auto simp: lease_holder_def cred_defs split: option.splits if_splits)
  from cl.held_through [OF this assms(2)] assms(3,4) show ?thesis
    by (auto simp: lease_holder_def cred_defs)
qed

text \<open>A configured token is imported once: after a start with a token, a further start with the same token changes
  nothing, whatever was stored since, so a token the cloud has exchanged survives a restart; a start with another token
  replaces the stored tokens by it, marks them as expired and ends the cooldown.\<close>

lemma configured_token_imported_once:
  assumes first: "reconcile_refresh_token t p token f d = (Inr b, d1)"
    and others: "\<forall>q \<in> set ops. (\<exists>now c. q = OpSave now p c) \<or> (\<exists>now n o' u. q = OpAcquire now n o' u \<and> n \<noteq> marker_name p)
      \<or> (\<exists>n o'. q = OpRelease n o' \<and> n \<noteq> marker_name p)"
    and "d2 = fold exec_cred ops d1"
  shows "reconcile_refresh_token t' p token f d2 = (Inr False, d2) \<and>
    (f' \<noteq> f \<longrightarrow> cd_rows d2 p \<noteq> None \<longrightarrow> (\<exists>d3. reconcile_refresh_token t' p token' f' d2 = (Inr True, d3) \<and>
      fst (load_credential p d3) = Inr \<lparr>cr_access = '''', cr_refresh = token', cr_expires = Some 0\<rparr> \<and>
      le_rows d3 (refresh_lease p) = None))"
proof -
  have "map_option le_owner (le_rows d1 (marker_name p)) = Some f"
    using first by (auto simp: cred_defs refresh_lease_def marker_name_def split: option.splits if_splits)
  moreover have "map_option le_owner (le_rows (fold exec_cred ops e) (marker_name p)) = map_option le_owner (le_rows e (marker_name p))" for e
    using others
  proof (induction ops arbitrary: e)
    case (Cons q qs)
    have "(\<exists>now c. q = OpSave now p c) \<or> (\<exists>now n o' u. q = OpAcquire now n o' u \<and> n \<noteq> marker_name p)
      \<or> (\<exists>n o'. q = OpRelease n o' \<and> n \<noteq> marker_name p)"
      using Cons.prems unfolding set_simps by blast
    then have "le_rows (exec_cred q e) (marker_name p) = le_rows e (marker_name p)"
      by (elim disjE exE conjE; simp add: save_credential_def acquire_lease_def release_lease_def Let_def split: option.splits)
    with Cons.IH Cons.prems show ?case by simp
  qed simp
  ultimately have "map_option le_owner (le_rows d2 (marker_name p)) = Some f" unfolding assms(3) by metis
  then obtain m where m: "le_rows d2 (marker_name p) = Some m" "le_owner m = f" by auto
  show ?thesis using m by (auto simp: cred_defs parse_time_def format_time_def)
qed

theorem lease_is_exclusive_witness:
  "acquire_lease 50 ''n'' ''b'' 99 (fold exec_cred [OpSave 6 ''p115'' \<lparr>cr_access = ''x'', cr_refresh = ''y'', cr_expires = None\<rparr>,
      OpAcquire 7 ''n'' ''c'' 70] (snd (acquire_lease 5 ''n'' ''a'' 60000 empty_cred_db))) =
    (Inr False, fold exec_cred [OpSave 6 ''p115'' \<lparr>cr_access = ''x'', cr_refresh = ''y'', cr_expires = None\<rparr>,
      OpAcquire 7 ''n'' ''c'' 70] (snd (acquire_lease 5 ''n'' ''a'' 60000 empty_cred_db)))"
  by (rule lease_is_exclusive [where a = "''a''" and until = 60000 and t = 5 and d = empty_cred_db])
    (simp_all add: acquire_lease_def empty_cred_db_def format_time_def)

end
