(* ===== verification/Go_Hash.thy ===== *)
theory Go_Hash
  imports Go_Encoding "HOL-Library.Word"
begin

text \<open>
  \<open>crypto/sha1\<close> and \<open>crypto/sha256\<close>: the info hash of a torrent file, the session of the qBittorrent API and
  the fingerprint of configured tokens. A digest is the string of its bytes; the arithmetic is that of 32-bit
  words, which wraps.
\<close>

unbundle bit_operations_syntax

definition rotl32 :: "nat \<Rightarrow> 32 word \<Rightarrow> 32 word" where
  "rotl32 n x = push_bit n x OR drop_bit (32 - n) x"

definition rotr32 :: "nat \<Rightarrow> 32 word \<Rightarrow> 32 word" where
  "rotr32 n x = rotl32 (32 - n) x"

definition be_bytes :: "nat \<Rightarrow> nat \<Rightarrow> nat list" where
  "be_bytes n x = map (\<lambda>i. x div 256 ^ (n - 1 - i) mod 256) [0..<n]"

definition be_word :: "nat list \<Rightarrow> 32 word" where
  "be_word bs = of_nat (foldl (\<lambda>a b. a * 256 + b) 0 bs)"

definition word_bytes :: "32 word \<Rightarrow> nat list" where
  "word_bytes x = be_bytes 4 (unat x)"

text \<open>A message ends in a one bit, zeros and its length in bits, to a multiple of 64 bytes.\<close>

definition sha_pad :: "nat list \<Rightarrow> nat list" where
  "sha_pad bs = (let n = length bs; z = (119 - n mod 64) mod 64 in bs @ 128 # replicate z 0 @ be_bytes 8 (8 * n mod 2 ^ 64))"

fun chunks :: "nat \<Rightarrow> nat \<Rightarrow> 'a list \<Rightarrow> 'a list list" where
  "chunks 0 n xs = []"
| "chunks (Suc k) n xs = take n xs # chunks k n (drop n xs)"

definition sha_blocks :: "nat list \<Rightarrow> 32 word list list" where
  "sha_blocks bs = (let p = sha_pad bs in map (\<lambda>b. map be_word (chunks 16 4 b)) (chunks (length p div 64) 64 p))"

definition digest_string :: "32 word list \<Rightarrow> string" where
  "digest_string ws = map char_of (concat (map word_bytes ws))"

lemma length_digest: "length (digest_string ws) = 4 * length ws"
  by (induction ws) (simp_all add: digest_string_def word_bytes_def be_bytes_def)

section \<open>SHA-1\<close>

text \<open>The schedule, newest word first while it grows.\<close>

fun sha1_extend :: "nat \<Rightarrow> 32 word list \<Rightarrow> 32 word list" where
  "sha1_extend 0 ws = rev ws"
| "sha1_extend (Suc k) ws = sha1_extend k (rotl32 1 (ws ! 2 XOR ws ! 7 XOR ws ! 13 XOR ws ! 15) # ws)"

type_synonym sha1_state = "32 word \<times> 32 word \<times> 32 word \<times> 32 word \<times> 32 word"

fun sha1_round :: "nat \<times> 32 word \<Rightarrow> sha1_state \<Rightarrow> sha1_state" where
  "sha1_round (i, w) (a, b, c, d, e) =
     (let (f, k) = (if i < 20 then ((b AND c) OR (NOT b AND d), 0x5A827999)
                    else if i < 40 then (b XOR c XOR d, 0x6ED9EBA1)
                    else if i < 60 then ((b AND c) OR (b AND d) OR (c AND d), 0x8F1BBCDC)
                    else (b XOR c XOR d, 0xCA62C1D6))
      in (rotl32 5 a + f + e + k + w, a, rotl32 30 b, c, d))"

fun sha1_block :: "32 word list \<Rightarrow> sha1_state \<Rightarrow> sha1_state" where
  "sha1_block ws (a, b, c, d, e) =
     (case fold sha1_round (zip [0..<80] (sha1_extend 64 (rev ws))) (a, b, c, d, e) of
        (a', b', c', d', e') \<Rightarrow> (a + a', b + b', c + c', d + d', e + e'))"

definition sha1 :: "string \<Rightarrow> string" where
  "sha1 s = (case fold sha1_block (sha_blocks (map of_char s)) (0x67452301, 0xEFCDAB89, 0x98BADCFE, 0x10325476, 0xC3D2E1F0) of
     (a, b, c, d, e) \<Rightarrow> digest_string [a, b, c, d, e])"

lemma length_sha1 [simp]: "length (sha1 s) = 20"
  by (simp add: sha1_def length_digest split: prod.splits)

section \<open>SHA-256\<close>

definition sha256_constants :: "32 word list" where
  "sha256_constants = [
     1116352408, 1899447441, 3049323471, 3921009573,
     961987163, 1508970993, 2453635748, 2870763221,
     3624381080, 310598401, 607225278, 1426881987,
     1925078388, 2162078206, 2614888103, 3248222580,
     3835390401, 4022224774, 264347078, 604807628,
     770255983, 1249150122, 1555081692, 1996064986,
     2554220882, 2821834349, 2952996808, 3210313671,
     3336571891, 3584528711, 113926993, 338241895,
     666307205, 773529912, 1294757372, 1396182291,
     1695183700, 1986661051, 2177026350, 2456956037,
     2730485921, 2820302411, 3259730800, 3345764771,
     3516065817, 3600352804, 4094571909, 275423344,
     430227734, 506948616, 659060556, 883997877,
     958139571, 1322822218, 1537002063, 1747873779,
     1955562222, 2024104815, 2227730452, 2361852424,
     2428436474, 2756734187, 3204031479, 3329325298]"

fun sha256_extend :: "nat \<Rightarrow> 32 word list \<Rightarrow> 32 word list" where
  "sha256_extend 0 ws = rev ws"
| "sha256_extend (Suc k) ws =
     (let x = ws ! 14; y = ws ! 1;
          s0 = rotr32 7 x XOR rotr32 18 x XOR drop_bit 3 x;
          s1 = rotr32 17 y XOR rotr32 19 y XOR drop_bit 10 y
      in sha256_extend k ((ws ! 15 + s0 + ws ! 6 + s1) # ws))"

fun sha256_round :: "32 word \<times> 32 word \<Rightarrow> 32 word list \<Rightarrow> 32 word list" where
  "sha256_round (k, w) [a, b, c, d, e, f, g, h] =
     (let t1 = h + (rotr32 6 e XOR rotr32 11 e XOR rotr32 25 e) + ((e AND f) XOR (NOT e AND g)) + k + w;
          t2 = (rotr32 2 a XOR rotr32 13 a XOR rotr32 22 a) + ((a AND b) XOR (a AND c) XOR (b AND c))
      in [t1 + t2, a, b, c, d + t1, e, f, g])"
| "sha256_round _ st = st"

definition sha256_block :: "32 word list \<Rightarrow> 32 word list \<Rightarrow> 32 word list" where
  "sha256_block ws st = map2 (+) st (fold sha256_round (zip sha256_constants (sha256_extend 48 (rev ws))) st)"

definition sha256 :: "string \<Rightarrow> string" where
  "sha256 s = digest_string (fold sha256_block (sha_blocks (map of_char s))
     [0x6a09e667, 0xbb67ae85, 0x3c6ef372, 0xa54ff53a, 0x510e527f, 0x9b05688c, 0x1f83d9ab, 0x5be0cd19])"

end
