(* ===== verification/Token_Client.thy ===== *)
theory Token_Client
  imports Credential_Store Go_Hash
begin

text \<open>
  \<open>internal/provider/p115/token.go\<close>: the tokens behind every request to the cloud. Before a request the client
  makes sure that its access token is not about to run out; one process at a time exchanges the tokens, under a
  lease, and the others wait for the result in the database. Tokens can be changed while requests come in.

  The package that speaks to the cloud (\<open>115-sdk-go\<close>) is a parameter: a state \<open>'s\<close> of its own and what its
  calls return. It may report exchanged tokens to the function the client gave it, so a call returns the
  reports as well. The rate limiter is a list of what its waits return. What other processes do to the
  two tables comes in at the calls to the cloud and between two looks at the database. Messages on
  standard error are left out; the database does not fail.
\<close>

section \<open>The package and the client\<close>

record token_resp =
  rt_access :: string
  rt_refresh :: string
  rt_expires_in :: int

record probe =
  pb_status :: int
  pb_code :: int
  pb_state :: bool

record ('p, 's) sdk_api =
  sk_new :: "string \<Rightarrow> string \<Rightarrow> 's"
  sk_set_tokens :: "string \<Rightarrow> string \<Rightarrow> 's \<Rightarrow> 's"
  sk_refresh :: "'s \<Rightarrow> 'p \<Rightarrow> (string \<times> string) list \<times> (err + token_resp) \<times> 's \<times> 'p"
  sk_user_info :: "string \<Rightarrow> 's \<Rightarrow> 'p \<Rightarrow> (err + probe) \<times> 's \<times> 'p"
  sk_is_401 :: "int \<Rightarrow> bool"

text \<open>\<open>Client\<close>: \<open>tc_sdk\<close> is the package's client, when there is one, and whether it reports exchanged tokens.
  \<open>tc_slots\<close> are the requests that run, \<open>tc_capacity\<close> how many may.\<close>

record 's client =
  tc_owner :: string
  tc_ahead :: int
  tc_credential :: credential
  tc_available :: bool
  tc_sdk :: "('s \<times> bool) option"
  tc_capacity :: nat
  tc_slots :: nat

text \<open>While a process waits for another one: the clock ticks after the others did something, or the context ends.
  When nothing is left the deadline has passed.\<close>

datatype lease_poll = PollTick "cred_op list" | PollDone err

record ('p, 's) tok_world = "'p world" +
  tw_creds :: cred_db
  tw_client :: "'s client"
  tw_rate :: "err option list"
  tw_calls :: "cred_op list list"
  tw_polls :: "lease_poll list list"

definition credential_provider :: string where
  "credential_provider = ''p115''"

definition refresh_lease_duration :: int where
  "refresh_lease_duration = 60 * 10 ^ 9"

definition refresh_failure_backoff :: int where
  "refresh_failure_backoff = 600 * 10 ^ 9"

definition on_creds :: "(cred_db, 'a) io \<Rightarrow> (('p, 's, 'z) tok_world_scheme, 'a) io" where
  "on_creds m = (\<lambda>w. case m (tw_creds w) of (r, d) \<Rightarrow> (r, w\<lparr>tw_creds := d\<rparr>))"

definition on_client :: "('s client \<Rightarrow> 's client) \<Rightarrow> (('p, 's, 'z) tok_world_scheme, unit) io" where
  "on_client f = (\<lambda>w. (Inr (), w\<lparr>tw_client := f (tw_client w)\<rparr>))"

definition the_client :: "(('p, 's, 'z) tok_world_scheme, 's client) io" where
  "the_client = (\<lambda>w. (Inr (tw_client w), w))"

definition set_credential :: "credential \<Rightarrow> (('p, 's, 'z) tok_world_scheme, unit) io" where
  "set_credential c = on_client (\<lambda>k. k\<lparr>tc_credential := c\<rparr>)"

definition store_credential :: "credential \<Rightarrow> (('p, 's, 'z) tok_world_scheme, unit) io" where
  "store_credential c = io_bind read_now (\<lambda>t. on_creds (save_credential t credential_provider c))"

definition lease_for :: "int \<Rightarrow> string \<Rightarrow> (('p, 's, 'z) tok_world_scheme, bool) io" where
  "lease_for period owner =
     io_bind read_now (\<lambda>t. io_bind read_now (\<lambda>now.
       on_creds (acquire_lease now (refresh_lease credential_provider) owner (t + period))))"

definition give_back :: "string \<Rightarrow> (('p, 's, 'z) tok_world_scheme, unit) io" where
  "give_back owner = on_creds (release_lease (refresh_lease credential_provider) owner)"

section \<open>Exchanging the tokens\<close>

text \<open>What the client does when the package reports exchanged tokens.\<close>

fun token_reports :: "(string \<times> string) list \<Rightarrow> (('p, 's, 'z) tok_world_scheme, unit) io" where
  "token_reports [] = io_ret ()"
| "token_reports ((access, refresh) # rs) =
     (let c = \<lparr>cr_access = access, cr_refresh = refresh, cr_expires = None\<rparr>
      in io_bind (store_credential c) (\<lambda>_. io_bind (set_credential c) (\<lambda>_. token_reports rs)))"

definition other_processes :: "(('p, 's, 'z) tok_world_scheme, unit) io" where
  "other_processes = (\<lambda>w. case tw_calls w of
       [] \<Rightarrow> (Inr (), w)
     | ops # rest \<Rightarrow> (Inr (), w\<lparr>tw_calls := rest, tw_creds := fold exec_cred ops (tw_creds w)\<rparr>))"

definition call_refresh :: "('p, 's) sdk_api \<Rightarrow> 's \<Rightarrow> (('p, 's, 'z) tok_world_scheme, (string \<times> string) list \<times> (err + token_resp) \<times> 's) io" where
  "call_refresh api s = (\<lambda>w. case sk_refresh api s (w_prov w) of
       (reports, r, s', p) \<Rightarrow> (Inr (reports, r, s'), w\<lparr>w_prov := p\<rparr>))"

definition refresh_tokens :: "('p, 's) sdk_api \<Rightarrow> (('p, 's, 'z) tok_world_scheme, token_resp) io" where
  "refresh_tokens api =
     io_bind the_client (\<lambda>k. case tc_sdk k of
         None \<Rightarrow> io_fail (Msg ''nil pointer'')
       | Some (s, reporting) \<Rightarrow>
           io_bind (call_refresh api s) (\<lambda>(reports, r, s').
           io_bind other_processes (\<lambda>_.
           io_bind (on_client (\<lambda>k. k\<lparr>tc_sdk := Some (s', reporting)\<rparr>)) (\<lambda>_.
           io_bind (if reporting then token_reports reports else io_ret ()) (\<lambda>_. io_of r)))))"

text \<open>Waiting for the process that has the lease: as soon as the stored access token is another one, it is
  taken over.\<close>

definition take_over :: "('p, 's) sdk_api \<Rightarrow> credential \<Rightarrow> (('p, 's, 'z) tok_world_scheme, unit) io" where
  "take_over api c = on_client (\<lambda>k. k\<lparr>tc_credential := c,
     tc_sdk := map_option (\<lambda>(s, r). (sk_set_tokens api (cr_access c) (cr_refresh c) s, r)) (tc_sdk k)\<rparr>)"

fun wait_refreshed :: "('p, 's) sdk_api \<Rightarrow> string \<Rightarrow> lease_poll list \<Rightarrow> (('p, 's, 'z) tok_world_scheme, unit) io" where
  "wait_refreshed api access polls =
     io_try (on_creds (load_credential credential_provider)) (\<lambda>r.
       if (case r of Inr c \<Rightarrow> cr_access c \<noteq> access | Inl _ \<Rightarrow> False)
       then (case r of Inr c \<Rightarrow> take_over api c | Inl e \<Rightarrow> io_fail e)
       else case polls of
           [] \<Rightarrow> io_fail (Msg ''waiting for another process timed out'')
         | PollDone e # _ \<Rightarrow> io_fail e
         | PollTick ops # rest \<Rightarrow>
             io_bind (on_creds (\<lambda>d. (Inr (), fold exec_cred ops d))) (\<lambda>_. wait_refreshed api access rest))"

declare wait_refreshed.simps [simp del]

definition next_polls :: "(('p, 's, 'z) tok_world_scheme, lease_poll list) io" where
  "next_polls = (\<lambda>w. case tw_polls w of [] \<Rightarrow> (Inr [], w) | ps # rest \<Rightarrow> (Inr ps, w\<lparr>tw_polls := rest\<rparr>))"

text \<open>\<open>ensureFresh\<close>. A failed exchange keeps the lease, for the time of the cooldown.\<close>

definition refresh_failed :: "string \<Rightarrow> err \<Rightarrow> (('p, 's, 'z) tok_world_scheme, unit) io" where
  "refresh_failed owner e =
     io_try (lease_for refresh_failure_backoff owner) (\<lambda>held.
       io_bind (if held = Inr True then io_ret () else give_back owner) (\<lambda>_. io_fail (Wrap ''refresh token'' e)))"

definition refreshed_credential :: "timestamp \<Rightarrow> token_resp \<Rightarrow> credential" where
  "refreshed_credential now r = \<lparr>cr_access = rt_access r, cr_refresh = rt_refresh r,
     cr_expires = Some (now + wrap64 (10 ^ 9 * rt_expires_in r))\<rparr>"

definition complete_response :: "token_resp \<Rightarrow> bool" where
  "complete_response r = (rt_access r \<noteq> '''' \<and> rt_refresh r \<noteq> '''' \<and> 0 < rt_expires_in r)"

definition exchange_tokens :: "('p, 's) sdk_api \<Rightarrow> string \<Rightarrow> (('p, 's, 'z) tok_world_scheme, unit) io" where
  "exchange_tokens api owner =
     io_try (refresh_tokens api) (\<lambda>r. case r of
         Inl e \<Rightarrow> refresh_failed owner e
       | Inr resp \<Rightarrow>
           if \<not> complete_response resp then io_bind (give_back owner) (\<lambda>_. io_fail (Msg ''incomplete response''))
           else io_bind read_now (\<lambda>now.
             let c = refreshed_credential now resp
             in io_bind (store_credential c) (\<lambda>_. io_bind (set_credential c) (\<lambda>_. give_back owner))))"

definition ensure_fresh :: "('p, 's) sdk_api \<Rightarrow> (('p, 's, 'z) tok_world_scheme, unit) io" where
  "ensure_fresh api =
     io_bind the_client (\<lambda>k. case cr_expires (tc_credential k) of
         None \<Rightarrow> io_ret ()
       | Some expires \<Rightarrow>
           io_bind read_now (\<lambda>now.
             if expires - now > tc_ahead k then io_ret ()
             else io_bind (lease_for refresh_lease_duration (tc_owner k)) (\<lambda>acquired.
               if acquired then exchange_tokens api (tc_owner k)
               else io_bind next_polls (wait_refreshed api (cr_access (tc_credential k))))))"

section \<open>Requests\<close>

text \<open>\<open>before\<close> and \<open>after\<close>. A request waits for the rate limiter and a free slot; without one it waits until its
  context ends, and \<open>OutOfFuel\<close> stands for a wait that has not ended.\<close>

definition rate_wait :: "(('p, 's, 'z) tok_world_scheme, unit) io" where
  "rate_wait = (\<lambda>w. case tw_rate w of
       [] \<Rightarrow> (Inr (), w)
     | r # rest \<Rightarrow> (case r of None \<Rightarrow> Inr () | Some e \<Rightarrow> Inl e, w\<lparr>tw_rate := rest\<rparr>))"

definition take_slot :: "(('p, 's, 'z) tok_world_scheme, unit) io" where
  "take_slot = (\<lambda>w. if tc_slots (tw_client w) < tc_capacity (tw_client w)
     then (Inr (), w\<lparr>tw_client := (tw_client w)\<lparr>tc_slots := tc_slots (tw_client w) + 1\<rparr>\<rparr>)
     else (Inl (case w_ctx w of Some e \<Rightarrow> e | None \<Rightarrow> OutOfFuel), w))"

definition free_slot :: "(('p, 's, 'z) tok_world_scheme, unit) io" where
  "free_slot = on_client (\<lambda>k. k\<lparr>tc_slots := tc_slots k - 1\<rparr>)"

definition before_request :: "('p, 's) sdk_api \<Rightarrow> (('p, 's, 'z) tok_world_scheme, unit) io" where
  "before_request api =
     io_bind the_client (\<lambda>k.
       if \<not> tc_available k then io_fail (Msg ''unavailable'')
       else io_bind rate_wait (\<lambda>_. io_bind take_slot (\<lambda>_.
         io_try (ensure_fresh api) (\<lambda>r. case r of
             Inl e \<Rightarrow> io_bind free_slot (\<lambda>_. io_fail e)
           | Inr _ \<Rightarrow> io_ret ()))))"

definition after_request :: "(('p, 's, 'z) tok_world_scheme, unit) io" where
  "after_request = free_slot"

section \<open>Starting\<close>

definition credential_source :: "string \<Rightarrow> string \<Rightarrow> string" where
  "credential_source refresh auth = (if auth = '''' then refresh else refresh @ [char_of (0::nat)] @ auth)"

text \<open>\<open>newClient\<close>. The configuration gives the time ahead, the number of slots and the two tokens; \<open>owner\<close> is the
  random name of the process.\<close>

record token_config =
  tg_ahead :: int
  tg_capacity :: int
  tg_refresh :: string
  tg_auth :: string
  tg_owner :: string

definition capacity_of :: "int \<Rightarrow> nat" where
  "capacity_of n = (if n \<le> 0 then 2 else nat n)"

definition bare_client :: "token_config \<Rightarrow> 's client" where
  "bare_client g = \<lparr>tc_owner = tg_owner g, tc_ahead = tg_ahead g,
     tc_credential = \<lparr>cr_access = '''', cr_refresh = '''', cr_expires = None\<rparr>, tc_available = False, tc_sdk = None,
     tc_capacity = capacity_of (tg_capacity g), tc_slots = 0\<rparr>"

definition stored_or_seeded :: "token_config \<Rightarrow> (('p, 's, 'z) tok_world_scheme, credential option) io" where
  "stored_or_seeded g =
     io_try (on_creds (load_credential credential_provider)) (\<lambda>r. case r of
         Inr c \<Rightarrow> io_ret (Some c)
       | Inl e \<Rightarrow>
           if \<not> errors_is e ErrCredentialNotFound then io_fail (Wrap ''load credential'' e)
           else if tg_refresh g = '''' then io_ret None
           else let c = \<lparr>cr_access = tg_auth g, cr_refresh = tg_refresh g, cr_expires = Some 0\<rparr>
                in io_bind read_now (\<lambda>t.
                   io_bind (on_creds (seed_credential t credential_provider c)) (\<lambda>_. io_ret (Some c))))"

definition reconciled :: "token_config \<Rightarrow> credential \<Rightarrow> (('p, 's, 'z) tok_world_scheme, credential) io" where
  "reconciled g c =
     (if tg_refresh g = '''' then io_ret c
      else io_bind read_now (\<lambda>t.
        io_bind (wrap_err ''reconcile token'' (on_creds (reconcile_refresh_token t credential_provider (tg_refresh g)
          (hex_encode (sha256 (credential_source (tg_refresh g) (tg_auth g))))))) (\<lambda>replaced.
        if replaced then wrap_err ''reload credential'' (on_creds (load_credential credential_provider)) else io_ret c)))"

definition new_client :: "('p, 's) sdk_api \<Rightarrow> token_config \<Rightarrow> (('p, 's, 'z) tok_world_scheme, unit) io" where
  "new_client api g =
     io_bind (stored_or_seeded g) (\<lambda>stored. case stored of
         None \<Rightarrow> on_client (\<lambda>_. bare_client g)
       | Some c0 \<Rightarrow> io_bind (reconciled g c0) (\<lambda>c1.
           let c = (if tg_auth g \<noteq> '''' \<and> cr_access c1 = '''' then c1\<lparr>cr_access := tg_auth g\<rparr> else c1)
           in on_client (\<lambda>_. (bare_client g)\<lparr>tc_credential := c, tc_available := True,
                tc_sdk := Some (sk_new api (cr_access c) (cr_refresh c), True)\<rparr>)))"

text \<open>\<open>New\<close> and \<open>NewOptional\<close>: a client that cannot make a request is an error, or is switched off.\<close>

definition open_client :: "('p, 's) sdk_api \<Rightarrow> token_config \<Rightarrow> (('p, 's, 'z) tok_world_scheme, unit) io" where
  "open_client api g =
     io_bind (new_client api g) (\<lambda>_. io_bind the_client (\<lambda>k.
       if \<not> tc_available k then io_ret ()
       else io_bind (before_request api) (\<lambda>_. after_request)))"

definition open_optional :: "('p, 's) sdk_api \<Rightarrow> token_config \<Rightarrow> (('p, 's, 'z) tok_world_scheme, unit) io" where
  "open_optional api g =
     io_bind (new_client api g) (\<lambda>_. io_bind the_client (\<lambda>k.
       if \<not> tc_available k then io_ret ()
       else io_try (before_request api) (\<lambda>r. case r of
           Inl _ \<Rightarrow> on_client (\<lambda>k. k\<lparr>tc_available := False\<rparr>)
         | Inr _ \<Rightarrow> after_request)))"

section \<open>Changing the tokens\<close>

definition stored_tokens :: "(('p, 's, 'z) tok_world_scheme, credential) io" where
  "stored_tokens = io_try (on_creds (load_credential credential_provider)) (\<lambda>r. case r of
       Inr c \<Rightarrow> io_ret c
     | Inl e \<Rightarrow> if errors_is e ErrCredentialNotFound
         then io_ret \<lparr>cr_access = '''', cr_refresh = '''', cr_expires = None\<rparr> else io_fail e)"

definition candidate_of :: "credential \<Rightarrow> string option \<Rightarrow> string option \<Rightarrow> credential" where
  "candidate_of current refresh access =
     (let c = (case refresh of None \<Rightarrow> current | Some t \<Rightarrow> current\<lparr>cr_refresh := trim_space t\<rparr>)
      in case access of
           None \<Rightarrow> c
         | Some t \<Rightarrow> let a = trim_space t in c\<lparr>cr_access := a, cr_expires := (if a = cr_access current then cr_expires c else None)\<rparr>)"

definition call_user_info :: "('p, 's) sdk_api \<Rightarrow> string \<Rightarrow> 's \<Rightarrow> (('p, 's, 'z) tok_world_scheme, (err + probe) \<times> 's) io" where
  "call_user_info api access s = (\<lambda>w. case sk_user_info api access s (w_prov w) of
       (r, s', p) \<Rightarrow> (Inr (r, s'), w\<lparr>w_prov := p\<rparr>))"

text \<open>The access token is tried out unless it is known to be useless: whether it is invalid.\<close>

definition probe_token :: "('p, 's) sdk_api \<Rightarrow> string \<Rightarrow> 's \<Rightarrow> (('p, 's, 'z) tok_world_scheme, bool \<times> 's) io" where
  "probe_token api access s =
     io_bind (call_user_info api access s) (\<lambda>(r, s'). case r of
         Inl e \<Rightarrow> io_fail (Wrap ''verify access token'' e)
       | Inr p \<Rightarrow>
           let invalid = (pb_status p = 401 \<or> pb_code p = 99 \<or> sk_is_401 api (pb_code p))
           in if \<not> invalid \<and> (\<not> pb_state p \<or> pb_status p \<noteq> 200) then io_fail (Msg ''token not verified'')
              else io_ret (invalid, s'))"

text \<open>\<open>UpdateTokens\<close>. The exchange runs on a client of its own, which takes the place of the client meanwhile; requests are
  kept out by the locks.\<close>

definition exchange_candidate :: "('p, 's) sdk_api \<Rightarrow> credential \<Rightarrow> 's \<Rightarrow> (('p, 's, 'z) tok_world_scheme, credential \<times> 's) io" where
  "exchange_candidate api c s =
     io_bind the_client (\<lambda>k.
     io_bind (give_back (tc_owner k)) (\<lambda>_.
     io_bind (on_client (\<lambda>k. k\<lparr>tc_credential := c, tc_sdk := Some (s, False)\<rparr>)) (\<lambda>_.
     io_bind (ensure_fresh api) (\<lambda>_.
     io_bind the_client (\<lambda>t. io_ret (tc_credential t, case tc_sdk t of Some (s', _) \<Rightarrow> s' | None \<Rightarrow> s))))))"

definition save_access :: "credential \<Rightarrow> credential \<Rightarrow> (('p, 's, 'z) tok_world_scheme, unit) io" where
  "save_access current c = (if cr_access c \<noteq> cr_access current then store_credential c else io_ret ())"

definition check_candidate :: "('p, 's) sdk_api \<Rightarrow> bool \<Rightarrow> credential \<Rightarrow> (('p, 's, 'z) tok_world_scheme, bool \<times> 's) io" where
  "check_candidate api changed c =
     io_bind read_now (\<lambda>now.
       let useless = (cr_access c = '''' \<or> (case cr_expires c of None \<Rightarrow> False | Some t \<Rightarrow> t \<le> now));
           s = sk_new api (cr_access c) (cr_refresh c)
       in if \<not> changed \<and> \<not> useless then probe_token api (cr_access c) s else io_ret (useless, s))"

definition install_client :: "credential \<Rightarrow> 's \<Rightarrow> (('p, 's, 'z) tok_world_scheme, unit) io" where
  "install_client c s = on_client (\<lambda>k. k\<lparr>tc_credential := c, tc_sdk := Some (s, True), tc_available := True\<rparr>)"

definition update_tokens :: "('p, 's) sdk_api \<Rightarrow> string option \<Rightarrow> string option \<Rightarrow> (('p, 's, 'z) tok_world_scheme, credential \<times> bool) io" where
  "update_tokens api refresh access =
     io_bind stored_tokens (\<lambda>current.
       let c = candidate_of current refresh access; changed = (cr_refresh c \<noteq> cr_refresh current)
       in if cr_refresh c = '''' then io_fail (Msg ''refresh token required'')
          else io_bind (save_access current c) (\<lambda>_.
            io_bind (check_candidate api changed c) (\<lambda>(invalid, s).
              if changed \<or> invalid then
                (let c' = c\<lparr>cr_expires := Some 0\<rparr>
                 in io_bind (store_credential c') (\<lambda>_. io_bind (exchange_candidate api c' s) (\<lambda>(c'', s').
                    io_bind (install_client c'' s') (\<lambda>_. io_ret (c'', True)))))
              else io_bind (save_access current c) (\<lambda>_.
                   io_bind (install_client c s) (\<lambda>_. io_ret (c, False))))))"

end
