(* ===== verification/Token_Facts.thy ===== *)
theory Token_Facts
  imports Token_Client
begin

text \<open>
  What the client of the cloud promises about its tokens: after a request was let through its token is fresh or is
  the stored one, submitted tokens are kept, and what the cooldown after a failed exchange does and does not
  stop.
\<close>

section \<open>Running the steps\<close>

lemma on_creds_frame [simp]:
  "tw_client (snd (on_creds m w)) = tw_client w" "w_prov (snd (on_creds m w)) = w_prov w"
  "tw_calls (snd (on_creds m w)) = tw_calls w" "tw_polls (snd (on_creds m w)) = tw_polls w"
  "w_now (snd (on_creds m w)) = w_now w" "tw_creds (snd (on_creds m w)) = snd (m (tw_creds w))"
  "fst (on_creds m w) = fst (m (tw_creds w))"
  by (simp_all add: on_creds_def split: prod.splits)

lemma on_client_run [simp]: "on_client f w = (Inr (), w\<lparr>tw_client := f (tw_client w)\<rparr>)"
  by (simp add: on_client_def)

lemma the_client_run [simp]: "the_client w = (Inr (tw_client w), w)"
  by (simp add: the_client_def)

lemma read_now_token:
  assumes "read_now w = (Inr t, w')"
  shows "tw_client w' = tw_client w" "tw_creds w' = tw_creds w" "tw_calls w' = tw_calls w" "tw_polls w' = tw_polls w"
    "w_prov w' = w_prov w" "w_now w \<le> w_now w'" "t = w_now w'"
  using assms by (auto simp: read_now_def split: list.splits)

lemma read_then: "read_now w = (Inr t, w1) \<Longrightarrow> io_bind read_now f w = f t w1"
  by (rule io_bind_Inr)

lemma the_then [simp]: "io_bind the_client f w = f (tw_client w) w"
  by (simp add: io_bind_def)

text \<open>What a step may do when nobody else touches the tables.\<close>

lemma store_credential_run:
  "\<exists>t w1. read_now w = (Inr t, w1) \<and>
     store_credential c w = (Inr (), w1\<lparr>tw_creds := (tw_creds w)\<lparr>cd_rows := (cd_rows (tw_creds w))(credential_provider \<mapsto> credential_mk t c)\<rparr>\<rparr>)"
proof -
  obtain t w1 where r: "read_now w = (Inr t, w1)" using read_now_total by blast
  then show ?thesis
    using read_now_token(2) [OF r] by (simp add: store_credential_def read_then [OF r] on_creds_def save_credential_def)
qed

definition stored_as :: "credential \<Rightarrow> cred_db \<Rightarrow> bool" where
  "stored_as c d \<longleftrightarrow> (\<exists>s. fst (load_credential credential_provider d) = Inr s \<and> cr_access s = cr_access c \<and> cr_refresh s = cr_refresh c)"

lemma stored_as_row:
  "stored_as c d \<longleftrightarrow> (\<exists>r. cd_rows d credential_provider = Some r \<and> cd_access r = cr_access c \<and> cd_refresh r = cr_refresh c)"
  by (auto simp: stored_as_def load_credential_def split: option.splits)

lemma store_credential_stored: "stored_as c (tw_creds (snd (store_credential c w)))"
  using store_credential_run [of w c] by (auto simp: stored_as_row credential_mk_def)

lemma give_back_stored [simp]: "cd_rows (tw_creds (snd (give_back a w))) = cd_rows (tw_creds w)"
  by (simp add: give_back_def release_lease_def split: option.splits)

lemma lease_for_run:
  "\<exists>t now w1 r d. lease_for n a w = (r, w1) \<and> acquire_lease now (refresh_lease credential_provider) a (t + n) (tw_creds w) = (r, d) \<and>
     w_now w \<le> t \<and> t \<le> now \<and> tw_creds w1 = d \<and> tw_client w1 = tw_client w \<and> w_prov w1 = w_prov w \<and>
     tw_calls w1 = tw_calls w \<and> tw_polls w1 = tw_polls w \<and> now = w_now w1"
proof -
  obtain t v where v: "read_now w = (Inr t, v)" using read_now_total by blast
  obtain now u where u: "read_now v = (Inr now, u)" using read_now_total by blast
  note rv = read_now_token [OF v] and ru = read_now_token [OF u]
  obtain r d where d: "acquire_lease now (refresh_lease credential_provider) a (t + n) (tw_creds w) = (r, d)" by fastforce
  show ?thesis
    by (intro exI [of _ t] exI [of _ now] exI [of _ "u\<lparr>tw_creds := d\<rparr>"] exI [of _ r] exI [of _ d])
      (use rv ru d in \<open>simp add: lease_for_def read_then [OF v] read_then [OF u] on_creds_def\<close>)
qed

section \<open>A request has a fresh token\<close>

lemma wait_refreshed_stored:
  "wait_refreshed api a ps w = (Inr (), w') \<Longrightarrow> stored_as (tc_credential (tw_client w')) (tw_creds w')"
proof (induction ps arbitrary: w)
  case Nil
  then show ?case
    by (subst (asm) wait_refreshed.simps)
      (auto simp: io_try_def on_creds_def load_credential_def take_over_def stored_as_row split: prod.splits sum.splits option.splits if_splits)
next
  case (Cons p ps)
  show ?case
  proof (cases "\<exists>ops. p = PollTick ops \<and> \<not> (case fst (load_credential credential_provider (tw_creds w)) of Inr c \<Rightarrow> cr_access c \<noteq> a | Inl _ \<Rightarrow> False)")
    case True
    then obtain ops where p: "p = PollTick ops"
      and same: "\<not> (case fst (load_credential credential_provider (tw_creds w)) of Inr c \<Rightarrow> cr_access c \<noteq> a | Inl _ \<Rightarrow> False)" by blast
    have d: "snd (load_credential credential_provider (tw_creds w)) = tw_creds w"
      by (simp add: load_credential_def split: option.splits)
    have "wait_refreshed api a (p # ps) w = wait_refreshed api a ps (w\<lparr>tw_creds := fold exec_cred ops (tw_creds w)\<rparr>)"
      using same d by (subst wait_refreshed.simps) (auto simp: io_try_def on_creds_def io_bind_def p split: prod.splits)
    with Cons show ?thesis by metis
  next
    case False
    with Cons.prems show ?thesis
      by (subst (asm) wait_refreshed.simps)
        (cases p; auto simp: io_try_def on_creds_def load_credential_def take_over_def stored_as_row
          split: prod.splits sum.splits option.splits if_splits)
  qed
qed

lemma exchange_tokens_stored:
  assumes "exchange_tokens api a w = (Inr (), w')"
  shows "stored_as (tc_credential (tw_client w')) (tw_creds w')"
proof -
  obtain r w1 where r: "refresh_tokens api w = (r, w1)" by fastforce
  have failed: "refresh_failed a e v \<noteq> (Inr (), v')" for e v v'
    by (auto simp: refresh_failed_def io_try_def io_bind_def split: prod.splits sum.splits if_splits)
  obtain x where x: "r = Inr x" using assms failed by (cases r) (auto simp: exchange_tokens_def io_try_run [where m = "refresh_tokens api" and w = w, OF r])
  obtain now w2 where now: "read_now w1 = (Inr now, w2)" using read_now_total by blast
  let ?c = "refreshed_credential now x"
  obtain w3 where w3: "store_credential ?c w2 = (Inr (), w3)" using store_credential_run [of w2] by blast
  have st: "stored_as ?c (tw_creds w3)" using store_credential_stored [of ?c w2] w3 by simp
  have "complete_response x"
    using assms by (auto simp: exchange_tokens_def io_try_run [where m = "refresh_tokens api" and w = w, OF r] x io_bind_def split: prod.splits sum.splits if_splits)
  then have "give_back a (w3\<lparr>tw_client := (tw_client w3)\<lparr>tc_credential := ?c\<rparr>\<rparr>) = (Inr (), w')"
    using assms by (simp add: exchange_tokens_def io_try_run [where m = "refresh_tokens api" and w = w, OF r] x Let_def set_credential_def io_bind_def now w3)
  then have "tw_client w' = (tw_client w3)\<lparr>tc_credential := ?c\<rparr>" "cd_rows (tw_creds w') = cd_rows (tw_creds w3)"
    using give_back_stored [of a "w3\<lparr>tw_client := (tw_client w3)\<lparr>tc_credential := ?c\<rparr>\<rparr>"]
    by (auto simp: give_back_def on_creds_def split: prod.splits)
  then show ?thesis using st by (simp add: stored_as_row)
qed

definition fresh_at :: "timestamp \<Rightarrow> 's client \<Rightarrow> bool" where
  "fresh_at now k \<longleftrightarrow> (case cr_expires (tc_credential k) of None \<Rightarrow> True | Some t \<Rightarrow> now + tc_ahead k < t)"

lemma ensure_fresh_result:
  assumes "ensure_fresh api w = (Inr (), w')"
  shows "(tw_client w' = tw_client w \<and> tw_creds w' = tw_creds w \<and> fresh_at (w_now w') (tw_client w')) \<or>
    stored_as (tc_credential (tw_client w')) (tw_creds w')"
proof (cases "cr_expires (tc_credential (tw_client w))")
  case None
  with assms show ?thesis by (simp add: ensure_fresh_def io_bind_def fresh_at_def)
next
  case (Some t)
  obtain now w1 where now: "read_now w = (Inr now, w1)" using read_now_total by blast
  note rn = read_now_token [OF now]
  show ?thesis
  proof (cases "t - now > tc_ahead (tw_client w)")
    case True
    with assms Some have "w' = w1" by (simp add: ensure_fresh_def the_then read_then [OF now])
    with True Some rn show ?thesis by (simp add: fresh_at_def)
  next
    case False
    obtain b w2 where l: "lease_for refresh_lease_duration (tc_owner (tw_client w)) w1 = (b, w2)" by fastforce
    have run: "(case b of Inl e \<Rightarrow> (Inl e, w2) | Inr acquired \<Rightarrow> (if acquired then exchange_tokens api (tc_owner (tw_client w))
        else io_bind next_polls (wait_refreshed api (cr_access (tc_credential (tw_client w))))) w2) = (Inr (), w')"
      using assms Some False
      by (simp add: ensure_fresh_def the_then read_then [OF now]) (simp add: io_bind_def l)
    then obtain acquired where b: "b = Inr acquired" by (cases b) auto
    show ?thesis
    proof (cases acquired)
      case True
      with run b exchange_tokens_stored show ?thesis by fastforce
    next
      case False
      with run b obtain ps w3 where "wait_refreshed api (cr_access (tc_credential (tw_client w))) ps w3 = (Inr (), w')"
        by (auto simp: io_bind_def next_polls_def split: list.splits)
      from wait_refreshed_stored [OF this] show ?thesis by simp
    qed
  qed
qed

text \<open>Nothing the client does about its tokens touches its slots.\<close>

definition slots_of :: "('p, 's, 'z) tok_world_scheme \<Rightarrow> nat \<times> nat \<times> bool" where
  "slots_of w = (tc_slots (tw_client w), tc_capacity (tw_client w), tc_available (tw_client w))"

lemma keeps_slots_creds [keeps_intros]: "keeps (\<lambda>w. slots_of w = x) (on_creds m)"
  by (rule keepsI) (simp add: slots_of_def)

lemma keeps_slots_now [keeps_intros]: "keeps (\<lambda>w. slots_of w = x) read_now"
  by (rule keepsI) (simp add: slots_of_def read_now_def split: list.splits)

lemma keeps_slots_set [keeps_intros]: "keeps (\<lambda>w. slots_of w = x) (set_credential c)"
  by (rule keepsI) (simp add: slots_of_def set_credential_def)

lemma keeps_slots_take [keeps_intros]: "keeps (\<lambda>w. slots_of w = x) (take_over api c)"
  by (rule keepsI) (simp add: slots_of_def take_over_def)

lemma keeps_slots_sdk [keeps_intros]: "keeps (\<lambda>w. slots_of w = x) (on_client (\<lambda>k. k\<lparr>tc_sdk := y\<rparr>))"
  by (rule keepsI) (simp add: slots_of_def)

lemma keeps_slots_client [keeps_intros]: "keeps (\<lambda>w. slots_of w = x) the_client"
  by (rule keepsI) simp

lemma keeps_slots_others [keeps_intros]: "keeps (\<lambda>w. slots_of w = x) other_processes"
  by (rule keepsI) (simp add: slots_of_def other_processes_def split: list.splits)

lemma keeps_slots_call [keeps_intros]: "keeps (\<lambda>w. slots_of w = x) (call_refresh api s)"
  by (rule keepsI) (simp add: slots_of_def call_refresh_def split: prod.splits)

lemma keeps_slots_polls [keeps_intros]: "keeps (\<lambda>w. slots_of w = x) next_polls"
  by (rule keepsI) (simp add: slots_of_def next_polls_def split: list.splits)

lemma keeps_slots_reports [keeps_intros]: "keeps (\<lambda>w. slots_of w = x) (token_reports rs)"
proof (induction rs)
  case Nil
  show ?case unfolding token_reports.simps by (rule keeps_ret)
next
  case (Cons r rs)
  then show ?case
    by (cases r) (simp only: token_reports.simps Let_def store_credential_def; intro keeps_intros)
qed

lemma keeps_slots_wait [keeps_intros]: "keeps (\<lambda>w. slots_of w = x) (wait_refreshed api a ps)"
proof (induction ps)
  case Nil
  show ?case by (subst wait_refreshed.simps) (intro keeps_intros; auto split: sum.split intro: keeps_intros)
next
  case (Cons p ps)
  then show ?case
    by (subst wait_refreshed.simps) (intro keeps_intros; auto split: sum.split lease_poll.split intro!: keeps_intros)
qed

lemma keeps_slots_refresh [keeps_intros]: "keeps (\<lambda>w. slots_of w = x) (refresh_tokens api)"
  unfolding refresh_tokens_def
  by (intro keeps_intros) (auto split: option.split prod.split intro!: keeps_intros)

lemma keeps_slots_exchange [keeps_intros]: "keeps (\<lambda>w. slots_of w = x) (exchange_tokens api a)"
  unfolding exchange_tokens_def refresh_failed_def lease_for_def give_back_def store_credential_def Let_def
  by (intro keeps_intros) (auto split: sum.split intro!: keeps_intros)

lemma keeps_slots_fresh: "keeps (\<lambda>w. slots_of w = x) (ensure_fresh api)"
  unfolding ensure_fresh_def lease_for_def
  by (intro keeps_intros) (auto split: option.split intro!: keeps_intros)

lemma before_request_result:
  fixes w :: "('p, 's, 'z) tok_world_scheme"
  assumes "before_request api w = (r, w')"
  shows "case r of
      Inr _ \<Rightarrow> tc_available (tw_client w) \<and> tc_slots (tw_client w') = tc_slots (tw_client w) + 1 \<and>
        tc_slots (tw_client w') \<le> tc_capacity (tw_client w') \<and>
        (fresh_at (w_now w') (tw_client w') \<or> stored_as (tc_credential (tw_client w')) (tw_creds w'))
    | Inl e \<Rightarrow> tc_slots (tw_client w') = tc_slots (tw_client w)"
proof -
  obtain r1 w1 where r1: "rate_wait w = (r1, w1)" by fastforce
  have k1: "tw_client w1 = tw_client w" using r1 by (auto simp: rate_wait_def split: list.splits)
  obtain r2 w2 where r2: "take_slot w1 = (r2, w2)" by fastforce
  obtain r3 w3 where r3: "ensure_fresh api w2 = (r3, w3)" by fastforce
  have k3: "slots_of w3 = slots_of w2" using keepsD [OF keeps_slots_fresh refl r3] .
  show ?thesis
  proof (cases "tc_available (tw_client w) \<and> (\<exists>x. r1 = Inr x) \<and> (\<exists>x. r2 = Inr x)")
    case False
    with assms have "(\<exists>e. r = Inl e) \<and> tw_client w' = tw_client w"
      using r1 r2 k1
      by (cases r1; cases r2) (auto simp: before_request_def io_bind_def take_slot_def split: if_splits)
    then show ?thesis by auto
  next
    case True
    then have w2: "w2 = w1\<lparr>tw_client := (tw_client w1)\<lparr>tc_slots := tc_slots (tw_client w1) + 1\<rparr>\<rparr>"
        "tc_slots (tw_client w1) < tc_capacity (tw_client w1)"
      using r2 by (auto simp: take_slot_def split: if_splits)
    have run: "(r, w') = (case r3 of Inl e \<Rightarrow> (Inl e, w3\<lparr>tw_client := (tw_client w3)\<lparr>tc_slots := tc_slots (tw_client w3) - 1\<rparr>\<rparr>)
        | Inr _ \<Rightarrow> (Inr (), w3))"
      using assms True r1 r2 r3 by (auto simp: before_request_def io_bind_def io_try_def free_slot_def split: sum.splits)
    have s3: "tc_slots (tw_client w3) = tc_slots (tw_client w) + 1" "tc_capacity (tw_client w3) = tc_capacity (tw_client w)"
      using k3 w2 k1 by (simp_all add: slots_of_def)
    show ?thesis
    proof (cases r3)
      case (Inl e)
      with run s3 show ?thesis by simp
    next
      case (Inr x)
      with run s3 True w2 k1 ensure_fresh_result [of api w2 w3] r3 show ?thesis by auto
    qed
  qed
qed


section \<open>The cooldown\<close>

text \<open>The package reports no tokens when the exchange fails.\<close>

definition quiet_failures :: "('p, 's) sdk_api \<Rightarrow> bool" where
  "quiet_failures api \<longleftrightarrow> (\<forall>s p. case sk_refresh api s p of (reports, r, _) \<Rightarrow> (\<exists>e. r = Inl e) \<longrightarrow> reports = [])"

lemma token_reports_total: "\<exists>v. token_reports rs w = (Inr (), v)"
proof (induction rs arbitrary: w)
  case (Cons q rs)
  obtain a b where q: "q = (a, b)" by fastforce
  obtain w1 where "store_credential \<lparr>cr_access = a, cr_refresh = b, cr_expires = None\<rparr> w = (Inr (), w1)"
    using store_credential_run [of w] by blast
  with Cons show ?case by (simp add: q Let_def io_bind_def set_credential_def)
qed simp

lemma refresh_tokens_failed:
  assumes "quiet_failures api" and "refresh_tokens api w = (Inl e, w')" and "tw_calls w = []"
  shows "tw_creds w' = tw_creds w \<and> w_now w' = w_now w \<and> tc_credential (tw_client w') = tc_credential (tw_client w) \<and>
    tc_owner (tw_client w') = tc_owner (tw_client w) \<and> tc_ahead (tw_client w') = tc_ahead (tw_client w)"
proof (cases "tc_sdk (tw_client w)")
  case None
  with assms(2) show ?thesis by (auto simp: refresh_tokens_def)
next
  case (Some x)
  obtain s reporting where x: "x = (s, reporting)" by fastforce
  obtain reports r s' p where c: "sk_refresh api s (w_prov w) = (reports, r, s', p)" by (metis prod_cases4)
  define w1 where "w1 = w\<lparr>w_prov := p, tw_client := (tw_client w)\<lparr>tc_sdk := Some (s', reporting)\<rparr>\<rparr>"
  have run: "io_bind (if reporting then token_reports reports else io_ret ()) (\<lambda>_. io_of r) w1 = (Inl e, w')"
    using assms(2,3) Some x c by (simp add: refresh_tokens_def call_refresh_def other_processes_def w1_def)
      (cases reporting; simp add: io_bind_def)
  have "\<exists>e'. r = Inl e'"
  proof -
    obtain v where "token_reports reports w1 = (Inr (), v)" using token_reports_total by blast
    with run show ?thesis by (cases r) (auto simp: io_bind_def split: if_splits)
  qed
  moreover have "case sk_refresh api s (w_prov w) of (reports, r, _) \<Rightarrow> (\<exists>e. r = Inl e) \<longrightarrow> reports = []"
    by (rule spec [OF spec [OF assms(1) [unfolded quiet_failures_def]]])
  ultimately have "reports = []" by (simp add: c)
  with run have "w' = w1" by (auto simp: io_bind_def split: if_splits)
  then show ?thesis by (simp add: w1_def)
qed

text \<open>What a failed exchange leaves: the lease, for the time of the cooldown, and the credential.\<close>

lemma lease_for_own:
  assumes "lease_for n a w = (Inr True, w')"
  shows "\<exists>t \<ge> w_now w. lease_holder (tw_creds w') (refresh_lease credential_provider) = Some (a, format_time (t + n))"
proof -
  obtain t now r d where l: "acquire_lease now (refresh_lease credential_provider) a (t + n) (tw_creds w) = (r, d)"
      "w_now w \<le> t" "tw_creds w' = d" and r: "lease_for n a w = (r, w')"
    using lease_for_run [of n a w] assms by auto
  have "r = Inr True" using r assms by simp
  then have "le_rows d (refresh_lease credential_provider) = Some \<lparr>le_owner = a, le_expires = format_time (t + n)\<rparr>"
    using l(1) by (auto simp: acquire_lease_def Let_def split: option.splits if_splits)
  with l(2,3) show ?thesis by (auto simp: lease_holder_def)
qed

lemma lease_for_mine:
  assumes "lease_holder (tw_creds w) (refresh_lease credential_provider) = Some (a, u)"
  shows "\<exists>w'. lease_for n a w = (Inr True, w')"
proof -
  obtain t now w1 r d where l: "acquire_lease now (refresh_lease credential_provider) a (t + n) (tw_creds w) = (r, d)"
      and r: "lease_for n a w = (r, w1)"
    using lease_for_run [of n a w] by blast
  have "r = Inr True" using l assms by (auto simp: lease_holder_def acquire_lease_def Let_def split: if_splits)
  with r show ?thesis by blast
qed

lemma give_back_run: "\<exists>v. give_back a w = (Inr (), v) \<and> w_prov v = w_prov w \<and> tw_client v = tw_client w"
  by (simp add: give_back_def on_creds_def release_lease_def)

lemma refresh_failed_result: "fst (refresh_failed a e w) = Inl (Wrap ''refresh token'' e)"
proof -
  obtain r v where r: "lease_for refresh_failure_backoff a w = (r, v)" by fastforce
  obtain u where "give_back a v = (Inr (), u)" using give_back_run by blast
  then show ?thesis by (simp add: refresh_failed_def io_try_def r io_bind_def)
qed

lemma exchange_tokens_failed:
  assumes r: "refresh_tokens api w = (r, w1)" and "exchange_tokens api a w = (Inl (Wrap ''refresh token'' e), w')"
  shows "r = Inl e \<and> refresh_failed a e w1 = (Inl (Wrap ''refresh token'' e), w')"
proof (cases r)
  case (Inl e')
  then have "refresh_failed a e' w1 = (Inl (Wrap ''refresh token'' e), w')"
    using assms(2) by (simp add: exchange_tokens_def io_try_def r)
  with refresh_failed_result [of a e' w1] Inl show ?thesis by simp
next
  case (Inr resp)
  obtain now w2 where now: "read_now w1 = (Inr now, w2)" using read_now_total by blast
  obtain w3 where w3: "store_credential (refreshed_credential now resp) w2 = (Inr (), w3)" using store_credential_run [of w2] by blast
  obtain u where "give_back a w1 = (Inr (), u)" using give_back_run by blast
  moreover obtain v where "give_back a (w3\<lparr>tw_client := (tw_client w3)\<lparr>tc_credential := refreshed_credential now resp\<rparr>\<rparr>) = (Inr (), v)"
    using give_back_run by blast
  ultimately show ?thesis
    using assms(2) by (simp add: exchange_tokens_def io_try_def r Inr io_bind_def now Let_def w3 set_credential_def split: if_splits)
qed

text \<open>The cooldown after a failed exchange stops the other processes but not the one that failed: for ten minutes nobody
  else gets the lease, while the next request of the same client tries to exchange the tokens again at once,
  because a lease is always granted to the owner it already has. (The message the code prints then promises that no
  attempt is made in that time.)\<close>

lemma failed_refresh_is_retried_at_once:
  fixes w :: "('p, 's, 'z) tok_world_scheme"
  assumes quiet: "quiet_failures api" "tw_calls w = []" and failed: "ensure_fresh api w = (Inl (Wrap ''refresh token'' e), w')"
    and free: "lease_holder (tw_creds w) (refresh_lease credential_provider) = None"
  shows "(\<forall>b now until. b \<noteq> tc_owner (tw_client w) \<longrightarrow> now \<le> w_now w + refresh_failure_backoff \<longrightarrow>
      fst (acquire_lease now (refresh_lease credential_provider) b until (tw_creds w')) = Inr False) \<and>
    (\<exists>v. ensure_fresh api w' = exchange_tokens api (tc_owner (tw_client w)) v \<and> w_prov v = w_prov w')"
proof -
  let ?k = "tw_client w" and ?lease = "refresh_lease credential_provider"
  obtain t where t: "cr_expires (tc_credential ?k) = Some t"
    using failed by (cases "cr_expires (tc_credential ?k)") (auto simp: ensure_fresh_def)
  obtain now w1 where now: "read_now w = (Inr now, w1)" using read_now_total by blast
  note r1 = read_now_token [OF now]
  have due: "\<not> t - now > tc_ahead ?k" using failed t by (auto simp: ensure_fresh_def read_then [OF now])
  obtain b w2 where l: "lease_for refresh_lease_duration (tc_owner ?k) w1 = (b, w2)" by fastforce
  have run: "(case b of Inl e \<Rightarrow> (Inl e, w2) | Inr acquired \<Rightarrow> (if acquired then exchange_tokens api (tc_owner ?k)
      else io_bind next_polls (wait_refreshed api (cr_access (tc_credential ?k)))) w2) = (Inl (Wrap ''refresh token'' e), w')"
    using failed t due by (simp add: ensure_fresh_def read_then [OF now]) (simp add: io_bind_def l)
  have b: "b = Inr True"
  proof -
    have "lease_holder (tw_creds w1) ?lease = None" using free r1 by simp
    then show ?thesis
      using lease_for_run [of refresh_lease_duration "tc_owner ?k" w1] l
      by (auto simp: acquire_lease_def lease_holder_def Let_def)
  qed
  obtain s2 where s2: "w_now w1 \<le> s2" "lease_holder (tw_creds w2) ?lease = Some (tc_owner ?k, format_time (s2 + refresh_lease_duration))"
    using lease_for_own [OF l [unfolded b]] by blast
  have k2: "tw_client w2 = ?k" "tw_calls w2 = []" "w_now w1 \<le> w_now w2"
    using lease_for_run [of refresh_lease_duration "tc_owner ?k" w1] l r1 quiet(2) by auto
  obtain r w3 where r: "refresh_tokens api w2 = (r, w3)" by fastforce
  have x: "r = Inl e" "refresh_failed (tc_owner ?k) e w3 = (Inl (Wrap ''refresh token'' e), w')"
    using exchange_tokens_failed [OF r] run b by simp_all
  have k3: "tw_creds w3 = tw_creds w2" "w_now w3 = w_now w2" "tc_credential (tw_client w3) = tc_credential ?k"
      "tc_owner (tw_client w3) = tc_owner ?k" "tc_ahead (tw_client w3) = tc_ahead ?k"
    using refresh_tokens_failed [OF quiet(1) r [unfolded x(1)]] k2 by simp_all
  obtain w4 where w4: "lease_for refresh_failure_backoff (tc_owner ?k) w3 = (Inr True, w4)"
    using lease_for_mine s2(2) unfolding k3(1) [symmetric] by blast
  have w': "w' = w4" using x(2) by (simp add: refresh_failed_def io_try_def w4)
  obtain s4 where s4: "w_now w3 \<le> s4"
      "lease_holder (tw_creds w4) ?lease = Some (tc_owner ?k, format_time (s4 + refresh_failure_backoff))"
    using lease_for_own [OF w4] by blast
  have k4: "tw_client w4 = tw_client w3" "w_now w3 \<le> w_now w4"
    using lease_for_run [of refresh_failure_backoff "tc_owner ?k" w3] w4 by auto
  have others: "fst (acquire_lease now (refresh_lease credential_provider) b until (tw_creds w')) = Inr False"
    if "b \<noteq> tc_owner ?k" "now \<le> w_now w + refresh_failure_backoff" for b now until
  proof -
    have "format_time now \<le> format_time (s4 + refresh_failure_backoff)"
      using that(2) s4(1) k3(2) k2(3) r1(6) by (intro format_time_mono) simp
    with s4(2) that(1) show ?thesis by (auto simp: w' lease_holder_def acquire_lease_def)
  qed
  obtain now5 w5 where now5: "read_now w' = (Inr now5, w5)" using read_now_total by blast
  note r5 = read_now_token [OF now5]
  have "lease_holder (tw_creds w5) ?lease = Some (tc_owner ?k, format_time (s4 + refresh_failure_backoff))"
    using s4(2) r5(2) by (simp add: w')
  then obtain w6 where w6: "lease_for refresh_lease_duration (tc_owner ?k) w5 = (Inr True, w6)" using lease_for_mine by blast
  have p6: "w_prov w6 = w_prov w5" using lease_for_run [of refresh_lease_duration "tc_owner ?k" w5] w6 by auto
  have "\<not> t - now5 > tc_ahead ?k" using due r1(6,7) k2(3) k3(2) k4(2) r5(6,7) by (simp add: w')
  then have "ensure_fresh api w' = exchange_tokens api (tc_owner ?k) w6"
    using t k3(3-5) k4(1) by (simp add: ensure_fresh_def w') (simp add: io_bind_def now5 [unfolded w'] w6)
  with others p6 r5(5) show ?thesis by auto
qed

section \<open>Changing the tokens\<close>

text \<open>No other process touches the tables meanwhile.\<close>

definition alone :: "('p, 's, 'z) tok_world_scheme \<Rightarrow> bool" where
  "alone w \<longleftrightarrow> tw_calls w = [] \<and>
     (\<forall>ps \<in> set (tw_polls w). \<forall>p \<in> set ps. case p of PollTick ops \<Rightarrow> ops = [] | PollDone _ \<Rightarrow> True)"

definition quiet_rows :: "(string \<Rightarrow> credential_row option) \<Rightarrow> ('p, 's, 'z) tok_world_scheme \<Rightarrow> bool" where
  "quiet_rows R w \<longleftrightarrow> alone w \<and> cd_rows (tw_creds w) = R \<and> (\<exists>s. tc_sdk (tw_client w) = Some (s, False))"

lemma quiet_lease [keeps_intros]: "keeps (quiet_rows R) (lease_for n a)"
proof (rule keepsI)
  fix w :: "('a, 'b, 'c) tok_world_scheme"
  assume q: "quiet_rows R w"
  obtain t now w1 r d where l: "lease_for n a w = (r, w1)"
    "acquire_lease now (refresh_lease credential_provider) a (t + n) (tw_creds w) = (r, d)" "tw_creds w1 = d"
    "tw_client w1 = tw_client w" "tw_calls w1 = tw_calls w" "tw_polls w1 = tw_polls w"
    using lease_for_run [of n a w] by blast
  have "cd_rows d = cd_rows (tw_creds w)"
    using l(2) by (auto simp: acquire_lease_def Let_def split: option.splits if_splits)
  with q l show "quiet_rows R (snd (lease_for n a w))" by (simp add: quiet_rows_def alone_def)
qed

lemma quiet_give_back [keeps_intros]: "keeps (quiet_rows R) (give_back a)"
  by (rule keepsI) (simp add: quiet_rows_def alone_def give_back_def release_lease_def split: option.splits)

lemma quiet_refresh [keeps_intros]: "keeps (quiet_rows R) (refresh_tokens api)"
proof (rule keepsI)
  fix w :: "('a, 'b, 'c) tok_world_scheme"
  assume q: "quiet_rows R w"
  then obtain s where s: "tc_sdk (tw_client w) = Some (s, False)" by (auto simp: quiet_rows_def)
  obtain reports r s' p where c: "sk_refresh api s (w_prov w) = (reports, r, s', p)" by (metis prod_cases4)
  have "refresh_tokens api w = (r, w\<lparr>w_prov := p, tw_client := (tw_client w)\<lparr>tc_sdk := Some (s', False)\<rparr>\<rparr>)"
    using q by (simp add: refresh_tokens_def s call_refresh_def c other_processes_def quiet_rows_def alone_def io_bind_def)
  with q show "quiet_rows R (snd (refresh_tokens api w))" by (simp add: quiet_rows_def alone_def)
qed

lemma quiet_failed [keeps_intros]: "keeps (quiet_rows R) (refresh_failed a e)"
  unfolding refresh_failed_def by (intro keeps_intros)

lemma quiet_wait:
  "quiet_rows R w \<Longrightarrow> \<forall>p \<in> set ps. case p of PollTick ops \<Rightarrow> ops = [] | PollDone _ \<Rightarrow> True \<Longrightarrow>
    quiet_rows R (snd (wait_refreshed api a ps w))"
proof (induction ps)
  case Nil
  then show ?case
    by (subst wait_refreshed.simps) (auto simp: io_try_def on_creds_def load_credential_def take_over_def quiet_rows_def alone_def split: option.splits)
next
  case (Cons p ps)
  have w: "w\<lparr>tw_creds := tw_creds w\<rparr> = w" by simp
  from Cons show ?case
    by (subst wait_refreshed.simps)
      (auto simp: io_try_def io_bind_def on_creds_def load_credential_def take_over_def quiet_rows_def alone_def split: option.splits lease_poll.splits)
qed

lemma quiet_polls:
  assumes "next_polls w = (Inr ps, w1)" and "quiet_rows R w"
  shows "quiet_rows R w1 \<and> (\<forall>p \<in> set ps. case p of PollTick ops \<Rightarrow> ops = [] | PollDone _ \<Rightarrow> True)"
  using assms by (auto simp: next_polls_def quiet_rows_def alone_def split: list.splits)

lemma exchange_error_rows:
  assumes "quiet_rows R w" and "exchange_tokens api a w = (Inl e, w')"
  shows "quiet_rows R w'"
proof -
  obtain r w1 where r: "refresh_tokens api w = (r, w1)" by fastforce
  have q1: "quiet_rows R w1" using keepsD [OF quiet_refresh assms(1) r] .
  show ?thesis
  proof (cases r)
    case (Inl e')
    then have "refresh_failed a e' w1 = (Inl e, w')" using assms(2) by (simp add: exchange_tokens_def io_try_def r)
    then show ?thesis using keepsD [OF quiet_failed q1] by blast
  next
    case (Inr resp)
    obtain now w2 where now: "read_now w1 = (Inr now, w2)" using read_now_total by blast
    obtain w3 where w3: "store_credential (refreshed_credential now resp) w2 = (Inr (), w3)" using store_credential_run [of w2] by blast
    obtain u where u: "give_back a w1 = (Inr (), u)" using give_back_run by blast
    moreover obtain v where "give_back a (w3\<lparr>tw_client := (tw_client w3)\<lparr>tc_credential := refreshed_credential now resp\<rparr>\<rparr>) = (Inr (), v)"
      using give_back_run by blast
    ultimately have "w' = u"
      using assms(2) by (simp add: exchange_tokens_def io_try_def r Inr io_bind_def now Let_def w3 set_credential_def split: if_splits)
    then show ?thesis using keepsD [OF quiet_give_back q1 u] by simp
  qed
qed

lemma ensure_error_rows:
  assumes "quiet_rows R w" and "ensure_fresh api w = (Inl e, w')"
  shows "quiet_rows R w'"
proof (cases "cr_expires (tc_credential (tw_client w))")
  case None
  with assms(2) show ?thesis by (simp add: ensure_fresh_def)
next
  case (Some t)
  obtain now w1 where now: "read_now w = (Inr now, w1)" using read_now_total by blast
  have q1: "quiet_rows R w1" using assms(1) read_now_token [OF now] by (simp add: quiet_rows_def alone_def)
  obtain b w2 where l: "lease_for refresh_lease_duration (tc_owner (tw_client w)) w1 = (b, w2)" by fastforce
  have q2: "quiet_rows R w2" using keepsD [OF quiet_lease q1 l] .
  have run: "(case b of Inl e \<Rightarrow> (Inl e, w2) | Inr acquired \<Rightarrow> (if acquired then exchange_tokens api (tc_owner (tw_client w))
      else io_bind next_polls (wait_refreshed api (cr_access (tc_credential (tw_client w))))) w2) = (Inl e, w')"
    using assms(2) Some by (simp add: ensure_fresh_def read_then [OF now] split: if_splits) (simp add: io_bind_def l)
  show ?thesis
  proof (cases b)
    case (Inl e')
    with run q2 show ?thesis by simp
  next
    case (Inr acquired)
    show ?thesis
    proof (cases acquired)
      case True
      with run Inr exchange_error_rows [OF q2] show ?thesis by simp
    next
      case False
      obtain ps w3 where p: "next_polls w2 = (Inr ps, w3)" by (cases "tw_polls w2") (auto simp: next_polls_def)
      have "wait_refreshed api (cr_access (tc_credential (tw_client w))) ps w3 = (Inl e, w')"
        using run Inr False by (simp add: io_bind_def p)
      then show ?thesis using quiet_wait quiet_polls [OF p q2] by (metis snd_conv)
    qed
  qed
qed

lemma stored_tokens_run: "fst (stored_tokens w) = Inr current \<Longrightarrow> stored_tokens w = (Inr current, w)"
  by (auto simp: stored_tokens_def io_try_def on_creds_def load_credential_def split: option.splits)

lemma stored_tokens_stored:
  "stored_tokens w = (Inr current, w) \<Longrightarrow> cr_refresh current \<noteq> '''' \<Longrightarrow> stored_as current (tw_creds w)"
  by (auto simp: stored_tokens_def io_try_def on_creds_def load_credential_def stored_as_row split: option.splits)

lemma save_access_run:
  assumes "save_access current c w = (r, w1)"
  shows "r = Inr () \<and> tw_client w1 = tw_client w \<and> (alone w \<longrightarrow> alone w1) \<and>
    (if cr_access c \<noteq> cr_access current then stored_as c (tw_creds w1) else tw_creds w1 = tw_creds w)"
proof -
  obtain t v where v: "read_now w = (Inr t, v)"
      "store_credential c w = (Inr (), v\<lparr>tw_creds := (tw_creds w)\<lparr>cd_rows := (cd_rows (tw_creds w))(credential_provider \<mapsto> credential_mk t c)\<rparr>\<rparr>)"
    using store_credential_run by blast
  from assms read_now_token [OF v(1)] show ?thesis
    by (auto simp: save_access_def v(2) stored_as_row credential_mk_def alone_def split: if_splits)
qed

lemma probe_token_frame:
  "tw_creds (snd (probe_token api a s w)) = tw_creds w" "tw_client (snd (probe_token api a s w)) = tw_client w"
  "alone w \<Longrightarrow> alone (snd (probe_token api a s w))"
  by (simp_all add: probe_token_def call_user_info_def io_bind_def alone_def Let_def split: prod.splits sum.splits)

lemma check_candidate_run:
  assumes "check_candidate api changed c w = (r, w1)"
  shows "tw_client w1 = tw_client w \<and> tw_creds w1 = tw_creds w \<and> (alone w \<longrightarrow> alone w1) \<and> (changed \<longrightarrow> (\<exists>x. r = Inr x))"
proof -
  obtain t v where v: "read_now w = (Inr t, v)" using read_now_total by blast
  have a: "alone w \<Longrightarrow> alone v" using read_now_token [OF v] by (simp add: alone_def)
  from assms show ?thesis
    using probe_token_frame [where api = api and w = v] a read_now_token(1,2) [OF v]
    by (auto simp: check_candidate_def read_then [OF v] Let_def split: if_splits) (metis snd_conv)+
qed

lemma exchange_candidate_run:
  "\<exists>w1. cd_rows (tw_creds w1) = cd_rows (tw_creds w) \<and> (alone w \<longrightarrow> alone w1) \<and> tc_sdk (tw_client w1) = Some (s, False) \<and>
     tc_credential (tw_client w1) = c \<and>
     exchange_candidate api c s w = io_bind (ensure_fresh api) (\<lambda>_. io_bind the_client (\<lambda>t.
       io_ret (tc_credential t, case tc_sdk t of Some (s', _) \<Rightarrow> s' | None \<Rightarrow> s))) w1"
proof -
  obtain v where v: "give_back (tc_owner (tw_client w)) w = (Inr (), v)" using give_back_run by blast
  have e: "exchange_candidate api c s w = io_bind (ensure_fresh api) (\<lambda>_. io_bind the_client (\<lambda>t.
       io_ret (tc_credential t, case tc_sdk t of Some (s', _) \<Rightarrow> s' | None \<Rightarrow> s)))
       (v\<lparr>tw_client := (tw_client v)\<lparr>tc_credential := c, tc_sdk := Some (s, False)\<rparr>\<rparr>)"
    by (simp add: exchange_candidate_def io_bind_def v)
  show ?thesis
    by (rule exI, intro conjI, goal_cases) (use v e in \<open>auto simp: give_back_def on_creds_def release_lease_def alone_def split: option.splits\<close>)
qed

lemma stored_as_rows: "cd_rows d = cd_rows d' \<Longrightarrow> stored_as c d = stored_as c d'"
  by (simp add: stored_as_row)

text \<open>The exchange of submitted tokens, whose refresh token is already stored.\<close>

lemma exchange_stored:
  assumes run: "exchange_candidate api c s w = (q, w')" and st: "stored_as c (tw_creds w)"
  shows "case q of
      Inr (c', s') \<Rightarrow> tc_credential (tw_client w') = c' \<and> stored_as c' (tw_creds w')
    | Inl e \<Rightarrow> alone w \<longrightarrow> stored_as c (tw_creds w')"
proof -
  obtain w1 where w1: "cd_rows (tw_creds w1) = cd_rows (tw_creds w)" "alone w \<longrightarrow> alone w1" "tc_sdk (tw_client w1) = Some (s, False)"
      "tc_credential (tw_client w1) = c" and e: "exchange_candidate api c s w = io_bind (ensure_fresh api) (\<lambda>_. io_bind the_client (\<lambda>t.
       io_ret (tc_credential t, case tc_sdk t of Some (s', _) \<Rightarrow> s' | None \<Rightarrow> s))) w1"
    using exchange_candidate_run [of w s c api] by blast
  have st1: "stored_as c (tw_creds w1)" using st w1(1) by (simp add: stored_as_row)
  obtain x w2 where x: "ensure_fresh api w1 = (x, w2)" by fastforce
  show ?thesis
  proof (cases x)
    case (Inl err)
    then have q: "q = Inl err" "w' = w2" using run e by (simp_all add: io_bind_def x)
    have "quiet_rows (cd_rows (tw_creds w1)) w1" if "alone w" using that w1 by (simp add: quiet_rows_def)
    then have "cd_rows (tw_creds w2) = cd_rows (tw_creds w1)" if "alone w"
      using that ensure_error_rows [OF _ x [unfolded Inl]] by (auto simp: quiet_rows_def)
    with q st1 show ?thesis by (auto simp: stored_as_row)
  next
    case (Inr u)
    then have q: "w' = w2" "\<exists>s'. q = Inr (tc_credential (tw_client w2), s')" using run e by (auto simp: io_bind_def x)
    have "stored_as (tc_credential (tw_client w2)) (tw_creds w2)"
      using ensure_fresh_result [of api w1 w2] x Inr st1 w1(4) by auto
    with q show ?thesis by auto
  qed
qed

text \<open>Tokens that were submitted are not lost: after a change of the tokens that succeeds, the client is available and its
  tokens are the stored ones; after one that fails although the refresh token is new, the database holds that refresh
  token (when no other process writes meanwhile), so that the exchange can be tried again.\<close>

lemma submitted_tokens_are_stored:
  fixes w :: "('p, 's, 'z) tok_world_scheme"
  assumes run: "update_tokens api refresh access w = (r, w')"
    and current: "fst (stored_tokens w) = Inr current" and new: "cr_refresh (candidate_of current refresh access) = token" "token \<noteq> ''''"
  shows "case r of
      Inr (c, refreshed) \<Rightarrow> tc_available (tw_client w') \<and> tc_credential (tw_client w') = c \<and> stored_as c (tw_creds w')
    | Inl e \<Rightarrow> alone w \<longrightarrow> token \<noteq> cr_refresh current \<longrightarrow>
        (\<exists>row. cd_rows (tw_creds w') credential_provider = Some row \<and> cd_refresh row = token)"
proof -
  let ?c = "candidate_of current refresh access"
  let ?changed = "token \<noteq> cr_refresh current"
  have cur: "stored_tokens w = (Inr current, w)" by (rule stored_tokens_run [OF current])
  obtain r1 w1 where s1: "save_access current ?c w = (r1, w1)" by fastforce
  note f1 = save_access_run [OF s1]
  obtain r2 w2 where s2: "check_candidate api ?changed ?c w1 = (r2, w2)" by fastforce
  note f2 = check_candidate_run [OF s2]
  have c1: "save_access current ?c w = (Inr (), w1)" using s1 f1 by simp
  let ?rest = "\<lambda>(invalid, s). if ?changed \<or> invalid then
                (let c' = ?c\<lparr>cr_expires := Some 0\<rparr>
                 in io_bind (store_credential c') (\<lambda>_. io_bind (exchange_candidate api c' s) (\<lambda>(c'', s').
                    io_bind (install_client c'' s') (\<lambda>_. io_ret (c'', True)))))
              else io_bind (save_access current ?c) (\<lambda>_.
                   io_bind (install_client ?c s) (\<lambda>_. io_ret (?c, False)))"
  have rest: "(r, w') = io_bind (check_candidate api ?changed ?c) ?rest w1"
    using run new by (simp add: update_tokens_def Let_def io_bind_Inr [where m = stored_tokens and w = w, OF cur]
      io_bind_Inr [where m = "save_access current ?c" and w = w, OF c1])
  show ?thesis
  proof (cases r2)
    case (Inl e)
    then show ?thesis using rest f2 by (auto simp: io_bind_def s2)
  next
    case (Inr x)
    obtain invalid s where x: "x = (invalid, s)" by fastforce
    have main: "(r, w') = ?rest (invalid, s) w2" using rest by (simp add: io_bind_def s2 Inr x)
    show ?thesis
    proof (cases "?changed \<or> invalid")
      case True
      let ?c' = "?c\<lparr>cr_expires := Some 0\<rparr>"
      obtain t v where v: "read_now w2 = (Inr t, v)" and w3: "store_credential ?c' w2 = (Inr (),
          v\<lparr>tw_creds := (tw_creds w2)\<lparr>cd_rows := (cd_rows (tw_creds w2))(credential_provider \<mapsto> credential_mk t ?c')\<rparr>\<rparr>)"
        using store_credential_run by blast
      let ?w3 = "v\<lparr>tw_creds := (tw_creds w2)\<lparr>cd_rows := (cd_rows (tw_creds w2))(credential_provider \<mapsto> credential_mk t ?c')\<rparr>\<rparr>"
      have st: "stored_as ?c' (tw_creds ?w3)" by (simp add: stored_as_row credential_mk_def)
      have alone: "alone w \<Longrightarrow> alone ?w3" using f1 f2 read_now_token [OF v] by (simp add: alone_def)
      obtain q w4 where q: "exchange_candidate api ?c' s ?w3 = (q, w4)" by fastforce
      have "(r, w') = (case q of Inl e \<Rightarrow> (Inl e, w4) | Inr (c'', s') \<Rightarrow>
          io_bind (install_client c'' s') (\<lambda>_. io_ret (c'', True)) w4)"
        using main True by (simp add: Let_def io_bind_Inr [where m = "store_credential ?c'" and w = w2, OF w3])
          (cases q; simp add: io_bind_def q split: prod.splits)
      with exchange_stored [OF q st] alone new(1) show ?thesis
        by (cases q) (auto simp: io_bind_def install_client_def stored_as_row)
    next
      case False
      obtain r3 w3 where s3: "save_access current ?c w2 = (r3, w3)" by fastforce
      note f3 = save_access_run [OF s3]
      have st: "stored_as ?c (tw_creds w3)"
        using f3 f2 f1 False new stored_tokens_stored [OF cur] by (auto simp: stored_as_row split: if_splits)
      have "(r, w') = (Inr (?c, False), w3\<lparr>tw_client := (tw_client w3)\<lparr>tc_credential := ?c, tc_sdk := Some (s, True), tc_available := True\<rparr>\<rparr>)"
        using main False f3 by (simp add: io_bind_def s3 install_client_def)
      with st show ?thesis by simp
    qed
  qed
qed

section \<open>A sample client\<close>

text \<open>The cloud of this sample refuses every exchange while its state is \<open>False\<close>.\<close>

definition sample_api :: "(bool, unit) sdk_api" where
  "sample_api = \<lparr>sk_new = (\<lambda>_ _. ()), sk_set_tokens = (\<lambda>_ _ s. s),
     sk_refresh = (\<lambda>s p. ([], if p then Inr \<lparr>rt_access = ''a2'', rt_refresh = ''r2'', rt_expires_in = 7200\<rparr> else Inl (Msg ''refused''), s, p)),
     sk_user_info = (\<lambda>_ s p. (Inr \<lparr>pb_status = 200, pb_code = 0, pb_state = True\<rparr>, s, p)), sk_is_401 = (\<lambda>_. False)\<rparr>"

definition sample_token_world :: "bool \<Rightarrow> (bool, unit) tok_world" where
  "sample_token_world p = \<lparr>w_prov = p, w_now = 1000, w_ticks = [1, 2, 3], w_events = [], w_ctx = None,
     w_offline = empty_offline_tasks, w_db = empty_db, w_library = [],
     tw_creds = \<lparr>cd_rows = [credential_provider \<mapsto> \<lparr>cd_access = ''a'', cd_refresh = ''r'', cd_expires = Some 0, cd_updated = 0\<rparr>],
       le_rows = (\<lambda>_. None)\<rparr>,
     tw_client = \<lparr>tc_owner = ''me'', tc_ahead = 600 * 10 ^ 9,
       tc_credential = \<lparr>cr_access = ''a'', cr_refresh = ''r'', cr_expires = Some 0\<rparr>, tc_available = True,
       tc_sdk = Some ((), True), tc_capacity = 2, tc_slots = 0\<rparr>,
     tw_rate = [], tw_calls = [], tw_polls = []\<rparr>"


end
