(* ===== verification/Go_Values.thy ===== *)
theory Go_Values
  imports Go_Url "HOL-Library.List_Lexorder" "HOL-Library.Char_ord"
begin

text \<open>
  \<open>url.Values\<close> of Go: the values of each key, and \<open>Encode\<close>, which writes them as a query that \<open>ParseQuery\<close> reads
  back.
\<close>

text \<open>The map is the list of its keys with their values; \<open>Encode\<close> writes the keys in their order (as
  bytes), each once for each of its values.\<close>

type_synonym url_values = "(string \<times> string list) list"

definition values_get :: "url_values \<Rightarrow> string \<Rightarrow> string" where
  "values_get vs k = (case map_of vs k of Some (v # _) \<Rightarrow> v | _ \<Rightarrow> '''')"

definition values_set :: "string \<Rightarrow> string \<Rightarrow> url_values \<Rightarrow> url_values" where
  "values_set k v vs = (k, [v]) # filter (\<lambda>p. fst p \<noteq> k) vs"

definition values_add :: "string \<Rightarrow> string \<Rightarrow> url_values \<Rightarrow> url_values" where
  "values_add k v vs = (k, (case map_of vs k of None \<Rightarrow> [] | Some xs \<Rightarrow> xs) @ [v]) # filter (\<lambda>p. fst p \<noteq> k) vs"

definition encode_pair :: "string \<times> string \<Rightarrow> string" where
  "encode_pair p = query_escape (fst p) @ CHR ''='' # query_escape (snd p)"

definition value_pairs :: "url_values \<Rightarrow> (string \<times> string) list" where
  "value_pairs vs = concat (map (\<lambda>(k, xs). map (Pair k) xs) (sort_key fst vs))"

definition values_encode :: "url_values \<Rightarrow> string" where
  "values_encode vs = join_with ''&'' (map encode_pair (value_pairs vs))"

lemma query_escape_no: "x \<in> {CHR ''='', CHR '';'', CHR ''&'', CHR ''#''} \<Longrightarrow> x \<notin> set (query_escape s)"
  using query_escape_chars [of x s] by (auto simp: query_escape_def unreserved_def is_alnum_def)

lemma encode_pair_no: "x \<in> {CHR '';'', CHR ''&'', CHR ''#''} \<Longrightarrow> x \<notin> set (encode_pair p)"
  using query_escape_no [of x] by (auto simp: encode_pair_def)

lemma parse_encode_pair: "parse_pair (encode_pair p) = Some p"
  using query_escape_no [of "CHR ''=''"]
  by (simp add: parse_pair_def encode_pair_def cut_append) (simp add: query_escape_def unescape_escape)

lemma parse_pairs_encode: "parse_pairs (map encode_pair ps) = (ps, True)"
proof (induction ps)
  case (Cons p ps)
  have "CHR '';'' \<notin> set (encode_pair p)" "encode_pair p \<noteq> ''''"
    using encode_pair_no [of "CHR '';''"] by (auto simp: encode_pair_def)
  then show ?case using Cons parse_encode_pair [of p] by simp
qed simp

lemma parse_query_encode: "parse_query (values_encode vs) = (value_pairs vs, True)"
proof (cases "value_pairs vs")
  case Nil
  then show ?thesis by (simp add: values_encode_def parse_query_def)
next
  case (Cons p ps)
  have "split_on (CHR ''&'') (values_encode vs) = map encode_pair (value_pairs vs)"
    unfolding values_encode_def
  proof (rule split_join)
    show "map encode_pair (value_pairs vs) \<noteq> []" using Cons by simp
    show "CHR ''&'' \<notin> set x" if "x \<in> set (map encode_pair (value_pairs vs))" for x
      using that encode_pair_no by (metis imageE insertCI list.set_map)
  qed
  then show ?thesis by (simp add: parse_query_def parse_pairs_encode)
qed

lemma parse_values_encode: "fst (parse_query (values_encode vs)) = value_pairs vs"
  by (simp add: parse_query_encode)

lemma set_join_with: "set (join_with s xs) \<subseteq> set s \<union> (\<Union>x \<in> set xs. set x)"
  by (induction s xs rule: join_with.induct) auto

lemma values_encode_chars:
  assumes "c \<in> set (values_encode vs)"
  shows "unreserved c \<or> c \<in> {CHR ''%'', CHR ''+'', CHR ''='', CHR ''&''}"
proof -
  have "c \<in> set ''&'' \<or> (\<exists>p \<in> set (value_pairs vs). c \<in> set (encode_pair p))"
    using assms set_join_with [of "''&''" "map encode_pair (value_pairs vs)"] by (auto simp: values_encode_def)
  then show ?thesis
    using query_escape_chars [of c] by (auto simp: encode_pair_def query_escape_def)
qed

text \<open>The values of one key, in the order they were added.\<close>

lemma query_values_pairs:
  assumes "distinct (map fst vs)"
  shows "query_values (value_pairs vs) k = (case map_of vs k of None \<Rightarrow> [] | Some xs \<Rightarrow> xs)"
proof -
  have sorted: "query_values (concat (map (\<lambda>(k, xs). map (Pair k) xs) ws)) k = (case map_of ws k of None \<Rightarrow> [] | Some xs \<Rightarrow> xs)"
    if "distinct (map fst ws)" for ws :: url_values
    using that
  proof (induction ws)
    case (Cons w ws)
    obtain a xs where w: "w = (a, xs)" by fastforce
    have "query_values (map (Pair a) xs) k = (if a = k then xs else [])"
      by (induction xs) (auto simp: query_values_def)
    moreover have "map_of ws k = None" if "a = k"
      using that Cons.prems w by (simp add: map_of_eq_None_iff)
    ultimately show ?case using Cons by (auto simp: w query_values_def)
  qed (simp add: query_values_def)
  have "distinct (map fst (sort_key fst vs))" using assms by (simp add: distinct_map)
  moreover have "map_of (sort_key fst vs) = map_of vs"
    using assms calculation by (intro map_of_eqI) (auto simp: map_of_eq_Some_iff)
  ultimately show ?thesis using sorted [of "sort_key fst vs"] by (simp add: value_pairs_def)
qed

lemma values_set_distinct: "distinct (map fst vs) \<Longrightarrow> distinct (map fst (values_set k v vs))"
  by (auto simp: values_set_def distinct_map_filter)

lemma values_add_distinct: "distinct (map fst vs) \<Longrightarrow> distinct (map fst (values_add k v vs))"
  by (auto simp: values_add_def distinct_map_filter)

lemma map_of_filter_other: "j \<noteq> k \<Longrightarrow> map_of (filter (\<lambda>p. fst p \<noteq> k) vs) j = map_of vs j"
  by (induction vs) auto

lemma values_set_other: "j \<noteq> k \<Longrightarrow> map_of (values_set k v vs) j = map_of vs j"
  by (simp add: values_set_def map_of_filter_other)

lemma values_add_other: "j \<noteq> k \<Longrightarrow> map_of (values_add k v vs) j = map_of vs j"
  by (simp add: values_add_def map_of_filter_other)

end
