(* ===== verification/Bencode.thy ===== *)
theory Bencode
  imports Magnet Go_Values Go_Numbers Go_Hash
begin

text \<open>
  \<open>internal/transport/qbittorrent/metainfo.go\<close>: reading a torrent file, whose info dictionary names the
  torrent by the SHA-1 of the bytes it takes in the file, and writing the magnet link of it.

  The decoder of the code moves an offset over the data; here it hands back the rest of the data with the offset. Every call
  ends or is followed by one that reads a byte, and \<open>fuel\<close> counts the calls: two for each byte and two more are enough.
\<close>

section \<open>Decoding\<close>

text \<open>A decoded value; the parts of a list or a dictionary come with the range of bytes they were read
  from. The entries of a dictionary are in the order of the map of the code: of two with one key, the later one
  is found first.\<close>

datatype bvalue =
    BInt int
  | BBytes string
  | BList "(bvalue \<times> nat \<times> nat) list"
  | BDict "(string \<times> bvalue \<times> nat \<times> nat) list"

definition bad_bencode :: err where
  "bad_bencode = Msg ''invalid bencode''"

text \<open>\<open>indexByte\<close> with the text before and after the byte.\<close>

definition split_at :: "char \<Rightarrow> string \<Rightarrow> (string \<times> string) option" where
  "split_at c s = (if c \<in> set s then Some (cut c s) else None)"

definition byte_string :: "nat \<Rightarrow> string \<Rightarrow> err + string \<times> nat \<times> string" where
  "byte_string off s =
     (case split_at (CHR '':'') s of
       None \<Rightarrow> Inl bad_bencode
     | Some (ds, rest) \<Rightarrow>
         (case parse_int ds of
           None \<Rightarrow> Inl bad_bencode
         | Some n \<Rightarrow>
             if n < 0 \<or> int (length rest) < n then Inl bad_bencode
             else Inr (take (nat n) rest, off + length ds + 1 + nat n, drop (nat n) rest)))"

definition b_number :: "nat \<Rightarrow> string \<Rightarrow> err + bvalue \<times> nat \<times> string" where
  "b_number off t =
     (case split_at (CHR ''e'') t of
       None \<Rightarrow> Inl bad_bencode
     | Some (ds, rest) \<Rightarrow>
         (case parse_int ds of
           None \<Rightarrow> Inl bad_bencode
         | Some n \<Rightarrow> Inr (BInt n, off + length ds + 1, rest)))"

definition read_as :: "('a \<Rightarrow> bvalue) \<Rightarrow> err + 'a \<times> nat \<times> string \<Rightarrow> err + bvalue \<times> nat \<times> string" where
  "read_as f r = (case r of Inl e \<Rightarrow> Inl e | Inr (x, off, rest) \<Rightarrow> Inr (f x, off, rest))"

function (sequential) b_value :: "nat \<Rightarrow> nat \<Rightarrow> nat \<Rightarrow> string \<Rightarrow> err + bvalue \<times> nat \<times> string"
  and b_items :: "nat \<Rightarrow> nat \<Rightarrow> nat \<Rightarrow> string \<Rightarrow> (bvalue \<times> nat \<times> nat) list \<Rightarrow> err + (bvalue \<times> nat \<times> nat) list \<times> nat \<times> string"
  and b_entries :: "nat \<Rightarrow> nat \<Rightarrow> nat \<Rightarrow> string \<Rightarrow> (string \<times> bvalue \<times> nat \<times> nat) list \<Rightarrow>
    err + (string \<times> bvalue \<times> nat \<times> nat) list \<times> nat \<times> string" where
  "b_value 0 depth off s = Inl OutOfFuel"
| "b_value (Suc fuel) depth off s =
     (if depth > 100 then Inl bad_bencode
      else case s of
        [] \<Rightarrow> Inl bad_bencode
      | c # t \<Rightarrow>
          if c = CHR ''i'' then b_number (off + 1) t
          else if c = CHR ''l'' then read_as BList (b_items fuel (Suc depth) (off + 1) t [])
          else if c = CHR ''d'' then read_as BDict (b_entries fuel (Suc depth) (off + 1) t [])
          else read_as BBytes (byte_string off s))"
| "b_items 0 depth off s acc = Inl OutOfFuel"
| "b_items (Suc fuel) depth off s acc =
     (case s of
       [] \<Rightarrow> Inl bad_bencode
     | c # t \<Rightarrow>
         if c = CHR ''e'' then Inr (acc, off + 1, t)
         else case b_value fuel depth off s of
             Inl e \<Rightarrow> Inl e
           | Inr (v, off', rest) \<Rightarrow> b_items fuel depth off' rest (acc @ [(v, off, off')]))"
| "b_entries 0 depth off s acc = Inl OutOfFuel"
| "b_entries (Suc fuel) depth off s acc =
     (case s of
       [] \<Rightarrow> Inl bad_bencode
     | c # t \<Rightarrow>
         if c = CHR ''e'' then Inr (acc, off + 1, t)
         else case byte_string off s of
             Inl e \<Rightarrow> Inl e
           | Inr (k, off1, rest1) \<Rightarrow>
               (case b_value fuel depth off1 rest1 of
                 Inl e \<Rightarrow> Inl e
               | Inr (v, off2, rest2) \<Rightarrow> b_entries fuel depth off2 rest2 ((k, v, off1, off2) # acc)))"
  by pat_completeness auto
termination by (relation "measure (case_sum fst (case_sum fst fst))") auto

definition decode_torrent :: "string \<Rightarrow> err + bvalue \<times> nat \<times> string" where
  "decode_torrent data = b_value (2 * length data + 2) 0 0 data"

section \<open>The magnet link of a torrent\<close>

definition bytes_value :: "bvalue option \<Rightarrow> string option" where
  "bytes_value v = (case v of Some (BBytes b) \<Rightarrow> if b = '''' then None else Some b | _ \<Rightarrow> None)"

definition dict_value :: "(string \<times> bvalue \<times> nat \<times> nat) list \<Rightarrow> string \<Rightarrow> bvalue option" where
  "dict_value entries k = map_option fst (map_of entries k)"

definition display_name :: "bvalue \<Rightarrow> string option" where
  "display_name v = (case v of
     BDict entries \<Rightarrow> (case bytes_value (dict_value entries ''name.utf-8'') of
         Some n \<Rightarrow> Some n | None \<Rightarrow> bytes_value (dict_value entries ''name''))
   | _ \<Rightarrow> None)"

fun add_trackers :: "bvalue list \<Rightarrow> url_values \<Rightarrow> url_values" where
  "add_trackers [] q = q"
| "add_trackers (t # ts) q =
     (case bytes_value (Some t) of
       Some v \<Rightarrow> if v \<noteq> values_get q ''tr'' then add_trackers ts (values_add ''tr'' v q) else add_trackers ts q
     | None \<Rightarrow> add_trackers ts q)"

fun add_tiers :: "bvalue list \<Rightarrow> url_values \<Rightarrow> url_values" where
  "add_tiers [] q = q"
| "add_tiers (BList ts # tiers) q = add_tiers tiers (add_trackers (map fst ts) q)"
| "add_tiers (_ # tiers) q = add_tiers tiers q"

definition torrent_query :: "(string \<times> bvalue \<times> nat \<times> nat) list \<Rightarrow> bvalue \<Rightarrow> string \<Rightarrow> url_values" where
  "torrent_query root info hash =
     (let q1 = values_set ''xt'' (''urn:btih:'' @ hash) [];
          q2 = (case display_name info of Some n \<Rightarrow> values_set ''dn'' n q1 | None \<Rightarrow> q1);
          q3 = (case bytes_value (dict_value root ''announce'') of Some a \<Rightarrow> values_add ''tr'' a q2 | None \<Rightarrow> q2)
      in case dict_value root ''announce-list'' of
           Some (BList tiers) \<Rightarrow> add_tiers (map fst tiers) q3
         | _ \<Rightarrow> q3)"

definition magnet_from_torrent :: "string \<Rightarrow> err + string" where
  "magnet_from_torrent data =
     (case decode_torrent data of
       Inl e \<Rightarrow> Inl (Msg ''invalid torrent'')
     | Inr (v, end', rest) \<Rightarrow>
         if end' \<noteq> length data then Inl (Msg ''invalid torrent'')
         else case v of
           BDict root \<Rightarrow>
             (case map_of root ''info'' of
               None \<Rightarrow> Inl (Msg ''no info'')
             | Some (info, i, j) \<Rightarrow>
                 if end' < j then Inl (Msg ''invalid range'')
                 else Inr (''magnet:?'' @ values_encode
                   (torrent_query root info (hex_encode (sha1 (take (j - i) (drop i data)))))))
         | _ \<Rightarrow> Inl (Msg ''not a dictionary''))"

end
