(* ===== verification/Bencode_Facts.thy ===== *)
theory Bencode_Facts
  imports Bencode
begin

text \<open>
  What reading torrent files promises: it ends and stays inside the data, it reads what bencoding writes, and the
  magnet link it makes is read back as the SHA-1 of the info dictionary, in whatever trackers and names are around it.
\<close>

section \<open>The decoder ends and stays inside the data\<close>

lemma split_at_Some:
  "split_at c s = Some (a, b) \<longleftrightarrow> s = a @ c # b \<and> c \<notin> set a"
proof
  assume h: "split_at c s = Some (a, b)"
  then have c: "c \<in> set s" and s: "cut c s = (a, b)" by (auto simp: split_at_def split: if_splits)
  from c obtain x y where xy: "s = x @ c # y" "c \<notin> set x" by (meson split_list_first)
  with s show "s = a @ c # b \<and> c \<notin> set a" by (simp add: cut_append)
next
  assume "s = a @ c # b \<and> c \<notin> set a"
  then show "split_at c s = Some (a, b)" by (simp add: split_at_def cut_append)
qed

text \<open>What is left after reading is a proper rest of the data, as long as the offset has moved.\<close>

definition reads :: "nat \<Rightarrow> string \<Rightarrow> nat \<Rightarrow> string \<Rightarrow> bool" where
  "reads off s off' rest \<longleftrightarrow> (\<exists>a. s = a @ rest \<and> a \<noteq> [] \<and> off' = off + length a)"

lemma reads_trans: "reads o1 s1 o2 s2 \<Longrightarrow> reads o2 s2 o3 s3 \<Longrightarrow> reads o1 s1 o3 s3"
  by (auto simp: reads_def)

lemma reads_Cons: "reads (off + 1) t off' rest \<Longrightarrow> reads off (c # t) off' rest"
  unfolding reads_def by (metis add.assoc append_Cons length_Cons list.distinct(1) plus_1_eq_Suc)

lemma reads_one: "reads off (c # t) (off + 1) t"
  by (auto simp: reads_def)

lemma reads_shorter: "reads off s off' rest \<Longrightarrow> length rest < length s"
  by (auto simp: reads_def)

lemma byte_string_Inr:
  assumes "byte_string off s = Inr (b, off', rest)"
  obtains ds r n where "s = ds @ CHR '':'' # r" "parse_int ds = Some n" "0 \<le> n" "n \<le> int (length r)"
    "b = take (nat n) r" "off' = off + length ds + 1 + nat n" "rest = drop (nat n) r"
proof -
  obtain ds r where c: "split_at (CHR '':'') s = Some (ds, r)"
    using assms by (cases "split_at (CHR '':'') s") (auto simp: byte_string_def)
  obtain n where n: "parse_int ds = Some n"
    using assms c by (cases "parse_int ds") (auto simp: byte_string_def)
  show thesis
    by (rule that [of ds r n]) (use assms c n in \<open>auto simp: byte_string_def split_at_Some split: if_splits\<close>)
qed

lemma byte_string_reads:
  assumes "byte_string off s = Inr (b, off', rest)"
  shows "reads off s off' rest"
  using assms
proof (rule byte_string_Inr)
  fix ds r n
  assume "s = ds @ CHR '':'' # r" "0 \<le> n" "n \<le> int (length r)" "off' = off + length ds + 1 + nat n" "rest = drop (nat n) r"
  then show ?thesis unfolding reads_def by (intro exI [of _ "ds @ CHR '':'' # take (nat n) r"]) auto
qed

lemma byte_string_fuel: "byte_string off s \<noteq> Inl OutOfFuel"
  by (auto simp: byte_string_def bad_bencode_def split: option.splits prod.splits)

text \<open>Enough fuel: two calls for each byte.\<close>

definition ends_inside :: "nat \<Rightarrow> string \<Rightarrow> bool \<Rightarrow> (err + 'a \<times> nat \<times> string) \<Rightarrow> bool" where
  "ends_inside off s enough r \<longleftrightarrow> (case r of
     Inl e \<Rightarrow> enough \<longrightarrow> e \<noteq> OutOfFuel
   | Inr (v, off', rest) \<Rightarrow> reads off s off' rest)"

lemma number_ends: "ends_inside off (c # t) enough (b_number (off + 1) t)"
proof -
  have "reads off (c # t) (off + 1 + length ds + 1) rest" if "split_at (CHR ''e'') t = Some (ds, rest)" for ds rest
    using that by (auto simp: reads_def split_at_Some intro!: exI [of _ "c # ds @ ''e''"])
  then show ?thesis by (auto simp: ends_inside_def b_number_def bad_bencode_def split: option.splits prod.splits)
qed

lemma read_as_ends:
  "ends_inside (off + 1) t (2 * length t + 2 \<le> fuel) r \<Longrightarrow>
    ends_inside off (c # t) (2 * length (c # t) + 1 \<le> Suc fuel) (read_as f r)"
  by (auto simp: ends_inside_def read_as_def intro: reads_Cons split: sum.splits prod.splits)

lemma decoder_ends:
  "ends_inside off s (2 * length s + 1 \<le> fuel) (b_value fuel depth off s)"
  "ends_inside off s (2 * length s + 2 \<le> fuel) (b_items fuel depth off s acc)"
  "ends_inside off s (2 * length s + 2 \<le> fuel) (b_entries fuel depth off s es)"
proof (induction fuel depth off s and fuel depth off s acc and fuel depth off s es rule: b_value_b_items_b_entries.induct)
  case (2 fuel depth off s)
  show ?case
  proof (cases s)
    case Nil
    then show ?thesis by (simp add: ends_inside_def bad_bencode_def)
  next
    case (Cons c t)
    show ?thesis
    proof (cases "depth > 100")
      case True
      then show ?thesis by (simp add: ends_inside_def bad_bencode_def)
    next
      case False
      consider "c = CHR ''i''" | "c = CHR ''l''" | "c = CHR ''d''" | "c \<noteq> CHR ''i''" "c \<noteq> CHR ''l''" "c \<noteq> CHR ''d''" by blast
      then show ?thesis
      proof cases
        case 1
        with False Cons number_ends show ?thesis by simp
      next
        case 2
        have "c \<noteq> CHR ''i''" using 2 by simp
        from read_as_ends [OF "2.IH"(1) [OF False Cons this 2]] False Cons 2 show ?thesis by simp
      next
        case 3
        have "c \<noteq> CHR ''i''" "c \<noteq> CHR ''l''" using 3 by simp_all
        from read_as_ends [OF "2.IH"(2) [OF False Cons this 3]] False Cons 3 show ?thesis by simp
      next
        case 4
        with False Cons byte_string_reads [of off s] byte_string_fuel [of off s] show ?thesis
          by (auto simp: ends_inside_def read_as_def split: sum.splits prod.splits)
      qed
    qed
  qed
next
  case (4 fuel depth off s acc)
  show ?case
  proof (cases s)
    case (Cons c t)
    show ?thesis
    proof (cases "c = CHR ''e''")
      case False
      note ih = "4.IH" [OF Cons False]
      show ?thesis
      proof (cases "b_value fuel depth off s")
        case (Inl e)
        with ih(1) Cons False show ?thesis by (auto simp: ends_inside_def)
      next
        case (Inr x)
        obtain v off' rest where x: "x = (v, off', rest)" by (cases x)
        have r: "reads off s off' rest" using ih(1) Inr x by (simp add: ends_inside_def)
        from ih(2) [OF Inr x [symmetric] refl] reads_shorter [OF r] reads_trans [OF r] show ?thesis
          using Inr x Cons False by (auto simp: ends_inside_def split: sum.splits)
      qed
    qed (use reads_one [of off c t] in \<open>simp add: Cons ends_inside_def\<close>)
  qed (simp add: ends_inside_def bad_bencode_def)
next
  case (6 fuel depth off s acc)
  show ?case
  proof (cases s)
    case (Cons c t)
    show ?thesis
    proof (cases "c = CHR ''e''")
      case False
      note ih = "6.IH" [OF Cons False]
      show ?thesis
      proof (cases "byte_string off s")
        case (Inl e)
        with byte_string_fuel [of off s] Cons False show ?thesis by (auto simp: ends_inside_def)
      next
        case (Inr y)
        obtain k off1 rest1 where y: "y = (k, off1, rest1)" by (cases y)
        have r1: "reads off s off1 rest1" using byte_string_reads Inr y by simp
        show ?thesis
        proof (cases "b_value fuel depth off1 rest1")
          case (Inl e)
          with ih(1) [OF Inr y [symmetric] refl] reads_shorter [OF r1] Inr y Cons False show ?thesis by (auto simp: ends_inside_def)
        next
          case (Inr x)
          obtain v off2 rest2 where x: "x = (v, off2, rest2)" by (cases x)
          have r2: "reads off s off2 rest2"
            using ih(1) [OF \<open>byte_string off s = Inr y\<close> y [symmetric] refl] reads_trans [OF r1] Inr x by (simp add: ends_inside_def)
          from ih(2) [OF \<open>byte_string off s = Inr y\<close> y [symmetric] refl \<open>b_value fuel depth off1 rest1 = Inr x\<close> x [symmetric] refl]
            reads_shorter [OF r2] reads_trans [OF r2]
          show ?thesis using \<open>byte_string off s = Inr y\<close> y \<open>b_value fuel depth off1 rest1 = Inr x\<close> x Cons False
            by (auto simp: ends_inside_def split: sum.splits)
        qed
      qed
    qed (use reads_one [of off c t] in \<open>simp add: Cons ends_inside_def\<close>)
  qed (simp add: ends_inside_def bad_bencode_def)
qed (simp_all add: ends_inside_def)

text \<open>C34. Whatever bytes are uploaded as a torrent file, reading them ends, and a value that is read takes a beginning of
  the data: the offset is in the data and what is left is the data from there.\<close>

theorem decoding_ends_inside_data:
  "case decode_torrent data of
     Inl e \<Rightarrow> e \<noteq> OutOfFuel
   | Inr (v, off, rest) \<Rightarrow> 0 < off \<and> off \<le> length data \<and> rest = drop off data"
  using decoder_ends(1) [of 0 data "2 * length data + 2" 0]
  by (auto simp: decode_torrent_def ends_inside_def reads_def split: sum.splits)

section \<open>Bencoding\<close>

text \<open>What a torrent file says, and how it is written.\<close>

datatype btree = TInt int | TBytes string | TList "btree list" | TDict "(string \<times> btree) list"

definition bencode_bytes :: "string \<Rightarrow> string" where
  "bencode_bytes s = decimal (length s) @ CHR '':'' # s"

fun bencode :: "btree \<Rightarrow> string" where
  "bencode (TInt i) = CHR ''i'' # decimal_int i @ ''e''"
| "bencode (TBytes s) = bencode_bytes s"
| "bencode (TList ts) = CHR ''l'' # concat (map bencode ts) @ ''e''"
| "bencode (TDict es) = CHR ''d'' # concat (map (\<lambda>e. bencode_bytes (fst e) @ bencode (snd e)) es) @ ''e''"

text \<open>The numbers are of 64 bits and the nesting is what the decoder allows.\<close>

fun nesting :: "btree \<Rightarrow> nat" where
  "nesting (TList ts) = Suc (foldr max (map nesting ts) 0)"
| "nesting (TDict es) = Suc (foldr max (map (\<lambda>e. nesting (snd e)) es) 0)"
| "nesting _ = 0"

fun in_range :: "btree \<Rightarrow> bool" where
  "in_range (TInt i) = (- (2 ^ 63) \<le> i \<and> i < 2 ^ 63)"
| "in_range (TBytes s) = (int (length s) < 2 ^ 63)"
| "in_range (TList ts) = list_all in_range ts"
| "in_range (TDict es) = list_all (\<lambda>e. int (length (fst e)) < 2 ^ 63 \<and> in_range (snd e)) es"

text \<open>The decoded value at an offset.\<close>

fun placed :: "nat \<Rightarrow> btree \<Rightarrow> bvalue"
  and placed_items :: "nat \<Rightarrow> btree list \<Rightarrow> (bvalue \<times> nat \<times> nat) list"
  and placed_entries :: "nat \<Rightarrow> (string \<times> btree) list \<Rightarrow> (string \<times> bvalue \<times> nat \<times> nat) list" where
  "placed off (TInt i) = BInt i"
| "placed off (TBytes s) = BBytes s"
| "placed off (TList ts) = BList (placed_items (off + 1) ts)"
| "placed off (TDict es) = BDict (placed_entries (off + 1) es)"
| "placed_items off [] = []"
| "placed_items off (t # ts) = (placed off t, off, off + length (bencode t)) # placed_items (off + length (bencode t)) ts"
| "placed_entries off [] = []"
| "placed_entries off (e # es) =
     (let i = off + length (bencode_bytes (fst e)); j = i + length (bencode (snd e))
      in placed_entries j es @ [(fst e, placed i (snd e), i, j)])"

lemma no_digit_marks: "is_digit c \<Longrightarrow> c \<notin> {CHR '':'', CHR ''e'', CHR ''i'', CHR ''l'', CHR ''d''}"
  by (auto simp: is_digit_def)

lemma decimal_no_mark: "x \<in> {CHR '':'', CHR ''e''} \<Longrightarrow> x \<notin> set (decimal n)"
  using decimal_is_digit [of n] no_digit_marks by (fastforce simp: list_all_iff)

lemma decimal_int_no_mark: "CHR ''e'' \<notin> set (decimal_int i)"
  using decimal_no_mark by (auto simp: decimal_int_def)

lemma byte_string_bencode:
  assumes "int (length s) < 2 ^ 63"
  shows "byte_string off (bencode_bytes s @ rest) = Inr (s, off + length (bencode_bytes s), rest)"
proof -
  have "split_at (CHR '':'') (bencode_bytes s @ rest) = Some (decimal (length s), s @ rest)"
    using decimal_no_mark by (simp add: bencode_bytes_def split_at_Some)
  moreover have "parse_int (decimal (length s)) = Some (int (length s))"
    using parse_int_decimal [of "int (length s)"] assms by (simp add: decimal_int_def)
  ultimately show ?thesis by (simp add: byte_string_def bencode_bytes_def)
qed

lemma bencode_bytes_hd: "\<exists>c t. bencode_bytes s = c # t \<and> is_digit c"
  using decimal_is_digit [of "length s"] decimal_nonempty [of "length s"]
  by (cases "decimal (length s)") (auto simp: bencode_bytes_def)

lemma bencode_pos: "0 < length (bencode t)"
  by (cases t) (auto simp: bencode_bytes_def)

text \<open>What the decoder does with what is written.\<close>

definition reads_back :: "nat \<Rightarrow> nat \<Rightarrow> btree \<Rightarrow> bool" where
  "reads_back fuel depth t \<longleftrightarrow> (\<forall>off rest. b_value fuel depth off (bencode t @ rest) =
     Inr (placed off t, off + length (bencode t), rest))"

lemma reads_back_here:
  "reads_back fuel depth t \<Longrightarrow>
    b_value fuel depth off (bencode t @ rest) = Inr (placed off t, off + length (bencode t), rest)"
  by (simp add: reads_back_def)

lemma bencode_hd: "\<exists>c s. bencode t = c # s \<and> c \<noteq> CHR ''e''"
proof (cases t)
  case (TBytes b)
  with bencode_bytes_hd [of b] no_digit_marks show ?thesis by fastforce
qed auto

lemma items_read_back:
  assumes "\<And>t fuel. t \<in> set ts \<Longrightarrow> 2 * length (bencode t) + 1 \<le> fuel \<Longrightarrow> reads_back fuel depth t"
    and "2 * length (concat (map bencode ts)) + 2 \<le> fuel"
  shows "b_items fuel depth off (concat (map bencode ts) @ CHR ''e'' # rest) acc =
    Inr (acc @ placed_items off ts, off + length (concat (map bencode ts)) + 1, rest)"
  using assms
proof (induction ts arbitrary: fuel off acc)
  case Nil
  then obtain f where "fuel = Suc f" by (cases fuel) auto
  then show ?case by simp
next
  case (Cons t ts)
  from Cons.prems(2) obtain f where f: "fuel = Suc f" by (cases fuel) auto
  obtain c s where c: "bencode t = c # s" "c \<noteq> CHR ''e''" using bencode_hd by blast
  have "reads_back f depth t"
    by (rule Cons.prems(1)) (use Cons.prems(2) f in simp_all)
  note v = reads_back_here [OF this, of off "concat (map bencode ts) @ CHR ''e'' # rest"]
  have "b_items f depth (off + length (bencode t)) (concat (map bencode ts) @ CHR ''e'' # rest) (acc @ [(placed off t, off, off + length (bencode t))]) =
      Inr ((acc @ [(placed off t, off, off + length (bencode t))]) @ placed_items (off + length (bencode t)) ts,
        off + length (bencode t) + length (concat (map bencode ts)) + 1, rest)"
    using Cons.prems f bencode_pos [of t] by (intro Cons.IH) (auto simp del: length_greater_0_conv)
  with v c show ?case by (simp add: f)
qed

abbreviation entry_bytes :: "string \<times> btree \<Rightarrow> string" where
  "entry_bytes e \<equiv> bencode_bytes (fst e) @ bencode (snd e)"

lemma entries_read_back:
  assumes "\<And>e fuel. e \<in> set es \<Longrightarrow> 2 * length (bencode (snd e)) + 1 \<le> fuel \<Longrightarrow> reads_back fuel depth (snd e)"
    and "\<And>e. e \<in> set es \<Longrightarrow> int (length (fst e)) < 2 ^ 63"
    and "2 * length (concat (map entry_bytes es)) + 2 \<le> fuel"
  shows "b_entries fuel depth off (concat (map entry_bytes es) @ CHR ''e'' # rest) acc =
    Inr (placed_entries off es @ acc, off + length (concat (map entry_bytes es)) + 1, rest)"
  using assms
proof (induction es arbitrary: fuel off acc)
  case Nil
  then obtain f where "fuel = Suc f" by (cases fuel) auto
  then show ?case by simp
next
  case (Cons e es)
  from Cons.prems(3) obtain f where f: "fuel = Suc f" by (cases fuel) auto
  define more where "more = concat (map entry_bytes es) @ CHR ''e'' # rest"
  obtain c s where c: "bencode_bytes (fst e) = c # s" "c \<noteq> CHR ''e''"
    using bencode_bytes_hd [of "fst e"] no_digit_marks by fastforce
  have k: "byte_string off (bencode_bytes (fst e) @ bencode (snd e) @ more) =
      Inr (fst e, off + length (bencode_bytes (fst e)), bencode (snd e) @ more)"
    using Cons.prems(2) by (intro byte_string_bencode) simp
  define i where "i = off + length (bencode_bytes (fst e))"
  define j where "j = i + length (bencode (snd e))"
  have "reads_back f depth (snd e)"
    by (rule Cons.prems(1)) (use Cons.prems(3) f in simp_all)
  note v = reads_back_here [OF this, of i more, folded j_def]
  have "b_entries f depth j more ((fst e, placed i (snd e), i, j) # acc) =
      Inr (placed_entries j es @ (fst e, placed i (snd e), i, j) # acc, j + length (concat (map entry_bytes es)) + 1, rest)"
    unfolding more_def using Cons.prems f bencode_pos [of "snd e"]
    by (intro Cons.IH) (auto simp del: length_greater_0_conv)
  moreover have "b_entries fuel depth off (bencode_bytes (fst e) @ bencode (snd e) @ more) acc =
      b_entries f depth j more ((fst e, placed i (snd e), i, j) # acc)"
    using k v c by (simp add: f i_def)
  ultimately show ?case by (simp add: more_def i_def j_def Let_def)
qed

text \<open>Reading back what is written, at any depth the decoder allows.\<close>

lemma nesting_items: "depth + nesting (TList ts) \<le> 100 \<Longrightarrow> t \<in> set ts \<Longrightarrow> Suc depth + nesting t \<le> 100"
proof -
  have "t \<in> set ts \<Longrightarrow> nesting t \<le> foldr max (map nesting ts) 0" by (induction ts) (auto simp: max.coboundedI2)
  then show "depth + nesting (TList ts) \<le> 100 \<Longrightarrow> t \<in> set ts \<Longrightarrow> Suc depth + nesting t \<le> 100" by simp
qed

lemma nesting_entries: "depth + nesting (TDict es) \<le> 100 \<Longrightarrow> e \<in> set es \<Longrightarrow> Suc depth + nesting (snd e) \<le> 100"
proof -
  have "e \<in> set es \<Longrightarrow> nesting (snd e) \<le> foldr max (map (\<lambda>e. nesting (snd e)) es) 0"
    by (induction es) (auto simp: max.coboundedI2)
  then show "depth + nesting (TDict es) \<le> 100 \<Longrightarrow> e \<in> set es \<Longrightarrow> Suc depth + nesting (snd e) \<le> 100" by simp
qed

lemma value_reads_back:
  "in_range t \<Longrightarrow> depth + nesting t \<le> 100 \<Longrightarrow> 2 * length (bencode t) + 1 \<le> fuel \<Longrightarrow> reads_back fuel depth t"
proof (induction t arbitrary: depth fuel rule: bencode.induct)
  case (1 i)
  then obtain f where f: "fuel = Suc f" by (cases fuel) auto
  have "split_at (CHR ''e'') (decimal_int i @ CHR ''e'' # rest) = Some (decimal_int i, rest)" for rest
    by (simp add: split_at_Some decimal_int_no_mark)
  with 1 f show ?case by (simp add: reads_back_def b_number_def parse_int_decimal)
next
  case (2 s)
  then obtain f where f: "fuel = Suc f" by (cases fuel) auto
  obtain c t where c: "bencode_bytes s = c # t" "is_digit c" using bencode_bytes_hd by blast
  with no_digit_marks have "c \<noteq> CHR ''i''" "c \<noteq> CHR ''l''" "c \<noteq> CHR ''d''" by auto
  moreover have "byte_string off (c # t @ rest) = Inr (s, off + length (bencode_bytes s), rest)" for off rest
    using byte_string_bencode [of s off rest] 2 c by simp
  ultimately show ?case using 2 f c by (simp add: reads_back_def read_as_def)
next
  case (3 ts)
  then obtain f where f: "fuel = Suc f" by (cases fuel) auto
  have "b_items f (Suc depth) off (concat (map bencode ts) @ CHR ''e'' # rest) [] =
      Inr ([] @ placed_items off ts, off + length (concat (map bencode ts)) + 1, rest)" for off rest
    using 3 f nesting_items [OF "3.prems"(2)] by (intro items_read_back) (auto simp: list_all_iff)
  with 3 f show ?case by (simp add: reads_back_def read_as_def)
next
  case (4 es)
  then obtain f where f: "fuel = Suc f" by (cases fuel) auto
  have "b_entries f (Suc depth) off (concat (map entry_bytes es) @ CHR ''e'' # rest) [] =
      Inr (placed_entries off es @ [], off + length (concat (map entry_bytes es)) + 1, rest)" for off rest
    using 4 f nesting_entries [OF "4.prems"(2)] by (intro entries_read_back) (auto simp: list_all_iff)
  with 4 f show ?case by (simp add: reads_back_def read_as_def)
qed

lemma decode_bencode:
  assumes "in_range t" "nesting t \<le> 100"
  shows "decode_torrent (bencode t) = Inr (placed 0 t, length (bencode t), [])"
  using reads_back_here [OF value_reads_back [of t 0 "2 * length (bencode t) + 2"], of 0 "[]"] assms
  by (simp add: decode_torrent_def)

section \<open>The magnet link of a torrent\<close>

text \<open>The range of an entry holds what its value is written as.\<close>

lemma entry_range:
  assumes "(k, v, i, j) \<in> set (placed_entries off es)"
  shows "\<exists>t. (k, t) \<in> set es \<and> j = i + length (bencode t) \<and> off \<le> i \<and>
    take (length (bencode t)) (drop (i - off) (concat (map entry_bytes es) @ rest)) = bencode t"
  using assms
proof (induction es arbitrary: off)
  case (Cons e es)
  define m where "m = off + length (entry_bytes e)"
  consider "(k, v, i, j) \<in> set (placed_entries m es)"
    | "k = fst e" "i = off + length (bencode_bytes (fst e))" "j = i + length (bencode (snd e))"
    using Cons.prems by (auto simp: m_def Let_def add.assoc)
  then show ?case
  proof cases
    case 1
    from Cons.IH [OF this] obtain t where t: "(k, t) \<in> set es" "j = i + length (bencode t)" "m \<le> i"
      "take (length (bencode t)) (drop (i - m) (concat (map entry_bytes es) @ rest)) = bencode t" by blast
    moreover have "drop (i - off) (concat (map entry_bytes (e # es)) @ rest) = drop (i - m) (concat (map entry_bytes es) @ rest)"
      using t(3) by (simp add: m_def add.assoc)
    moreover have "off \<le> i" using t(3) by (simp add: m_def)
    ultimately show ?thesis by (intro exI [of _ t]) (simp only: list.set_intros(2) simp_thms)
  next
    case 2
    then show ?thesis by (intro exI [of _ "snd e"]) simp
  qed
qed simp

lemma fst_placed_entries: "fst ` set (placed_entries off es) = fst ` set es"
  by (induction es arbitrary: off) (auto simp: Let_def)

lemma values_encode_graphic: "c \<in> set (values_encode vs) \<Longrightarrow> graphic c \<and> 32 \<le> code_of c \<and> code_of c \<noteq> 127 \<and> c \<noteq> CHR ''#''"
  using values_encode_chars [of c vs] by (auto simp: unreserved_def is_alnum_def graphic_def)

lemma parse_values_magnet:
  "parse_info_hash (''magnet:?'' @ values_encode vs) = parse_topics (query_values (value_pairs vs) ''xt'')"
proof -
  let ?m = "''magnet:?'' @ values_encode vs"
  have "trim_space ?m = ?m"
    using values_encode_graphic [of _ vs] last_in_set [of "values_encode vs"]
    by (intro trim_space_graphic) (auto simp: graphic_def)
  moreover have "\<not> has_ctl (values_encode vs)" "CHR ''#'' \<notin> set (values_encode vs)"
    using values_encode_graphic [of _ vs] by (fastforce simp: has_ctl_def list_ex_iff)+
  then have "url_parse ?m = Some \<lparr>u_scheme = to_lower ''magnet'', u_host = '''', u_path = '''', u_raw_path = '''',
      u_raw_query = values_encode vs, u_fragment = ''''\<rparr>"
    using url_parse_opaque [of "''magnet''" "values_encode vs"] by (simp add: is_alnum_def)
  ultimately show ?thesis
    by (simp add: parse_info_hash_def parse_values_encode to_lower_def lower_char_def)
qed

definition keeps_topic :: "url_values \<Rightarrow> url_values \<Rightarrow> bool" where
  "keeps_topic q r \<longleftrightarrow> map_of r ''xt'' = map_of q ''xt'' \<and> (distinct (map fst q) \<longrightarrow> distinct (map fst r))"

lemma keeps_topic_trans: "keeps_topic q r \<Longrightarrow> keeps_topic r t \<Longrightarrow> keeps_topic q t"
  by (simp add: keeps_topic_def)

lemma keeps_topic_set: "k \<noteq> ''xt'' \<Longrightarrow> keeps_topic q (values_set k v q)"
  by (simp add: keeps_topic_def values_set_other values_set_distinct)

lemma keeps_topic_add: "k \<noteq> ''xt'' \<Longrightarrow> keeps_topic q (values_add k v q)"
  by (simp add: keeps_topic_def values_add_other values_add_distinct)

lemma add_trackers_keeps: "keeps_topic q (add_trackers ts q)"
proof (induction ts q rule: add_trackers.induct)
  case (2 t ts q)
  then show ?case using keeps_topic_trans [OF keeps_topic_add [of "''tr''" q]]
    by (auto split: option.splits)
qed (simp add: keeps_topic_def)

lemma add_tiers_keeps: "keeps_topic q (add_tiers ts q)"
  by (induction ts q rule: add_tiers.induct)
    (auto simp: keeps_topic_def [of q q for q] intro: keeps_topic_trans [OF add_trackers_keeps])

lemma torrent_query_topic:
  "distinct (map fst (torrent_query root info h)) \<and> map_of (torrent_query root info h) ''xt'' = Some [''urn:btih:'' @ h]"
proof -
  define q1 where "q1 = values_set ''xt'' (''urn:btih:'' @ h) []"
  define q2 where "q2 = (case display_name info of Some n \<Rightarrow> values_set ''dn'' n q1 | None \<Rightarrow> q1)"
  define q3 where "q3 = (case bytes_value (dict_value root ''announce'') of Some a \<Rightarrow> values_add ''tr'' a q2 | None \<Rightarrow> q2)"
  have "keeps_topic q1 q2"
    by (auto simp: q2_def keeps_topic_set keeps_topic_def [of q1 q1] split: option.splits)
  moreover have "keeps_topic q2 q3"
    by (auto simp: q3_def keeps_topic_add keeps_topic_def [of q2 q2] split: option.splits)
  moreover have "keeps_topic q3 (torrent_query root info h)"
    unfolding torrent_query_def Let_def q1_def [symmetric] q2_def [symmetric] q3_def [symmetric]
    using add_tiers_keeps by (auto simp: keeps_topic_def [of q3 q3] split: option.splits bvalue.splits)
  ultimately have "keeps_topic q1 (torrent_query root info h)" by (blast intro: keeps_topic_trans)
  then show ?thesis by (simp add: keeps_topic_def q1_def values_set_def)
qed

lemma parse_own_topic:
  assumes "length h = 20"
  shows "parse_topics [''urn:btih:'' @ hex_encode h] = Inr (hex_encode h)"
proof -
  have g: "list_all graphic (hex_encode h)"
    using hex_encode_lower [of h] lower_hex_is_hex is_hex_graphic by (auto simp: list_all_iff)
  have "hex_encode h \<noteq> ''''" using assms by (metis length_hex_encode list.size(3) mult_eq_0_iff zero_neq_numeral)
  with g have "trim_space (hex_encode h) = hex_encode h" by (intro trim_space_graphic) (auto simp: list_all_iff)
  moreover have "parse_btih (hex_encode h) = Inr (hex_encode h)"
    using assms hex_encode_lower [of h] by (simp add: parse_btih_def hex_decode_encode to_lower_lower_hex)
  ultimately show ?thesis by (simp add: btih_prefix_def to_lower_def lower_char_def)
qed

text \<open>C7. A torrent file is accepted when its numbers are of 64 bits and it is not nested deeper than the decoder
  allows, and the magnet link made of it, whatever name and trackers go into it, is read back by the ingest service as the
  torrent whose hash is the SHA-1 of the info dictionary as it stands in the file.\<close>

theorem torrent_magnet_names_torrent:
  assumes "in_range (TDict es)" and "nesting (TDict es) \<le> 100"
    and "distinct (map fst es)" and "(''info'', info) \<in> set es"
  shows "\<exists>m. magnet_from_torrent (bencode (TDict es)) = Inr m \<and>
    parse_info_hash m = Inr (hex_encode (sha1 (bencode info)))"
proof -
  let ?data = "bencode (TDict es)" and ?root = "placed_entries 1 es"
  have d: "decode_torrent ?data = Inr (BDict ?root, length ?data, [])"
    using decode_bencode [OF assms(1,2)] by simp
  have "''info'' \<in> fst ` set ?root" unfolding fst_placed_entries using assms(4) by force
  then obtain v i j where m: "map_of ?root ''info'' = Some (v, i, j)"
    by (metis map_of_eq_None_iff not_None_eq prod_cases3)
  then have "(''info'', v, i, j) \<in> set ?root" by (rule map_of_SomeD)
  from entry_range [OF this, of "''e''"] obtain t where t: "(''info'', t) \<in> set es" "j = i + length (bencode t)" "1 \<le> i"
    "take (length (bencode t)) (drop (i - 1) (concat (map entry_bytes es) @ ''e'')) = bencode t" by blast
  have "t = info" using assms(3,4) t(1) by (metis eq_key_imp_eq_value)
  moreover have "drop i ?data = drop (i - 1) (concat (map entry_bytes es) @ ''e'')"
    using t(3) by (cases i) simp_all
  ultimately have span: "take (j - i) (drop i ?data) = bencode info" using t(2,4) by simp
  have "j \<le> length ?data"
  proof (rule ccontr)
    assume "\<not> j \<le> length ?data"
    then have "length (take (j - i) (drop i ?data)) < j - i" using t(2) bencode_pos [of t]
      by (simp del: bencode.simps length_greater_0_conv)
    with span \<open>t = info\<close> t(2) show False by simp
  qed
  with d m span have "magnet_from_torrent ?data =
      Inr (''magnet:?'' @ values_encode (torrent_query ?root v (hex_encode (sha1 (bencode info)))))"
    by (simp add: magnet_from_torrent_def del: bencode.simps)
  moreover have "query_values (value_pairs (torrent_query ?root v (hex_encode (sha1 (bencode info))))) ''xt'' =
      [''urn:btih:'' @ hex_encode (sha1 (bencode info))]"
    using torrent_query_topic [of ?root v "hex_encode (sha1 (bencode info))"] by (simp add: query_values_pairs)
  ultimately show ?thesis using parse_own_topic [of "sha1 (bencode info)"] parse_values_magnet by fastforce
qed

theorem torrent_magnet_names_torrent_witness:
  "\<exists>m. magnet_from_torrent (bencode (TDict
      [(''announce'', TBytes ''udp://t''), (''info'', TDict [(''length'', TInt 7), (''name'', TBytes ''a b'')])])) = Inr m \<and>
    parse_info_hash m = Inr (hex_encode (sha1 (bencode (TDict [(''length'', TInt 7), (''name'', TBytes ''a b'')]))))"
  by (rule torrent_magnet_names_torrent) simp_all

end
