(* ===== verification/Json.thy ===== *)
theory Json
  imports Webdav
begin

text \<open>
  JSON as \<open>encoding/json\<close> reads and writes it, for the APIs of the server. A body is its value here: the text of it is the
  library's. Reading into a Go value follows \<open>Unmarshal\<close>: \<open>null\<close> leaves what is there, a value of another kind is an
  error (\<open>None\<close>), the names of fields are compared without case, and of two members with one name the later counts. The
  encoder sorts the members of a map; the order of members is not told apart here.
\<close>

datatype json =
    JNull
  | JBool bool
  | JInt int
  | JNum rat
  | JStr string
  | JArr "json list"
  | JObj "(string \<times> json) list"

section \<open>Reading\<close>

definition json_string :: "string \<Rightarrow> json \<Rightarrow> string option" where
  "json_string old v = (case v of JNull \<Rightarrow> Some old | JStr s \<Rightarrow> Some s | _ \<Rightarrow> None)"

text \<open>An \<open>int\<close>: \<open>JInt\<close> is a number written without fraction and exponent, and has to fit.\<close>

definition json_int :: "int \<Rightarrow> json \<Rightarrow> int option" where
  "json_int old v = (case v of
     JNull \<Rightarrow> Some old
   | JInt i \<Rightarrow> if - (2 ^ 63) \<le> i \<and> i < 2 ^ 63 then Some i else None
   | _ \<Rightarrow> None)"

fun all_some :: "'a option list \<Rightarrow> 'a list option" where
  "all_some [] = Some []"
| "all_some (x # xs) = (case x of None \<Rightarrow> None | Some y \<Rightarrow> map_option (Cons y) (all_some xs))"

text \<open>\<open>[]string\<close> and \<open>[]json.RawMessage\<close>; \<open>null\<close> makes the slice nil.\<close>

definition json_strings :: "json \<Rightarrow> string list option" where
  "json_strings v = (case v of JNull \<Rightarrow> Some [] | JArr vs \<Rightarrow> all_some (map (json_string '''') vs) | _ \<Rightarrow> None)"

definition json_raws :: "json \<Rightarrow> json list option" where
  "json_raws v = (case v of JNull \<Rightarrow> Some [] | JArr vs \<Rightarrow> Some vs | _ \<Rightarrow> None)"

text \<open>The members of an object for one field, in their order.\<close>

definition members :: "string \<Rightarrow> (string \<times> json) list \<Rightarrow> json list" where
  "members k ms = map snd (filter (\<lambda>m. equal_fold (fst m) k) ms)"

text \<open>A field read from its members one after the other; an error of one is an error of the object.\<close>

fun read_field :: "('a \<Rightarrow> json \<Rightarrow> 'a option) \<Rightarrow> 'a \<Rightarrow> json list \<Rightarrow> 'a option" where
  "read_field f old [] = Some old"
| "read_field f old (v # vs) = (case f old v of None \<Rightarrow> None | Some new \<Rightarrow> read_field f new vs)"

section \<open>Answers of the APIs\<close>

text \<open>What a handler writes. \<open>Broken\<close> is a panic of the handler: the server recovers and drops the connection.\<close>

datatype api_body = NoBody | TextBody string | JsonBody json | Broken

record api_response =
  ap_status :: nat
  ap_headers :: header
  ap_body :: api_body

definition json_answer :: "nat \<Rightarrow> json \<Rightarrow> api_response" where
  "json_answer status v = \<lparr>ap_status = status, ap_headers = [], ap_body = JsonBody v\<rparr>"

definition text_answer :: "nat \<Rightarrow> string \<Rightarrow> api_response" where
  "text_answer status s = \<lparr>ap_status = status, ap_headers = [], ap_body = TextBody s\<rparr>"

definition empty_answer :: "nat \<Rightarrow> api_response" where
  "empty_answer status = \<lparr>ap_status = status, ap_headers = [], ap_body = NoBody\<rparr>"

text \<open>\<open>http.Error\<close> with the text of an error.\<close>

definition error_answer :: "nat \<Rightarrow> err \<Rightarrow> api_response" where
  "error_answer status e = text_answer status (err_text e)"

text \<open>\<open>URL.Query().Get\<close>.\<close>

definition query_get :: "string \<Rightarrow> string \<Rightarrow> string" where
  "query_get raw k = (case query_values (fst (parse_query raw)) k of [] \<Rightarrow> '''' | v # _ \<Rightarrow> v)"

text \<open>The name in a magnet link.\<close>

definition magnet_name :: "string \<Rightarrow> string" where
  "magnet_name m = (case url_parse m of None \<Rightarrow> '''' | Some u \<Rightarrow> query_get (u_raw_query u) ''dn'')"

end
