(* ===== verification/Qbittorrent.thy ===== *)
theory Qbittorrent
  imports Task_Manager Bencode Json
begin

text \<open>
  The qBittorrent API (\<open>internal/transport/qbittorrent\<close>): \<open>controller.go\<close>, which turns its requests into
  operations on the jobs of its source, and \<open>handler.go\<close>, the routes, the sessions and the forms. The cookie, the basic
  credentials and the parts of a multipart form are fields of the request, as the HTTP library hands them over; a
  response has no headers but those a client acts on.
\<close>

section \<open>The controller\<close>

definition qb_new_job :: "string \<Rightarrow> (('p, 'z) m_world_scheme, job) io" where
  "qb_new_job magnet = io_bind read_now (\<lambda>now. io_of (new_job_for_source now magnet source_qbittorrent))"

definition qb_add_uri :: "'p manager \<Rightarrow> string \<Rightarrow> string \<Rightarrow> (('p, 'z) m_world_scheme, string) io" where
  "qb_add_uri m magnet category =
     io_bind (qb_new_job magnet) (\<lambda>j. submit m (j\<lparr>j_category := trim_space category\<rparr>))"

text \<open>The listing shows the latest job of each torrent, at the place of the first.\<close>

fun latest_jobs :: "job list \<Rightarrow> string list \<Rightarrow> (string \<Rightarrow> job option) \<Rightarrow> string list \<times> (string \<Rightarrow> job option)" where
  "latest_jobs [] order latest = (order, latest)"
| "latest_jobs (j # js) order latest =
     (let k = to_lower (j_info_hash j)
      in case latest k of
           None \<Rightarrow> latest_jobs js (order @ [k]) (latest(k \<mapsto> j))
         | Some current \<Rightarrow> latest_jobs js order (if j_id j > j_id current then latest(k \<mapsto> j) else latest))"

definition pick_latest :: "job list \<Rightarrow> job list" where
  "pick_latest js = (case latest_jobs js [] (\<lambda>_. None) of (order, latest) \<Rightarrow> List.map_filter latest order)"

definition qb_jobs :: "job_state list \<Rightarrow> (('p, 'z) m_world_scheme, job list) io" where
  "qb_jobs states = io_bind (on_db (list_jobs source_qbittorrent states)) (\<lambda>js. io_ret (pick_latest js))"

definition qb_job :: "string \<Rightarrow> (('p, 'z) m_world_scheme, job) io" where
  "qb_job gid = on_db (get_job gid)"

text \<open>\<open>SetCategory\<close> reads the job and then writes all of it, in two steps.\<close>

definition qb_write_category :: "string \<Rightarrow> job \<Rightarrow> (('p, 'z) m_world_scheme, unit) io" where
  "qb_write_category category j = on_db (update_job (j\<lparr>j_category := trim_space category\<rparr>))"

definition qb_set_category :: "string \<Rightarrow> string \<Rightarrow> (('p, 'z) m_world_scheme, unit) io" where
  "qb_set_category gid category = io_bind (qb_job gid) (qb_write_category category)"

section \<open>Requests\<close>

text \<open>The body of a request: an encoded form, a multipart form with its values and files in order (a file
  that cannot be read is \<open>None\<close>), a multipart form that cannot be read, or anything else. A body over the limits of the library and of
  \<open>maxAddSize\<close> is one that cannot be read.\<close>

datatype form_body =
    Encoded string
  | Multipart "(string \<times> string) list" "(string \<times> string option) list"
  | BadMultipart
  | NoForm

record qb_request =
  qr_method :: string
  qr_path :: string
  qr_query :: string
  qr_body :: form_body
  qr_basic :: "(string \<times> string) option"
  qr_sid :: "string option"

record 'p qb_handler =
  qh_manager :: "'p manager"
  qh_save_path :: string
  qh_username :: string
  qh_password :: string
  qh_session :: string
  qh_order :: "string list \<Rightarrow> string list"

definition new_qb_handler :: "'p manager \<Rightarrow> string \<Rightarrow> string \<Rightarrow> string \<Rightarrow> (string list \<Rightarrow> string list) \<Rightarrow> 'p qb_handler" where
  "new_qb_handler m save_path username password order =
     \<lparr>qh_manager = m, qh_save_path = save_path, qh_username = username, qh_password = password,
      qh_session = hex_encode (sha256 (username @ char_of (0::nat) # password)), qh_order = order\<rparr>"

text \<open>\<open>ParseForm\<close>: the values of the body come before those of the query. The error is of either.\<close>

definition parse_form :: "qb_request \<Rightarrow> (string \<times> string) list \<times> bool" where
  "parse_form q =
     (case parse_query (qr_query q) of (qs, qok) \<Rightarrow>
       (case qr_body q of
         Encoded b \<Rightarrow> (case parse_query b of (ps, ok) \<Rightarrow> (ps @ qs, ok \<and> qok))
       | _ \<Rightarrow> (qs, qok)))"

text \<open>\<open>ParseMultipartForm\<close>, and \<open>ParseForm\<close> once more where it fails. The second call finds the form there
  and succeeds, so whatever could be read is the form; a multipart form's values come after the query's.\<close>

definition add_form :: "qb_request \<Rightarrow> (string \<times> string) list" where
  "add_form q = fst (parse_form q) @ (case qr_body q of Multipart vs fs \<Rightarrow> vs | _ \<Rightarrow> [])"

definition form_get :: "(string \<times> string) list \<Rightarrow> string \<Rightarrow> string" where
  "form_get ps k = (case query_values ps k of [] \<Rightarrow> '''' | v # _ \<Rightarrow> v)"

definition authorized :: "'p qb_handler \<Rightarrow> qb_request \<Rightarrow> bool" where
  "authorized h q = (case qr_basic q of
     Some (u, p) \<Rightarrow> u = qh_username h \<and> p = qh_password h
   | None \<Rightarrow> qr_sid q = Some (qh_session h))"

text \<open>The guard every handler starts with.\<close>

definition with_method :: "string \<Rightarrow> qb_request \<Rightarrow> ('w, api_response) io \<Rightarrow> ('w, api_response) io" where
  "with_method want q body =
     (if qr_method q = want then body
      else io_ret (text_answer 405 ''Method Not Allowed''\<lparr>ap_headers := [(''Allow'', [want])]\<rparr>))"

definition plain :: "string \<Rightarrow> api_response" where
  "plain s = text_answer 200 s"

section \<open>Sessions\<close>

definition qb_login :: "'p qb_handler \<Rightarrow> qb_request \<Rightarrow> ('w, api_response) io" where
  "qb_login h q = with_method ''POST'' q
     (case parse_form q of (form, ok) \<Rightarrow>
       if \<not> ok then io_ret (text_answer 400 ''Fails.'')
       else if qh_username h \<noteq> '''' \<and>
         (form_get form ''username'' \<noteq> qh_username h \<or> form_get form ''password'' \<noteq> qh_password h)
       then io_ret (plain ''Fails.'')
       else io_ret (plain ''Ok.''\<lparr>ap_headers :=
         [(''Set-Cookie'', [''SID='' @ qh_session h @ ''; Path=/; HttpOnly; SameSite=Lax''])]\<rparr>))"

definition qb_logout :: "qb_request \<Rightarrow> ('w, api_response) io" where
  "qb_logout q = with_method ''POST'' q
     (io_ret (empty_answer 200\<lparr>ap_headers := [(''Set-Cookie'', [''SID=; Path=/; Max-Age=0; HttpOnly''])]\<rparr>))"

section \<open>Reading\<close>

definition qb_preferences :: "'p qb_handler \<Rightarrow> qb_request \<Rightarrow> ('w, api_response) io" where
  "qb_preferences h q = with_method ''GET'' q (io_ret (json_answer 200 (JObj
     [(''save_path'', JStr (qh_save_path h)), (''dht'', JBool True), (''queueing_enabled'', JBool True),
      (''max_ratio_enabled'', JBool False), (''max_ratio'', JInt (- 1)),
      (''max_seeding_time_enabled'', JBool False), (''max_seeding_time'', JInt (- 1)),
      (''max_inactive_seeding_time_enabled'', JBool False), (''max_inactive_seeding_time'', JInt (- 1)),
      (''max_ratio_act'', JInt 0)])))"

definition qb_transfer_info :: "qb_request \<Rightarrow> ('w, api_response) io" where
  "qb_transfer_info q = with_method ''GET'' q (io_ret (json_answer 200 (JObj
     [(''dl_info_speed'', JInt 0), (''dl_info_data'', JInt 0), (''up_info_speed'', JInt 0), (''up_info_data'', JInt 0),
      (''dl_rate_limit'', JInt 0), (''up_rate_limit'', JInt 0), (''dht_nodes'', JInt 0),
      (''connection_status'', JStr ''connected'')])))"

text \<open>The categories of the database are a list of names and paths.\<close>

definition qb_categories :: "qb_request \<Rightarrow> (('p, 'z) m_world_scheme, api_response) io" where
  "qb_categories q = with_method ''GET'' q (\<lambda>w.
     (Inr (json_answer 200 (JObj (map (\<lambda>(n, p). (n, JObj [(''name'', JStr n), (''savePath'', JStr p)]))
        (categories (w_db w))))), w))"

definition qb_create_category :: "qb_request \<Rightarrow> (('p, 'z) m_world_scheme, api_response) io" where
  "qb_create_category q = with_method ''POST'' q
     (case parse_form q of (form, ok) \<Rightarrow>
       if \<not> ok then io_ret (error_answer 400 (Msg ''form''))
       else let name = trim_space (form_get form ''category'')
         in if name = '''' then io_ret (text_answer 400 ''Category name cannot be empty'')
            else io_try (on_db (create_category name (trim_space (form_get form ''savePath'')))) (\<lambda>r. case r of
                Inl e \<Rightarrow> io_ret (error_answer 409 e)
              | Inr _ \<Rightarrow> io_ret (empty_answer 200)))"

text \<open>\<open>splitHashes\<close>: a map, here its keys in the order they come.\<close>

definition split_hashes :: "string \<Rightarrow> string list" where
  "split_hashes v =
     (if equal_fold (trim_space v) ''all'' \<or> trim_space v = '''' then []
      else remdups (filter (\<lambda>h. h \<noteq> '''') (map (\<lambda>h. to_lower (trim_space h)) (split_on (CHR ''|'') v))))"

definition qbit_state :: "job_state \<Rightarrow> string" where
  "qbit_state s = (case s of
     Queued \<Rightarrow> ''queuedDL'' | Running \<Rightarrow> ''downloading'' | Succeeded \<Rightarrow> ''pausedUP''
   | Failed \<Rightarrow> ''error'' | Canceled \<Rightarrow> ''error'')"

definition matches_filter :: "string \<Rightarrow> string \<Rightarrow> bool" where
  "matches_filter f s =
     (if f = '''' \<or> f = ''all'' then True
      else if f = ''downloading'' then s = ''queuedDL'' \<or> s = ''downloading''
      else if f = ''completed'' \<or> f = ''seeding'' then s = ''pausedUP''
      else if f = ''paused'' then s = ''pausedUP''
      else if f = ''errored'' then s = ''error''
      else if f = ''active'' then s = ''downloading''
      else if f = ''inactive'' then s \<noteq> ''downloading''
      else True)"

text \<open>\<open>Unix()\<close>: whole seconds.\<close>

definition unix_seconds :: "timestamp \<Rightarrow> int" where
  "unix_seconds t = t div 1000000000"

definition unix_time :: "timestamp option \<Rightarrow> int" where
  "unix_time t = (case t of None \<Rightarrow> - 1 | Some t \<Rightarrow> unix_seconds t)"

record qb_item =
  qi_name :: string
  qi_size :: int
  qi_progress :: int
  qi_completed :: int
  qi_content_path :: string

definition qb_item_of :: "'p qb_handler \<Rightarrow> job \<Rightarrow> (('p, 'z) m_world_scheme, qb_item) io" where
  "qb_item_of h j =
     (let fresh = \<lparr>qi_name = magnet_name (j_magnet_uri j), qi_size = 0, qi_progress = 0, qi_completed = 0,
          qi_content_path = qh_save_path h\<rparr>
      in if j_state j \<noteq> Succeeded then io_ret fresh
         else io_try (service_result (mg_service (qh_manager h)) (j_info_hash j)) (\<lambda>r. case r of
             Inl _ \<Rightarrow> io_ret fresh
           | Inr x \<Rightarrow> io_ret \<lparr>qi_name = r_name x, qi_size = r_total_bytes x, qi_progress = 1,
               qi_completed = r_total_bytes x, qi_content_path = path_join [qh_save_path h, r_strm_root x]\<rparr>))"

definition qb_torrent :: "'p qb_handler \<Rightarrow> job \<Rightarrow> (('p, 'z) m_world_scheme, json) io" where
  "qb_torrent h j = io_bind (qb_item_of h j) (\<lambda>i.
     let name = (if qi_name i = '''' then j_info_hash j else qi_name i);
         added = unix_seconds (j_created_at j);
         last_activity = (case j_finished_at j of None \<Rightarrow> added | Some t \<Rightarrow> unix_seconds t)
     in io_ret (JObj
       [(''hash'', JStr (j_info_hash j)), (''name'', JStr name), (''size'', JInt (qi_size i)),
        (''total_size'', JInt (qi_size i)), (''progress'', JInt (qi_progress i)),
        (''completed'', JInt (qi_completed i)), (''amount_left'', JInt (wrap64 (qi_size i - qi_completed i))),
        (''state'', JStr (qbit_state (j_state j))), (''category'', JStr (j_category j)), (''tags'', JStr ''''),
        (''save_path'', JStr (qh_save_path h)), (''content_path'', JStr (qi_content_path i)),
        (''added_on'', JInt added), (''completion_on'', JInt (unix_time (j_finished_at j))),
        (''last_activity'', JInt last_activity), (''eta'', JInt 8640000), (''dlspeed'', JInt 0), (''upspeed'', JInt 0),
        (''downloaded'', JInt (qi_completed i)), (''uploaded'', JInt 0), (''ratio'', JInt 0), (''ratio_limit'', JInt (- 2)),
        (''seeding_time'', JInt 0), (''seeding_time_limit'', JInt (- 2)), (''inactive_seeding_time_limit'', JInt (- 2))]))"

definition shown :: "qb_request \<Rightarrow> job \<Rightarrow> bool" where
  "shown q j =
     (let hashes = split_hashes (query_get (qr_query q) ''hashes'');
          cats = query_values (fst (parse_query (qr_query q))) ''category''
      in (hashes = [] \<or> to_lower (j_info_hash j) \<in> set hashes) \<and> (cats = [] \<or> j_category j = hd cats))"

fun qb_items :: "'p qb_handler \<Rightarrow> qb_request \<Rightarrow> job list \<Rightarrow> (('p, 'z) m_world_scheme, json list) io" where
  "qb_items h q [] = io_ret []"
| "qb_items h q (j # js) =
     (if \<not> shown q j then qb_items h q js
      else io_bind (qb_torrent h j) (\<lambda>v. io_bind (qb_items h q js) (\<lambda>vs.
        io_ret (if matches_filter (query_get (qr_query q) ''filter'') (qbit_state (j_state j)) then v # vs else vs))))"

definition qb_torrents :: "'p qb_handler \<Rightarrow> qb_request \<Rightarrow> (('p, 'z) m_world_scheme, api_response) io" where
  "qb_torrents h q = with_method ''GET'' q (io_try (qb_jobs []) (\<lambda>r. case r of
       Inl e \<Rightarrow> io_ret (error_answer 500 e)
     | Inr js \<Rightarrow> io_bind (qb_items h q js) (\<lambda>vs. io_ret (json_answer 200 (JArr vs)))))"

section \<open>Adding\<close>

definition max_add_size :: nat where
  "max_add_size = 16 * 2 ^ 20"

definition magnet_from_upload :: "string option \<Rightarrow> err + string" where
  "magnet_from_upload file = (case file of
     None \<Rightarrow> Inl (Msg ''upload'')
   | Some data \<Rightarrow>
       if length data > max_add_size then Inl (Msg ''torrent too large'')
       else map_sum (Wrap ''torrent'') id (magnet_from_torrent data))"

fun all_uploads :: "string option list \<Rightarrow> string list option" where
  "all_uploads [] = Some []"
| "all_uploads (f # fs) = (case magnet_from_upload f of
     Inl _ \<Rightarrow> None | Inr m \<Rightarrow> map_option (Cons m) (all_uploads fs))"

definition url_magnets :: "string \<Rightarrow> string list" where
  "url_magnets urls = filter (\<lambda>v. v \<noteq> '''') (map trim_space (split_on (CHR ''\<newline>'') urls))"

definition add_magnets :: "qb_request \<Rightarrow> string list option" where
  "add_magnets q =
     (let files = (case qr_body q of Multipart vs fs \<Rightarrow> map snd (filter (\<lambda>f. fst f = ''torrents'') fs) | _ \<Rightarrow> [])
      in map_option (\<lambda>ms. url_magnets (form_get (add_form q) ''urls'') @ ms) (all_uploads files))"

fun qb_add_all :: "'p manager \<Rightarrow> string \<Rightarrow> string list \<Rightarrow> (('p, 'z) m_world_scheme, unit) io" where
  "qb_add_all m category [] = io_ret ()"
| "qb_add_all m category (x # xs) = io_bind (qb_add_uri m x category) (\<lambda>_. qb_add_all m category xs)"

definition qb_add :: "'p qb_handler \<Rightarrow> qb_request \<Rightarrow> (('p, 'z) m_world_scheme, api_response) io" where
  "qb_add h q = with_method ''POST'' q
     (case add_magnets q of
       None \<Rightarrow> io_ret (plain ''Fails.'')
     | Some magnets \<Rightarrow>
         if magnets = [] then io_ret (plain ''Fails.'')
         else io_try (qb_add_all (qh_manager h) (trim_space (form_get (add_form q) ''category'')) magnets) (\<lambda>r. case r of
             Inl _ \<Rightarrow> io_ret (plain ''Fails.'')
           | Inr _ \<Rightarrow> io_ret (plain ''Ok.'')))"

section \<open>Deleting and categories\<close>

text \<open>A job is found by the first sixteen characters of the hash, which is the identity a job gets unless it is taken.\<close>

fun find_jobs :: "string list \<Rightarrow> (('p, 'z) m_world_scheme, job list) io" where
  "find_jobs [] = io_ret []"
| "find_jobs (x # xs) =
     (if length x < 16 then find_jobs xs
      else io_try (qb_job (take 16 x)) (\<lambda>r. case r of
          Inl e \<Rightarrow> if errors_is e ErrJobNotFound then find_jobs xs else io_fail e
        | Inr j \<Rightarrow> io_bind (find_jobs xs) (\<lambda>js. io_ret (j # js))))"

definition selected_jobs :: "'p qb_handler \<Rightarrow> string \<Rightarrow> (('p, 'z) m_world_scheme, job list) io" where
  "selected_jobs h v =
     (if equal_fold (trim_space v) ''all'' then qb_jobs [] else find_jobs (qh_order h (split_hashes v)))"

fun delete_all :: "'p manager \<Rightarrow> bool \<Rightarrow> job list \<Rightarrow> (('p, 'z) m_world_scheme, unit) io" where
  "delete_all m b [] = io_ret ()"
| "delete_all m b (j # js) = io_bind (delete_with_files m (j_gid j) b) (\<lambda>_. delete_all m b js)"

fun set_category_all :: "string \<Rightarrow> job list \<Rightarrow> (('p, 'z) m_world_scheme, unit) io" where
  "set_category_all category [] = io_ret ()"
| "set_category_all category (j # js) = io_try (qb_set_category (j_gid j) category) (\<lambda>r. case r of
       Inl e \<Rightarrow> if errors_is e ErrJobNotFound then set_category_all category js else io_fail e
     | Inr _ \<Rightarrow> set_category_all category js)"

text \<open>The end both handlers share: what an error of the jobs is answered with.\<close>

definition or_500 :: "('w, unit) io \<Rightarrow> ('w, api_response) io" where
  "or_500 body = io_try body (\<lambda>r. case r of Inl e \<Rightarrow> io_ret (error_answer 500 e) | Inr _ \<Rightarrow> io_ret (empty_answer 200))"

definition qb_delete :: "'p qb_handler \<Rightarrow> qb_request \<Rightarrow> (('p, 'z) m_world_scheme, api_response) io" where
  "qb_delete h q = with_method ''POST'' q
     (case parse_form q of (form, ok) \<Rightarrow>
       if \<not> ok then io_ret (error_answer 400 (Msg ''form''))
       else or_500 (io_bind (selected_jobs h (form_get form ''hashes''))
         (delete_all (qh_manager h) (form_get form ''deleteFiles'' = ''true''))))"

definition qb_set_category_handler :: "'p qb_handler \<Rightarrow> qb_request \<Rightarrow> (('p, 'z) m_world_scheme, api_response) io" where
  "qb_set_category_handler h q = with_method ''POST'' q
     (case parse_form q of (form, ok) \<Rightarrow>
       if \<not> ok then io_ret (error_answer 400 (Msg ''form''))
       else or_500 (io_bind (selected_jobs h (form_get form ''hashes''))
         (set_category_all (trim_space (form_get form ''category'')))))"

section \<open>One torrent\<close>

definition job_by_hash :: "qb_request \<Rightarrow> (('p, 'z) m_world_scheme, job) io" where
  "job_by_hash q =
     (let hash = to_lower (trim_space (query_get (qr_query q) ''hash''))
      in if length hash < 16 then io_fail ErrJobNotFound else qb_job (take 16 hash))"

definition with_job :: "qb_request \<Rightarrow> (job \<Rightarrow> (('p, 'z) m_world_scheme, api_response) io) \<Rightarrow> (('p, 'z) m_world_scheme, api_response) io" where
  "with_job q body = with_method ''GET'' q (io_try (job_by_hash q) (\<lambda>r. case r of
     Inl _ \<Rightarrow> io_ret (text_answer 404 ''Not Found'') | Inr j \<Rightarrow> body j))"

definition qb_properties :: "'p qb_handler \<Rightarrow> qb_request \<Rightarrow> (('p, 'z) m_world_scheme, api_response) io" where
  "qb_properties h q = with_job q (\<lambda>j.
     io_bind (if j_state j = Succeeded
        then io_try (service_result (mg_service (qh_manager h)) (j_info_hash j)) (\<lambda>r. case r of
            Inl _ \<Rightarrow> io_ret (qh_save_path h) | Inr x \<Rightarrow> io_ret (path_join [qh_save_path h, r_strm_root x]))
        else io_ret (qh_save_path h))
       (\<lambda>p. io_ret (json_answer 200 (JObj [(''hash'', JStr (j_info_hash j)), (''save_path'', JStr p), (''seeding_time'', JInt 0)]))))"

fun file_items :: "int \<Rightarrow> scan_file list \<Rightarrow> json list" where
  "file_items i [] = []"
| "file_items i (f # fs) =
     (if f_strm_path f = '''' then file_items i fs
      else JObj [(''index'', JInt i), (''name'', JStr (f_relative_path f @ ''.strm'')), (''size'', JInt (f_size_bytes f)),
        (''progress'', JInt 1), (''priority'', JInt 1), (''is_seed'', JBool False),
        (''piece_range'', JArr [JInt 0, JInt 0]), (''availability'', JInt 1)] # file_items (i + 1) fs)"

definition qb_files :: "'p qb_handler \<Rightarrow> qb_request \<Rightarrow> (('p, 'z) m_world_scheme, api_response) io" where
  "qb_files h q = with_job q (\<lambda>j.
     io_try (service_result (mg_service (qh_manager h)) (j_info_hash j)) (\<lambda>r. io_ret (json_answer 200 (JArr (case r of
       Inl _ \<Rightarrow> [] | Inr x \<Rightarrow> file_items 0 (r_files x))))))"

section \<open>Routes\<close>

definition qb_path :: "string \<Rightarrow> string" where
  "qb_path s = ''/api/v2/'' @ s"

definition qb_route :: "'p qb_handler \<Rightarrow> qb_request \<Rightarrow> (('p, 'z) m_world_scheme, api_response) io" where
  "qb_route h q =
     (let p = qr_path q
      in if p = qb_path ''auth/logout'' then qb_logout q
         else if p = qb_path ''app/version'' then with_method ''GET'' q (io_ret (plain ''v4.6.7''))
         else if p = qb_path ''app/webapiVersion'' then with_method ''GET'' q (io_ret (plain ''2.8.3''))
         else if p = qb_path ''app/preferences'' then qb_preferences h q
         else if p = qb_path ''transfer/info'' then qb_transfer_info q
         else if p = qb_path ''torrents/categories'' then qb_categories q
         else if p = qb_path ''torrents/createCategory'' then qb_create_category q
         else if p = qb_path ''torrents/info'' then qb_torrents h q
         else if p = qb_path ''torrents/add'' then qb_add h q
         else if p = qb_path ''torrents/delete'' then qb_delete h q
         else if p = qb_path ''torrents/setCategory'' then qb_set_category_handler h q
         else if p = qb_path ''torrents/properties'' then qb_properties h q
         else if p = qb_path ''torrents/files'' then qb_files h q
         else if p \<in> {qb_path ''torrents/topPrio'', qb_path ''torrents/setForceStart'', qb_path ''torrents/setShareLimits''}
           then with_method ''POST'' q (io_ret (empty_answer 200))
         else io_ret (text_answer 404 ''404 page not found''))"

definition qb_serve :: "'p qb_handler \<Rightarrow> qb_request \<Rightarrow> (('p, 'z) m_world_scheme, api_response) io" where
  "qb_serve h q =
     (if qr_path q = qb_path ''auth/login'' then qb_login h q
      else if qh_username h \<noteq> '''' \<and> \<not> authorized h q then io_ret (text_answer 403 ''Forbidden'')
      else qb_route h q)"

end
