(* ===== verification/Submit_Facts.thy ===== *)
theory Submit_Facts
  imports Task_Facts
begin

text \<open>
  What a submission leaves in the database: a job of its source for its torrent that has not failed and is not canceled,
  new or found there; and every torrent that had such a job keeps it. Both APIs that accept magnet links rest on this.
\<close>

definition has_live :: "string \<Rightarrow> string \<Rightarrow> db \<Rightarrow> bool" where
  "has_live s h d \<longleftrightarrow> (\<exists>r \<in> set (tasks d). tk_source r = s \<and> tk_state r \<notin> {Failed, Canceled} \<and>
     map_option tr_info_hash (torrent_by_id d (tk_torrent_id r)) = Some h)"

section \<open>The torrents keep their hashes\<close>

lemma create_job_torrents:
  assumes "create_job j d = (Inr (), d')"
  shows "\<exists>h m now. torrents d' = upsert_job_torrent (h, m, now) (torrents d)"
proof -
  have ext: "torrents e' = torrents e" if "insert_extension s j i e = (Inr (), e')" for s i e e'
    using that by (auto simp: insert_extension_def split: if_splits)
  have ins: "torrents e' = torrents e" if "insert_task r e = (Inr (), e')" for r e e'
    using that by (auto simp: insert_task_def split: if_splits)
  from assms show ?thesis
    by (fastforce simp: create_job_def tx_def Let_def io_bind_def split: if_splits option.splits sum.splits prod.splits
        dest!: ext ins)
qed

lemma upsert_keeps_hash:
  assumes "t \<in> set ts"
  shows "\<exists>u \<in> set (upsert_job_torrent a ts). tr_id u = tr_id t \<and> tr_info_hash u = tr_info_hash t"
proof (cases "list_ex (\<lambda>t. tr_info_hash t = fst a) ts")
  case True
  let ?u = "if tr_info_hash t = fst a then job_torrent_upd a t else t"
  have "?u \<in> set (upsert_job_torrent a ts)"
    using assms True by (auto simp: upsert_job_torrent_def upsert_def set_update_rows)
  then show ?thesis using jt.upd_id [of a t] jt.upd_key [of a t] by (intro bexI [of _ ?u]) auto
next
  case False
  then have "upsert_job_torrent a ts = ts @ [job_torrent_mk a (next_id tr_id ts)]"
    by (simp add: upsert_job_torrent_def upsert_def)
  with assms show ?thesis by auto
qed

lemma torrent_by_id_in:
  "jobs_ok d \<Longrightarrow> t \<in> set (torrents d) \<Longrightarrow> torrent_by_id d (tr_id t) = Some t"
  unfolding torrent_by_id_def by (rule find_key_unique) (simp_all add: jobs_ok_def torrents_ok_def)

lemma torrent_by_id_hash:
  "torrent_by_id d i = Some t \<Longrightarrow> t \<in> set (torrents d) \<and> tr_id t = i"
  unfolding torrent_by_id_def using find_Some_set by fastforce

section \<open>The operations on jobs\<close>

lemma create_job_holds:
  assumes ok: "jobs_ok d" and run: "create_job j d = (Inr (), d')"
  shows "jobs_ok d'" "has_live s h d \<Longrightarrow> has_live s h d'"
    "j_state j \<notin> {Failed, Canceled} \<Longrightarrow> has_live (job_source j) (to_lower (j_info_hash j)) d'"
proof -
  from create_job_run [OF ok, of j] run obtain t where ok': "jobs_ok d'"
    and t: "torrent_by_hash d' (to_lower (j_info_hash j)) = Some t"
    and ts: "tasks d' = tasks d @ [new_task_row (job_source j) j (tr_id t) (next_id tk_id (tasks d))]"
    by (auto split: if_splits)
  show "jobs_ok d'" by (rule ok')
  show "has_live s h d'" if "has_live s h d"
  proof -
    from that obtain r x where r: "r \<in> set (tasks d)" "tk_source r = s" "tk_state r \<notin> {Failed, Canceled}"
      "torrent_by_id d (tk_torrent_id r) = Some x" "tr_info_hash x = h" by (auto simp: has_live_def)
    from create_job_torrents [OF run] upsert_keeps_hash torrent_by_id_hash [OF r(4)]
    obtain u where "u \<in> set (torrents d')" "tr_id u = tk_torrent_id r" "tr_info_hash u = h"
      using r(5) by metis
    with torrent_by_id_in [OF ok'] have "map_option tr_info_hash (torrent_by_id d' (tk_torrent_id r)) = Some h" by fastforce
    then show ?thesis using r ts by (auto simp: has_live_def)
  qed
  show "has_live (job_source j) (to_lower (j_info_hash j)) d'" if "j_state j \<notin> {Failed, Canceled}"
  proof -
    have "t \<in> set (torrents d')" "tr_info_hash t = to_lower (j_info_hash j)"
      using t find_Some_set unfolding torrent_by_hash_def by fastforce+
    with torrent_by_id_in [OF ok'] have
      "map_option tr_info_hash (torrent_by_id d' (tr_id t)) = Some (to_lower (j_info_hash j))" by simp
    then show ?thesis using that ts by (auto simp: has_live_def new_task_row_def)
  qed
qed

lemma update_job_holds:
  assumes ok: "jobs_ok d" and known: "state_of d (j_gid j) = Some (j_state j)" and run: "update_job j d = (Inr (), d')"
  shows "jobs_ok d'" "has_live s h d \<Longrightarrow> has_live s h d'"
proof -
  from known obtain q where q: "task_by_gid d (j_gid j) = Some q" "tk_state q = j_state j" by (auto simp: state_of_def)
  from update_job_run [OF ok, of j] q run have d': "jobs_ok d'" "torrents d' = torrents d"
      "tasks d' = update_rows (update_guard j) (update_job_row j) (tasks d)"
    by (auto split: if_splits)
  show "jobs_ok d'" by (rule d'(1))
  show "has_live s h d'" if "has_live s h d"
  proof -
    from that obtain r where r: "r \<in> set (tasks d)" "tk_source r = s" "tk_state r \<notin> {Failed, Canceled}"
      "map_option tr_info_hash (torrent_by_id d (tk_torrent_id r)) = Some h" by (auto simp: has_live_def)
    let ?r = "if update_guard j r then update_job_row j r else r"
    have "tk_state r = j_state j" if "update_guard j r"
      using that task_by_gid_unique [OF ok r(1)] q by (simp add: update_guard_def)
    then have "tk_state ?r = tk_state r" "tk_source ?r = tk_source r" "tk_torrent_id ?r = tk_torrent_id r"
      by (auto simp: update_job_row_def)
    moreover have "?r \<in> set (tasks d')" using r(1) d'(3) by (simp add: set_update_rows)
    ultimately show ?thesis using r d'(2) by (auto simp: has_live_def torrent_by_id_def intro!: bexI [of _ ?r])
  qed
qed

lemma latest_job_row:
  assumes "latest_job s h d = (Inr x, d')"
  shows "\<exists>r \<in> set (tasks d). tk_source r = s \<and> job_of_row d r = Some x \<and>
    map_option tr_info_hash (torrent_by_id d (tk_torrent_id r)) = Some (to_lower h)"
proof -
  let ?rows = "filter (\<lambda>r. tk_source r = s \<and>
      map_option tr_info_hash (torrent_by_id d (tk_torrent_id r)) = Some (to_lower h)) (tasks d)"
  define sorted_rows where "sorted_rows = rev (sort_key tk_id ?rows)"
  from assms obtain r rs where rs: "sorted_rows = r # rs" "job_of_row d r = Some x"
    unfolding latest_job_def Let_def sorted_rows_def [symmetric] by (auto split: list.splits option.splits)
  then have "r \<in> set sorted_rows" by simp
  then have "r \<in> set ?rows" by (simp only: sorted_rows_def set_rev set_sort)
  with rs(2) show ?thesis by auto
qed

lemma live_job_holds:
  assumes "live_job j w = (Inr (Some x), w')"
  shows "has_live (j_source j) (to_lower (j_info_hash j)) (w_db w)"
    "\<exists>d. latest_job (j_source j) (j_info_hash j) (w_db w) = (Inr x, d)"
proof -
  from assms have x: "j_state x \<notin> {Failed, Canceled}"
    and l: "\<exists>d. latest_job (j_source j) (j_info_hash j) (w_db w) = (Inr x, d)"
    by (auto simp: live_job_def io_try_def on_db_def split: sum.splits if_splits prod.splits)
  show "\<exists>d. latest_job (j_source j) (j_info_hash j) (w_db w) = (Inr x, d)" by (rule l)
  from l latest_job_row obtain r where r: "r \<in> set (tasks (w_db w))" "tk_source r = j_source j"
    "job_of_row (w_db w) r = Some x"
    "map_option tr_info_hash (torrent_by_id (w_db w) (tk_torrent_id r)) = Some (to_lower (j_info_hash j))" by blast
  from r(3) have "tk_state r = j_state x" by (auto simp: job_of_row_def)
  with r x show "has_live (j_source j) (to_lower (j_info_hash j)) (w_db w)" by (auto simp: has_live_def)
qed

section \<open>Submitting\<close>

lemma ensure_unique_keeps:
  "ensure_unique_gid j w = (Inr j', w') \<Longrightarrow> w_db w' = w_db w \<and> j_state j' = j_state j \<and> j_source j' = j_source j \<and>
    j_info_hash j' = j_info_hash j"
  by (auto simp: ensure_unique_gid_def io_try_def on_db_def get_job_def draw_gid_def io_bind_def next_random_def
      assign_new_gid_def split: sum.splits if_splits list.splits option.splits)

lemma quota_keeps_db: "check_offline_quota m w = (r, w') \<Longrightarrow> w_db w' = w_db w"
  using db_freeD [OF check_offline_quota_free, of m w] by simp

lemma enqueue_keeps_db: "enqueue_many gs w = (r, w') \<Longrightarrow> w_db w' = w_db w"
  by (auto simp: enqueue_many_def Let_def split: if_splits option.splits)

lemma submit_holds:
  fixes w :: "('p, 'z) m_world_scheme"
  assumes ok: "jobs_ok (w_db w)" and run: "submit m j w = (Inr g, w')" and fresh: "j_state j \<notin> {Failed, Canceled}"
    and src: "j_source j \<noteq> ''''"
  shows "jobs_ok (w_db w')" "has_live s h (w_db w) \<Longrightarrow> has_live s h (w_db w')"
    "has_live (j_source j) (to_lower (j_info_hash j)) (w_db w')"
proof -
  have av: "available m w" using run by (cases "available m w") (simp_all add: submit_def)
  obtain r where r: "live_job j w = (r, w)" using live_job_run by blast
  have "jobs_ok (w_db w') \<and> (has_live s h (w_db w) \<longrightarrow> has_live s h (w_db w')) \<and>
    has_live (j_source j) (to_lower (j_info_hash j)) (w_db w')"
  proof (cases r)
    case (Inl e)
    with run r av show ?thesis by (simp add: submit_def io_bind_def)
  next
    case (Inr y)
    show ?thesis
    proof (cases y)
      case (Some x)
      note live = live_job_holds [OF r [unfolded Inr Some]]
      from live(2) obtain d where l: "latest_job (j_source j) (j_info_hash j) (w_db w) = (Inr x, d)" by blast
      show ?thesis
      proof (cases "j_category j \<noteq> '''' \<and> j_category x \<noteq> j_category j")
        case True
        with run r Inr Some av obtain e where u: "update_job (x\<lparr>j_category := j_category j\<rparr>) (w_db w) = (Inr (), e)" "w_db w' = e"
          by (auto simp: submit_def io_bind_def on_db_def split: sum.splits prod.splits)
        have "state_of (w_db w) (j_gid (x\<lparr>j_category := j_category j\<rparr>)) = Some (j_state (x\<lparr>j_category := j_category j\<rparr>))"
          using latest_job_known [OF ok l] by simp
        note up = update_job_holds [OF ok this u(1)]
        show ?thesis unfolding u(2) using up live(1) by blast
      next
        case False
        with run r Inr Some av have "w' = w" by (auto simp: submit_def io_bind_def split: if_splits)
        with ok live(1) show ?thesis by simp
      qed
    next
      case None
      with run r Inr av obtain j' w1 w2 w3 where e: "ensure_unique_gid j w = (Inr j', w1)"
        and q: "check_offline_quota m w1 = (Inr (), w2)" and c: "on_db (create_job j') w2 = (Inr (), w3)"
        and n: "enqueue_many [j_gid j'] w3 = (Inr (), w')"
        by (auto simp: submit_def io_bind_eq_Inr)
      from c have c: "create_job j' (w_db w2) = (Inr (), w_db w3)" by (auto simp: on_db_def split: prod.splits)
      have "w_db w2 = w_db w" using quota_keeps_db [OF q] ensure_unique_keeps [OF e] by simp
      with c have c: "create_job j' (w_db w) = (Inr (), w_db w3)" by simp
      have w': "w_db w' = w_db w3" by (rule enqueue_keeps_db [OF n])
      have "job_source j' = j_source j" using ensure_unique_keeps [OF e] src by (simp add: job_source_def)
      with create_job_holds [OF ok c] ensure_unique_keeps [OF e] fresh show ?thesis by (auto simp: w')
    qed
  qed
  then show "jobs_ok (w_db w')" "has_live s h (w_db w) \<Longrightarrow> has_live s h (w_db w')"
    "has_live (j_source j) (to_lower (j_info_hash j)) (w_db w')" by simp_all
qed

end
