(* ===== verification/Qbittorrent_Facts.thy ===== *)
theory Qbittorrent_Facts
  imports Qbittorrent Submit_Facts
begin

text \<open>
  What the qBittorrent API promises and where it does not: who may change something, what the listing shows, what
  \<open>Ok.\<close> means after adding, whose job a deletion removes, and what a change of category may undo.
\<close>

section \<open>Authorization\<close>

lemma with_method_same: "snd (body w) = w \<Longrightarrow> snd (with_method want q body w) = w"
  by (simp add: with_method_def)

lemma qb_login_same: "snd (qb_login h q w) = w"
  unfolding qb_login_def by (rule with_method_same) (simp split: prod.splits)


definition login_request :: "string \<Rightarrow> string \<Rightarrow> qb_request" where
  "login_request u p = \<lparr>qr_method = ''POST'', qr_path = qb_path ''auth/login'', qr_query = '''',
     qr_body = Encoded (values_encode [(''password'', [p]), (''username'', [u])]), qr_basic = None, qr_sid = None\<rparr>"

lemma login_form:
  "fst (parse_form (login_request u p)) = [(''password'', p), (''username'', u)]"
  "snd (parse_form (login_request u p))"
proof -
  let ?vs = "[(''password'', [p]), (''username'', [u])]"
  have vp: "value_pairs ?vs = [(''password'', p), (''username'', u)]"
    by (simp add: value_pairs_def sort_key_def insort_key.simps less_char_def)
  have ok: "parse_query (values_encode ?vs) = (value_pairs ?vs, True)"
    by (rule parse_query_encode)
  show "fst (parse_form (login_request u p)) = [(''password'', p), (''username'', u)]" "snd (parse_form (login_request u p))"
    using ok vp by (simp_all add: parse_form_def login_request_def parse_query_def)
qed

lemma login_request_method: "qr_method (login_request u p) = ''POST''"
  by (simp add: login_request_def)

text \<open>Logging in: the credentials the server is configured with are answered with a session cookie, any others are
  not, and a request that brings the session is authorized.\<close>

lemma login_hands_out_session:
  assumes "h = new_qb_handler m dir username password order" and "username \<noteq> ''''"
  shows "(u = username \<and> p = password \<longrightarrow> fst (qb_login h (login_request u p) w) =
      Inr (plain ''Ok.''\<lparr>ap_headers := [(''Set-Cookie'', [''SID='' @ qh_session h @ ''; Path=/; HttpOnly; SameSite=Lax''])]\<rparr>)) \<and>
    (u \<noteq> username \<or> p \<noteq> password \<longrightarrow> fst (qb_login h (login_request u p) w) = Inr (plain ''Fails.'')) \<and>
    (qr_basic q = None \<and> qr_sid q = Some (qh_session h) \<longrightarrow> authorized h q)"
proof -
  have f: "parse_form (login_request u p) = ([(''password'', p), (''username'', u)], True)"
    using login_form [of u p] by (metis (full_types) prod.collapse)
  have h: "qh_username h = username" "qh_password h = password" using assms(1) by (simp_all add: new_qb_handler_def)
  have form: "form_get [(''password'', p), (''username'', u)] ''username'' = u"
      "form_get [(''password'', p), (''username'', u)] ''password'' = p"
    by (simp_all add: form_get_def query_values_def)
  have "qb_login h (login_request u p) w = (Inr (if u = username \<and> p = password then
      plain ''Ok.''\<lparr>ap_headers := [(''Set-Cookie'', [''SID='' @ qh_session h @ ''; Path=/; HttpOnly; SameSite=Lax''])]\<rparr>
      else plain ''Fails.''), w)"
    unfolding qb_login_def with_method_def f prod.case form h login_request_method using assms(2) by simp
  then show ?thesis by (auto simp: authorized_def)
qed

section \<open>The listing\<close>

abbreviation torrent_key :: "job \<Rightarrow> string" where
  "torrent_key j \<equiv> to_lower (j_info_hash j)"

definition latest_inv :: "job list \<Rightarrow> string list \<Rightarrow> (string \<Rightarrow> job option) \<Rightarrow> bool" where
  "latest_inv js order latest \<longleftrightarrow> distinct order \<and> set order = torrent_key ` set js \<and> dom latest = set order \<and>
     (\<forall>k j. latest k = Some j \<longrightarrow> j \<in> set js \<and> torrent_key j = k \<and> (\<forall>x \<in> set js. torrent_key x = k \<longrightarrow> j_id x \<le> j_id j))"

lemma latest_jobs_inv:
  "latest_inv seen order latest \<Longrightarrow> latest_jobs js order latest = (order', latest') \<Longrightarrow> latest_inv (seen @ js) order' latest'"
proof (induction js arbitrary: seen order latest)
  case (Cons j js)
  let ?k = "torrent_key j"
  show ?case
  proof (cases "latest ?k")
    case None
    then have new: "?k \<notin> set order" using Cons.prems(1) by (auto simp: latest_inv_def)
    have "set order = torrent_key ` set seen" using Cons.prems(1) by (simp add: latest_inv_def)
    with new have "torrent_key x \<noteq> ?k" if "x \<in> set seen" for x using imageI [OF that, of torrent_key] by auto
    with new have "latest_inv (seen @ [j]) (order @ [?k]) (latest(?k \<mapsto> j))"
      using Cons.prems(1) None unfolding latest_inv_def by (auto split: if_splits)
    from Cons.IH [OF this] Cons.prems(2) None show ?thesis by (simp add: Let_def fun_upd_def)
  next
    case (Some c)
    have "latest_inv (seen @ [j]) order (if j_id j > j_id c then latest(?k \<mapsto> j) else latest)"
      using Cons.prems(1) Some unfolding latest_inv_def by (fastforce split: if_splits)
    from Cons.IH [OF this] Cons.prems(2) Some show ?thesis by (simp add: Let_def fun_upd_def)
  qed
qed simp

lemma map_filter_dom: "set xs \<subseteq> dom f \<Longrightarrow> List.map_filter f xs = map (the \<circ> f) xs"
  by (induction xs) (auto simp: List.map_filter_simps)

text \<open>The listing shows each torrent once, however often it was added, and what it shows is the newest job of the
  torrent.\<close>

lemma listing_shows_newest:
  "distinct (map torrent_key (pick_latest js)) \<and> torrent_key ` set (pick_latest js) = torrent_key ` set js \<and>
   (\<forall>j \<in> set (pick_latest js). j \<in> set js \<and> (\<forall>x \<in> set js. torrent_key x = torrent_key j \<longrightarrow> j_id x \<le> j_id j))"
proof -
  obtain order latest where r: "latest_jobs js [] (\<lambda>_. None) = (order, latest)" by fastforce
  have "latest_inv [] [] (\<lambda>_. None)" by (simp add: latest_inv_def)
  from latest_jobs_inv [OF this r] have inv: "latest_inv js order latest" by simp
  then have p: "pick_latest js = map (the \<circ> latest) order"
    by (simp add: pick_latest_def r map_filter_dom latest_inv_def)
  have k: "torrent_key (the (latest x)) = x" if "x \<in> set order" for x
    using inv that unfolding latest_inv_def by (metis domD option.sel)
  have "map torrent_key (pick_latest js) = order"
    using k by (simp add: p map_idI)
  moreover have "\<exists>x. latest x = Some j" if "j \<in> set (pick_latest js)" for j
    using that inv by (force simp: p latest_inv_def)
  ultimately show ?thesis using inv unfolding latest_inv_def by (metis list.set_map)
qed


section \<open>Adding\<close>

lemma qb_source: "trim_space source_qbittorrent = source_qbittorrent" "source_qbittorrent \<noteq> ''''"
  by code_simp+

lemma qb_add_uri_holds:
  fixes w :: "('p, 'z) m_world_scheme"
  assumes ok: "jobs_ok (w_db w)" and run: "qb_add_uri m x c w = (Inr g, w')"
  shows "jobs_ok (w_db w')" "has_live s h (w_db w) \<Longrightarrow> has_live s h (w_db w')"
    "\<exists>hash. parse_info_hash x = Inr hash \<and> has_live source_qbittorrent hash (w_db w')"
proof -
  obtain now w1 where now: "read_now w = (Inr now, w1)" using read_now_total by blast
  have db: "w_db w1 = w_db w" using read_now_frame(2) [of w] unfolding now by simp
  from run now obtain j where j: "new_job_for_source now x source_qbittorrent = Inr j"
    and s: "submit m (j\<lparr>j_category := trim_space c\<rparr>) w1 = (Inr g, w')"
    by (auto simp: qb_add_uri_def qb_new_job_def io_bind_def split: sum.splits)
  note new = new_job_fields [OF j]
  have src: "j_source j = source_qbittorrent" using new(4) qb_source by simp
  have ok1: "jobs_ok (w_db w1)" using ok db by simp
  have fresh: "j_state (j\<lparr>j_category := trim_space c\<rparr>) \<notin> {Failed, Canceled}" "j_source (j\<lparr>j_category := trim_space c\<rparr>) \<noteq> ''''"
    using new(1) src qb_source by simp_all
  note sub = submit_holds [OF ok1 s fresh]
  show "jobs_ok (w_db w')" by (rule sub(1))
  show "has_live s h (w_db w')" if "has_live s h (w_db w)" using sub(2) that db by simp
  have "parse_info_hash x = Inr (j_info_hash j)" using j by (auto simp: new_job_for_source_def split: sum.splits)
  moreover have "to_lower (j_info_hash j) = j_info_hash j" using new(2) by (rule wf_info_hash_lower)
  ultimately show "\<exists>hash. parse_info_hash x = Inr hash \<and> has_live source_qbittorrent hash (w_db w')"
    using sub(3) src by simp
qed

lemma qb_add_all_holds:
  fixes w :: "('p, 'z) m_world_scheme"
  assumes "jobs_ok (w_db w)" and "qb_add_all m c xs w = (Inr u, w')"
  shows "(has_live s h (w_db w) \<longrightarrow> has_live s h (w_db w')) \<and>
    (\<forall>x \<in> set xs. \<exists>hash. parse_info_hash x = Inr hash \<and> has_live source_qbittorrent hash (w_db w'))"
  using assms
proof (induction xs arbitrary: w s h)
  case (Cons x xs)
  then obtain g w1 where x: "qb_add_uri m x c w = (Inr g, w1)" and rest: "qb_add_all m c xs w1 = (Inr u, w')"
    by (auto simp: io_bind_eq_Inr)
  note one = qb_add_uri_holds [OF Cons.prems(1) x]
  note ih = Cons.IH [OF one(1) rest]
  show ?case using one(2) one(3) ih by (metis set_ConsD)
qed simp

text \<open>C8. An answer of \<open>Ok.\<close> to adding torrents means what it says: there was at least one, every link and every file was
  understood, and for each of them the database has a job of this API that has neither failed nor been canceled.\<close>

theorem added_torrents_have_jobs:
  fixes w :: "('p, 'z) m_world_scheme"
  assumes "jobs_ok (w_db w)" and "qb_add h q w = (Inr (plain ''Ok.''), w')"
  shows "\<exists>magnets. add_magnets q = Some magnets \<and> magnets \<noteq> [] \<and>
    (\<forall>x \<in> set magnets. \<exists>hash. parse_info_hash x = Inr hash \<and> has_live source_qbittorrent hash (w_db w'))"
proof -
  have no: "plain ''Fails.'' \<noteq> plain ''Ok.''" "ap_status (plain ''Ok.'') \<noteq> 405"
    by (simp_all add: plain_def text_answer_def)
  from assms(2) have m: "qr_method q = ''POST''"
    using no(2) by (auto simp: qb_add_def with_method_def text_answer_def plain_def split: if_splits)
  with assms(2) no obtain xs where xs: "add_magnets q = Some xs" "xs \<noteq> []"
    by (auto simp: qb_add_def with_method_def split: option.splits if_splits)
  with assms(2) m no(1) obtain u where
    "qb_add_all (qh_manager h) (trim_space (form_get (add_form q) ''category'')) xs w = (Inr u, w')"
    by (auto simp: qb_add_def with_method_def io_try_def split: sum.splits prod.splits)
  from qb_add_all_holds [OF assms(1) this] xs show ?thesis by blast
qed

definition sample_add :: qb_request where
  "sample_add = \<lparr>qr_method = ''POST'', qr_path = qb_path ''torrents/add'', qr_query = '''',
     qr_body = Multipart [(''urls'', magnet_of (replicate 40 (CHR ''a'')) ''''), (''category'', ''tv'')] [],
     qr_basic = None, qr_sid = None\<rparr>"

definition sample_qb :: "unit qb_handler" where
  "sample_qb = \<lparr>qh_manager = sample_manager, qh_save_path = ''/x'', qh_username = '''', qh_password = '''',
     qh_session = '''', qh_order = id\<rparr>"

theorem added_torrents_have_jobs_witness:
  "\<exists>hash. parse_info_hash (magnet_of (replicate 40 (CHR ''a'')) '''') = Inr hash \<and>
     has_live source_qbittorrent hash (w_db (snd (qb_add sample_qb sample_add (sample_m_world []))))"
proof -
  have "fst (qb_add sample_qb sample_add (sample_m_world [])) = Inr (plain ''Ok.'')" by code_simp
  then have run: "qb_add sample_qb sample_add (sample_m_world []) =
      (Inr (plain ''Ok.''), snd (qb_add sample_qb sample_add (sample_m_world [])))" by (metis prod.collapse)
  have m: "add_magnets sample_add = Some [magnet_of (replicate 40 (CHR ''a'')) '''']" by code_simp
  have "jobs_ok (w_db (sample_m_world []))" by (simp add: sample_m_world_def jobs_ok_empty)
  from added_torrents_have_jobs [OF this run] m show ?thesis by simp
qed

section \<open>Whose job a hash selects\<close>

definition delete_request :: "string \<Rightarrow> qb_request" where
  "delete_request hash = \<lparr>qr_method = ''POST'', qr_path = qb_path ''torrents/delete'', qr_query = '''',
     qr_body = Encoded (values_encode [(''hashes'', [hash])]), qr_basic = None, qr_sid = None\<rparr>"

lemma delete_form: "parse_form (delete_request hash) = ([(''hashes'', hash)], True)"
proof -
  have "parse_query (values_encode [(''hashes'', [hash])]) = ([(''hashes'', hash)], True)"
    using parse_query_encode [of "[(''hashes'', [hash])]"] by (simp add: value_pairs_def)
  then show ?thesis by (simp add: parse_form_def delete_request_def parse_query_def)
qed

lemma split_one_hash:
  assumes "wf_info_hash hash"
  shows "split_hashes hash = [hash]" "\<not> equal_fold (trim_space hash) ''all''"
proof -
  have g: "list_all graphic hash" "length hash = 40" "to_lower hash = hash"
    using assms lower_hex_is_hex is_hex_graphic by (auto simp: wf_info_hash_def list_all_iff to_lower_lower_hex)
  then have t: "trim_space hash = hash" "hash \<noteq> ''''" by (auto intro!: trim_space_graphic simp: list_all_iff)
  have n: "to_lower hash \<noteq> to_lower ''all''"
  proof
    assume "to_lower hash = to_lower ''all''"
    then have "length (to_lower hash) = length (to_lower ''all'')" by (rule arg_cong)
    with g(2) show False by (simp add: to_lower_def)
  qed
  then show "\<not> equal_fold (trim_space hash) ''all''" by (simp add: t equal_fold_def)
  have "CHR ''|'' \<notin> set hash"
  proof
    assume "CHR ''|'' \<in> set hash"
    with assms have "lower_hex (CHR ''|'')" by (auto simp: wf_info_hash_def list_all_iff)
    then show False by (simp add: lower_hex_def)
  qed
  then have "split_on (CHR ''|'') hash = [hash]" by (rule split_on_no_sep)
  with t g n show "split_hashes hash = [hash]" by (simp add: split_hashes_def equal_fold_def)
qed

text \<open>C29. A deletion selects a job by the first half of the hash alone, whatever API it came in through: when a job of
  another source holds that identity (so that the job of this API for the same torrent was given a random one), deleting
  the torrent here removes the other API's job, and the job that was to be deleted stays.\<close>

theorem deletion_takes_the_wrong_job:
  fixes w :: "('p, 'z) m_world_scheme"
  assumes ok: "jobs_ok (w_db w)" and hash: "wf_info_hash hash"
    and other: "task_by_gid (w_db w) (take 16 hash) = Some r" "tk_source r \<noteq> source_qbittorrent" "tk_state r \<in> {Failed, Canceled}"
    and own: "task_by_gid (w_db w) g = Some s" "tk_source s = source_qbittorrent" "tk_torrent_id s = tk_torrent_id r"
    and order: "mset (qh_order h [hash]) = mset [hash]"
  shows "\<exists>w'. qb_delete h (delete_request hash) w = (Inr (empty_answer 200), w') \<and>
    state_of (w_db w') (take 16 hash) = None \<and> state_of (w_db w') g = Some (tk_state s)"
proof -
  let ?g = "take 16 hash"
  from get_job_total [OF ok, of ?g] other(1) obtain j where
    j: "get_job ?g (w_db w) = (Inr j, w_db w)" "j_state j = tk_state r" "j_gid j = ?g"
    by (auto simp: state_of_def)
  have "qh_order h [hash] = [hash]" using order by (metis mset_single_iff mset.simps)
  moreover have "length hash = 40" using hash by (simp add: wf_info_hash_def)
  ultimately have sel: "selected_jobs h hash w = (Inr [j], w)"
    using split_one_hash [OF hash] j(1) by (simp add: selected_jobs_def qb_job_def io_try_def on_db_def io_bind_def)
  obtain x d where d: "delete_job ?g (w_db w) = (x, d)" by fastforce
  have "state_of (w_db w) ?g = Some (tk_state r)" using other(1) by (simp add: state_of_def)
  with delete_job_run(2) [OF ok d] other(3)
  have run: "x = Inr ()" "\<forall>h. state_of d h = (if h = ?g then None else state_of (w_db w) h)" by auto
  have "delete_with_files (qh_manager h) ?g b w = (Inr (), w\<lparr>w_db := d\<rparr>)" for b
    using j other(3) d run(1) by (auto simp: delete_with_files_def on_db_def io_bind_def)
  then have all: "delete_all (qh_manager h) b [j] w = (Inr (), w\<lparr>w_db := d\<rparr>)" for b
    by (simp add: j(3) io_bind_def)
  have "g \<noteq> ?g" using own other by auto
  have form: "form_get [(''hashes'', hash)] ''hashes'' = hash" "form_get [(''hashes'', hash)] ''deleteFiles'' = ''''"
    by (simp_all add: form_get_def query_values_def)
  have "io_bind (selected_jobs h hash) (delete_all (qh_manager h) b) w = (Inr (), w\<lparr>w_db := d\<rparr>)" for b
    using all unfolding io_bind_def sel by simp
  then have "qb_delete h (delete_request hash) w = (Inr (empty_answer 200), w\<lparr>w_db := d\<rparr>)"
    unfolding qb_delete_def with_method_def delete_form prod.case form or_500_def
    by (simp add: delete_request_def io_try_def)
  then show ?thesis using run(2) own(1) \<open>g \<noteq> ?g\<close> by (intro exI [of _ "w\<lparr>w_db := d\<rparr>"]) (simp add: state_of_def)
qed

definition sample_hash :: string where
  "sample_hash = ''0123456789abcdef0123456789abcdef01234567''"

definition two_sources :: db where
  "two_sources = run_ops [OpCreate (sample_job\<lparr>j_gid := take 16 sample_hash, j_source := source_aria2\<rparr>),
     OpCancel 0 (take 16 sample_hash), OpCreate sample_job] empty_db"

theorem deletion_takes_the_wrong_job_witness:
  "state_of (w_db (snd (qb_delete sample_qb (delete_request sample_hash) ((sample_m_world [])\<lparr>w_db := two_sources\<rparr>)))) ''g1'' = Some Queued"
proof -
  let ?w = "(sample_m_world [])\<lparr>w_db := two_sources\<rparr>"
  have ok: "jobs_ok (w_db ?w)" unfolding two_sources_def
    by (simp del: run_ops.simps add: run_ops_ok jobs_ok_empty)
  have hash: "wf_info_hash sample_hash" by code_simp
  have rows: "case task_by_gid two_sources (take 16 sample_hash) of None \<Rightarrow> False
      | Some r \<Rightarrow> tk_source r \<noteq> source_qbittorrent \<and> tk_state r \<in> {Failed, Canceled} \<and>
        (case task_by_gid two_sources ''g1'' of None \<Rightarrow> False
         | Some s \<Rightarrow> tk_source s = source_qbittorrent \<and> tk_torrent_id s = tk_torrent_id r \<and> tk_state s = Queued)"
    by code_simp
  then obtain r s where r: "task_by_gid (w_db ?w) (take 16 sample_hash) = Some r" "tk_source r \<noteq> source_qbittorrent" "tk_state r \<in> {Failed, Canceled}"
    and s: "task_by_gid (w_db ?w) ''g1'' = Some s" "tk_source s = source_qbittorrent" "tk_torrent_id s = tk_torrent_id r"
    and q: "tk_state s = Queued"
    by (auto split: option.splits)
  have "mset (qh_order sample_qb [sample_hash]) = mset [sample_hash]" by (simp add: sample_qb_def)
  from deletion_takes_the_wrong_job [OF ok hash r s this] q show ?thesis by auto
qed

section \<open>Changing the category\<close>

text \<open>A change of category can undo the end of a job: \<open>SetCategory\<close> reads the job and writes all of it back, so when
  the job was running as it was read and its run ends before it is written, the job is stored as running again, and
  nothing runs it.\<close>

lemma category_change_undoes_finish:
  fixes v w :: "('p, 'z) m_world_scheme"
  assumes read: "jobs_ok (w_db v)" "qb_job g v = (Inr j, v')" "j_state j = Running"
    and finished: "jobs_ok (w_db w)" "state_of (w_db w) g = Some Succeeded"
    and saved: "qb_write_category c j w = (Inr u, w')"
  shows "state_of (w_db w') g = Some Running"
proof -
  let ?j = "j\<lparr>j_category := trim_space c\<rparr>"
  have g: "j_gid j = g"
    using read(2) get_job_new [OF read(1), of g j] by (auto simp: qb_job_def on_db_def split: prod.splits)
  from finished(2) obtain r where r: "task_by_gid (w_db w) g = Some r" "tk_state r = Succeeded" by (auto simp: state_of_def)
  from saved have u: "update_job ?j (w_db w) = (Inr u, w_db w')"
    by (auto simp: qb_write_category_def on_db_def split: prod.splits)
  with update_job_run [OF finished(1), of ?j] r g have
    ts: "tasks (w_db w') = update_rows (update_guard ?j) (update_job_row ?j) (tasks (w_db w))"
    by (auto split: if_splits)
  have "task_by_gid (w_db w') g = map_option (\<lambda>r. if update_guard ?j r then update_job_row ?j r else r) (task_by_gid (w_db w) g)"
    unfolding task_by_gid_def ts by (rule find_update_rows_key) (simp add: update_job_row_def)
  moreover have "update_guard ?j r" using r g task_by_gid_Some [OF r(1)] by (simp add: update_guard_def)
  ultimately show ?thesis using r(1) read(3) by (simp add: state_of_def update_job_row_def)
qed

definition running_db :: db where
  "running_db = run_ops [OpCreate sample_job, OpUpdate (sample_job\<lparr>j_state := Running\<rparr>)] empty_db"

definition finished_db :: db where
  "finished_db = run_ops [OpUpdate (sample_job\<lparr>j_state := Succeeded\<rparr>)] running_db"

end
