(* ===== verification/Aria2.thy ===== *)
theory Aria2
  imports Task_Manager Json Go_Numbers
begin

text \<open>
  The aria2 API (\<open>internal/transport/aria2\<close>): \<open>controller.go\<close>, which turns its requests into operations on the
  jobs of its source, and \<open>handler.go\<close>, JSON-RPC with batches and \<open>system.multicall\<close>. An error of a method is a
  value, an \<open>rpc_error\<close>; the error of an operation here is a panic of the handler.
\<close>

section \<open>The controller\<close>

definition aria_new_job :: "string \<Rightarrow> (('p, 'z) m_world_scheme, job) io" where
  "aria_new_job magnet = io_bind read_now (\<lambda>now. io_of (new_job_for_source now magnet source_aria2))"

definition aria_add_uri :: "'p manager \<Rightarrow> string \<Rightarrow> (('p, 'z) m_world_scheme, string) io" where
  "aria_add_uri m magnet = io_bind (aria_new_job magnet) (submit m)"

fun aria_new_jobs :: "string list \<Rightarrow> (('p, 'z) m_world_scheme, job list) io" where
  "aria_new_jobs [] = io_ret []"
| "aria_new_jobs (x # xs) = io_bind (aria_new_job x) (\<lambda>j. io_bind (aria_new_jobs xs) (\<lambda>js. io_ret (j # js)))"

definition aria_add_uris :: "'p manager \<Rightarrow> string list \<Rightarrow> (('p, 'z) m_world_scheme, string list) io" where
  "aria_add_uris m magnets = io_bind (aria_new_jobs magnets) (submit_many m)"

definition aria_jobs :: "job_state list \<Rightarrow> (('p, 'z) m_world_scheme, job list) io" where
  "aria_jobs states = on_db (list_jobs source_aria2 states)"

section \<open>Requests and parameters\<close>

record 'p aria_handler =
  ah_manager :: "'p manager"
  ah_secret :: string
  ah_dir :: string

record rpc_request =
  rr_id :: "json option"
  rr_method :: string
  rr_params :: "json list"

record rpc_error =
  re_code :: int
  re_message :: string

definition rpc_fail :: "int \<Rightarrow> string \<Rightarrow> rpc_error" where
  "rpc_fail code message = \<lparr>re_code = code, re_message = message\<rparr>"

definition internal_error :: "err \<Rightarrow> rpc_error" where
  "internal_error e = rpc_fail 1 (err_text e)"

definition invalid_params :: "string \<Rightarrow> rpc_error" where
  "invalid_params message = rpc_fail (- 32602) message"

definition read_request :: "json \<Rightarrow> rpc_request option" where
  "read_request v = (case v of
     JNull \<Rightarrow> Some \<lparr>rr_id = None, rr_method = '''', rr_params = []\<rparr>
   | JObj ms \<Rightarrow>
       (case (read_field json_string '''' (members ''jsonrpc'' ms), read_field json_string '''' (members ''method'' ms),
              read_field (\<lambda>_. json_raws) [] (members ''params'' ms)) of
         (Some _, Some m, Some ps) \<Rightarrow> Some \<lparr>rr_id = (case rev (members ''id'' ms) of [] \<Rightarrow> None | i # _ \<Rightarrow> Some i),
           rr_method = m, rr_params = ps\<rparr>
       | _ \<Rightarrow> None)
   | _ \<Rightarrow> None)"

text \<open>A call of \<open>system.multicall\<close>.\<close>

definition read_call :: "json \<Rightarrow> (string \<times> json list) option" where
  "read_call v = (case v of
     JNull \<Rightarrow> Some ('''', [])
   | JObj ms \<Rightarrow>
       (case (read_field json_string '''' (members ''methodName'' ms), read_field (\<lambda>_. json_raws) [] (members ''params'' ms)) of
         (Some m, Some ps) \<Rightarrow> Some (m, ps) | _ \<Rightarrow> None)
   | _ \<Rightarrow> None)"

definition read_calls :: "json \<Rightarrow> (string \<times> json list) list option" where
  "read_calls v = (case v of JNull \<Rightarrow> Some [] | JArr vs \<Rightarrow> all_some (map read_call vs) | _ \<Rightarrow> None)"

definition aria_authorize :: "'p aria_handler \<Rightarrow> json list \<Rightarrow> json list option" where
  "aria_authorize h params =
     (if ah_secret h = '''' then Some params
      else case params of
        [] \<Rightarrow> None
      | v # rest \<Rightarrow> if json_string '''' v = Some (''token:'' @ ah_secret h) then Some rest else None)"

definition add_uri_param :: "json list \<Rightarrow> rpc_error + string" where
  "add_uri_param params = (case params of
     [] \<Rightarrow> Inl (invalid_params ''uris'')
   | v # _ \<Rightarrow> (case json_strings v of Some [u] \<Rightarrow> Inr u | _ \<Rightarrow> Inl (invalid_params ''one uri'')))"

definition gid_param :: "json list \<Rightarrow> rpc_error + string" where
  "gid_param params = (case params of
     [] \<Rightarrow> Inl (invalid_params ''gid'')
   | v # _ \<Rightarrow> (case json_string '''' v of
       Some s \<Rightarrow> if s = '''' then Inl (invalid_params ''gid'') else Inr s
     | None \<Rightarrow> Inl (invalid_params ''gid'')))"

text \<open>An offset or a count that cannot be read leaves the default.\<close>

definition range_params :: "json list \<Rightarrow> int \<times> int" where
  "range_params params =
     (let get = (\<lambda>i old. if i < length params then (case json_int old (params ! i) of Some x \<Rightarrow> x | None \<Rightarrow> old) else old)
      in (get 0 0, get 1 1000))"

text \<open>\<open>page\<close> adds 64-bit numbers; a slice whose end is before its start panics.\<close>

definition page :: "'a list \<Rightarrow> int \<Rightarrow> int \<Rightarrow> err + 'a list" where
  "page vs offset wanted =
     (let n = int (length vs);
          o1 = (if offset < 0 then n + offset else offset);
          o2 = (if o1 < 0 then 0 else o1)
      in if n \<le> o2 \<or> wanted \<le> 0 then Inr []
         else let e = wrap64 (o2 + wanted); last = (if n < e then n else e)
           in if last < o2 then Inl (Msg ''slice bounds out of range'')
              else Inr (take (nat (last - o2)) (drop (nat o2) vs)))"

section \<open>Status\<close>

definition aria_state :: "job_state \<Rightarrow> string" where
  "aria_state s = (case s of
     Queued \<Rightarrow> ''waiting'' | Running \<Rightarrow> ''active'' | Succeeded \<Rightarrow> ''complete'' | Canceled \<Rightarrow> ''removed'' | Failed \<Rightarrow> ''error'')"

definition torrent_info :: "string \<Rightarrow> json" where
  "torrent_info name = JObj [(''info'', JObj [(''name'', JStr name)])]"

fun aria_files :: "int \<Rightarrow> scan_file list \<Rightarrow> json list" where
  "aria_files i [] = []"
| "aria_files i (f # fs) = JObj [(''index'', JStr (decimal_int (i + 1))), (''path'', JStr (f_strm_path f)),
     (''length'', JStr (decimal_int (f_size_bytes f))), (''completedLength'', JStr (decimal_int (f_size_bytes f))),
     (''selected'', JStr ''true''), (''uris'', JArr [])] # aria_files (i + 1) fs"

text \<open>The lengths, the torrent and the files are those of the result, if there is one.\<close>

definition aria_status :: "'p aria_handler \<Rightarrow> job \<Rightarrow> (('p, 'z) m_world_scheme, json) io" where
  "aria_status h j =
     io_try (if j_state j = Succeeded then service_result (mg_service (ah_manager h)) (j_info_hash j) else io_fail ErrNoRows) (\<lambda>r.
       let (total, name, files) = (case r of
             Inl _ \<Rightarrow> (''0'', j_info_hash j, [])
           | Inr x \<Rightarrow> (decimal_int (r_total_bytes x), r_name x, aria_files 0 (r_files x)))
       in io_ret (JObj (
         [(''gid'', JStr (j_gid j)), (''status'', JStr (aria_state (j_state j))), (''totalLength'', JStr total),
          (''completedLength'', JStr total), (''downloadSpeed'', JStr ''0''), (''uploadSpeed'', JStr ''0''),
          (''connections'', JStr ''0''), (''dir'', JStr (ah_dir h)), (''files'', JArr files),
          (''bittorrent'', torrent_info name)] @
         (if j_error j \<noteq> '''' then [(''errorCode'', JStr ''1''), (''errorMessage'', JStr (j_error j))] else []))))"

fun aria_statuses :: "'p aria_handler \<Rightarrow> job list \<Rightarrow> (('p, 'z) m_world_scheme, json list) io" where
  "aria_statuses h [] = io_ret []"
| "aria_statuses h (j # js) = io_bind (aria_status h j) (\<lambda>v. io_bind (aria_statuses h js) (\<lambda>vs. io_ret (v # vs)))"

section \<open>Methods\<close>

type_synonym ('p, 'z) rpc_io = "(('p, 'z) m_world_scheme, rpc_error + json) io"

text \<open>An operation whose error is the error of the method.\<close>

definition rpc_op :: "(('p, 'z) m_world_scheme, 'a) io \<Rightarrow> ('a \<Rightarrow> ('p, 'z) rpc_io) \<Rightarrow> ('p, 'z) rpc_io" where
  "rpc_op body f = io_try body (\<lambda>r. case r of Inl e \<Rightarrow> io_ret (Inl (internal_error e)) | Inr x \<Rightarrow> f x)"

definition rpc_ok :: "json \<Rightarrow> ('p, 'z) rpc_io" where
  "rpc_ok v = io_ret (Inr v)"

definition rpc_add_uri :: "'p aria_handler \<Rightarrow> json list \<Rightarrow> ('p, 'z) rpc_io" where
  "rpc_add_uri h params = (case add_uri_param params of
     Inl e \<Rightarrow> io_ret (Inl e)
   | Inr u \<Rightarrow> rpc_op (aria_add_uri (ah_manager h) u) (\<lambda>gid. rpc_ok (JStr gid)))"

definition rpc_tell_status :: "'p aria_handler \<Rightarrow> json list \<Rightarrow> ('p, 'z) rpc_io" where
  "rpc_tell_status h params = (case gid_param params of
     Inl e \<Rightarrow> io_ret (Inl e)
   | Inr gid \<Rightarrow> io_try (on_db (get_job gid)) (\<lambda>r. case r of
         Inl _ \<Rightarrow> io_ret (Inl (rpc_fail 1 ''GID not found''))
       | Inr j \<Rightarrow> io_bind (aria_status h j) rpc_ok))"

definition rpc_remove :: "'p aria_handler \<Rightarrow> json list \<Rightarrow> ('p, 'z) rpc_io" where
  "rpc_remove h params = (case gid_param params of
     Inl e \<Rightarrow> io_ret (Inl e)
   | Inr gid \<Rightarrow> rpc_op (cancel_job_of (ah_manager h) gid False) (\<lambda>_. rpc_ok (JStr gid)))"

definition rpc_tell_active :: "'p aria_handler \<Rightarrow> ('p, 'z) rpc_io" where
  "rpc_tell_active h = rpc_op (aria_jobs [Running]) (\<lambda>js. io_bind (aria_statuses h js) (\<lambda>vs. rpc_ok (JArr vs)))"

definition rpc_tell_page :: "'p aria_handler \<Rightarrow> job_state list \<Rightarrow> json list \<Rightarrow> ('p, 'z) rpc_io" where
  "rpc_tell_page h states params = rpc_op (aria_jobs states) (\<lambda>js.
     io_bind (aria_statuses h js) (\<lambda>vs. case range_params params of (offset, wanted) \<Rightarrow>
       io_bind (io_of (page vs offset wanted)) (\<lambda>vs. rpc_ok (JArr vs))))"

definition count_text :: "job list \<Rightarrow> json" where
  "count_text js = JStr (decimal_int (int (length js)))"

definition rpc_global_stat :: "('p, 'z) rpc_io" where
  "rpc_global_stat =
     rpc_op (aria_jobs [Running]) (\<lambda>running.
     rpc_op (aria_jobs [Queued]) (\<lambda>waiting.
     rpc_op (aria_jobs [Succeeded, Failed, Canceled]) (\<lambda>stopped.
       rpc_ok (JObj [(''downloadSpeed'', JStr ''0''), (''uploadSpeed'', JStr ''0''),
         (''numActive'', count_text running), (''numWaiting'', count_text waiting),
         (''numStopped'', count_text stopped), (''numStoppedTotal'', count_text stopped)]))))"

definition method_names :: "string list" where
  "method_names = [''aria2.addUri'', ''aria2.tellStatus'', ''aria2.tellActive'', ''aria2.tellWaiting'', ''aria2.tellStopped'',
     ''aria2.getGlobalStat'', ''aria2.remove'', ''aria2.forceRemove'', ''aria2.getVersion'', ''aria2.getSessionInfo'',
     ''aria2.getGlobalOption'', ''aria2.changeGlobalOption'', ''system.listMethods'', ''system.multicall'']"

section \<open>Several calls\<close>

definition fault :: "rpc_error \<Rightarrow> json" where
  "fault e = JObj [(''faultCode'', JInt (re_code e)), (''faultString'', JStr (re_message e))]"

fun set_all :: "'a list \<Rightarrow> (nat \<times> 'a) list \<Rightarrow> 'a list" where
  "set_all xs [] = xs"
| "set_all xs ((i, v) # vs) = set_all (xs[i := v]) vs"

text \<open>\<open>flushAdds\<close>: the links collected so far are submitted together.\<close>

definition flush_adds :: "'p aria_handler \<Rightarrow> (nat \<times> string) list \<Rightarrow> json list \<Rightarrow> (('p, 'z) m_world_scheme, json list) io" where
  "flush_adds h pending results =
     (if pending = [] then io_ret results
      else io_try (aria_add_uris (ah_manager h) (map snd pending)) (\<lambda>r. io_ret (case r of
          Inl e \<Rightarrow> set_all results (map (\<lambda>p. (fst p, fault (internal_error e))) pending)
        | Inr gids \<Rightarrow> set_all results (zip (map fst pending) (map (\<lambda>g. JArr [JStr g]) gids)))))"

text \<open>The calls from number \<open>i\<close> on; \<open>call\<close> runs a method that is not \<open>addUri\<close>.\<close>

fun multicall_loop :: "(string \<Rightarrow> json list \<Rightarrow> ('p, 'z) rpc_io) \<Rightarrow> 'p aria_handler \<Rightarrow> nat \<Rightarrow> (string \<times> json list) list \<Rightarrow>
    (nat \<times> string) list \<Rightarrow> json list \<Rightarrow> (('p, 'z) m_world_scheme, json list) io" where
  "multicall_loop call h i [] pending results = flush_adds h pending results"
| "multicall_loop call h i ((meth, params) # cs) pending results =
     (case aria_authorize h params of
       None \<Rightarrow> io_bind (flush_adds h pending results) (\<lambda>results.
           multicall_loop call h (Suc i) cs [] (results[i := fault (rpc_fail 1 ''Unauthorized'')]))
     | Some ps \<Rightarrow>
         if meth = ''aria2.addUri'' then
           (case add_uri_param ps of
             Inl e \<Rightarrow> io_bind (flush_adds h pending results) (\<lambda>results.
                 multicall_loop call h (Suc i) cs [] (results[i := fault e]))
           | Inr u \<Rightarrow> multicall_loop call h (Suc i) cs (pending @ [(i, u)]) results)
         else io_bind (flush_adds h pending results) (\<lambda>results.
           io_bind (call meth ps) (\<lambda>r.
           multicall_loop call h (Suc i) cs [] (results[i := (case r of Inl e \<Rightarrow> fault e | Inr v \<Rightarrow> JArr [v])]))))"

definition multicall :: "(string \<Rightarrow> json list \<Rightarrow> ('p, 'z) rpc_io) \<Rightarrow> 'p aria_handler \<Rightarrow> json list \<Rightarrow> ('p, 'z) rpc_io" where
  "multicall call h params = (case params of
     [] \<Rightarrow> io_ret (Inl (invalid_params ''multicall''))
   | v # _ \<Rightarrow> (case read_calls v of
       None \<Rightarrow> io_ret (Inl (invalid_params ''multicall''))
     | Some cs \<Rightarrow> io_bind (multicall_loop call h 0 cs [] (replicate (length cs) JNull)) (\<lambda>rs. rpc_ok (JArr rs))))"

text \<open>\<open>call\<close>; \<open>fuel\<close> bounds how deep calls are nested in each other, which the nesting of the request bounds.\<close>

primrec aria_call :: "nat \<Rightarrow> 'p aria_handler \<Rightarrow> string \<Rightarrow> json list \<Rightarrow> ('p, 'z) rpc_io" where
  "aria_call 0 h meth params = io_fail OutOfFuel"
| "aria_call (Suc fuel) h meth params =
     (if meth = ''aria2.addUri'' then rpc_add_uri h params
      else if meth = ''aria2.tellStatus'' then rpc_tell_status h params
      else if meth = ''aria2.remove'' \<or> meth = ''aria2.forceRemove'' then rpc_remove h params
      else if meth = ''aria2.tellActive'' then rpc_tell_active h
      else if meth = ''aria2.tellWaiting'' then rpc_tell_page h [Queued] params
      else if meth = ''aria2.tellStopped'' then rpc_tell_page h [Succeeded, Failed, Canceled] params
      else if meth = ''aria2.getGlobalStat'' then rpc_global_stat
      else if meth = ''aria2.getVersion'' then rpc_ok (JObj [(''version'', JStr ''1.37.0-magnet-to-strm''),
        (''enabledFeatures'', JArr [JStr ''BitTorrent'', JStr ''RPC''])])
      else if meth = ''aria2.getSessionInfo'' then rpc_ok (JObj [(''sessionId'', JStr ''magnet-to-strm'')])
      else if meth = ''aria2.getGlobalOption'' then rpc_ok (JObj [(''dir'', JStr (ah_dir h)),
        (''max-concurrent-downloads'', JStr ''128''), (''seed-time'', JStr ''0'')])
      else if meth = ''aria2.changeGlobalOption'' then rpc_ok (JStr ''OK'')
      else if meth = ''system.listMethods'' then rpc_ok (JArr (map JStr method_names))
      else if meth = ''system.multicall'' then multicall (aria_call fuel h) h params
      else io_ret (Inl (rpc_fail (- 32601) ''Method not found'')))"

section \<open>Responses\<close>

definition rpc_response :: "json option \<Rightarrow> rpc_error + json \<Rightarrow> json" where
  "rpc_response i r = JObj ([(''jsonrpc'', JStr ''2.0'')] @ (case i of None \<Rightarrow> [] | Some v \<Rightarrow> [(''id'', v)]) @
     (case r of
       Inr v \<Rightarrow> [(''result'', v)]
     | Inl e \<Rightarrow> [(''error'', JObj [(''code'', JInt (re_code e)), (''message'', JStr (re_message e))])]))"

definition unauthorized :: rpc_error where
  "unauthorized = rpc_fail 1 ''Unauthorized''"

definition aria_handle :: "nat \<Rightarrow> 'p aria_handler \<Rightarrow> rpc_request \<Rightarrow> (('p, 'z) m_world_scheme, json) io" where
  "aria_handle fuel h q = (case aria_authorize h (rr_params q) of
     None \<Rightarrow> io_ret (rpc_response (rr_id q) (Inl unauthorized))
   | Some ps \<Rightarrow> io_bind (aria_call fuel h (rr_method q) ps) (\<lambda>r. io_ret (rpc_response (rr_id q) r)))"

text \<open>\<open>handleBatch\<close>: the links of the batch are submitted together, after everything else in it. The answers are
  collected with the links that wait for theirs.\<close>

fun batch_loop :: "nat \<Rightarrow> 'p aria_handler \<Rightarrow> nat \<Rightarrow> rpc_request list \<Rightarrow>
    (('p, 'z) m_world_scheme, json list \<times> (nat \<times> json option \<times> string) list) io" where
  "batch_loop fuel h i [] = io_ret ([], [])"
| "batch_loop fuel h i (q # qs) =
     (if rr_method q \<noteq> ''aria2.addUri'' then
        io_bind (aria_handle fuel h q) (\<lambda>v. io_bind (batch_loop fuel h (Suc i) qs) (\<lambda>(vs, adds). io_ret (v # vs, adds)))
      else
        let (v, add) = (case aria_authorize h (rr_params q) of
              None \<Rightarrow> (rpc_response (rr_id q) (Inl unauthorized), [])
            | Some ps \<Rightarrow> (case add_uri_param ps of
                Inl e \<Rightarrow> (rpc_response (rr_id q) (Inl e), [])
              | Inr u \<Rightarrow> (JNull, [(i, rr_id q, u)])))
        in io_bind (batch_loop fuel h (Suc i) qs) (\<lambda>(vs, adds). io_ret (v # vs, add @ adds)))"

definition handle_batch :: "nat \<Rightarrow> 'p aria_handler \<Rightarrow> rpc_request list \<Rightarrow> (('p, 'z) m_world_scheme, json list) io" where
  "handle_batch fuel h qs = io_bind (batch_loop fuel h 0 qs) (\<lambda>(vs, adds).
     if adds = [] then io_ret vs
     else io_try (aria_add_uris (ah_manager h) (map (\<lambda>a. snd (snd a)) adds)) (\<lambda>r. io_ret (case r of
         Inl e \<Rightarrow> set_all vs (map (\<lambda>(i, k, u). (i, rpc_response k (Inl (internal_error e)))) adds)
       | Inr gids \<Rightarrow> set_all vs (map (\<lambda>((i, k, u), g). (i, rpc_response k (Inr (JStr g)))) (zip adds gids)))))"

section \<open>The handler\<close>

definition cors_headers :: header where
  "cors_headers = [(''Access-Control-Allow-Origin'', [''*'']),
     (''Access-Control-Allow-Headers'', [''Content-Type, Authorization'']),
     (''Access-Control-Allow-Methods'', [''POST, OPTIONS''])]"

definition rpc_answer :: "json \<Rightarrow> api_response" where
  "rpc_answer v = json_answer 200 v\<lparr>ap_headers := cors_headers\<rparr>"

text \<open>The body as JSON, if it is; a panic in a method ends the handler.\<close>

definition aria_body :: "nat \<Rightarrow> 'p aria_handler \<Rightarrow> json \<Rightarrow> (('p, 'z) m_world_scheme, json) io" where
  "aria_body fuel h payload = (case payload of
     JArr vs \<Rightarrow> (case all_some (map read_request vs) of
         None \<Rightarrow> io_ret (rpc_response None (Inl (rpc_fail (- 32600) ''Invalid Request'')))
       | Some qs \<Rightarrow> if qs = [] then io_ret (rpc_response None (Inl (rpc_fail (- 32600) ''Invalid Request'')))
           else io_bind (handle_batch fuel h qs) (\<lambda>vs. io_ret (JArr vs)))
   | _ \<Rightarrow> (case read_request payload of
         None \<Rightarrow> io_ret (rpc_response None (Inl (rpc_fail (- 32600) ''Invalid Request'')))
       | Some q \<Rightarrow> aria_handle fuel h q))"

definition aria_serve :: "nat \<Rightarrow> 'p aria_handler \<Rightarrow> string \<Rightarrow> json option \<Rightarrow> (('p, 'z) m_world_scheme, api_response) io" where
  "aria_serve fuel h http_method payload =
     (if http_method = ''OPTIONS'' then io_ret (empty_answer 204\<lparr>ap_headers := cors_headers\<rparr>)
      else if http_method \<noteq> ''POST'' then
        io_ret (text_answer 405 ''method not allowed''\<lparr>ap_headers := (''Allow'', [''POST, OPTIONS'']) # cors_headers\<rparr>)
      else case payload of
        None \<Rightarrow> io_ret (rpc_answer (rpc_response None (Inl (rpc_fail (- 32700) ''Parse error''))))
      | Some v \<Rightarrow> io_try (aria_body fuel h v) (\<lambda>r. io_ret (case r of
          Inr x \<Rightarrow> rpc_answer x | Inl e \<Rightarrow> \<lparr>ap_status = 0, ap_headers = [], ap_body = Broken\<rparr>)))"

end
