(* ===== verification/Aria2_Facts.thy ===== *)
theory Aria2_Facts
  imports Aria2 Submit_Facts
begin

text \<open>
  What the aria2 API promises and where it does not: requests without the secret change nothing, calls nested in each
  other end, a page of a listing is the part that was asked for unless its end does not fit in 64 bits.
\<close>

section \<open>Pages\<close>

definition in_int64 :: "int \<Rightarrow> bool" where
  "in_int64 x \<longleftrightarrow> - (2 ^ 63) \<le> x \<and> x < 2 ^ 63"

text \<open>Where a page starts: a negative offset counts from the end.\<close>

definition page_start :: "nat \<Rightarrow> int \<Rightarrow> nat" where
  "page_start n offset = nat (if offset < 0 then int n + offset else offset)"

lemma wrap64_high: "2 ^ 63 \<le> x \<Longrightarrow> x < 2 ^ 64 \<Longrightarrow> wrap64 x < 0"
proof -
  assume h: "2 ^ 63 \<le> x" "x < (2 ^ 64 :: int)"
  then have "(x + 2 ^ 63) mod 2 ^ 64 = x + 2 ^ 63 - 2 ^ 64"
    using mod_add_self2 [of "x - 2 ^ 63" "2 ^ 64 :: int"] by (simp add: add.commute)
  with h show "wrap64 x < 0" by (simp add: wrap64_def)
qed

text \<open>C32. A page of a listing, for any 64-bit offset and count: the entries from the offset on, at most as many as were
  asked for; nothing where the offset is past the end or the count not positive. But where the offset is inside
  and offset and count do not add up to a 64-bit number, the code slices with a negative end, and panics.\<close>

theorem page_of_listing:
  assumes "in_int64 offset" and "in_int64 wanted" and "int (length vs) < 2 ^ 63"
  shows "page vs offset wanted =
    (let start = page_start (length vs) offset
     in if length vs \<le> start \<or> wanted \<le> 0 then Inr []
        else if int start + wanted < 2 ^ 63 then Inr (take (nat wanted) (drop start vs))
        else Inl (Msg ''slice bounds out of range''))"
proof -
  let ?n = "int (length vs)" and ?s = "page_start (length vs) offset"
  define o2 where "o2 = (let o1 = (if offset < 0 then ?n + offset else offset) in if o1 < 0 then 0 else o1)"
  have o2: "o2 = int ?s" by (auto simp: o2_def page_start_def)
  have p: "page vs offset wanted =
      (if ?n \<le> o2 \<or> wanted \<le> 0 then Inr []
       else let e = wrap64 (o2 + wanted); last = (if ?n < e then ?n else e)
            in if last < o2 then Inl (Msg ''slice bounds out of range'') else Inr (take (nat (last - o2)) (drop (nat o2) vs)))"
    by (simp only: page_def Let_def o2_def)
  show ?thesis
  proof (cases "?n \<le> o2 \<or> wanted \<le> 0")
    case True
    then show ?thesis unfolding p by (auto simp: o2 Let_def)
  next
    case False
    then have inside: "o2 < ?n" "0 < wanted" by simp_all
    then have bounds: "0 < o2 + wanted" "o2 + wanted < 2 ^ 64" "?s < length vs" "nat o2 = ?s"
      using assms o2 by (auto simp: in_int64_def)
    show ?thesis
    proof (cases "o2 + wanted < 2 ^ 63")
      case True
      then have e: "wrap64 (o2 + wanted) = o2 + wanted" using bounds by (intro wrap64_id) simp_all
      have "take (nat ((if ?n < o2 + wanted then ?n else o2 + wanted) - o2)) (drop ?s vs) = take (nat wanted) (drop ?s vs)"
        using inside o2 by (auto intro: sym [OF take_all] simp: nat_diff_distrib nat_add_distrib)
      with True e inside bounds show ?thesis unfolding p by (auto simp: Let_def o2)
    next
      case False
      then have "wrap64 (o2 + wanted) < 0" using bounds by (intro wrap64_high) simp_all
      moreover have "\<not> int ?s + wanted < 2 ^ 63" using False o2 by simp
      ultimately show ?thesis using inside bounds unfolding p Let_def by (simp add: o2)
    qed
  qed
qed

theorem page_of_listing_witness:
  "page [''a'', ''b'', ''c''] (- 2) 5 = Inr [''b'', ''c''] \<and>
   page [''a'', ''b'', ''c''] 1 (2 ^ 63 - 1) = Inl (Msg ''slice bounds out of range'')"
  using page_of_listing [of "- 2" 5 "[''a'', ''b'', ''c'']"] page_of_listing [of 1 "2 ^ 63 - 1" "[''a'', ''b'', ''c'']"]
  by (simp add: in_int64_def page_start_def Let_def)

section \<open>The secret\<close>

text \<open>The requests of a body.\<close>

definition requests :: "json \<Rightarrow> rpc_request list" where
  "requests payload = (case payload of
     JArr vs \<Rightarrow> (case all_some (map read_request vs) of None \<Rightarrow> [] | Some qs \<Rightarrow> qs)
   | _ \<Rightarrow> (case read_request payload of None \<Rightarrow> [] | Some q \<Rightarrow> [q]))"

lemma batch_loop_refused:
  "\<forall>q \<in> set qs. aria_authorize h (rr_params q) = None \<Longrightarrow>
    batch_loop fuel h i qs w = (Inr (map (\<lambda>q. rpc_response (rr_id q) (Inl unauthorized)) qs, []), w)"
  by (induction qs arbitrary: i) (simp_all add: aria_handle_def io_bind_def)


section \<open>Nested calls end\<close>

fun json_depth :: "json \<Rightarrow> nat" where
  "json_depth (JArr vs) = Suc (foldr max (map json_depth vs) 0)"
| "json_depth (JObj ms) = Suc (foldr max (map (\<lambda>m. json_depth (snd m)) ms) 0)"
| "json_depth _ = 0"

lemma foldr_max_ge: "x \<in> set xs \<Longrightarrow> x \<le> foldr max xs (0::nat)"
  by (induction xs) (auto simp: max.coboundedI2)

lemma all_some_set: "all_some xs = Some ys \<Longrightarrow> y \<in> set ys \<Longrightarrow> Some y \<in> set xs"
  by (induction xs arbitrary: ys) (auto split: option.splits)

lemma read_field_from: "read_field (\<lambda>_. json_raws) old vs = Some ps \<Longrightarrow> ps = old \<or> (\<exists>v \<in> set vs. json_raws v = Some ps)"
  by (induction vs arbitrary: old) (auto split: option.splits)

lemma json_raws_depth: "json_raws v = Some ps \<Longrightarrow> p \<in> set ps \<Longrightarrow> json_depth p < json_depth v"
  by (auto simp: json_raws_def less_Suc_eq_le split: json.splits intro!: foldr_max_ge)

lemma members_depth: "v \<in> set (members k ms) \<Longrightarrow> json_depth v < json_depth (JObj ms)"
  by (force simp: members_def less_Suc_eq_le intro!: foldr_max_ge)

lemma read_call_depth: "read_call v = Some (meth, ps) \<Longrightarrow> p \<in> set ps \<Longrightarrow> json_depth p < json_depth v"
proof -
  assume "read_call v = Some (meth, ps)" and p: "p \<in> set ps"
  then obtain ms where v: "v = JObj ms" "read_field (\<lambda>_. json_raws) [] (members ''params'' ms) = Some ps"
    by (auto simp: read_call_def split: json.splits option.splits)
  with read_field_from p obtain u where "u \<in> set (members ''params'' ms)" "json_raws u = Some ps" by fastforce
  with json_raws_depth [OF this(2) p] members_depth show "json_depth p < json_depth v" unfolding v(1)
    by (meson less_trans)
qed

lemma read_calls_depth:
  "read_calls v = Some cs \<Longrightarrow> (meth, ps) \<in> set cs \<Longrightarrow> p \<in> set ps \<Longrightarrow> json_depth p < json_depth v"
proof -
  assume "read_calls v = Some cs" and c: "(meth, ps) \<in> set cs" and p: "p \<in> set ps"
  then obtain vs where vs: "v = JArr vs" "all_some (map read_call vs) = Some cs"
    by (auto simp: read_calls_def split: json.splits)
  from all_some_set [OF vs(2) c] obtain u where u: "u \<in> set vs" "read_call u = Some (meth, ps)" by auto
  have "json_depth u < json_depth v" using u(1) by (auto simp: vs(1) less_Suc_eq_le intro!: foldr_max_ge)
  with read_call_depth [OF u(2) p] show ?thesis by simp
qed

lemma authorized_params: "aria_authorize h ps = Some qs \<Longrightarrow> set qs \<subseteq> set ps"
  by (auto simp: aria_authorize_def split: if_splits list.splits)

text \<open>No operation but the nesting of calls runs out of fuel.\<close>

definition in_fuel :: "('w, 'a) io \<Rightarrow> bool" where
  "in_fuel m \<longleftrightarrow> (\<forall>w. fst (m w) \<noteq> Inl OutOfFuel)"

lemma in_fuel_ret: "in_fuel (io_ret x)"
  by (simp add: in_fuel_def)

lemma in_fuel_Pair: "in_fuel (Pair (Inr x))"
  by (simp add: in_fuel_def)

lemma in_fuel_bind: "in_fuel m \<Longrightarrow> (\<And>x. in_fuel (f x)) \<Longrightarrow> in_fuel (io_bind m f)"
  unfolding in_fuel_def io_bind_def by (auto split: prod.splits sum.splits) (metis fst_conv)+

lemma in_fuel_try: "(\<And>r. in_fuel (f r)) \<Longrightarrow> in_fuel (io_try m f)"
  by (auto simp: in_fuel_def io_try_def split: prod.splits)

lemma in_fuel_page: "in_fuel (io_of (page vs x y))"
  by (auto simp: in_fuel_def page_def Let_def)

lemma in_fuel_op: "(\<And>x. in_fuel (f x)) \<Longrightarrow> in_fuel (rpc_op m f)"
  unfolding rpc_op_def by (rule in_fuel_try) (auto split: sum.splits intro: in_fuel_ret)

lemma in_fuel_ok: "in_fuel (rpc_ok v)"
  by (simp add: rpc_ok_def in_fuel_ret)

lemma in_fuel_status: "in_fuel (aria_status h j)"
  unfolding aria_status_def by (rule in_fuel_try) (simp add: in_fuel_ret split: prod.splits)

lemma in_fuel_statuses: "in_fuel (aria_statuses h js)"
proof (induction js)
  case Nil
  show ?case unfolding aria_statuses.simps by (rule in_fuel_ret)
next
  case (Cons j js)
  show ?case unfolding aria_statuses.simps by (intro in_fuel_bind in_fuel_ret in_fuel_status Cons.IH)
qed

lemma in_fuel_flush: "in_fuel (flush_adds h pending results)"
  unfolding flush_adds_def by (auto intro!: in_fuel_try in_fuel_ret)

lemmas in_fuel_rules = in_fuel_ret in_fuel_bind in_fuel_try in_fuel_page in_fuel_op in_fuel_ok in_fuel_status
  in_fuel_statuses in_fuel_flush

lemma in_fuel_multicall:
  assumes "\<And>meth ps qs. (meth, ps) \<in> set cs \<Longrightarrow> aria_authorize h ps = Some qs \<Longrightarrow> in_fuel (call meth qs)"
  shows "in_fuel (multicall_loop call h i cs pending results)"
  using assms
proof (induction cs arbitrary: i pending results)
  case (Cons c cs)
  obtain meth ps where c: "c = (meth, ps)" by (cases c)
  have ih: "in_fuel (multicall_loop call h j cs p r)" for j p r
    using Cons.prems by (intro Cons.IH) (blast intro: list.set_intros(2))
  have call: "in_fuel (call meth qs)" if "aria_authorize h ps = Some qs" for qs
    using Cons.prems [of meth ps qs] that by (simp add: c)
  show ?case
    unfolding c multicall_loop.simps
    by (cases "aria_authorize h ps") (auto simp: ih call intro!: in_fuel_bind in_fuel_flush split: sum.splits)
qed (simp add: in_fuel_flush)

lemma in_fuel_case: "(\<And>e. in_fuel (f e)) \<Longrightarrow> (\<And>x. in_fuel (g x)) \<Longrightarrow> in_fuel (case r of Inl e \<Rightarrow> f e | Inr x \<Rightarrow> g x)"
  by (cases r) simp_all

lemma in_fuel_if: "in_fuel a \<Longrightarrow> in_fuel b \<Longrightarrow> in_fuel (if c then a else b)"
  by simp

lemma in_fuel_methods:
  "in_fuel (rpc_add_uri h params)" "in_fuel (rpc_tell_status h params)" "in_fuel (rpc_remove h params)"
  "in_fuel (rpc_tell_active h)" "in_fuel (rpc_tell_page h states params)" "in_fuel rpc_global_stat"
  unfolding rpc_add_uri_def rpc_tell_status_def rpc_remove_def rpc_tell_active_def rpc_tell_page_def rpc_global_stat_def
  by (intro in_fuel_case in_fuel_rules; cases "range_params params"; simp; intro in_fuel_rules)+

lemma in_fuel_call:
  "(\<And>p. p \<in> set params \<Longrightarrow> json_depth p < fuel) \<Longrightarrow> 0 < fuel \<Longrightarrow> in_fuel (aria_call fuel h meth params :: ('p, 'z) rpc_io)"
proof (induction fuel arbitrary: meth params)
  case (Suc fuel)
  have "in_fuel (multicall (aria_call fuel h) h params :: ('p, 'z) rpc_io)"
  proof (cases params)
    case (Cons v vs)
    show ?thesis
    proof (cases "read_calls v")
      case (Some cs)
      have "in_fuel (aria_call fuel h m qs :: ('p, 'z) rpc_io)" if "(m, ps) \<in> set cs" "aria_authorize h ps = Some qs" for m ps qs
      proof (rule Suc.IH)
        have lt: "json_depth p < json_depth v" if "p \<in> set qs" for p
          using read_calls_depth [OF Some \<open>(m, ps) \<in> set cs\<close>] authorized_params [OF \<open>aria_authorize h ps = Some qs\<close>] that by blast
        have v: "json_depth v \<le> fuel" using Suc.prems(1) [of v] by (simp add: Cons)
        show "json_depth p < fuel" if "p \<in> set qs" for p using lt [OF that] v by simp
        have "0 < json_depth v" using Some that(1) by (cases v) (auto simp: read_calls_def)
        with v show "0 < fuel" by simp
      qed
      then show ?thesis unfolding multicall_def using Cons Some
        by (simp add: in_fuel_bind in_fuel_multicall in_fuel_ok)
    qed (simp add: Cons multicall_def in_fuel_ret)
  qed (simp add: multicall_def in_fuel_ret)
  then show ?case
    unfolding aria_call.simps by (intro in_fuel_if in_fuel_methods in_fuel_ok in_fuel_ret)
qed simp

text \<open>Calls nested in calls end: fuel for one more call than the parameters are nested deep is enough for any method,
  \<open>system.multicall\<close> in \<open>system.multicall\<close> included, so no answer and no panic comes from the bound.\<close>

lemma nested_calls_end:
  fixes w :: "('p, 'z) m_world_scheme"
  assumes "\<forall>p \<in> set params. json_depth p < fuel" and "0 < fuel"
  shows "fst (aria_call fuel h meth params w) \<noteq> Inl OutOfFuel"
proof -
  have "in_fuel (aria_call fuel h meth params :: ('p, 'z) rpc_io)" using assms by (intro in_fuel_call) simp_all
  then show ?thesis by (simp add: in_fuel_def)
qed

definition sample_aria :: "unit aria_handler" where
  "sample_aria = \<lparr>ah_manager = sample_manager, ah_secret = ''s'', ah_dir = ''/x''\<rparr>"


end
