(* ===== verification/Api.thy ===== *)
theory Api
  imports Task_Manager Json Go_Numbers
begin

text \<open>
  The JSON API behind the web pages (\<open>internal/transport/httpserver/api.go\<close>): the status, the list of jobs and one job
  with its result, canceling, deleting and rebuilding. It reads the database directly and acts through the task manager.
\<close>

section \<open>Times in JSON\<close>

text \<open>\<open>time.Time\<close> as \<open>encoding/json\<close> writes it, in UTC: the date of a day number, the time of day, and the fraction
  of a second without zeros at its end.\<close>

definition civil_date :: "int \<Rightarrow> int \<times> int \<times> int" where
  "civil_date days =
     (let z = days + 719468; era = z div 146097; doe = z mod 146097;
          yoe = (doe - doe div 1460 + doe div 36524 - doe div 146096) div 365;
          doy = doe - (365 * yoe + yoe div 4 - yoe div 100);
          mp = (5 * doy + 2) div 153;
          d = doy - (153 * mp + 2) div 5 + 1;
          m = (if mp < 10 then mp + 3 else mp - 9)
      in (yoe + era * 400 + (if m \<le> 2 then 1 else 0), m, d))"

definition padded :: "nat \<Rightarrow> int \<Rightarrow> string" where
  "padded n i = (let s = decimal_int i in replicate (n - length s) (CHR ''0'') @ s)"

definition fraction_text :: "int \<Rightarrow> string" where
  "fraction_text nanos =
     (if nanos = 0 then '''' else CHR ''.'' # rev (dropWhile (\<lambda>c. c = CHR ''0'') (rev (padded 9 nanos))))"

definition rfc3339 :: "timestamp \<Rightarrow> string" where
  "rfc3339 t =
     (let seconds = t div 1000000000; days = seconds div 86400; s = seconds mod 86400
      in case civil_date days of (y, m, d) \<Rightarrow>
           padded 4 y @ ''-'' @ padded 2 m @ ''-'' @ padded 2 d @ ''T'' @
           padded 2 (s div 3600) @ '':'' @ padded 2 (s div 60 mod 60) @ '':'' @ padded 2 (s mod 60) @
           fraction_text (t mod 1000000000) @ ''Z'')"

section \<open>What is shown\<close>

definition optional_time :: "string \<Rightarrow> timestamp option \<Rightarrow> (string \<times> json) list" where
  "optional_time k t = (case t of None \<Rightarrow> [] | Some x \<Rightarrow> [(k, JStr (rfc3339 x))])"

definition state_text :: "job_state \<Rightarrow> string" where
  "state_text s = (case s of
     Queued \<Rightarrow> ''queued'' | Running \<Rightarrow> ''running'' | Succeeded \<Rightarrow> ''succeeded'' | Failed \<Rightarrow> ''failed'' | Canceled \<Rightarrow> ''canceled'')"

definition present_job :: "job \<Rightarrow> json" where
  "present_job j = JObj
     ([(''gid'', JStr (j_gid j)), (''info_hash'', JStr (j_info_hash j)),
       (''name'', JStr (if j_name j = '''' then magnet_name (j_magnet_uri j) else j_name j)),
       (''progress'', JNum (j_progress j)), (''magnet_uri'', JStr (j_magnet_uri j)),
       (''state'', JStr (state_text (j_state j))), (''error'', JStr (j_error j)),
       (''created_at'', JStr (rfc3339 (j_created_at j)))] @
      optional_time ''started_at'' (j_started_at j) @ optional_time ''finished_at'' (j_finished_at j))"

text \<open>\<open>omitempty\<close> leaves an empty text and a zero out.\<close>

definition present_file :: "scan_file \<Rightarrow> json" where
  "present_file f = JObj
     ([(''relative_path'', JStr (f_relative_path f))] @
      (if f_strm_path f = '''' then [] else [(''strm_path'', JStr (f_strm_path f))]) @
      [(''name'', JStr (f_name f)), (''sha1'', JStr (f_sha1 f)), (''size_bytes'', JInt (f_size_bytes f)),
       (''remote_id'', JStr (f_remote_id f)), (''remote_parent_id'', JStr (f_parent_id f)),
       (''remote_path'', JStr (f_remote_path f)), (''pick_code'', JStr (f_pick_code f))] @
      (if f_created_at f = 0 then [] else [(''source_created_at'', JInt (f_created_at f))]) @
      (if f_updated_at f = 0 then [] else [(''source_updated_at'', JInt (f_updated_at f))]))"

text \<open>A torrent that was never scanned has the zero time, which the model of the store writes as 0.\<close>

definition present_result :: "scan_result \<Rightarrow> json" where
  "present_result r = JObj
     [(''name'', JStr (r_name r)), (''info_hash'', JStr (r_info_hash r)), (''magnet_uri'', JStr (r_magnet_uri r)),
      (''result_id'', JStr (r_result_id r)), (''reused_task'', JBool (r_reused_task r)), (''total_bytes'', JInt (r_total_bytes r)),
      (''scanned_at'', JStr (if r_scanned_at r = 0 then ''0001-01-01T00:00:00Z'' else rfc3339 (r_scanned_at r))),
      (''files'', JArr (map present_file (r_files r)))]"

section \<open>Answers\<close>

definition api_json :: "nat \<Rightarrow> json \<Rightarrow> api_response" where
  "api_json status v = json_answer status v\<lparr>ap_headers := [(''Cache-Control'', [''no-store''])]\<rparr>"

definition api_error :: "nat \<Rightarrow> string \<Rightarrow> api_response" where
  "api_error status message = api_json status (JObj [(''error'', JStr message)])"

definition not_allowed :: "string \<Rightarrow> api_response" where
  "not_allowed allow = (let r = api_error 405 ''method'' in r\<lparr>ap_headers := (''Allow'', [allow]) # ap_headers r\<rparr>)"

definition api_status :: "string \<Rightarrow> bool \<Rightarrow> string \<Rightarrow> string \<Rightarrow> api_response" where
  "api_status meth enabled full partial =
     (if meth \<noteq> ''GET'' then not_allowed ''GET''
      else api_json 200 (JObj [(''p115_enabled'', JBool enabled), (''mode'', JStr (if enabled then ''full'' else ''local'')),
        (''message'', JStr (if enabled then full else partial))]))"

definition api_jobs :: "string \<Rightarrow> (('p, 'z) m_world_scheme, api_response) io" where
  "api_jobs meth =
     (if meth \<noteq> ''GET'' then io_ret (not_allowed ''GET'')
      else io_try (on_db (list_jobs '''' [])) (\<lambda>r. case r of
          Inl e \<Rightarrow> io_ret (api_error 500 ''jobs'')
        | Inr js \<Rightarrow> io_ret (api_json 200 (JObj [(''jobs'', JArr (rev (map present_job js)))]))))"

text \<open>The answer of an action: an unknown job, another error, or nothing to say.\<close>

definition action_error :: "err \<Rightarrow> api_response" where
  "action_error e = (if errors_is e ErrJobNotFound then api_error 404 ''no such job'' else api_error 409 (err_text e))"

definition api_action :: "(('p, 'z) m_world_scheme, unit) io \<Rightarrow> (('p, 'z) m_world_scheme, api_response) io" where
  "api_action body = io_try body (\<lambda>r. case r of Inl e \<Rightarrow> io_ret (action_error e) | Inr _ \<Rightarrow> io_ret (empty_answer 204))"

definition api_rebuild :: "'p manager \<Rightarrow> string \<Rightarrow> (('p, 'z) m_world_scheme, api_response) io" where
  "api_rebuild m gid = io_bind (rebuild_job m gid) (\<lambda>(n, e). io_ret (case e of
     Some e \<Rightarrow> action_error e | None \<Rightarrow> api_json 200 (JObj [(''rebuilt'', JInt (int n))])))"

definition api_job :: "string \<Rightarrow> (('p, 'z) m_world_scheme, api_response) io" where
  "api_job gid = io_try (on_db (get_job gid)) (\<lambda>r. case r of
     Inl e \<Rightarrow> io_ret (if errors_is e ErrJobNotFound then api_error 404 ''no such job'' else api_error 500 ''job'')
   | Inr j \<Rightarrow> io_try (on_db (result_by_info_hash (j_info_hash j))) (\<lambda>r. io_ret (case r of
         Inr x \<Rightarrow> api_json 200 (JObj [(''job'', present_job j), (''result'', present_result x)])
       | Inl e \<Rightarrow> if errors_is e ErrNoRows then api_json 200 (JObj [(''job'', present_job j)]) else api_error 500 ''result'')))"

text \<open>A path below \<open>/api/v1/jobs/\<close>: the identity of a job and perhaps an action.\<close>

definition trim_slashes :: "string \<Rightarrow> string" where
  "trim_slashes s = rev (dropWhile (\<lambda>c. c = slash) (rev (dropWhile (\<lambda>c. c = slash) s)))"

definition job_path :: "string \<Rightarrow> (string \<times> string) option" where
  "job_path p =
     (let tail = trim_slashes (trim_prefix p ''/api/v1/jobs/'')
      in if tail = '''' then None
         else case split_on slash tail of [gid] \<Rightarrow> Some (gid, '''') | [gid, action] \<Rightarrow> Some (gid, action) | _ \<Rightarrow> None)"

definition api_one_job :: "'p manager option \<Rightarrow> string \<Rightarrow> string \<Rightarrow> (('p, 'z) m_world_scheme, api_response) io" where
  "api_one_job controller meth p =
     (case job_path p of
       None \<Rightarrow> io_ret (api_error 404 ''no such job'')
     | Some (gid, action) \<Rightarrow>
         let act_on = (\<lambda>act. case controller of None \<Rightarrow> io_ret (api_error 503 ''no actions'') | Some m \<Rightarrow> act m)
         in if meth = ''POST'' \<and> action = ''cancel'' then act_on (\<lambda>m. api_action (cancel_job_of m gid False))
            else if meth = ''POST'' \<and> action = ''rebuild-strm'' then act_on (\<lambda>m. api_rebuild m gid)
            else if meth = ''DELETE'' \<and> action = '''' then act_on (\<lambda>m. api_action (delete_with_files m gid False))
            else if meth \<noteq> ''GET'' \<or> action \<noteq> '''' then io_ret (not_allowed ''GET, DELETE, POST'')
            else api_job gid)"

text \<open>The routes of \<open>registerAPI\<close> and the one for all other paths of the API; the status is the one \<open>WithAvailability\<close>
  answers with, where the server is wrapped in it.\<close>

definition api_serve :: "'p manager option \<Rightarrow> bool \<Rightarrow> string \<Rightarrow> string \<Rightarrow> (('p, 'z) m_world_scheme, api_response) io" where
  "api_serve controller enabled meth p =
     (if p = ''/api/v1/status'' then io_ret (api_status meth enabled ''full'' ''local'')
      else if p = ''/api/v1/jobs'' then api_jobs meth
      else if has_prefix p ''/api/v1/jobs/'' then api_one_job controller meth p
      else io_ret (api_error 404 ''no such path''))"

definition with_availability :: "bool \<Rightarrow> (string \<Rightarrow> string \<Rightarrow> ('w, api_response) io) \<Rightarrow> string \<Rightarrow> string \<Rightarrow> ('w, api_response) io" where
  "with_availability usable next meth p =
     (if p \<noteq> ''/api/v1/status'' then next meth p else io_ret (api_status meth usable ''full'' ''unavailable''))"

end
