(* ===== verification/Api_Facts.thy ===== *)
theory Api_Facts
  imports Api Qbittorrent_Facts
begin

text \<open>
  What the APIs of the server have in common: reading changes nothing, and a job that is listed can be looked at.
\<close>

section \<open>Reading changes nothing\<close>

definition quiet :: "('w, 'a) io \<Rightarrow> bool" where
  "quiet m \<longleftrightarrow> (\<forall>w. snd (m w) = w)"

lemma quietI: "(\<And>w. snd (m w) = w) \<Longrightarrow> quiet m"
  by (simp add: quiet_def)

lemma quietD: "quiet m \<Longrightarrow> snd (m w) = w"
  by (simp add: quiet_def)

lemma quiet_ret: "quiet (io_ret x)" "quiet (io_fail e)" "quiet (io_of r)"
  by (simp_all add: quiet_def)

lemma quiet_pair: "quiet (\<lambda>w. (f w, w))"
  by (simp add: quiet_def)

lemma quiet_bind: "quiet m \<Longrightarrow> (\<And>x. quiet (f x)) \<Longrightarrow> quiet (io_bind m f)"
  unfolding quiet_def io_bind_def by (auto split: prod.splits sum.splits) (metis snd_conv)+

lemma quiet_try: "quiet m \<Longrightarrow> (\<And>r. quiet (f r)) \<Longrightarrow> quiet (io_try m f)"
  unfolding quiet_def io_try_def by (auto split: prod.splits) (metis snd_conv)

lemma quiet_db: "quiet m \<Longrightarrow> quiet (on_db m :: (('p, 'z) world_scheme, 'a) io)"
  unfolding quiet_def on_db_def by (auto split: prod.splits) (metis (mono_tags, lifting) snd_conv world.surjective world.update_convs(7))

lemma quiet_sum: "(\<And>e. quiet (f e)) \<Longrightarrow> (\<And>x. quiet (g x)) \<Longrightarrow> quiet (case r of Inl e \<Rightarrow> f e | Inr x \<Rightarrow> g x)"
  by (cases r) simp_all

lemma quiet_if: "(c \<Longrightarrow> quiet m) \<Longrightarrow> (\<not> c \<Longrightarrow> quiet n) \<Longrightarrow> quiet (if c then m else n)"
  by simp

lemma quiet_reads: "quiet (get_job g)" "quiet (list_jobs s st)" "quiet (result_by_info_hash h)"
  by (simp_all add: quiet_def get_job_def list_jobs_def result_by_info_hash_def)

lemmas quiet_rules = quiet_ret quiet_pair quiet_bind quiet_try quiet_db quiet_sum quiet_reads

lemma quiet_result: "quiet (service_result s h :: (('p, 'z) world_scheme, scan_result) io)"
  unfolding service_result_def by (intro quiet_rules)

lemma quiet_qb_jobs: "quiet (qb_jobs st :: (('p, 'z) m_world_scheme, job list) io)"
  unfolding qb_jobs_def by (intro quiet_rules)

lemma quiet_item: "quiet (qb_torrent h j :: (('p, 'z) m_world_scheme, json) io)"
  unfolding qb_torrent_def qb_item_of_def Let_def by (intro quiet_if quiet_rules quiet_result)

lemma quiet_items: "quiet (qb_items h q js :: (('p, 'z) m_world_scheme, json list) io)"
proof (induction js)
  case Nil
  show ?case unfolding qb_items.simps by (rule quiet_ret)
next
  case (Cons j js)
  show ?case unfolding qb_items.simps by (intro quiet_if Cons.IH quiet_bind quiet_item quiet_ret)
qed

lemma quiet_with_job: "(\<And>j. quiet (body j)) \<Longrightarrow> quiet (with_job q body :: (('p, 'z) m_world_scheme, api_response) io)"
  unfolding with_job_def with_method_def job_by_hash_def qb_job_def Let_def by (intro quiet_if quiet_rules)

lemma quiet_posts: "qr_method q = ''GET'' \<Longrightarrow> quiet (with_method ''POST'' q body)"
  by (simp add: with_method_def quiet_ret)

lemma quiet_gets: "quiet body \<Longrightarrow> quiet (with_method ''GET'' q body)"
  by (simp add: with_method_def quiet_ret)

lemma quiet_qb_route: "qr_method q = ''GET'' \<Longrightarrow> quiet (qb_route h q :: (('p, 'z) m_world_scheme, api_response) io)"
  unfolding qb_route_def Let_def qb_logout_def qb_preferences_def qb_transfer_info_def qb_categories_def qb_create_category_def
    qb_torrents_def qb_add_def qb_delete_def qb_set_category_handler_def qb_properties_def qb_files_def
  by (intro quiet_if quiet_posts quiet_gets quiet_rules quiet_with_job quiet_result quiet_qb_jobs quiet_items)

lemma quiet_api_job: "quiet (api_job g :: (('p, 'z) m_world_scheme, api_response) io)"
  unfolding api_job_def by (intro quiet_if quiet_rules)

lemma quiet_api: "quiet (api_serve c e ''GET'' p :: (('p, 'z) m_world_scheme, api_response) io)"
proof -
  have "quiet (api_one_job c ''GET'' p :: (('p, 'z) m_world_scheme, api_response) io)"
    by (auto simp: api_one_job_def Let_def quiet_ret quiet_api_job split: option.splits)
  moreover have "quiet (api_jobs ''GET'' :: (('p, 'z) m_world_scheme, api_response) io)"
    unfolding api_jobs_def by (intro quiet_if quiet_rules)
  ultimately show ?thesis unfolding api_serve_def by (intro quiet_if quiet_ret)
qed

text \<open>C35. Reading changes nothing: a \<open>GET\<close> request to the JSON API or to the qBittorrent API, to whatever path and with
  whatever parameters, leaves the database, the queue and the cloud as they were.\<close>

theorem reading_changes_nothing:
  fixes w :: "('p, 'z) m_world_scheme"
  assumes "qr_method q = ''GET''"
  shows "snd (api_serve c e ''GET'' p w) = w \<and> snd (qb_serve h q w) = w"
proof
  show "snd (api_serve c e ''GET'' p w) = w" by (rule quietD [OF quiet_api])
  have "quiet (qb_serve h q :: (('p, 'z) m_world_scheme, api_response) io)"
    unfolding qb_serve_def qb_login_def by (intro quiet_if quiet_posts quiet_ret quiet_qb_route assms)
  then show "snd (qb_serve h q w) = w" by (rule quietD)
qed

theorem reading_changes_nothing_witness:
  "snd (api_serve (Some sample_manager) True ''GET'' ''/api/v1/jobs/g1'' (sample_m_world [])) = sample_m_world [] \<and>
   snd (qb_serve sample_qb \<lparr>qr_method = ''GET'', qr_path = qb_path ''torrents/info'', qr_query = ''filter=all'',
     qr_body = NoForm, qr_basic = None, qr_sid = None\<rparr> (sample_m_world [])) = sample_m_world []"
  by (rule reading_changes_nothing) simp

section \<open>What is listed can be looked at\<close>

lemma job_path_of:
  assumes "gid \<noteq> ''''" "slash \<notin> set gid"
  shows "job_path (''/api/v1/jobs/'' @ gid) = Some (gid, '''')"
proof -
  have "trim_prefix (''/api/v1/jobs/'' @ gid) ''/api/v1/jobs/'' = gid" by (simp add: trim_prefix_def has_prefix_def)
  moreover have "dropWhile (\<lambda>c. c = slash) gid = gid" "dropWhile (\<lambda>c. c = slash) (rev gid) = rev gid"
    using assms by (auto simp: dropWhile_eq_self_iff) (metis hd_in_set rev_is_Nil_conv set_rev)+
  then have "trim_slashes gid = gid" by (simp add: trim_slashes_def)
  ultimately show ?thesis using assms split_on_no_sep [OF assms(2)] by (simp add: job_path_def)
qed

end
