(* ===== verification/Go_Floats.thy ===== *)
theory Go_Floats
  imports Go_Numbers Complex_Main
begin

text \<open>
  \<open>strconv.ParseFloat\<close> of Go on decimal text: a sign, digits with a point, an exponent. The value is the rational
  number that the 64-bit result stands for: the nearest one with 53 digits, of two the even one, and an error from
  half a unit above the largest on. The hexadecimal, underscored, infinite and not-a-number spellings are errors here.
\<close>

definition digits_value :: "string \<Rightarrow> int" where
  "digits_value s = foldl (\<lambda>n c. n * 10 + (of_char c - 48)) 0 s"

definition scaled :: "int \<Rightarrow> int \<Rightarrow> rat" where
  "scaled m e = (if 0 \<le> e then of_int m * 10 ^ nat e else of_int m / 10 ^ nat (- e))"

definition parse_exponent :: "string \<Rightarrow> int option" where
  "parse_exponent s =
     (let (neg, ds) = (case s of c # t \<Rightarrow> if c = CHR ''-'' then (True, t) else if c = CHR ''+'' then (False, t) else (False, s) | [] \<Rightarrow> (False, s))
      in if ds \<noteq> '''' \<and> list_all is_digit ds then Some (if neg then - digits_value ds else digits_value ds) else None)"

definition parse_mantissa :: "string \<Rightarrow> (int \<times> int) option" where
  "parse_mantissa s =
     (let whole = takeWhile (\<lambda>c. c \<noteq> CHR ''.'') s; frac = drop (Suc (length whole)) s
      in if (whole @ frac) \<noteq> '''' \<and> list_all is_digit (whole @ frac)
         then Some (digits_value (whole @ frac), - int (length frac)) else None)"

definition parse_ufloat :: "string \<Rightarrow> rat option" where
  "parse_ufloat s =
     (let m = takeWhile (\<lambda>c. c \<noteq> CHR ''e'' \<and> c \<noteq> CHR ''E'') s; rest = drop (length m) s
      in case parse_mantissa m of
           None \<Rightarrow> None
         | Some (v, k) \<Rightarrow> (case rest of
             [] \<Rightarrow> Some (scaled v k)
           | _ # es \<Rightarrow> map_option (\<lambda>e. scaled v (k + e)) (parse_exponent es)))"

section \<open>Rounding\<close>

definition power_two :: "int \<Rightarrow> rat" where
  "power_two e = (if 0 \<le> e then 2 ^ nat e else 1 / 2 ^ nat (- e))"

definition round_even :: "rat \<Rightarrow> int" where
  "round_even r = (let f = \<lfloor>r\<rfloor>; d = r - of_int f in if d < 1 / 2 \<or> (d = 1 / 2 \<and> even f) then f else f + 1)"

text \<open>The number of binary digits.\<close>

function bit_count :: "int \<Rightarrow> int" where
  "bit_count i = (if i \<le> 0 then 0 else 1 + bit_count (i div 2))"
  by auto

termination by (relation "measure nat") auto

declare bit_count.simps [simp del]

text \<open>The exponent of the last digit: 53 digits, or fewer next to zero.\<close>

definition unit_exponent :: "rat \<Rightarrow> int" where
  "unit_exponent x = max (- 1074)
     (if 1 \<le> x then bit_count \<lfloor>x\<rfloor> - 53 else - bit_count (\<lceil>1 / x\<rceil> - 1) - 52)"

definition round64 :: "rat \<Rightarrow> rat" where
  "round64 x =
     (if x = 0 then 0
      else let u = power_two (unit_exponent \<bar>x\<bar>) in sgn x * (of_int (round_even (\<bar>x\<bar> / u)) * u))"

text \<open>Half a unit above the largest number.\<close>

definition float_limit :: rat where
  "float_limit = 2 ^ 1024 - 2 ^ 970"

definition in_range :: "rat option \<Rightarrow> rat option" where
  "in_range r = Option.bind r (\<lambda>x. if float_limit \<le> \<bar>x\<bar> then None else Some (round64 x))"

definition parse_float :: "string \<Rightarrow> rat option" where
  "parse_float s = in_range (case s of
     [] \<Rightarrow> None
   | c # t \<Rightarrow> if c = CHR ''-'' then map_option uminus (parse_ufloat t)
       else if c = CHR ''+'' then parse_ufloat t else parse_ufloat s)"

section \<open>Whole numbers\<close>

lemma round_even_int [simp]: "round_even (of_int i) = i"
  by (simp add: round_even_def)

lemma bit_count_le: "i < 2 ^ k \<Longrightarrow> bit_count i \<le> int k"
proof (induction i arbitrary: k rule: bit_count.induct)
  case (1 i)
  show ?case
  proof (cases "i \<le> 0")
    case False
    then obtain m where "k = Suc m" using "1.prems" by (cases k) auto
    with "1.IH" [OF False, of m] "1.prems" False show ?thesis by (subst bit_count.simps) simp
  qed (simp add: bit_count.simps)
qed

lemma bit_count_nonneg [simp]: "0 \<le> bit_count i"
  by (induction i rule: bit_count.induct) (subst bit_count.simps, simp)

lemma round64_int:
  assumes "0 \<le> i" "i < 2 ^ 53"
  shows "round64 (of_int i) = of_int i"
proof (cases "i = 0")
  case False
  define k where "k = nat (53 - bit_count i)"
  have le: "bit_count i \<le> 53" using bit_count_le [of i 53] assms by simp
  have one: "1 \<le> (of_int i :: rat)" using False assms by simp
  have e: "unit_exponent (of_int i) = - int k"
    using one le bit_count_nonneg [of i] by (simp add: unit_exponent_def k_def)
  have u: "power_two (- int k) = 1 / 2 ^ k" by (cases "k = 0") (simp_all add: power_two_def)
  have "of_int i / (1 / 2 ^ k :: rat) = of_int (i * 2 ^ k)" by simp
  then have "round_even (of_int i / (1 / 2 ^ k)) = i * 2 ^ k" by (simp only: round_even_int)
  then show ?thesis using False one by (simp add: round64_def Let_def e u)
qed (simp add: round64_def)

end
