(* ===== verification/Cloud_Client.thy ===== *)
theory Cloud_Client
  imports Token_Client Materialize Json Go_Floats
begin

text \<open>
  \<open>internal/provider/p115/client.go\<close>: the operations of the cloud client, each between \<open>before\<close> and \<open>after\<close>, and the
  \<open>Provider\<close> of the ingest service they make up. What the package \<open>115-sdk-go\<close> answers to each of its calls is a
  parameter; \<open>AuthRequest\<close> hands over the data of the reply, which is decoded here. A map of addresses is the
  list of them in the order the map is run through.
\<close>

section \<open>The calls of the package\<close>

type_synonym ('p, 's, 'a) sdk_call = "'s \<Rightarrow> 'p \<Rightarrow> (string \<times> string) list \<times> (err + 'a) \<times> 's \<times> 'p"

record folder_info =
  fi_id :: string
  fi_name :: string
  fi_sha1 :: string
  fi_size_byte :: int
  fi_size :: string
  fi_pick_code :: string
  fi_category :: string
  fi_paths :: "remote_parent list"

record file_item =
  it_id :: string
  it_parent :: string
  it_name :: string
  it_sha1 :: string
  it_size :: int
  it_pick_code :: string
  it_kind :: string
  it_created :: int
  it_updated :: int

record found_item =
  fo_id :: string
  fo_parent :: string
  fo_name :: string
  fo_sha1 :: string
  fo_size :: string
  fo_pick_code :: string

text \<open>What a request for new tasks comes to: the data, decoded below, and the whole body; or an error with its code, if it is
  one of the package, its message, and the body as JSON, if there is one. No body is \<open>None\<close>.\<close>

datatype add_answer = Added json "json option" | Refused "int option" string "json option"

record ('p, 's) sdk_cloud =
  sc_quota :: "('p, 's, int) sdk_call"
  sc_offline_list :: "string \<Rightarrow> ('p, 's, json) sdk_call"
  sc_add_offline :: "string \<Rightarrow> string \<Rightarrow> ('p, 's, add_answer) sdk_call"
  sc_delete_offline :: "string \<Rightarrow> bool \<Rightarrow> ('p, 's, unit) sdk_call"
  sc_empty_bin :: "('p, 's, unit) sdk_call"
  sc_folder_info :: "string \<Rightarrow> ('p, 's, folder_info) sdk_call"
  sc_files :: "string \<Rightarrow> int \<Rightarrow> int \<Rightarrow> bool \<Rightarrow> ('p, 's, file_item list \<times> int) sdk_call"
  sc_search :: "string \<Rightarrow> int \<Rightarrow> int \<Rightarrow> ('p, 's, found_item list \<times> int) sdk_call"
  sc_down_url :: "string \<Rightarrow> string \<Rightarrow> ('p, 's, string list) sdk_call"
  sc_delete :: "string \<Rightarrow> string \<Rightarrow> ('p, 's, unit) sdk_call"
  sc_http_get :: "string \<Rightarrow> 'p \<Rightarrow> (err + int \<times> string) \<times> 'p"

text \<open>\<open>sdk.ErrObjectNotFound\<close>.\<close>

definition object_not_found :: err where
  "object_not_found = Msg ''115 object not found''"

definition sdk_run :: "('p, 's, 'a) sdk_call \<Rightarrow> (('p, 's, 'z) tok_world_scheme, 'a) io" where
  "sdk_run f =
     io_bind the_client (\<lambda>k. case tc_sdk k of
         None \<Rightarrow> io_fail (Msg ''nil pointer'')
       | Some (s, reporting) \<Rightarrow>
           io_bind (\<lambda>w. case f s (w_prov w) of (reports, r, s', p) \<Rightarrow> (Inr (reports, r, s'), w\<lparr>w_prov := p\<rparr>)) (\<lambda>(reports, r, s').
           io_bind (on_client (\<lambda>k. k\<lparr>tc_sdk := Some (s', reporting)\<rparr>)) (\<lambda>_.
           io_bind (if reporting then token_reports reports else io_ret ()) (\<lambda>_. io_of r))))"

text \<open>Every operation: \<open>before\<close>, the call, and \<open>after\<close> whatever came of it.\<close>

definition with_slot :: "('p, 's) sdk_api \<Rightarrow> (('p, 's, 'z) tok_world_scheme, 'a) io \<Rightarrow> (('p, 's, 'z) tok_world_scheme, 'a) io" where
  "with_slot api body =
     io_bind (before_request api) (\<lambda>_. io_try body (\<lambda>r. io_bind after_request (\<lambda>_. io_of r)))"

section \<open>Offline tasks\<close>

definition offline_quota_remaining :: "('p, 's) sdk_api \<Rightarrow> ('p, 's) sdk_cloud \<Rightarrow> (('p, 's, 'z) tok_world_scheme, int) io" where
  "offline_quota_remaining api cl = with_slot api (sdk_run (sc_quota cl))"

text \<open>\<open>flexibleFloat64\<close>: a number, or text that is one; nothing is 0.\<close>

definition flexible_float :: "json \<Rightarrow> rat option" where
  "flexible_float v = (case v of
     JNull \<Rightarrow> Some 0 | JInt i \<Rightarrow> in_range (Some (of_int i)) | JNum r \<Rightarrow> in_range (Some r) | JStr s \<Rightarrow> parse_float (trim_space s) | _ \<Rightarrow> None)"

definition text_field :: "string \<Rightarrow> (string \<times> json) list \<Rightarrow> string option" where
  "text_field k ms = read_field json_string '''' (members k ms)"

definition int_field :: "string \<Rightarrow> (string \<times> json) list \<Rightarrow> int option" where
  "int_field k ms = read_field json_int 0 (members k ms)"

definition bool_field :: "string \<Rightarrow> (string \<times> json) list \<Rightarrow> bool option" where
  "bool_field k ms = read_field (\<lambda>old v. case v of JNull \<Rightarrow> Some old | JBool b \<Rightarrow> Some b | _ \<Rightarrow> None) False (members k ms)"

definition object_of :: "json \<Rightarrow> (string \<times> json) list option" where
  "object_of v = (case v of JNull \<Rightarrow> Some [] | JObj ms \<Rightarrow> Some ms | _ \<Rightarrow> None)"

definition array_of :: "json \<Rightarrow> json list option" where
  "array_of v = (case v of JNull \<Rightarrow> Some [] | JArr vs \<Rightarrow> Some vs | _ \<Rightarrow> None)"

definition task_from_response :: "json \<Rightarrow> task option" where
  "task_from_response v = (case object_of v of
     None \<Rightarrow> None
   | Some ms \<Rightarrow>
       (case (text_field ''info_hash'' ms, read_field (\<lambda>_. flexible_float) 0 (members ''percentDone'' ms), int_field ''size'' ms,
              text_field ''name'' ms, int_field ''last_update'' ms) of
         (Some h, Some pct, Some bytes, Some name, Some upd) \<Rightarrow>
           (case (text_field ''file_id'' ms, text_field ''delete_file_id'' ms, text_field ''wp_path_id'' ms, int_field ''status'' ms) of
             (Some fid, Some did, Some wp, Some st) \<Rightarrow> Some (empty_task\<lparr>t_info_hash := h, t_name := name, t_result_id := fid,
               t_delete_file_id := did, t_wp_path_id := wp, t_status := st, t_last_update := upd, t_size_bytes := bytes,
               t_progress := pct, t_done := (st = 2), t_failed := (st = - 1)\<rparr>)
           | _ \<Rightarrow> None)
       | _ \<Rightarrow> None))"

definition offline_page :: "json \<Rightarrow> (task list \<times> int) option" where
  "offline_page v = (case object_of v of
     None \<Rightarrow> None
   | Some ms \<Rightarrow>
       (case (int_field ''page_count'' ms, read_field (\<lambda>_ u. case array_of u of None \<Rightarrow> None | Some vs \<Rightarrow> all_some (map task_from_response vs)) [] (members ''tasks'' ms)) of
         (Some n, Some ts) \<Rightarrow> Some (ts, n)
       | _ \<Rightarrow> None))"

definition decoded :: "('a \<Rightarrow> 'b option) \<Rightarrow> 'a \<Rightarrow> ('w, 'b) io" where
  "decoded f x = io_of (case f x of None \<Rightarrow> Inl (Msg ''decode'') | Some y \<Rightarrow> Inr y)"

definition list_offline_tasks :: "('p, 's) sdk_api \<Rightarrow> ('p, 's) sdk_cloud \<Rightarrow> int \<Rightarrow> (('p, 's, 'z) tok_world_scheme, task list \<times> int) io" where
  "list_offline_tasks api cl p =
     with_slot api (io_bind (sdk_run (sc_offline_list cl (decimal_int p))) (decoded offline_page))"

definition add_result :: "json \<Rightarrow> create_result option" where
  "add_result v = (case object_of v of
     None \<Rightarrow> None
   | Some ms \<Rightarrow>
       (case (bool_field ''state'' ms, text_field ''info_hash'' ms, int_field ''errcode'' ms, int_field ''errno'' ms,
              text_field ''error_msg'' ms, text_field ''message'' ms) of
         (Some st, Some h, Some code, Some legacy, Some em, Some msg) \<Rightarrow>
           Some \<lparr>c_info_hash = h, c_created = st, c_err_code = (if code = 0 then legacy else code), c_error = (if em = '''' then msg else em)\<rparr>
       | _ \<Rightarrow> None))"

text \<open>The fields of a refusal about a task that exists: its hash, its code and its message.\<close>

definition duplicate_fields :: "json option \<Rightarrow> (string \<times> int \<times> string) option" where
  "duplicate_fields body = (case Option.bind body object_of of
     None \<Rightarrow> None
   | Some ms \<Rightarrow> (case (text_field ''info_hash'' ms, int_field ''errcode'' ms, text_field ''error_msg'' ms) of
       (Some h, Some code, Some em) \<Rightarrow> Some (h, code, em) | _ \<Rightarrow> None))"

definition task_exists :: "string \<Rightarrow> err" where
  "task_exists detail = Wrap ''offline task exists'' (Msg detail)"

definition duplicate_error :: "int option \<Rightarrow> string \<Rightarrow> json option \<Rightarrow> err option" where
  "duplicate_error code message body =
     (if code = Some 10008 then Some (task_exists message)
      else case duplicate_fields body of
        None \<Rightarrow> None
      | Some (h, c, em) \<Rightarrow> if c \<noteq> 10008 then None else Some (task_exists (em @ '' ('' @ h @ '')'')))"

definition refused_tasks :: "string list \<Rightarrow> int option \<Rightarrow> string \<Rightarrow> json option \<Rightarrow> err + create_result list" where
  "refused_tasks magnets code message body =
     (case duplicate_error code message body of
       None \<Rightarrow> Inl (Msg message)
     | Some dup \<Rightarrow>
         let alone = (case magnets of
               [m] \<Rightarrow> (case parse_info_hash m of
                   Inr h \<Rightarrow> Inr [\<lparr>c_info_hash = h, c_created = False, c_err_code = 10008, c_error = err_text dup\<rparr>]
                 | Inl _ \<Rightarrow> Inl dup)
             | _ \<Rightarrow> Inl dup)
         in case duplicate_fields body of
              Some (h, c, em) \<Rightarrow> if h \<noteq> '''' then Inr [\<lparr>c_info_hash = h, c_created = False, c_err_code = c, c_error = em\<rparr>] else alone
            | None \<Rightarrow> alone)"

definition added_tasks :: "string list \<Rightarrow> add_answer \<Rightarrow> err + create_result list" where
  "added_tasks magnets answer = (case answer of
     Refused code message body \<Rightarrow> refused_tasks magnets code message body
   | Added v body \<Rightarrow>
       (case Option.bind (array_of v) (\<lambda>vs. all_some (map add_result vs)) of
         None \<Rightarrow> refused_tasks magnets None ''decode'' body
       | Some rs \<Rightarrow> let named = filter (\<lambda>r. c_info_hash r \<noteq> '''') rs
           in if named = [] then Inl (Msg ''no info hash returned'') else Inr named))"

definition add_offline_tasks :: "('p, 's) sdk_api \<Rightarrow> ('p, 's) sdk_cloud \<Rightarrow> string list \<Rightarrow> string \<Rightarrow>
    (('p, 's, 'z) tok_world_scheme, create_result list) io" where
  "add_offline_tasks api cl magnets work_dir =
     with_slot api (io_bind (sdk_run (sc_add_offline cl (join_with [CHR ''\<newline>''] magnets) work_dir)) (\<lambda>a. io_of (added_tasks magnets a)))"

definition delete_offline_task :: "('p, 's) sdk_api \<Rightarrow> ('p, 's) sdk_cloud \<Rightarrow> string \<Rightarrow> bool \<Rightarrow> (('p, 's, 'z) tok_world_scheme, unit) io" where
  "delete_offline_task api cl h files = with_slot api (sdk_run (sc_delete_offline cl h files))"

definition delete_recycle_bin :: "('p, 's) sdk_api \<Rightarrow> ('p, 's) sdk_cloud \<Rightarrow> (('p, 's, 'z) tok_world_scheme, unit) io" where
  "delete_recycle_bin api cl = with_slot api (sdk_run (sc_empty_bin cl))"

text \<open>The pages are looked through until the task is found; \<open>fuel\<close> bounds the pages.\<close>

fun delete_if_exists :: "nat \<Rightarrow> ('p, 's) sdk_api \<Rightarrow> ('p, 's) sdk_cloud \<Rightarrow> string \<Rightarrow> bool \<Rightarrow> int \<Rightarrow> (('p, 's, 'z) tok_world_scheme, bool) io" where
  "delete_if_exists 0 api cl h files p = io_fail OutOfFuel"
| "delete_if_exists (Suc fuel) api cl h files p =
     io_bind (list_offline_tasks api cl p) (\<lambda>(ts, n).
       if list_ex (\<lambda>t. equal_fold (t_info_hash t) h) ts
       then io_bind (delete_offline_task api cl h files) (\<lambda>_. io_ret True)
       else if n \<le> p then io_ret False
       else delete_if_exists fuel api cl h files (p + 1))"

section \<open>Files\<close>

definition parse_size :: "string \<Rightarrow> err + int" where
  "parse_size v = (if v = '''' then Inr 0 else case parse_int v of None \<Rightarrow> Inl (Msg ''size'') | Some n \<Rightarrow> Inr n)"

definition info_size :: "folder_info \<Rightarrow> err + int" where
  "info_size i = (if fi_size_byte i = 0 then parse_size (fi_size i) else Inr (fi_size_byte i))"

definition last_parent :: "folder_info \<Rightarrow> string" where
  "last_parent i = (if fi_paths i = [] then '''' else p_id (last (fi_paths i)))"

definition offline_folder_info :: "('p, 's) sdk_api \<Rightarrow> ('p, 's) sdk_cloud \<Rightarrow> string \<Rightarrow> (('p, 's, 'z) tok_world_scheme, remote_node) io" where
  "offline_folder_info api cl fid = with_slot api
     (io_try (sdk_run (sc_folder_info cl fid)) (\<lambda>r. case r of
         Inl e \<Rightarrow> io_fail (if errors_is e object_not_found then ErrOfflineResultNotFound else e)
       | Inr i \<Rightarrow> io_bind (io_of (info_size i)) (\<lambda>n. io_ret
           \<lparr>n_id = fi_id i, n_parent_id = last_parent i, n_name = fi_name i, n_sha1 = to_lower (fi_sha1 i), n_size_bytes = n,
            n_pick_code = fi_pick_code i, n_is_dir = (fi_category i \<noteq> ''1'' \<and> fi_sha1 i = ''''), n_created_at = 0, n_updated_at = 0,
            n_parents = fi_paths i\<rparr>)))"

definition node_of_item :: "file_item \<Rightarrow> remote_node" where
  "node_of_item i = \<lparr>n_id = it_id i, n_parent_id = it_parent i, n_name = it_name i, n_sha1 = to_lower (it_sha1 i),
     n_size_bytes = it_size i, n_pick_code = it_pick_code i, n_is_dir = (it_kind i = ''0''), n_created_at = it_created i,
     n_updated_at = it_updated i, n_parents = []\<rparr>"

definition offline_list_folder :: "('p, 's) sdk_api \<Rightarrow> ('p, 's) sdk_cloud \<Rightarrow> string \<Rightarrow> int \<Rightarrow> int \<Rightarrow>
    (('p, 's, 'z) tok_world_scheme, remote_node list \<times> int) io" where
  "offline_list_folder api cl folder offset limit = with_slot api
     (io_bind (sdk_run (sc_files cl folder offset limit True)) (\<lambda>(items, n). io_ret (map node_of_item items, n)))"

definition cloud_file_of_info :: "folder_info \<Rightarrow> int \<Rightarrow> cloud_file" where
  "cloud_file_of_info i n = \<lparr>cf_id = fi_id i, cf_parent_id = last_parent i, cf_name = fi_name i, cf_sha1 = to_lower (fi_sha1 i),
     cf_size_bytes = n, cf_pick_code = fi_pick_code i, cf_remote_path = '''', cf_source_info_hash = '''', cf_parents = fi_paths i\<rparr>"

definition file_info :: "('p, 's) sdk_api \<Rightarrow> ('p, 's) sdk_cloud \<Rightarrow> string \<Rightarrow> (('p, 's, 'z) tok_world_scheme, cloud_file) io" where
  "file_info api cl fid = with_slot api
     (io_try (sdk_run (sc_folder_info cl fid)) (\<lambda>r. case r of
         Inl e \<Rightarrow> io_fail (if errors_is e object_not_found then ErrRemoteNotFound else e)
       | Inr i \<Rightarrow> io_bind (io_of (info_size i)) (\<lambda>n. io_ret (cloud_file_of_info i n))))"

fun found_files :: "found_item list \<Rightarrow> err + cloud_file list" where
  "found_files [] = Inr []"
| "found_files (i # is) = (case parse_size (fo_size i) of
     Inl e \<Rightarrow> Inl e
   | Inr n \<Rightarrow> map_sum id (Cons \<lparr>cf_id = fo_id i, cf_parent_id = fo_parent i, cf_name = fo_name i, cf_sha1 = to_lower (fo_sha1 i),
       cf_size_bytes = n, cf_pick_code = fo_pick_code i, cf_remote_path = '''', cf_source_info_hash = '''', cf_parents = []\<rparr>) (found_files is))"

definition search_files :: "('p, 's) sdk_api \<Rightarrow> ('p, 's) sdk_cloud \<Rightarrow> string \<Rightarrow> int \<Rightarrow> int \<Rightarrow>
    (('p, 's, 'z) tok_world_scheme, cloud_file list \<times> int) io" where
  "search_files api cl name offset limit = with_slot api
     (io_bind (sdk_run (sc_search cl name offset limit)) (\<lambda>(items, n).
        io_bind (io_of (found_files items)) (\<lambda>fs. io_ret (fs, n))))"

definition list_files :: "('p, 's) sdk_api \<Rightarrow> ('p, 's) sdk_cloud \<Rightarrow> string \<Rightarrow> int \<Rightarrow> int \<Rightarrow>
    (('p, 's, 'z) tok_world_scheme, cloud_file list \<times> int) io" where
  "list_files api cl folder offset limit = with_slot api
     (io_bind (sdk_run (sc_files cl folder offset limit False)) (\<lambda>(items, n). io_ret
        (map (\<lambda>i. \<lparr>cf_id = it_id i, cf_parent_id = it_parent i, cf_name = it_name i, cf_sha1 = to_lower (it_sha1 i),
           cf_size_bytes = it_size i, cf_pick_code = it_pick_code i, cf_remote_path = '''', cf_source_info_hash = '''', cf_parents = []\<rparr>) items, n)))"

definition download_url :: "('p, 's) sdk_api \<Rightarrow> ('p, 's) sdk_cloud \<Rightarrow> string \<Rightarrow> string \<Rightarrow> (('p, 's, 'z) tok_world_scheme, string) io" where
  "download_url api cl pick_code user_agent = with_slot api
     (io_bind (sdk_run (sc_down_url cl pick_code user_agent)) (\<lambda>urls.
        case find (\<lambda>u. u \<noteq> '''') urls of None \<Rightarrow> io_fail (Msg ''no download address'') | Some u \<Rightarrow> io_ret u))"

definition max_nfo_size :: nat where
  "max_nfo_size = 16 * 2 ^ 20"

definition read_nfo :: "('p, 's) sdk_api \<Rightarrow> ('p, 's) sdk_cloud \<Rightarrow> string \<Rightarrow> (('p, 's, 'z) tok_world_scheme, string) io" where
  "read_nfo api cl pick_code =
     io_bind (download_url api cl pick_code ''magnet-to-strm'') (\<lambda>url.
     io_bind (on_prov (sc_http_get cl url)) (\<lambda>(status, content).
       if status < 200 \<or> 300 \<le> status then io_fail (Msg ''NFO status'')
       else if max_nfo_size < length content then io_fail (Msg ''NFO too large'')
       else io_ret content))"

definition delete_file :: "('p, 's) sdk_api \<Rightarrow> ('p, 's) sdk_cloud \<Rightarrow> string \<Rightarrow> string \<Rightarrow> (('p, 's, 'z) tok_world_scheme, unit) io" where
  "delete_file api cl fid parent = with_slot api (sdk_run (sc_delete cl fid parent))"

section \<open>The provider of the ingest service\<close>

definition client_provider :: "('p, 's) sdk_api \<Rightarrow> ('p, 's) sdk_cloud \<Rightarrow> ('p, 's, 'z) tok_world_scheme provider" where
  "client_provider api cl =
     \<lparr>pv_list_offline = list_offline_tasks api cl, pv_add_offline = add_offline_tasks api cl,
      pv_delete_offline = delete_offline_task api cl, pv_folder_info = offline_folder_info api cl,
      pv_list_folder = offline_list_folder api cl, pv_quota = Some (offline_quota_remaining api cl),
      pv_available = Some (\<lambda>w. tc_available (tw_client w)), pv_delete_file = Some (delete_file api cl),
      pv_recycle_bin = Some (delete_recycle_bin api cl), pv_read_nfo = Some (read_nfo api cl)\<rparr>"

text \<open>What the materializer asks of the client.\<close>

definition client_mat_service :: "nat \<Rightarrow> ('p, 's) sdk_api \<Rightarrow> ('p, 's) sdk_cloud \<Rightarrow> (string \<Rightarrow> string \<Rightarrow> ('w, cloud_file) io) option \<Rightarrow>
    string \<Rightarrow> base_url \<Rightarrow> string \<Rightarrow> int \<Rightarrow> int \<Rightarrow> (('p, 's, 'z) tok_world_scheme, 'w) mat_service" where
  "client_mat_service fuel api cl restoring dir base kind ttl most =
     \<lparr>mx_file_info = file_info api cl, mx_delete = delete_file api cl, mx_recycle_bin = Some (delete_recycle_bin api cl),
      mx_downloader = Some (download_url api cl), mx_offline_tasks = Some (\<lambda>h files. delete_if_exists fuel api cl h files 1),
      mx_restorer = restoring, mx_work_dir = dir, mx_base = base, mx_redirect_type = kind, mx_cache_ttl = ttl, mx_cache_max = most\<rparr>"

end
