(* ===== verification/Cloud_Facts.thy ===== *)
theory Cloud_Facts
  imports Cloud_Client Token_Facts
begin

text \<open>
  What the operations of the cloud client keep: the slots of the requests, and the meaning of a refusal for the batch that
  was refused.
\<close>

section \<open>Slots\<close>

lemma keeps_slots_reply [keeps_intros]:
  "keeps (\<lambda>w. slots_of w = x) (\<lambda>w. case f s (w_prov w) of (reports, r, s', p) \<Rightarrow> (Inr (reports, r, s'), w\<lparr>w_prov := p\<rparr>))"
  by (rule keepsI) (simp add: slots_of_def split: prod.splits)

lemma keeps_slots_run [keeps_intros]: "keeps (\<lambda>w. slots_of w = x) (sdk_run f)"
  unfolding sdk_run_def
  by (intro keeps_intros) (auto split: option.split prod.split intro!: keeps_intros)

lemma keeps_slots_prov [keeps_intros]: "keeps (\<lambda>w :: ('p, 's, 'z) tok_world_scheme. slots_of w = x) (on_prov m)"
  by (rule keepsI) (simp add: slots_of_def on_prov_def split: prod.splits)

lemma keeps_slots_decoded [keeps_intros]: "keeps (\<lambda>w. slots_of w = x) (decoded f y)"
  unfolding decoded_def by (rule keeps_of)

text \<open>A request runs its body between the two: whatever the body does, the slot is given back.\<close>

definition slots_in_use :: "('p, 's, 'z) tok_world_scheme \<Rightarrow> nat" where
  "slots_in_use w = tc_slots (tw_client w)"

lemma after_request_run: "after_request w = (Inr (), w\<lparr>tw_client := (tw_client w)\<lparr>tc_slots := tc_slots (tw_client w) - 1\<rparr>\<rparr>)"
  by (simp add: after_request_def free_slot_def)

lemma before_request_slots:
  assumes "before_request api w = (r, w')"
  shows "slots_in_use w' = (case r of Inr _ \<Rightarrow> Suc (slots_in_use w) | Inl _ \<Rightarrow> slots_in_use w)"
  using before_request_result [OF assms] by (cases r) (simp_all add: slots_in_use_def)

lemma keeps_with_slot [keeps_intros]:
  assumes "\<And>x. keeps (\<lambda>w. slots_of w = x) body"
  shows "keeps (\<lambda>w. slots_in_use w = n) (with_slot api body)"
proof (rule keepsI)
  fix w :: "('a, 'b, 'c) tok_world_scheme"
  assume n: "slots_in_use w = n"
  obtain r w1 where b: "before_request api w = (r, w1)" by fastforce
  note s = before_request_slots [OF b]
  show "slots_in_use (snd (with_slot api body w)) = n"
  proof (cases r)
    case (Inl e)
    with s n b show ?thesis by (simp add: with_slot_def io_bind_def)
  next
    case (Inr u)
    obtain q w2 where q: "body w1 = (q, w2)" by fastforce
    have "slots_of w2 = slots_of w1" using keepsD [OF assms refl q] .
    then have "slots_in_use w2 = Suc n" using s Inr n by (simp add: slots_of_def slots_in_use_def)
    then show ?thesis
      using Inr b q by (cases q) (simp_all add: with_slot_def io_bind_def io_try_def after_request_run slots_in_use_def)
  qed
qed

lemma keeps_in_use_prov [keeps_intros]: "keeps (\<lambda>w :: ('p, 's, 'z) tok_world_scheme. slots_in_use w = n) (on_prov m)"
  by (rule keepsI) (simp add: slots_in_use_def on_prov_def split: prod.splits)

lemmas slot_operations = offline_quota_remaining_def list_offline_tasks_def add_offline_tasks_def delete_offline_task_def
  delete_recycle_bin_def offline_folder_info_def offline_list_folder_def file_info_def search_files_def list_files_def
  download_url_def delete_file_def

lemma keeps_in_use_list: "keeps (\<lambda>w. slots_in_use w = n) (list_offline_tasks api cl p)"
  unfolding slot_operations by (intro keeps_intros)

lemma keeps_in_use_delete: "keeps (\<lambda>w. slots_in_use w = n) (delete_offline_task api cl h files)"
  unfolding slot_operations by (intro keeps_intros)

lemma keeps_in_use_url: "keeps (\<lambda>w. slots_in_use w = n) (download_url api cl pc ua)"
  unfolding slot_operations by (intro keeps_intros) (auto split: option.split intro!: keeps_intros)

lemma keeps_in_use_if_exists: "keeps (\<lambda>w. slots_in_use w = n) (delete_if_exists fuel api cl h files p)"
proof (induction fuel arbitrary: p)
  case 0
  show ?case unfolding delete_if_exists.simps by (rule keeps_fail)
next
  case (Suc fuel)
  note [keeps_intros] = keeps_in_use_list keeps_in_use_delete Suc.IH
  show ?case unfolding delete_if_exists.simps by (intro keeps_intros) (auto intro!: keeps_intros)
qed

lemma keeps_in_use_nfo: "keeps (\<lambda>w. slots_in_use w = n) (read_nfo api cl pc)"
  unfolding read_nfo_def by (intro keeps_intros keeps_in_use_url) (auto intro!: keeps_intros)

text \<open>The requests of the program, in any order.\<close>

datatype cloud_request =
    AskQuota
  | ListTasks int
  | AddTasks "string list" string
  | DeleteTask string bool
  | DeleteIfExists nat string bool
  | EmptyBin
  | ReadFolder string
  | ReadPage string int int
  | ReadFile string
  | Search string int int
  | ListFiles string int int
  | DownloadAddress string string
  | ReadNfo string
  | DeleteFile string string

fun make_request :: "('p, 's) sdk_api \<Rightarrow> ('p, 's) sdk_cloud \<Rightarrow> cloud_request \<Rightarrow>
    ('p, 's, 'z) tok_world_scheme \<Rightarrow> ('p, 's, 'z) tok_world_scheme" where
  "make_request api cl AskQuota w = snd (offline_quota_remaining api cl w)"
| "make_request api cl (ListTasks p) w = snd (list_offline_tasks api cl p w)"
| "make_request api cl (AddTasks xs d) w = snd (add_offline_tasks api cl xs d w)"
| "make_request api cl (DeleteTask h files) w = snd (delete_offline_task api cl h files w)"
| "make_request api cl (DeleteIfExists fuel h files) w = snd (delete_if_exists fuel api cl h files 1 w)"
| "make_request api cl EmptyBin w = snd (delete_recycle_bin api cl w)"
| "make_request api cl (ReadFolder f) w = snd (offline_folder_info api cl f w)"
| "make_request api cl (ReadPage f k n) w = snd (offline_list_folder api cl f k n w)"
| "make_request api cl (ReadFile f) w = snd (file_info api cl f w)"
| "make_request api cl (Search s k n) w = snd (search_files api cl s k n w)"
| "make_request api cl (ListFiles f k n) w = snd (list_files api cl f k n w)"
| "make_request api cl (DownloadAddress pc ua) w = snd (download_url api cl pc ua w)"
| "make_request api cl (ReadNfo pc) w = snd (read_nfo api cl pc w)"
| "make_request api cl (DeleteFile f d) w = snd (delete_file api cl f d w)"

lemma keeps_value: "(\<And>n. keeps (\<lambda>w. f w = n) m) \<Longrightarrow> f (snd (m w)) = f w"
  by (simp add: keeps_def)

lemma make_request_in_use: "slots_in_use (make_request api cl q w) = slots_in_use w"
proof -
  note [keeps_intros] = keeps_in_use_list keeps_in_use_delete keeps_in_use_url keeps_in_use_if_exists keeps_in_use_nfo
  show ?thesis
    by (cases q; simp only: make_request.simps; rule keeps_value;
        (simp only: slot_operations)?; (intro keeps_intros)?; auto split: sum.split option.split intro!: keeps_intros)
qed

text \<open>C36. The requests of the cloud client give their slots back: after any requests, whatever the cloud answers and however
  they fail, as many slots are taken as before.\<close>

theorem requests_give_back_slots:
  "tc_slots (tw_client (fold (make_request api cl) qs w)) = tc_slots (tw_client w)"
proof -
  have "slots_in_use (fold (make_request api cl) qs w) = slots_in_use w"
    by (induction qs arbitrary: w) (simp_all add: make_request_in_use)
  then show ?thesis by (simp add: slots_in_use_def)
qed

section \<open>Refusals\<close>

lemma sdk_run_Inr:
  assumes "sdk_run f w = (Inr x, w')"
  shows "\<exists>s p reports s' p'. f s p = (reports, Inr x, s', p')"
proof -
  obtain s reporting where s: "tc_sdk (tw_client w) = Some (s, reporting)"
    using assms by (auto simp: sdk_run_def io_bind_def split: option.splits)
  obtain reports r s' p where f: "f s (w_prov w) = (reports, r, s', p)" by (metis prod_cases4)
  have "r = Inr x"
    using assms s f by (cases reporting) (auto simp: sdk_run_def io_bind_def split: prod.splits sum.splits)
  with f show ?thesis by blast
qed

lemma with_slot_Inr:
  assumes "with_slot api body w = (Inr x, w')"
  shows "\<exists>w1 w2. body w1 = (Inr x, w2)"
proof -
  obtain r w1 where b: "before_request api w = (r, w1)" by fastforce
  obtain q w2 where q: "body w1 = (q, w2)" by fastforce
  have "q = Inr x"
    using assms b q by (cases r; cases q) (auto simp: with_slot_def io_bind_def io_try_def after_request_run)
  with q show ?thesis by blast
qed

text \<open>The cloud refuses every request for new tasks.\<close>

definition refuses_adds :: "('p, 's) sdk_cloud \<Rightarrow> bool" where
  "refuses_adds cl \<longleftrightarrow> (\<forall>urls dir s p. case fst (snd (sc_add_offline cl urls dir s p)) of Inr (Added _ _) \<Rightarrow> False | _ \<Rightarrow> True)"

lemma refused_one_result:
  assumes "refused_tasks magnets code message body = Inr rs"
  shows "\<exists>r. rs = [r]"
  using assms by (auto simp: refused_tasks_def Let_def split: option.splits if_splits list.splits sum.splits)

lemma refused_add_one_result:
  fixes w :: "('p, 's, 'z) tok_world_scheme"
  assumes cl: "refuses_adds cl" and run: "add_offline_tasks api cl magnets dir w = (Inr rs, w')"
  shows "\<exists>r. rs = [r]"
proof -
  from with_slot_Inr [OF run [unfolded add_offline_tasks_def]] obtain w1 w2 :: "('p, 's, 'z) tok_world_scheme" where
    "io_bind (sdk_run (sc_add_offline cl (join_with [CHR ''\<newline>''] magnets) dir)) (\<lambda>a. io_of (added_tasks magnets a)) w1 = (Inr rs, w2)"
    by blast
  then obtain a w3 where a: "sdk_run (sc_add_offline cl (join_with [CHR ''\<newline>''] magnets) dir) w1 = (Inr a, w3)" "added_tasks magnets a = Inr rs"
    by (auto simp: io_bind_def split: prod.splits sum.splits)
  from sdk_run_Inr [OF a(1)] obtain s p reports s' p'
    where f: "sc_add_offline cl (join_with [CHR ''\<newline>''] magnets) dir s p = (reports, Inr a, s', p')" by blast
  have "case fst (snd (sc_add_offline cl (join_with [CHR ''\<newline>''] magnets) dir s p)) of Inr (Added _ _) \<Rightarrow> False | _ \<Rightarrow> True"
    using cl unfolding refuses_adds_def by blast
  with f have "\<exists>code message body. a = Refused code message body" by (cases a) simp_all
  with a(2) show ?thesis by (auto simp: added_tasks_def intro: refused_one_result)
qed

lemma parse_batch_parsed:
  "parse_batch xs acc = Inr parsed \<Longrightarrow> distinct (map fst acc) \<Longrightarrow> \<forall>(h, x) \<in> set acc. parse_info_hash x = Inr h \<Longrightarrow>
   distinct (map fst parsed) \<and> (\<forall>(h, x) \<in> set parsed. parse_info_hash x = Inr h)"
proof (induction xs arbitrary: acc)
  case Nil
  then show ?case by simp
next
  case (Cons x xs)
  obtain h where h: "parse_info_hash x = Inr h"
    and rest: "parse_batch xs (if h \<in> fst ` set acc then acc else acc @ [(h, x)]) = Inr parsed"
    using Cons.prems(1) by (cases "parse_info_hash x") simp_all
  show ?case by (rule Cons.IH [OF rest]) (use Cons.prems(2,3) h in auto)
qed

lemma confirmed_all:
  "confirmed m xs = None \<Longrightarrow> x \<in> set xs \<Longrightarrow> parse_info_hash x = Inr h \<Longrightarrow> m h \<noteq> None"
  by (induction xs) (auto split: sum.splits if_splits)

lemma confirmed_by_one:
  assumes c: "confirmed (results_by_hash [r]) (map snd parsed) = None"
    and p: "distinct (map fst parsed)" "\<forall>(h, x) \<in> set parsed. parse_info_hash x = Inr h"
  shows "length parsed \<le> 1"
proof -
  have "fst e = to_lower (c_info_hash r)" if "e \<in> set parsed" for e
  proof -
    from that p(2) have "parse_info_hash (snd e) = Inr (fst e)" by auto
    with c that have "results_by_hash [r] (fst e) \<noteq> None" by (intro confirmed_all) auto
    then show ?thesis by (simp add: results_by_hash_def split: if_splits)
  qed
  then have "set (map fst parsed) \<subseteq> {to_lower (c_info_hash r)}" by auto
  then have "card (set (map fst parsed)) \<le> 1" using card_mono [of "{to_lower (c_info_hash r)}"] by simp
  then show ?thesis using distinct_card [OF p(1)] by simp
qed

text \<open>C37. One refusal of a batch fails the whole batch: the client makes at most one result of it, for the one task the cloud
  names, and the service then finds no result for the others. So one link whose task exists already keeps every other link of
  the batch from being prepared.\<close>

theorem refused_batch_fails:
  assumes cl: "refuses_adds cl" and parsed: "parse_batch magnets [] = Inr parsed" and many: "2 \<le> length parsed"
  shows "\<exists>e. fst (prepare_offline_tasks fuel (s\<lparr>sv_provider := client_provider api cl\<rparr>) magnets w) = Inl e"
proof -
  let ?s = "s\<lparr>sv_provider := client_provider api cl\<rparr>"
  have p: "distinct (map fst parsed)" "\<forall>(h, x) \<in> set parsed. parse_info_hash x = Inr h"
    using parse_batch_parsed [OF parsed] by simp_all
  obtain r w1 where run: "create_offline_tasks ?s (map snd parsed) w = (r, w1)" by fastforce
  have "\<exists>e. r = Inl e"
  proof (cases r)
    case (Inr m)
    obtain q w2 where q: "create_tasks ?s (map snd parsed) w = (q, w2)" by fastforce
    with run Inr obtain rs where rs: "q = Inr rs" "confirmed (results_by_hash rs) (map snd parsed) = None"
      by (cases q) (auto simp: create_offline_tasks_def io_bind_def split: option.splits)
    from q rs(1) obtain pw where "add_offline_tasks api cl (map snd parsed) (sv_work_dir s) (w_prov w) = (Inr rs, pw)"
      by (auto simp: create_tasks_def io_bind_def on_prov_def client_provider_def split: prod.splits sum.splits)
    from refused_add_one_result [OF cl this] obtain x where "rs = [x]" by blast
    with rs(2) have "confirmed (results_by_hash [x]) (map snd parsed) = None" by simp
    from confirmed_by_one [OF this p] many show ?thesis by simp
  qed simp
  with run show ?thesis by (auto simp: prepare_offline_tasks_def parsed io_bind_def)
qed

text \<open>A cloud that answers a request for new tasks with the task it has already.\<close>

definition busy_cloud :: "(bool, unit) sdk_cloud" where
  "busy_cloud =
     \<lparr>sc_quota = (\<lambda>s p. ([], Inr 5, s, p)), sc_offline_list = (\<lambda>_ s p. ([], Inr (JObj []), s, p)),
      sc_add_offline = (\<lambda>_ _ s p. ([], Inr (Refused (Some 10008) ''exists''
        (Some (JObj [(''info_hash'', JStr (replicate 40 (CHR ''a''))), (''errcode'', JInt 10008)]))), s, p)),
      sc_delete_offline = (\<lambda>_ _ s p. ([], Inr (), s, p)), sc_empty_bin = (\<lambda>s p. ([], Inr (), s, p)),
      sc_folder_info = (\<lambda>_ s p. ([], Inl object_not_found, s, p)), sc_files = (\<lambda>_ _ _ _ s p. ([], Inr ([], 0), s, p)),
      sc_search = (\<lambda>_ _ _ s p. ([], Inr ([], 0), s, p)), sc_down_url = (\<lambda>_ _ s p. ([], Inr [], s, p)),
      sc_delete = (\<lambda>_ _ s p. ([], Inr (), s, p)), sc_http_get = (\<lambda>_ p. (Inr (200, ''''), p))\<rparr>"

definition client_service :: "(bool, unit) tok_world service" where
  "client_service = \<lparr>sv_provider = client_provider sample_api busy_cloud, sv_work_dir = ''w'', sv_poll_interval = 0, sv_poll_min = 0,
     sv_poll_max = 0, sv_scan_interval = 0, sv_strm = None\<rparr>"

definition two_links :: "string list" where
  "two_links = [magnet_of (replicate 40 (CHR ''a'')) '''', magnet_of (replicate 40 (CHR ''b'')) '''']"

lemma two_links_parsed: "case parse_batch two_links [] of Inr ps \<Rightarrow> length ps = 2 | Inl _ \<Rightarrow> False"
proof -
  have a: "is_hex (CHR ''a'')" "is_hex (CHR ''b'')" "lower_char (CHR ''a'') = CHR ''a''" "lower_char (CHR ''b'') = CHR ''b''"
      "magnet_tail ''''"
    by code_simp+
  have "parse_info_hash (magnet_of (replicate 40 c) '''') = Inr (replicate 40 c)" if "is_hex c" "lower_char c = c" for c
    using info_hash_of_hex_topic [of "replicate 40 c" "''''"] that a(5) by (simp add: list_all_iff to_lower_def)
  from this [OF a(1,3)] this [OF a(2,4)] show ?thesis by (simp add: two_links_def)
qed

theorem refused_batch_fails_witness:
  "\<exists>e. fst (prepare_offline_tasks 3 (client_service\<lparr>sv_provider := client_provider sample_api busy_cloud\<rparr>) two_links
     (new_world (sample_token_world True))) = Inl e"
proof -
  obtain ps where "parse_batch two_links [] = Inr ps" "2 \<le> length ps"
    using two_links_parsed by (auto split: sum.splits)
  moreover have "refuses_adds busy_cloud" by (simp add: refuses_adds_def busy_cloud_def)
  ultimately show ?thesis by (rule refused_batch_fails [rotated])
qed

end
