(* ===== verification/Go_Times.thy ===== *)
theory Go_Times
  imports Go_Numbers
begin

text \<open>
  \<open>time.ParseDuration\<close> of Go: numbers with units, added up in 64 unsigned bits as the library does it. A fraction is
  cut to whole nanoseconds in exact arithmetic.
\<close>

text \<open>\<open>leadingInt\<close>: the digits in front, an error once the value leaves 63 bits.\<close>

fun leading_int :: "int \<Rightarrow> string \<Rightarrow> (int \<times> string) option" where
  "leading_int x [] = Some (x, [])"
| "leading_int x (c # s) =
     (if \<not> is_digit c then Some (x, c # s)
      else if 2 ^ 63 div 10 < x then None
      else let y = x * 10 + (of_char c - 48) in if 2 ^ 63 < y then None else leading_int y s)"

text \<open>\<open>leadingFraction\<close>: further digits are dropped once the value leaves 63 bits.\<close>

fun leading_fraction :: "int \<Rightarrow> int \<Rightarrow> bool \<Rightarrow> string \<Rightarrow> int \<times> int \<times> string" where
  "leading_fraction x scale over [] = (x, scale, [])"
| "leading_fraction x scale over (c # s) =
     (if \<not> is_digit c then (x, scale, c # s)
      else if over then leading_fraction x scale True s
      else if (2 ^ 63 - 1) div 10 < x then leading_fraction x scale True s
      else let y = x * 10 + (of_char c - 48)
           in if 2 ^ 63 < y then leading_fraction x scale True s else leading_fraction y (scale * 10) False s)"

definition time_unit :: "string \<Rightarrow> int option" where
  "time_unit u = map_of
     [(''ns'', 1), (''us'', 1000), ([char_of (194::nat), char_of (181::nat), CHR ''s''], 1000),
      ([char_of (206::nat), char_of (188::nat), CHR ''s''], 1000), (''ms'', 1000000), (''s'', 1000000000), (''m'', 60000000000),
      (''h'', 3600000000000)] u"

definition unit_char :: "char \<Rightarrow> bool" where
  "unit_char c = (c \<noteq> CHR ''.'' \<and> \<not> is_digit c)"

text \<open>One number with its unit, in nanoseconds, and what follows.\<close>

definition duration_part :: "string \<Rightarrow> (int \<times> string) option" where
  "duration_part s = (case leading_int 0 s of
     None \<Rightarrow> None
   | Some (v, s1) \<Rightarrow>
       let (f, scale, s2, post) = (case s1 of
             c # t \<Rightarrow> if c = CHR ''.'' then (case leading_fraction 0 1 False t of (f, sc, t') \<Rightarrow> (f, sc, t', length t' < length t))
               else (0, 1, s1, False)
           | [] \<Rightarrow> (0, 1, s1, False));
           u = takeWhile unit_char s2; s3 = dropWhile unit_char s2
       in if length s1 = length s \<and> \<not> post then None
          else if u = '''' then None
          else (case time_unit u of
              None \<Rightarrow> None
            | Some n \<Rightarrow> if 2 ^ 63 div n < v then None
                else let w = v * n + f * n div scale in if 2 ^ 63 < w then None else Some (w, s3)))"

lemma leading_int_length: "leading_int x s = Some (y, t) \<Longrightarrow> length t \<le> length s"
  by (induction x s rule: leading_int.induct) (auto simp: Let_def split: if_splits)

lemma leading_fraction_length: "leading_fraction x sc b s = (y, sc', t) \<Longrightarrow> length t \<le> length s"
  by (induction x sc b s rule: leading_fraction.induct) (auto simp: Let_def split: if_splits)

lemma duration_part_shorter:
  assumes "duration_part s = Some (w, t)"
  shows "length t < length s"
proof -
  obtain v s1 where l: "leading_int 0 s = Some (v, s1)"
    using assms by (auto simp: duration_part_def split: option.splits)
  define rest where "rest = (case s1 of
      c # t \<Rightarrow> if c = CHR ''.'' then (case leading_fraction 0 1 False t of (f, sc, t') \<Rightarrow> t') else s1 | [] \<Rightarrow> s1)"
  have r: "length rest \<le> length s1"
    by (auto simp: rest_def split: list.splits prod.splits dest!: leading_fraction_length)
  have t: "t = dropWhile unit_char rest" "takeWhile unit_char rest \<noteq> ''''"
    using assms l
    by (auto simp: duration_part_def rest_def Let_def split: option.splits list.splits if_splits prod.splits)
  have "length rest = length (takeWhile unit_char rest) + length t"
    unfolding t(1) by (metis length_append takeWhile_dropWhile_id)
  with t(2) have "length t < length rest" by (cases "takeWhile unit_char rest") simp_all
  with r leading_int_length [OF l] show ?thesis by linarith
qed

function duration_sum :: "int \<Rightarrow> string \<Rightarrow> int option" where
  "duration_sum d s =
     (if s = '''' then Some d
      else case duration_part s of
        None \<Rightarrow> None
      | Some (v, t) \<Rightarrow> let e = (d + v) mod 2 ^ 64 in if 2 ^ 63 < e then None else duration_sum e t)"
  by auto

termination by (relation "measure (\<lambda>(d, s). length s)") (auto dest: duration_part_shorter)

declare duration_sum.simps [simp del]

definition parse_duration :: "string \<Rightarrow> int option" where
  "parse_duration s =
     (let neg = (s \<noteq> '''' \<and> hd s = CHR ''-''); t = (if s \<noteq> '''' \<and> hd s \<in> {CHR ''-'', CHR ''+''} then tl s else s)
      in if t = ''0'' then Some 0
         else if t = '''' then None
         else case duration_sum 0 t of
             None \<Rightarrow> None
           | Some d \<Rightarrow> if neg then Some (- d) else if 2 ^ 63 - 1 < d then None else Some d)"

lemma duration_sum_le: "duration_sum d s = Some e \<Longrightarrow> 0 \<le> d \<Longrightarrow> d \<le> 2 ^ 63 \<Longrightarrow> 0 \<le> e \<and> e \<le> 2 ^ 63"
proof (induction d s rule: duration_sum.induct)
  case (1 d s)
  show ?case
  proof (cases "s = ''''")
    case True
    with "1.prems" show ?thesis by (simp add: duration_sum.simps)
  next
    case False
    from "1.prems"(1) False obtain v t where p: "duration_part s = Some (v, t)" "(d + v) mod 2 ^ 64 \<le> 2 ^ 63"
      "duration_sum ((d + v) mod 2 ^ 64) t = Some e"
      by (subst (asm) duration_sum.simps) (auto simp: Let_def not_less split: option.splits if_splits)
    show ?thesis
      by (rule "1.IH" [OF False p(1) refl refl _ p(3)]) (use p(2) in simp_all)
  qed
qed

lemma parse_duration_range: "parse_duration s = Some d \<Longrightarrow> - (2 ^ 63) \<le> d \<and> d < 2 ^ 63"
  using duration_sum_le [of 0] by (fastforce simp: parse_duration_def Let_def split: if_splits option.splits)

end
