(* ===== verification/Rclone_Options.thy ===== *)
theory Rclone_Options
  imports Go_Times Go_Floats Json Http_Server
begin

text \<open>
  The player's cache: \<open>internal/config/rclone.go\<close>, the settings of the rclone process and the options a user adds to them,
  and \<open>internal/rclone\<close>, the arguments and parameters the process is started with and the gateway in front of the
  server. What the process does is a list of events.
\<close>

section \<open>Sizes\<close>

text \<open>\<open>int64(f)\<close> of a number that is not too large; the largest power of two overflows as on amd64.\<close>

definition int64_of :: "rat \<Rightarrow> int" where
  "int64_of x = (if x < 2 ^ 63 then \<lfloor>x\<rfloor> else - (2 ^ 63))"

definition size_units :: "(string \<times> int) list" where
  "size_units =
     [(''TB'', 2 ^ 40), (''T'', 2 ^ 40), (''GB'', 2 ^ 30), (''G'', 2 ^ 30), (''MB'', 2 ^ 20), (''M'', 2 ^ 20),
      (''KB'', 2 ^ 10), (''K'', 2 ^ 10), (''B'', 1)]"

definition parse_byte_size :: "string \<Rightarrow> int option" where
  "parse_byte_size value =
     (let v = trim_space (to_upper value)
      in if v = '''' \<or> v = ''0'' then Some 0
         else case find (\<lambda>u. has_suffix v (fst u)) size_units of
             None \<Rightarrow> None
           | Some (suffix, factor) \<Rightarrow>
               (case parse_float (trim_space (trim_suffix v suffix)) of
                 None \<Rightarrow> None
               | Some x \<Rightarrow> if x < 0 \<or> 2 ^ 63 / of_int factor < x then None else Some (int64_of (x * of_int factor))))"

section \<open>Settings\<close>

record rclone_settings =
  rc_enabled :: bool
  rc_server_read_timeout :: string
  rc_server_write_timeout :: string
  rc_cache_dir :: string
  rc_vfs_cache_mode :: string
  rc_vfs_cache_max_size :: string
  rc_vfs_cache_max_age :: string
  rc_vfs_cache_poll_interval :: string
  rc_vfs_read_ahead :: string
  rc_buffer_size :: string
  rc_max_buffer_memory :: string
  rc_custom :: "string list"

definition default_rclone :: rclone_settings where
  "default_rclone = \<lparr>rc_enabled = True, rc_server_read_timeout = ''24h'', rc_server_write_timeout = ''24h'', rc_cache_dir = ''/cache'',
     rc_vfs_cache_mode = ''full'', rc_vfs_cache_max_size = ''512G'', rc_vfs_cache_max_age = ''72h'',
     rc_vfs_cache_poll_interval = ''5m'', rc_vfs_read_ahead = ''4G'', rc_buffer_size = ''64M'', rc_max_buffer_memory = ''6G'',
     rc_custom = []\<rparr>"

definition or_default :: "string \<Rightarrow> string \<Rightarrow> string" where
  "or_default v d = (if trim_space v = '''' then d else v)"

definition with_defaults :: "rclone_settings \<Rightarrow> rclone_settings" where
  "with_defaults r = r\<lparr>
     rc_cache_dir := or_default (rc_cache_dir r) (rc_cache_dir default_rclone),
     rc_server_read_timeout := or_default (rc_server_read_timeout r) (rc_server_read_timeout default_rclone),
     rc_server_write_timeout := or_default (rc_server_write_timeout r) (rc_server_write_timeout default_rclone),
     rc_vfs_cache_mode := or_default (rc_vfs_cache_mode r) (rc_vfs_cache_mode default_rclone),
     rc_vfs_cache_max_size := or_default (rc_vfs_cache_max_size r) (rc_vfs_cache_max_size default_rclone),
     rc_vfs_cache_max_age := or_default (rc_vfs_cache_max_age r) (rc_vfs_cache_max_age default_rclone),
     rc_vfs_cache_poll_interval := or_default (rc_vfs_cache_poll_interval r) (rc_vfs_cache_poll_interval default_rclone),
     rc_vfs_read_ahead := or_default (rc_vfs_read_ahead r) (rc_vfs_read_ahead default_rclone),
     rc_buffer_size := or_default (rc_buffer_size r) (rc_buffer_size default_rclone),
     rc_max_buffer_memory := or_default (rc_max_buffer_memory r) (rc_max_buffer_memory default_rclone)\<rparr>"

section \<open>Options of the user\<close>

definition lower_letter :: "char \<Rightarrow> bool" where
  "lower_letter c = (97 \<le> code_of c \<and> code_of c \<le> 122)"

definition option_name :: "string \<Rightarrow> bool" where
  "option_name s = (s \<noteq> '''' \<and> lower_letter (hd s) \<and> list_all (\<lambda>c. lower_letter c \<or> is_digit c \<or> c = CHR ''-'') s)"

text \<open>An option is a name and a value, perhaps in quotes; without a value it is \<open>true\<close>.\<close>

definition parse_rclone_option :: "string \<Rightarrow> err + string \<times> string" where
  "parse_rclone_option line =
     (let l = trim_space line
      in if l = '''' then Inr ('''', '''')
         else if \<not> has_prefix l ''--'' then Inl (Msg ''option without dashes'')
         else
           let body = trim_prefix l ''--''; sep = (\<lambda>c. c = CHR ''='' \<or> c = CHR '' '' \<or> c = CHR 0x09);
               name = takeWhile (\<lambda>c. \<not> sep c) body; rest = drop (length name) body
           in if rest = '''' then (if option_name name then Inr (name, ''true'') else Inl (Msg ''option name''))
              else
                let v = trim_space (tl rest)
                in if v \<noteq> '''' \<and> (hd v = CHR 0x22 \<or> hd v = CHR 0x27) \<and> (length v < 2 \<or> last v \<noteq> hd v) then Inl (Msg ''open quote'')
                   else if \<not> option_name name then Inl (Msg ''option name'')
                   else Inr (name, if v \<noteq> '''' \<and> (hd v = CHR 0x22 \<or> hd v = CHR 0x27) then butlast (tl v) else v))"

definition rclone_serve_option :: "string \<Rightarrow> bool" where
  "rclone_serve_option name =
     (has_prefix name ''vfs-'' \<or> has_prefix name ''server-'' \<or> name = ''dir-cache-time'' \<or> name = ''poll-interval'')"

definition reserved_options :: "string list" where
  "reserved_options =
     [''addr'', ''fs'', ''type'', ''read-only'', ''config'', ''cache-dir'', ''server-read-timeout'', ''server-write-timeout'',
      ''vfs-cache-mode'', ''vfs-cache-max-size'', ''vfs-cache-max-age'', ''vfs-cache-poll-interval'', ''vfs-read-ahead'',
      ''buffer-size'', ''max-buffer-memory'']"

fun check_custom :: "string list \<Rightarrow> string list \<Rightarrow> err option" where
  "check_custom seen [] = None"
| "check_custom seen (line # lines) =
     (case parse_rclone_option line of
       Inl e \<Rightarrow> Some e
     | Inr (name, _) \<Rightarrow>
         if name = '''' then check_custom seen lines
         else if name \<in> set reserved_options then Some (Msg ''option has a field'')
         else if name = ''rc'' \<or> has_prefix name ''rc-'' then Some (Msg ''option of the service'')
         else if name \<in> set seen then Some (Msg ''option twice'')
         else check_custom (name # seen) lines)"

definition positive_duration :: "string \<Rightarrow> bool" where
  "positive_duration v = (case parse_duration v of None \<Rightarrow> False | Some d \<Rightarrow> 0 < d)"

definition valid_size :: "string \<Rightarrow> bool" where
  "valid_size v = (case parse_byte_size v of None \<Rightarrow> False | Some n \<Rightarrow> 0 \<le> n)"

text \<open>\<open>Validate\<close>; of several wrong fields the code names any.\<close>

definition rclone_validate :: "rclone_settings \<Rightarrow> err option" where
  "rclone_validate settings =
     (let r = with_defaults settings
      in if rc_vfs_cache_mode r \<notin> {''off'', ''minimal'', ''writes'', ''full''} then Some (Msg ''vfs_cache_mode'')
         else if \<not> list_all positive_duration
             [rc_server_read_timeout r, rc_server_write_timeout r, rc_vfs_cache_max_age r, rc_vfs_cache_poll_interval r]
           then Some (Msg ''duration'')
         else if \<not> list_all valid_size
             [rc_vfs_cache_max_size r, rc_vfs_read_ahead r, rc_buffer_size r, rc_max_buffer_memory r]
           then Some (Msg ''size'')
         else check_custom [] (rc_custom r))"

definition serve_options :: "rclone_settings \<Rightarrow> (string \<times> string) list" where
  "serve_options settings =
     (let r = with_defaults settings
      in [(''server_read_timeout'', rc_server_read_timeout r), (''server_write_timeout'', rc_server_write_timeout r),
          (''vfs_cache_mode'', rc_vfs_cache_mode r), (''vfs_cache_max_size'', rc_vfs_cache_max_size r),
          (''vfs_cache_max_age'', rc_vfs_cache_max_age r), (''vfs_cache_poll_interval'', rc_vfs_cache_poll_interval r),
          (''vfs_read_ahead'', rc_vfs_read_ahead r)])"

definition replace_char :: "char \<Rightarrow> char \<Rightarrow> string \<Rightarrow> string" where
  "replace_char a b s = map (\<lambda>c. if c = a then b else c) s"

definition option_arg :: "string \<Rightarrow> string \<Rightarrow> string" where
  "option_arg name value = ''--'' @ name @ ''='' @ value"

text \<open>\<open>ValidateRcloneExecutable\<close>: rclone's own parser is asked; \<open>look\<close> is the search for the program and \<open>run\<close> what it says.\<close>

fun custom_args :: "string list \<Rightarrow> err + string list" where
  "custom_args [] = Inr []"
| "custom_args (line # lines) =
     (case parse_rclone_option line of
       Inl e \<Rightarrow> Inl e
     | Inr (name, value) \<Rightarrow>
         map_sum id (\<lambda>args. if name = '''' then args else option_arg name value # args) (custom_args lines))"

definition check_executable :: "err + string option \<Rightarrow> (string list \<Rightarrow> err option) \<Rightarrow> rclone_settings \<Rightarrow> err option" where
  "check_executable look run settings =
     (if \<not> rc_enabled settings then None
      else case look of
        Inl e \<Rightarrow> Some e
      | Inr None \<Rightarrow> None
      | Inr (Some binary) \<Rightarrow>
          let r = with_defaults settings
          in case custom_args (rc_custom r) of
               Inl e \<Rightarrow> Some e
             | Inr args \<Rightarrow> run ([''serve'', ''http'', ''--help'', option_arg ''buffer-size'' (rc_buffer_size r),
                 option_arg ''max-buffer-memory'' (rc_max_buffer_memory r)] @
                 map (\<lambda>(k, v). option_arg (replace_char (CHR ''_'') (CHR ''-'') k) v) (serve_options r) @ args))"

section \<open>The process\<close>

text \<open>The options that can be parsed; an option that cannot is dropped here, \<open>Validate\<close> has refused it before.\<close>

definition custom_options :: "rclone_settings \<Rightarrow> (string \<times> string) list" where
  "custom_options r = List.map_filter (\<lambda>line. case parse_rclone_option line of Inl _ \<Rightarrow> None | Inr opt \<Rightarrow> Some opt) (rc_custom r)"

definition rcd_args :: "string \<Rightarrow> string \<Rightarrow> rclone_settings \<Rightarrow> string list" where
  "rcd_args addr cache_dir r =
     [''rcd'', option_arg ''rc-addr'' addr, ''--config=/dev/null'', option_arg ''cache-dir'' cache_dir, ''--log-level=INFO'',
      option_arg ''buffer-size'' (rc_buffer_size r), option_arg ''max-buffer-memory'' (rc_max_buffer_memory r)] @
     map (\<lambda>(n, v). option_arg n v) (filter (\<lambda>(n, v). n \<noteq> '''' \<and> \<not> rclone_serve_option n) (custom_options r))"

definition fixed_params :: "rclone_settings \<Rightarrow> (string \<times> json) list" where
  "fixed_params r = map (\<lambda>(k, v). (k, JStr v)) (serve_options r) @
     [(''type'', JStr ''http''), (''fs'', JStr ''mts:''), (''addr'', JStr ''127.0.0.1:0''), (''read_only'', JBool True)]"

definition serve_params :: "rclone_settings \<Rightarrow> string \<Rightarrow> json option" where
  "serve_params r =
     fold (\<lambda>(n, v) m. if rclone_serve_option n then m(replace_char (CHR ''-'') (CHR ''_'') n \<mapsto> JStr v) else m)
       (custom_options r) (map_of (fixed_params r))"

text \<open>\<open>Start\<close>: the process is asked until it answers, gives up, or the time is over; then its server is started.\<close>

datatype start_event = NotYet | StartupOver err | ChildOver err

fun await_rcd :: "start_event list \<Rightarrow> err option" where
  "await_rcd [] = None"
| "await_rcd (NotYet # es) = await_rcd es"
| "await_rcd (StartupOver e # es) = Some (Wrap ''startup'' e)"
| "await_rcd (ChildOver e # es) = Some (Wrap ''rcd'' e)"

record rclone_run =
  rn_args :: "string list"
  rn_params :: "string \<Rightarrow> json option"
  rn_url :: url

definition rclone_start :: "string \<Rightarrow> string \<Rightarrow> (string \<Rightarrow> string) \<Rightarrow> start_event list \<Rightarrow>
    ((string \<Rightarrow> json option) \<Rightarrow> err + string) \<Rightarrow> rclone_settings \<Rightarrow> err + rclone_run" where
  "rclone_start addr dir absolute events serve options =
     (let r = with_defaults options
      in case rclone_validate r of
        Some e \<Rightarrow> Inl e
      | None \<Rightarrow>
          let args = rcd_args addr (absolute (if rc_cache_dir r \<noteq> '''' then rc_cache_dir r else dir)) r
          in case await_rcd events of
               Some e \<Rightarrow> Inl e
             | None \<Rightarrow> (case serve (serve_params r) of
                 Inl e \<Rightarrow> Inl (Wrap ''serve'' e)
               | Inr server \<Rightarrow>
                   if server = '''' then Inl (Msg ''no address'')
                   else case url_parse (''http://'' @ server) of
                     None \<Rightarrow> Inl (Msg ''address'')
                   | Some u \<Rightarrow> Inr \<lparr>rn_args = args, rn_params = serve_params r, rn_url = u\<rparr>))"

text \<open>\<open>Gateway\<close>: once there is a target, the objects are read through it; everything else stays with the server.\<close>

definition gateway_serve :: "(http_request \<Rightarrow> 'r) option \<Rightarrow> (http_request \<Rightarrow> 'r) \<Rightarrow> http_request \<Rightarrow> 'r" where
  "gateway_serve target next q = (case target of
     Some proxy \<Rightarrow> if has_prefix (rq_path q) ''/objects/'' \<and> rq_method q \<in> {''GET'', ''HEAD''} then proxy q else next q
   | None \<Rightarrow> next q)"

end
