(* ===== verification/Rclone_Facts.thy ===== *)
theory Rclone_Facts
  imports Rclone_Options
begin

text \<open>
  What the checks of the rclone settings are worth: sizes are read as they are written, and no option of the user
  replaces one the program sets itself.
\<close>

section \<open>Sizes\<close>

lemma digits_value_nat: "list_all is_digit s \<Longrightarrow> digits_value s = int (decimal_value s)"
proof -
  have "foldl (\<lambda>n c. n * 10 + (of_char c - 48)) (int k) s = int (foldl (\<lambda>n c. n * 10 + (of_char c - 48)) k s)" if "list_all is_digit s" for k
    using that
  proof (induction s arbitrary: k)
    case (Cons c s)
    have "(of_char c :: int) - 48 = int (of_char c - 48)" using Cons.prems by (simp add: is_digit_def of_nat_diff of_nat_of_char)
    with Cons.IH [of "k * 10 + (of_char c - 48)"] Cons.prems show ?case by (simp add: algebra_simps)
  qed simp
  from this [of 0] show "list_all is_digit s \<Longrightarrow> digits_value s = int (decimal_value s)"
    by (simp add: digits_value_def decimal_value_def)
qed

lemma digits_no_sign:
  assumes "list_all is_digit s" "c \<in> set s"
  shows "c \<noteq> CHR ''.''" "c \<noteq> CHR ''e''" "c \<noteq> CHR ''E''" "c \<noteq> CHR ''-''" "c \<noteq> CHR ''+''"
  using assms by (auto simp: list_all_iff is_digit_def)

lemma parse_float_decimal:
  assumes "n < 2 ^ 53"
  shows "parse_float (decimal n) = Some (of_nat n)"
proof -
  note d = decimal_is_digit [of n]
  note c = digits_no_sign [OF d]
  have m: "parse_mantissa (decimal n) = Some (int n, 0)"
  proof -
    have tw: "takeWhile (\<lambda>c. c \<noteq> CHR ''.'') (decimal n) = decimal n" using c(1) by (simp add: takeWhile_eq_all_conv)
    show ?thesis unfolding parse_mantissa_def Let_def tw using d by (simp add: digits_value_nat decimal_value_decimal)
  qed
  have tw: "takeWhile (\<lambda>c. c \<noteq> CHR ''e'' \<and> c \<noteq> CHR ''E'') (decimal n) = decimal n" using c(2,3) by (auto simp: takeWhile_eq_all_conv)
  have u: "parse_ufloat (decimal n) = Some (of_nat n)" unfolding parse_ufloat_def Let_def tw by (simp add: m scaled_def)
  have "(of_nat n :: rat) < 2 ^ 53" using assms by (metis of_nat_less_numeral_power_cancel_iff)
  moreover have "(2 :: rat) ^ 53 \<le> float_limit" by (simp add: float_limit_def)
  ultimately have lim: "\<not> float_limit \<le> \<bar>of_nat n\<bar>" by simp
  have "round64 (of_int (int n)) = of_int (int n)" using assms by (intro round64_int) simp_all
  with lim have r: "in_range (Some (of_nat n)) = Some (of_nat n)" by (simp add: in_range_def)
  obtain x xs where "decimal n = x # xs" using decimal_nonempty [of n] by (cases "decimal n") auto
  with c(4,5) u r show ?thesis by (simp add: parse_float_def)
qed

text \<open>The units, as they can be written.\<close>

lemma digits_no_suffix: "list_all is_digit ds \<Longrightarrow> \<not> is_digit c \<Longrightarrow> \<not> has_prefix (rev ds) (c # p)"
  by (cases ds rule: rev_cases) auto

lemma unit_found:
  assumes "(suffix, factor) \<in> set size_units" "list_all is_digit ds"
  shows "find (\<lambda>u. has_suffix (ds @ suffix) (fst u)) size_units = Some (suffix, factor)"
proof -
  have no: "\<not> has_prefix (rev ds) (CHR ''T'' # p)" "\<not> has_prefix (rev ds) (CHR ''G'' # p)" "\<not> has_prefix (rev ds) (CHR ''M'' # p)"
      "\<not> has_prefix (rev ds) (CHR ''K'' # p)" for p
    using digits_no_suffix [OF assms(2)] by (simp_all add: is_digit_def)
  have "list_all (\<lambda>(suffix, factor). find (\<lambda>u. has_suffix (ds @ suffix) (fst u)) size_units = Some (suffix, factor)) size_units"
    by (simp add: size_units_def has_suffix_def no)
  then show ?thesis using assms(1) by (auto simp: list_all_iff)
qed

lemma unit_text:
  assumes "(suffix, factor) \<in> set size_units"
  shows "to_upper suffix = suffix" "suffix \<noteq> ''''" "last suffix \<in> {CHR ''T'', CHR ''G'', CHR ''M'', CHR ''K'', CHR ''B''}" "0 < factor"
  using assms by (auto simp: size_units_def to_upper_def upper_char_def)

lemma digits_plain:
  assumes "list_all is_digit ds"
  shows "to_upper ds = ds" "trim_space ds = ds"
proof -
  have g: "graphic c" "upper_char c = c" if "c \<in> set ds" for c
    using that assms by (auto simp: list_all_iff is_digit_def graphic_def upper_char_def)
  from g(2) show "to_upper ds = ds" by (simp add: to_upper_def map_idI)
  from g(1) show "trim_space ds = ds" by (intro trim_space_graphic) auto
qed

lemma sizes_are_read:
  assumes u: "(suffix, factor) \<in> set size_units" and n: "n < 2 ^ 53"
  shows "parse_byte_size (decimal n @ suffix) =
    (if int n * factor < 2 ^ 63 then Some (int n * factor) else if int n * factor = 2 ^ 63 then Some (- (2 ^ 63)) else None)"
proof -
  note d = decimal_is_digit [of n]
  note s = unit_text [OF u]
  let ?v = "decimal n @ suffix"
  have "trim_space ?v = ?v"
  proof (rule trim_space_graphic)
    have "is_digit (hd (decimal n))" using d decimal_nonempty [of n] by (cases "decimal n") auto
    then show "graphic (hd ?v)" using decimal_nonempty [of n] by (simp add: is_digit_def graphic_def)
    show "graphic (last ?v)" using s(2,3) by (auto simp: graphic_def)
  qed
  moreover have "to_upper ?v = ?v" using digits_plain(1) [OF d] s(1) by (simp add: to_upper_def)
  ultimately have v: "trim_space (to_upper ?v) = ?v" by simp
  have ne: "?v \<noteq> ''''" "?v \<noteq> ''0''"
  proof -
    show "?v \<noteq> ''''" using s(2) by simp
    have "last ?v \<noteq> CHR ''0''" using s(2,3) by auto
    then show "?v \<noteq> ''0''" by auto
  qed
  have fl: "(2 ^ 63 / of_int factor < (of_nat n :: rat)) = (2 ^ 63 < int n * factor)"
  proof -
    have "(2 ^ 63 / of_int factor < (of_nat n :: rat)) = (of_int (2 ^ 63) < (of_int (int n * factor) :: rat))"
      using s(4) by (simp add: divide_less_eq)
    also have "\<dots> = (2 ^ 63 < int n * factor)" by (rule of_int_less_iff)
    finally show ?thesis .
  qed
  have i: "int64_of (of_nat n * of_int factor) = (if int n * factor < 2 ^ 63 then int n * factor else - (2 ^ 63))"
  proof -
    have "int64_of (of_int (int n * factor)) = (if (of_int (int n * factor) :: rat) < of_int (2 ^ 63) then int n * factor else - (2 ^ 63))"
      unfolding int64_of_def floor_of_int by simp
    then show ?thesis unfolding of_int_less_iff by simp
  qed
  have "parse_byte_size ?v = (if 2 ^ 63 < int n * factor then None else Some (int64_of (of_nat n * of_int factor)))"
    unfolding parse_byte_size_def v Let_def
    using ne by (simp add: unit_found [OF u d] digits_plain(2) [OF d] parse_float_decimal [OF n] fl [simplified])
  then show ?thesis unfolding i by auto
qed

text \<open>C39. A size is read as it is written: a whole number below two to the 53 with a unit is that many units, in bytes, as long as
  the result fits 63 bits; larger sizes are refused, except that the smallest of them, two to the 63, comes out as the most negative
  number.\<close>

theorem sizes_are_read_exactly:
  assumes u: "(suffix, factor) \<in> set size_units" and n: "n < 2 ^ 53"
  shows "parse_byte_size (decimal n @ suffix) =
    (if int n * factor < 2 ^ 63 then Some (int n * factor) else if int n * factor = 2 ^ 63 then Some (- (2 ^ 63)) else None)"
  using assms by (rule sizes_are_read)

theorem sizes_are_read_exactly_witness:
  "parse_byte_size (decimal 512 @ ''G'') = Some (512 * 2 ^ 30) \<and> parse_byte_size (decimal 8388608 @ ''TB'') = Some (- (2 ^ 63))"
  using sizes_are_read_exactly [of "''G''" "2 ^ 30" 512] sizes_are_read_exactly [of "''TB''" "2 ^ 40" 8388608]
  by (simp add: size_units_def)

section \<open>Options\<close>

lemma parse_option_name:
  assumes "parse_rclone_option line = Inr (name, value)" "name \<noteq> ''''"
  shows "option_name name"
  using assms by (auto simp: parse_rclone_option_def Let_def split: if_splits)

lemma check_custom_names:
  assumes "check_custom seen lines = None" "line \<in> set lines" "parse_rclone_option line = Inr (name, value)" "name \<noteq> ''''"
  shows "name \<notin> set reserved_options \<and> name \<noteq> ''rc'' \<and> \<not> has_prefix name ''rc-''"
  using assms(1,2)
proof (induction lines arbitrary: seen)
  case (Cons l lines)
  obtain n v where l: "parse_rclone_option l = Inr (n, v)"
    using Cons.prems(1) by (cases "parse_rclone_option l") auto
  show ?case
  proof (cases "line = l")
    case True
    with l assms(3) have "n = name" by simp
    with Cons.prems(1) l assms(4) show ?thesis by (simp split: if_splits)
  next
    case False
    with Cons.prems(2) have "line \<in> set lines" by simp
    moreover obtain seen' where "check_custom seen' lines = None" using Cons.prems(1) l by (auto split: if_splits)
    ultimately show ?thesis by (rule Cons.IH [rotated])
  qed
qed simp

lemma custom_names:
  assumes "rclone_validate r = None" "(name, value) \<in> set (custom_options r)" "name \<noteq> ''''"
  shows "option_name name \<and> name \<notin> set reserved_options \<and> name \<noteq> ''rc'' \<and> \<not> has_prefix name ''rc-''"
proof -
  obtain line where l: "line \<in> set (rc_custom r)" "parse_rclone_option line = Inr (name, value)"
    using assms(2) by (auto simp: custom_options_def List.map_filter_def split: sum.splits)
  have "check_custom [] (rc_custom r) = None"
    using assms(1) by (simp add: rclone_validate_def Let_def with_defaults_def split: if_splits)
  with check_custom_names [OF this l assms(3)] parse_option_name [OF l(2) assms(3)] show ?thesis by blast
qed

lemma option_name_chars:
  assumes "option_name n" "c \<in> set n"
  shows "c \<noteq> CHR ''_''" "c \<noteq> CHR ''=''"
  using assms by (auto simp: option_name_def list_all_iff lower_letter_def is_digit_def)

text \<open>The name of a parameter is the name of the option, with other separators.\<close>

lemma replace_back:
  assumes "option_name n"
  shows "replace_char (CHR ''_'') (CHR ''-'') (replace_char (CHR ''-'') (CHR ''_'') n) = n"
  using option_name_chars(1) [OF assms] by (auto simp: replace_char_def intro!: map_idI)

lemma fixed_keys:
  "map fst (fixed_params r) = [''server_read_timeout'', ''server_write_timeout'', ''vfs_cache_mode'', ''vfs_cache_max_size'',
     ''vfs_cache_max_age'', ''vfs_cache_poll_interval'', ''vfs_read_ahead'', ''type'', ''fs'', ''addr'', ''read_only'']"
  by (simp add: fixed_params_def serve_options_def Let_def)

lemma fixed_keys_reserved: "\<forall>k \<in> set (map fst (fixed_params r)). replace_char (CHR ''_'') (CHR ''-'') k \<in> set reserved_options"
  unfolding fixed_keys by code_simp

lemma fixed_keys_distinct: "distinct (map fst (fixed_params r))"
  unfolding fixed_keys by code_simp

lemma serve_params_fixed:
  assumes ok: "rclone_validate r = None" and k: "(k, v) \<in> set (fixed_params r)"
  shows "serve_params r k = Some v"
proof -
  have other: "replace_char (CHR ''-'') (CHR ''_'') n \<noteq> k" if "(n, x) \<in> set (custom_options r)" "rclone_serve_option n" for n x
  proof
    assume e: "replace_char (CHR ''-'') (CHR ''_'') n = k"
    have "n \<noteq> ''''" using that(2) by (auto simp: rclone_serve_option_def has_prefix_def)
    with custom_names [OF ok that(1)] have n: "option_name n" "n \<notin> set reserved_options" by simp_all
    have "k \<in> set (map fst (fixed_params r))" using k by force
    with fixed_keys_reserved [of r] have "replace_char (CHR ''_'') (CHR ''-'') k \<in> set reserved_options" by blast
    with e replace_back [OF n(1)] n(2) show False by simp
  qed
  have "fold (\<lambda>(n, v) m. if rclone_serve_option n then m(replace_char (CHR ''-'') (CHR ''_'') n \<mapsto> JStr v) else m) xs m k = m k"
    if "set xs \<subseteq> set (custom_options r)" for xs m
    using that other by (induction xs arbitrary: m) (auto split: prod.splits)
  from this [OF subset_refl] have "serve_params r k = map_of (fixed_params r) k" by (simp add: serve_params_def)
  with k fixed_keys_distinct [of r] show ?thesis by simp
qed

section \<open>Arguments\<close>

lemma takeWhile_before: "c \<notin> set m \<Longrightarrow> takeWhile (\<lambda>x. x \<noteq> c) (m @ c # y) = m"
  by (induction m) auto

lemma arg_prefix:
  assumes "CHR ''='' \<notin> set n" "CHR ''='' \<notin> set m"
  shows "has_prefix (option_arg n v) (''--'' @ m @ ''='') = (n = m)"
proof
  assume "has_prefix (option_arg n v) (''--'' @ m @ ''='')"
  then have "option_arg n v = (''--'' @ m @ ''='') @ drop (length (''--'' @ m @ ''='')) (option_arg n v)"
    unfolding has_prefix_def by (metis append_take_drop_id)
  then obtain y where "n @ CHR ''='' # v = m @ CHR ''='' # y" by (auto simp: option_arg_def)
  then have "takeWhile (\<lambda>x. x \<noteq> CHR ''='') (n @ CHR ''='' # v) = takeWhile (\<lambda>x. x \<noteq> CHR ''='') (m @ CHR ''='' # y)" by (rule arg_cong)
  then show "n = m" by (simp only: takeWhile_before [OF assms(1)] takeWhile_before [OF assms(2)])
qed (simp add: has_prefix_def option_arg_def)

definition fixed_args :: "string \<Rightarrow> string \<Rightarrow> rclone_settings \<Rightarrow> (string \<times> string) list" where
  "fixed_args addr dir r =
     [(''rc-addr'', addr), (''config'', ''/dev/null''), (''cache-dir'', dir), (''log-level'', ''INFO''),
      (''buffer-size'', rc_buffer_size r), (''max-buffer-memory'', rc_max_buffer_memory r)]"

definition user_args :: "rclone_settings \<Rightarrow> (string \<times> string) list" where
  "user_args r = filter (\<lambda>(n, v). n \<noteq> '''' \<and> \<not> rclone_serve_option n) (custom_options r)"

lemma rcd_args_pairs: "rcd_args addr dir r = ''rcd'' # map (\<lambda>(n, v). option_arg n v) (fixed_args addr dir r @ user_args r)"
  by (simp add: rcd_args_def fixed_args_def user_args_def option_arg_def)

text \<open>How often an option is given.\<close>

definition given :: "string \<Rightarrow> string list \<Rightarrow> nat" where
  "given n args = length (filter (\<lambda>a. has_prefix a (''--'' @ n @ ''='')) args)"

lemma given_pairs:
  assumes "\<forall>(n, v) \<in> set ps. CHR ''='' \<notin> set n" "CHR ''='' \<notin> set m"
  shows "given m (map (\<lambda>(n, v). option_arg n v) ps) = length (filter (\<lambda>(n, v). n = m) ps)"
  using assms by (induction ps) (auto simp: given_def arg_prefix [simplified])

definition program_options :: "string list" where
  "program_options = [''rc-addr'', ''config'', ''cache-dir'', ''buffer-size'', ''max-buffer-memory'']"

lemma program_options_given:
  assumes "m \<in> set program_options"
  shows "length (filter (\<lambda>(n, v). n = m) (fixed_args addr dir r)) = 1" "CHR ''='' \<notin> set m"
    "m \<in> set reserved_options \<or> has_prefix m ''rc-''"
proof -
  have "list_all (\<lambda>m. CHR ''='' \<notin> set m \<and> (m \<in> set reserved_options \<or> has_prefix m ''rc-'')) program_options" by code_simp
  then show "CHR ''='' \<notin> set m" "m \<in> set reserved_options \<or> has_prefix m ''rc-''" using assms by (auto simp: list_all_iff)
  show "length (filter (\<lambda>(n, v). n = m) (fixed_args addr dir r)) = 1"
    using assms by (auto simp: program_options_def fixed_args_def)
qed

lemma rcd_args_given:
  assumes ok: "rclone_validate r = None" and m: "m \<in> set program_options"
  shows "given m (rcd_args addr dir r) = 1"
proof -
  have user: "n \<noteq> m \<and> CHR ''='' \<notin> set n" if "(n, v) \<in> set (user_args r)" for n v
  proof -
    from that have "(n, v) \<in> set (custom_options r)" "n \<noteq> ''''" by (auto simp: user_args_def)
    with custom_names [OF ok this] program_options_given(3) [OF m] option_name_chars(2) show ?thesis by blast
  qed
  have eq: "\<forall>(n, v) \<in> set (fixed_args addr dir r @ user_args r). CHR ''='' \<notin> set n"
    using user by (auto simp: fixed_args_def)
  have none: "filter (\<lambda>(n, v). n = m) (user_args r) = []" using user by (auto simp: filter_empty_conv)
  have "given m (rcd_args addr dir r) = given m (map (\<lambda>(n, v). option_arg n v) (fixed_args addr dir r @ user_args r))"
    by (simp add: rcd_args_pairs given_def has_prefix_def)
  also have "\<dots> = 1"
    unfolding given_pairs [OF eq program_options_given(2) [OF m]]
    using program_options_given(1) [OF m, of addr dir r] by (simp add: none)
  finally show ?thesis .
qed

lemma with_defaults_twice [simp]: "with_defaults (with_defaults r) = with_defaults r"
proof -
  have "or_default (or_default v d) d = or_default v d" for v d by (simp add: or_default_def)
  then show ?thesis by (simp add: with_defaults_def)
qed

text \<open>However the options of the user read, when rclone is started the parameters of its server are the program's own
  where the program sets one, and each argument of the program is given once: none of them is replaced or repeated by an
  option.\<close>

lemma user_options_replace_nothing:
  assumes run: "rclone_start addr dir absolute events serve settings = Inr run"
    and param: "(k, v) \<in> set (fixed_params (with_defaults settings))" and arg: "m \<in> set program_options"
  shows "rn_params run k = Some v \<and> given m (rn_args run) = 1"
proof -
  have ok: "rclone_validate (with_defaults settings) = None"
    using run by (auto simp: rclone_start_def Let_def split: option.splits)
  have "rn_params run = serve_params (with_defaults settings)" "\<exists>d. rn_args run = rcd_args addr d (with_defaults settings)"
    using run ok by (auto simp: rclone_start_def Let_def split: option.splits sum.splits if_splits)
  with serve_params_fixed [OF ok param] rcd_args_given [OF ok arg] show ?thesis by auto
qed

lemma check_custom_sample: "check_custom [] [''--vfs-fast-fingerprint'', ''--tpslimit=3''] = None"
  by code_simp

lemma sample_address: "url_parse (''http://'' @ ''127.0.0.1:9000'') \<noteq> None"
  by code_simp

lemma sample_validates:
  assumes "check_custom [] lines = None"
  shows "rclone_validate (default_rclone\<lparr>rc_custom := lines\<rparr>) = None"
proof -
  have w: "with_defaults (default_rclone\<lparr>rc_custom := lines\<rparr>) = default_rclone\<lparr>rc_custom := lines\<rparr>"
    by (simp add: with_defaults_def or_default_def)
  have "list_all positive_duration [''24h'', ''24h'', ''72h'', ''5m'']" by code_simp
  moreover have "list_all valid_size [''512G'', ''4G'', ''64M'', ''6G'']"
  proof -
    have g: "valid_size (decimal n @ ''G'')" "valid_size (decimal n @ ''M'')" if "int n \<le> 1024" for n
      using that sizes_are_read [of "''G''" "2 ^ 30" n] sizes_are_read [of "''M''" "2 ^ 20" n]
      by (simp_all add: valid_size_def size_units_def)
    have "decimal 512 = ''512''" "decimal 4 = ''4''" "decimal 64 = ''64''" "decimal 6 = ''6''" by code_simp+
    with g(1) [of 512] g(1) [of 4] g(2) [of 64] g(1) [of 6] show ?thesis by simp
  qed
  ultimately show ?thesis unfolding rclone_validate_def Let_def w using assms by (simp add: default_rclone_def)
qed

end
