(* ===== verification/Go_Paths.thy ===== *)
theory Go_Paths
  imports Go_Strings
begin

text \<open>
  What the program uses of \<open>path/filepath\<close> beside \<open>path\<close>, on a system whose separator is the slash, and of the host
  and port texts of \<open>net\<close>.
\<close>

section \<open>Paths\<close>

text \<open>\<open>filepath.Dir\<close>: what stands before the last slash, cleaned.\<close>

definition path_dir :: "string \<Rightarrow> string" where
  "path_dir p = path_clean (rev (dropWhile (\<lambda>c. c \<noteq> slash) (rev p)))"

text \<open>\<open>filepath.Abs\<close> with the working directory.\<close>

definition path_abs :: "string \<Rightarrow> string \<Rightarrow> string" where
  "path_abs cwd p = (if is_abs p then path_clean p else path_join [cwd, p])"

fun strip_common :: "string list \<Rightarrow> string list \<Rightarrow> string list \<times> string list" where
  "strip_common (x # xs) (y # ys) = (if x = y then strip_common xs ys else (x # xs, y # ys))"
| "strip_common xs ys = (xs, ys)"

text \<open>\<open>filepath.Rel\<close>: up from what the base has of its own, then down.\<close>

definition path_rel :: "string \<Rightarrow> string \<Rightarrow> string option" where
  "path_rel base targ =
     (if is_abs base \<noteq> is_abs targ then None
      else case strip_common (path_segs base) (path_segs targ) of
        (ups, down) \<Rightarrow>
          if ups \<noteq> [] \<and> hd ups = ''..'' then None
          else if ups = [] \<and> down = [] then Some ''.''
          else Some (join_with ''/'' (map (\<lambda>_. ''..'') ups @ down)))"

section \<open>Host and port\<close>

text \<open>\<open>net.SplitHostPort\<close>: the port stands after the last colon; a host with colons is in brackets.\<close>

definition before_last :: "char \<Rightarrow> string \<Rightarrow> string" where
  "before_last c s = rev (tl (dropWhile (\<lambda>x. x \<noteq> c) (rev s)))"

definition after_last :: "char \<Rightarrow> string \<Rightarrow> string" where
  "after_last c s = rev (takeWhile (\<lambda>x. x \<noteq> c) (rev s))"

definition split_host_port :: "string \<Rightarrow> (string \<times> string) option" where
  "split_host_port s =
     (if CHR '':'' \<notin> set s then None
      else let front = before_last (CHR '':'') s; port = after_last (CHR '':'') s
        in if hd s = CHR ''['' then
             (if CHR '']'' \<in> set front \<and> last front = CHR '']'' \<and> CHR '']'' \<notin> set (butlast front)
              then let host = tl (butlast front)
                   in if CHR ''['' \<in> set host \<or> CHR ''['' \<in> set port \<or> CHR '']'' \<in> set port then None else Some (host, port)
              else None)
           else if CHR '':'' \<in> set front \<or> CHR ''['' \<in> set s \<or> CHR '']'' \<in> set s then None
           else Some (front, port))"

definition join_host_port :: "string \<Rightarrow> string \<Rightarrow> string" where
  "join_host_port host port =
     (if CHR '':'' \<in> set host then ''['' @ host @ '']:'' @ port else host @ '':'' @ port)"

lemma after_last_plain: "c \<notin> set t \<Longrightarrow> before_last c (s @ c # t) = s \<and> after_last c (s @ c # t) = t"
proof -
  assume n: "c \<notin> set t"
  have d: "dropWhile (\<lambda>x. x \<noteq> c) (rev (s @ c # t)) = c # rev s" using n by (induction t rule: rev_induct) auto
  have "takeWhile (\<lambda>x. x \<noteq> c) (rev (s @ c # t)) = rev t" using n by (induction t rule: rev_induct) auto
  with d show ?thesis by (simp add: before_last_def after_last_def)
qed

text \<open>What is joined is split again.\<close>

lemma split_join_host_port:
  assumes "CHR '':'' \<notin> set port" "CHR ''['' \<notin> set (host @ port)" "CHR '']'' \<notin> set (host @ port)"
  shows "split_host_port (join_host_port host port) = Some (host, port)"
proof (cases "CHR '':'' \<in> set host")
  case True
  have s: "join_host_port host port = (''['' @ host @ '']'') @ CHR '':'' # port" using True by (simp add: join_host_port_def)
  from after_last_plain [OF assms(1), of "''['' @ host @ '']''"] assms show ?thesis
    unfolding s by (simp add: split_host_port_def Let_def butlast_append)
next
  case False
  have s: "join_host_port host port = host @ CHR '':'' # port" using False by (simp add: join_host_port_def)
  have "hd (host @ CHR '':'' # port) \<noteq> CHR ''[''" using assms(2) by (cases host) auto
  with after_last_plain [OF assms(1), of host] assms False show ?thesis
    unfolding s by (simp add: split_host_port_def Let_def)
qed

end
