(* ===== verification/Config.thy ===== *)
theory Config
  imports Rclone_Options Go_Paths
begin

text \<open>
  \<open>internal/config/config.go\<close>, \<open>dotenv.go\<close> and \<open>file.go\<close>: the configuration the program starts with. The package that
  reads and writes TOML is a parameter; what it decodes is the record \<open>file_config\<close>. The environment is a map, and the
  directory of the configuration file a map from paths to contents. Modes and times of files are left out.
\<close>

section \<open>The file\<close>

record secrets =
  se_p115_auth_token :: string
  se_p115_refresh_token :: string
  se_aria2_rpc_secret :: string
  se_qbit_username :: string
  se_qbit_password :: string

definition no_secrets :: secrets where
  "no_secrets = \<lparr>se_p115_auth_token = '''', se_p115_refresh_token = '''', se_aria2_rpc_secret = '''', se_qbit_username = '''',
     se_qbit_password = ''''\<rparr>"

record http_section =
  hs_listen_addr :: string
  hs_public_base_url :: string
  hs_redirect_base_url :: string
  hs_redirect_type :: string
  hs_materialize_cache_ttl :: string

record p115_section =
  ps_work_dir_id :: string
  ps_token_refresh_ahead :: string
  ps_request_rate :: rat
  ps_request_burst :: int
  ps_request_concurrency :: int
  ps_offline_quota_min_remaining :: int
  ps_offline_poll :: string
  ps_offline_poll_min :: string
  ps_offline_poll_max :: string

record library_section =
  ls_strm_dir :: string
  ls_cache_retention :: string
  ls_cache_max_size :: string
  ls_sweep_interval :: string

record file_config =
  fc_rclone :: rclone_settings
  fc_credentials :: secrets
  fc_setup_required :: bool
  fc_database_path :: string
  fc_logging_level :: string
  fc_http :: http_section
  fc_p115 :: p115_section
  fc_library :: library_section
  fc_job_timeout :: string

definition default_file_config :: file_config where
  "default_file_config =
     \<lparr>fc_rclone = default_rclone, fc_credentials = no_secrets, fc_setup_required = False, fc_database_path = ''magnet.db'',
      fc_logging_level = ''info'',
      fc_http = \<lparr>hs_listen_addr = '':8080'', hs_public_base_url = '''', hs_redirect_base_url = '''', hs_redirect_type = ''proxy'',
        hs_materialize_cache_ttl = ''10m''\<rparr>,
      fc_p115 = \<lparr>ps_work_dir_id = '''', ps_token_refresh_ahead = ''10m'', ps_request_rate = 1, ps_request_burst = 2,
        ps_request_concurrency = 2, ps_offline_quota_min_remaining = 0, ps_offline_poll = ''5s'', ps_offline_poll_min = ''2s'',
        ps_offline_poll_max = ''5m''\<rparr>,
      fc_library = \<lparr>ls_strm_dir = '''', ls_cache_retention = ''720h'', ls_cache_max_size = ''0'', ls_sweep_interval = ''1h''\<rparr>,
      fc_job_timeout = ''6h''\<rparr>"

section \<open>The configuration\<close>

record http_config =
  hc_addr :: string
  hc_public_base_url :: string
  hc_redirect_base_url :: string
  hc_redirect_type :: string
  hc_materialize_cache_ttl :: int

record p115_config =
  pc_token_refresh_ahead :: int
  pc_work_dir_id :: string
  pc_request_rate :: rat
  pc_request_burst :: int
  pc_request_concurrency :: int
  pc_offline_quota_min_remaining :: int
  pc_offline_poll :: int
  pc_offline_poll_min :: int
  pc_offline_poll_max :: int

record library_config =
  lc_strm_dir :: string
  lc_cache_retention :: int
  lc_cache_max_size_bytes :: int
  lc_sweep_interval :: int

record config =
  cg_credentials :: secrets
  cg_setup_required :: bool
  cg_file_path :: string
  cg_database_path :: string
  cg_logging_level :: string
  cg_http :: http_config
  cg_rclone :: rclone_settings
  cg_p115 :: p115_config
  cg_library :: library_config
  cg_job_timeout :: int

type_synonym environment = "string \<Rightarrow> string option"

definition getenv :: "environment \<Rightarrow> string \<Rightarrow> string" where
  "getenv env k = (case env k of None \<Rightarrow> '''' | Some v \<Rightarrow> v)"

definition valid_http_url :: "string \<Rightarrow> bool" where
  "valid_http_url v = (case url_parse (trim_space v) of
     None \<Rightarrow> False
   | Some u \<Rightarrow> u_host u \<noteq> '''' \<and> u_scheme u \<in> {''http'', ''https''} \<and> u_raw_query u = '''' \<and> u_fragment u = '''')"

definition valid_listen_addr :: "string \<Rightarrow> bool" where
  "valid_listen_addr a = (case split_host_port a of
     None \<Rightarrow> False
   | Some (_, port) \<Rightarrow> (case parse_int port of None \<Rightarrow> False | Some n \<Rightarrow> 1 \<le> n \<and> n \<le> 65535))"

definition validate_common :: "config \<Rightarrow> err option" where
  "validate_common c =
     (let p = cg_p115 c
      in if cg_database_path c = '''' then Some (Msg ''database.path'')
         else if \<not> valid_listen_addr (hc_addr (cg_http c)) then Some (Msg ''http.listen_addr'')
         else if lc_strm_dir (cg_library c) = '''' then Some (Msg ''library.strm_dir'')
         else if cg_logging_level c \<notin> {'''', ''debug'', ''info'', ''warn'', ''error''} then Some (Msg ''logging.level'')
         else if pc_token_refresh_ahead p < 0 \<or> pc_request_rate p < 0 \<or> pc_request_burst p < 0 \<or>
             pc_request_concurrency p < 0 \<or> pc_offline_quota_min_remaining p < 0 then Some (Msg ''negative setting'')
         else if pc_offline_poll p \<le> 0 \<or> pc_offline_poll_min p < 0 \<or> pc_offline_poll_max p < 0 \<or>
             (0 < pc_offline_poll_min p \<and> 0 < pc_offline_poll_max p \<and> pc_offline_poll_max p < pc_offline_poll_min p) \<or>
             cg_job_timeout c \<le> 0 then Some (Msg ''intervals'')
         else None)"

definition validate_runtime :: "config \<Rightarrow> err option" where
  "validate_runtime c = (case validate_common c of
     Some e \<Rightarrow> Some e
   | None \<Rightarrow> if valid_http_url (hc_public_base_url (cg_http c)) then None else Some (Msg ''http.public_base_url''))"

definition validate_add :: "config \<Rightarrow> err option" where
  "validate_add c = (case validate_runtime c of
     Some e \<Rightarrow> Some e
   | None \<Rightarrow> if pc_work_dir_id (cg_p115 c) = '''' then Some (Msg ''p115.work_dir_id'') else None)"

definition validate_serve :: "config \<Rightarrow> err option" where
  "validate_serve c = (case rclone_validate (cg_rclone c) of
     Some e \<Rightarrow> Some e
   | None \<Rightarrow> (case validate_runtime c of
       Some e \<Rightarrow> Some e
     | None \<Rightarrow>
         let h = cg_http c; l = cg_library c
         in if \<not> valid_http_url (hc_redirect_base_url h) then Some (Msg ''http.redirect_base_url'')
            else if hc_redirect_type h \<notin> {''direct'', ''proxy'', ''stable_dav''} then Some (Msg ''http.redirect_type'')
            else if hc_materialize_cache_ttl h \<le> 0 then Some (Msg ''http.materialize_cache_ttl'')
            else if lc_cache_retention l \<le> 0 \<or> lc_sweep_interval l \<le> 0 \<or> lc_cache_max_size_bytes l < 0
              then Some (Msg ''library.cache_retention'')
            else None))"

definition config_duration :: "string \<Rightarrow> string \<Rightarrow> err + int" where
  "config_duration key v = (case parse_duration (trim_space v) of None \<Rightarrow> Inl (Msg key) | Some d \<Rightarrow> Inr d)"

definition config_size :: "string \<Rightarrow> string \<Rightarrow> err + int" where
  "config_size key v = (case parse_byte_size v of None \<Rightarrow> Inl (Msg key) | Some n \<Rightarrow> Inr n)"

text \<open>The values in the order the code reads them; the first that is wrong is the error.\<close>

fun first_error :: "(err + int) list \<Rightarrow> err + int list" where
  "first_error [] = Inr []"
| "first_error (x # xs) = (case x of Inl e \<Rightarrow> Inl e | Inr n \<Rightarrow> map_sum id (Cons n) (first_error xs))"

definition config_numbers :: "file_config \<Rightarrow> err + int list" where
  "config_numbers raw = first_error
     [config_duration ''p115.token_refresh_ahead'' (ps_token_refresh_ahead (fc_p115 raw)),
      config_duration ''p115.offline_poll_interval'' (ps_offline_poll (fc_p115 raw)),
      config_duration ''p115.offline_poll_min_interval'' (ps_offline_poll_min (fc_p115 raw)),
      config_duration ''p115.offline_poll_max_interval'' (ps_offline_poll_max (fc_p115 raw)),
      config_duration ''library.cache_retention'' (ls_cache_retention (fc_library raw)),
      config_size ''library.cache_max_size'' (ls_cache_max_size (fc_library raw)),
      config_duration ''library.sweep_interval'' (ls_sweep_interval (fc_library raw)),
      config_duration ''ingest.job_timeout'' (fc_job_timeout raw),
      config_duration ''http.materialize_cache_ttl'' (hs_materialize_cache_ttl (fc_http raw))]"

definition base_url_text :: "string \<Rightarrow> string" where
  "base_url_text v = trim_right (trim_space v) ''/''"

definition redirect_type_text :: "string \<Rightarrow> string" where
  "redirect_type_text v = (let t = to_lower (trim_space v) in if t = ''stable_dav'' then ''proxy'' else t)"

definition http_of :: "environment \<Rightarrow> http_section \<Rightarrow> int \<Rightarrow> http_config" where
  "http_of env h ttl =
     (let listen = trim_space (getenv env ''MTS_HTTP_LISTEN_ADDR''); public = base_url_text (hs_public_base_url h);
          redirect = base_url_text (hs_redirect_base_url h)
      in \<lparr>hc_addr = trim_space (if listen \<noteq> '''' then listen else hs_listen_addr h), hc_public_base_url = public,
          hc_redirect_base_url = (if redirect = '''' then public else redirect),
          hc_redirect_type = redirect_type_text (hs_redirect_type h), hc_materialize_cache_ttl = ttl\<rparr>)"

definition strm_dir_of :: "string \<Rightarrow> string \<Rightarrow> string" where
  "strm_dir_of database dir = (if dir = '''' then path_join [path_dir database, ''strms''] else dir)"

text \<open>\<open>Parse\<close>, after the decoding; the configuration comes back also when it is not valid.\<close>

definition config_of :: "environment \<Rightarrow> file_config \<Rightarrow> int list \<Rightarrow> config" where
  "config_of env raw ns =
     (let p = fc_p115 raw; l = fc_library raw; database = trim_space (fc_database_path raw)
      in \<lparr>cg_credentials = fc_credentials raw, cg_setup_required = fc_setup_required raw, cg_file_path = '''',
          cg_database_path = database, cg_logging_level = to_lower (trim_space (fc_logging_level raw)),
          cg_http = http_of env (fc_http raw) (ns ! 8), cg_rclone = fc_rclone raw,
          cg_p115 = \<lparr>pc_token_refresh_ahead = ns ! 0, pc_work_dir_id = trim_space (ps_work_dir_id p),
            pc_request_rate = ps_request_rate p, pc_request_burst = ps_request_burst p,
            pc_request_concurrency = ps_request_concurrency p,
            pc_offline_quota_min_remaining = ps_offline_quota_min_remaining p, pc_offline_poll = ns ! 1,
            pc_offline_poll_min = ns ! 2, pc_offline_poll_max = ns ! 3\<rparr>,
          cg_library = \<lparr>lc_strm_dir = strm_dir_of database (trim_space (ls_strm_dir l)), lc_cache_retention = ns ! 4,
            lc_cache_max_size_bytes = ns ! 5, lc_sweep_interval = ns ! 6\<rparr>,
          cg_job_timeout = ns ! 7\<rparr>)"

text \<open>\<open>tm_strict\<close> refuses unknown fields; both decode over defaults.\<close>

record toml =
  tm_strict :: "file_config \<Rightarrow> string \<Rightarrow> err + file_config"
  tm_decode :: "file_config \<Rightarrow> string \<Rightarrow> err + file_config"
  tm_encode :: "file_config \<Rightarrow> err + string"

definition parse_config :: "toml \<Rightarrow> environment \<Rightarrow> string \<Rightarrow> err + config" where
  "parse_config tm env content = (case tm_strict tm default_file_config content of
     Inl e \<Rightarrow> Inl (Wrap ''parse'' e)
   | Inr raw \<Rightarrow> (case config_numbers raw of
       Inl e \<Rightarrow> Inl e
     | Inr ns \<Rightarrow> let c = config_of env raw ns in (case validate_common c of Some e \<Rightarrow> Inl e | None \<Rightarrow> Inr c)))"

definition load_secrets :: "environment \<Rightarrow> secrets" where
  "load_secrets env = no_secrets\<lparr>se_aria2_rpc_secret := trim_space (getenv env ''MTS_ARIA2_RPC_SECRET''),
     se_qbit_username := trim_space (getenv env ''MTS_QBITTORRENT_USERNAME''),
     se_qbit_password := trim_space (getenv env ''MTS_QBITTORRENT_PASSWORD'')\<rparr>"

definition override :: "string \<Rightarrow> string \<Rightarrow> string" where
  "override new old = (if new \<noteq> '''' then new else old)"

definition runtime_secrets :: "environment \<Rightarrow> config \<Rightarrow> secrets" where
  "runtime_secrets env c =
     (let s = cg_credentials c; o2 = load_secrets env
      in \<lparr>se_p115_auth_token = '''', se_p115_refresh_token = '''',
          se_aria2_rpc_secret = override (se_aria2_rpc_secret o2) (se_aria2_rpc_secret s),
          se_qbit_username = override (se_qbit_username o2) (se_qbit_username s),
          se_qbit_password = override (se_qbit_password o2) (se_qbit_password s)\<rparr>)"

section \<open>The environment file\<close>

definition supported_keys :: "string list" where
  "supported_keys = [''MTS_HTTP_LISTEN_ADDR'', ''MTS_ARIA2_RPC_SECRET'', ''MTS_QBITTORRENT_USERNAME'', ''MTS_QBITTORRENT_PASSWORD'']"

fun split_lines :: "string \<Rightarrow> string list" where
  "split_lines [] = [[]]"
| "split_lines (c # s) =
     (if c = CHR 0x0A then [] # split_lines s
      else if c = CHR 0x0D then (case s of
          [] \<Rightarrow> [] # split_lines s
        | d # t \<Rightarrow> if d = CHR 0x0A then [] # split_lines t else [] # split_lines s)
      else (case split_lines s of l # ls \<Rightarrow> (c # l) # ls | [] \<Rightarrow> [[c]]))"

definition parse_line :: "string \<Rightarrow> (string \<times> string) option" where
  "parse_line raw =
     (let line = trim_space raw
      in if line = '''' \<or> has_prefix line ''#'' then None
         else
           let l = trim_space (trim_prefix line ''export ''); k = trim_space (takeWhile (\<lambda>c. c \<noteq> CHR ''='') l);
               v = trim_space (drop (Suc (length (takeWhile (\<lambda>c. c \<noteq> CHR ''='') l))) l)
           in if CHR ''='' \<notin> set l \<or> k = '''' then None
              else Some (k, if 2 \<le> length v \<and> hd v = last v \<and> hd v \<in> {CHR 0x22, CHR 0x27} then butlast (tl v) else v))"

fun load_lines :: "string list \<Rightarrow> environment \<Rightarrow> err option \<times> environment" where
  "load_lines [] env = (None, env)"
| "load_lines (raw # rest) env = (case parse_line raw of
     None \<Rightarrow> load_lines rest env
   | Some (k, v) \<Rightarrow>
       if k = ''MTS_P115_REFRESH_TOKEN'' \<or> k = ''MTS_P115_AUTH_TOKEN'' then load_lines rest env
       else if k \<notin> set supported_keys then (Some (Msg (''unsupported '' @ k)), env)
       else load_lines rest (if env k = None then env(k \<mapsto> v) else env))"

definition load_dotenv :: "err + string \<Rightarrow> environment \<Rightarrow> err option \<times> environment" where
  "load_dotenv content env = (case content of Inl e \<Rightarrow> (Some e, env) | Inr s \<Rightarrow> load_lines (split_lines s) env)"

section \<open>Writing the file\<close>

text \<open>The files by their paths. A write fails before the file is opened, or once some of its bytes are written.\<close>

type_synonym config_files = "string \<Rightarrow> string option"

datatype write_failure = BeforeOpen err | AfterBytes nat err

definition failure_err :: "write_failure \<Rightarrow> err" where
  "failure_err f = (case f of BeforeOpen e \<Rightarrow> e | AfterBytes _ e \<Rightarrow> e)"

definition load_file :: "toml \<Rightarrow> environment \<Rightarrow> string \<Rightarrow> (config_files, config) io" where
  "load_file tm env path = (\<lambda>fs. case fs path of
     None \<Rightarrow> (Inl (Msg ''no such file''), fs)
   | Some content \<Rightarrow> (map_sum id (\<lambda>c. c\<lparr>cg_file_path := path\<rparr>) (parse_config tm env content), fs))"

definition read_settings :: "toml \<Rightarrow> string \<Rightarrow> (config_files, file_config) io" where
  "read_settings tm path = (\<lambda>fs. case fs path of
     None \<Rightarrow> (Inl (Msg ''no such file''), fs)
   | Some content \<Rightarrow> (case tm_decode tm default_file_config content of
       Inl e \<Rightarrow> (Inl e, fs)
     | Inr raw \<Rightarrow>
         let h = fc_http raw; h1 = (if hs_redirect_type h = ''stable_dav'' then h\<lparr>hs_redirect_type := ''proxy''\<rparr> else h);
             h2 = (if trim_space (hs_redirect_base_url h1) = '''' then h1\<lparr>hs_redirect_base_url := hs_public_base_url h1\<rparr> else h1)
         in (Inr (raw\<lparr>fc_http := h2\<rparr>), fs)))"

text \<open>\<open>SaveFile\<close> writes a temporary file beside the old one and renames it.\<close>

definition save_file :: "toml \<Rightarrow> environment \<Rightarrow> write_failure option \<Rightarrow> string \<Rightarrow> string \<Rightarrow> (config_files, unit) io" where
  "save_file tm env failure path content = (\<lambda>fs. case parse_config tm env content of
     Inl e \<Rightarrow> (Inl e, fs)
   | Inr c \<Rightarrow> (case validate_serve c of
       Some e \<Rightarrow> (Inl e, fs)
     | None \<Rightarrow> (case failure of
         Some f \<Rightarrow> (Inl (failure_err f), fs)
       | None \<Rightarrow> (Inr (), fs(path \<mapsto> content)))))"

definition fill_in :: "file_config \<Rightarrow> file_config" where
  "fill_in s =
     (let d = default_file_config
      in s\<lparr>fc_http := (fc_http s)\<lparr>hs_materialize_cache_ttl := or_default (hs_materialize_cache_ttl (fc_http s)) (hs_materialize_cache_ttl (fc_http d))\<rparr>,
           fc_p115 := (fc_p115 s)\<lparr>ps_token_refresh_ahead := or_default (ps_token_refresh_ahead (fc_p115 s)) (ps_token_refresh_ahead (fc_p115 d)),
             ps_offline_poll := or_default (ps_offline_poll (fc_p115 s)) (ps_offline_poll (fc_p115 d)),
             ps_offline_poll_min := or_default (ps_offline_poll_min (fc_p115 s)) (ps_offline_poll_min (fc_p115 d)),
             ps_offline_poll_max := or_default (ps_offline_poll_max (fc_p115 s)) (ps_offline_poll_max (fc_p115 d))\<rparr>,
           fc_library := (fc_library s)\<lparr>ls_sweep_interval := or_default (ls_sweep_interval (fc_library s)) (ls_sweep_interval (fc_library d))\<rparr>,
           fc_job_timeout := or_default (fc_job_timeout s) (fc_job_timeout d),
           fc_logging_level := or_default (fc_logging_level s) (fc_logging_level d)\<rparr>)"

definition without_tokens :: "file_config \<Rightarrow> file_config" where
  "without_tokens s = s\<lparr>fc_credentials := (fc_credentials s)\<lparr>se_p115_refresh_token := '''', se_p115_auth_token := ''''\<rparr>\<rparr>"

definition write_settings :: "toml \<Rightarrow> environment \<Rightarrow> write_failure option \<Rightarrow> string \<Rightarrow> file_config \<Rightarrow> (config_files, unit) io" where
  "write_settings tm env failure path s =
     io_bind (io_of (tm_encode tm s)) (\<lambda>content. save_file tm env failure path content)"

definition save_settings :: "toml \<Rightarrow> environment \<Rightarrow> write_failure option \<Rightarrow> string \<Rightarrow> file_config \<Rightarrow> (config_files, unit) io" where
  "save_settings tm env failure path s =
     (if trim_space (ps_work_dir_id (fc_p115 s)) = '''' then io_fail (Msg ''p115.work_dir_id'')
      else if trim_space (ls_strm_dir (fc_library s)) = '''' then io_fail (Msg ''library.strm_dir'')
      else let filled = fill_in (without_tokens s)
           in write_settings tm env failure path (filled\<lparr>fc_rclone := with_defaults (fc_rclone filled), fc_setup_required := False\<rparr>))"

definition remove_legacy_tokens :: "toml \<Rightarrow> environment \<Rightarrow> write_failure option \<Rightarrow> string \<Rightarrow> (config_files, unit) io" where
  "remove_legacy_tokens tm env failure path =
     io_bind (read_settings tm path) (\<lambda>s. write_settings tm env failure path (without_tokens s))"

text \<open>\<open>EnsureFile\<close>: a file that is there stays; a new one is written in place.\<close>

definition initial_file :: "string \<Rightarrow> string \<Rightarrow> file_config" where
  "initial_file listen public =
     (let d = default_file_config; url = (if public \<noteq> '''' then public else ''http://127.0.0.1:8080'')
      in d\<lparr>fc_setup_required := True,
           fc_http := (fc_http d)\<lparr>hs_public_base_url := url, hs_redirect_base_url := url,
             hs_listen_addr := (if listen \<noteq> '''' then listen else hs_listen_addr (fc_http d))\<rparr>,
           fc_library := (fc_library d)\<lparr>ls_strm_dir := ''strms''\<rparr>\<rparr>)"

definition ensure_file :: "toml \<Rightarrow> write_failure option \<Rightarrow> string \<Rightarrow> string \<Rightarrow> string \<Rightarrow> (config_files, unit) io" where
  "ensure_file tm failure path listen public =
     io_bind (io_of (tm_encode tm (initial_file listen public))) (\<lambda>content fs.
       if fs path \<noteq> None then (Inr (), fs)
       else case failure of
           Some (BeforeOpen e) \<Rightarrow> (Inl e, fs)
         | Some (AfterBytes n e) \<Rightarrow> (Inl e, fs(path \<mapsto> take n content))
         | None \<Rightarrow> (Inr (), fs(path \<mapsto> content)))"

end
