(* ===== verification/Config_Facts.thy ===== *)
theory Config_Facts
  imports Config Rclone_Facts Ingest_Service
begin

text \<open>
  What the configuration guarantees: a saved file is one the server starts with, an environment file overrides nothing, and
  settings that are accepted are in their ranges.
\<close>

section \<open>Saving\<close>

text \<open>The package reads back what it has written, over the defaults.\<close>

definition faithful :: "toml \<Rightarrow> bool" where
  "faithful tm \<longleftrightarrow> (\<forall>s content. tm_encode tm s = Inr content \<longrightarrow>
     tm_strict tm default_file_config content = Inr s \<and> tm_decode tm default_file_config content = Inr s)"

lemma save_file_cases:
  "(\<exists>e. save_file tm env f path content fs = (Inl e, fs)) \<or>
   (save_file tm env f path content fs = (Inr (), fs(path \<mapsto> content)) \<and>
    (\<exists>c. parse_config tm env content = Inr c \<and> validate_serve c = None))"
  by (auto simp: save_file_def split: sum.split option.split)

lemma config_of_decoded:
  assumes "faithful tm" "tm_encode tm s = Inr content" "parse_config tm env content = Inr c"
  shows "\<exists>ns. c = config_of env s ns"
  using assms by (auto simp: faithful_def parse_config_def Let_def split: sum.splits option.splits)

lemma validate_serve_path: "validate_serve (c\<lparr>cg_file_path := p\<rparr>) = validate_serve c"
proof -
  have "validate_common (c\<lparr>cg_file_path := p\<rparr>) = validate_common c"
    by (simp add: validate_common_def Let_def cong: if_cong)
  then have "validate_runtime (c\<lparr>cg_file_path := p\<rparr>) = validate_runtime c"
    by (simp add: validate_runtime_def cong: if_cong option.case_cong)
  then show ?thesis by (simp add: validate_serve_def Let_def cong: if_cong option.case_cong)
qed

definition saved_form :: "file_config \<Rightarrow> file_config" where
  "saved_form s = (let filled = fill_in (without_tokens s)
     in filled\<lparr>fc_rclone := with_defaults (fc_rclone filled), fc_setup_required := False\<rparr>)"

lemma save_settings_run:
  assumes "save_settings tm env failure path s fs = (r, fs')"
  shows "(\<exists>e. r = Inl e \<and> fs' = fs) \<or>
    (\<exists>content. tm_encode tm (saved_form s) = Inr content \<and> save_file tm env failure path content fs = (r, fs'))"
  using assms
  by (cases "tm_encode tm (saved_form s)")
    (auto simp: save_settings_def write_settings_def saved_form_def io_bind_def io_fail_def io_of_def Let_def split: if_splits)

lemma saved_settings_outcome:
  assumes tm: "faithful tm" and run: "save_settings tm env failure path s fs = (r, fs')"
  shows "case r of
      Inl _ \<Rightarrow> fs' = fs
    | Inr _ \<Rightarrow> \<exists>content c. fs' = fs(path \<mapsto> content) \<and> load_file tm env path fs' = (Inr c, fs') \<and> validate_serve c = None \<and>
        \<not> cg_setup_required c \<and> se_p115_refresh_token (cg_credentials c) = '''' \<and> se_p115_auth_token (cg_credentials c) = ''''"
proof (cases "\<exists>e. r = Inl e \<and> fs' = fs")
  case True
  then show ?thesis by auto
next
  case False
  with save_settings_run [OF run] obtain content where enc: "tm_encode tm (saved_form s) = Inr content"
    and save: "save_file tm env failure path content fs = (r, fs')" by blast
  from save_file_cases [of tm env failure path content fs] save False obtain c
    where fs': "r = Inr ()" "fs' = fs(path \<mapsto> content)" and c: "parse_config tm env content = Inr c" "validate_serve c = None"
    by auto
  from config_of_decoded [OF tm enc c(1)] obtain ns where "c = config_of env (saved_form s) ns" by blast
  then have k: "\<not> cg_setup_required c" "se_p115_refresh_token (cg_credentials c) = ''''" "se_p115_auth_token (cg_credentials c) = ''''"
    by (simp_all add: config_of_def Let_def saved_form_def fill_in_def without_tokens_def)
  have "load_file tm env path fs' = (Inr (c\<lparr>cg_file_path := path\<rparr>), fs')" by (simp add: load_file_def fs' c(1))
  moreover have "validate_serve (c\<lparr>cg_file_path := path\<rparr>) = None"
    using c(2) by (simp add: validate_serve_path)
  ultimately show ?thesis using k fs' by auto
qed

text \<open>C21. Saving the settings either fails and leaves every file as it was, or leaves a file the server starts with: it is read
  again as a valid configuration, the setup is done, the tokens are not in it, and no other file has changed.\<close>

theorem saved_settings_start:
  assumes tm: "faithful tm" and run: "save_settings tm env failure path s fs = (r, fs')"
  shows "case r of
      Inl _ \<Rightarrow> fs' = fs
    | Inr _ \<Rightarrow> \<exists>content c. fs' = fs(path \<mapsto> content) \<and> load_file tm env path fs' = (Inr c, fs') \<and> validate_serve c = None \<and>
        \<not> cg_setup_required c \<and> se_p115_refresh_token (cg_credentials c) = '''' \<and> se_p115_auth_token (cg_credentials c) = ''''"
  using assms by (rule saved_settings_outcome)

section \<open>The environment file\<close>

lemma load_lines_keeps:
  "load_lines ls env = (e, env') \<Longrightarrow> (\<forall>k v. env k = Some v \<longrightarrow> env' k = Some v) \<and> (\<forall>k. env' k \<noteq> env k \<longrightarrow> k \<in> set supported_keys)"
proof (induction ls arbitrary: env)
  case Nil
  then show ?case by simp
next
  case (Cons raw ls)
  show ?case
  proof (cases "parse_line raw")
    case None
    with Cons show ?thesis by simp
  next
    case (Some kv)
    obtain k v where kv: "kv = (k, v)" by fastforce
    let ?skip = "k = ''MTS_P115_REFRESH_TOKEN'' \<or> k = ''MTS_P115_AUTH_TOKEN''"
    consider "?skip" | "\<not> ?skip" "k \<notin> set supported_keys" | "\<not> ?skip" "k \<in> set supported_keys" by blast
    then show ?thesis
    proof cases
      case 1
      with Cons.prems Some kv have "load_lines ls env = (e, env')" by auto
      then show ?thesis by (rule Cons.IH)
    next
      case 2
      with Cons.prems Some kv show ?thesis by simp
    next
      case 3
      define env1 where "env1 = (if env k = None then env(k \<mapsto> v) else env)"
      have "load_lines ls env1 = (e, env')" using Cons.prems Some kv 3 by (simp add: env1_def)
      note ih = Cons.IH [OF this]
      have "\<forall>x y. env x = Some y \<longrightarrow> env1 x = Some y" by (simp add: env1_def)
      moreover have "x \<in> set supported_keys" if "env' x \<noteq> env x" for x
        using ih that 3(2) by (cases "x = k") (auto simp: env1_def)
      ultimately show ?thesis using ih by blast
    qed
  qed
qed

text \<open>The environment file overrides nothing: a variable that is set keeps its value, and only the variables the program knows are
  ever set, also when the file is refused half way.\<close>

lemma dotenv_overrides_nothing:
  assumes "load_dotenv content env = (e, env')"
  shows "(\<forall>k v. env k = Some v \<longrightarrow> env' k = Some v) \<and> (\<forall>k. env' k \<noteq> env k \<longrightarrow> k \<in> set supported_keys)"
  using assms load_lines_keeps by (cases content) (auto simp: load_dotenv_def)

section \<open>A sample\<close>

definition sample_settings :: file_config where
  "sample_settings = (initial_file '''' '''')\<lparr>fc_p115 := (fc_p115 default_file_config)\<lparr>ps_work_dir_id := ''42''\<rparr>\<rparr>"

definition sample_toml :: toml where
  "sample_toml = \<lparr>tm_strict = (\<lambda>d s. if s = ''t'' then Inr (saved_form sample_settings) else Inl (Msg ''toml'')),
     tm_decode = (\<lambda>d s. if s = ''t'' then Inr (saved_form sample_settings) else Inl (Msg ''toml'')),
     tm_encode = (\<lambda>s. if s = saved_form sample_settings then Inr ''t'' else Inl (Msg ''toml''))\<rparr>"

lemma sample_toml_faithful: "faithful sample_toml"
  by (simp add: faithful_def sample_toml_def)

text \<open>The sample with another database and another library.\<close>

definition placed :: "string \<Rightarrow> string \<Rightarrow> file_config" where
  "placed database dir = sample_settings\<lparr>fc_database_path := database,
     fc_library := (fc_library sample_settings)\<lparr>ls_strm_dir := dir\<rparr>\<rparr>"

lemma sample_placed: "sample_settings = placed ''magnet.db'' ''strms''"
  by (simp add: placed_def sample_settings_def initial_file_def default_file_config_def Let_def)

lemmas placed_fields = placed_def sample_settings_def initial_file_def default_file_config_def Let_def

lemma placed_saved: "saved_form (placed database dir) = (placed database dir)\<lparr>fc_setup_required := False\<rparr>"
proof -
  have d: "with_defaults default_rclone = default_rclone" by (simp add: with_defaults_def or_default_def)
  have o: "or_default x x = x" for x by (simp add: or_default_def)
  show ?thesis by (simp add: saved_form_def fill_in_def without_tokens_def placed_fields no_secrets_def d o)
qed

definition sample_numbers :: "int list" where
  "sample_numbers = [600000000000, 5000000000, 2000000000, 300000000000, 2592000000000000, 0, 3600000000000, 21600000000000, 600000000000]"

lemma default_texts: "config_duration k ''10m'' = Inr 600000000000" "config_duration k ''5s'' = Inr 5000000000"
  "config_duration k ''2s'' = Inr 2000000000" "config_duration k ''5m'' = Inr 300000000000"
  "config_duration k ''720h'' = Inr 2592000000000000" "config_size k ''0'' = Inr 0" "config_duration k ''1h'' = Inr 3600000000000"
  "config_duration k ''6h'' = Inr 21600000000000"
  unfolding config_duration_def config_size_def by code_simp+

lemma placed_numbers: "config_numbers (saved_form (placed database dir)) = Inr sample_numbers"
  unfolding config_numbers_def placed_saved by (simp add: placed_fields default_texts sample_numbers_def)

lemma placed_valid:
  assumes "trim_space database = database" "database \<noteq> ''''" "trim_space dir = dir" "dir \<noteq> ''''"
  shows "validate_common (config_of Map.empty (saved_form (placed database dir)) sample_numbers) = None" (is "?common")
    "validate_serve (config_of Map.empty (saved_form (placed database dir)) sample_numbers) = None" (is "?serve")
proof -
  let ?c = "config_of Map.empty (saved_form (placed database dir)) sample_numbers"
  have v: "valid_listen_addr '':8080''" "valid_http_url ''http://127.0.0.1:8080''"
      "base_url_text ''http://127.0.0.1:8080'' = ''http://127.0.0.1:8080''" "redirect_type_text ''proxy'' = ''proxy''"
      "trim_space '':8080'' = '':8080''" "to_lower (trim_space ''info'') = ''info''" "trim_space '''' = ''''"
    by code_simp+
  have r: "rclone_validate default_rclone = None"
    using sample_validates [of "[]"] by (simp add: default_rclone_def)
  have c: "cg_database_path ?c = database" "hc_addr (cg_http ?c) = '':8080''"
      "lc_strm_dir (cg_library ?c) = dir" "cg_logging_level ?c = ''info''"
      "hc_public_base_url (cg_http ?c) = ''http://127.0.0.1:8080''" "hc_redirect_base_url (cg_http ?c) = ''http://127.0.0.1:8080''"
      "hc_redirect_type (cg_http ?c) = ''proxy''" "cg_rclone ?c = default_rclone" "cg_job_timeout ?c = 21600000000000"
    unfolding config_of_def Let_def placed_saved
    by (simp_all add: placed_fields http_of_def getenv_def v strm_dir_of_def sample_numbers_def assms)
  show ok: ?common
    unfolding validate_common_def Let_def c
    unfolding config_of_def Let_def placed_saved
    by (simp add: v(1) placed_fields sample_numbers_def assms)
  show ?serve
    unfolding validate_serve_def validate_runtime_def Let_def c
    using ok by (simp add: r v(2) c) (simp add: config_of_def Let_def http_of_def sample_numbers_def)
qed

lemma placed_parsed:
  assumes "trim_space database = database" "database \<noteq> ''''" "trim_space dir = dir" "dir \<noteq> ''''"
    and "tm_strict tm default_file_config content = Inr (saved_form (placed database dir))"
  shows "parse_config tm Map.empty content = Inr (config_of Map.empty (saved_form (placed database dir)) sample_numbers)"
  unfolding parse_config_def using assms(5) placed_valid(1) [OF assms(1-4)] by (simp add: placed_numbers Let_def)

definition sample_config :: config where
  "sample_config = config_of Map.empty (saved_form sample_settings) sample_numbers"

lemma sample_names: "trim_space ''magnet.db'' = ''magnet.db''" "trim_space ''strms'' = ''strms''" by code_simp+

lemma sample_config_valid: "validate_common sample_config = None" "validate_serve sample_config = None"
  using placed_valid [of "''magnet.db''" "''strms''"] by (simp_all add: sample_config_def sample_placed sample_names)

lemma sample_parsed: "parse_config sample_toml Map.empty ''t'' = Inr sample_config"
  using placed_parsed [of "''magnet.db''" "''strms''" sample_toml "''t''"]
  by (simp add: sample_toml_def sample_config_def sample_placed sample_names)

theorem saved_settings_start_witness:
  "\<exists>content c. load_file sample_toml Map.empty ''c.toml'' [''c.toml'' \<mapsto> content] = (Inr c, [''c.toml'' \<mapsto> content]) \<and>
     validate_serve c = None \<and> \<not> cg_setup_required c"
proof -
  let ?run = "save_settings sample_toml Map.empty None ''c.toml'' sample_settings Map.empty"
  have w: "trim_space ''42'' \<noteq> ''''" "trim_space ''strms'' \<noteq> ''''" by code_simp+
  note p = sample_parsed
  have enc: "tm_encode sample_toml (saved_form sample_settings) = Inr ''t''" by (simp add: sample_toml_def)
  have "?run = write_settings sample_toml Map.empty None ''c.toml'' (saved_form sample_settings) Map.empty"
    using w by (simp add: save_settings_def saved_form_def Let_def sample_settings_def initial_file_def default_file_config_def)
  also have "\<dots> = (Inr (), [''c.toml'' \<mapsto> ''t''])"
    by (simp add: write_settings_def io_bind_def io_of_def enc save_file_def p sample_config_valid)
  finally have run: "?run = (Inr (), [''c.toml'' \<mapsto> ''t''])" .
  from saved_settings_start [OF sample_toml_faithful run] show ?thesis by auto
qed

end
