(* ===== verification/Path_Browser.thy ===== *)
theory Path_Browser
  imports Go_Paths Json Go_Url "HOL-Library.Sublist"
begin

text \<open>
  \<open>internal/transport/httpserver/filesystem.go\<close>: the choice of a path in the configuration page. The file system is a map
  from the segments of absolute paths to entries; symbolic links are followed as \<open>filepath.EvalSymlinks\<close> does. Every
  entry can be read; \<open>os.Stat\<close> follows as many links as \<open>EvalSymlinks\<close>.
\<close>

section \<open>The file system\<close>

datatype file_entry = DirEntry | RegularEntry | OtherEntry | LinkEntry string

type_synonym fsys = "string list \<Rightarrow> file_entry option"

datatype fs_error = NotExist | NotDir | TooManyLinks

definition entry_at :: "fsys \<Rightarrow> string list \<Rightarrow> file_entry option" where
  "entry_at fs p = (if p = [] then Some DirEntry else fs p)"

text \<open>\<open>walkSymlinks\<close>: \<open>dest\<close> is what has been resolved, \<open>todo\<close> the segments left, empty ones from double and final slashes
  included; after 255 links it gives up.\<close>

function walk_links :: "fsys \<Rightarrow> nat \<Rightarrow> string list \<Rightarrow> string list \<Rightarrow> fs_error + string list" where
  "walk_links fs links dest [] = Inr dest"
| "walk_links fs links dest (x # todo) =
     (if x = '''' \<or> x = ''.'' then walk_links fs links dest todo
      else if x = ''..'' then walk_links fs links (butlast dest) todo
      else case entry_at fs (dest @ [x]) of
        None \<Rightarrow> Inl NotExist
      | Some DirEntry \<Rightarrow> walk_links fs links (dest @ [x]) todo
      | Some (LinkEntry target) \<Rightarrow>
          if 255 \<le> links then Inl TooManyLinks
          else walk_links fs (Suc links) (if is_abs target then [] else dest) (split_on slash target @ todo)
      | Some _ \<Rightarrow> if todo \<noteq> [] then Inl NotDir else Inr (dest @ [x]))"
  by pat_completeness auto

termination
  by (relation "measures [\<lambda>(fs, links, dest, todo). 255 - links, \<lambda>(fs, links, dest, todo). length todo]") auto

declare walk_links.simps [simp del]

definition eval_symlinks :: "fsys \<Rightarrow> string list \<Rightarrow> fs_error + string list" where
  "eval_symlinks fs p = walk_links fs 0 [] p"

text \<open>\<open>os.Lstat\<close> and \<open>os.Stat\<close>.\<close>

definition lstat :: "fsys \<Rightarrow> string list \<Rightarrow> file_entry option" where
  "lstat fs p = (if p = [] then Some DirEntry
     else case eval_symlinks fs (butlast p) of Inl _ \<Rightarrow> None | Inr d \<Rightarrow> if entry_at fs d = Some DirEntry then entry_at fs (d @ [last p]) else None)"

definition stat :: "fsys \<Rightarrow> string list \<Rightarrow> fs_error + file_entry" where
  "stat fs p = (case eval_symlinks fs p of
     Inl e \<Rightarrow> Inl e | Inr d \<Rightarrow> (case entry_at fs d of None \<Rightarrow> Inl NotExist | Some x \<Rightarrow> Inr x))"

section \<open>Allowed paths\<close>

record path_browser =
  br_roots :: "string list"
  br_cwd :: string

definition new_path_browser :: "string \<Rightarrow> string \<Rightarrow> path_browser" where
  "new_path_browser cwd home = \<lparr>br_roots = [''/data'', ''/cache'', home, cwd], br_cwd = cwd\<rparr>"

definition within_root :: "string \<Rightarrow> string \<Rightarrow> bool" where
  "within_root base p = (case path_rel base p of
     None \<Rightarrow> False | Some rel \<Rightarrow> rel \<noteq> ''..'' \<and> \<not> has_prefix rel ''../'' \<and> \<not> is_abs rel)"

text \<open>\<open>canonicalPath\<close>: the nearest ancestor that exists is resolved too, so that a link in the middle is seen.\<close>

function canonical_path :: "fsys \<Rightarrow> string list \<Rightarrow> fs_error + string list" where
  "canonical_path fs p = (case eval_symlinks fs p of
     Inr d \<Rightarrow> Inr d
   | Inl e \<Rightarrow>
       if e \<noteq> NotExist then Inl e
       else if lstat fs p \<noteq> None then Inl e
       else if p = [] then Inl e
       else map_sum id (\<lambda>d. d @ [last p]) (canonical_path fs (butlast p)))"
  by auto

termination by (relation "measure (\<lambda>(fs, p). length p)") auto

declare canonical_path.simps [simp del]

definition abs_text :: "string list \<Rightarrow> string" where
  "abs_text p = ''/'' @ join_with ''/'' p"

definition browser_resolve :: "fsys \<Rightarrow> path_browser \<Rightarrow> string \<Rightarrow> fs_error option + string list" where
  "browser_resolve fs b p =
     (let path = (if is_abs p then path_clean p else path_join [br_cwd b, p])
      in case canonical_path fs (path_segs path) of
        Inl e \<Rightarrow> Inl (Some e)
      | Inr resolved \<Rightarrow>
          if list_ex (\<lambda>r. case eval_symlinks fs (path_segs r) of
               Inl _ \<Rightarrow> False
             | Inr c \<Rightarrow> (within_root r path \<or> within_root (abs_text c) path) \<and> within_root (abs_text c) (abs_text resolved)) (br_roots b)
          then Inr resolved else Inl None)"

definition database_file :: "string \<Rightarrow> bool" where
  "database_file p = (to_lower (path_ext p) \<in> {''.db'', ''.sqlite'', ''.sqlite3''})"

section \<open>Choosing a path\<close>

text \<open>\<open>selection\<close>: a directory for the STRM files, or a database in a directory; the path need not exist yet.\<close>

definition existing :: "fsys \<Rightarrow> string list \<Rightarrow> fs_error + file_entry option" where
  "existing fs p = (case stat fs p of Inr x \<Rightarrow> Inr (Some x) | Inl NotExist \<Rightarrow> Inr None | Inl e \<Rightarrow> Inl e)"

definition database_selection :: "fsys \<Rightarrow> string list \<Rightarrow> file_entry option \<Rightarrow> fs_error option + string list" where
  "database_selection fs p info =
     (if \<not> database_file (abs_text p) \<or> (info \<noteq> None \<and> info \<noteq> Some RegularEntry) then Inl None else Inr p)"

definition browser_selection :: "fsys \<Rightarrow> path_browser \<Rightarrow> string \<Rightarrow> bool \<Rightarrow> fs_error option + string list" where
  "browser_selection fs b path database =
     (if trim_space path = '''' then Inl None
      else case browser_resolve fs b path of
        Inl e \<Rightarrow> Inl e
      | Inr p \<Rightarrow> (case existing fs p of
          Inl e \<Rightarrow> Inl (Some e)
        | Inr info \<Rightarrow>
            if \<not> database then (if info \<noteq> None \<and> info \<noteq> Some DirEntry then Inl None else Inr p)
            else if info = Some DirEntry then
              (case browser_resolve fs b (abs_text (p @ [''magnet.db''])) of
                Inl e \<Rightarrow> Inl e
              | Inr q \<Rightarrow> (case existing fs q of Inl e \<Rightarrow> Inl (Some e) | Inr info2 \<Rightarrow> database_selection fs q info2))
            else database_selection fs p info))"

section \<open>Browsing\<close>

record path_node =
  nd_key :: string
  nd_title :: string
  nd_directory :: bool
  nd_leaf :: bool

definition root_nodes :: "fsys \<Rightarrow> path_browser \<Rightarrow> path_node list" where
  "root_nodes fs b = List.map_filter (\<lambda>r. if stat fs (path_segs r) = Inr DirEntry
     then Some \<lparr>nd_key = r, nd_title = r, nd_directory = True, nd_leaf = False\<rparr> else None) (rev (remdups (rev (br_roots b))))"

definition child_node :: "fsys \<Rightarrow> path_browser \<Rightarrow> bool \<Rightarrow> string list \<Rightarrow> string \<Rightarrow> path_node option" where
  "child_node fs b database dir name =
     (if has_prefix name ''.'' then None
      else let child = abs_text (dir @ [name])
        in case browser_resolve fs b child of
          Inl _ \<Rightarrow> None
        | Inr safe \<Rightarrow> (case stat fs safe of
            Inl _ \<Rightarrow> None
          | Inr x \<Rightarrow>
              if x \<noteq> DirEntry \<and> (\<not> database \<or> x \<noteq> RegularEntry \<or> \<not> database_file (abs_text safe)) then None
              else Some \<lparr>nd_key = child, nd_title = name, nd_directory = (x = DirEntry), nd_leaf = (x \<noteq> DirEntry)\<rparr>))"

fun text_less :: "string \<Rightarrow> string \<Rightarrow> bool" where
  "text_less a [] = False"
| "text_less [] (d # b) = True"
| "text_less (c # a) (d # b) = (code_of c < code_of d \<or> (c = d \<and> text_less a b))"

definition node_before :: "path_node \<Rightarrow> path_node \<Rightarrow> bool" where
  "node_before m n = (if nd_directory m \<noteq> nd_directory n then nd_directory m else text_less (to_lower (nd_title m)) (to_lower (nd_title n)))"

text \<open>A stable sort: a node goes behind every node it is not before.\<close>

fun insert_node :: "path_node \<Rightarrow> path_node list \<Rightarrow> path_node list" where
  "insert_node n [] = [n]"
| "insert_node n (m # ms) = (if node_before m n then m # insert_node n ms else n # m # ms)"

definition sort_nodes :: "path_node list \<Rightarrow> path_node list" where
  "sort_nodes ns = foldr insert_node ns []"

definition present_node :: "path_node \<Rightarrow> json" where
  "present_node n = JObj [(''key'', JStr (nd_key n)), (''title'', JStr (nd_title n)), (''path'', JStr (nd_key n)),
     (''is_directory'', JBool (nd_directory n)), (''isLeaf'', JBool (nd_leaf n))]"

text \<open>The answer: a status with the nodes. \<open>names\<close> are the entries of a directory, in the order of \<open>os.ReadDir\<close>.\<close>

definition browse :: "fsys \<Rightarrow> (string list \<Rightarrow> string list) \<Rightarrow> path_browser \<Rightarrow> string \<Rightarrow> string \<Rightarrow> nat + path_node list" where
  "browse fs names b kind path =
     (if kind \<noteq> ''database'' \<and> kind \<noteq> ''directory'' then Inl 400
      else if path = '''' then Inr (root_nodes fs b)
      else case browser_resolve fs b path of
        Inl _ \<Rightarrow> Inl 403
      | Inr dir \<Rightarrow>
          if stat fs dir \<noteq> Inr DirEntry then Inl 400
          else Inr (sort_nodes (List.map_filter (child_node fs b (kind = ''database'') dir) (names dir))))"

definition browser_serve :: "fsys \<Rightarrow> (string list \<Rightarrow> string list) \<Rightarrow> path_browser \<Rightarrow> string \<Rightarrow> string \<Rightarrow> nat \<times> path_node list" where
  "browser_serve fs names b meth raw_query =
     (if meth \<noteq> ''GET'' then (405, [])
      else let q = fst (parse_query raw_query); get = (\<lambda>k. case query_values q k of [] \<Rightarrow> '''' | v # _ \<Rightarrow> v)
        in case browse fs names b (get ''kind'') (get ''path'') of Inl status \<Rightarrow> (status, []) | Inr ns \<Rightarrow> (200, ns))"

end
