(* ===== verification/Browser_Facts.thy ===== *)
theory Browser_Facts
  imports Path_Browser
begin

text \<open>
  The choice of paths stays inside the allowed directories, also when symbolic links lead out of them.
\<close>

section \<open>Plain paths\<close>

lemma clean_rooted_plain:
  "list_all (\<lambda>x. slash \<notin> set x) xs \<Longrightarrow> list_all plain_seg st \<Longrightarrow> list_all plain_seg (clean_segs True st xs)"
proof (induction xs arbitrary: st)
  case (Cons x xs)
  have IH: "list_all plain_seg st' \<Longrightarrow> list_all plain_seg (clean_segs True st' xs)" for st' using Cons.IH Cons.prems(1) by simp
  consider "x = '''' \<or> x = ''.''" | "x = ''..''" | "plain_seg x" using Cons.prems(1) by (auto simp: plain_seg_def)
  then show ?case
  proof cases
    case 1
    then show ?thesis using IH [OF Cons.prems(2)] by auto
  next
    case 2
    then show ?thesis using IH Cons.prems(2) by (cases st) auto
  next
    case 3
    then show ?thesis using IH [of "x # st"] Cons.prems(2) by (auto simp: plain_seg_def [of x])
  qed
qed simp

lemma path_segs_abs: "is_abs p \<Longrightarrow> list_all plain_seg (path_segs p)"
  unfolding path_segs_def by (simp, rule clean_rooted_plain) (auto simp: list_all_iff dest: set_split_on)

lemma path_segs_abs_text: "list_all plain_seg p \<Longrightarrow> path_segs (abs_text p) = p"
proof (cases "p = []")
  case False
  assume p: "list_all plain_seg p"
  have "split_on slash (abs_text p) = '''' # p" using split_join_plain [OF False p] by (simp add: abs_text_def)
  then show ?thesis using clean_segs_plain [OF p] by (simp add: path_segs_def abs_text_def is_abs_def)
qed (simp add: abs_text_def path_segs_def)

lemma abs_text_abs [simp]: "is_abs (abs_text p)"
  by (simp add: abs_text_def is_abs_def)

section \<open>Followed links\<close>

text \<open>A resolved path: its segments are plain and none of its beginnings is a link.\<close>

definition link_free :: "fsys \<Rightarrow> string list \<Rightarrow> bool" where
  "link_free fs p \<longleftrightarrow> list_all plain_seg p \<and> (\<forall>q t. prefix q p \<longrightarrow> q \<noteq> [] \<longrightarrow> fs q \<noteq> Some (LinkEntry t))"

lemma link_free_Nil [simp]: "link_free fs []"
  by (simp add: link_free_def)

lemma link_free_butlast: "link_free fs p \<Longrightarrow> link_free fs (butlast p)"
  unfolding link_free_def by (auto simp: list_all_iff dest: in_set_butlastD) (metis prefix_order.trans prefixeq_butlast)

lemma link_free_snoc:
  "link_free fs (p @ [x]) \<longleftrightarrow> link_free fs p \<and> plain_seg x \<and> (\<forall>t. fs (p @ [x]) \<noteq> Some (LinkEntry t))"
  by (auto simp: link_free_def prefix_snoc)

lemma walk_link_free:
  "walk_links fs n dest todo = Inr d \<Longrightarrow> link_free fs dest \<Longrightarrow> list_all (\<lambda>x. slash \<notin> set x) todo \<Longrightarrow> link_free fs d"
proof (induction fs n dest todo rule: walk_links.induct)
  case (1 fs n dest)
  then show ?case by (simp add: walk_links.simps)
next
  case (2 fs n dest x todo)
  note run = "2.prems"(1) and free = "2.prems"(2) and segs = "2.prems"(3)
  consider "x = '''' \<or> x = ''.''" | "x = ''..''" | "plain_seg x" using segs by (auto simp: plain_seg_def)
  then show ?case
  proof cases
    case 1
    with "2.IH"(1) [OF 1] run free segs show ?thesis by (simp add: walk_links.simps)
  next
    case 2
    then have n: "\<not> (x = '''' \<or> x = ''.'')" by simp
    with 2 "2.IH"(2) [OF n 2] run link_free_butlast [OF free] segs show ?thesis by (simp add: walk_links.simps)
  next
    case 3
    then have n: "\<not> (x = '''' \<or> x = ''.'')" "x \<noteq> ''..''" by (auto simp: plain_seg_def)
    obtain e where e: "entry_at fs (dest @ [x]) = Some e"
      using run n by (auto simp: walk_links.simps split: option.splits)
    then have fse: "fs (dest @ [x]) = Some e" by (simp add: entry_at_def)
    show ?thesis
    proof (cases e)
      case DirEntry
      have "link_free fs (dest @ [x])" using free 3 fse DirEntry by (simp add: link_free_snoc)
      with "2.IH"(3) [OF n e DirEntry] run n e DirEntry segs show ?thesis by (simp add: walk_links.simps)
    next
      case (LinkEntry t)
      have l: "\<not> 255 \<le> n" using run n e LinkEntry by (auto simp: walk_links.simps split: if_splits)
      have "list_all (\<lambda>x. slash \<notin> set x) (split_on slash t @ todo)" using segs by (auto simp: list_all_iff dest: set_split_on)
      with "2.IH"(4) [OF n e LinkEntry l] run n e LinkEntry l free show ?thesis by (simp add: walk_links.simps)
    qed (use run n e free 3 fse in \<open>auto simp: walk_links.simps link_free_snoc split: if_splits\<close>)
  qed
qed

lemma eval_link_free:
  assumes "eval_symlinks fs p = Inr d" "list_all plain_seg p"
  shows "link_free fs d"
proof -
  have "list_all (\<lambda>x. slash \<notin> set x) p" using assms(2) by (auto simp: list_all_iff plain_seg_def)
  with assms(1) show ?thesis unfolding eval_symlinks_def by (blast intro: walk_link_free link_free_Nil)
qed

text \<open>A path without links leads to itself.\<close>

lemma walk_itself:
  "link_free fs (dest @ todo) \<Longrightarrow> walk_links fs n dest todo = Inr d \<Longrightarrow> d = dest @ todo"
proof (induction todo arbitrary: dest)
  case Nil
  then show ?case by (simp add: walk_links.simps)
next
  case (Cons x todo)
  have free: "link_free fs ((dest @ [x]) @ todo)" using Cons.prems(1) by simp
  have "prefix (dest @ [x]) (dest @ x # todo)" by simp
  then have no: "fs (dest @ [x]) \<noteq> Some (LinkEntry t)" for t
    using Cons.prems(1) unfolding link_free_def by blast
  have "plain_seg x" using Cons.prems(1) by (simp add: link_free_def)
  then have n: "\<not> (x = '''' \<or> x = ''.'')" "x \<noteq> ''..''" by (auto simp: plain_seg_def)
  from Cons.prems(2) n no show ?case
    using Cons.IH [OF free] by (auto simp: walk_links.simps entry_at_def split: option.splits file_entry.splits if_splits)
qed

section \<open>What does not exist yet\<close>

text \<open>Every entry of a file system is in a directory.\<close>

definition tree_shaped :: "fsys \<Rightarrow> bool" where
  "tree_shaped fs \<longleftrightarrow> (\<forall>q x. fs (q @ [x]) \<noteq> None \<longrightarrow> entry_at fs q = Some DirEntry)"

lemma canonical_cases:
  "canonical_path fs p = Inr d \<Longrightarrow> list_all plain_seg p \<Longrightarrow> tree_shaped fs \<Longrightarrow> link_free fs d \<and> (eval_symlinks fs p = Inr d \<or> entry_at fs d = None)"
proof (induction fs p arbitrary: d rule: canonical_path.induct)
  case (1 fs p)
  show ?case
  proof (cases "eval_symlinks fs p")
    case (Inr d')
    with "1.prems" eval_link_free show ?thesis by (auto simp: canonical_path.simps)
  next
    case (Inl e)
    from "1.prems"(1) Inl have e: "e = NotExist" and l: "lstat fs p = None" and ne: "p \<noteq> []"
      by (auto simp: canonical_path.simps [of fs p] split: if_splits)
    from "1.prems"(1) Inl e l ne obtain d' where d': "canonical_path fs (butlast p) = Inr d'" "d = d' @ [last p]"
      by (cases "canonical_path fs (butlast p)") (auto simp: canonical_path.simps [of fs p])
    have plain: "list_all plain_seg (butlast p)" "plain_seg (last p)"
      using "1.prems"(2) ne by (auto simp: list_all_iff dest: in_set_butlastD)
    from "1.IH" [OF Inl _ _ ne d'(1) plain(1) "1.prems"(3)] e l
    have ih: "link_free fs d'" "eval_symlinks fs (butlast p) = Inr d' \<or> entry_at fs d' = None" by simp_all
    have none: "fs (d' @ [last p]) = None"
    proof (rule ccontr)
      assume some: "fs (d' @ [last p]) \<noteq> None"
      with "1.prems"(3) have dir: "entry_at fs d' = Some DirEntry" unfolding tree_shaped_def by blast
      with ih(2) have "eval_symlinks fs (butlast p) = Inr d'" by simp
      with l ne dir some show False by (simp add: lstat_def entry_at_def)
    qed
    with ih(1) plain(2) d'(2) show ?thesis by (simp add: link_free_snoc entry_at_def)
  qed
qed

section \<open>Inside the roots\<close>

lemma strip_common_prefix: "strip_common xs ys = ([], down) \<Longrightarrow> ys = xs @ down"
  by (induction xs ys rule: strip_common.induct) (auto split: if_splits)

lemma strip_common_ups: "strip_common xs ys = (ups, down) \<Longrightarrow> set ups \<subseteq> set xs"
  by (induction xs ys rule: strip_common.induct) (auto split: if_splits)

lemma within_root_prefix:
  assumes "within_root (abs_text c) (abs_text p)" "list_all plain_seg c" "list_all plain_seg p"
  shows "prefix c p"
proof -
  obtain ups down where s: "strip_common c p = (ups, down)" by fastforce
  have "ups = []"
  proof (rule ccontr)
    assume ne: "ups \<noteq> []"
    then obtain u us where u: "ups = u # us" by (cases ups) auto
    have "u \<noteq> ''..''" using strip_common_ups [OF s] assms(2) u by (auto simp: list_all_iff plain_seg_def)
    then have rel: "path_rel (abs_text c) (abs_text p) = Some (join_with ''/'' (map (\<lambda>_. ''..'') ups @ down))"
      using s u by (simp add: path_rel_def path_segs_abs_text assms(2,3))
    have "join_with ''/'' (map (\<lambda>_. ''..'') ups @ down) = ''..'' \<or> has_prefix (join_with ''/'' (map (\<lambda>_. ''..'') ups @ down)) ''../''"
      using u by (cases "map (\<lambda>_. ''..'') us @ down") auto
    with assms(1) rel show False by (simp add: within_root_def)
  qed
  with s have "p = c @ down" by (auto intro: strip_common_prefix)
  then show ?thesis by simp
qed

text \<open>A path the browser accepts: it is below an allowed directory and following links from it leads nowhere else.\<close>

definition inside :: "fsys \<Rightarrow> path_browser \<Rightarrow> string list \<Rightarrow> bool" where
  "inside fs b p \<longleftrightarrow> (\<exists>r \<in> set (br_roots b). \<exists>c. eval_symlinks fs (path_segs r) = Inr c \<and> prefix c p) \<and>
     (\<forall>d. eval_symlinks fs p = Inr d \<longrightarrow> d = p)"

lemma resolve_inside:
  assumes fs: "tree_shaped fs" and b: "is_abs (br_cwd b)" "\<forall>r \<in> set (br_roots b). is_abs r" and run: "browser_resolve fs b path = Inr p"
  shows "inside fs b p"
proof -
  define t where "t = (if is_abs path then path_clean path else path_join [br_cwd b, path])"
  have "is_abs t"
    using b(1) by (cases "path = ''''")
      (auto simp: t_def path_clean_def path_join_def Let_def is_abs_def has_prefix_iff)
  then have plain: "list_all plain_seg (path_segs t)" by (rule path_segs_abs)
  from run have canon: "canonical_path fs (path_segs t) = Inr p"
    by (auto simp: browser_resolve_def Let_def t_def [symmetric] split: sum.splits if_splits)
  with run obtain r where r0: "r \<in> set (br_roots b)" and in_root: "case eval_symlinks fs (path_segs r) of Inl _ \<Rightarrow> False
      | Inr c \<Rightarrow> (within_root r t \<or> within_root (abs_text c) t) \<and> within_root (abs_text c) (abs_text p)"
    by (auto simp: browser_resolve_def Let_def t_def [symmetric] list_ex_iff split: if_splits)
  then obtain c where r: "r \<in> set (br_roots b)" "eval_symlinks fs (path_segs r) = Inr c" "within_root (abs_text c) (abs_text p)"
    by (cases "eval_symlinks fs (path_segs r)") auto
  from canonical_cases [OF canon plain fs] have free: "link_free fs p" by simp
  have "link_free fs c" using r b(2) by (intro eval_link_free [OF r(2)] path_segs_abs) blast
  with within_root_prefix [OF r(3)] free have "prefix c p" by (simp add: link_free_def)
  moreover have "d = p" if "eval_symlinks fs p = Inr d" for d
    using walk_itself [of fs "[]" p] free that by (simp add: eval_symlinks_def)
  ultimately show ?thesis using r by (auto simp: inside_def)
qed

lemma selection_inside:
  assumes "tree_shaped fs" "is_abs (br_cwd b)" "\<forall>r \<in> set (br_roots b). is_abs r" "browser_selection fs b path database = Inr p"
  shows "inside fs b p"
proof -
  have "\<exists>q. browser_resolve fs b q = Inr p"
    using assms(4)
    by (auto simp: browser_selection_def database_selection_def split: sum.splits if_splits)
  with resolve_inside [OF assms(1-3)] show ?thesis by blast
qed

lemma sort_nodes_set: "set (sort_nodes ns) = set ns"
proof -
  have i: "set (insert_node n ms) = insert n (set ms)" for n ms by (induction ms) auto
  show ?thesis by (induction ns) (auto simp: sort_nodes_def i)
qed

lemma child_inside:
  assumes "child_node fs b database dir name = Some n"
  shows "\<exists>q. browser_resolve fs b (nd_key n) = Inr q"
  using assms by (auto simp: child_node_def Let_def split: if_splits sum.splits)

text \<open>C20. The choice of paths stays inside: whatever path is chosen, with \<open>..\<close> and with symbolic links anywhere in it, also one that
  does not exist yet, the path that is accepted lies below an allowed directory, and using it leads nowhere else; and every path
  that is listed is one that would be accepted.\<close>

theorem chosen_paths_stay_inside:
  assumes fs: "tree_shaped fs" and b: "is_abs (br_cwd b)" "\<forall>r \<in> set (br_roots b). is_abs r"
    and chosen: "browser_selection fs b path database = Inr p" and listed: "path2 \<noteq> ''''" "browse fs names b kind path2 = Inr ns"
  shows "inside fs b p \<and> (\<forall>n \<in> set ns. \<exists>q. browser_resolve fs b (nd_key n) = Inr q \<and> inside fs b q)"
proof
  show "inside fs b p" by (rule selection_inside [OF fs b chosen])
  show "\<forall>n \<in> set ns. \<exists>q. browser_resolve fs b (nd_key n) = Inr q \<and> inside fs b q"
  proof
    fix n assume "n \<in> set ns"
    with listed obtain dir name where "child_node fs b (kind = ''database'') dir name = Some n"
      by (auto simp: browse_def sort_nodes_set List.map_filter_def split: if_splits sum.splits)
    from child_inside [OF this] resolve_inside [OF fs b] show "\<exists>q. browser_resolve fs b (nd_key n) = Inr q \<and> inside fs b q" by blast
  qed
qed

text \<open>A directory with a link out of it, a link inside it, and a file.\<close>

definition sample_fs :: fsys where
  "sample_fs p =
     (if p = [''data''] \<or> p = [''etc''] \<or> p = [''data'', ''strms''] then Some DirEntry
      else if p = [''data'', ''out''] then Some (LinkEntry ''../etc'')
      else if p = [''data'', ''here''] then Some (LinkEntry ''strms'')
      else if p = [''etc'', ''passwd.db''] \<or> p = [''data'', ''a.db''] then Some RegularEntry
      else None)"

definition sample_browser :: path_browser where
  "sample_browser = \<lparr>br_roots = [''/data''], br_cwd = ''/data''\<rparr>"

lemma sample_fs_shaped: "tree_shaped sample_fs"
  by (auto simp: tree_shaped_def sample_fs_def entry_at_def append_eq_Cons_conv split: if_splits)

theorem chosen_paths_stay_inside_witness:
  "browser_selection sample_fs sample_browser ''/data/out/passwd.db'' True = Inl None \<and>
   (\<exists>p. browser_selection sample_fs sample_browser ''here/new'' False = Inr p \<and> p = [''data'', ''strms'', ''new''] \<and>
     inside sample_fs sample_browser p)"
proof -
  have out: "browser_selection sample_fs sample_browser ''/data/out/passwd.db'' True = Inl None" by code_simp
  have chosen: "browser_selection sample_fs sample_browser ''here/new'' False = Inr [''data'', ''strms'', ''new'']" by code_simp
  have listed: "browse sample_fs (\<lambda>_. []) sample_browser ''directory'' ''/data'' = Inr []" by code_simp
  have b: "is_abs (br_cwd sample_browser)" "\<forall>r \<in> set (br_roots sample_browser). is_abs r"
    by (simp_all add: sample_browser_def is_abs_def)
  from chosen_paths_stay_inside [OF sample_fs_shaped b chosen _ listed] out chosen show ?thesis by simp
qed

end
