(* ===== verification/Config_Api.thy ===== *)
theory Config_Api
  imports Config Path_Browser Credential_Store
begin

text \<open>
  \<open>internal/transport/httpserver/config.go\<close>: the page that shows and changes the configuration, in front of the rest of the
  server. The tokens are read and saved by two functions the server is started with; here they are operations on a world of
  their own, which stands beside the files. The JSON of a request is decoded already; requests are handled one at a time, as
  the lock of the code makes them.
\<close>

section \<open>State\<close>

record 'w config_world =
  kw_files :: config_files
  kw_tokens :: 'w
  kw_saved :: nat

text \<open>\<open>ConfigHooks\<close>: reading the tokens of a database, and saving those that are given for one, which returns tokens also with
  an error. \<open>hk_on_saved\<close> says whether somebody
  is told after a change, as during the setup.\<close>

record 'w config_hooks =
  hk_read_tokens :: "string \<Rightarrow> ('w, credential) io"
  hk_save_tokens :: "string \<Rightarrow> string option \<Rightarrow> string option \<Rightarrow> 'w \<Rightarrow> (credential \<times> bool \<times> err option) \<times> 'w"
  hk_on_saved :: bool

record config_server =
  kv_toml :: toml
  kv_env :: environment
  kv_fsys :: fsys
  kv_browser :: path_browser
  kv_path :: string
  kv_check_rclone :: "rclone_settings \<Rightarrow> err option"

record config_request =
  kr_method :: string
  kr_origin :: string
  kr_host :: string
  kr_body :: "(file_config \<times> (string \<times> string option) list) option"

record config_view =
  cv_settings :: file_config
  cv_tokens :: credential
  cv_setup_mode :: bool
  cv_configured :: "(string \<times> bool) list"

record saved_view =
  sd_restart_required :: bool
  sd_restarting :: bool
  sd_restart_url :: string
  sd_refreshed :: bool
  sd_refresh_failed :: bool
  sd_tokens :: credential

datatype config_answer = ConfigError nat | ConfigShown config_view | ConfigSaved saved_view

definition on_files :: "(config_files, 'a) io \<Rightarrow> ('w config_world, 'a) io" where
  "on_files m = (\<lambda>w. case m (kw_files w) of (r, fs) \<Rightarrow> (r, w\<lparr>kw_files := fs\<rparr>))"

definition on_tokens :: "('w, 'a) io \<Rightarrow> ('w config_world, 'a) io" where
  "on_tokens m = (\<lambda>w. case m (kw_tokens w) of (r, t) \<Rightarrow> (r, w\<lparr>kw_tokens := t\<rparr>))"

text \<open>An error of a step is an answer with a status.\<close>

definition or_status :: "nat \<Rightarrow> ('w, 'a) io \<Rightarrow> ('a \<Rightarrow> ('w, config_answer) io) \<Rightarrow> ('w, config_answer) io" where
  "or_status status m f = io_try m (\<lambda>r. case r of Inl _ \<Rightarrow> io_ret (ConfigError status) | Inr x \<Rightarrow> f x)"

section \<open>Changing\<close>

text \<open>The credentials of a request; the tokens go to the database.\<close>

fun apply_credentials :: "(string \<times> string option) list \<Rightarrow> secrets \<Rightarrow> secrets option" where
  "apply_credentials [] s = Some s"
| "apply_credentials ((k, v) # rest) s = (case v of
     None \<Rightarrow> apply_credentials rest s
   | Some x \<Rightarrow>
       if k = ''p115_auth_token'' \<or> k = ''p115_refresh_token'' then apply_credentials rest s
       else if k = ''aria2_rpc_secret'' then apply_credentials rest (s\<lparr>se_aria2_rpc_secret := x\<rparr>)
       else if k = ''qbittorrent_username'' then apply_credentials rest (s\<lparr>se_qbit_username := x\<rparr>)
       else if k = ''qbittorrent_password'' then apply_credentials rest (s\<lparr>se_qbit_password := x\<rparr>)
       else None)"

definition given_credential :: "string \<Rightarrow> (string \<times> string option) list \<Rightarrow> string option" where
  "given_credential k cs = (case map_of cs k of Some v \<Rightarrow> v | None \<Rightarrow> None)"

definition same_site :: "config_request \<Rightarrow> bool" where
  "same_site q = (kr_origin q = '''' \<or> (case url_parse (kr_origin q) of None \<Rightarrow> False | Some u \<Rightarrow> u_host u = kr_host q))"

definition with_paths :: "string list \<Rightarrow> string list \<Rightarrow> file_config \<Rightarrow> file_config" where
  "with_paths database dir s =
     s\<lparr>fc_database_path := abs_text database, fc_library := (fc_library s)\<lparr>ls_strm_dir := abs_text dir\<rparr>\<rparr>"

definition kept_settings :: "file_config \<Rightarrow> secrets \<Rightarrow> file_config \<Rightarrow> file_config" where
  "kept_settings stored credentials s =
     s\<lparr>fc_http := (fc_http s)\<lparr>hs_listen_addr := hs_listen_addr (fc_http stored)\<rparr>, fc_credentials := credentials\<rparr>"

text \<open>Saving: first the file, then the tokens, whose error is reported with the success of the rest.\<close>

definition save_and_report :: "config_server \<Rightarrow> 'w config_hooks \<Rightarrow> write_failure option \<Rightarrow> file_config \<Rightarrow> file_config \<Rightarrow> string \<Rightarrow>
    string option \<Rightarrow> string option \<Rightarrow> ('w config_world, config_answer) io" where
  "save_and_report v hooks failure stored s database refresh access =
     or_status 400 (on_files (save_settings (kv_toml v) (kv_env v) failure (kv_path v) s)) (\<lambda>_.
     io_bind (\<lambda>w. case hk_save_tokens hooks database refresh access (kw_tokens w) of (x, t) \<Rightarrow> (Inr x, w\<lparr>kw_tokens := t\<rparr>)) (\<lambda>(tokens, refreshed, failed).
     io_try (on_files (read_settings (kv_toml v) (kv_path v))) (\<lambda>saved.
       let changed = (case saved of Inl _ \<Rightarrow> True | Inr x \<Rightarrow> x \<noteq> without_tokens stored)
       in (\<lambda>w. (Inr (ConfigSaved \<lparr>sd_restart_required = (\<not> hk_on_saved hooks \<and> changed), sd_restarting = hk_on_saved hooks,
            sd_restart_url = hs_public_base_url (fc_http s), sd_refreshed = refreshed, sd_refresh_failed = (failed \<noteq> None),
            sd_tokens = tokens\<rparr>),
          if hk_on_saved hooks then w\<lparr>kw_saved := kw_saved w + 1\<rparr> else w)))))"

definition put_config :: "config_server \<Rightarrow> 'w config_hooks \<Rightarrow> write_failure option \<Rightarrow> string \<Rightarrow> config_request \<Rightarrow>
    ('w config_world, config_answer) io" where
  "put_config v hooks failure cwd q =
     (if \<not> same_site q then io_ret (ConfigError 403)
      else case kr_body q of
        None \<Rightarrow> io_ret (ConfigError 400)
      | Some (settings, given) \<Rightarrow>
          or_status 500 (on_files (read_settings (kv_toml v) (kv_path v))) (\<lambda>stored.
          case apply_credentials given (fc_credentials stored) of
            None \<Rightarrow> io_ret (ConfigError 400)
          | Some credentials \<Rightarrow>
              (case browser_selection (kv_fsys v) (kv_browser v) (fc_database_path settings) True of
                Inl _ \<Rightarrow> io_ret (ConfigError 400)
              | Inr database \<Rightarrow>
              (case browser_selection (kv_fsys v) (kv_browser v) (ls_strm_dir (fc_library settings)) False of
                Inl _ \<Rightarrow> io_ret (ConfigError 400)
              | Inr dir \<Rightarrow>
                  or_status 500 (on_tokens (hk_read_tokens hooks (fc_database_path stored))) (\<lambda>existing.
                  let moved = (abs_text database \<noteq> path_abs cwd (fc_database_path stored));
                      pick = (\<lambda>k old. case given_credential k given of Some x \<Rightarrow> Some x | None \<Rightarrow> if moved then Some old else None);
                      refresh = pick ''p115_refresh_token'' (cr_refresh existing);
                      access = pick ''p115_auth_token'' (cr_access existing);
                      s = with_paths database dir (kept_settings stored credentials settings)
                  in if (case refresh of None \<Rightarrow> cr_refresh existing | Some x \<Rightarrow> trim_space x) = '''' then io_ret (ConfigError 400)
                     else if kv_check_rclone v (fc_rclone s) \<noteq> None then io_ret (ConfigError 400)
                     else save_and_report v hooks failure stored s (abs_text database) refresh access)))))"

section \<open>Showing\<close>

definition show_config :: "config_server \<Rightarrow> 'w config_hooks \<Rightarrow> write_failure option \<Rightarrow> ('w config_world, config_answer) io" where
  "show_config v hooks failure =
     or_status 500 (on_files (ensure_file (kv_toml v) failure (kv_path v) '''' '''')) (\<lambda>_.
     or_status 500 (on_files (read_settings (kv_toml v) (kv_path v))) (\<lambda>s.
     or_status 500 (on_tokens (hk_read_tokens hooks (fc_database_path s))) (\<lambda>t.
       let o2 = load_secrets (kv_env v); c = fc_credentials s;
           set_in = (\<lambda>f. override (f o2) (f c) \<noteq> '''')
       in io_ret (ConfigShown \<lparr>cv_settings = s, cv_tokens = t, cv_setup_mode = hk_on_saved hooks,
            cv_configured = [(''p115_refresh_token'', cr_refresh t \<noteq> ''''), (''p115_auth_token'', cr_access t \<noteq> ''''),
              (''aria2_rpc_secret'', set_in se_aria2_rpc_secret), (''qbittorrent_username'', set_in se_qbit_username),
              (''qbittorrent_password'', set_in se_qbit_password)]\<rparr>))))"

definition config_serve :: "config_server \<Rightarrow> 'w config_hooks \<Rightarrow> write_failure option \<Rightarrow> string \<Rightarrow> config_request \<Rightarrow>
    ('w config_world, config_answer) io" where
  "config_serve v hooks failure cwd q =
     (if kr_method q = ''GET'' then show_config v hooks failure
      else if kr_method q = ''PUT'' then put_config v hooks failure cwd q
      else io_ret (ConfigError 405))"

text \<open>Where a request goes: the paths of the configuration, or the server behind it; during the setup there is only the page.\<close>

datatype config_route = ToFilesystem | ToConfig | ToNext | ToAssets | NotConfigured

definition config_target :: "string \<Rightarrow> config_route" where
  "config_target p = (if p = ''/api/v1/filesystem'' then ToFilesystem else if p = ''/api/v1/config'' then ToConfig else ToNext)"

definition setup_route :: "string \<Rightarrow> config_route" where
  "setup_route p = (case config_target p of
     ToNext \<Rightarrow>
       if has_prefix p ''/api/'' \<or> p = ''/jsonrpc'' \<or> has_prefix p ''/dav'' \<or> has_prefix p ''/objects/'' \<or> has_prefix p ''/redirect/''
       then NotConfigured else ToAssets
   | r \<Rightarrow> r)"

end
