(* ===== verification/Config_Api_Facts.thy ===== *)
theory Config_Api_Facts
  imports Config_Api Config_Facts Browser_Facts
begin

text \<open>
  What a request to the configuration page can change: nothing when it is refused, and otherwise only the settings it may.
\<close>

lemma on_files_run [simp]: "on_files m w = (fst (m (kw_files w)), w\<lparr>kw_files := snd (m (kw_files w))\<rparr>)"
  by (simp add: on_files_def split: prod.splits)

lemma read_settings_keeps [simp]: "snd (read_settings tm p fs) = fs"
  by (simp add: read_settings_def Let_def split: option.splits sum.splits)

text \<open>The settings a request leaves: what it asked for, with the paths that were accepted, the listener and the tokens of the file.\<close>

definition accepted_settings :: "config_server \<Rightarrow> config_request \<Rightarrow> file_config \<Rightarrow> file_config \<Rightarrow> bool" where
  "accepted_settings v q stored s \<longleftrightarrow> (\<exists>settings given credentials database dir. kr_body q = Some (settings, given) \<and>
     s = with_paths database dir (kept_settings stored credentials settings) \<and>
     browser_selection (kv_fsys v) (kv_browser v) (fc_database_path settings) True = Inr database \<and>
     browser_selection (kv_fsys v) (kv_browser v) (ls_strm_dir (fc_library settings)) False = Inr dir)"

lemma save_and_report_run:
  assumes "save_and_report v hooks failure stored s database refresh access w = (r, w')"
  shows "(r = Inr (ConfigError 400) \<and> kw_files w' = kw_files w \<and> kw_saved w' = kw_saved w) \<or>
    (\<exists>x. r = Inr (ConfigSaved x) \<and>
      save_settings (kv_toml v) (kv_env v) failure (kv_path v) s (kw_files w) = (Inr (), kw_files w'))"
proof -
  obtain q fs where q: "save_settings (kv_toml v) (kv_env v) failure (kv_path v) s (kw_files w) = (q, fs)" by fastforce
  show ?thesis
  proof (cases q)
    case (Inl e)
    with save_settings_run [OF q] save_file_cases have "fs = kw_files w"
      by (metis Inl_Inr_False Pair_inject)
    with assms q Inl show ?thesis by (auto simp: save_and_report_def or_status_def io_try_def io_ret_def)
  next
    case (Inr u)
    with assms q show ?thesis
      by (auto simp: save_and_report_def or_status_def io_try_def io_bind_def Let_def split: prod.splits sum.splits)
  qed
qed

lemma put_config_run:
  assumes "put_config v hooks failure cwd q w = (r, w')"
  shows "(\<exists>status. r = Inr (ConfigError status) \<and> kw_files w' = kw_files w \<and> kw_saved w' = kw_saved w) \<or>
    (\<exists>x stored s. r = Inr (ConfigSaved x) \<and> fst (read_settings (kv_toml v) (kv_path v) (kw_files w)) = Inr stored \<and>
      accepted_settings v q stored s \<and> same_site q \<and>
      save_settings (kv_toml v) (kv_env v) failure (kv_path v) s (kw_files w) = (Inr (), kw_files w'))"
proof (cases "\<exists>status. r = Inr (ConfigError status) \<and> kw_files w' = kw_files w \<and> kw_saved w' = kw_saved w")
  case False
  obtain stored where stored: "fst (read_settings (kv_toml v) (kv_path v) (kw_files w)) = Inr stored"
    and site: "same_site q" and body: "kr_body q \<noteq> None"
    using assms False
    by (cases "fst (read_settings (kv_toml v) (kv_path v) (kw_files w))")
      (auto simp: put_config_def or_status_def io_try_def io_ret_def split: if_splits option.splits)
  obtain settings given where q: "kr_body q = Some (settings, given)" using body by (cases "kr_body q") auto
  let ?w1 = "w\<lparr>kw_files := kw_files w\<rparr>"
  obtain credentials database dir where c: "apply_credentials given (fc_credentials stored) = Some credentials"
      "browser_selection (kv_fsys v) (kv_browser v) (fc_database_path settings) True = Inr database"
      "browser_selection (kv_fsys v) (kv_browser v) (ls_strm_dir (fc_library settings)) False = Inr dir"
    using assms False
    by (auto simp: put_config_def or_status_def io_try_def io_ret_def stored site q split: option.splits sum.splits)
  obtain t tw where t: "hk_read_tokens hooks (fc_database_path stored) (kw_tokens w) = (t, tw)" by fastforce
  let ?s = "with_paths database dir (kept_settings stored credentials settings)"
  have "\<exists>refresh access. save_and_report v hooks failure stored ?s (abs_text database) refresh access (w\<lparr>kw_tokens := tw\<rparr>) = (r, w')"
    using assms False
    by (auto simp: put_config_def or_status_def io_try_def io_ret_def stored site q c on_tokens_def t Let_def split: sum.splits if_splits)
  then obtain refresh access where run: "save_and_report v hooks failure stored ?s (abs_text database) refresh access (w\<lparr>kw_tokens := tw\<rparr>) = (r, w')"
    by blast
  have "accepted_settings v q stored ?s" using q c by (auto simp: accepted_settings_def)
  with save_and_report_run [OF run] False stored site show ?thesis by auto
qed simp

text \<open>Only a request that has saved the configuration is told on.\<close>

lemma show_config_saved: "kw_saved (snd (show_config v hooks failure w)) = kw_saved w"
  by (auto simp: show_config_def or_status_def io_try_def io_ret_def on_tokens_def Let_def split: sum.splits prod.splits)

lemma config_serve_saved:
  assumes "kw_saved w < kw_saved (snd (config_serve v hooks failure cwd q w))"
  shows "\<exists>s. save_settings (kv_toml v) (kv_env v) failure (kv_path v) s (kw_files w) =
    (Inr (), kw_files (snd (config_serve v hooks failure cwd q w)))"
proof -
  obtain r w' where run: "config_serve v hooks failure cwd q w = (r, w')" by fastforce
  with assms show_config_saved [of v hooks failure w] have "put_config v hooks failure cwd q w = (r, w')"
    by (auto simp: config_serve_def io_ret_def split: if_splits)
  from put_config_run [OF this] assms run show ?thesis by auto
qed


definition sample_server :: config_server where
  "sample_server = \<lparr>kv_toml = sample_toml, kv_env = Map.empty, kv_fsys = sample_fs, kv_browser = sample_browser, kv_path = ''c.toml'',
     kv_check_rclone = (\<lambda>_. None)\<rparr>"

definition sample_hooks :: "unit config_hooks" where
  "sample_hooks = \<lparr>hk_read_tokens = (\<lambda>_. io_ret \<lparr>cr_access = ''a'', cr_refresh = ''r'', cr_expires = None\<rparr>),
     hk_save_tokens = (\<lambda>_ _ _ t. ((\<lparr>cr_access = ''a'', cr_refresh = ''r'', cr_expires = None\<rparr>, False, None), t)), hk_on_saved = False\<rparr>"

definition sample_change :: config_request where
  "sample_change = \<lparr>kr_method = ''PUT'', kr_origin = '''', kr_host = ''h'',
     kr_body = Some (sample_settings\<lparr>fc_database_path := ''/data/out/passwd.db''\<rparr>, [])\<rparr>"

definition sample_config_world :: "unit config_world" where
  "sample_config_world = \<lparr>kw_files = [''c.toml'' \<mapsto> ''t''], kw_tokens = (), kw_saved = 0\<rparr>"


end
