(* ===== verification/Bootstrap.thy ===== *)
theory Bootstrap
  imports Cloud_Client Config Qbittorrent Aria2
begin

text \<open>
  \<open>internal/bootstrap/app.go\<close>: the parts of the program, made from the configuration and connected. Opening the database
  does not fail, and the log is left out. The world is the one of the cloud client with the configuration files.
\<close>

section \<open>Opening the core\<close>

record ('p, 's) boot_world = "('p, 's) tok_world" +
  bw_files :: config_files

definition on_config_files :: "(config_files, 'a) io \<Rightarrow> (('p, 's, 'z) boot_world_scheme, 'a) io" where
  "on_config_files m = (\<lambda>w. case m (bw_files w) of (r, fs) \<Rightarrow> (r, w\<lparr>bw_files := fs\<rparr>))"

definition fail_on :: "err option \<Rightarrow> ('w, unit) io" where
  "fail_on e = (case e of None \<Rightarrow> io_ret () | Some x \<Rightarrow> io_fail x)"

text \<open>Tokens in the configuration file go to the database, unless it has some, and out of the file.\<close>

definition configured_credential :: "secrets \<Rightarrow> credential" where
  "configured_credential s =
     \<lparr>cr_access = se_p115_auth_token s, cr_refresh = se_p115_refresh_token s, cr_expires = Some 0\<rparr>"

definition seed_configured :: "secrets \<Rightarrow> (('p, 's, 'z) boot_world_scheme, unit) io" where
  "seed_configured s =
     io_try (on_creds (load_credential credential_provider)) (\<lambda>r. case r of
         Inr _ \<Rightarrow> io_ret ()
       | Inl e \<Rightarrow> if errors_is e ErrCredentialNotFound
           then io_bind read_now (\<lambda>t. on_creds (seed_credential t credential_provider (configured_credential s)))
           else io_fail e)"

definition import_tokens :: "toml \<Rightarrow> environment \<Rightarrow> write_failure option \<Rightarrow> config \<Rightarrow> (('p, 's, 'z) boot_world_scheme, unit) io" where
  "import_tokens tm env failure c =
     (let s = cg_credentials c
      in if se_p115_refresh_token s = '''' \<and> se_p115_auth_token s = '''' then io_ret ()
         else io_bind (seed_configured s) (\<lambda>_.
           if cg_file_path c = '''' then io_ret () else on_config_files (remove_legacy_tokens tm env failure (cg_file_path c))))"

definition token_config_of :: "config \<Rightarrow> string \<Rightarrow> token_config" where
  "token_config_of c owner =
     \<lparr>tg_ahead = pc_token_refresh_ahead (cg_p115 c), tg_capacity = pc_request_concurrency (cg_p115 c), tg_refresh = '''',
      tg_auth = '''', tg_owner = owner\<rparr>"

definition service_of :: "config \<Rightarrow> 'p provider \<Rightarrow> strm_service \<Rightarrow> 'p service" where
  "service_of c pv st =
     \<lparr>sv_provider = pv, sv_work_dir = pc_work_dir_id (cg_p115 c), sv_poll_interval = pc_offline_poll (cg_p115 c),
      sv_poll_min = pc_offline_poll_min (cg_p115 c), sv_poll_max = pc_offline_poll_max (cg_p115 c), sv_scan_interval = 0,
      sv_strm = Some st\<rparr>"

definition open_core :: "toml \<Rightarrow> environment \<Rightarrow> write_failure option \<Rightarrow> ('p, 's) sdk_api \<Rightarrow> string \<Rightarrow> string \<Rightarrow> bool \<Rightarrow> config \<Rightarrow>
    (('p, 's, 'z) boot_world_scheme, strm_service) io" where
  "open_core tm env failure api cwd owner optional c =
     io_bind (fail_on (validate_runtime c)) (\<lambda>_.
     io_bind (io_of (new_strm_service cwd (lc_strm_dir (cg_library c)) (hc_public_base_url (cg_http c)))) (\<lambda>st.
     io_bind (import_tokens tm env failure c) (\<lambda>_.
     io_bind (if optional then open_optional api (token_config_of c owner) else open_client api (token_config_of c owner)) (\<lambda>_.
     io_ret st))))"

section \<open>Opening the server\<close>

record ('p, 's, 'w) server_parts =
  sp_service :: "('p, 's) tok_world service"
  sp_materializer :: "(('p, 's) tok_world, 'w) mat_service"
  sp_enabled :: bool

text \<open>What \<open>URL.String\<close> writes of the address files are redirected to is an argument.\<close>

definition materializer_of :: "nat \<Rightarrow> ('p, 's) sdk_api \<Rightarrow> ('p, 's) sdk_cloud \<Rightarrow> (string \<Rightarrow> string \<Rightarrow> ('w, cloud_file) io) option \<Rightarrow>
    base_url \<Rightarrow> config \<Rightarrow> (('p, 's, 'z) tok_world_scheme, 'w) mat_service" where
  "materializer_of fuel api cl restoring base c =
     client_mat_service fuel api cl restoring (pc_work_dir_id (cg_p115 c)) base (hc_redirect_type (cg_http c))
       (hc_materialize_cache_ttl (cg_http c)) (lc_cache_max_size_bytes (cg_library c))"

definition open_server :: "toml \<Rightarrow> environment \<Rightarrow> write_failure option \<Rightarrow> ('p, 's) sdk_api \<Rightarrow> ('p, 's) sdk_cloud \<Rightarrow> string \<Rightarrow> string \<Rightarrow>
    nat \<Rightarrow> base_url \<Rightarrow> (string \<Rightarrow> string \<Rightarrow> ('w, cloud_file) io) option \<Rightarrow> config \<Rightarrow>
    (('p, 's) boot_world, ('p, 's, 'w) server_parts) io" where
  "open_server tm env failure api cl cwd owner fuel base restoring c =
     io_bind (fail_on (validate_serve c)) (\<lambda>_.
     io_bind (open_core tm env failure api cwd owner True c) (\<lambda>st.
       if url_parse (hc_redirect_base_url (cg_http c)) = None then io_fail (Msg ''redirect_base_url'')
       else io_bind the_client (\<lambda>k. io_ret
         \<lparr>sp_service = service_of c (client_provider api cl) st,
          sp_materializer = materializer_of fuel api cl restoring base c,
          sp_enabled = (tc_available k \<and> pc_work_dir_id (cg_p115 c) \<noteq> '''')\<rparr>)))"

text \<open>The task manager runs the jobs of the two download APIs; without a work directory it refuses them.\<close>

definition manager_of :: "config \<Rightarrow> bool \<Rightarrow> 'p service \<Rightarrow> (('p, 'z) m_world_scheme, 'p manager) io" where
  "manager_of c usable s =
     (if pc_work_dir_id (cg_p115 c) \<noteq> ''''
      then new_manager s (pc_offline_quota_min_remaining (cg_p115 c)) (Some [source_aria2, source_qbittorrent])
      else io_ret (new_disabled_manager s (Msg (if usable then ''no work directory'' else ''115 unavailable''))))"

definition aria_handler_of :: "'p manager \<Rightarrow> secrets \<Rightarrow> strm_service \<Rightarrow> 'p aria_handler" where
  "aria_handler_of m s st = \<lparr>ah_manager = m, ah_secret = se_aria2_rpc_secret s, ah_dir = ss_root st\<rparr>"

definition qb_handler_of :: "'p manager \<Rightarrow> secrets \<Rightarrow> strm_service \<Rightarrow> (string list \<Rightarrow> string list) \<Rightarrow> 'p qb_handler" where
  "qb_handler_of m s st order = new_qb_handler m (ss_root st) (se_qbit_username s) (se_qbit_password s) order"

text \<open>The tokens given on the configuration page: for the database of this server they go through its client; when the page has
  chosen another database, into that one (\<open>other\<close>), as the saved settings say.\<close>

definition save_given_tokens :: "toml \<Rightarrow> ('p, 's) sdk_api \<Rightarrow> string \<Rightarrow>
    (file_config \<Rightarrow> string option \<Rightarrow> string option \<Rightarrow> (('p, 's, 'z) boot_world_scheme, credential \<times> bool) io) \<Rightarrow> config \<Rightarrow> string \<Rightarrow>
    string option \<Rightarrow> string option \<Rightarrow> (('p, 's, 'z) boot_world_scheme, credential \<times> bool) io" where
  "save_given_tokens tm api cwd other c path refresh access =
     (if path = cg_database_path c \<or> path = path_abs cwd (cg_database_path c) then update_tokens api refresh access
      else io_bind (on_config_files (read_settings tm (cg_file_path c))) (\<lambda>s. other s refresh access))"

end
