(* ===== verification/Bootstrap_Facts.thy ===== *)
theory Bootstrap_Facts
  imports Bootstrap Cloud_Facts Config_Facts Offline_Facts
begin

text \<open>
  What the start of the program keeps: tokens on their way from the file to the database, and the settings the service is made
  of.
\<close>

section \<open>Tokens\<close>

lemma on_config_files_run:
  "on_config_files m w = (fst (m (bw_files w)), w\<lparr>bw_files := snd (m (bw_files w))\<rparr>)"
  by (simp add: on_config_files_def split: prod.splits)

lemma remove_legacy_tokens_run:
  assumes "remove_legacy_tokens tm env failure path fs = (r, fs')"
  shows "fs' = fs \<or> (\<exists>content s. r = Inr () \<and> fs' = fs(path \<mapsto> content) \<and> tm_encode tm (without_tokens s) = Inr content)"
proof -
  obtain q where q: "read_settings tm path fs = (q, fs)"
    by (cases "read_settings tm path fs") (auto simp: read_settings_def Let_def split: option.splits sum.splits)
  show ?thesis
  proof (cases q)
    case (Inl e)
    with assms q show ?thesis by (simp add: remove_legacy_tokens_def io_bind_def)
  next
    case (Inr s)
    show ?thesis
    proof (cases "tm_encode tm (without_tokens s)")
      case (Inl e)
      with assms q Inr show ?thesis by (simp add: remove_legacy_tokens_def io_bind_def write_settings_def)
    next
      case (Inr content)
      with assms q \<open>q = Inr s\<close> have "save_file tm env failure path content fs = (r, fs')"
        by (simp add: remove_legacy_tokens_def io_bind_def write_settings_def)
      with save_file_cases [of tm env failure path content fs] Inr show ?thesis by auto
    qed
  qed
qed

lemma seed_configured_run:
  fixes w :: "('p, 's, 'z) boot_world_scheme"
  shows "\<exists>v. seed_configured s w = (Inr (), v) \<and> bw_files v = bw_files w \<and> cd_rows (tw_creds v) credential_provider \<noteq> None \<and>
    (case cd_rows (tw_creds w) credential_provider of
       Some row \<Rightarrow> cd_rows (tw_creds v) credential_provider = Some row
     | None \<Rightarrow> stored_as (configured_credential s) (tw_creds v))"
proof (cases "cd_rows (tw_creds w) credential_provider")
  case (Some row)
  then show ?thesis by (simp add: seed_configured_def io_try_def on_creds_def load_credential_def)
next
  case None
  obtain t v where t: "read_now w = (Inr t, v)" using read_now_total by blast
  from read_now_token [OF t] have "tw_creds v = tw_creds w" by simp
  moreover have "bw_files v = bw_files w" using t by (auto simp: read_now_def split: list.splits)
  ultimately show ?thesis
    using None t
    by (simp add: seed_configured_def io_try_def on_creds_def load_credential_def io_bind_def seed_credential_def stored_as_row)
      (simp add: credential_mk_def)
qed


definition token_settings :: config where
  "token_settings = sample_config\<lparr>cg_credentials := no_secrets\<lparr>se_p115_refresh_token := ''r1''\<rparr>, cg_file_path := ''c.toml''\<rparr>"

definition boot_sample :: "(bool, unit) boot_world" where
  "boot_sample = tok_world.extend (sample_token_world True\<lparr>tw_creds := \<lparr>cd_rows = (\<lambda>_. None), le_rows = (\<lambda>_. None)\<rparr>\<rparr>)
     (boot_world.fields [''c.toml'' \<mapsto> ''t''])"


section \<open>Settings\<close>

lemma validated_polls:
  assumes "validate_common c = None"
  shows "0 < pc_offline_poll (cg_p115 c)" "0 \<le> pc_offline_poll_min (cg_p115 c)" "0 \<le> pc_offline_poll_max (cg_p115 c)"
    "0 < pc_offline_poll_min (cg_p115 c) \<Longrightarrow> 0 < pc_offline_poll_max (cg_p115 c) \<Longrightarrow>
       pc_offline_poll_min (cg_p115 c) \<le> pc_offline_poll_max (cg_p115 c)"
  using assms by (auto simp: validate_common_def Let_def split: if_splits)

text \<open>With every configuration that is accepted the cloud is polled at intervals the configuration asked for: never without a pause,
  and between the shortest and the longest interval where both are set.\<close>

lemma accepted_configuration_polls:
  assumes "parse_config tm env content = Inr c"
  shows "poll_interval (service_of c pv st) = pc_offline_poll (cg_p115 c) \<and> 0 < adaptive_poll_interval (service_of c pv st) elapsed \<and>
    (0 < pc_offline_poll_min (cg_p115 c) \<and> 0 < pc_offline_poll_max (cg_p115 c) \<longrightarrow>
      pc_offline_poll_min (cg_p115 c) \<le> adaptive_poll_interval (service_of c pv st) elapsed \<and>
      adaptive_poll_interval (service_of c pv st) elapsed \<le> pc_offline_poll_max (cg_p115 c))"
proof -
  have v: "validate_common c = None" using assms by (auto simp: parse_config_def Let_def split: sum.splits option.splits)
  note p = validated_polls [OF v]
  let ?s = "service_of c pv st"
  have "poll_interval ?s = pc_offline_poll (cg_p115 c)" using p(1) by (simp add: poll_interval_def service_of_def)
  moreover note adaptive_poll_interval_bounds [of ?s elapsed]
  moreover have "poll_low ?s = pc_offline_poll_min (cg_p115 c) \<and> poll_high ?s = pc_offline_poll_max (cg_p115 c)"
    if "0 < pc_offline_poll_min (cg_p115 c)" "0 < pc_offline_poll_max (cg_p115 c)"
    using that by (simp add: poll_low_def poll_high_def service_of_def)
  ultimately show ?thesis using p(4) by auto
qed

end
