(* ===== verification/Command_Line.thy ===== *)
theory Command_Line
  imports Bootstrap Config_Api Materialize
begin

text \<open>
  \<open>cmd/magnet-to-strm/main.go\<close>: the three commands after their flags are parsed. What they print, signals and the
  shutdown of the HTTP server are left out.
\<close>

section \<open>Adding one link\<close>

text \<open>Before the run: the answer of an earlier run, or the job to run.\<close>

definition add_again :: "job \<Rightarrow> job" where
  "add_again j = j\<lparr>j_state := Queued, j_error := '''', j_started_at := None, j_finished_at := None\<rparr>"

definition add_prepare :: "'p service \<Rightarrow> job \<Rightarrow> (('p, 'z) world_scheme, scan_result + job) io" where
  "add_prepare s j =
     io_try (on_db (latest_job (j_source j) (j_info_hash j))) (\<lambda>r. case r of
         Inl e \<Rightarrow> if errors_is e ErrJobNotFound then io_bind (on_db (create_job j)) (\<lambda>_. io_ret (Inr j)) else io_fail e
       | Inr old \<Rightarrow>
           if j_info_hash old \<noteq> j_info_hash j then io_fail (Msg ''GID conflict'')
           else if j_state old = Succeeded then io_bind (service_result s (j_info_hash j)) (\<lambda>x. io_ret (Inl x))
           else if j_state old = Running then io_fail (Msg ''a task of the same link is running'')
           else io_bind (on_db (update_job (add_again old))) (\<lambda>_. io_ret (Inr (add_again old))))"

text \<open>\<open>deadline\<close> and \<open>ended\<close> are what the context says when the job has been resolved and when the run has returned.\<close>

definition add_error :: "'p service \<Rightarrow> err option \<Rightarrow> job \<Rightarrow> err \<Rightarrow> (('p, 'z) world_scheme, 'a) io" where
  "add_error s ended j e =
     (if ended = Some CtxDeadlineExceeded then
        io_try (cleanup_timed_out_task s (j_info_hash j)) (\<lambda>c. case c of
            Inl ce \<Rightarrow> io_fail (Msg (''waiting timed out; '' @ err_text ce))
          | Inr _ \<Rightarrow> io_fail (Msg ''waiting timed out''))
      else if ended = Some CtxCanceled then io_fail (Msg ''canceled'')
      else io_fail e)"

definition add_link :: "nat \<Rightarrow> 'p service \<Rightarrow> timestamp \<Rightarrow> timestamp \<Rightarrow> timestamp \<Rightarrow> bool \<Rightarrow> err option \<Rightarrow> string \<Rightarrow>
    (('p, 'z) world_scheme, scan_result) io" where
  "add_link fuel s now started finished deadline ended magnet_uri =
     io_bind (io_of (new_job_for_source now (trim_space magnet_uri) source_cli)) (\<lambda>j.
     io_bind (add_prepare s j) (\<lambda>p. case p of
         Inl x \<Rightarrow> io_ret x
       | Inr k \<Rightarrow> io_try (run_job fuel s started finished deadline k) (\<lambda>r. case r of
             Inl e \<Rightarrow> add_error s ended k e
           | Inr x \<Rightarrow> io_ret x)))"

section \<open>Rewriting addresses\<close>

text \<open>The configuration names the library; the files are those of its directory.\<close>

definition rewrite_strm :: "toml \<Rightarrow> environment \<Rightarrow> string \<Rightarrow> string \<Rightarrow> config_files \<Rightarrow> string \<Rightarrow> string \<Rightarrow> (files, nat \<times> nat) io" where
  "rewrite_strm tm env path cwd fs old_prefix new_prefix = (case fst (load_file tm env path fs) of
     Inl e \<Rightarrow> io_fail e
   | Inr c \<Rightarrow> (case new_strm_service cwd (lc_strm_dir (cg_library c)) (hc_public_base_url (cg_http c)) of
       Inl e \<Rightarrow> io_fail e
     | Inr _ \<Rightarrow> replace_prefix old_prefix new_prefix))"

section \<open>Starting the server\<close>

text \<open>The flags: the port, and whether it was given, the listener and the public address.\<close>

record serve_flags =
  sf_port :: int
  sf_port_given :: bool
  sf_listen :: string
  sf_public_url :: string

definition local_host :: "string \<Rightarrow> string" where
  "local_host host = (if host = '''' \<or> host = ''0.0.0.0'' \<or> host = ''::'' then ''127.0.0.1'' else host)"

text \<open>\<open>serveHTTPOptions\<close>: the listener and the public address a new file gets.\<close>

definition serve_http_options :: "int \<Rightarrow> string \<Rightarrow> string \<Rightarrow> err + string \<times> string" where
  "serve_http_options port listen public =
     (if port < 0 \<or> 65535 < port then Inl (Msg ''-port'')
      else if port \<noteq> 0 \<and> listen \<noteq> '''' then Inl (Msg ''-port and -listen'')
      else
        let addr = (if port \<noteq> 0 then '':'' @ decimal_int port else listen);
            base = (if addr = '''' then Inr public
              else case split_host_port addr of
                None \<Rightarrow> Inl (Msg ''-listen'')
              | Some (host, v) \<Rightarrow> (case parse_int v of
                  None \<Rightarrow> Inl (Msg ''listen port'')
                | Some n \<Rightarrow>
                    if n < 1 \<or> 65535 < n then Inl (Msg ''listen port'')
                    else Inr (if public = '''' then ''http://'' @ join_host_port (local_host host) v else public)))
        in case base of
             Inl e \<Rightarrow> Inl e
           | Inr url \<Rightarrow>
               if public \<noteq> '''' \<and> (case url_parse public of
                    None \<Rightarrow> True
                  | Some u \<Rightarrow> u_host u = '''' \<or> u_scheme u \<notin> {''http'', ''https''} \<or> u_raw_query u \<noteq> '''' \<or> u_fragment u \<noteq> '''')
               then Inl (Msg ''-public-base-url'')
               else Inr (addr, url))"

record start_world =
  sw_files :: config_files
  sw_env :: environment

definition on_start_files :: "(config_files, 'a) io \<Rightarrow> (start_world, 'a) io" where
  "on_start_files m = (\<lambda>w. case m (sw_files w) of (r, fs) \<Rightarrow> (r, w\<lparr>sw_files := fs\<rparr>))"

text \<open>\<open>loadRuntime\<close>; \<open>dotenv\<close> is the environment file, when there is one.\<close>

definition load_runtime :: "toml \<Rightarrow> (err + string) option \<Rightarrow> string \<Rightarrow> (start_world, config \<times> secrets) io" where
  "load_runtime tm dotenv path =
     io_bind (case dotenv of
         None \<Rightarrow> io_ret ()
       | Some content \<Rightarrow> (\<lambda>w. case load_dotenv content (sw_env w) of
             (e, env) \<Rightarrow> (case e of None \<Rightarrow> Inr () | Some x \<Rightarrow> Inl (Wrap ''.env'' x), w\<lparr>sw_env := env\<rparr>))) (\<lambda>_ w.
     io_bind (on_start_files (load_file tm (sw_env w) path)) (\<lambda>c. io_ret (c, runtime_secrets (sw_env w) c)) w)"

text \<open>What the flags override; an address that files are redirected to follows the public one it was taken from.\<close>

definition with_flags :: "string \<Rightarrow> string \<Rightarrow> string \<Rightarrow> config \<Rightarrow> config" where
  "with_flags listen public url c =
     (let h = cg_http c; h1 = (if listen \<noteq> '''' then h\<lparr>hc_addr := listen\<rparr> else h)
      in c\<lparr>cg_http :=
        if public = '''' then h1
        else let new = trim_right url ''/'' in h1\<lparr>hc_public_base_url := new,
          hc_redirect_base_url := (if hc_redirect_base_url h1 = hc_public_base_url h1 then new else hc_redirect_base_url h1)\<rparr>\<rparr>)"

definition serve_start :: "toml \<Rightarrow> (err + string) option \<Rightarrow> write_failure option \<Rightarrow> string \<Rightarrow> serve_flags \<Rightarrow>
    (start_world, config \<times> secrets) io" where
  "serve_start tm dotenv failure path f =
     (if sf_port_given f \<and> sf_port f = 0 then io_fail (Msg ''-port'')
      else io_bind (io_of (serve_http_options (sf_port f) (sf_listen f) (sf_public_url f))) (\<lambda>(listen, url).
        io_bind (on_start_files (ensure_file tm failure path listen url)) (\<lambda>_.
        io_bind (load_runtime tm dotenv path) (\<lambda>(c, s). io_ret (with_flags listen (sf_public_url f) url c, s)))))"

section \<open>The setup\<close>

text \<open>A run of the setup server: the requests that change or show the configuration, in their order. The first that is saved ends it.\<close>

fun setup_requests :: "config_server \<Rightarrow> 'w config_hooks \<Rightarrow> string \<Rightarrow> (write_failure option \<times> config_request) list \<Rightarrow>
    'w config_world \<Rightarrow> bool \<times> 'w config_world" where
  "setup_requests v hooks cwd [] w = (False, w)"
| "setup_requests v hooks cwd ((failure, q) # qs) w =
     (let w1 = snd (config_serve v hooks failure cwd q w)
      in if kw_saved w < kw_saved w1 then (True, w1) else setup_requests v hooks cwd qs w1)"

section \<open>The running server\<close>

text \<open>The address rclone finds the server at, from the one it listens on.\<close>

definition upstream_address :: "string \<Rightarrow> string" where
  "upstream_address listening = (case split_host_port listening of
     None \<Rightarrow> ''http://'' @ join_host_port (local_host '''') ''''
   | Some (host, port) \<Rightarrow> ''http://'' @ join_host_port (local_host host) port)"

text \<open>\<open>cleanupLoop\<close>: once at the start and then at every tick; an error is reported and the loop goes on. What the rest of the
  server does between two runs is a change of the world.\<close>

fun cleanup_loop :: "('w, unit) io \<Rightarrow> ('w \<Rightarrow> 'w) list \<Rightarrow> 'w \<Rightarrow> err list \<times> 'w" where
  "cleanup_loop clean [] w = (case clean w of (r, w1) \<Rightarrow> (case r of Inl e \<Rightarrow> [e] | Inr _ \<Rightarrow> [], w1))"
| "cleanup_loop clean (f # fs) w = (case clean w of (r, w1) \<Rightarrow>
     (case cleanup_loop clean fs (f w1) of (es, w2) \<Rightarrow> ((case r of Inl e \<Rightarrow> [e] | Inr _ \<Rightarrow> []) @ es, w2)))"

text \<open>With a work directory the server cleans up its materializer's content as often as the configuration says.\<close>

definition server_cleanup :: "config \<Rightarrow> (('p, 's) tok_world, 'w) mat_service \<Rightarrow>
    ((('p, 's) tok_world, 'z) mat_world_scheme \<Rightarrow> (('p, 's) tok_world, 'z) mat_world_scheme) list \<Rightarrow>
    (('p, 's) tok_world, 'z) mat_world_scheme \<Rightarrow> err list \<times> (('p, 's) tok_world, 'z) mat_world_scheme" where
  "server_cleanup c m ticks w =
     (if pc_work_dir_id (cg_p115 c) \<noteq> '''' then cleanup_loop (mat_cleanup m (lc_cache_retention (cg_library c))) ticks w else ([], w))"

end
