(* ===== verification/Command_Facts.thy ===== *)
theory Command_Facts
  imports Command_Line Config_Api_Facts Api_Facts
begin

text \<open>
  What the commands guarantee: what adding a link leaves in the database and when it cannot work, and that the server starts
  with its flags, also after the setup.
\<close>

section \<open>Adding one link\<close>

lemma on_db_same: "m (w_db w) = (r, w_db w) \<Longrightarrow> on_db m w = (r, w)"
  by (simp add: on_db_def)

lemma new_cli_job:
  assumes "new_job_for_source now m source_cli = Inr j"
  shows "j_source j = source_cli" "job_source j = source_cli" "j_gid j \<noteq> ''''" "j_state j = Queued" "j_info_hash j \<noteq> ''''"
    "to_lower (j_info_hash j) = j_info_hash j"
proof -
  note f = new_job_fields [OF assms]
  show "j_source j = source_cli" unfolding f(4) by code_simp
  then show "job_source j = source_cli" by (simp add: job_source_def source_cli_def)
  from f(2,3) show "j_gid j \<noteq> ''''" "j_info_hash j \<noteq> ''''" by (cases "j_info_hash j", auto simp: wf_info_hash_def)+
  show "j_state j = Queued" by (rule f(1))
  show "to_lower (j_info_hash j) = j_info_hash j" using f(2) by (rule wf_info_hash_lower)
qed

text \<open>Nothing runs that did not run before.\<close>

definition nothing_new_runs :: "('p, 'z) world_scheme \<Rightarrow> ('p, 'z) world_scheme \<Rightarrow> bool" where
  "nothing_new_runs w w' \<longleftrightarrow> jobs_ok (w_db w') \<and> (\<forall>g. state_of (w_db w') g = Some Running \<longrightarrow> state_of (w_db w) g = Some Running)"

lemma add_prepare_run:
  fixes w :: "('p, 'z) world_scheme"
  assumes ok: "jobs_ok (w_db w)" and j: "j_state j = Queued" and run: "add_prepare s j w = (r, w')"
  shows "nothing_new_runs w w' \<and> (case r of
      Inl e \<Rightarrow> w' = w
    | Inr (Inl x) \<Rightarrow> \<exists>g. state_of (w_db w') g = Some Succeeded
    | Inr (Inr k) \<Rightarrow> state_of (w_db w') (j_gid k) = Some Queued \<and> (k = j \<or> state_of (w_db w) (j_gid k) \<noteq> None))"
proof -
  obtain q where q: "latest_job (j_source j) (j_info_hash j) (w_db w) = (q, w_db w)"
    using latest_job_same by (metis prod.collapse)
  note l = on_db_same [of "latest_job (j_source j) (j_info_hash j)", OF q]
  show ?thesis
  proof (cases q)
    case (Inl e)
    obtain c d where c: "create_job j (w_db w) = (c, d)" by fastforce
    show ?thesis
    proof (cases c)
      case (Inl x)
      with c create_job_error [of j "w_db w" x d] run \<open>q = Inl e\<close> l ok show ?thesis
        by (auto simp: add_prepare_def io_try_def io_bind_def on_db_def io_fail_def nothing_new_runs_def split: if_splits)
    next
      case (Inr u)
      then have cr: "create_job j (w_db w) = (Inr (), d)" using c by simp
      note st = create_job_ok [OF ok cr]
      from run \<open>q = Inl e\<close> l cr ok st(1) j show ?thesis
        by (auto simp: add_prepare_def io_try_def io_bind_def on_db_def io_fail_def io_ret_def nothing_new_runs_def st(3) split: if_splits)
    qed
  next
    case (Inr old)
    have st: "state_of (w_db w) (j_gid old) = Some (j_state old)" using latest_job_known [OF ok q [unfolded Inr]] .
    let ?k = "add_again old"
    have k: "j_gid ?k = j_gid old" "j_state ?k = Queued" by (simp_all add: add_again_def)
    obtain x d where u: "update_job ?k (w_db w) = (x, d)" by fastforce
    have res: "service_result s (j_info_hash j) w = (fst (service_result s (j_info_hash j) w), w)"
      using quiet_result [of s "j_info_hash j"] unfolding quiet_def by (metis prod.collapse)
    show ?thesis
    proof (cases x)
      case (Inl e)
      with u update_job_error [OF ok] have "d = w_db w" by blast
      with u Inl run \<open>q = Inr old\<close> l ok res st show ?thesis
        by (cases "fst (service_result s (j_info_hash j) w)")
          (auto simp: add_prepare_def io_try_def io_bind_def on_db_def io_fail_def io_ret_def nothing_new_runs_def split: if_splits)
    next
      case (Inr v)
      then have up: "update_job ?k (w_db w) = (Inr (), d)" using u by simp
      note after = update_job_ok [OF ok up, unfolded k]
      show ?thesis
        using up run \<open>q = Inr old\<close> l ok res st after(1) k
        by (cases "fst (service_result s (j_info_hash j) w)")
          (auto simp: add_prepare_def io_try_def io_bind_def on_db_def io_fail_def io_ret_def nothing_new_runs_def after(2) split: if_splits)
    qed
  qed
qed

lemma run_job_others:
  fixes w :: "('p, 'z) world_scheme"
  assumes ok: "jobs_ok (w_db w)" and gid: "j_gid j \<noteq> ''''" and g: "g \<noteq> j_gid j"
  shows "state_of (w_db (snd (run_job fuel s t0 t1 deadline j w))) g = state_of (w_db w) g"
proof -
  let ?P = "\<lambda>v :: ('p, 'z) world_scheme. jobs_ok (w_db v) \<and> state_of (w_db v) g = state_of (w_db w) g"
  have u: "keeps ?P (on_db (update_job i))" if "j_gid i = j_gid j" for i
  proof (rule keepsI)
    fix v :: "('p, 'z) world_scheme"
    assume v: "?P v"
    obtain r v' where run: "on_db (update_job i) v = (r, v')" by fastforce
    with v that g wj.upd_ok [of v i v' g] wj.upd_error [of v i _ v'] show "?P (snd (on_db (update_job i) v))" by (cases r) auto
  qed
  have res: "keeps ?P (resolve_magnet fuel s (j_gid j) (j_magnet_uri j))"
  proof (rule keepsI)
    fix v :: "('p, 'z) world_scheme"
    assume v: "?P v"
    show "?P (snd (resolve_magnet fuel s (j_gid j) (j_magnet_uri j) v))"
      using resolve_keeps [OF gid conjunct1 [OF v], where g = g] v by (simp add: resolve_magnet_def)
  qed
  have "keeps ?P (run_job fuel s t0 t1 deadline j)"
    unfolding run_job_def run_job_with_resolver_def Let_def
    by (intro keeps_intros u res) (auto simp: running_job_def intro!: keeps_intros u split: sum.split)
  with ok show ?thesis by (simp add: keeps_def)
qed


text \<open>C40. A link that was canceled, or whose run was cut off, or whose torrent another source has a job with the usual identifier of,
  cannot be added on the command line: each further attempt fails and changes nothing.\<close>

theorem add_is_blocked:
  fixes w :: "('p, 'z) world_scheme"
  assumes ok: "jobs_ok (w_db w)" and j: "parse_info_hash (trim_space magnet_uri) = Inr h"
    and blocked: "(case latest_job source_cli h (w_db w) of
      (Inr old, _) \<Rightarrow> j_state old = Canceled \<or> j_state old = Running
    | (Inl e, _) \<Rightarrow> e = ErrJobNotFound \<and> state_of (w_db w) (take 16 h) \<noteq> None)"
  shows "\<exists>e. add_link fuel s now t0 t1 deadline ended magnet_uri w = (Inl e, w)"
proof -
  from j obtain j where new: "new_job_for_source now (trim_space magnet_uri) source_cli = Inr j" and h: "j_info_hash j = h"
    by (auto simp: new_job_for_source_def)
  note jf = new_cli_job [OF new]
  have gid: "j_gid j = take 16 h" using new_job_fields(3) [OF new] h by simp
  obtain q where q: "latest_job source_cli h (w_db w) = (q, w_db w)"
    using latest_job_same by (metis prod.collapse)
  note l = on_db_same [of "latest_job source_cli h", OF q]
  have "\<exists>e. add_prepare s j w = (Inl e, w)"
  proof (cases q)
    case (Inl x)
    with blocked q have b: "x = ErrJobNotFound" "state_of (w_db w) (take 16 h) \<noteq> None" by auto
    then have "\<not> creatable j (w_db w)" by (auto simp: creatable_def gid state_of_def)
    with create_job_run [OF ok, of j] obtain e where "create_job j (w_db w) = (Inl e, w_db w)" by auto
    from on_db_same [of "create_job j", OF this] l Inl b show ?thesis by (simp add: add_prepare_def io_try_def io_bind_def jf h)
  next
    case (Inr old)
    have st: "state_of (w_db w) (j_gid (add_again old)) = Some (j_state old)"
      using latest_job_known [OF ok q [unfolded Inr]] by (simp add: add_again_def)
    have "update_job (add_again old) (w_db w) = (Inl ErrJobCanceled, w_db w)" if "j_state old = Canceled"
      using update_job_canceled [OF ok, of "add_again old"] st that by (simp add: add_again_def)
    with on_db_same [of "update_job (add_again old)" w] blocked q l Inr show ?thesis
      by (auto simp: add_prepare_def io_try_def io_bind_def io_fail_def jf h)
  qed
  with new show ?thesis by (auto simp: add_link_def io_bind_def io_of_def)
qed

text \<open>A link whose torrent aria2 has a job of already.\<close>

definition cli_hash :: string where
  "cli_hash = replicate 40 (CHR ''a'')"

definition blocked_world :: "unit world" where
  "blocked_world = (new_world ())\<lparr>w_db := run_ops
     [OpCreate (sample_job\<lparr>j_gid := take 16 cli_hash, j_source := source_aria2, j_info_hash := cli_hash\<rparr>)] empty_db\<rparr>"

lemma blocked_world_ok: "jobs_ok (w_db blocked_world)"
  unfolding blocked_world_def by (simp del: run_ops.simps add: run_ops_ok jobs_ok_empty)

lemma cli_hash_parsed: "parse_info_hash (trim_space (magnet_of cli_hash '''')) = Inr cli_hash"
proof -
  have "trim_space (magnet_of cli_hash '''') = magnet_of cli_hash ''''" by code_simp
  moreover have "is_hex (CHR ''a'')" "lower_char (CHR ''a'') = CHR ''a''" "magnet_tail ''''" by code_simp+
  ultimately show ?thesis
    using info_hash_of_hex_topic [of cli_hash "''''"] by (simp add: cli_hash_def list_all_iff to_lower_def)
qed

theorem add_is_blocked_witness:
  "\<exists>e. add_link 9 sample_service 1 2 3 False None (magnet_of cli_hash '''') blocked_world = (Inl e, blocked_world)"
proof (rule add_is_blocked [OF blocked_world_ok cli_hash_parsed])
  show "case latest_job source_cli cli_hash (w_db blocked_world) of
      (Inr old, _) \<Rightarrow> j_state old = Canceled \<or> j_state old = Running
    | (Inl e, _) \<Rightarrow> e = ErrJobNotFound \<and> state_of (w_db blocked_world) (take 16 cli_hash) \<noteq> None"
    by code_simp
qed


section \<open>Starting the server\<close>

lemma serve_http_options_listen:
  "serve_http_options port listen public = Inr (addr, url) \<Longrightarrow>
    addr = (if port \<noteq> 0 then '':'' @ decimal_int port else listen) \<and> (public \<noteq> '''' \<longrightarrow> url = public) \<and>
    (addr \<noteq> '''' \<longrightarrow> valid_listen_addr addr)"
  by (auto simp: serve_http_options_def valid_listen_addr_def Let_def split: if_splits option.splits sum.splits)

lemma load_lines_again:
  "load_lines ls env = (None, env1) \<Longrightarrow> (\<And>k. env1 k \<noteq> None \<Longrightarrow> env2 k \<noteq> None) \<Longrightarrow> load_lines ls env2 = (None, env2)"
proof (induction ls arbitrary: env)
  case (Cons raw ls)
  show ?case
  proof (cases "parse_line raw")
    case None
    with Cons show ?thesis by simp
  next
    case (Some kv)
    obtain k v where kv: "kv = (k, v)" by fastforce
    show ?thesis
    proof (cases "k = ''MTS_P115_REFRESH_TOKEN'' \<or> k = ''MTS_P115_AUTH_TOKEN''")
      case True
      with Cons Some kv show ?thesis by auto
    next
      case False
      with Cons.prems(1) Some kv have k: "k \<in> set supported_keys"
        and l: "load_lines ls (if env k = None then env(k \<mapsto> v) else env) = (None, env1)" by (auto split: if_splits)
      have "env1 k \<noteq> None" using conjunct1 [OF load_lines_keeps [OF l]] by (cases "env k") (auto split: if_splits)
      with Cons.prems(2) obtain y where "env2 k = Some y" by blast
      with Cons.IH [OF l Cons.prems(2)] Some kv False k show ?thesis by simp
    qed
  qed
qed simp

lemma load_dotenv_again: "load_dotenv content env = (None, env1) \<Longrightarrow> load_dotenv content env1 = (None, env1)"
  by (auto simp: load_dotenv_def intro: load_lines_again split: sum.splits)

lemma load_runtime_run:
  assumes "load_runtime tm dotenv path w = (Inr (c, s), w')"
  shows "(case dotenv of None \<Rightarrow> sw_env w' = sw_env w | Some content \<Rightarrow> load_dotenv content (sw_env w) = (None, sw_env w')) \<and>
    load_file tm (sw_env w') path (sw_files w) = (Inr c, sw_files w') \<and> s = runtime_secrets (sw_env w') c \<and> sw_files w' = sw_files w"
  using assms
  by (auto simp: load_runtime_def io_bind_def io_ret_def on_start_files_def load_file_def
      split: option.splits prod.splits sum.splits if_splits)

lemma ensure_file_run:
  assumes "ensure_file tm failure path listen url fs = (Inr u, fs')"
  shows "\<exists>content. tm_encode tm (initial_file listen url) = Inr content \<and>
    fs' = (if fs path = None then fs(path \<mapsto> content) else fs)"
  using assms
  by (auto simp: ensure_file_def io_bind_def io_of_def split: sum.splits option.splits if_splits write_failure.splits)

lemma serve_start_run:
  assumes "serve_start tm dotenv failure path f w = (Inr (c, s), w')"
  shows "\<exists>addr url u fs d. serve_http_options (sf_port f) (sf_listen f) (sf_public_url f) = Inr (addr, url) \<and>
    \<not> (sf_port_given f \<and> sf_port f = 0) \<and>
    ensure_file tm failure path addr url (sw_files w) = (Inr u, fs) \<and>
    load_runtime tm dotenv path (w\<lparr>sw_files := fs\<rparr>) = (Inr (d, s), w') \<and> c = with_flags addr (sf_public_url f) url d"
  using assms
  by (auto simp: serve_start_def io_bind_def io_of_def io_ret_def io_fail_def on_start_files_def
      split: if_splits sum.splits prod.splits)

lemma loaded_listener:
  assumes "load_file tm env path fs = (Inr c, fs')"
  shows "valid_listen_addr (hc_addr (cg_http c))"
proof -
  from assms obtain content d where d: "parse_config tm env content = Inr d" "c = d\<lparr>cg_file_path := path\<rparr>"
    by (cases "fs path"; cases "parse_config tm env (the (fs path))") (auto simp: load_file_def)
  then have "validate_common d = None" by (auto simp: parse_config_def Let_def split: sum.splits option.splits)
  then have "valid_listen_addr (hc_addr (cg_http d))" by (simp add: validate_common_def Let_def split: if_splits)
  with d(2) show ?thesis by simp
qed

text \<open>The flags of the start win over the configuration file and the environment: the listener and the public address are the ones
  of the flags where they are given, and the listener is a valid one in any case; a configuration file that is there is not changed.\<close>

lemma serve_flags_win:
  assumes "serve_start tm dotenv failure path f w = (Inr (c, s), w')"
  shows "(sf_port f \<noteq> 0 \<longrightarrow> hc_addr (cg_http c) = '':'' @ decimal_int (sf_port f)) \<and>
    (sf_listen f \<noteq> '''' \<longrightarrow> hc_addr (cg_http c) = sf_listen f) \<and>
    (sf_public_url f \<noteq> '''' \<longrightarrow> hc_public_base_url (cg_http c) = trim_right (sf_public_url f) ''/'') \<and>
    valid_listen_addr (hc_addr (cg_http c)) \<and> (sw_files w path \<noteq> None \<longrightarrow> sw_files w' = sw_files w)"
proof -
  from serve_start_run [OF assms] obtain addr url u fs d
    where o: "serve_http_options (sf_port f) (sf_listen f) (sf_public_url f) = Inr (addr, url)"
    and e: "ensure_file tm failure path addr url (sw_files w) = (Inr u, fs)"
    and r: "load_runtime tm dotenv path (w\<lparr>sw_files := fs\<rparr>) = (Inr (d, s), w')" and c: "c = with_flags addr (sf_public_url f) url d"
    by blast
  note l = load_runtime_run [OF r]
  have d: "valid_listen_addr (hc_addr (cg_http d))" using l loaded_listener by blast
  note addr = serve_http_options_listen [OF o]
  have flags: "\<not> (sf_port f \<noteq> 0 \<and> sf_listen f \<noteq> '''')" using o by (auto simp: serve_http_options_def split: if_splits)
  have files: "sw_files w path \<noteq> None \<longrightarrow> sw_files w' = sw_files w" using ensure_file_run [OF e] l by auto
  have "hc_addr (cg_http c) = (if addr \<noteq> '''' then addr else hc_addr (cg_http d))"
    "sf_public_url f \<noteq> '''' \<longrightarrow> hc_public_base_url (cg_http c) = trim_right url ''/''"
    unfolding c by (simp_all add: with_flags_def Let_def)
  with addr d flags files show ?thesis by auto
qed

lemma setup_requests_saved:
  "setup_requests v hooks cwd qs w = (True, w') \<Longrightarrow>
    \<exists>failure s fs. save_settings (kv_toml v) (kv_env v) failure (kv_path v) s fs = (Inr (), kw_files w')"
proof (induction v hooks cwd qs w rule: setup_requests.induct)
  case (2 v hooks cwd failure q qs w)
  let ?w1 = "snd (config_serve v hooks failure cwd q w)"
  show ?case
  proof (cases "kw_saved w < kw_saved ?w1")
    case True
    with 2(2) config_serve_saved [OF True] show ?thesis by (auto simp: Let_def)
  next
    case False
    with 2(1) [OF refl] 2(2) show ?thesis by (auto simp: Let_def)
  qed
qed simp

text \<open>C12. After the setup the server starts: when the first start has led to the setup and a request has saved a configuration, starting
  again with the same flags succeeds, reads the saved file, changes nothing, and does not ask for the setup again.\<close>

theorem setup_restart_serves:
  assumes tm: "faithful tm" and first: "serve_start tm dotenv failure path f w = (Inr (c, s), w1)"
    and v: "kv_toml v = tm" "kv_env v = sw_env w1" "kv_path v = path"
    and saved: "setup_requests v hooks cwd qs \<lparr>kw_files = sw_files w1, kw_tokens = t, kw_saved = n\<rparr> = (True, k)"
  shows "\<exists>c2 s2. serve_start tm dotenv failure2 path f \<lparr>sw_files = kw_files k, sw_env = sw_env w1\<rparr> =
    (Inr (c2, s2), \<lparr>sw_files = kw_files k, sw_env = sw_env w1\<rparr>) \<and> \<not> cg_setup_required c2"
proof -
  from serve_start_run [OF first] obtain addr url u fs d
    where o: "serve_http_options (sf_port f) (sf_listen f) (sf_public_url f) = Inr (addr, url)" "\<not> (sf_port_given f \<and> sf_port f = 0)"
    and e: "ensure_file tm failure path addr url (sw_files w) = (Inr u, fs)"
    and r: "load_runtime tm dotenv path (w\<lparr>sw_files := fs\<rparr>) = (Inr (d, s), w1)" by blast
  from ensure_file_run [OF e] obtain x where x: "tm_encode tm (initial_file addr url) = Inr x" by blast
  from setup_requests_saved [OF saved] obtain failure' st fs' where
    "save_settings tm (sw_env w1) failure' path st fs' = (Inr (), kw_files k)" unfolding v by blast
  from saved_settings_outcome [OF tm this] obtain content c2 where
    k: "kw_files k = fs'(path \<mapsto> content)" "load_file tm (sw_env w1) path (kw_files k) = (Inr c2, kw_files k)" "\<not> cg_setup_required c2"
    by auto
  let ?w = "\<lparr>sw_files = kw_files k, sw_env = sw_env w1\<rparr>"
  have "ensure_file tm failure2 path addr url (kw_files k) = (Inr (), kw_files k)"
    by (simp add: ensure_file_def io_bind_def io_of_def x k(1))
  moreover have "case dotenv of None \<Rightarrow> True | Some y \<Rightarrow> load_dotenv y (sw_env w1) = (None, sw_env w1)"
    using load_runtime_run [OF r] load_dotenv_again by (auto split: option.splits)
  then have "load_runtime tm dotenv path ?w = (Inr (c2, runtime_secrets (sw_env w1) c2), ?w)"
    using k(2) by (auto simp: load_runtime_def io_bind_def io_ret_def on_start_files_def split: option.splits)
  ultimately have "serve_start tm dotenv failure2 path f ?w = (Inr (with_flags addr (sf_public_url f) url c2, runtime_secrets (sw_env w1) c2), ?w)"
    using o by (simp add: serve_start_def io_bind_def io_of_def io_ret_def on_start_files_def)
  moreover have "\<not> cg_setup_required (with_flags addr (sf_public_url f) url c2)" using k(3) by (simp add: with_flags_def Let_def)
  ultimately show ?thesis by blast
qed

section \<open>A first start\<close>

text \<open>A package that knows some documents.\<close>

definition table_toml :: "(string \<times> file_config) list \<Rightarrow> toml" where
  "table_toml docs =
     (let decode = (\<lambda>_ s. case map_of docs s of None \<Rightarrow> Inl (Msg ''toml'') | Some c \<Rightarrow> Inr c)
      in \<lparr>tm_strict = decode, tm_decode = decode,
          tm_encode = (\<lambda>c. case find (\<lambda>d. snd d = c) docs of None \<Rightarrow> Inl (Msg ''toml'') | Some d \<Rightarrow> Inr (fst d))\<rparr>)"

lemma table_toml_faithful:
  assumes "distinct (map fst docs)"
  shows "faithful (table_toml docs)"
proof -
  have "map_of docs content = Some c" if "find (\<lambda>d. snd d = c) docs = Some d" "content = fst d" for c content d
  proof -
    from that(1) have "d \<in> set docs" "snd d = c" by (auto simp: find_Some_iff)
    with assms that(2) show ?thesis by (cases d) simp
  qed
  then show ?thesis by (auto simp: faithful_def table_toml_def Let_def split: option.splits)
qed

definition first_toml :: toml where
  "first_toml = table_toml [(''i'', initial_file '''' ''''), (''t'', saved_form (placed ''/data/magnet.db'' ''/data/strms''))]"

lemma first_toml_faithful: "faithful first_toml"
  unfolding first_toml_def by (rule table_toml_faithful) simp

definition plain_flags :: serve_flags where
  "plain_flags = \<lparr>sf_port = 0, sf_port_given = False, sf_listen = '''', sf_public_url = ''''\<rparr>"

definition first_config :: config where
  "first_config = config_of Map.empty (initial_file '''' '''') sample_numbers"

lemma first_numbers: "config_numbers (initial_file '''' '''') = Inr sample_numbers"
  unfolding config_numbers_def by (simp add: placed_fields default_texts sample_numbers_def)

lemma first_valid: "validate_common first_config = None"
proof -
  have v: "valid_listen_addr '':8080''" "trim_space '':8080'' = '':8080''" "to_lower (trim_space ''info'') = ''info''"
    "trim_space '''' = ''''" by code_simp+
  show ?thesis
    unfolding validate_common_def first_config_def config_of_def http_of_def Let_def
    by (simp add: placed_fields getenv_def v strm_dir_of_def sample_numbers_def sample_names)
qed

lemma first_read: "tm_strict first_toml default_file_config ''i'' = Inr (initial_file '''' '''')"
  "tm_decode first_toml default_file_config ''i'' = Inr (initial_file '''' '''')"
  "tm_encode first_toml (initial_file '''' '''') = Inr ''i''"
  by (simp_all add: first_toml_def table_toml_def Let_def)

lemma first_parsed: "parse_config first_toml Map.empty ''i'' = Inr first_config"
  unfolding parse_config_def by (simp add: first_read first_numbers Let_def first_config_def [symmetric] first_valid)

lemma first_start:
  "\<exists>c s. serve_start first_toml None None ''c.toml'' plain_flags \<lparr>sw_files = Map.empty, sw_env = Map.empty\<rparr> =
    (Inr (c, s), \<lparr>sw_files = [''c.toml'' \<mapsto> ''i''], sw_env = Map.empty\<rparr>)"
  by (simp add: serve_start_def plain_flags_def serve_http_options_def io_bind_def io_of_def io_ret_def on_start_files_def
      ensure_file_def first_read load_runtime_def load_file_def first_parsed Let_def)

definition setup_server :: config_server where
  "setup_server = \<lparr>kv_toml = first_toml, kv_env = Map.empty, kv_fsys = sample_fs, kv_browser = sample_browser, kv_path = ''c.toml'',
     kv_check_rclone = (\<lambda>_. None)\<rparr>"

definition first_change :: config_request where
  "first_change = \<lparr>kr_method = ''PUT'', kr_origin = '''', kr_host = ''h'', kr_body = Some (sample_settings, [])\<rparr>"

definition first_world :: "unit config_world" where
  "first_world = \<lparr>kw_files = [''c.toml'' \<mapsto> ''i''], kw_tokens = (), kw_saved = 0\<rparr>"

lemma first_saves:
  "save_settings first_toml Map.empty None ''c.toml'' (placed ''/data/magnet.db'' ''/data/strms'') fs = (Inr (), fs(''c.toml'' \<mapsto> ''t''))"
proof -
  let ?s = "placed ''/data/magnet.db'' ''/data/strms''"
  have t: "trim_space ''/data/magnet.db'' = ''/data/magnet.db''" "trim_space ''/data/strms'' = ''/data/strms''" "trim_space ''42'' \<noteq> ''''"
    by code_simp+
  have "tm_strict first_toml default_file_config ''t'' = Inr (saved_form ?s)" by (simp add: first_toml_def table_toml_def Let_def)
  from placed_parsed [OF t(1) _ t(2) _ this] placed_valid(2) [OF t(1) _ t(2)]
  have p: "save_file first_toml Map.empty None ''c.toml'' ''t'' fs = (Inr (), fs(''c.toml'' \<mapsto> ''t''))"
    by (simp add: save_file_def)
  have "initial_file '''' '''' \<noteq> saved_form ?s" unfolding placed_saved by (simp add: placed_fields)
  then have e: "tm_encode first_toml (saved_form ?s) = Inr ''t''" by (simp add: first_toml_def table_toml_def Let_def)
  have "ps_work_dir_id (fc_p115 ?s) = ''42''" "ls_strm_dir (fc_library ?s) = ''/data/strms''" by (simp_all add: placed_fields)
  then have "save_settings first_toml Map.empty None ''c.toml'' ?s fs = write_settings first_toml Map.empty None ''c.toml'' (saved_form ?s) fs"
    using t by (simp add: save_settings_def saved_form_def Let_def)
  then show ?thesis by (simp add: write_settings_def io_bind_def io_of_def e p)
qed

lemma first_session:
  "\<exists>k. setup_requests setup_server (sample_hooks\<lparr>hk_on_saved := True\<rparr>) ''/'' [(None, first_change)] first_world = (True, k)"
proof -
  have b: "browser_selection sample_fs sample_browser ''magnet.db'' True = Inr [''data'', ''magnet.db'']"
    "browser_selection sample_fs sample_browser ''strms'' False = Inr [''data'', ''strms'']"
    "abs_text [''data'', ''magnet.db''] = ''/data/magnet.db''" "abs_text [''data'', ''strms''] = ''/data/strms''"
    "trim_space ''r'' \<noteq> ''''" "trim_space ''http://127.0.0.1:8080'' \<noteq> ''''" by code_simp+
  have stored: "read_settings first_toml ''c.toml'' [''c.toml'' \<mapsto> ''i''] = (Inr (initial_file '''' ''''), [''c.toml'' \<mapsto> ''i''])"
    by (simp add: read_settings_def first_read Let_def b(6)) (simp add: placed_fields b(6))
  have kept: "with_paths [''data'', ''magnet.db''] [''data'', ''strms''] (kept_settings (initial_file '''' '''')
      (fc_credentials (initial_file '''' '''')) sample_settings) = placed ''/data/magnet.db'' ''/data/strms''"
    by (simp add: with_paths_def kept_settings_def b placed_fields)
  have n: "fc_database_path sample_settings = ''magnet.db''" "ls_strm_dir (fc_library sample_settings) = ''strms''"
    by (simp_all add: placed_fields)
  have "kw_saved (snd (config_serve setup_server (sample_hooks\<lparr>hk_on_saved := True\<rparr>) None ''/'' first_change first_world)) = 1"
    by (simp add: config_serve_def put_config_def first_change_def same_site_def or_status_def io_try_def io_ret_def io_bind_def
        setup_server_def first_world_def stored n b kept sample_hooks_def on_tokens_def given_credential_def save_and_report_def
        first_saves Let_def)
  then show ?thesis by (simp add: Let_def first_world_def)
qed

theorem setup_restart_serves_witness:
  "\<exists>k c2 s2. setup_requests setup_server (sample_hooks\<lparr>hk_on_saved := True\<rparr>) ''/'' [(None, first_change)] first_world = (True, k) \<and>
     serve_start first_toml None None ''c.toml'' plain_flags \<lparr>sw_files = kw_files k, sw_env = Map.empty\<rparr> =
       (Inr (c2, s2), \<lparr>sw_files = kw_files k, sw_env = Map.empty\<rparr>) \<and> \<not> cg_setup_required c2"
proof -
  obtain k where k: "setup_requests setup_server (sample_hooks\<lparr>hk_on_saved := True\<rparr>) ''/'' [(None, first_change)]
      \<lparr>kw_files = [''c.toml'' \<mapsto> ''i''], kw_tokens = (), kw_saved = 0\<rparr> = (True, k)"
    using first_session by (auto simp: first_world_def)
  obtain c s where start: "serve_start first_toml None None ''c.toml'' plain_flags \<lparr>sw_files = Map.empty, sw_env = Map.empty\<rparr> =
      (Inr (c, s), \<lparr>sw_files = [''c.toml'' \<mapsto> ''i''], sw_env = Map.empty\<rparr>)"
    using first_start by blast
  have "kv_toml setup_server = first_toml" "kv_env setup_server = Map.empty" "kv_path setup_server = ''c.toml''"
    by (simp_all add: setup_server_def)
  from setup_restart_serves [OF first_toml_faithful start, of setup_server, simplified, OF this k] k
  show ?thesis unfolding first_world_def by auto
qed

end
