(* ===== verification/Migrations.thy ===== *)
theory Migrations
  imports Job_Store
begin

text \<open>
  \<open>internal/storage/sqlite/migrations.go\<close> and the opening of a database in \<open>db.go\<close>: a database of an older schema is
  brought to the present one, step by step, each step in a transaction of its own. The older tables are records like those of
  \<open>Store\<close>, with the columns the statements read; rows are inserted in the order of the tables they are selected from, and
  \<open>order\<close> is the order in which \<open>GROUP BY\<close> puts its groups. Times are compared as times: the texts that stand for them
  in the tables are ordered alike.
\<close>

section \<open>The older schemas\<close>

record job8 =
  o_gid :: string
  o_info_hash :: string
  o_magnet_uri :: string
  o_state :: job_state
  o_error :: string
  o_created_at :: int
  o_started_at :: "int option"
  o_finished_at :: "int option"

record job9 = job8 +
  o_category :: string

record torrent9 = torrent_row +
  t9_status :: int
  t9_update :: int
  t9_progress :: rat
  t9_result_remote_id :: string
  t9_delete_file_id :: string
  t9_wp_path_id :: string

record torrent10 = torrent_row +
  t10_latest_task_id :: "int option"

record task10 = task_row +
  k10_result_remote_id :: string
  k10_delete_file_id :: string
  k10_wp_path_id :: string

text \<open>A location before artifacts: its column of them is not there yet, and stands empty here.\<close>

record location10 = location_row +
  l10_root_remote_id :: string

record db8 =
  d8_torrents :: "torrent9 list"
  d8_jobs :: "job8 list"
  d8_contents :: "content_row list"
  d8_torrent_files :: "torrent_file_row list"
  d8_locations :: "location10 list"

record db9 =
  d9_torrents :: "torrent9 list"
  d9_jobs :: "job9 list"
  d9_categories :: "(string \<times> string) list"
  d9_contents :: "content_row list"
  d9_torrent_files :: "torrent_file_row list"
  d9_locations :: "location10 list"

record db10 =
  d10_torrents :: "torrent10 list"
  d10_tasks :: "task10 list"
  d10_aria2_tasks :: "int list"
  d10_qbittorrent_tasks :: "(int \<times> string) list"
  d10_restore_tasks :: "(int \<times> string) list"
  d10_cli_tasks :: "int list"
  d10_categories :: "(string \<times> string) list"
  d10_contents :: "content_row list"
  d10_torrent_files :: "torrent_file_row list"
  d10_locations :: "location10 list"

section \<open>Inserting the rows of a query\<close>

fun insert_rows :: "('r \<Rightarrow> int) \<Rightarrow> ('a \<Rightarrow> int \<Rightarrow> 'r) \<Rightarrow> 'a list \<Rightarrow> 'r list \<Rightarrow> 'r list" where
  "insert_rows rid mk [] rows = rows"
| "insert_rows rid mk (a # as) rows = insert_rows rid mk as (rows @ [mk a (next_id rid rows)])"

section \<open>From 8 to 9\<close>

definition with_category :: "job8 \<Rightarrow> job9" where
  "with_category j = job8.extend j (job9.fields '''')"

definition migrate8 :: "db8 \<Rightarrow> db9" where
  "migrate8 d = \<lparr>d9_torrents = d8_torrents d, d9_jobs = map with_category (d8_jobs d), d9_categories = [],
     d9_contents = d8_contents d, d9_torrent_files = d8_torrent_files d, d9_locations = d8_locations d\<rparr>"

section \<open>From 9 to 10\<close>

text \<open>A torrent for every hash that only jobs have.\<close>

fun text_before :: "string \<Rightarrow> string \<Rightarrow> bool" where
  "text_before a [] = False"
| "text_before [] (d # b) = True"
| "text_before (c # a) (d # b) = (code_of c < code_of d \<or> (c = d \<and> text_before a b))"

definition greatest_text :: "string list \<Rightarrow> string" where
  "greatest_text xs = fold (\<lambda>x m. if text_before m x then x else m) xs ''''"

definition job_hash :: "job9 \<Rightarrow> string" where
  "job_hash j = to_lower (o_info_hash j)"

definition missing_hashes :: "db9 \<Rightarrow> string list" where
  "missing_hashes d = remdups (filter (\<lambda>h. h \<notin> tr_info_hash ` set (d9_torrents d)) (map job_hash (d9_jobs d)))"

definition torrent_of_jobs :: "job9 list \<Rightarrow> string \<Rightarrow> int \<Rightarrow> torrent9" where
  "torrent_of_jobs js h i =
     (let mine = filter (\<lambda>j. job_hash j = h) js; times = map o_created_at mine
      in \<lparr>tr_id = i, tr_info_hash = h, tr_magnet_uri = greatest_text (map o_magnet_uri mine), tr_display_name = '''',
          tr_total_bytes = 0, tr_file_count = 0, tr_strm_root = '''', tr_created_at = fold min times (hd times),
          tr_updated_at = fold max times (hd times), tr_scanned_at = None, t9_status = 0, t9_update = 0, t9_progress = 0,
          t9_result_remote_id = '''', t9_delete_file_id = '''', t9_wp_path_id = ''''\<rparr>)"

definition all_torrents :: "(string list \<Rightarrow> string list) \<Rightarrow> db9 \<Rightarrow> torrent9 list" where
  "all_torrents order d = insert_rows tr_id (torrent_of_jobs (d9_jobs d)) (order (missing_hashes d)) (d9_torrents d)"

text \<open>A task for every job, which takes what its torrent knew of the task in the cloud.\<close>

definition legacy_task :: "job9 \<times> torrent9 \<Rightarrow> int \<Rightarrow> task10" where
  "legacy_task p i = (case p of (j, t) \<Rightarrow>
     \<lparr>tk_id = i, tk_torrent_id = tr_id t, tk_gid = o_gid j, tk_source = ''legacy'', tk_magnet_uri = o_magnet_uri j,
      tk_state = o_state j, tk_error = o_error j, tk_prov_status = t9_status t, tk_prov_update = t9_update t,
      tk_prov_progress = t9_progress t, tk_created_at = o_created_at j, tk_started_at = o_started_at j,
      tk_finished_at = o_finished_at j, k10_result_remote_id = t9_result_remote_id t, k10_delete_file_id = t9_delete_file_id t,
      k10_wp_path_id = t9_wp_path_id t\<rparr>)"

definition jobs_with_torrents :: "job9 list \<Rightarrow> torrent9 list \<Rightarrow> (job9 \<times> torrent9) list" where
  "jobs_with_torrents js ts = concat (map (\<lambda>j. map (\<lambda>t. (j, t)) (filter (\<lambda>t. tr_info_hash t = job_hash j) ts)) js)"

definition ended_at :: "('z) task_row_scheme \<Rightarrow> int" where
  "ended_at k = (case tk_finished_at k of Some x \<Rightarrow> x | None \<Rightarrow> tk_created_at k)"

definition later_task :: "('z) task_row_scheme \<Rightarrow> ('z) task_row_scheme \<Rightarrow> bool" where
  "later_task k m = (ended_at m < ended_at k \<or> (ended_at m = ended_at k \<and> tk_id m < tk_id k))"

definition latest_success :: "('z) task_row_scheme list \<Rightarrow> int \<Rightarrow> int option" where
  "latest_success ks i =
     (case filter (\<lambda>k. tk_torrent_id k = i \<and> tk_state k = Succeeded) ks of
       [] \<Rightarrow> None
     | m # ms \<Rightarrow> Some (tk_id (fold (\<lambda>k b. if later_task k b then k else b) ms m)))"

definition torrent_10 :: "task10 list \<Rightarrow> torrent9 \<Rightarrow> torrent10" where
  "torrent_10 ks t = torrent_row.extend (torrent_row.truncate t) (torrent10.fields (latest_success ks (tr_id t)))"

definition task_progress_ok :: "('z) task_row_scheme \<Rightarrow> bool" where
  "task_progress_ok k = (0 \<le> tk_prov_progress k \<and> tk_prov_progress k \<le> 100)"

definition files_refer :: "int set \<Rightarrow> content_row list \<Rightarrow> torrent_file_row list \<Rightarrow> ('z) location_row_scheme list \<Rightarrow> bool" where
  "files_refer ids cs fs ls =
     (list_all (\<lambda>f. tf_torrent_id f \<in> ids \<and> tf_content_id f \<in> co_id ` set cs) fs \<and>
      list_all (\<lambda>l. lo_content_id l \<in> co_id ` set cs \<and> (case lo_torrent_id l of None \<Rightarrow> True | Some i \<Rightarrow> i \<in> ids)) ls)"

definition foreign_keys10 :: "db10 \<Rightarrow> bool" where
  "foreign_keys10 d =
     (list_all (\<lambda>k. tk_torrent_id k \<in> tr_id ` set (d10_torrents d)) (d10_tasks d) \<and>
      list_all (\<lambda>t. case t10_latest_task_id t of None \<Rightarrow> True | Some i \<Rightarrow> i \<in> tk_id ` set (d10_tasks d)) (d10_torrents d) \<and>
      files_refer (tr_id ` set (d10_torrents d)) (d10_contents d) (d10_torrent_files d) (d10_locations d))"

definition version10 :: "(string list \<Rightarrow> string list) \<Rightarrow> db9 \<Rightarrow> db10" where
  "version10 order d =
     (let ts = all_torrents order d; ks = insert_rows tk_id legacy_task (jobs_with_torrents (d9_jobs d) ts) []
      in \<lparr>d10_torrents = map (torrent_10 ks) ts, d10_tasks = ks, d10_aria2_tasks = [], d10_qbittorrent_tasks = [],
          d10_restore_tasks = [], d10_cli_tasks = [], d10_categories = d9_categories d, d10_contents = d9_contents d,
          d10_torrent_files = d9_torrent_files d, d10_locations = d9_locations d\<rparr>)"

definition migrate9 :: "(string list \<Rightarrow> string list) \<Rightarrow> db9 \<Rightarrow> err + db10" where
  "migrate9 order d =
     (let d10 = version10 order d
      in if \<not> distinct (map tk_gid (d10_tasks d10)) then Inl (Constraint ''tasks.gid'')
         else if \<not> list_all task_progress_ok (d10_tasks d10) then Inl (Constraint ''tasks.provider_task_progress'')
         else if \<not> foreign_keys10 d10 then Inl (Msg ''foreign keys'')
         else Inr d10)"

section \<open>From 10 to 11\<close>

text \<open>An artifact for the last success of every torrent, and for what else is cached.\<close>

definition artifact_of_task :: "torrent10 \<times> task10 \<Rightarrow> int \<Rightarrow> artifact_row" where
  "artifact_of_task p i = (case p of (t, k) \<Rightarrow>
     \<lparr>ar_id = i, ar_torrent_id = tr_id t, ar_task_id = Some (tk_id k), ar_provider = ''p115'',
      ar_result_remote_id = k10_result_remote_id k, ar_delete_file_id = k10_delete_file_id k,
      ar_work_dir_remote_id = k10_wp_path_id k, ar_state = Active, ar_last_accessed_at = None, ar_verified_at = Some (ended_at k),
      ar_deleted_at = None, ar_deletion_error = '''', ar_created_at = tk_created_at k, ar_updated_at = ended_at k\<rparr>)"

definition artifact_of_cache :: "torrent10 \<times> string \<Rightarrow> int \<Rightarrow> artifact_row" where
  "artifact_of_cache p i = (case p of (t, folder) \<Rightarrow>
     \<lparr>ar_id = i, ar_torrent_id = tr_id t, ar_task_id = None, ar_provider = ''p115'', ar_result_remote_id = '''',
      ar_delete_file_id = '''', ar_work_dir_remote_id = folder, ar_state = Active, ar_last_accessed_at = None,
      ar_verified_at = None, ar_deleted_at = None, ar_deletion_error = '''', ar_created_at = tr_created_at t,
      ar_updated_at = tr_updated_at t\<rparr>)"

definition last_successes :: "db10 \<Rightarrow> (torrent10 \<times> task10) list" where
  "last_successes d =
     concat (map (\<lambda>t. map (\<lambda>k. (t, k)) (filter (\<lambda>k. t10_latest_task_id t = Some (tk_id k)) (d10_tasks d))) (d10_torrents d))"

definition cached_folders :: "db10 \<Rightarrow> artifact_row list \<Rightarrow> (torrent10 \<times> string) list" where
  "cached_folders d as = rev (remdups (rev (concat (map (\<lambda>t. map (\<lambda>l. (t, l10_root_remote_id l))
     (filter (\<lambda>l. lo_torrent_id l = Some (tr_id t) \<and> lo_ownership l = ManagedCache \<and> lo_deleted_at l = None \<and>
       tr_id t \<notin> ar_torrent_id ` set as) (d10_locations d))) (d10_torrents d)))))"

definition all_artifacts :: "db10 \<Rightarrow> artifact_row list" where
  "all_artifacts d =
     (let as = insert_rows ar_id artifact_of_task (last_successes d) []
      in insert_rows ar_id artifact_of_cache (cached_folders d as) as)"

definition artifact_of_location :: "artifact_row list \<Rightarrow> location10 \<Rightarrow> int option" where
  "artifact_of_location as l =
     (if lo_ownership l \<noteq> ManagedCache then None
      else case filter (\<lambda>a. lo_torrent_id l = Some (ar_torrent_id a) \<and> ar_provider a = lo_provider l) as of
        [] \<Rightarrow> None
      | a # rest \<Rightarrow> Some (fold (\<lambda>x m. max (ar_id x) m) rest (ar_id a)))"

definition location_11 :: "artifact_row list \<Rightarrow> location10 \<Rightarrow> location_row" where
  "location_11 as l = (location_row.truncate l)\<lparr>lo_artifact_id := artifact_of_location as l\<rparr>"

definition foreign_keys :: "db \<Rightarrow> bool" where
  "foreign_keys d =
     (let torrent_ids = tr_id ` set (torrents d); task_keys = tk_id ` set (tasks d)
      in list_all (\<lambda>k. tk_torrent_id k \<in> torrent_ids) (tasks d) \<and>
         set (aria2_tasks d) \<union> fst ` set (qbittorrent_tasks d) \<union> fst ` set (restore_tasks d) \<union> set (cli_tasks d) \<subseteq> task_keys \<and>
         list_all (\<lambda>a. ar_torrent_id a \<in> torrent_ids \<and> (case ar_task_id a of None \<Rightarrow> True | Some i \<Rightarrow> i \<in> task_keys)) (artifacts d) \<and>
         files_refer torrent_ids (contents d) (torrent_files d) (locations d) \<and>
         list_all (\<lambda>l. case lo_artifact_id l of None \<Rightarrow> True | Some i \<Rightarrow> i \<in> ar_id ` set (artifacts d)) (locations d))"

definition version11 :: "db10 \<Rightarrow> db" where
  "version11 d =
     (let as = all_artifacts d
      in \<lparr>torrents = map torrent_row.truncate (d10_torrents d), tasks = map task_row.truncate (d10_tasks d),
          aria2_tasks = d10_aria2_tasks d, qbittorrent_tasks = d10_qbittorrent_tasks d, restore_tasks = d10_restore_tasks d,
          cli_tasks = d10_cli_tasks d, artifacts = as, categories = d10_categories d, contents = d10_contents d,
          torrent_files = d10_torrent_files d, locations = map (location_11 as) (d10_locations d)\<rparr>)"

definition migrate10 :: "db10 \<Rightarrow> err + db" where
  "migrate10 d =
     (let d11 = version11 d
      in if \<not> distinct (List.map_filter ar_task_id (artifacts d11)) then Inl (Constraint ''managed_artifacts.created_by_task_id'')
         else if \<not> active_unique (tasks d11) then Inl (Constraint ''tasks.source, tasks.torrent_id'')
         else if \<not> foreign_keys d11 then Inl (Msg ''foreign keys'')
         else Inr d11)"

section \<open>Opening\<close>

text \<open>What a database file can hold: no tables, tables of a version no migration starts from, or the tables of a schema.\<close>

datatype db_file = NoTables int | OtherTables int | Db8 db8 | Db9 db9 | Db10 db10 | Db11 db

function upgrade :: "(string list \<Rightarrow> string list) \<Rightarrow> db_file \<Rightarrow> err option \<times> db_file" where
  "upgrade order (Db8 d) = upgrade order (Db9 (migrate8 d))"
| "upgrade order (Db9 d) = (case migrate9 order d of Inl e \<Rightarrow> (Some e, Db9 d) | Inr d10 \<Rightarrow> upgrade order (Db10 d10))"
| "upgrade order (Db10 d) = (case migrate10 d of Inl e \<Rightarrow> (Some e, Db10 d) | Inr d11 \<Rightarrow> (None, Db11 d11))"
| "upgrade order (Db11 d) = (None, Db11 d)"
| "upgrade order (NoTables v) = (None, Db11 empty_db)"
| "upgrade order (OtherTables v) =
     (Some (Msg (if 11 < v then ''newer version'' else if v = 0 then ''no version'' else ''older version'')), OtherTables v)"
  by pat_completeness auto

termination by (relation "measure (\<lambda>(_, f). case f of Db8 _ \<Rightarrow> 2 | Db9 _ \<Rightarrow> 1 | _ \<Rightarrow> 0)") auto

definition initialize :: "(string list \<Rightarrow> string list) \<Rightarrow> db_file \<Rightarrow> err option \<times> db_file" where
  "initialize order f = (case f of
     NoTables v \<Rightarrow> if 11 < v then (Some (Msg ''newer version''), NoTables v) else upgrade order f
   | _ \<Rightarrow> upgrade order f)"

end
