(* ===== verification/Migration_Facts.thy ===== *)
theory Migration_Facts
  imports Migrations Job_Store_Facts
begin

text \<open>
  What opening an older database does to its jobs: each becomes a task of its torrent, unless two unfinished jobs of one torrent
  stop the last step.
\<close>

section \<open>Inserted rows\<close>

lemma insert_rows_map:
  "(\<And>a i. f (mk a i) = g a) \<Longrightarrow> map f (insert_rows rid mk xs rows) = map f rows @ map g xs"
  by (induction xs arbitrary: rows) simp_all

lemma insert_rows_ids:
  assumes "\<And>a i. rid (mk a i) = i" and "distinct (map rid rows)"
  shows "distinct (map rid (insert_rows rid mk xs rows))"
  using assms(2)
proof (induction xs arbitrary: rows)
  case (Cons a xs)
  have "distinct (map rid (rows @ [mk a (next_id rid rows)]))"
    using Cons.prems next_id_fresh [of rid rows] by (simp add: assms(1))
  then show ?case using Cons.IH by simp
qed simp

lemma insert_rows_new:
  "\<exists>new. insert_rows rid mk xs rows = rows @ new \<and> (\<forall>r \<in> set new. \<exists>a \<in> set xs. \<exists>i. r = mk a i)"
proof (induction xs arbitrary: rows)
  case (Cons a xs)
  from Cons [of "rows @ [mk a (next_id rid rows)]"] show ?case by fastforce
qed simp

lemma insert_rows_set:
  "r \<in> set (insert_rows rid mk xs rows) \<Longrightarrow> r \<in> set rows \<or> (\<exists>a \<in> set xs. \<exists>i. r = mk a i)"
  using insert_rows_new [of rid mk xs rows] by fastforce

lemma insert_rows_mono: "set rows \<subseteq> set (insert_rows rid mk xs rows)"
  using insert_rows_new [of rid mk xs rows] by fastforce

lemma fold_pick_in: "fold (\<lambda>k b. if P k b then k else b) ks m \<in> insert m (set ks)"
proof (induction ks arbitrary: m)
  case (Cons k ks)
  from Cons [of "if P k m then k else m"] show ?case by (auto split: if_splits)
qed simp

lemma fold_max_in: "fold (\<lambda>x m. max (f x) m) xs (f a) \<in> f ` insert a (set xs)" for f :: "'x \<Rightarrow> int"
proof (induction xs arbitrary: a)
  case (Cons x xs)
  have "max (f x) (f a) = f (if f a \<le> f x then x else a)" by simp
  with Cons [of "if f a \<le> f x then x else a"] show ?case by (auto split: if_splits)
qed simp

section \<open>An older database in order\<close>

definition old_ok :: "db9 \<Rightarrow> bool" where
  "old_ok d \<longleftrightarrow> distinct (map tr_id (d9_torrents d)) \<and> distinct (map tr_info_hash (d9_torrents d)) \<and>
     distinct (map o_gid (d9_jobs d)) \<and> (\<forall>t \<in> set (d9_torrents d). hash_check (tr_info_hash t) \<and> 0 \<le> t9_progress t \<and> t9_progress t \<le> 100) \<and>
     (\<forall>j \<in> set (d9_jobs d). length (o_info_hash j) = 40) \<and>
     files_refer (tr_id ` set (d9_torrents d)) (d9_contents d) (d9_torrent_files d) (d9_locations d)"

definition unfinished_twice :: "db9 \<Rightarrow> bool" where
  "unfinished_twice d \<longleftrightarrow> \<not> distinct (map job_hash (filter (\<lambda>j. o_state j \<in> {Queued, Running}) (d9_jobs d)))"

lemma torrent_of_jobs_fields [simp]:
  "tr_id (torrent_of_jobs js h i) = i" "tr_info_hash (torrent_of_jobs js h i) = h" "t9_progress (torrent_of_jobs js h i) = 0"
  by (simp_all add: torrent_of_jobs_def Let_def)

lemma legacy_task_fields [simp]:
  "tk_id (legacy_task p i) = i" "tk_torrent_id (legacy_task p i) = tr_id (snd p)" "tk_gid (legacy_task p i) = o_gid (fst p)"
  "tk_state (legacy_task p i) = o_state (fst p)" "tk_source (legacy_task p i) = ''legacy''"
  "tk_prov_progress (legacy_task p i) = t9_progress (snd p)" "tk_magnet_uri (legacy_task p i) = o_magnet_uri (fst p)"
  "tk_error (legacy_task p i) = o_error (fst p)" "tk_created_at (legacy_task p i) = o_created_at (fst p)"
  "tk_started_at (legacy_task p i) = o_started_at (fst p)" "tk_finished_at (legacy_task p i) = o_finished_at (fst p)"
  by (simp_all add: legacy_task_def split: prod.splits)

lemma torrent_10_fields [simp]:
  "tr_id (torrent_10 ks t) = tr_id t" "tr_info_hash (torrent_10 ks t) = tr_info_hash t"
  "t10_latest_task_id (torrent_10 ks t) = latest_success ks (tr_id t)"
  by (simp_all add: torrent_10_def torrent_row.defs torrent10.defs)

lemma truncate_fields [simp]:
  "tr_id (torrent_row.truncate t) = tr_id t" "tr_info_hash (torrent_row.truncate t) = tr_info_hash t"
  "tk_id (task_row.truncate k) = tk_id k" "tk_torrent_id (task_row.truncate k) = tk_torrent_id k"
  "tk_gid (task_row.truncate k) = tk_gid k" "tk_state (task_row.truncate k) = tk_state k" "tk_source (task_row.truncate k) = tk_source k"
  "tk_magnet_uri (task_row.truncate k) = tk_magnet_uri k" "tk_error (task_row.truncate k) = tk_error k"
  "tk_created_at (task_row.truncate k) = tk_created_at k" "tk_started_at (task_row.truncate k) = tk_started_at k"
  "tk_finished_at (task_row.truncate k) = tk_finished_at k"
  by (simp_all add: torrent_row.defs task_row.defs)

lemma location_11_fields [simp]:
  "lo_content_id (location_11 as l) = lo_content_id l" "lo_torrent_id (location_11 as l) = lo_torrent_id l"
  "lo_artifact_id (location_11 as l) = artifact_of_location as l"
  by (simp_all add: location_11_def location_row.defs)

lemma artifact_fields [simp]:
  "ar_id (artifact_of_task p i) = i" "ar_torrent_id (artifact_of_task p i) = tr_id (fst p)"
  "ar_task_id (artifact_of_task p i) = Some (tk_id (snd p))" "ar_id (artifact_of_cache q i) = i"
  "ar_torrent_id (artifact_of_cache q i) = tr_id (fst q)" "ar_task_id (artifact_of_cache q i) = None"
  by (simp_all add: artifact_of_task_def artifact_of_cache_def split: prod.splits)

section \<open>The torrents\<close>

definition group_order :: "(string list \<Rightarrow> string list) \<Rightarrow> bool" where
  "group_order order \<longleftrightarrow> (\<forall>xs. distinct xs \<longrightarrow> distinct (order xs) \<and> set (order xs) = set xs)"

lemma all_torrents_hashes:
  assumes ord: "group_order order" and ok: "old_ok d"
  shows "distinct (map tr_info_hash (all_torrents order d))"
    "set (map tr_info_hash (all_torrents order d)) = tr_info_hash ` set (d9_torrents d) \<union> job_hash ` set (d9_jobs d)"
    "distinct (map tr_id (all_torrents order d))" "set (d9_torrents d) \<subseteq> set (all_torrents order d)"
    "\<And>t. t \<in> set (all_torrents order d) \<Longrightarrow> hash_check (tr_info_hash t) \<and> 0 \<le> t9_progress t \<and> t9_progress t \<le> 100"
proof -
  let ?new = "order (missing_hashes d)"
  have h: "map tr_info_hash (all_torrents order d) = map tr_info_hash (d9_torrents d) @ ?new"
    unfolding all_torrents_def by (subst insert_rows_map [where g = "\<lambda>h. h"]) simp_all
  have new: "set ?new = set (missing_hashes d)" and "distinct ?new"
    using ord by (simp_all add: group_order_def missing_hashes_def)
  then show "distinct (map tr_info_hash (all_torrents order d))"
    using ok by (auto simp: h new old_ok_def) (auto simp: missing_hashes_def)
  show "set (map tr_info_hash (all_torrents order d)) = tr_info_hash ` set (d9_torrents d) \<union> job_hash ` set (d9_jobs d)"
    unfolding h using new by (auto simp: missing_hashes_def)
  show "distinct (map tr_id (all_torrents order d))"
    using ok unfolding all_torrents_def by (intro insert_rows_ids) (simp_all add: old_ok_def)
  show "set (d9_torrents d) \<subseteq> set (all_torrents order d)" unfolding all_torrents_def by (rule insert_rows_mono)
  fix t
  assume "t \<in> set (all_torrents order d)"
  then consider "t \<in> set (d9_torrents d)" | h i where "h \<in> set ?new" "t = torrent_of_jobs (d9_jobs d) h i"
    unfolding all_torrents_def by (blast dest: insert_rows_set)
  then show "hash_check (tr_info_hash t) \<and> 0 \<le> t9_progress t \<and> t9_progress t \<le> 100"
  proof cases
    case 1
    with ok show ?thesis by (auto simp: old_ok_def)
  next
    case 2
    with new obtain j where "j \<in> set (d9_jobs d)" "h = job_hash j" by (auto simp: missing_hashes_def)
    with ok 2(2) show ?thesis by (auto simp: old_ok_def hash_check_def job_hash_def)
  qed
qed

lemma filter_key_one:
  assumes "distinct (map f xs)" and "x \<in> set xs"
  shows "filter (\<lambda>y. f y = f x) xs = [x]"
  using assms
proof (induction xs)
  case (Cons y xs)
  show ?case
  proof (cases "f y = f x")
    case True
    have "y = x"
    proof (rule ccontr)
      assume "y \<noteq> x"
      with Cons.prems(2) have "f x \<in> f ` set xs" by simp
      with Cons.prems(1) True show False by simp
    qed
    have "filter (\<lambda>z. f z = f x) xs = []"
      using Cons.prems(1) unfolding \<open>y = x\<close> by (auto simp: filter_empty_conv) (metis imageI)
    with \<open>y = x\<close> show ?thesis by simp
  qed (use Cons in auto)
qed simp

lemma jobs_with_torrents_join:
  assumes "distinct (map tr_info_hash ts)" and "job_hash ` set js \<subseteq> tr_info_hash ` set ts"
  shows "map fst (jobs_with_torrents js ts) = js \<and>
    (\<forall>p \<in> set (jobs_with_torrents js ts). snd p \<in> set ts \<and> tr_info_hash (snd p) = job_hash (fst p))"
  using assms(2)
proof (induction js)
  case (Cons j js)
  then obtain t where t: "t \<in> set ts" "tr_info_hash t = job_hash j" by auto
  have "filter (\<lambda>x. tr_info_hash x = job_hash j) ts = [t]" using filter_key_one [OF assms(1) t(1)] t(2) by simp
  with Cons t show ?case by (simp add: jobs_with_torrents_def)
qed (simp add: jobs_with_torrents_def)

lemma latest_success_in:
  assumes "latest_success ks i = Some x"
  shows "\<exists>k \<in> set ks. tk_id k = x \<and> tk_torrent_id k = i"
proof -
  from assms obtain m ms where f: "filter (\<lambda>k. tk_torrent_id k = i \<and> tk_state k = Succeeded) ks = m # ms"
      and x: "x = tk_id (fold (\<lambda>k b. if later_task k b then k else b) ms m)"
    by (auto simp: latest_success_def split: list.splits)
  have "fold (\<lambda>k b. if later_task k b then k else b) ms m \<in> set (m # ms)"
    using fold_pick_in [of later_task ms m] by simp
  then show ?thesis unfolding x f [symmetric] by auto
qed


section \<open>The tasks of the jobs\<close>

abbreviation old_pairs :: "(string list \<Rightarrow> string list) \<Rightarrow> db9 \<Rightarrow> (job9 \<times> torrent9) list" where
  "old_pairs order d \<equiv> jobs_with_torrents (d9_jobs d) (all_torrents order d)"

abbreviation new_tasks :: "(string list \<Rightarrow> string list) \<Rightarrow> db9 \<Rightarrow> task10 list" where
  "new_tasks order d \<equiv> insert_rows tk_id legacy_task (old_pairs order d) []"

lemma version10_fields [simp]:
  "d10_torrents (version10 order d) = map (torrent_10 (new_tasks order d)) (all_torrents order d)"
  "d10_tasks (version10 order d) = new_tasks order d" "d10_aria2_tasks (version10 order d) = []"
  "d10_qbittorrent_tasks (version10 order d) = []" "d10_restore_tasks (version10 order d) = []"
  "d10_cli_tasks (version10 order d) = []" "d10_contents (version10 order d) = d9_contents d"
  "d10_torrent_files (version10 order d) = d9_torrent_files d" "d10_locations (version10 order d) = d9_locations d"
  by (simp_all add: version10_def Let_def)

lemma version11_fields [simp]:
  "torrents (version11 e) = map torrent_row.truncate (d10_torrents e)" "tasks (version11 e) = map task_row.truncate (d10_tasks e)"
  "aria2_tasks (version11 e) = d10_aria2_tasks e" "qbittorrent_tasks (version11 e) = d10_qbittorrent_tasks e"
  "restore_tasks (version11 e) = d10_restore_tasks e" "cli_tasks (version11 e) = d10_cli_tasks e"
  "artifacts (version11 e) = all_artifacts e" "contents (version11 e) = d10_contents e"
  "torrent_files (version11 e) = d10_torrent_files e" "locations (version11 e) = map (location_11 (all_artifacts e)) (d10_locations e)"
  by (simp_all add: version11_def Let_def)

lemma old_pairs_join:
  assumes "group_order order" and "old_ok d"
  shows "map fst (old_pairs order d) = d9_jobs d"
    "\<And>p. p \<in> set (old_pairs order d) \<Longrightarrow> snd p \<in> set (all_torrents order d) \<and> tr_info_hash (snd p) = job_hash (fst p)"
  using jobs_with_torrents_join [of "all_torrents order d" "d9_jobs d"] all_torrents_hashes(1,2) [OF assms] by auto

lemma new_tasks_map:
  assumes "\<And>p i. f (legacy_task p i) = g p"
  shows "map f (new_tasks order d) = map g (old_pairs order d)"
  using insert_rows_map [where f = f and mk = legacy_task and g = g and rows = "[]"] assms by simp

lemma new_tasks_of:
  assumes "k \<in> set (new_tasks order d)"
  obtains p i where "p \<in> set (old_pairs order d)" "k = legacy_task p i"
  using insert_rows_set [OF assms] by auto

lemma new_tasks_distinct:
  assumes "group_order order" and "old_ok d"
  shows "distinct (map tk_id (new_tasks order d))" "distinct (map tk_gid (new_tasks order d))"
proof -
  show "distinct (map tk_id (new_tasks order d))" by (rule insert_rows_ids) simp_all
  have "map tk_gid (new_tasks order d) = map o_gid (map fst (old_pairs order d))"
    unfolding map_map by (rule new_tasks_map) simp
  also have "\<dots> = map o_gid (d9_jobs d)" by (simp only: old_pairs_join(1) [OF assms])
  finally have "map tk_gid (new_tasks order d) = map o_gid (d9_jobs d)" .
  then show "distinct (map tk_gid (new_tasks order d))" using assms(2) by (simp add: old_ok_def)
qed

lemma new_tasks_refer:
  assumes "group_order order" and "old_ok d" and "k \<in> set (new_tasks order d)"
  shows "tk_torrent_id k \<in> tr_id ` set (all_torrents order d)" "task_progress_ok k"
proof -
  obtain p i where p: "p \<in> set (old_pairs order d)" "k = legacy_task p i" using assms(3) by (rule new_tasks_of)
  note t = conjunct1 [OF old_pairs_join(2) [OF assms(1,2) p(1)]]
  then show "tk_torrent_id k \<in> tr_id ` set (all_torrents order d)" by (simp add: p(2))
  show "task_progress_ok k" using all_torrents_hashes(5) [OF assms(1,2) t] by (simp add: p(2) task_progress_ok_def)
qed

lemma files_refer_mono:
  "ids \<subseteq> ids' \<Longrightarrow> files_refer ids cs fs ls \<Longrightarrow> files_refer ids' cs fs ls"
  by (auto simp: files_refer_def list_all_iff split: option.splits)

lemma migrate9_succeeds:
  assumes "group_order order" and "old_ok d"
  shows "migrate9 order d = Inr (version10 order d)" and "foreign_keys10 (version10 order d)"
proof -
  let ?ts = "all_torrents order d"
  have ids: "tr_id ` torrent_10 ks ` set ?ts = tr_id ` set ?ts" for ks by (auto simp: image_image)
  have files: "files_refer (tr_id ` set ?ts) (d9_contents d) (d9_torrent_files d) (d9_locations d)"
    by (rule files_refer_mono [OF image_mono [OF all_torrents_hashes(4) [OF assms]]]) (use assms(2) in \<open>simp add: old_ok_def\<close>)
  have latest: "case t10_latest_task_id t of None \<Rightarrow> True | Some i \<Rightarrow> i \<in> tk_id ` set (new_tasks order d)"
    if t: "t \<in> torrent_10 (new_tasks order d) ` set ?ts" for t
  proof (cases "t10_latest_task_id t")
    case (Some i)
    with t obtain u :: torrent9 where "latest_success (new_tasks order d) (tr_id u) = Some i" by auto
    then obtain k where "k \<in> set (new_tasks order d)" "tk_id k = i" using latest_success_in by metis
    with Some show ?thesis by force
  qed simp
  show *: "foreign_keys10 (version10 order d)"
    unfolding foreign_keys10_def version10_fields list_all_iff set_map ids
    by (intro conjI ballI files latest new_tasks_refer(1) [OF assms])
  show "migrate9 order d = Inr (version10 order d)"
    using new_tasks_distinct(2) [OF assms] new_tasks_refer(2) [OF assms] *
    by (simp add: migrate9_def Let_def list_all_iff)
qed


section \<open>The artifacts\<close>

lemma distinct_concat_keys:
  assumes "distinct (map h xs)" and "\<And>x. x \<in> set xs \<Longrightarrow> distinct (map g (F x))"
    and "\<And>x p. x \<in> set xs \<Longrightarrow> p \<in> set (F x) \<Longrightarrow> q (g p) = h x"
  shows "distinct (map g (concat (map F xs)))"
  using assms
proof (induction xs)
  case (Cons x xs)
  have "g p \<noteq> g p'" if "p \<in> set (F x)" "y \<in> set xs" "p' \<in> set (F y)" for p y p'
  proof
    assume "g p = g p'"
    then have "h x = h y" using Cons.prems(3) that by (metis list.set_intros)
    with Cons.prems(1) that(2) show False by (metis distinct.simps(2) image_eqI list.set_map list.simps(9))
  qed
  then have "g ` set (F x) \<inter> g ` set (concat (map F xs)) = {}" by auto
  moreover have "distinct (map g (concat (map F xs)))" using Cons by simp
  ultimately show ?case using Cons.prems(2) [of x] by (simp add: image_Un)
qed simp

definition latest_ok :: "db10 \<Rightarrow> bool" where
  "latest_ok e \<longleftrightarrow> distinct (map tr_id (d10_torrents e)) \<and> distinct (map tk_id (d10_tasks e)) \<and>
     (\<forall>t \<in> set (d10_torrents e). \<forall>k \<in> set (d10_tasks e). t10_latest_task_id t = Some (tk_id k) \<longrightarrow> tk_torrent_id k = tr_id t)"

lemma last_successes_in:
  "p \<in> set (last_successes e) \<Longrightarrow> fst p \<in> set (d10_torrents e) \<and> snd p \<in> set (d10_tasks e)"
  by (auto simp: last_successes_def)

lemma last_successes_distinct:
  assumes "latest_ok e"
  shows "distinct (map (\<lambda>p. tk_id (snd p)) (last_successes e))"
proof -
  have "distinct (map (\<lambda>p. (tk_id (snd p), tk_torrent_id (snd p))) (last_successes e))"
    unfolding last_successes_def
  proof (rule distinct_concat_keys [where h = tr_id and q = snd])
    show "distinct (map tr_id (d10_torrents e))" using assms by (simp add: latest_ok_def)
  next
    fix t
    have "distinct (map tk_id (filter (\<lambda>k. t10_latest_task_id t = Some (tk_id k)) (d10_tasks e)))"
      using assms by (simp add: latest_ok_def distinct_map_filter)
    then have "distinct (map (\<lambda>k. (tk_id k, tk_torrent_id k)) (filter (\<lambda>k. t10_latest_task_id t = Some (tk_id k)) (d10_tasks e)))"
      by (auto simp: distinct_map inj_on_def)
    then show "distinct (map (\<lambda>p. (tk_id (snd p), tk_torrent_id (snd p)))
        (map (\<lambda>k. (t, k)) (filter (\<lambda>k. t10_latest_task_id t = Some (tk_id k)) (d10_tasks e))))"
      by (simp add: comp_def)
  next
    fix t p
    assume "t \<in> set (d10_torrents e)"
      and "p \<in> set (map (\<lambda>k. (t, k)) (filter (\<lambda>k. t10_latest_task_id t = Some (tk_id k)) (d10_tasks e)))"
    with assms show "snd (tk_id (snd p), tk_torrent_id (snd p)) = tr_id t" by (auto simp: latest_ok_def)
  qed
  then have "distinct (last_successes e)" and "inj_on (\<lambda>p. (tk_id (snd p), tk_torrent_id (snd p))) (set (last_successes e))"
    by (auto simp: distinct_map inj_on_def)
  moreover have "inj_on tk_id (set (d10_tasks e))" using assms by (simp add: latest_ok_def distinct_map)
  ultimately show ?thesis using last_successes_in [of _ e] by (simp add: distinct_map inj_on_def) metis
qed

lemma map_filter_append: "List.map_filter f (xs @ ys) = List.map_filter f xs @ List.map_filter f ys"
  by (simp add: List.map_filter_def)

lemma insert_rows_map_filter:
  "(\<And>a i. f (mk a i) = g a) \<Longrightarrow> List.map_filter f (insert_rows rid mk xs rows) = List.map_filter f rows @ List.map_filter g xs"
  by (induction xs arbitrary: rows) (simp_all add: map_filter_append List.map_filter_def)

lemma artifact_tasks_distinct:
  assumes "latest_ok e"
  shows "distinct (List.map_filter ar_task_id (all_artifacts e))"
proof -
  have "List.map_filter ar_task_id (all_artifacts e) = List.map_filter (\<lambda>p. Some (tk_id (snd p))) (last_successes e)"
    unfolding all_artifacts_def Let_def
    by (simp add: insert_rows_map_filter [where g = "\<lambda>_. None"] insert_rows_map_filter [where g = "\<lambda>p. Some (tk_id (snd p))"])
      (simp add: List.map_filter_def)
  also have "\<dots> = map (\<lambda>p. tk_id (snd p)) (last_successes e)" by (simp add: List.map_filter_def comp_def)
  finally show ?thesis using last_successes_distinct [OF assms] by simp
qed

lemma artifacts_refer:
  assumes "a \<in> set (all_artifacts e)"
  shows "ar_torrent_id a \<in> tr_id ` set (d10_torrents e)" "case ar_task_id a of None \<Rightarrow> True | Some i \<Rightarrow> i \<in> tk_id ` set (d10_tasks e)"
proof -
  from assms consider p i where "p \<in> set (last_successes e)" "a = artifact_of_task p i"
    | q as i where "q \<in> set (cached_folders e as)" "a = artifact_of_cache q i"
    unfolding all_artifacts_def Let_def by (metis empty_iff empty_set insert_rows_set)
  then have "ar_torrent_id a \<in> tr_id ` set (d10_torrents e) \<and>
      (case ar_task_id a of None \<Rightarrow> True | Some i \<Rightarrow> i \<in> tk_id ` set (d10_tasks e))"
  proof cases
    case 1
    with last_successes_in [OF 1(1)] show ?thesis by simp
  next
    case 2
    then show ?thesis by (auto simp: cached_folders_def)
  qed
  then show "ar_torrent_id a \<in> tr_id ` set (d10_torrents e)" "case ar_task_id a of None \<Rightarrow> True | Some i \<Rightarrow> i \<in> tk_id ` set (d10_tasks e)"
    by auto
qed

lemma artifact_of_location_in: "artifact_of_location as l = Some i \<Longrightarrow> i \<in> ar_id ` set as"
proof -
  assume s: "artifact_of_location as l = Some i"
  define mine where "mine = filter (\<lambda>a. lo_torrent_id l = Some (ar_torrent_id a) \<and> ar_provider a = lo_provider l) as"
  from s obtain a rest where m: "mine = a # rest" and i: "i = fold (\<lambda>x m. max (ar_id x) m) rest (ar_id a)"
    by (auto simp: artifact_of_location_def mine_def [symmetric] split: if_splits list.splits)
  have "i \<in> ar_id ` set mine" unfolding i m using fold_max_in [of ar_id rest a] by simp
  then show ?thesis by (auto simp: mine_def)
qed


section \<open>The present schema\<close>

lemma files_refer_11:
  "files_refer ids cs fs (map (location_11 as) ls) = files_refer ids cs fs ls"
  by (simp add: files_refer_def list_all_iff)

lemma version10_latest:
  assumes "group_order order" and "old_ok d"
  shows "latest_ok (version10 order d)"
proof -
  have "tk_torrent_id k = i" if l: "latest_success (new_tasks order d) i = Some (tk_id k)" and k: "k \<in> set (new_tasks order d)" for k i
  proof -
    obtain k' where "k' \<in> set (new_tasks order d)" "tk_id k' = tk_id k" "tk_torrent_id k' = i"
      using latest_success_in [OF l] by auto
    moreover have "inj_on tk_id (set (new_tasks order d))" using new_tasks_distinct(1) [OF assms] by (simp add: distinct_map)
    ultimately show ?thesis using k by (metis inj_onD)
  qed
  then show ?thesis
    using all_torrents_hashes(3) [OF assms] new_tasks_distinct(1) [OF assms] by (simp add: latest_ok_def comp_def)
qed

lemma version11_foreign_keys:
  assumes "group_order order" and "old_ok d"
  shows "foreign_keys (version11 (version10 order d))"
proof -
  let ?e = "version10 order d" and ?as = "all_artifacts (version10 order d)"
  note fk = migrate9_succeeds(2) [OF assms]
  have ids: "tr_id ` set (map torrent_row.truncate ts) = tr_id ` set ts" for ts :: "torrent10 list" by (simp add: image_image)
  have keys: "tk_id ` set (map task_row.truncate ks) = tk_id ` set ks" for ks :: "task10 list" by (simp add: image_image)
  have as: "list_all (\<lambda>a. ar_torrent_id a \<in> tr_id ` set (d10_torrents ?e) \<and>
      (case ar_task_id a of None \<Rightarrow> True | Some i \<Rightarrow> i \<in> tk_id ` set (d10_tasks ?e))) ?as"
    using artifacts_refer [of _ ?e] unfolding list_all_iff by blast
  have ls: "list_all (\<lambda>l. case lo_artifact_id l of None \<Rightarrow> True | Some i \<Rightarrow> i \<in> ar_id ` set ?as)
      (map (location_11 ?as) (d10_locations ?e))"
    using artifact_of_location_in [of ?as] by (auto simp only: list_all_iff set_map location_11_fields split: option.splits)
  have ks: "list_all (\<lambda>k. tk_torrent_id k \<in> tr_id ` set (d10_torrents ?e)) (map task_row.truncate (d10_tasks ?e))"
    using fk by (simp add: foreign_keys10_def list_all_iff)
  have fs: "files_refer (tr_id ` set (d10_torrents ?e)) (d10_contents ?e) (d10_torrent_files ?e) (map (location_11 ?as) (d10_locations ?e))"
    using fk unfolding files_refer_11 foreign_keys10_def by blast
  show ?thesis
    unfolding foreign_keys_def Let_def version11_fields ids keys using as ls ks fs by simp
qed

lemma distinct_map_cong:
  assumes "\<And>x y. x \<in> set xs \<Longrightarrow> y \<in> set xs \<Longrightarrow> f x = f y \<longleftrightarrow> g x = g y"
  shows "distinct (map f xs) = distinct (map g xs)"
  using assms by (auto simp: distinct_map inj_on_def)

lemma version11_active:
  assumes "group_order order" and "old_ok d"
  shows "active_unique (tasks (version11 (version10 order d))) \<longleftrightarrow> \<not> unfinished_twice d"
proof -
  let ?ps = "old_pairs order d" and ?open = "\<lambda>s. s \<in> {Queued, Running}"
  let ?here = "filter (\<lambda>p. ?open (o_state (fst p))) ?ps"
  let ?slots = "map (\<lambda>k. (tk_state k, tk_source k, tk_torrent_id k)) (new_tasks order d)"
  have inj: "inj_on tr_id (set (all_torrents order d))" "inj_on tr_info_hash (set (all_torrents order d))"
    using all_torrents_hashes(1,3) [OF assms] by (simp_all add: distinct_map)
  have "active_unique (tasks (version11 (version10 order d))) = distinct (map snd (filter (\<lambda>x. ?open (fst x)) ?slots))"
    by (simp add: active_unique_def active_def filter_map comp_def)
  also have "?slots = map (\<lambda>p. (o_state (fst p), ''legacy'', tr_id (snd p))) ?ps" by (rule new_tasks_map) simp
  also have "map snd (filter (\<lambda>x. ?open (fst x)) \<dots>) = map (\<lambda>p. (''legacy'', tr_id (snd p))) ?here"
    by (simp add: filter_map comp_def)
  also have "distinct \<dots> = distinct (map (\<lambda>p. job_hash (fst p)) ?here)"
  proof (rule distinct_map_cong)
    fix p q
    assume "p \<in> set ?here" "q \<in> set ?here"
    then have "snd p \<in> set (all_torrents order d)" "tr_info_hash (snd p) = job_hash (fst p)"
      "snd q \<in> set (all_torrents order d)" "tr_info_hash (snd q) = job_hash (fst q)"
      using old_pairs_join(2) [OF assms] by auto
    with inj show "(''legacy'', tr_id (snd p)) = (''legacy'', tr_id (snd q)) \<longleftrightarrow> job_hash (fst p) = job_hash (fst q)"
      by (metis Pair_inject inj_onD)
  qed
  also have "map (\<lambda>p. job_hash (fst p)) ?here = map job_hash (filter (\<lambda>j. ?open (o_state j)) (map fst ?ps))"
    by (simp add: filter_map comp_def)
  also have "map fst ?ps = d9_jobs d" by (rule old_pairs_join(1) [OF assms])
  finally show ?thesis by (simp add: unfinished_twice_def)
qed

definition new_job_facts :: "db \<Rightarrow> task_row \<Rightarrow> string \<times> string option \<times> string \<times> string \<times> job_state \<times> string \<times> int \<times> int option \<times> int option" where
  "new_job_facts d k = (tk_gid k, map_option tr_info_hash (torrent_by_id d (tk_torrent_id k)), tk_source k, tk_magnet_uri k,
     tk_state k, tk_error k, tk_created_at k, tk_started_at k, tk_finished_at k)"

definition old_job_facts :: "job9 \<Rightarrow> string \<times> string option \<times> string \<times> string \<times> job_state \<times> string \<times> int \<times> int option \<times> int option" where
  "old_job_facts j = (o_gid j, Some (job_hash j), ''legacy'', o_magnet_uri j, o_state j, o_error j, o_created_at j, o_started_at j,
     o_finished_at j)"

lemma find_map_key:
  assumes "distinct (map f xs)" and "x \<in> set xs"
  shows "find (\<lambda>y. f y = f x) xs = Some x"
  using assms by (induction xs) (auto simp: image_iff)

lemma version11_facts:
  assumes "group_order order" and "old_ok d"
  shows "map (new_job_facts (version11 (version10 order d))) (tasks (version11 (version10 order d))) = map old_job_facts (d9_jobs d)"
proof -
  let ?D = "version11 (version10 order d)" and ?ts = "all_torrents order d"
  let ?row = "\<lambda>t. torrent_row.truncate (torrent_10 (new_tasks order d) t)"
  have rows: "torrents ?D = map ?row ?ts" by simp
  have "distinct (map tr_id (map ?row ?ts))" using all_torrents_hashes(3) [OF assms] by (simp add: comp_def)
  then have found: "torrent_by_id ?D (tr_id t) = Some (?row t)" if "t \<in> set ?ts" for t
    using find_map_key [of tr_id "map ?row ?ts" "?row t"] that unfolding torrent_by_id_def rows by simp
  let ?fact = "\<lambda>p. (o_gid (fst p), map_option tr_info_hash (torrent_by_id ?D (tr_id (snd p))), ''legacy'', o_magnet_uri (fst p),
    o_state (fst p), o_error (fst p), o_created_at (fst p), o_started_at (fst p), o_finished_at (fst p))"
  have "map (new_job_facts ?D) (tasks ?D) = map (\<lambda>k. new_job_facts ?D (task_row.truncate k)) (new_tasks order d)"
    by (simp only: version11_fields version10_fields map_map comp_def)
  also have "\<dots> = map ?fact (old_pairs order d)"
    by (rule new_tasks_map) (simp only: new_job_facts_def truncate_fields legacy_task_fields)
  also have "\<dots> = map (\<lambda>p. old_job_facts (fst p)) (old_pairs order d)"
    using old_pairs_join(2) [OF assms] found by (intro map_cong) (simp_all add: old_job_facts_def)
  also have "\<dots> = map old_job_facts (map fst (old_pairs order d))" by simp
  also have "map fst (old_pairs order d) = d9_jobs d" by (rule old_pairs_join(1) [OF assms])
  finally show ?thesis .
qed

lemma version11_jobs_ok:
  assumes "group_order order" and "old_ok d" and "\<not> unfinished_twice d"
  shows "jobs_ok (version11 (version10 order d))"
proof -
  note ts = all_torrents_hashes [OF assms(1,2)]
  have "torrents_ok (version11 (version10 order d))"
    using ts(1,3,5) by (auto simp: torrents_ok_def comp_def)
  moreover have "tasks_ok (version11 (version10 order d))"
    using new_tasks_distinct [OF assms(1,2)] new_tasks_refer(1) [OF assms(1,2)] version11_active [OF assms(1,2)] assms(3)
    by (auto simp: tasks_ok_def comp_def image_image)
  ultimately show ?thesis by (simp add: jobs_ok_def extensions_ok_def)
qed

lemma migrate10_outcome:
  assumes "group_order order" and "old_ok d"
  shows "migrate10 (version10 order d) =
    (if unfinished_twice d then Inl (Constraint ''tasks.source, tasks.torrent_id'') else Inr (version11 (version10 order d)))"
  using artifact_tasks_distinct [OF version10_latest [OF assms]] version11_active [OF assms] version11_foreign_keys [OF assms]
  unfolding migrate10_def Let_def by (simp only: version11_fields(7) if_True if_False not_True_eq_False not_False_eq_True split: if_split) simp


section \<open>Opening an older database\<close>

text \<open>C13. Opening a database of version 9 whose tables are in order keeps every job: it becomes a task with its gid, info hash,
  magnet link, state, error and times, under the source ''legacy'', the tables of the present schema are in order, and opening
  the database again changes nothing. Only where two unfinished jobs have one info hash the opening ends in an error: the
  step to version 11 fails at the index of active tasks, the database stays at version 10, and every later opening fails alike.
\<close>

theorem upgrade_keeps_jobs:
  assumes "group_order order" and "old_ok d"
  shows "if unfinished_twice d
    then \<exists>d'. initialize order (Db9 d) = (Some (Constraint ''tasks.source, tasks.torrent_id''), Db10 d') \<and>
      initialize order (Db10 d') = (Some (Constraint ''tasks.source, tasks.torrent_id''), Db10 d')
    else \<exists>d'. initialize order (Db9 d) = (None, Db11 d') \<and> initialize order (Db11 d') = (None, Db11 d') \<and> jobs_ok d' \<and>
      map (new_job_facts d') (tasks d') = map old_job_facts (d9_jobs d)"
proof (cases "unfinished_twice d")
  case True
  with migrate10_outcome [OF assms] migrate9_succeeds(1) [OF assms] show ?thesis by (simp add: initialize_def)
next
  case False
  with migrate10_outcome [OF assms] migrate9_succeeds(1) [OF assms] version11_jobs_ok [OF assms False] version11_facts [OF assms]
  show ?thesis by (simp add: initialize_def del: version11_fields version10_fields)
qed

definition old_job :: "string \<Rightarrow> string \<Rightarrow> job_state \<Rightarrow> job9" where
  "old_job g h s = \<lparr>o_gid = g, o_info_hash = h, o_magnet_uri = ''magnet:?xt=urn:btih:'' @ h, o_state = s, o_error = '''',
     o_created_at = 10, o_started_at = Some 20, o_finished_at = None, o_category = ''tv''\<rparr>"

definition old_sample :: "job_state \<Rightarrow> db9" where
  "old_sample s = \<lparr>d9_torrents = [],
     d9_jobs = [old_job ''a'' (replicate 40 CHR ''A'') s, old_job ''b'' (replicate 40 CHR ''a'') Queued],
     d9_categories = [(''tv'', ''/tv'')], d9_contents = [], d9_torrent_files = [], d9_locations = []\<rparr>"

lemma old_sample_ok: "group_order (\<lambda>hs. hs)" "old_ok (old_sample s)"
  by (simp_all add: group_order_def old_ok_def old_sample_def old_job_def files_refer_def)

lemma old_sample_unfinished: "\<not> unfinished_twice (old_sample Succeeded)" "unfinished_twice (old_sample Running)"
proof -
  have "to_lower (replicate 40 CHR ''A'') = to_lower (replicate 40 CHR ''a'')" by code_simp
  then show "\<not> unfinished_twice (old_sample Succeeded)" "unfinished_twice (old_sample Running)"
    by (simp_all add: unfinished_twice_def old_sample_def old_job_def job_hash_def)
qed

lemma upgrade_keeps_jobs_witness:
  "(\<exists>d'. initialize (\<lambda>hs. hs) (Db9 (old_sample Succeeded)) = (None, Db11 d') \<and> jobs_ok d' \<and>
      map (new_job_facts d') (tasks d') = map old_job_facts (d9_jobs (old_sample Succeeded))) \<and>
   (\<exists>e d'. initialize (\<lambda>hs. hs) (Db9 (old_sample Running)) = (Some e, Db10 d') \<and>
      initialize (\<lambda>hs. hs) (Db10 d') = (Some e, Db10 d'))"
  using upgrade_keeps_jobs [OF old_sample_ok, of Succeeded] upgrade_keeps_jobs [OF old_sample_ok, of Running]
  unfolding if_P [OF old_sample_unfinished(2)] if_not_P [OF old_sample_unfinished(1)] by blast

end
