(* ===== verification/Spec2Isabelle.thy ===== *)
theory Spec2Isabelle
  imports Library_Paths Job_Runner Offline_Facts Scan Scan_Facts Strm_Facts Publish_Facts Task_Facts Server_Facts Token_Facts Bencode_Facts
    Qbittorrent_Facts Aria2_Facts Api_Facts Cloud_Facts Rclone_Facts Config_Facts Browser_Facts Config_Api_Facts Bootstrap_Facts
    Command_Facts Migration_Facts
begin

text \<open>
  magnet-to-strm hands magnet links to the 115 cloud, which downloads them, and keeps a library of STRM files:
  small text files, each with the address of one video on this program. A media player opens the address, the
  program finds the video in the cloud by its SHA1 (downloading the torrent again when the cloud has lost it)
  and redirects the player to it.

  \<^bold>\<open>The parts and how they interact.\<close> A request to download becomes a job (\<open>internal/task/manager.go\<close>),
  stored in SQLite (\<open>internal/storage/sqlite\<close>) and put on a queue. A worker runs the jobs of the queue in
  batches: the ingest service (\<open>internal/ingest\<close>) creates the offline tasks in the cloud, waits for each (one
  shared view polls the cloud for all waiting jobs), scans the files of a finished task, stores the scan and
  writes the STRM files (\<open>internal/strm\<close>). The HTTP server (\<open>internal/transport/httpserver\<close>) answers the
  address of a STRM file through the materializer (\<open>internal/materialize\<close>), which looks for a copy of the
  content, restores one through a new job when none is left (\<open>internal/bootstrap/app.go\<close>), and redirects to
  the cloud's own address or to an object of the WebDAV tree (\<open>internal/transport/webdav\<close>), which streams it.
  A cleanup keeps the work directory of the cloud small.

  Around this core, requests come in through four APIs: a JSON API for the web page (\<open>httpserver/api.go\<close>), the
  qBittorrent and aria2 APIs (\<open>transport/qbittorrent\<close>, \<open>transport/aria2\<close>), which other programs know, and the
  configuration page (\<open>httpserver/config.go\<close>, \<open>filesystem.go\<close>). The client of the cloud (\<open>provider/p115\<close>) keeps its
  tokens in the database, shared with other processes under a lease. The command line (\<open>cmd/magnet-to-strm\<close>) adds a
  single link, or starts the server from its flags, the environment and the configuration file (\<open>internal/config\<close>),
  first for the setup if the file is new; \<open>internal/bootstrap\<close> connects the parts. For playback an rclone process
  (\<open>internal/rclone\<close>) can stand in front of the WebDAV tree.

  \<^bold>\<open>Which theory models what.\<close>

  \<^item> \<open>Prelude\<close>: the errors of the program (\<open>err\<close>, with \<open>errors.Is\<close>), results \<open>err + 'a\<close>, and the
    operations \<open>('w, 'a) io\<close> that pass a world \<open>'w\<close> on, also when they fail. \<open>keeps P m\<close> says that \<open>m\<close>
    keeps \<open>P\<close> of the world on every path.
  \<^item> \<open>Go_Strings\<close>, \<open>Go_Encoding\<close>, \<open>Go_Url\<close>, \<open>Go_Values\<close>, \<open>Go_Numbers\<close>, \<open>Go_Floats\<close>, \<open>Go_Times\<close>, \<open>Go_Paths\<close>,
    \<open>Go_Hash\<close>: what the program uses of Go's standard library (\<open>strings\<close>, \<open>path\<close>, \<open>encoding/hex\<close>, \<open>base32\<close>,
    \<open>net/url\<close>, \<open>strconv\<close> with the rounding of \<open>float64\<close>, \<open>time.ParseDuration\<close>, \<open>net.SplitHostPort\<close>, SHA-1 and
    SHA-256), with the round trips of the codings. \<open>Json\<close>: JSON values.
  \<^item> \<open>Magnet\<close> (\<open>ingest/magnet.go\<close>), \<open>Ingest_Model\<close> (\<open>ingest/model.go\<close> and the constructors of jobs),
    \<open>Library_Paths\<close> (the path helpers of \<open>ingest/service.go\<close>).
  \<^item> \<open>Store\<close>: the schema of \<open>sqlite/db.go\<close>, a record per row and a field of \<open>db\<close> per table. \<open>Job_Store\<close>,
    \<open>Scan_Store\<close> (\<open>sqlite/ingest.go\<close>) and \<open>Materialize_Store\<close> (\<open>sqlite/materialize.go\<close>): one definition per
    method; \<open>tx\<close> rolls a failed transaction back.
  \<^item> \<open>Job_Runner\<close>: \<open>RunJob\<close> and \<open>RunJobWithResolver\<close>. \<open>Service_World\<close>: the world of the ingest service
    (cloud, clock, events, context, view of the offline tasks, database, library). \<open>Offline_Tasks\<close>
    (\<open>ingest/offline_tasks.go\<close>), \<open>Scan\<close> (\<open>scanResult\<close>, \<open>scanFolder\<close>, the pacer), \<open>Strm_Store\<close>
    (\<open>strm/service.go\<close>), \<open>Ingest_Service\<close> (the operations of \<open>ingest/service.go\<close>).
  \<^item> \<open>Task_Manager\<close> (\<open>task/manager.go\<close>): every request and the turn of the worker.
  \<^item> \<open>Materialize\<close> (\<open>materialize/service.go\<close>, and the restorer of \<open>bootstrap/app.go\<close>), \<open>Webdav\<close>
    (\<open>webdav/handler.go\<close>), \<open>Http_Server\<close> (\<open>httpserver/server.go\<close>).

  \<^item> \<open>Credential_Store\<close> (\<open>sqlite/credentials.go\<close>), \<open>Token_Client\<close> (\<open>p115/token.go\<close>) and \<open>Cloud_Client\<close>
    (\<open>p115/client.go\<close>): the tokens, the lease under which they are exchanged, and every request to the cloud. The
    package that speaks to the cloud is a parameter (\<open>sdk_api\<close>, \<open>sdk_cloud\<close>); \<open>client_provider\<close> makes the client the cloud
    of the ingest service.
  \<^item> \<open>Bencode\<close> (\<open>qbittorrent/metainfo.go\<close>), \<open>Qbittorrent\<close> and \<open>Aria2\<close> (handler and controller of each), \<open>Api\<close>
    (\<open>httpserver/api.go\<close>): each request from its parsed form to its answer.
  \<^item> \<open>Rclone_Options\<close> (\<open>config/rclone.go\<close>, \<open>parseByteSize\<close>, \<open>internal/rclone\<close>), \<open>Config\<close> (\<open>config/config.go\<close>,
    \<open>dotenv.go\<close>, \<open>file.go\<close>; the TOML package is the parameter \<open>toml\<close>), \<open>Path_Browser\<close> (\<open>httpserver/filesystem.go\<close>, over
    a file system with symbolic links), \<open>Config_Api\<close> (\<open>httpserver/config.go\<close>), \<open>Bootstrap\<close> (\<open>bootstrap/app.go\<close>),
    \<open>Command_Line\<close> (\<open>cmd/magnet-to-strm/main.go\<close>), \<open>Migrations\<close> (\<open>storage/sqlite/migrations.go\<close>, and the opening of a
    database in \<open>db.go\<close>).

  \<^bold>\<open>What the lemmas show.\<close>

  \<^item> \<open>Job_Store_Facts\<close>, \<open>Job_Life\<close>: the tables keep their keys and references, and the store refines a
    state machine per job (\<open>moves\<close>), whatever operations run in whatever order; a canceled job stays
    canceled. \<open>Scan_Facts\<close>: a saved scan is read back as it was, and saving it changes no job.
  \<^item> \<open>Offline_Facts\<close>, \<open>Scan\<close>: polling stays in its bounds and ends, a waiter gets its task, a scan returns the
    files of the folder tree. \<open>Strm_Facts\<close>, \<open>Publish_Facts\<close>: only files of this program are ever overwritten,
    and a rebuild restores the whole directory of a torrent.
  \<^item> \<open>Ingest_Facts\<close>: whatever the cloud answers, a job that is run reaches a final state, and files outside
    the work directory are not deleted. \<open>Task_Facts\<close>: the queue and its marks agree, an accepted job is run,
    a restart queues every unfinished job.
  \<^item> \<open>Materialize_Facts\<close>, \<open>Materialize_Cache\<close>, \<open>Restore_Facts\<close>: the cleanup stays in the work directory and
    evicts what was used least recently; cache and flights hold the content they are asked for, also
    while restores run the ingest service. \<open>Server_Facts\<close>: the address in a STRM file leads to the object with
    the same SHA1, and the DAV tree holds every content.
  \<^item> \<open>Token_Facts\<close>, \<open>Cloud_Facts\<close>: a lease has one owner, a request goes out with a fresh token and a slot and gives the
    slot back, a refused batch fails as a whole.
  \<^item> \<open>Bencode_Facts\<close>, \<open>Submit_Facts\<close>, \<open>Qbittorrent_Facts\<close>, \<open>Aria2_Facts\<close>, \<open>Api_Facts\<close>: a torrent file is read to its end
    and its magnet link names it, what is added has a job, requests without credentials and requests that only read
    change nothing.
  \<^item> \<open>Rclone_Facts\<close>, \<open>Config_Facts\<close>, \<open>Browser_Facts\<close>, \<open>Config_Api_Facts\<close>, \<open>Bootstrap_Facts\<close>, \<open>Command_Facts\<close>: sizes are
    read exactly, a saved configuration is one the server starts with, the configuration page changes only what it
    may, paths stay in the allowed directories, tokens are moved and not lost, the setup ends in a server that
    starts, and a link that is added leaves nothing running. \<open>Migration_Facts\<close>: a database of an older version keeps
    every job when it is opened, unless two unfinished jobs of one info hash stop the last step.

  \<^bold>\<open>Interfaces.\<close> \<open>keyed_table\<close> (in \<open>Store\<close>) is the contract of \<open>INSERT ... ON CONFLICT DO UPDATE\<close>; every table
  that is written that way interprets it. \<open>job_writer\<close> (in \<open>Job_Runner\<close>) is what running a job relies on of
  \<open>UpdateJob\<close>; the job store and the world of the service interpret it. \<open>lease_lock\<close> is what the token client relies
  on of the lease; the credential store interprets it. The cloud is a parameter: a record
  of functions over a state of its own; what a theorem assumes of it is a named hypothesis
  (\<open>serves\<close>, \<open>careful_cloud\<close> and others), which the witnesses meet with a concrete cloud.

  \<^bold>\<open>Time, concurrency, bounds.\<close> Each definition is one step between two points where the code gives up a lock or
  waits. What other goroutines do meanwhile is explicit: an event of the world while a job waits, or an
  operation of its own in a sequence (\<open>job_op\<close>, \<open>m_op\<close>, \<open>mat_op\<close>) over which the invariants are proved.
  The clock is the list of pauses between its readings. Loops that follow the answers of the cloud have
  fuel and fail with \<open>OutOfFuel\<close>: \<open>scan_returns_tree\<close> and \<open>fetch_pages_end\<close> say how much
  is enough (the cost of the tree, the number of pages), and \<open>wait_for_task_ends\<close> that waiting uses no more
  turns than there are events. The decoder of torrent files has two calls per byte and two more
  (\<open>decoding_ends_inside_data\<close>), nested calls of aria2 one more than their depth, and the search for a task to delete one
  per page. Sizes and times are \<open>int64\<close> values held in \<open>int\<close>; the one sum the code forms wraps.

  \<^bold>\<open>Not modelled.\<close> Failures of SQLite and of the file system other than the constraints of the schema, the kinds
  of files, and the writes of the configuration; letters beyond ASCII in case mapping. Output: log lines, the text
  the commands print, the embedded web pages. The parsing of command line flags and of HTTP and JSON syntax, which
  the standard library does; the HTTP server object and the reverse proxy; signals to the rclone process.
  The migration from version 3 of the schema, which no database can reach, since versions below 8 are refused.
\<close>

end
